(* ===== verification/Prelude.thy ===== *)
theory Prelude
  imports Main "HOL-Library.Word" "HOL-Library.Multiset"
begin

text \<open>
  Shared ground of the development: the machine-integer types of the sources, the
  collections of simplification rules the components extend, arithmetic of machine words
  that does not wrap, decimal printing and parsing of unsigned integers
  (\<open>std::format\<close>, \<open>std::to_string\<close> and \<open>std::from_chars\<close>), and the interfaces that
  several components implement: a projection of a record stream that counts while it
  emits, a first-in first-out queue, and the unstable sort of the C++ library.
\<close>

unbundle bit_operations_syntax

section \<open>Types of the sources\<close>

type_synonym u8 = "8 word"
type_synonym u16 = "16 word"
type_synonym u32 = "32 word"
type_synonym u64 = "64 word"
type_synonym s32 = "32 word"
type_synonym s64 = "64 word"
type_synonym byte = "8 word"

named_theorems trace_simps \<open>equations of the trace pipeline\<close>
named_theorems device_simps \<open>equations of the device and peripheral components\<close>
named_theorems wire_simps \<open>equations of the wire protocol components\<close>

section \<open>Machine words that do not wrap\<close>

lemma unat_plus_no_wrap:
  fixes a b :: "'a::len word"
  assumes "unat a + unat b < 2 ^ LENGTH('a)"
  shows "unat (a + b) = unat a + unat b"
  using assms by (simp add: unat_word_ariths)

lemma unat_ucast_widen:
  fixes x :: "'a::len word"
  assumes "LENGTH('a) \<le> LENGTH('b::len)"
  shows "unat (ucast x :: 'b word) = unat x"
proof -
  have "unat x < 2 ^ LENGTH('a)" by (rule unsigned_less)
  also have "\<dots> \<le> (2::nat) ^ LENGTH('b)" using assms by simp
  finally show ?thesis by (simp add: unsigned_ucast_eq take_bit_nat_eq_self)
qed

lemma unat_ucast_u8_u64 [simp]: "unat (ucast (x :: u8) :: u64) = unat x"
  by (rule unat_ucast_widen) simp

lemma unat_ucast_u32_u64 [simp]: "unat (ucast (x :: u32) :: u64) = unat x"
  by (rule unat_ucast_widen) simp

lemma unat_ucast_u8_u32 [simp]: "unat (ucast (x :: u8) :: u32) = unat x"
  by (rule unat_ucast_widen) simp

lemma unat_minus_one_pos:
  fixes x :: "'a::len word"
  assumes "x \<noteq> 0"
  shows "unat (x - 1) = unat x - 1"
  using assms by (rule unat_minus_one)

lemma unat_u8_bound: "unat (x :: u8) < 256"
  using unsigned_less [of x, where ?'a = nat] by simp

lemma bit_u32_exp: "n < 32 \<Longrightarrow> bit (2 ^ n :: u32) i \<longleftrightarrow> i = n"
  by (auto simp: bit_simps)

lemma bit_u32_lt: "bit (w :: u32) j \<Longrightarrow> j < 32"
  using bit_imp_le_length [of w j] by simp

lemma u64_sum_list_unat:
  fixes ws :: "u64 list"
  assumes "(\<Sum>w\<leftarrow>ws. unat w) < 2 ^ 64"
  shows "unat (sum_list ws) = (\<Sum>w\<leftarrow>ws. unat w)"
  using assms by (induction ws) (simp_all add: unat_plus_no_wrap)

section \<open>Lists and options\<close>

lemma foldl_snoc_map: "foldl (\<lambda>acc x. acc @ [f x]) ys xs = ys @ map f xs"
  by (induction xs arbitrary: ys) simp_all

lemma find_Some_in: "List.find P xs = Some x \<Longrightarrow> x \<in> set xs \<and> P x"
  by (auto simp: find_Some_iff)

lemma map_filter_append: "List.map_filter f (xs @ ys) = List.map_filter f xs @ List.map_filter f ys"
  by (simp add: List.map_filter_def)

lemma successively_snoc_bool: "successively (\<noteq>) (xs @ [b]) \<longleftrightarrow> successively (\<noteq>) xs \<and> (xs = [] \<or> last xs \<noteq> b)"
  by (cases xs rule: rev_cases) (auto simp: successively_append_iff)

lemma last_append_nonempty [simp]: "ys \<noteq> [] \<Longrightarrow> last (xs @ ys) = last ys"
  by simp

lemma butlast_snoc_last: "xs \<noteq> [] \<Longrightarrow> xs = butlast xs @ [last xs]"
  by simp

section \<open>Decimal numerals\<close>

text \<open>The decimal digits of a number, most significant first, as the library prints an
  unsigned integer, and the reading of a string of digits.\<close>

definition digit_char :: "nat \<Rightarrow> char" where
  "digit_char d = char_of (48 + d)"

definition is_digit :: "char \<Rightarrow> bool" where
  "is_digit c \<longleftrightarrow> 48 \<le> (of_char c :: nat) \<and> (of_char c :: nat) \<le> 57"

definition digit_val :: "char \<Rightarrow> nat" where
  "digit_val c = of_char c - 48"

fun dec_string :: "nat \<Rightarrow> string" where
  "dec_string n = (if n < 10 then [digit_char n] else dec_string (n div 10) @ [digit_char (n mod 10)])"

declare dec_string.simps [simp del]

definition dec_value :: "string \<Rightarrow> nat" where
  "dec_value s = foldl (\<lambda>v c. 10 * v + digit_val c) 0 s"

lemma is_digit_digit_char [simp]: "d < 10 \<Longrightarrow> is_digit (digit_char d)"
  by (simp add: is_digit_def digit_char_def)

lemma digit_val_digit_char [simp]: "d < 10 \<Longrightarrow> digit_val (digit_char d) = d"
  by (simp add: digit_val_def digit_char_def)

lemma dec_string_not_Nil [simp]: "dec_string n \<noteq> []"
  by (subst dec_string.simps) simp

lemma dec_string_digits: "c \<in> set (dec_string n) \<Longrightarrow> is_digit c"
proof (induction n rule: dec_string.induct)
  case (1 n)
  show ?case
  proof (cases "n < 10")
    case True
    with "1.prems" show ?thesis by (simp add: dec_string.simps [of n])
  next
    case False
    with "1.prems" have "c \<in> set (dec_string (n div 10)) \<or> c = digit_char (n mod 10)"
      by (auto simp: dec_string.simps [of n])
    with "1.IH" [OF False] show ?thesis by auto
  qed
qed

lemma dec_value_dec_string [simp]: "dec_value (dec_string n) = n"
proof (induction n rule: dec_string.induct)
  case (1 n)
  show ?case
  proof (cases "n < 10")
    case True
    then show ?thesis by (simp add: dec_string.simps [of n] dec_value_def)
  next
    case False
    with "1.IH" have "foldl (\<lambda>v c. 10 * v + digit_val c) 0 (dec_string (n div 10)) = n div 10"
      by (simp add: dec_value_def)
    with False show ?thesis by (simp add: dec_string.simps [of n] dec_value_def)
  qed
qed

section \<open>A projection that counts while it emits\<close>

text \<open>
  Two of the projections of a trace-record stream walk the records once, keep a running
  count and stamp each emitted element with the count reached so far.  Their common laws:
  the walk splits at any point of the stream, and starting the count at \<open>k\<close> only shifts
  every stamp by \<open>k\<close>.
\<close>

locale counting_projection =
  fixes weight :: "'r \<Rightarrow> u64"
    and emit :: "u64 \<Rightarrow> 'r \<Rightarrow> 'e list"
    and shift :: "u64 \<Rightarrow> 'e \<Rightarrow> 'e"
    and run :: "u64 \<Rightarrow> 'e list \<Rightarrow> 'r list \<Rightarrow> 'e list"
  assumes run_Nil: "run n acc [] = acc"
    and run_Cons: "run n acc (r # rs) = run (n + weight r) (acc @ emit n r) rs"
    and emit_shift: "emit (k + n) r = map (shift k) (emit n r)"
begin

lemma run_acc: "run n acc rs = acc @ run n [] rs"
proof (induction rs arbitrary: n acc)
  case Nil
  then show ?case by (simp add: run_Nil)
next
  case (Cons r rs)
  show ?case
    by (simp add: run_Cons Cons.IH [of _ "acc @ emit n r"] Cons.IH [of _ "emit n r"])
qed

lemma run_append:
  "run n [] (rs @ ss) = run n [] rs @ run (n + sum_list (map weight rs)) [] ss"
proof (induction rs arbitrary: n)
  case Nil
  then show ?case by (simp add: run_Nil)
next
  case (Cons r rs)
  show ?case
    by (simp add: run_Cons run_acc [of _ "emit n r"] Cons.IH add.assoc)
qed

lemma run_shift: "run (k + n) [] rs = map (shift k) (run n [] rs)"
proof (induction rs arbitrary: n)
  case Nil
  then show ?case by (simp add: run_Nil)
next
  case (Cons r rs)
  show ?case
    by (simp add: run_Cons run_acc [of _ "emit n r"] run_acc [of _ "map (shift k) (emit n r)"]
        emit_shift Cons.IH add.assoc)
qed

lemma run_split:
  "run 0 [] (rs @ r # ss) = run 0 [] rs @
     map (shift (sum_list (map weight rs))) (run 0 [] [r]) @
     map (shift (sum_list (map weight rs) + weight r)) (run 0 [] ss)"
proof -
  let ?n = "sum_list (map weight rs)"
  have "run 0 [] (rs @ [r] @ ss) = run 0 [] rs @ run ?n [] [r] @ run (?n + weight r) [] ss"
    by (simp only: run_append) simp
  moreover have "run ?n [] [r] = map (shift ?n) (run 0 [] [r])"
    using run_shift [of ?n 0 "[r]"] by simp
  moreover have "run (?n + weight r) [] ss = map (shift (?n + weight r)) (run 0 [] ss)"
    using run_shift [of "?n + weight r" 0 ss] by simp
  ultimately show ?thesis by simp
qed

end

section \<open>First-in first-out queues\<close>

text \<open>
  The engine hands work between threads through queues guarded by a mutex: requests
  from the reader to the dispatcher, trace captures from the OpenOCD thread to the decode
  worker, tasks from any thread to the OpenOCD thread.  What their clients rely on is
  order: what is taken, followed by what is still queued, is what was put.
\<close>

locale fifo =
  fixes put :: "'a \<Rightarrow> 's \<Rightarrow> 's"
    and take_front :: "'s \<Rightarrow> ('a \<times> 's) option"
    and items :: "'s \<Rightarrow> 'a list"
  assumes items_put: "items (put x s) = items s @ [x]"
    and take_None: "take_front s = None \<longleftrightarrow> items s = []"
    and take_Some: "take_front s = Some (x, t) \<Longrightarrow> items s = x # items t"
begin

lemma items_put_all: "items (fold put xs s) = items s @ xs"
  by (induction xs arbitrary: s) (simp_all add: items_put)

lemma take_front_ex: "items s \<noteq> [] \<Longrightarrow> \<exists>t. take_front s = Some (hd (items s), t) \<and> items t = tl (items s)"
  using take_None [of s] take_Some [of s] by (cases "take_front s") auto

end

section \<open>The unstable library sort\<close>

text \<open>
  \<open>std::sort\<close> orders by a key and keeps every element; the order of elements with equal
  keys is unspecified, so the sort is a parameter of the definitions that use it.
\<close>

locale std_sort =
  fixes srt :: "('a \<Rightarrow> 'k::linorder) \<Rightarrow> 'a list \<Rightarrow> 'a list"
  assumes srt_mset: "mset (srt key xs) = mset xs"
    and srt_sorted: "sorted (map key (srt key xs))"
begin

lemma srt_set [simp]: "set (srt key xs) = set xs"
  using srt_mset by (metis set_mset_mset)

lemma srt_length [simp]: "length (srt key xs) = length xs"
  using srt_mset by (metis size_mset)

lemma srt_Nil [simp]: "srt key [] = []"
  using srt_length [of key "[]"] by (simp only: list.size length_0_conv)

lemma srt_filter_mset: "mset (filter P (srt key xs)) = mset (filter P xs)"
  by (simp add: srt_mset)

end

interpretation key_sort: std_sort sort_key
  by unfold_locales simp_all

end
