(* ===== verification/Trace_Model.thy ===== *)
theory Trace_Model
  imports Prelude
begin

text \<open>
  The value types of the trace pipeline: \<open>trace_model\<close> (decoded and reconstructed
  instructions, source locations, line and function blocks, gaps, exception events, the
  decode configuration) and the record the sink keeps (\<open>trace_sink/trace_record.hpp\<close>).
  Enumerations of OpenCSD have one constructor per enumerator the sources name and one
  more, carrying the numeric value, for all the others.
\<close>

section \<open>Instructions and source locations\<close>

datatype InstructionSet = kArm | kThumb | kUnknown

record DecodedInstruction =
  di_address :: u64
  di_size :: u8
  di_isa :: InstructionSet
  di_bytes :: string
  di_mnemonic :: string
  di_operands :: string
  di_text :: string
  is_branch :: bool
  is_call :: bool
  is_return :: bool
  is_indirect :: bool
  is_conditional :: bool
  branch_target :: "u64 option"

record InlineFrame =
  if_function :: string
  if_file :: string
  if_line :: u32
  if_column :: u32

record SourceLocation =
  sl_frames :: "InlineFrame list"

record InstructionInfo =
  ii_insn :: DecodedInstruction
  ii_location :: SourceLocation

record ReconstructedInstruction =
  ri_insn :: DecodedInstruction
  ri_trace_index :: u64
  ri_trace_id :: u8
  ri_executed :: bool

section \<open>Blocks, gaps and exception events\<close>

record LineBlock =
  lb_location :: SourceLocation
  lb_start_addr :: u64
  lb_end_addr :: u64
  lb_instr_count :: u32
  lb_trace_index :: u64
  lb_trace_id :: u8

record FunctionBlock =
  fb_function_name :: string
  fb_entry_addr :: u64
  fb_line_blocks :: "LineBlock list"

datatype GapReason = kCaptureBoundary | kGapTraceOn | kOverflow | kGapNoSync

record TraceGap =
  tg_instruction_index :: u64
  tg_reason :: GapReason

record ExceptionEvent =
  ee_instruction_index :: u64
  ee_exception_number :: u32
  ee_is_return :: bool

record LoadSegment =
  ls_vaddr :: u64
  ls_file_offset :: u64
  ls_size :: u64

section \<open>The decode configuration\<close>

datatype TraceSourceFormat = kFrameFormatted | kSingle

datatype FrameSyncMode = kMemAligned | kFsync | kHsync

record DeformatterConfig =
  dc_source_format :: TraceSourceFormat
  dc_frame_sync :: FrameSyncMode
  dc_reset_on_4x_fsync :: bool

record Etmv4Registers =
  er_trcconfigr :: u32
  er_trctraceidr :: u32
  er_trcidr0 :: u32
  er_trcidr1 :: u32
  er_trcidr2 :: u32
  er_trcidr8 :: u32
  er_trcidr9 :: u32
  er_trcidr10 :: u32
  er_trcidr11 :: u32
  er_trcidr12 :: u32
  er_trcidr13 :: u32
  er_trcidr3 :: u32
  er_trcidr4 :: u32
  er_trcidr5 :: u32
  er_trcidr6 :: u32
  er_trcidr7 :: u32
  er_trcauthstatus :: u32

record InstructionTraceDecodeConfig =
  program_path :: string
  core_name :: string
  deformatter :: DeformatterConfig
  registers :: Etmv4Registers
  trace_data :: "u8 list"

section \<open>The retained trace record\<close>

datatype ocsd_isa = ocsd_isa_arm | ocsd_isa_thumb2 | ocsd_isa_other nat

datatype trace_on_reason_t = TRACE_ON_OVERFLOW | trace_on_other nat

datatype unsync_info_t = UNSYNC_OVERFLOW | unsync_other nat

datatype TraceRecordKind = kInstructionRange | kException | kExceptionReturn | kTraceOn | kNoSync

record TraceRecord =
  tr_index_sop :: u64
  tr_trace_id :: u8
  tr_kind :: TraceRecordKind
  tr_isa :: ocsd_isa
  tr_start_addr :: u64
  tr_end_addr :: u64
  tr_has_end_addr :: bool
  tr_num_instr :: u32
  tr_last_instr_type :: u32
  tr_last_instr_subtype :: u32
  tr_last_instr_executed :: bool
  tr_exception_number :: u32
  tr_trace_on_reason :: trace_on_reason_t
  tr_no_sync_reason :: unsync_info_t
  tr_cycle_count :: "u32 option"
  tr_timestamp :: "u64 option"
  tr_timestamp_cycle_count :: "u32 option"

end
