(* ===== verification/Trace_Sink.thy ===== *)
theory Trace_Sink
  imports Trace_Model
begin

text \<open>
  \<open>trace_sink\<close>: the object attached to the decode tree that keeps instruction ranges,
  exceptions, exception returns, trace-on and no-sync elements as records, attaches cycle
  counts and timestamps to records already kept, and counts what it drops.  Indexing the
  record vector out of range is undefined behaviour in the source and an error here.
\<close>

section \<open>The OpenCSD element\<close>

datatype ocsd_gen_trc_elem_t =
    OCSD_GEN_TRC_ELEM_CYCLE_COUNT
  | OCSD_GEN_TRC_ELEM_TIMESTAMP
  | OCSD_GEN_TRC_ELEM_SYNC_MARKER
  | OCSD_GEN_TRC_ELEM_INSTR_RANGE
  | OCSD_GEN_TRC_ELEM_EXCEPTION
  | OCSD_GEN_TRC_ELEM_EXCEPTION_RET
  | OCSD_GEN_TRC_ELEM_TRACE_ON
  | OCSD_GEN_TRC_ELEM_NO_SYNC
  | ocsd_gen_trc_elem_other nat

datatype trace_sync_marker_t = ELEM_MARKER_TS | elem_marker_other nat

datatype ocsd_datapath_resp_t = OCSD_RESP_CONT | ocsd_resp_other nat

record OcsdTraceElement =
  el_type :: ocsd_gen_trc_elem_t
  el_isa :: ocsd_isa
  el_st_addr :: u64
  el_en_addr :: u64
  el_num_instr_range :: u32
  el_last_i_type :: u32
  el_last_i_subtype :: u32
  el_last_instr_exec :: u32
  el_excep_ret_addr :: u32
  el_exception_number :: u32
  el_trace_on_reason :: trace_on_reason_t
  el_unsync_eot_info :: unsync_info_t
  el_sync_marker_type :: trace_sync_marker_t
  el_cycle_count :: u32
  el_timestamp :: u64
  el_has_cc :: bool
  el_has_ts :: bool

text \<open>\<open>TraceRecord record{}\<close> sets enumeration fields to the value 0; which enumerator of
  OpenCSD that is, is a parameter.\<close>

record ocsd_zero =
  z_isa :: ocsd_isa
  z_trace_on :: trace_on_reason_t
  z_unsync :: unsync_info_t

section \<open>Building records\<close>

definition zero_record :: "ocsd_zero \<Rightarrow> TraceRecord" where
  "zero_record z =
     \<lparr>tr_index_sop = 0, tr_trace_id = 0, tr_kind = kInstructionRange, tr_isa = z_isa z,
      tr_start_addr = 0, tr_end_addr = 0, tr_has_end_addr = False, tr_num_instr = 0,
      tr_last_instr_type = 0, tr_last_instr_subtype = 0, tr_last_instr_executed = False,
      tr_exception_number = 0, tr_trace_on_reason = z_trace_on z, tr_no_sync_reason = z_unsync z,
      tr_cycle_count = None, tr_timestamp = None, tr_timestamp_cycle_count = None\<rparr>"

definition MakeInstructionRange :: "ocsd_zero \<Rightarrow> OcsdTraceElement \<Rightarrow> TraceRecord" where
  "MakeInstructionRange z elem =
     (zero_record z)\<lparr>tr_kind := kInstructionRange, tr_isa := el_isa elem,
       tr_start_addr := el_st_addr elem, tr_end_addr := el_en_addr elem, tr_has_end_addr := True,
       tr_num_instr := el_num_instr_range elem, tr_last_instr_type := el_last_i_type elem,
       tr_last_instr_subtype := el_last_i_subtype elem,
       tr_last_instr_executed := (el_last_instr_exec elem \<noteq> 0)\<rparr>"

definition MakeException :: "ocsd_zero \<Rightarrow> OcsdTraceElement \<Rightarrow> TraceRecord" where
  "MakeException z elem =
     (zero_record z)\<lparr>tr_kind := kException, tr_isa := el_isa elem,
       tr_start_addr := el_st_addr elem, tr_end_addr := el_en_addr elem,
       tr_has_end_addr := (el_excep_ret_addr elem \<noteq> 0),
       tr_exception_number := el_exception_number elem\<rparr>"

definition MakeExceptionReturn :: "ocsd_zero \<Rightarrow> OcsdTraceElement \<Rightarrow> TraceRecord" where
  "MakeExceptionReturn z elem =
     (zero_record z)\<lparr>tr_kind := kExceptionReturn, tr_isa := el_isa elem,
       tr_start_addr := el_st_addr elem, tr_has_end_addr := False\<rparr>"

definition MakeTraceOn :: "ocsd_zero \<Rightarrow> OcsdTraceElement \<Rightarrow> TraceRecord" where
  "MakeTraceOn z elem =
     (zero_record z)\<lparr>tr_kind := kTraceOn, tr_trace_on_reason := el_trace_on_reason elem\<rparr>"

definition MakeNoSync :: "ocsd_zero \<Rightarrow> OcsdTraceElement \<Rightarrow> TraceRecord" where
  "MakeNoSync z elem =
     (zero_record z)\<lparr>tr_kind := kNoSync, tr_no_sync_reason := el_unsync_eot_info elem\<rparr>"

definition IsTimestampAnchor :: "TraceRecordKind \<Rightarrow> bool" where
  "IsTimestampAnchor kind \<longleftrightarrow>
     kind = kInstructionRange \<or> kind = kException \<or> kind = kExceptionReturn"

section \<open>The sink\<close>

record TraceRecordSink =
  sink_records :: "TraceRecord list"
  dropped_elements :: "ocsd_gen_trc_elem_t \<rightharpoonup> u64"
  last_anchor_index :: "nat option"
  pending_ts_marker_index :: "nat option"

datatype sink_error = RecordIndexOutOfRange nat

definition new_sink :: TraceRecordSink where
  "new_sink = \<lparr>sink_records = [], dropped_elements = Map.empty,
     last_anchor_index = None, pending_ts_marker_index = None\<rparr>"

definition count_dropped :: "ocsd_gen_trc_elem_t \<Rightarrow> TraceRecordSink \<Rightarrow> TraceRecordSink" where
  "count_dropped t s =
     s\<lparr>dropped_elements := (dropped_elements s)
        (t \<mapsto> (case dropped_elements s t of None \<Rightarrow> 0 | Some n \<Rightarrow> n) + 1)\<rparr>"

definition update_record ::
  "nat \<Rightarrow> (TraceRecord \<Rightarrow> TraceRecord) \<Rightarrow> TraceRecordSink \<Rightarrow> sink_error + TraceRecordSink" where
  "update_record i f s =
     (if i < length (sink_records s)
      then Inr (s\<lparr>sink_records := (sink_records s)[i := f (sink_records s ! i)]\<rparr>)
      else Inl (RecordIndexOutOfRange i))"

definition push_record ::
  "u64 \<Rightarrow> u8 \<Rightarrow> OcsdTraceElement \<Rightarrow> TraceRecord \<Rightarrow> TraceRecordSink \<Rightarrow> TraceRecordSink" where
  "push_record index_sop trc_chan_id elem r0 s =
     (let r1 = (if el_has_cc elem then r0\<lparr>tr_cycle_count := Some (el_cycle_count elem)\<rparr> else r0);
          r2 = (if el_has_ts elem then r1\<lparr>tr_timestamp := Some (el_timestamp elem)\<rparr> else r1);
          r = r2\<lparr>tr_index_sop := index_sop, tr_trace_id := trc_chan_id\<rparr>;
          t = s\<lparr>sink_records := sink_records s @ [r]\<rparr>
      in if IsTimestampAnchor (tr_kind r)
         then t\<lparr>last_anchor_index := Some (length (sink_records t) - 1)\<rparr> else t)"

definition TraceElemIn ::
  "ocsd_zero \<Rightarrow> u64 \<Rightarrow> u8 \<Rightarrow> OcsdTraceElement \<Rightarrow> TraceRecordSink
     \<Rightarrow> sink_error + (ocsd_datapath_resp_t \<times> TraceRecordSink)" where
  "TraceElemIn z index_sop trc_chan_id elem s =
     map_sum id (Pair OCSD_RESP_CONT)
     (case el_type elem of
        OCSD_GEN_TRC_ELEM_CYCLE_COUNT \<Rightarrow>
          (case last_anchor_index s of
             Some i \<Rightarrow> update_record i (\<lambda>r. r\<lparr>tr_cycle_count := Some (el_cycle_count elem)\<rparr>) s
           | None \<Rightarrow> Inr (count_dropped (el_type elem) s))
      | OCSD_GEN_TRC_ELEM_TIMESTAMP \<Rightarrow>
          (let target = (if pending_ts_marker_index s \<noteq> None then pending_ts_marker_index s
                         else last_anchor_index s);
               t = s\<lparr>pending_ts_marker_index := None\<rparr>
           in case target of
                Some i \<Rightarrow>
                  update_record i
                    (\<lambda>r. let r1 = r\<lparr>tr_timestamp := Some (el_timestamp elem)\<rparr>
                         in if el_has_cc elem
                            then r1\<lparr>tr_timestamp_cycle_count := Some (el_cycle_count elem)\<rparr> else r1) t
              | None \<Rightarrow> Inr (count_dropped (el_type elem) t))
      | OCSD_GEN_TRC_ELEM_SYNC_MARKER \<Rightarrow>
          Inr (if el_sync_marker_type elem = ELEM_MARKER_TS
               then s\<lparr>pending_ts_marker_index := last_anchor_index s\<rparr>
               else count_dropped (el_type elem) s)
      | OCSD_GEN_TRC_ELEM_INSTR_RANGE \<Rightarrow>
          Inr (push_record index_sop trc_chan_id elem (MakeInstructionRange z elem) s)
      | OCSD_GEN_TRC_ELEM_EXCEPTION \<Rightarrow>
          Inr (push_record index_sop trc_chan_id elem (MakeException z elem) s)
      | OCSD_GEN_TRC_ELEM_EXCEPTION_RET \<Rightarrow>
          Inr (push_record index_sop trc_chan_id elem (MakeExceptionReturn z elem) s)
      | OCSD_GEN_TRC_ELEM_TRACE_ON \<Rightarrow>
          Inr (push_record index_sop trc_chan_id elem (MakeTraceOn z elem)
                 (s\<lparr>pending_ts_marker_index := None\<rparr>))
      | OCSD_GEN_TRC_ELEM_NO_SYNC \<Rightarrow>
          Inr (push_record index_sop trc_chan_id elem (MakeNoSync z elem)
                 (s\<lparr>pending_ts_marker_index := None\<rparr>))
      | ocsd_gen_trc_elem_other n \<Rightarrow> Inr (count_dropped (el_type elem) s))"

definition TakeRecords :: "TraceRecordSink \<Rightarrow> TraceRecord list \<times> TraceRecordSink" where
  "TakeRecords s = (sink_records s, s\<lparr>sink_records := []\<rparr>)"

text \<open>The decode tree calls the sink once per element, in order.\<close>

type_synonym sink_call = "u64 \<times> u8 \<times> OcsdTraceElement"

fun sink_run :: "ocsd_zero \<Rightarrow> sink_call list \<Rightarrow> TraceRecordSink \<Rightarrow> sink_error + TraceRecordSink" where
  "sink_run z [] s = Inr s"
| "sink_run z ((i, c, e) # calls) s =
     (case TraceElemIn z i c e s of Inl err \<Rightarrow> Inl err | Inr (_, t) \<Rightarrow> sink_run z calls t)"

section \<open>Well-formed sinks\<close>

text \<open>The anchor index is the position of the last anchor among the records' kinds; a
  pending marker points at an anchor.\<close>

definition sink_kinds :: "TraceRecordSink \<Rightarrow> TraceRecordKind list" where
  "sink_kinds s = map tr_kind (sink_records s)"

definition anchor_at :: "TraceRecordKind list \<Rightarrow> nat \<Rightarrow> bool" where
  "anchor_at ks i \<longleftrightarrow> i < length ks \<and> IsTimestampAnchor (ks ! i)"

definition last_anchor_ok :: "TraceRecordKind list \<Rightarrow> nat option \<Rightarrow> bool" where
  "last_anchor_ok ks a \<longleftrightarrow>
     (case a of None \<Rightarrow> \<forall>k \<in> set ks. \<not> IsTimestampAnchor k
      | Some i \<Rightarrow> anchor_at ks i \<and> (\<forall>k \<in> set (drop (Suc i) ks). \<not> IsTimestampAnchor k))"

definition sink_wf :: "TraceRecordSink \<Rightarrow> bool" where
  "sink_wf s \<longleftrightarrow> last_anchor_ok (sink_kinds s) (last_anchor_index s) \<and>
     pred_option (anchor_at (sink_kinds s)) (pending_ts_marker_index s)"

lemma anchor_at_snoc:
  "anchor_at (ks @ [k]) j \<longleftrightarrow> anchor_at ks j \<or> (j = length ks \<and> IsTimestampAnchor k)"
  by (auto simp: anchor_at_def nth_append)

lemma last_anchor_ok_snoc:
  "last_anchor_ok ks a \<Longrightarrow>
     last_anchor_ok (ks @ [k]) (if IsTimestampAnchor k then Some (length ks) else a)"
  by (auto simp: last_anchor_ok_def anchor_at_def nth_append split: option.splits)

lemma last_anchor_ok_Some: "last_anchor_ok ks (Some i) \<Longrightarrow> anchor_at ks i"
  by (simp add: last_anchor_ok_def)

lemma map_update_same: "f (g (xs ! i)) = f (xs ! i) \<Longrightarrow> map f (xs[i := g (xs ! i)]) = map f xs"
  by (cases "i < length xs") (simp_all add: map_update list_update_same_conv list_update_beyond)

lemma records_push_record:
  "sink_records (push_record i c e r0 s) = sink_records s @
     [r0\<lparr>tr_cycle_count := (if el_has_cc e then Some (el_cycle_count e) else tr_cycle_count r0),
         tr_timestamp := (if el_has_ts e then Some (el_timestamp e) else tr_timestamp r0),
         tr_index_sop := i, tr_trace_id := c\<rparr>]"
  by (simp add: push_record_def Let_def)

lemma push_record_frame [simp]:
  "pending_ts_marker_index (push_record i c e r0 s) = pending_ts_marker_index s"
  "dropped_elements (push_record i c e r0 s) = dropped_elements s"
  "last_anchor_index (push_record i c e r0 s) =
     (if IsTimestampAnchor (tr_kind r0) then Some (length (sink_kinds s)) else last_anchor_index s)"
  "sink_kinds (push_record i c e r0 s) = sink_kinds s @ [tr_kind r0]"
  by (simp_all add: push_record_def sink_kinds_def Let_def)

lemma count_dropped_frame [simp]:
  "sink_records (count_dropped t s) = sink_records s"
  "sink_kinds (count_dropped t s) = sink_kinds s"
  "last_anchor_index (count_dropped t s) = last_anchor_index s"
  "pending_ts_marker_index (count_dropped t s) = pending_ts_marker_index s"
  by (simp_all add: count_dropped_def sink_kinds_def)

lemma sink_kinds_marker [simp]:
  "sink_kinds (s\<lparr>pending_ts_marker_index := m\<rparr>) = sink_kinds s"
  by (simp add: sink_kinds_def)

lemma update_record_anchor:
  assumes "anchor_at (sink_kinds s) i"
  shows "update_record i f s = Inr (s\<lparr>sink_records := (sink_records s)[i := f (sink_records s ! i)]\<rparr>)"
  using assms by (simp add: update_record_def anchor_at_def sink_kinds_def)

lemma sink_wf_new: "sink_wf new_sink"
  by (simp add: sink_wf_def new_sink_def last_anchor_ok_def sink_kinds_def)

lemma sink_wf_marker:
  "sink_wf s \<Longrightarrow> m \<in> {None, last_anchor_index s} \<Longrightarrow> sink_wf (s\<lparr>pending_ts_marker_index := m\<rparr>)"
  by (cases "last_anchor_index s") (auto simp: sink_wf_def dest: last_anchor_ok_Some)

lemma sink_wf_push_record: "sink_wf s \<Longrightarrow> sink_wf (push_record i c e r0 s)"
  using last_anchor_ok_snoc [of "sink_kinds s" "last_anchor_index s" "tr_kind r0"]
  by (cases "pending_ts_marker_index s") (auto simp: sink_wf_def anchor_at_snoc)

lemma sink_wf_records:
  "sink_wf s \<Longrightarrow> map tr_kind rs = sink_kinds s \<Longrightarrow> sink_wf (s\<lparr>sink_records := rs\<rparr>)"
  by (simp add: sink_wf_def sink_kinds_def)

lemma sink_wf_count_dropped [simp]: "sink_wf (count_dropped t s) = sink_wf s"
  by (simp add: sink_wf_def)

lemmas sink_wf_intros = sink_wf_push_record sink_wf_records sink_wf_marker

section \<open>Every element is taken without an out-of-range access\<close>

text \<open>The three outcomes of one call: a cycle count or timestamp rewrites one anchor, or
  the element is counted as dropped, or a record is pushed.\<close>

definition retained_kind :: "ocsd_gen_trc_elem_t \<Rightarrow> TraceRecordKind option" where
  "retained_kind t =
     (case t of OCSD_GEN_TRC_ELEM_INSTR_RANGE \<Rightarrow> Some kInstructionRange
      | OCSD_GEN_TRC_ELEM_EXCEPTION \<Rightarrow> Some kException
      | OCSD_GEN_TRC_ELEM_EXCEPTION_RET \<Rightarrow> Some kExceptionReturn
      | OCSD_GEN_TRC_ELEM_TRACE_ON \<Rightarrow> Some kTraceOn
      | OCSD_GEN_TRC_ELEM_NO_SYNC \<Rightarrow> Some kNoSync
      | _ \<Rightarrow> None)"

definition record_key :: "TraceRecord \<Rightarrow> u64 \<times> u8 \<times> TraceRecordKind" where
  "record_key r = (tr_index_sop r, tr_trace_id r, tr_kind r)"

definition call_key :: "sink_call \<Rightarrow> (u64 \<times> u8 \<times> TraceRecordKind) option" where
  "call_key c = (case c of (i, ch, e) \<Rightarrow> map_option (\<lambda>k. (i, ch, k)) (retained_kind (el_type e)))"

lemma make_kinds [simp]:
  "tr_kind (MakeInstructionRange z e) = kInstructionRange"
  "tr_kind (MakeException z e) = kException"
  "tr_kind (MakeExceptionReturn z e) = kExceptionReturn"
  "tr_kind (MakeTraceOn z e) = kTraceOn"
  "tr_kind (MakeNoSync z e) = kNoSync"
  by (simp_all add: MakeInstructionRange_def MakeException_def MakeExceptionReturn_def
      MakeTraceOn_def MakeNoSync_def)

lemma push_record_keys:
  "map record_key (sink_records (push_record i c e r0 s)) =
     map record_key (sink_records s) @ [(i, c, tr_kind r0)]"
  by (simp add: records_push_record record_key_def)

lemma update_anchor_step:
  assumes "sink_wf s" and "anchor_at (sink_kinds s) i"
    and "\<And>r. record_key (f r) = record_key r"
  shows "\<exists>t. update_record i f s = Inr t \<and> sink_wf t \<and>
    map record_key (sink_records t) = map record_key (sink_records s)"
proof -
  have "\<And>r. tr_kind (f r) = tr_kind r" using assms(3) by (simp add: record_key_def)
  with assms show ?thesis
    by (auto simp: update_record_anchor map_update_same sink_kinds_def intro!: sink_wf_records)
qed

lemma TraceElemIn_step:
  assumes wf: "sink_wf s"
  shows "\<exists>t. TraceElemIn z i c e s = Inr (OCSD_RESP_CONT, t) \<and> sink_wf t \<and>
    map record_key (sink_records t) =
      map record_key (sink_records s) @ (case call_key (i, c, e) of None \<Rightarrow> [] | Some k \<Rightarrow> [k])"
proof (cases "el_type e")
  case OCSD_GEN_TRC_ELEM_CYCLE_COUNT
  show ?thesis
  proof (cases "last_anchor_index s")
    case None
    with wf OCSD_GEN_TRC_ELEM_CYCLE_COUNT show ?thesis
      by (simp add: TraceElemIn_def call_key_def retained_kind_def)
  next
    case (Some a)
    with wf have "anchor_at (sink_kinds s) a" by (simp add: sink_wf_def last_anchor_ok_Some)
    from update_anchor_step [OF wf this, of "\<lambda>r. r\<lparr>tr_cycle_count := Some (el_cycle_count e)\<rparr>"]
    show ?thesis using Some OCSD_GEN_TRC_ELEM_CYCLE_COUNT
      by (auto simp: TraceElemIn_def call_key_def retained_kind_def record_key_def)
  qed
next
  case OCSD_GEN_TRC_ELEM_TIMESTAMP
  let ?t = "s\<lparr>pending_ts_marker_index := None\<rparr>"
  let ?target = "if pending_ts_marker_index s \<noteq> None then pending_ts_marker_index s else last_anchor_index s"
  let ?f = "\<lambda>r. let r1 = r\<lparr>tr_timestamp := Some (el_timestamp e)\<rparr>
     in if el_has_cc e then r1\<lparr>tr_timestamp_cycle_count := Some (el_cycle_count e)\<rparr> else r1"
  have wf': "sink_wf ?t" using wf by (rule sink_wf_marker) simp
  show ?thesis
  proof (cases ?target)
    case None
    with wf' OCSD_GEN_TRC_ELEM_TIMESTAMP show ?thesis
      by (simp add: TraceElemIn_def call_key_def retained_kind_def Let_def)
  next
    case (Some a)
    with wf have "anchor_at (sink_kinds ?t) a"
      by (auto simp: sink_wf_def last_anchor_ok_Some split: if_splits)
    moreover have "\<And>r. record_key (?f r) = record_key r" by (simp add: record_key_def Let_def)
    ultimately obtain t where "update_record a ?f ?t = Inr t" "sink_wf t"
      "map record_key (sink_records t) = map record_key (sink_records s)"
      using update_anchor_step [OF wf', of a ?f] by auto
    with Some OCSD_GEN_TRC_ELEM_TIMESTAMP show ?thesis
      by (simp add: TraceElemIn_def call_key_def retained_kind_def)
  qed
next
  case OCSD_GEN_TRC_ELEM_SYNC_MARKER
  with wf show ?thesis
    by (auto simp: TraceElemIn_def call_key_def retained_kind_def intro!: sink_wf_intros)
qed (use wf in \<open>auto simp: TraceElemIn_def call_key_def retained_kind_def push_record_keys intro!: sink_wf_intros\<close>)

lemma sink_run_ok:
  "sink_wf s \<Longrightarrow> \<exists>t. sink_run z calls s = Inr t \<and> sink_wf t \<and>
     map record_key (sink_records t) = map record_key (sink_records s) @ List.map_filter call_key calls"
proof (induction calls arbitrary: s)
  case Nil
  then show ?case by (simp add: map_filter_simps)
next
  case (Cons x calls)
  obtain i c e where x: "x = (i, c, e)" by (cases x)
  obtain t where t: "TraceElemIn z i c e s = Inr (OCSD_RESP_CONT, t)" "sink_wf t"
    "map record_key (sink_records t) =
      map record_key (sink_records s) @ (case call_key (i, c, e) of None \<Rightarrow> [] | Some k \<Rightarrow> [k])"
    using TraceElemIn_step [OF Cons.prems] by blast
  from Cons.IH [OF t(2)] show ?case
    by (auto simp: x t map_filter_simps split: option.splits)
qed

section \<open>Deferred timestamps\<close>

text \<open>An element that neither moves the pending marker nor writes a timestamp into an
  earlier record.\<close>

definition quiet_elem :: "OcsdTraceElement \<Rightarrow> bool" where
  "quiet_elem e \<longleftrightarrow>
     el_type e \<notin> {OCSD_GEN_TRC_ELEM_TIMESTAMP, OCSD_GEN_TRC_ELEM_TRACE_ON, OCSD_GEN_TRC_ELEM_NO_SYNC} \<and>
     \<not> (el_type e = OCSD_GEN_TRC_ELEM_SYNC_MARKER \<and> el_sync_marker_type e = ELEM_MARKER_TS)"

definition same_timestamps :: "TraceRecord list \<Rightarrow> TraceRecord list \<Rightarrow> bool" where
  "same_timestamps rs rs' \<longleftrightarrow>
     length rs \<le> length rs' \<and> (\<forall>j < length rs. tr_timestamp (rs' ! j) = tr_timestamp (rs ! j))"

lemma same_timestamps_refl [simp]: "same_timestamps rs rs"
  by (simp add: same_timestamps_def)

lemma same_timestamps_trans:
  "same_timestamps rs ss \<Longrightarrow> same_timestamps ss ts \<Longrightarrow> same_timestamps rs ts"
  by (simp add: same_timestamps_def)

lemma same_timestamps_push [simp]:
  "same_timestamps (sink_records s) (sink_records (push_record i c e r0 s))"
  by (simp add: same_timestamps_def records_push_record nth_append)

lemma same_timestamps_update:
  "tr_timestamp (f (rs ! i)) = tr_timestamp (rs ! i) \<Longrightarrow> same_timestamps rs (rs[i := f (rs ! i)])"
  by (cases "i < length rs") (auto simp: same_timestamps_def nth_list_update list_update_beyond)

lemma quiet_call:
  assumes wf: "sink_wf s" and quiet: "quiet_elem e"
  shows "\<exists>t. TraceElemIn z i c e s = Inr (OCSD_RESP_CONT, t) \<and> sink_wf t \<and>
    pending_ts_marker_index t = pending_ts_marker_index s \<and>
    same_timestamps (sink_records s) (sink_records t)"
proof -
  obtain t where t: "TraceElemIn z i c e s = Inr (OCSD_RESP_CONT, t)" and "sink_wf t"
    using TraceElemIn_step [OF wf] by blast
  moreover have "pending_ts_marker_index t = pending_ts_marker_index s \<and>
      same_timestamps (sink_records s) (sink_records t)"
  proof (cases "el_type e = OCSD_GEN_TRC_ELEM_CYCLE_COUNT")
    case True
    with t show ?thesis
      by (auto simp: TraceElemIn_def update_record_def same_timestamps_update
          split: option.splits if_splits)
  next
    case False
    with t quiet show ?thesis
      by (auto simp: TraceElemIn_def quiet_elem_def split: ocsd_gen_trc_elem_t.splits)
  qed
  ultimately show ?thesis by blast
qed

lemma quiet_run:
  "sink_wf s \<Longrightarrow> list_all (\<lambda>(i, c, e). quiet_elem e) calls \<Longrightarrow>
     \<exists>t. sink_run z calls s = Inr t \<and> sink_wf t \<and>
       pending_ts_marker_index t = pending_ts_marker_index s \<and>
       same_timestamps (sink_records s) (sink_records t)"
proof (induction calls arbitrary: s)
  case Nil
  then show ?case by simp
next
  case (Cons x calls)
  obtain i c e where x: "x = (i, c, e)" by (cases x)
  with Cons.prems have "quiet_elem e" by simp
  from quiet_call [OF Cons.prems(1) this] obtain t where
    t: "TraceElemIn z i c e s = Inr (OCSD_RESP_CONT, t)" "sink_wf t"
      "pending_ts_marker_index t = pending_ts_marker_index s"
      "same_timestamps (sink_records s) (sink_records t)" by blast
  from Cons.IH [OF t(2)] Cons.prems(2) show ?case
    by (auto simp: x t intro: same_timestamps_trans [OF t(4)])
qed

lemma sink_run_append:
  "sink_run z (xs @ ys) s = (case sink_run z xs s of Inl err \<Rightarrow> Inl err | Inr t \<Rightarrow> sink_run z ys t)"
  by (induction xs arbitrary: s) (auto split: sum.splits)

lemma timestamp_call:
  assumes "sink_wf s" and "pending_ts_marker_index s = Some a" and "el_type e = OCSD_GEN_TRC_ELEM_TIMESTAMP"
  shows "\<exists>t. TraceElemIn z i c e s = Inr (OCSD_RESP_CONT, t) \<and>
    pending_ts_marker_index t = None \<and> a < length (sink_records s) \<and>
    length (sink_records t) = length (sink_records s) \<and>
    tr_timestamp (sink_records t ! a) = Some (el_timestamp e) \<and>
    (\<forall>j. j \<noteq> a \<longrightarrow> sink_records t ! j = sink_records s ! j)"
proof -
  from assms(1,2) have "anchor_at (sink_kinds s) a" by (simp add: sink_wf_def)
  then have "a < length (sink_records s)" by (simp add: anchor_at_def sink_kinds_def)
  with assms(2,3) show ?thesis
    by (simp add: TraceElemIn_def update_record_def Let_def)
qed

section \<open>Properties of the sink\<close>

text \<open>C1: feeding a new sink any sequence of elements never indexes its record vector out
  of range and always answers "continue"; afterwards the anchor index is exactly the last
  instruction range, exception or exception return kept, and the records kept are, in
  order and with their trace index, channel and kind, the elements of the five retained
  kinds, with nothing lost and nothing added.\<close>

theorem sink_run_safe:
  "\<exists>t. sink_run z calls new_sink = Inr t \<and> sink_wf t \<and>
     map record_key (sink_records t) = List.map_filter call_key calls"
  using sink_run_ok [OF sink_wf_new, of z calls] by (simp add: new_sink_def)

text \<open>a timestamp announced by a timestamp marker lands on the anchor that was live when
  the marker was seen, however many records are kept in between, as long as no
  discontinuity, newer marker or other timestamp intervenes; no other earlier record's
  timestamp changes, and the marker is used up.\<close>

lemma timestamp_marker_defers:
  assumes "sink_wf s" and "last_anchor_index s = Some a"
    and "el_type m = OCSD_GEN_TRC_ELEM_SYNC_MARKER" and "el_sync_marker_type m = ELEM_MARKER_TS"
    and "list_all (\<lambda>(i, c, e). quiet_elem e) calls"
    and "el_type ts = OCSD_GEN_TRC_ELEM_TIMESTAMP"
  shows "\<exists>t. sink_run z ((i1, c1, m) # calls @ [(i2, c2, ts)]) s = Inr t \<and>
    pending_ts_marker_index t = None \<and>
    tr_timestamp (sink_records t ! a) = Some (el_timestamp ts) \<and>
    (\<forall>j < length (sink_records s). j \<noteq> a \<longrightarrow>
       tr_timestamp (sink_records t ! j) = tr_timestamp (sink_records s ! j))"
proof -
  let ?s1 = "s\<lparr>pending_ts_marker_index := last_anchor_index s\<rparr>"
  have marker: "TraceElemIn z i1 c1 m s = Inr (OCSD_RESP_CONT, ?s1)"
    using assms(3,4) by (simp add: TraceElemIn_def)
  have "sink_wf ?s1" using assms(1) by (rule sink_wf_marker) simp
  from quiet_run [OF this assms(5), of z] assms(2) obtain t1 where
    t1: "sink_run z calls ?s1 = Inr t1" "sink_wf t1" "pending_ts_marker_index t1 = Some a"
      "same_timestamps (sink_records s) (sink_records t1)" by auto
  from timestamp_call [OF t1(2,3) assms(6), of z i2 c2] t1 marker show ?thesis
    by (auto simp: sink_run_append same_timestamps_def)
qed

text \<open>A concrete run: an instruction range, its marker, a second range, the timestamp.\<close>

definition sample_elem :: "ocsd_gen_trc_elem_t \<Rightarrow> OcsdTraceElement" where
  "sample_elem t =
     \<lparr>el_type = t, el_isa = ocsd_isa_thumb2, el_st_addr = 0x1000, el_en_addr = 0x1004,
      el_num_instr_range = 2, el_last_i_type = 0, el_last_i_subtype = 0, el_last_instr_exec = 1,
      el_excep_ret_addr = 0, el_exception_number = 0, el_trace_on_reason = trace_on_other 0,
      el_unsync_eot_info = unsync_other 0, el_sync_marker_type = ELEM_MARKER_TS,
      el_cycle_count = 42, el_timestamp = 0xAABBCC, el_has_cc = False, el_has_ts = False\<rparr>"

definition sample_zero :: ocsd_zero where
  "sample_zero = \<lparr>z_isa = ocsd_isa_arm, z_trace_on = trace_on_other 0, z_unsync = unsync_other 0\<rparr>"

definition sample_sink :: TraceRecordSink where
  "sample_sink = push_record 7 1 (sample_elem OCSD_GEN_TRC_ELEM_INSTR_RANGE)
     (MakeInstructionRange sample_zero (sample_elem OCSD_GEN_TRC_ELEM_INSTR_RANGE)) new_sink"

lemma sample_sink_facts: "sink_wf sample_sink" "last_anchor_index sample_sink = Some 0"
  unfolding sample_sink_def
  by (rule sink_wf_push_record, rule sink_wf_new)
    (simp add: IsTimestampAnchor_def new_sink_def sink_kinds_def)

theorem timestamp_marker_defers_witness:
  "\<exists>t. sink_run sample_zero
      [(8, 1, sample_elem OCSD_GEN_TRC_ELEM_SYNC_MARKER), (9, 1, sample_elem OCSD_GEN_TRC_ELEM_INSTR_RANGE),
       (10, 1, sample_elem OCSD_GEN_TRC_ELEM_TIMESTAMP)] sample_sink = Inr t \<and>
     tr_timestamp (sink_records t ! 0) = Some 0xAABBCC"
proof -
  have "list_all (\<lambda>(i, c, e). quiet_elem e) [(9 :: u64, 1 :: u8, sample_elem OCSD_GEN_TRC_ELEM_INSTR_RANGE)]"
    by (simp add: quiet_elem_def sample_elem_def)
  from timestamp_marker_defers [OF sample_sink_facts _ _ this,
      of "sample_elem OCSD_GEN_TRC_ELEM_SYNC_MARKER" "sample_elem OCSD_GEN_TRC_ELEM_TIMESTAMP"
         sample_zero 8 1 10 1]
  show ?thesis by (auto simp: sample_elem_def)
qed

text \<open>\<open>TakeRecords\<close> empties the records but keeps the anchor index, so a sink that is
  used again after it (which its documentation allows) answers the first cycle count by
  writing to a record that no longer exists.\<close>

lemma TakeRecords_keeps_stale_anchor:
  assumes "last_anchor_index s = Some a" and "el_type e = OCSD_GEN_TRC_ELEM_CYCLE_COUNT"
  shows "TraceElemIn z i c e (snd (TakeRecords s)) = Inl (RecordIndexOutOfRange a)"
  using assms by (simp add: TraceElemIn_def TakeRecords_def update_record_def)

theorem TakeRecords_keeps_stale_anchor_witness:
  "TraceElemIn sample_zero 8 1 (sample_elem OCSD_GEN_TRC_ELEM_CYCLE_COUNT) (snd (TakeRecords sample_sink))
     = Inl (RecordIndexOutOfRange 0)"
  by (rule TakeRecords_keeps_stale_anchor [OF sample_sink_facts(2)]) (simp add: sample_elem_def)

end
