(* ===== verification/Trace_Decoder.thy ===== *)
theory Trace_Decoder
  imports Trace_Sink
begin

text \<open>
  \<open>trace_decoder\<close>: one decode pass.  It configures OpenCSD's decode tree from the capture's
  configuration, registers the program image as decoder memory, feeds the capture in blocks
  of at most 4096 bytes, and takes the records the attached sink has kept.  OpenCSD itself
  (the tree, the architecture profiles, its flag and response values) is a parameter; its
  calls may throw.
\<close>

section \<open>What OpenCSD provides\<close>

datatype decode_exception = OcsdError string | StdException string | UnrecognizedException

type_synonym 'a thrown = "decode_exception + 'a"

record ocsd_etmv4_cfg =
  reg_configr :: u32
  reg_traceidr :: u32
  reg_idr0 :: u32
  reg_idr1 :: u32
  reg_idr2 :: u32
  reg_idr8 :: u32
  reg_idr9 :: u32
  reg_idr10 :: u32
  reg_idr11 :: u32
  reg_idr12 :: u32
  reg_idr13 :: u32
  cfg_arch_ver :: nat
  cfg_core_prof :: nat

datatype ocsd_dcd_tree_src_t = OCSD_TRC_SRC_SINGLE | OCSD_TRC_SRC_FRAME_FORMATTED

record ocsd_file_mem_region_t =
  fr_file_offset :: u64
  fr_start_address :: u64
  fr_region_size :: u64

record ocsd_flag_values =
  OCSD_DFRMTR_HAS_FSYNCS :: u32
  OCSD_DFRMTR_HAS_HSYNCS :: u32
  OCSD_DFRMTR_FRAME_MEM_ALIGN :: u32
  OCSD_DFRMTR_RESET_ON_4X_FSYNC :: u32

text \<open>The tree's entry points take the tree and answer the tree after the call; a feed also
  answers the number of bytes it consumed and the element calls it made on the sink.  A
  profile of \<open>None\<close> is \<open>ARCH_UNKNOWN\<close>.\<close>

record 'tree OpenCsd =
  flag_values :: ocsd_flag_values
  zero_values :: ocsd_zero
  getArchProfile :: "string \<Rightarrow> (nat \<times> nat) option"
  CreateDecodeTree :: "ocsd_dcd_tree_src_t \<Rightarrow> u32 \<Rightarrow> 'tree option thrown"
  createMemAccMapper :: "'tree \<Rightarrow> (bool \<times> 'tree) thrown"
  isExistingFileAccessor :: "'tree \<Rightarrow> string \<Rightarrow> bool"
  updateBinFileRegionMemAcc :: "'tree \<Rightarrow> ocsd_file_mem_region_t \<Rightarrow> string \<Rightarrow> (bool \<times> 'tree) thrown"
  addBinFileRegionMemAcc :: "'tree \<Rightarrow> ocsd_file_mem_region_t \<Rightarrow> string \<Rightarrow> (bool \<times> 'tree) thrown"
  createDecoder :: "'tree \<Rightarrow> ocsd_etmv4_cfg \<Rightarrow> (bool \<times> 'tree) thrown"
  TraceDataIn_data :: "'tree \<Rightarrow> u64 \<Rightarrow> u8 list \<Rightarrow> (ocsd_datapath_resp_t \<times> u32 \<times> sink_call list \<times> 'tree) thrown"
  TraceDataIn_eot :: "'tree \<Rightarrow> u64 \<Rightarrow> (ocsd_datapath_resp_t \<times> sink_call list \<times> 'tree) thrown"
  resp_is_cont :: "ocsd_datapath_resp_t \<Rightarrow> bool"
  resp_is_fatal :: "ocsd_datapath_resp_t \<Rightarrow> bool"
  resp_code :: "ocsd_datapath_resp_t \<Rightarrow> nat"

section \<open>Configuration\<close>

definition ToSourceFormat :: "TraceSourceFormat \<Rightarrow> ocsd_dcd_tree_src_t" where
  "ToSourceFormat format =
     (case format of kSingle \<Rightarrow> OCSD_TRC_SRC_SINGLE | kFrameFormatted \<Rightarrow> OCSD_TRC_SRC_FRAME_FORMATTED)"

definition ToFormatterFlags :: "ocsd_flag_values \<Rightarrow> DeformatterConfig \<Rightarrow> u32" where
  "ToFormatterFlags v d =
     (let flags = (case dc_frame_sync d of
            kFsync \<Rightarrow> 0 OR OCSD_DFRMTR_HAS_FSYNCS v
          | kHsync \<Rightarrow> 0 OR OCSD_DFRMTR_HAS_HSYNCS v
          | kMemAligned \<Rightarrow> 0 OR OCSD_DFRMTR_FRAME_MEM_ALIGN v)
      in if dc_reset_on_4x_fsync d then flags OR OCSD_DFRMTR_RESET_ON_4X_FSYNC v else flags)"

definition ToEtmv4Config :: "Etmv4Registers \<Rightarrow> nat \<Rightarrow> nat \<Rightarrow> ocsd_etmv4_cfg" where
  "ToEtmv4Config regs arch_ver core_prof =
     \<lparr>reg_configr = er_trcconfigr regs, reg_traceidr = er_trctraceidr regs,
      reg_idr0 = er_trcidr0 regs, reg_idr1 = er_trcidr1 regs, reg_idr2 = er_trcidr2 regs,
      reg_idr8 = er_trcidr8 regs, reg_idr9 = er_trcidr9 regs, reg_idr10 = er_trcidr10 regs,
      reg_idr11 = er_trcidr11 regs, reg_idr12 = er_trcidr12 regs, reg_idr13 = er_trcidr13 regs,
      cfg_arch_ver = arch_ver, cfg_core_prof = core_prof\<rparr>"

definition MakeError :: "string \<Rightarrow> string" where
  "MakeError message = ''trace_decoder: '' @ message"

fun RegisterMemoryImage :: "'tree OpenCsd \<Rightarrow> 'tree \<Rightarrow> LoadSegment list \<Rightarrow> string \<Rightarrow> (bool \<times> 'tree) thrown" where
  "RegisterMemoryImage csd tree [] image_path = Inr (True, tree)"
| "RegisterMemoryImage csd tree (segment # segments) image_path =
     (let region = \<lparr>fr_file_offset = ls_file_offset segment, fr_start_address = ls_vaddr segment,
            fr_region_size = ls_size segment\<rparr>
      in case (if isExistingFileAccessor csd tree image_path
               then updateBinFileRegionMemAcc csd tree region image_path
               else addBinFileRegionMemAcc csd tree region image_path) of
           Inl x \<Rightarrow> Inl x
         | Inr (ok, tree') \<Rightarrow>
             if \<not> ok then Inr (False, tree')
             else RegisterMemoryImage csd tree' segments image_path)"

section \<open>Feeding the capture\<close>

definition kChunkSize :: u32 where
  "kChunkSize = 4096"

text \<open>The \<open>while\<close> loop: the response, the trace index, and the element calls made so far.\<close>

partial_function (option) feed_loop ::
  "'tree OpenCsd \<Rightarrow> u8 list \<Rightarrow> ocsd_datapath_resp_t \<Rightarrow> u64 \<Rightarrow> u32 \<Rightarrow> sink_call list \<Rightarrow> 'tree
     \<Rightarrow> (ocsd_datapath_resp_t \<times> u64 \<times> sink_call list \<times> 'tree) thrown option"
where
  "feed_loop csd data resp index bytes_remaining calls tree =
     (if resp_is_cont csd resp \<and> bytes_remaining > 0 then
        (let block_size = min bytes_remaining kChunkSize
         in case TraceDataIn_data csd tree index (take (unat block_size) (drop (unat index) data)) of
              Inl x \<Rightarrow> Some (Inl x)
            | Inr (resp', bytes_processed, emitted, tree') \<Rightarrow>
                if bytes_processed = 0 then Some (Inr (resp', index, calls @ emitted, tree'))
                else feed_loop csd data resp' (index + ucast bytes_processed)
                       (bytes_remaining - bytes_processed) (calls @ emitted) tree')
      else Some (Inr (resp, index, calls, tree)))"

definition FeedTraceData ::
  "'tree OpenCsd \<Rightarrow> 'tree \<Rightarrow> u8 list \<Rightarrow> (ocsd_datapath_resp_t \<times> sink_call list \<times> 'tree) thrown option" where
  "FeedTraceData csd tree data =
     (case feed_loop csd data OCSD_RESP_CONT 0 (of_nat (length data)) [] tree of
        None \<Rightarrow> None
      | Some (Inl x) \<Rightarrow> Some (Inl x)
      | Some (Inr (resp, index, calls, tree')) \<Rightarrow>
          if resp_is_cont csd resp then
            (case TraceDataIn_eot csd tree' index of
               Inl x \<Rightarrow> Some (Inl x)
             | Inr (resp', emitted, tree'') \<Rightarrow> Some (Inr (resp', calls @ emitted, tree'')))
          else Some (Inr (resp, calls, tree')))"

section \<open>One decode pass\<close>

text \<open>The records with the counts of dropped elements, or the error string; a thrown OpenCSD
  exception leaves \<open>Decode\<close>.  A record index out of range in the sink would be undefined
  behaviour and is kept apart.\<close>

datatype decode_outcome =
    Decoded "TraceRecord list" "ocsd_gen_trc_elem_t \<rightharpoonup> u64"
  | DecodeError string
  | DecodeThrew decode_exception
  | SinkFault sink_error

definition decode_fed :: "'tree OpenCsd \<Rightarrow> 'tree \<Rightarrow> u8 list \<Rightarrow> decode_outcome option" where
  "decode_fed csd tree data =
     (case FeedTraceData csd tree data of
        None \<Rightarrow> None
      | Some (Inl x) \<Rightarrow> Some (DecodeThrew x)
      | Some (Inr (resp, calls, tree')) \<Rightarrow>
          (case sink_run (zero_values csd) calls new_sink of
             Inl e \<Rightarrow> Some (SinkFault e)
           | Inr snk \<Rightarrow>
               if resp_is_fatal csd resp
               then Some (DecodeError (MakeError (''decode failed with fatal datapath response '' @ dec_string (resp_code csd resp))))
               else Some (Decoded (fst (TakeRecords snk)) (dropped_elements snk))))"

definition decode_with_image :: "'tree OpenCsd \<Rightarrow> InstructionTraceDecodeConfig \<Rightarrow> LoadSegment list \<Rightarrow> nat \<Rightarrow> nat \<Rightarrow> 'tree \<Rightarrow> decode_outcome option" where
  "decode_with_image csd config segments arch prof tree =
     (case RegisterMemoryImage csd tree segments (program_path config) of
        Inl x \<Rightarrow> Some (DecodeThrew x)
      | Inr (ok, tree1) \<Rightarrow>
          if \<not> ok then Some (DecodeError (MakeError (''failed to register program image '' @
            CHR 0x27 # program_path config @ CHR 0x27 # '' as decoder memory'')))
          else (case createDecoder csd tree1 (ToEtmv4Config (registers config) arch prof) of
                  Inl x \<Rightarrow> Some (DecodeThrew x)
                | Inr (ok2, tree2) \<Rightarrow>
                    if \<not> ok2 then Some (DecodeError (MakeError ''failed to create ETMv4 decoder''))
                    else decode_fed csd tree2 (trace_data config)))"

definition Decode :: "'tree OpenCsd \<Rightarrow> InstructionTraceDecodeConfig \<Rightarrow> LoadSegment list \<Rightarrow> decode_outcome option" where
  "Decode csd config segments =
     (case getArchProfile csd (core_name config) of
        None \<Rightarrow> Some (DecodeError (MakeError (''unrecognized core name '' @ CHR 0x27 # core_name config @ [CHR 0x27])))
      | Some (arch, prof) \<Rightarrow>
          (case CreateDecodeTree csd (ToSourceFormat (dc_source_format (deformatter config)))
                  (ToFormatterFlags (flag_values csd) (deformatter config)) of
             Inl x \<Rightarrow> Some (DecodeThrew x)
           | Inr None \<Rightarrow> Some (DecodeError (MakeError ''failed to create decode tree''))
           | Inr (Some tree) \<Rightarrow>
               (case createMemAccMapper csd tree of
                  Inl x \<Rightarrow> Some (DecodeThrew x)
                | Inr (ok, tree1) \<Rightarrow>
                    if \<not> ok then Some (DecodeError (MakeError ''failed to create memory access mapper''))
                    else decode_with_image csd config segments arch prof tree1)))"

section \<open>Feeding delivers the capture\<close>

text \<open>OpenCSD's documented contract on a feed: it consumes at most the block it was given and
  at least one byte while it answers "continue".  \<open>consumed\<close> reads off the bytes a tree has
  accepted.\<close>

definition feed_contract :: "'tree OpenCsd \<Rightarrow> ('tree \<Rightarrow> u8 list) \<Rightarrow> bool" where
  "feed_contract csd consumed \<longleftrightarrow>
     (\<forall>tree index block resp n calls tree'.
        TraceDataIn_data csd tree index block = Inr (resp, n, calls, tree') \<longrightarrow>
          unat n \<le> length block \<and> consumed tree' = consumed tree @ take (unat n) block \<and>
          (resp_is_cont csd resp \<longrightarrow> block \<noteq> [] \<longrightarrow> n \<noteq> 0)) \<and>
     (\<forall>tree index resp calls tree'.
        TraceDataIn_eot csd tree index = Inr (resp, calls, tree') \<longrightarrow> consumed tree' = consumed tree)"

definition never_throws :: "'tree OpenCsd \<Rightarrow> bool" where
  "never_throws csd \<longleftrightarrow> (\<forall>tree index block. \<exists>r. TraceDataIn_data csd tree index block = Inr r) \<and>
     (\<forall>tree index. \<exists>r. TraceDataIn_eot csd tree index = Inr r)"

lemma feed_contractD:
  assumes "feed_contract csd consumed" and "TraceDataIn_data csd tree index block = Inr (resp, n, calls, tree')"
  shows "unat n \<le> length block" and "consumed tree' = consumed tree @ take (unat n) block"
    and "resp_is_cont csd resp \<Longrightarrow> block \<noteq> [] \<Longrightarrow> n \<noteq> 0"
  using assms unfolding feed_contract_def by blast+

lemma block_size_le: "unat (min rem kChunkSize) \<le> unat rem" for rem :: u32
  by (simp add: min_def word_le_nat_alt)

text \<open>The loop returns, with the bytes accepted a prefix of the capture, and the whole capture
  when the last response is "continue".\<close>

lemma feed_loop_returns:
  assumes contract: "feed_contract csd consumed" and throws: "never_throws csd"
    and len: "length data < 2 ^ 32"
  shows "unat index + unat rem = length data \<Longrightarrow> consumed tree = pre @ take (unat index) data \<Longrightarrow>
    \<exists>resp' index' calls' tree'. feed_loop csd data resp index rem calls tree = Some (Inr (resp', index', calls', tree')) \<and>
      (\<exists>n \<le> length data. consumed tree' = pre @ take n data \<and> (resp_is_cont csd resp' \<longrightarrow> n = length data))"
proof (induction "unat rem" arbitrary: resp index rem calls tree rule: less_induct)
  case less
  show ?case
  proof (cases "resp_is_cont csd resp \<and> rem > 0")
    case False
    then have "rem = 0 \<or> \<not> resp_is_cont csd resp" by (auto simp: word_neq_0_conv)
    with less.prems False show ?thesis
      by (subst feed_loop.simps) (auto intro!: exI [of _ "unat index"])
  next
    case True
    let ?block = "take (unat (min rem kChunkSize)) (drop (unat index) data)"
    obtain resp1 n emitted tree1 where d: "TraceDataIn_data csd tree index ?block = Inr (resp1, n, emitted, tree1)"
      using throws unfolding never_throws_def by (metis surj_pair)
    note c = feed_contractD [OF contract d]
    have "min rem kChunkSize \<noteq> 0" using True by (auto simp: min_def kChunkSize_def)
    moreover have "unat rem \<noteq> 0" using True by (auto simp: unat_eq_zero)
    then have "unat index < length data" using less.prems(1) by linarith
    ultimately have ne: "?block \<noteq> []" by (simp add: unat_eq_zero)
    have n_le: "unat n \<le> unat rem" using c(1) block_size_le [of rem] by simp
    have taken: "consumed tree1 = pre @ take (unat index + unat n) data"
      using c(1,2) less.prems(2) by (simp add: take_add)
    show ?thesis
    proof (cases "n = 0")
      case True': True
      with c(3) ne have "\<not> resp_is_cont csd resp1" by auto
      with True True' d taken less.prems(1) show ?thesis
        by (subst feed_loop.simps) (auto simp: Let_def intro!: exI [of _ "unat index"])
    next
      case False
      have rem': "unat (rem - n) = unat rem - unat n" using n_le by (simp add: unat_sub word_le_nat_alt)
      have "0 < unat n" using False by (simp add: unat_gt_0)
      then have lt: "unat (rem - n) < unat rem" using rem' n_le by linarith
      have "unat index + unat n < 2 ^ 64" using n_le less.prems(1) len by simp
      then have idx: "unat (index + ucast n) = unat index + unat n" by (subst unat_plus_no_wrap) simp_all
      from less.hyps [OF lt, of "index + ucast n" tree1 resp1 "calls @ emitted"] less.prems(1) taken n_le
      have "\<exists>resp' index' calls' tree'. feed_loop csd data resp1 (index + ucast n) (rem - n) (calls @ emitted) tree1 = Some (Inr (resp', index', calls', tree')) \<and>
      (\<exists>n \<le> length data. consumed tree' = pre @ take n data \<and> (resp_is_cont csd resp' \<longrightarrow> n = length data))"
        unfolding idx rem' by simp
      moreover have "feed_loop csd data resp index rem calls tree = feed_loop csd data resp1 (index + ucast n) (rem - n) (calls @ emitted) tree1"
        using True False d by (subst feed_loop.simps) (simp add: Let_def)
      ultimately show ?thesis by simp
    qed
  qed
qed

text \<open>C37: under OpenCSD's contract on a feed, feeding a capture below 4 GiB terminates; the
  bytes the decoder accepted are a prefix of the capture in order, and when the final
  response is "continue" they are the whole capture.\<close>

theorem FeedTraceData_delivers:
  assumes "feed_contract csd consumed" and "never_throws csd" and "length data < 2 ^ 32"
  shows "\<exists>resp calls tree' n. FeedTraceData csd tree data = Some (Inr (resp, calls, tree')) \<and>
    n \<le> length data \<and> consumed tree' = consumed tree @ take n data \<and>
    (resp_is_cont csd resp \<longrightarrow> n = length data)"
proof -
  have len: "unat (of_nat (length data) :: u32) = length data"
    using assms(3) by (simp add: unat_of_nat take_bit_nat_eq_self)
  from feed_loop_returns [OF assms, of 0 "of_nat (length data)" tree "consumed tree" OCSD_RESP_CONT "[]"]
  obtain resp index calls tree' n where
    l: "feed_loop csd data OCSD_RESP_CONT 0 (of_nat (length data)) [] tree = Some (Inr (resp, index, calls, tree'))"
    "n \<le> length data" "consumed tree' = consumed tree @ take n data" "resp_is_cont csd resp \<longrightarrow> n = length data"
    unfolding len by (metis add_0 append_Nil2 take_0 unat_0)
  show ?thesis
  proof (cases "resp_is_cont csd resp")
    case False
    with l show ?thesis by (auto simp: FeedTraceData_def)
  next
    case True
    obtain resp2 emitted tree2 where e: "TraceDataIn_eot csd tree' index = Inr (resp2, emitted, tree2)"
      using assms(2) unfolding never_throws_def by (metis surj_pair)
    then have "consumed tree2 = consumed tree'" using assms(1) unfolding feed_contract_def by blast
    with True l e show ?thesis by (auto simp: FeedTraceData_def)
  qed
qed

definition sample_csd :: "u8 list OpenCsd" where
  "sample_csd = \<lparr>flag_values = \<lparr>OCSD_DFRMTR_HAS_FSYNCS = 1, OCSD_DFRMTR_HAS_HSYNCS = 2,
       OCSD_DFRMTR_FRAME_MEM_ALIGN = 4, OCSD_DFRMTR_RESET_ON_4X_FSYNC = 16\<rparr>,
     zero_values = sample_zero, getArchProfile = (\<lambda>_. Some (0, 0)), CreateDecodeTree = (\<lambda>_ _. Inr (Some [])),
     createMemAccMapper = (\<lambda>t. Inr (True, t)), isExistingFileAccessor = (\<lambda>_ _. False),
     updateBinFileRegionMemAcc = (\<lambda>t _ _. Inr (True, t)), addBinFileRegionMemAcc = (\<lambda>t _ _. Inr (True, t)),
     createDecoder = (\<lambda>t _. Inr (True, t)),
     TraceDataIn_data = (\<lambda>t _ block. Inr (OCSD_RESP_CONT, if length block < 2 ^ 32 then of_nat (length block) else 1, [],
       t @ take (if length block < 2 ^ 32 then length block else 1) block)),
     TraceDataIn_eot = (\<lambda>t _. Inr (OCSD_RESP_CONT, [], t)),
     resp_is_cont = (\<lambda>r. r = OCSD_RESP_CONT), resp_is_fatal = (\<lambda>_. False), resp_code = (\<lambda>_. 0)\<rparr>"

lemma sample_csd_contract: "feed_contract sample_csd (\<lambda>t. t)"
  by (auto simp: feed_contract_def sample_csd_def unat_of_nat take_bit_nat_eq_self unat_eq_0 not_less
      dest: arg_cong [of _ _ unat] split: if_splits)

lemma sample_csd_never_throws: "never_throws sample_csd"
  by (simp add: never_throws_def sample_csd_def)

theorem FeedTraceData_delivers_witness:
  "\<exists>resp calls tree' n. FeedTraceData sample_csd [] [1, 2, 3] = Some (Inr (resp, calls, tree')) \<and>
    n \<le> length [1, 2, 3 :: u8] \<and> tree' = [] @ take n [1, 2, 3] \<and>
    (resp_is_cont sample_csd resp \<longrightarrow> n = length [1, 2, 3 :: u8])"
  by (rule FeedTraceData_delivers [OF sample_csd_contract sample_csd_never_throws]) simp

text \<open>Whatever elements OpenCSD produces, a decode pass never ends in a record index out of
  range in the sink.\<close>

lemma Decode_no_fault: "Decode csd config segments \<noteq> Some (SinkFault e)"
proof -
  have "\<not> (\<exists>e'. sink_run z calls new_sink = Inl e')" for z calls
    using sink_run_ok [OF sink_wf_new, of z calls] by auto
  then have "decode_fed csd tree data \<noteq> Some (SinkFault e)" for tree data
    by (auto simp: decode_fed_def split: option.splits sum.splits if_splits)
  then show ?thesis
    by (auto simp: Decode_def decode_with_image_def split: option.splits sum.splits if_splits)
qed

end
