(* ===== verification/Trace_Transform.thy ===== *)
theory Trace_Transform
  imports Trace_Sink
begin

text \<open>
  \<open>trace_transform\<close>: the projections of the retained record stream.
  \<open>TraceTransform<ReconstructedInstruction>\<close> walks every instruction range through the
  precomputed instruction table, \<open>TraceTransform<FunctionBlock>\<close> groups the executed
  instructions by source line and function, \<open>TraceTransform<TraceGap>\<close> and
  \<open>TraceTransform<ExceptionEvent>\<close> stamp discontinuities and exceptions with the number of
  instructions executed so far.  The table is a parameter \<open>resolve\<close>; the diagnostics the
  code prints to the error stream are not part of the result and are left out.
\<close>

type_synonym resolver = "u64 \<Rightarrow> InstructionInfo option"

section \<open>Reconstructed instructions\<close>

text \<open>The inner loop.  It need not end: an instruction of size 0, or an address that wraps
  past the top of the address space, keeps it running; that is the value \<open>None\<close>.\<close>

partial_function (option) range_walk ::
  "resolver \<Rightarrow> TraceRecord \<Rightarrow> u64 \<Rightarrow> ReconstructedInstruction list \<Rightarrow> ReconstructedInstruction list option"
where
  "range_walk resolve record cur result =
     (if cur < tr_end_addr record then
        (case resolve cur of
           None \<Rightarrow> Some result
         | Some info \<Rightarrow>
             (let nxt = cur + ucast (di_size (ii_insn info));
                  is_last_in_range = (nxt \<ge> tr_end_addr record);
                  reconstructed =
                    \<lparr>ri_insn = ii_insn info, ri_trace_index = tr_index_sop record,
                     ri_trace_id = tr_trace_id record,
                     ri_executed = (\<not> (is_last_in_range \<and> \<not> tr_last_instr_executed record))\<rparr>
              in range_walk resolve record nxt (result @ [reconstructed])))
      else Some result)"

fun reconstruct_loop ::
  "resolver \<Rightarrow> TraceRecord list \<Rightarrow> ReconstructedInstruction list \<Rightarrow> ReconstructedInstruction list option"
where
  "reconstruct_loop resolve [] result = Some result"
| "reconstruct_loop resolve (record # records) result =
     (if tr_kind record \<noteq> kInstructionRange then reconstruct_loop resolve records result
      else (case range_walk resolve record (tr_start_addr record) result of
              None \<Rightarrow> None
            | Some result' \<Rightarrow> reconstruct_loop resolve records result'))"

definition Transform_ReconstructedInstruction ::
  "TraceRecord list \<Rightarrow> resolver \<Rightarrow> ReconstructedInstruction list option" where
  "Transform_ReconstructedInstruction records resolve = reconstruct_loop resolve records []"

section \<open>Function and line blocks\<close>

definition SameFunction :: "SourceLocation \<Rightarrow> SourceLocation \<Rightarrow> bool" where
  "SameFunction a b =
     (let a_empty = (sl_frames a = []); b_empty = (sl_frames b = [])
      in if a_empty \<noteq> b_empty then False
         else if a_empty then True
         else if_function (last (sl_frames a)) = if_function (last (sl_frames b)))"

text \<open>\<open>std::tolower\<close> of the C locale.\<close>

definition tolower :: "char \<Rightarrow> char" where
  "tolower c = (if (65::nat) \<le> of_char c \<and> of_char c \<le> (90::nat) then char_of (of_char c + (32::nat)) else c)"

definition has_suffix :: "string \<Rightarrow> string \<Rightarrow> bool" where
  "has_suffix file suffix =
     (if length file < length suffix then False
      else (let tail = drop (length file - length suffix) file
            in map tolower tail = map tolower suffix))"

definition IsAssemblySourceFile :: "string \<Rightarrow> bool" where
  "IsAssemblySourceFile file \<longleftrightarrow> has_suffix file ''.s'' \<or> has_suffix file ''.asm''"

definition ForceNewLineBlock :: "SourceLocation \<Rightarrow> bool" where
  "ForceNewLineBlock location =
     (case sl_frames location of [] \<Rightarrow> False | f # _ \<Rightarrow> IsAssemblySourceFile (if_file f))"

definition location_at :: "resolver \<Rightarrow> u64 \<Rightarrow> SourceLocation" where
  "location_at resolve address =
     (case resolve address of Some info \<Rightarrow> ii_location info | None \<Rightarrow> \<lparr>sl_frames = []\<rparr>)"

definition new_line_block :: "SourceLocation \<Rightarrow> ReconstructedInstruction \<Rightarrow> LineBlock" where
  "new_line_block location instruction =
     (let address = di_address (ri_insn instruction)
      in \<lparr>lb_location = location, lb_start_addr = address,
          lb_end_addr = address + ucast (di_size (ri_insn instruction)), lb_instr_count = 1,
          lb_trace_index = ri_trace_index instruction, lb_trace_id = ri_trace_id instruction\<rparr>)"

text \<open>\<open>back()\<close> of an empty vector is undefined behaviour: the value \<open>None\<close>.\<close>

definition vec_back :: "'a list \<Rightarrow> 'a option" where
  "vec_back xs = (if xs = [] then None else Some (last xs))"

definition last_location :: "FunctionBlock list \<Rightarrow> SourceLocation option" where
  "last_location functions =
     Option.bind (vec_back functions) (\<lambda>f. map_option lb_location (vec_back (fb_line_blocks f)))"

definition function_block_step ::
  "resolver \<Rightarrow> FunctionBlock list \<Rightarrow> ReconstructedInstruction \<Rightarrow> FunctionBlock list option" where
  "function_block_step resolve functions instruction =
     (if \<not> ri_executed instruction then Some functions
      else
        (let address = di_address (ri_insn instruction);
             location = location_at resolve address;
             need_new_line_block =
               (functions = [] \<or> fb_line_blocks (last functions) = [] \<or>
                lb_location (last (fb_line_blocks (last functions))) \<noteq> location \<or>
                ForceNewLineBlock location)
         in if need_new_line_block then
              (case (if functions = [] then Some True
                     else map_option (\<lambda>l. \<not> SameFunction l location) (last_location functions)) of
                 None \<Rightarrow> None
               | Some need_new_function_block \<Rightarrow>
                   (let functions' =
                          (if need_new_function_block
                           then functions @
                             [\<lparr>fb_function_name =
                                 (if sl_frames location = [] then []
                                  else if_function (last (sl_frames location))),
                               fb_entry_addr = address, fb_line_blocks = []\<rparr>]
                           else functions);
                        f = last functions'
                    in Some (butlast functions' @
                         [f\<lparr>fb_line_blocks := fb_line_blocks f @ [new_line_block location instruction]\<rparr>])))
            else
              (let f = last functions; line_block = last (fb_line_blocks f)
               in Some (butlast functions @
                    [f\<lparr>fb_line_blocks := butlast (fb_line_blocks f) @
                       [line_block\<lparr>lb_end_addr := address + ucast (di_size (ri_insn instruction)),
                                   lb_instr_count := lb_instr_count line_block + 1\<rparr>]\<rparr>]))))"

fun function_block_loop ::
  "resolver \<Rightarrow> ReconstructedInstruction list \<Rightarrow> FunctionBlock list \<Rightarrow> FunctionBlock list option" where
  "function_block_loop resolve [] functions = Some functions"
| "function_block_loop resolve (instruction # instructions) functions =
     (case function_block_step resolve functions instruction of
        None \<Rightarrow> None | Some functions' \<Rightarrow> function_block_loop resolve instructions functions')"

definition Transform_FunctionBlock ::
  "ReconstructedInstruction list \<Rightarrow> resolver \<Rightarrow> FunctionBlock list option" where
  "Transform_FunctionBlock instructions resolve = function_block_loop resolve instructions []"

definition Transform_FunctionBlock_records ::
  "TraceRecord list \<Rightarrow> resolver \<Rightarrow> FunctionBlock list option" where
  "Transform_FunctionBlock_records records resolve =
     (case Transform_ReconstructedInstruction records resolve of
        None \<Rightarrow> None | Some instructions \<Rightarrow> Transform_FunctionBlock instructions resolve)"

section \<open>Gaps and exception events\<close>

definition executed_in_range :: "TraceRecord \<Rightarrow> u32" where
  "executed_in_range record =
     (if tr_last_instr_executed record then tr_num_instr record else tr_num_instr record - 1)"

fun trace_gap_loop :: "u64 \<Rightarrow> TraceGap list \<Rightarrow> TraceRecord list \<Rightarrow> TraceGap list" where
  "trace_gap_loop executed_count gaps [] = gaps"
| "trace_gap_loop executed_count gaps (record # records) =
     (case tr_kind record of
        kInstructionRange \<Rightarrow>
          trace_gap_loop (executed_count + ucast (executed_in_range record)) gaps records
      | kTraceOn \<Rightarrow>
          trace_gap_loop executed_count
            (gaps @ [\<lparr>tg_instruction_index = executed_count,
               tg_reason = (if tr_trace_on_reason record = TRACE_ON_OVERFLOW then kOverflow else kGapTraceOn)\<rparr>])
            records
      | kNoSync \<Rightarrow>
          trace_gap_loop executed_count
            (gaps @ [\<lparr>tg_instruction_index = executed_count,
               tg_reason = (if tr_no_sync_reason record = UNSYNC_OVERFLOW then kOverflow else kGapNoSync)\<rparr>])
            records
      | _ \<Rightarrow> trace_gap_loop executed_count gaps records)"

definition Transform_TraceGap :: "TraceRecord list \<Rightarrow> TraceGap list" where
  "Transform_TraceGap records = trace_gap_loop 0 [] records"

fun exception_event_loop ::
  "u64 \<Rightarrow> ExceptionEvent list \<Rightarrow> TraceRecord list \<Rightarrow> ExceptionEvent list" where
  "exception_event_loop executed_count events [] = events"
| "exception_event_loop executed_count events (record # records) =
     (case tr_kind record of
        kInstructionRange \<Rightarrow>
          exception_event_loop (executed_count + ucast (executed_in_range record)) events records
      | kException \<Rightarrow>
          exception_event_loop executed_count
            (events @ [\<lparr>ee_instruction_index = executed_count,
               ee_exception_number = tr_exception_number record, ee_is_return = False\<rparr>]) records
      | kExceptionReturn \<Rightarrow>
          exception_event_loop executed_count
            (events @ [\<lparr>ee_instruction_index = executed_count,
               ee_exception_number = 0, ee_is_return = True\<rparr>]) records
      | _ \<Rightarrow> exception_event_loop executed_count events records)"

definition Transform_ExceptionEvent :: "TraceRecord list \<Rightarrow> ExceptionEvent list" where
  "Transform_ExceptionEvent records = exception_event_loop 0 [] records"

section \<open>The counting projections\<close>

definition record_weight :: "TraceRecord \<Rightarrow> u64" where
  "record_weight r = (if tr_kind r = kInstructionRange then ucast (executed_in_range r) else 0)"

definition gap_emit :: "u64 \<Rightarrow> TraceRecord \<Rightarrow> TraceGap list" where
  "gap_emit n r = trace_gap_loop n [] [r]"

definition gap_shift :: "u64 \<Rightarrow> TraceGap \<Rightarrow> TraceGap" where
  "gap_shift k g = g\<lparr>tg_instruction_index := k + tg_instruction_index g\<rparr>"

definition event_emit :: "u64 \<Rightarrow> TraceRecord \<Rightarrow> ExceptionEvent list" where
  "event_emit n r = exception_event_loop n [] [r]"

definition event_shift :: "u64 \<Rightarrow> ExceptionEvent \<Rightarrow> ExceptionEvent" where
  "event_shift k g = g\<lparr>ee_instruction_index := k + ee_instruction_index g\<rparr>"

interpretation gaps: counting_projection record_weight gap_emit gap_shift trace_gap_loop
  by unfold_locales
    (auto simp: record_weight_def gap_emit_def gap_shift_def split: TraceRecordKind.splits)

interpretation events: counting_projection record_weight event_emit event_shift exception_event_loop
  by unfold_locales
    (auto simp: record_weight_def event_emit_def event_shift_def split: TraceRecordKind.splits)

section \<open>Walking one range\<close>

locale instruction_resolver =
  fixes resolve :: resolver
  assumes resolve_address: "resolve a = Some info \<Longrightarrow> di_address (ii_insn info) = a"

text \<open>Addresses follow each other, starting at \<open>cur\<close>.\<close>

fun contiguous :: "u64 \<Rightarrow> ReconstructedInstruction list \<Rightarrow> bool" where
  "contiguous cur [] = True"
| "contiguous cur (i # xs) =
     (di_address (ri_insn i) = cur \<and> contiguous (cur + ucast (di_size (ri_insn i))) xs)"

fun walk_end :: "u64 \<Rightarrow> ReconstructedInstruction list \<Rightarrow> u64" where
  "walk_end cur [] = cur"
| "walk_end cur (i # xs) = walk_end (cur + ucast (di_size (ri_insn i))) xs"

definition executed_flags :: "TraceRecord \<Rightarrow> u64 \<Rightarrow> ReconstructedInstruction list \<Rightarrow> bool" where
  "executed_flags record cur xs \<longleftrightarrow>
     list_all ri_executed (butlast xs) \<and>
     (xs \<noteq> [] \<longrightarrow> ri_executed (last xs) =
        (\<not> (walk_end cur xs \<ge> tr_end_addr record \<and> \<not> tr_last_instr_executed record)))"

definition walk_result :: "resolver \<Rightarrow> TraceRecord \<Rightarrow> u64 \<Rightarrow> ReconstructedInstruction list \<Rightarrow> bool" where
  "walk_result resolve record cur xs \<longleftrightarrow>
     contiguous cur xs \<and>
     (walk_end cur xs < tr_end_addr record \<longrightarrow> resolve (walk_end cur xs) = None) \<and>
     list_all (\<lambda>i. map_option ii_insn (resolve (di_address (ri_insn i))) = Some (ri_insn i) \<and>
       di_address (ri_insn i) < tr_end_addr record \<and>
       ri_trace_index i = tr_index_sop record \<and> ri_trace_id i = tr_trace_id record) xs \<and>
     executed_flags record cur xs"

definition sized_table :: "resolver \<Rightarrow> bool" where
  "sized_table resolve \<longleftrightarrow> (\<forall>a info. resolve a = Some info \<longrightarrow> di_size (ii_insn info) \<noteq> 0)"

definition below_top :: "TraceRecord \<Rightarrow> bool" where
  "below_top record \<longleftrightarrow> unat (tr_end_addr record) + 255 \<le> 2 ^ 64"

lemma next_address:
  fixes cur e :: u64 and sz :: u8
  assumes "cur < e" and "unat e + 255 \<le> 2 ^ 64" and "sz \<noteq> 0"
  shows "unat (cur + ucast sz) = unat cur + unat sz" and "cur < cur + ucast sz"
proof -
  have "unat cur < unat e" using assms(1) by (simp add: word_less_nat_alt)
  moreover have "unat sz < 256" by (rule unat_u8_bound)
  ultimately show eq: "unat (cur + ucast sz) = unat cur + unat sz"
    using assms(2) by (subst unat_plus_no_wrap) simp_all
  have "0 < unat sz" using assms(3) by (simp add: unat_gt_0)
  with eq show "cur < cur + ucast sz" by (simp add: word_less_nat_alt)
qed

lemma executed_flags_Cons:
  assumes "xs \<noteq> []"
  shows "executed_flags record cur (i # xs) \<longleftrightarrow>
    ri_executed i \<and> executed_flags record (cur + ucast (di_size (ri_insn i))) xs"
  using assms by (simp add: executed_flags_def)

context instruction_resolver
begin

lemma walk_returns:
  assumes "sized_table resolve" and "below_top record"
  shows "\<exists>xs. (\<forall>acc. range_walk resolve record cur acc = Some (acc @ xs)) \<and> walk_result resolve record cur xs"
proof (induction "unat (tr_end_addr record) - unat cur" arbitrary: cur rule: less_induct)
  case less
  show ?case
  proof (cases "cur < tr_end_addr record")
    case False
    then show ?thesis
      by (intro exI [of _ "[]"])
        (simp add: range_walk.simps walk_result_def executed_flags_def)
  next
    case lt: True
    show ?thesis
    proof (cases "resolve cur")
      case None
      with lt show ?thesis
        by (intro exI [of _ "[]"]) (simp add: range_walk.simps walk_result_def executed_flags_def)
    next
      case (Some info)
      let ?nxt = "cur + ucast (di_size (ii_insn info))"
      let ?r = "\<lparr>ri_insn = ii_insn info, ri_trace_index = tr_index_sop record,
         ri_trace_id = tr_trace_id record,
         ri_executed = (\<not> (?nxt \<ge> tr_end_addr record \<and> \<not> tr_last_instr_executed record))\<rparr>"
      have "di_size (ii_insn info) \<noteq> 0" using assms(1) Some by (simp add: sized_table_def)
      with lt assms(2) have "cur < ?nxt" by (simp add: below_top_def next_address)
      then have "unat (tr_end_addr record) - unat ?nxt < unat (tr_end_addr record) - unat cur"
        using lt by (simp add: word_less_nat_alt)
      from less.hyps [OF this] obtain xs where
        step: "\<And>acc. range_walk resolve record ?nxt acc = Some (acc @ xs)"
        and res: "walk_result resolve record ?nxt xs" by blast
      have "range_walk resolve record cur acc = Some (acc @ ?r # xs)" for acc
        using step [of "acc @ [?r]"] lt Some by (simp add: range_walk.simps [of resolve "record" cur] Let_def)
      moreover have "walk_result resolve record cur (?r # xs)"
      proof (cases "xs = []")
        case True
        with res lt Some resolve_address [OF Some] show ?thesis
          by (simp add: walk_result_def executed_flags_def)
      next
        case False
        have "\<not> tr_end_addr record \<le> ?nxt"
          using step [of "[]"] False by (subst (asm) range_walk.simps) (auto split: if_splits)
        with False res lt Some resolve_address [OF Some] show ?thesis
          by (simp add: walk_result_def executed_flags_Cons)
      qed
      ultimately show ?thesis by blast
    qed
  qed
qed

lemma reconstruct_loop_returns:
  assumes "sized_table resolve"
  shows "list_all (\<lambda>r. tr_kind r = kInstructionRange \<longrightarrow> below_top r) records \<Longrightarrow>
    \<exists>parts. reconstruct_loop resolve records acc = Some (acc @ concat parts) \<and>
      list_all2 (\<lambda>r xs. range_walk resolve r (tr_start_addr r) [] = Some xs \<and> walk_result resolve r (tr_start_addr r) xs)
        (filter (\<lambda>r. tr_kind r = kInstructionRange) records) parts"
proof (induction records arbitrary: acc)
  case Nil
  then show ?case by simp
next
  case (Cons r records)
  show ?case
  proof (cases "tr_kind r = kInstructionRange")
    case False
    with Cons show ?thesis by simp
  next
    case True
    with Cons.prems have "below_top r" by simp
    from walk_returns [OF assms this, of "tr_start_addr r"] obtain xs where
      xs: "\<And>acc. range_walk resolve r (tr_start_addr r) acc = Some (acc @ xs)"
        "walk_result resolve r (tr_start_addr r) xs" by blast
    from Cons.IH [of "acc @ xs"] Cons.prems obtain parts where
      "reconstruct_loop resolve records (acc @ xs) = Some (acc @ xs @ concat parts)"
      "list_all2 (\<lambda>r xs. range_walk resolve r (tr_start_addr r) [] = Some xs \<and> walk_result resolve r (tr_start_addr r) xs)
        (filter (\<lambda>r. tr_kind r = kInstructionRange) records) parts" by auto
    with True xs show ?thesis by (intro exI [of _ "xs # parts"]) simp
  qed
qed

end

text \<open>A range whose walk reached its end with as many instructions as the trace counted.\<close>

definition range_counted :: "TraceRecord \<Rightarrow> ReconstructedInstruction list \<Rightarrow> bool" where
  "range_counted r xs \<longleftrightarrow> xs \<noteq> [] \<and> walk_end (tr_start_addr r) xs \<ge> tr_end_addr r \<and>
     length xs = unat (tr_num_instr r)"

lemma executed_count_range:
  assumes "executed_flags r (tr_start_addr r) xs" and "range_counted r xs"
  shows "length (filter ri_executed xs) = unat (executed_in_range r)"
proof -
  from assms(2) have ne: "xs \<noteq> []" and len: "length xs = unat (tr_num_instr r)"
    by (simp_all add: range_counted_def)
  from ne have pos: "0 < length xs" by simp
  with len have "tr_num_instr r \<noteq> 0" by auto
  then have pred: "unat (tr_num_instr r - 1) = length xs - 1"
    using len by (simp add: unat_minus_one)
  have "filter ri_executed xs = butlast xs @ (if ri_executed (last xs) then [last xs] else [])"
    using assms(1) ne unfolding executed_flags_def
    by (subst append_butlast_last_id [OF ne, symmetric], subst filter_append)
      (simp add: list_all_iff filter_id_conv)
  with assms ne len pred pos show ?thesis
    by (simp add: executed_flags_def range_counted_def executed_in_range_def)
qed

section \<open>Grouping by line and function\<close>

definition function_key :: "SourceLocation \<Rightarrow> string option" where
  "function_key l = (if sl_frames l = [] then None else Some (if_function (last (sl_frames l))))"

lemma SameFunction_key [simp]: "SameFunction a b \<longleftrightarrow> function_key a = function_key b"
  by (auto simp: SameFunction_def function_key_def)

definition block_key :: "FunctionBlock \<Rightarrow> string option" where
  "block_key f = function_key (lb_location (hd (fb_line_blocks f)))"

definition function_block_ok :: "FunctionBlock \<Rightarrow> bool" where
  "function_block_ok f \<longleftrightarrow> fb_line_blocks f \<noteq> [] \<and>
     fb_entry_addr f = lb_start_addr (hd (fb_line_blocks f)) \<and>
     fb_function_name f = (case block_key f of None \<Rightarrow> [] | Some n \<Rightarrow> n) \<and>
     list_all (\<lambda>b. function_key (lb_location b) = block_key f) (fb_line_blocks f)"

definition split_lines :: "LineBlock \<Rightarrow> LineBlock \<Rightarrow> bool" where
  "split_lines a b \<longleftrightarrow> lb_location a \<noteq> lb_location b \<or> ForceNewLineBlock (lb_location b)"

definition blocks_ok :: "FunctionBlock list \<Rightarrow> bool" where
  "blocks_ok fs \<longleftrightarrow> list_all function_block_ok fs \<and>
     successively (\<lambda>f g. block_key f \<noteq> block_key g) fs \<and>
     list_all (\<lambda>f. successively split_lines (fb_line_blocks f)) fs"

definition line_blocks :: "FunctionBlock list \<Rightarrow> LineBlock list" where
  "line_blocks fs = concat (map fb_line_blocks fs)"

definition line_locations :: "LineBlock list \<Rightarrow> SourceLocation list" where
  "line_locations bs = concat (map (\<lambda>b. replicate (unat (lb_instr_count b)) (lb_location b)) bs)"

definition instruction_locations :: "resolver \<Rightarrow> ReconstructedInstruction list \<Rightarrow> SourceLocation list" where
  "instruction_locations resolve xs =
     map (\<lambda>i. location_at resolve (di_address (ri_insn i))) (filter ri_executed xs)"

lemma line_locations_append [simp]: "line_locations (xs @ ys) = line_locations xs @ line_locations ys"
  by (simp add: line_locations_def)

lemma line_locations_Nil [simp]: "line_locations [] = []"
  by (simp add: line_locations_def)

lemma line_locations_pair [simp]: "line_locations [a, b] = line_locations [a] @ line_locations [b]"
  by (simp add: line_locations_def)

lemma line_locations_new [simp]: "line_locations [new_line_block l i] = [l]"
  by (simp add: line_locations_def new_line_block_def Let_def)

lemma new_line_block_simps [simp]:
  "lb_location (new_line_block l i) = l"
  "lb_start_addr (new_line_block l i) = di_address (ri_insn i)"
  by (simp_all add: new_line_block_def Let_def)

lemma function_block_ok_snoc:
  assumes "function_block_ok f" and "function_key (lb_location b) = block_key f"
  shows "function_block_ok (f\<lparr>fb_line_blocks := fb_line_blocks f @ [b]\<rparr>)"
    and "block_key (f\<lparr>fb_line_blocks := fb_line_blocks f @ [b]\<rparr>) = block_key f"
proof -
  from assms(1) have ne: "fb_line_blocks f \<noteq> []" by (simp add: function_block_ok_def)
  then show key: "block_key (f\<lparr>fb_line_blocks := fb_line_blocks f @ [b]\<rparr>) = block_key f"
    by (simp add: block_key_def)
  from assms ne show "function_block_ok (f\<lparr>fb_line_blocks := fb_line_blocks f @ [b]\<rparr>)"
    unfolding function_block_ok_def key by simp
qed

lemma function_block_ok_replace:
  assumes "function_block_ok f" and "fb_line_blocks f = bs @ [b]"
    and "lb_location b' = lb_location b" and "lb_start_addr b' = lb_start_addr b"
  shows "function_block_ok (f\<lparr>fb_line_blocks := bs @ [b']\<rparr>)"
    and "block_key (f\<lparr>fb_line_blocks := bs @ [b']\<rparr>) = block_key f"
proof -
  show key: "block_key (f\<lparr>fb_line_blocks := bs @ [b']\<rparr>) = block_key f"
    using assms(2,3) by (cases bs) (simp_all add: block_key_def)
  show "function_block_ok (f\<lparr>fb_line_blocks := bs @ [b']\<rparr>)"
    using assms unfolding function_block_ok_def key by (cases bs) simp_all
qed

lemma blocks_ok_replace_last:
  assumes "blocks_ok (gs @ [f])" and "function_block_ok f'" and "block_key f' = block_key f"
    and "successively split_lines (fb_line_blocks f')"
  shows "blocks_ok (gs @ [f'])"
  using assms by (auto simp: blocks_ok_def successively_append_iff)

lemma function_block_step_executed:
  assumes ok: "blocks_ok fs" and ex: "ri_executed i"
    and room: "length (line_locations (line_blocks fs)) < 2 ^ 32 - 1"
  shows "\<exists>fs'. function_block_step resolve fs i = Some fs' \<and> blocks_ok fs' \<and>
    line_locations (line_blocks fs') =
      line_locations (line_blocks fs) @ [location_at resolve (di_address (ri_insn i))]"
proof (cases fs rule: rev_cases)
  case Nil
  with ex show ?thesis
    by (simp add: function_block_step_def blocks_ok_def function_block_ok_def block_key_def
        line_blocks_def function_key_def Let_def)
next
  case (snoc gs f)
  with ok have ok': "blocks_ok (gs @ [f])" by simp
  then have f: "function_block_ok f" "successively split_lines (fb_line_blocks f)"
    by (simp_all add: blocks_ok_def)
  then obtain bs b where b: "fb_line_blocks f = bs @ [b]"
    by (cases "fb_line_blocks f" rule: rev_cases) (auto simp: function_block_ok_def)
  let ?l = "location_at resolve (di_address (ri_insn i))"
  show ?thesis
  proof (cases "lb_location b \<noteq> ?l \<or> ForceNewLineBlock ?l")
    case new_line: True
    then have split: "split_lines b (new_line_block ?l i)" by (simp add: split_lines_def)
    have key_b: "function_key (lb_location b) = block_key f"
      using f b by (simp add: function_block_ok_def)
    show ?thesis
    proof (cases "function_key (lb_location b) = function_key ?l")
      case True
      let ?f = "f\<lparr>fb_line_blocks := fb_line_blocks f @ [new_line_block ?l i]\<rparr>"
      have key_l: "function_key (lb_location (new_line_block ?l i)) = block_key f"
        using key_b True by simp
      have "successively split_lines (fb_line_blocks ?f)"
        using f b split by (simp add: successively_append_iff)
      then have "blocks_ok (gs @ [?f])"
        by (rule blocks_ok_replace_last [OF ok' function_block_ok_snoc [OF f(1) key_l]])
      moreover have "function_block_step resolve fs i = Some (gs @ [?f])"
        using snoc ex b new_line True
        by (simp add: function_block_step_def last_location_def vec_back_def Let_def)
      ultimately show ?thesis using snoc b by (simp add: line_blocks_def)
    next
      case False
      let ?g = "\<lparr>fb_function_name = (if sl_frames ?l = [] then [] else if_function (last (sl_frames ?l))),
         fb_entry_addr = di_address (ri_insn i), fb_line_blocks = [new_line_block ?l i]\<rparr>"
      have "function_block_ok ?g" "block_key ?g = function_key ?l"
        by (simp_all add: function_block_ok_def block_key_def function_key_def)
      with ok snoc key_b False have "blocks_ok (fs @ [?g])"
        by (auto simp: blocks_ok_def successively_append_iff)
      moreover have "function_block_step resolve fs i = Some (fs @ [?g])"
        using snoc ex b new_line False
        by (simp add: function_block_step_def last_location_def vec_back_def butlast_append Let_def)
      ultimately show ?thesis using snoc b by (simp add: line_blocks_def)
    qed
  next
    case same: False
    let ?b = "b\<lparr>lb_end_addr := di_address (ri_insn i) + ucast (di_size (ri_insn i)),
        lb_instr_count := lb_instr_count b + 1\<rparr>"
    let ?f = "f\<lparr>fb_line_blocks := bs @ [?b]\<rparr>"
    have "length (line_locations [b]) \<le> length (line_locations (line_blocks fs))"
      using snoc b by (simp add: line_blocks_def)
    with room have "unat (lb_instr_count b) + 1 < 2 ^ 32" by (simp add: line_locations_def)
    then have "unat (lb_instr_count b + 1) = unat (lb_instr_count b) + 1"
      by (subst unat_plus_no_wrap) simp_all
    with same have dec: "line_locations [?b] = line_locations [b] @ [?l]"
      by (simp add: line_locations_def replicate_append_same)
    have "successively split_lines (bs @ [?b])"
      using f b by (cases bs rule: rev_cases) (auto simp: successively_append_iff split_lines_def)
    then have "successively split_lines (fb_line_blocks ?f)" by simp
    note lines = this
    have fields: "lb_location ?b = lb_location b" "lb_start_addr ?b = lb_start_addr b" by simp_all
    from lines have "blocks_ok (gs @ [?f])"
      by (rule blocks_ok_replace_last [OF ok' function_block_ok_replace [OF f(1) b fields]])
    moreover have "function_block_step resolve fs i = Some (gs @ [?f])"
      using snoc ex b same by (simp add: function_block_step_def Let_def)
    ultimately show ?thesis using snoc b dec by (simp add: line_blocks_def)
  qed
qed

lemma function_block_loop_ok:
  "blocks_ok fs \<Longrightarrow> length (line_locations (line_blocks fs)) + length (filter ri_executed xs) < 2 ^ 32 \<Longrightarrow>
   \<exists>fs'. function_block_loop resolve xs fs = Some fs' \<and> blocks_ok fs' \<and>
     line_locations (line_blocks fs') = line_locations (line_blocks fs) @ instruction_locations resolve xs"
proof (induction xs arbitrary: fs)
  case Nil
  then show ?case by (simp add: instruction_locations_def)
next
  case (Cons i xs)
  show ?case
  proof (cases "ri_executed i")
    case False
    with Cons show ?thesis by (simp add: function_block_step_def instruction_locations_def)
  next
    case True
    with Cons.prems have "length (line_locations (line_blocks fs)) < 2 ^ 32 - 1" by simp
    from function_block_step_executed [OF Cons.prems(1) True this, of resolve] obtain gs where
      gs: "function_block_step resolve fs i = Some gs" "blocks_ok gs"
        "line_locations (line_blocks gs) =
          line_locations (line_blocks fs) @ [location_at resolve (di_address (ri_insn i))]" by blast
    from Cons.IH [OF gs(2), of] gs Cons.prems(2) True show ?thesis
      by (simp add: instruction_locations_def)
  qed
qed

section \<open>Properties of the projections\<close>

text \<open>C15: grouping never reads an empty vector, and it is a lossless run-length encoding of
  the executed instructions: repeating each line block's location as often as it counted
  instructions gives back, in order, the source location of every executed instruction.
  The blocks are maximal: neighbouring function blocks belong to different functions, every
  line block of a function block belongs to its function, and neighbouring line blocks
  differ in location unless the file is assembly source.  The 32-bit counter bounds the
  number of executed instructions.\<close>

theorem function_blocks_lossless:
  assumes "length (filter ri_executed xs) < 2 ^ 32"
  shows "\<exists>fs. Transform_FunctionBlock xs resolve = Some fs \<and> blocks_ok fs \<and>
    line_locations (line_blocks fs) = instruction_locations resolve xs"
  using function_block_loop_ok [of "[]" xs resolve] assms
  by (simp add: Transform_FunctionBlock_def blocks_ok_def line_blocks_def)

text \<open>A two-line C function with two instructions on its first line.\<close>

definition sample_insn :: "u64 \<Rightarrow> DecodedInstruction" where
  "sample_insn a =
     \<lparr>di_address = a, di_size = 2, di_isa = kThumb, di_bytes = ''00 bf'', di_mnemonic = ''nop'',
      di_operands = [], di_text = ''nop'', is_branch = False, is_call = False, is_return = False,
      is_indirect = False, is_conditional = False, branch_target = None\<rparr>"

definition sample_info :: "u64 \<Rightarrow> u32 \<Rightarrow> InstructionInfo" where
  "sample_info a line = \<lparr>ii_insn = sample_insn a, ii_location =
     \<lparr>sl_frames = [\<lparr>if_function = ''main'', if_file = ''main.c'', if_line = line, if_column = 3\<rparr>]\<rparr>\<rparr>"

definition sample_table :: "InstructionInfo list" where
  "sample_table = [sample_info 0x1000 10, sample_info 0x1002 10, sample_info 0x1004 11]"

definition sample_resolve :: resolver where
  "sample_resolve a = List.find (\<lambda>i. di_address (ii_insn i) = a) sample_table"

definition sample_instructions :: "ReconstructedInstruction list" where
  "sample_instructions =
     map (\<lambda>i. \<lparr>ri_insn = ii_insn i, ri_trace_index = 0, ri_trace_id = 1, ri_executed = True\<rparr>) sample_table"

theorem function_blocks_lossless_witness:
  "\<exists>fs. Transform_FunctionBlock sample_instructions sample_resolve = Some fs \<and>
     line_locations (line_blocks fs) =
       map ii_location [sample_info 0x1000 10, sample_info 0x1002 10, sample_info 0x1004 11]"
proof -
  have "length (filter ri_executed sample_instructions) < 2 ^ 32"
    by (simp add: sample_instructions_def sample_table_def)
  from function_blocks_lossless [OF this, of sample_resolve] show ?thesis
    by (auto simp: instruction_locations_def location_at_def sample_instructions_def sample_table_def
        sample_resolve_def sample_info_def sample_insn_def)
qed

text \<open>the gap of a discontinuity record carries the number of instructions executed by all
  the ranges before it, and the gaps after it are those of the rest of the stream moved by
  that number: projecting a stream piecewise and adding offsets loses nothing.\<close>

lemma trace_gap_indices:
  "Transform_TraceGap (rs @ r # ss) =
     Transform_TraceGap rs @
     (let n = sum_list (map record_weight rs)
      in map (gap_shift n) (Transform_TraceGap [r]) @
         map (gap_shift (n + record_weight r)) (Transform_TraceGap ss))"
  unfolding Transform_TraceGap_def Let_def
  by (rule gaps.run_split)

text \<open>exception entries and returns are stamped against the same executed-instruction
  count as the gaps, so both projections of one stream can be merged by index.\<close>

lemma exception_event_indices:
  "Transform_ExceptionEvent (rs @ r # ss) =
     Transform_ExceptionEvent rs @
     (let n = sum_list (map record_weight rs)
      in map (event_shift n) (Transform_ExceptionEvent [r]) @
         map (event_shift (n + record_weight r)) (Transform_ExceptionEvent ss))"
  unfolding Transform_ExceptionEvent_def Let_def
  by (rule events.run_split)

end
