(* ===== verification/Program_Disassembler.thy ===== *)
theory Program_Disassembler
  imports Trace_Transform
begin

text \<open>
  \<open>disassembler\<close>: the table of every instruction of a firmware image.  Mapping symbols
  split each executable section into code spans, each span is decoded once, and the sorted
  result answers every later lookup by address.  LLVM's decoder, printer, branch analysis
  and DWARF reader are parameters.
\<close>

section \<open>What LLVM provides\<close>

record 'inst InstrAnalysis =
  an_isIndirectBranch :: "'inst \<Rightarrow> bool"
  an_isCall :: "'inst \<Rightarrow> bool"
  an_isReturn :: "'inst \<Rightarrow> bool"
  an_isConditionalBranch :: "'inst \<Rightarrow> bool"
  an_isBranch :: "'inst \<Rightarrow> bool"
  an_isUnconditionalBranch :: "'inst \<Rightarrow> bool"
  an_evaluateBranch :: "'inst \<Rightarrow> u64 \<Rightarrow> u64 \<Rightarrow> u64 option"

text \<open>\<open>getInstruction\<close> answers whether decoding failed, the size it consumed and the
  instruction.\<close>

record 'inst IsaContext =
  cx_getInstruction :: "u8 list \<Rightarrow> u64 \<Rightarrow> bool \<times> u64 \<times> 'inst"
  cx_printInst :: "'inst \<Rightarrow> u64 \<Rightarrow> string"
  cx_instr_analysis :: "'inst InstrAnalysis option"

record DILineInfo =
  dl_FunctionName :: string
  dl_FileName :: string
  dl_Line :: u32
  dl_Column :: u32

record DWARFContext =
  dw_getInliningInfoForAddress :: "u64 \<Rightarrow> DILineInfo list"
  dw_BadString :: string

record ProgramHeader =
  ph_is_load :: bool
  ph_vaddr :: u64
  ph_offset :: u64
  ph_filesz :: u64

section \<open>Load segments\<close>

definition CollectLoadSegments :: "ProgramHeader list option \<Rightarrow> LoadSegment list \<Rightarrow> LoadSegment list" where
  "CollectLoadSegments phdrs out =
     (case phdrs of None \<Rightarrow> out
      | Some hs \<Rightarrow> foldl (\<lambda>acc h. if \<not> ph_is_load h \<or> ph_filesz h = 0 then acc
          else acc @ [\<lparr>ls_vaddr = ph_vaddr h, ls_file_offset = ph_offset h, ls_size = ph_filesz h\<rparr>]) out hs)"

section \<open>Text of an instruction\<close>

definition hex_digit :: "u8 \<Rightarrow> char" where
  "hex_digit n = ''0123456789abcdef'' ! unat n"

fun FormatBytes_from :: "bool \<Rightarrow> u8 list \<Rightarrow> string" where
  "FormatBytes_from first [] = []"
| "FormatBytes_from first (b # bs) =
     (if first then [] else '' '') @
     [hex_digit (drop_bit 4 b AND 0xF), hex_digit (b AND 0xF)] @ FormatBytes_from False bs"

definition FormatBytes :: "u8 list \<Rightarrow> string" where
  "FormatBytes data = FormatBytes_from True data"

text \<open>\<open>find(s) != npos\<close>: the string occurs somewhere.\<close>

fun contains_str :: "string \<Rightarrow> string \<Rightarrow> bool" where
  "contains_str s [] = (s = [])"
| "contains_str s (c # cs) = (take (length s) (c # cs) = s \<or> contains_str s cs)"

definition LooksLikeReturn :: "string \<Rightarrow> string \<Rightarrow> bool" where
  "LooksLikeReturn mnemonic operands =
     (if mnemonic = ''bx'' then operands = ''lr''
      else if take 3 mnemonic = ''pop'' then contains_str ''pc'' operands
      else False)"

definition is_blank :: "char \<Rightarrow> bool" where
  "is_blank c \<longleftrightarrow> c = CHR '' '' \<or> c = CHR 0x09"

definition SplitMnemonicOperands :: "string \<Rightarrow> string \<times> string" where
  "SplitMnemonicOperands text =
     (let t = dropWhile is_blank text
      in if t = [] then ([], [])
         else (let rest = dropWhile (\<lambda>c. \<not> is_blank c) t
               in if rest = [] then (t, [])
                  else (takeWhile (\<lambda>c. \<not> is_blank c) t, dropWhile is_blank rest)))"

definition ResolveLocation :: "DWARFContext option \<Rightarrow> u64 \<Rightarrow> SourceLocation" where
  "ResolveLocation dwarf_context address =
     (case dwarf_context of None \<Rightarrow> \<lparr>sl_frames = []\<rparr>
      | Some d \<Rightarrow> \<lparr>sl_frames = map (\<lambda>frame.
          \<lparr>if_function = (if dl_FunctionName frame = dw_BadString d then [] else dl_FunctionName frame),
           if_file = (if dl_FileName frame = dw_BadString d then [] else dl_FileName frame),
           if_line = dl_Line frame, if_column = dl_Column frame\<rparr>)
          (dw_getInliningInfoForAddress d address)\<rparr>)"

section \<open>Mapping symbols and code spans\<close>

record MappingSymbol =
  ms_address :: u64
  ms_kind :: char

definition ParseMappingSymbolKind :: "string \<Rightarrow> char option" where
  "ParseMappingSymbolKind name =
     (if length name < 2 \<or> name ! 0 \<noteq> CHR ''$'' then None
      else if name ! 1 \<noteq> CHR ''a'' \<and> name ! 1 \<noteq> CHR ''t'' \<and> name ! 1 \<noteq> CHR ''d'' then None
      else if length name > 2 \<and> name ! 2 \<noteq> CHR ''.'' then None
      else Some (name ! 1))"

text \<open>A symbol of the object file as LLVM reports it: its name, whether it lies in the
  section asked for, and its address; \<open>None\<close> is a read error.\<close>

record ObjectSymbol =
  os_name :: "string option"
  os_in_section :: bool
  os_address :: "u64 option"

definition CollectMappingSymbols ::
  "((MappingSymbol \<Rightarrow> u64) \<Rightarrow> MappingSymbol list \<Rightarrow> MappingSymbol list) \<Rightarrow> ObjectSymbol list \<Rightarrow> MappingSymbol list" where
  "CollectMappingSymbols srt syms =
     srt ms_address (List.map_filter (\<lambda>s.
       case os_name s of None \<Rightarrow> None
       | Some name \<Rightarrow>
         (case ParseMappingSymbolKind name of None \<Rightarrow> None
          | Some kind \<Rightarrow>
            (if \<not> os_in_section s then None
             else (case os_address s of None \<Rightarrow> None
                   | Some a \<Rightarrow> Some \<lparr>ms_address = a, ms_kind = kind\<rparr>)))) syms)"

record CodeSpan =
  cs_start :: u64
  cs_end :: u64
  cs_isa :: InstructionSet

definition span_of :: "MappingSymbol \<Rightarrow> u64 \<Rightarrow> CodeSpan list" where
  "span_of m e =
     (if ms_address m \<ge> e then []
      else if ms_kind m = CHR ''a'' then [\<lparr>cs_start = ms_address m, cs_end = e, cs_isa = kArm\<rparr>]
      else if ms_kind m = CHR ''t'' then [\<lparr>cs_start = ms_address m, cs_end = e, cs_isa = kThumb\<rparr>]
      else [])"

fun spans_from :: "u64 \<Rightarrow> MappingSymbol list \<Rightarrow> CodeSpan list" where
  "spans_from section_end [] = []"
| "spans_from section_end [m] = span_of m section_end"
| "spans_from section_end (m # m' # ms) = span_of m (ms_address m') @ spans_from section_end (m' # ms)"

definition BuildCodeSpans :: "u64 \<Rightarrow> u64 \<Rightarrow> MappingSymbol list \<Rightarrow> CodeSpan list" where
  "BuildCodeSpans section_start section_end mapping_symbols =
     (if mapping_symbols = []
      then [\<lparr>cs_start = section_start, cs_end = section_end, cs_isa = kThumb\<rparr>]
      else spans_from section_end mapping_symbols)"

section \<open>Decoding a span\<close>

record 'inst Disassembler =
  thumb_ctx :: "'inst IsaContext option"
  arm_ctx :: "'inst IsaContext option"
  dwarf_context :: "DWARFContext option"

definition GetContext :: "'inst Disassembler \<Rightarrow> InstructionSet \<Rightarrow> 'inst IsaContext option" where
  "GetContext d isa =
     (case isa of kThumb \<Rightarrow> thumb_ctx d | kArm \<Rightarrow> arm_ctx d | kUnknown \<Rightarrow> None)"

definition decode_info ::
  "'inst IsaContext \<Rightarrow> DWARFContext option \<Rightarrow> InstructionSet \<Rightarrow> u8 list \<Rightarrow> u64 \<Rightarrow> u64 \<Rightarrow> 'inst \<Rightarrow> InstructionInfo" where
  "decode_info ctx dwarf isa bytes cur sz inst =
     (let (mnemonic, operands) = SplitMnemonicOperands (cx_printInst ctx inst cur);
          text = (if operands = [] then mnemonic else mnemonic @ '' '' @ operands);
          base = \<lparr>di_address = cur, di_size = ucast sz, di_isa = isa,
            di_bytes = FormatBytes (take (unat sz) bytes), di_mnemonic = mnemonic,
            di_operands = operands, di_text = text, is_branch = False, is_call = False,
            is_return = False, is_indirect = False, is_conditional = False, branch_target = None\<rparr>;
          decoded =
            (case cx_instr_analysis ctx of
               None \<Rightarrow> base
             | Some an \<Rightarrow>
                 (let indirect = an_isIndirectBranch an inst;
                      call = an_isCall an inst;
                      ret = (an_isReturn an inst \<or> LooksLikeReturn mnemonic operands);
                      cond = an_isConditionalBranch an inst;
                      branch = (call \<or> ret \<or> indirect \<or> cond \<or> an_isBranch an inst \<or>
                        an_isUnconditionalBranch an inst)
                  in base\<lparr>is_indirect := indirect, is_call := call, is_return := ret,
                       is_conditional := cond, is_branch := branch,
                       branch_target := (if branch \<and> \<not> indirect
                         then an_evaluateBranch an inst cur sz else None)\<rparr>))
      in \<lparr>ii_insn = decoded, ii_location = ResolveLocation dwarf cur\<rparr>)"

partial_function (option) decode_span_loop ::
  "'inst IsaContext \<Rightarrow> DWARFContext option \<Rightarrow> CodeSpan \<Rightarrow> u8 list \<Rightarrow> u64 \<Rightarrow> u64 \<Rightarrow> u64
     \<Rightarrow> InstructionInfo list \<Rightarrow> InstructionInfo list option"
where
  "decode_span_loop ctx dwarf span section_bytes section_base section_size cur instructions =
     (if cur < cs_end span then
        (let offset = cur - section_base
         in if offset \<ge> section_size then Some instructions
            else
              (let bytes = drop (unat offset) section_bytes;
                   available = section_size - offset;
                   (failed, sz, inst) = cx_getInstruction ctx (take (unat available) bytes) cur;
                   min_step = (if cs_isa span = kThumb then 2 else 4)
               in if failed
                  then decode_span_loop ctx dwarf span section_bytes section_base section_size
                         (cur + (if sz \<noteq> 0 then sz else min_step)) instructions
                  else if sz = 0
                  then decode_span_loop ctx dwarf span section_bytes section_base section_size
                         (cur + min_step) instructions
                  else decode_span_loop ctx dwarf span section_bytes section_base section_size
                         (cur + sz)
                         (instructions @ [decode_info ctx dwarf (cs_isa span) bytes cur sz inst])))
      else Some instructions)"

definition DecodeSpan ::
  "'inst Disassembler \<Rightarrow> CodeSpan \<Rightarrow> u8 list \<Rightarrow> u64 \<Rightarrow> u64 \<Rightarrow> InstructionInfo list \<Rightarrow> InstructionInfo list option" where
  "DecodeSpan d span section_bytes section_base section_size instructions =
     (case GetContext d (cs_isa span) of
        None \<Rightarrow> Some instructions
      | Some ctx \<Rightarrow> decode_span_loop ctx (dwarf_context d) span section_bytes section_base section_size
                     (cs_start span) instructions)"

section \<open>The table\<close>

text \<open>The sections as LLVM reports them; \<open>None\<close> contents is a read error.\<close>

record TextSection =
  se_is_text :: bool
  se_address :: u64
  se_size :: u64
  se_contents :: "u8 list option"
  se_symbols :: "ObjectSymbol list"

fun decode_spans ::
  "'inst Disassembler \<Rightarrow> u8 list \<Rightarrow> u64 \<Rightarrow> u64 \<Rightarrow> CodeSpan list \<Rightarrow> InstructionInfo list \<Rightarrow> InstructionInfo list option" where
  "decode_spans d bytes base sz [] instructions = Some instructions"
| "decode_spans d bytes base sz (span # spans) instructions =
     (case DecodeSpan d span bytes base sz instructions of
        None \<Rightarrow> None | Some instructions' \<Rightarrow> decode_spans d bytes base sz spans instructions')"

fun decode_sections ::
  "((MappingSymbol \<Rightarrow> u64) \<Rightarrow> MappingSymbol list \<Rightarrow> MappingSymbol list) \<Rightarrow> 'inst Disassembler
     \<Rightarrow> TextSection list \<Rightarrow> InstructionInfo list \<Rightarrow> InstructionInfo list option" where
  "decode_sections srt d [] instructions = Some instructions"
| "decode_sections srt d (se # ses) instructions =
     (if \<not> se_is_text se \<or> se_size se = 0 then decode_sections srt d ses instructions
      else (case se_contents se of
              None \<Rightarrow> decode_sections srt d ses instructions
            | Some bytes \<Rightarrow>
                (let spans = BuildCodeSpans (se_address se) (se_address se + se_size se)
                       (CollectMappingSymbols srt (se_symbols se))
                 in case decode_spans d bytes (se_address se) (se_size se) spans instructions of
                      None \<Rightarrow> None
                    | Some instructions' \<Rightarrow> decode_sections srt d ses instructions')))"

definition load_instructions ::
  "((MappingSymbol \<Rightarrow> u64) \<Rightarrow> MappingSymbol list \<Rightarrow> MappingSymbol list)
     \<Rightarrow> ((InstructionInfo \<Rightarrow> u64) \<Rightarrow> InstructionInfo list \<Rightarrow> InstructionInfo list)
     \<Rightarrow> 'inst Disassembler \<Rightarrow> TextSection list \<Rightarrow> InstructionInfo list option" where
  "load_instructions srt_syms srt d ses =
     map_option (srt (\<lambda>i. di_address (ii_insn i))) (decode_sections srt_syms d ses [])"

definition quoted :: "string \<Rightarrow> string" where
  "quoted s = CHR 0x27 # s @ [CHR 0x27]"

text \<open>Opening the file, LLVM's target setup and the DWARF reader are parameters of \<open>Load\<close>.\<close>

record ObjectFile =
  of_isELF :: bool
  of_known_class :: bool
  of_program_headers :: "ProgramHeader list option"
  of_sections :: "TextSection list"

record 'inst LoadEnv =
  env_createBinary :: "string \<Rightarrow> string + ObjectFile option"
  env_BuildIsaContext :: "string \<Rightarrow> string \<Rightarrow> string + 'inst IsaContext"
  env_DWARFContext :: "ObjectFile \<Rightarrow> DWARFContext option"
  env_sort_symbols :: "(MappingSymbol \<Rightarrow> u64) \<Rightarrow> MappingSymbol list \<Rightarrow> MappingSymbol list"
  env_sort_instructions :: "(InstructionInfo \<Rightarrow> u64) \<Rightarrow> InstructionInfo list \<Rightarrow> InstructionInfo list"

definition ExtractLoadSegments :: "ObjectFile \<Rightarrow> LoadSegment list \<Rightarrow> string + LoadSegment list" where
  "ExtractLoadSegments obj out =
     (if of_known_class obj then Inr (CollectLoadSegments (of_program_headers obj) out)
      else Inl ''unsupported ELF class/endianness'')"

record 'inst ProgramDisassembler =
  load_segments :: "LoadSegment list"
  decoders :: "'inst Disassembler"
  instructions :: "InstructionInfo list"

definition Load :: "'inst LoadEnv \<Rightarrow> string \<Rightarrow> (string + 'inst ProgramDisassembler) option" where
  "Load env path =
     (case env_createBinary env path of
        Inl e \<Rightarrow> Some (Inl (''disassembler: failed to load '' @ quoted path @ '': '' @ e))
      | Inr None \<Rightarrow> Some (Inl (''disassembler: '' @ quoted path @ '' is not an object file''))
      | Inr (Some obj) \<Rightarrow>
          (if \<not> of_isELF obj
           then Some (Inl (''disassembler: '' @ quoted path @ '' is not an ELF file''))
           else
             (case ExtractLoadSegments obj [] of
                Inl e \<Rightarrow> Some (Inl (''disassembler: '' @ e))
              | Inr segments \<Rightarrow>
                  (case env_BuildIsaContext env ''thumbv7em-none-eabi'' ''cortex-m7'' of
                     Inl e \<Rightarrow> Some (Inl (''disassembler: failed to initialize Thumb decoder: '' @ e))
                   | Inr thumb \<Rightarrow>
                       (let arm = (case env_BuildIsaContext env ''armv7-none-eabi'' [] of
                                     Inl _ \<Rightarrow> None | Inr c \<Rightarrow> Some c);
                            d = \<lparr>thumb_ctx = Some thumb, arm_ctx = arm,
                                 dwarf_context = env_DWARFContext env obj\<rparr>
                        in map_option (\<lambda>table. Inr \<lparr>load_segments = segments, decoders = d,
                               instructions = table\<rparr>)
                             (load_instructions (env_sort_symbols env) (env_sort_instructions env)
                               d (of_sections obj)))))))"

text \<open>\<open>std::ranges::lower_bound\<close>: the first element whose key is not less.\<close>

definition InstructionInfoAt :: "InstructionInfo list \<Rightarrow> u64 \<Rightarrow> InstructionInfo option" where
  "InstructionInfoAt entries address =
     (case dropWhile (\<lambda>i. di_address (ii_insn i) < address) entries of
        [] \<Rightarrow> None
      | it # _ \<Rightarrow> if di_address (ii_insn it) \<noteq> address then None else Some it)"

interpretation table: instruction_resolver "InstructionInfoAt entries" for entries
  by unfold_locales (auto simp: InstructionInfoAt_def split: list.splits if_splits)

section \<open>What the spans cover\<close>

definition isa_of_kind :: "char \<Rightarrow> InstructionSet option" where
  "isa_of_kind k = (if k = CHR ''a'' then Some kArm else if k = CHR ''t'' then Some kThumb else None)"

definition governing :: "MappingSymbol list \<Rightarrow> u64 \<Rightarrow> MappingSymbol option" where
  "governing ms x = (case takeWhile (\<lambda>m. ms_address m \<le> x) ms of [] \<Rightarrow> None | l \<Rightarrow> Some (last l))"

definition governed_isa :: "MappingSymbol list \<Rightarrow> u64 \<Rightarrow> InstructionSet option" where
  "governed_isa ms x = Option.bind (governing ms x) (isa_of_kind \<circ> ms_kind)"

definition covering :: "CodeSpan list \<Rightarrow> u64 \<Rightarrow> CodeSpan list" where
  "covering spans x = filter (\<lambda>s. cs_start s \<le> x \<and> x < cs_end s) spans"

lemma covering_append [simp]: "covering (xs @ ys) x = covering xs x @ covering ys x"
  by (simp add: covering_def)

lemma covering_span_of:
  "map cs_isa (covering (span_of m e) x) =
     (if ms_address m \<le> x \<and> x < e then (case isa_of_kind (ms_kind m) of None \<Rightarrow> [] | Some i \<Rightarrow> [i]) else [])"
  by (auto simp: covering_def span_of_def isa_of_kind_def)

lemma spans_from_bounds:
  "sorted (map ms_address ms) \<Longrightarrow> ms \<noteq> [] \<Longrightarrow>
   list_all (\<lambda>s. ms_address (hd ms) \<le> cs_start s \<and> cs_start s < cs_end s) (spans_from e ms)"
  by (induction e ms rule: spans_from.induct)
    (force simp: span_of_def list_all_iff)+

lemma covering_before:
  assumes "sorted (map ms_address ms)" and "ms \<noteq> []" and "x < ms_address (hd ms)"
  shows "covering (spans_from e ms) x = []"
  using spans_from_bounds [OF assms(1,2), of e] assms(3)
  by (auto simp: covering_def list_all_iff filter_empty_conv)

lemma covering_spans_from:
  "sorted (map ms_address ms) \<Longrightarrow> x < e \<Longrightarrow>
   map cs_isa (covering (spans_from e ms) x) =
     (case governed_isa ms x of None \<Rightarrow> [] | Some i \<Rightarrow> [i])"
proof (induction e ms rule: spans_from.induct)
  case (3 e m m' ms)
  show ?case
  proof (cases "ms_address m' \<le> x")
    case True
    with 3 show ?thesis
      by (auto simp: covering_span_of governed_isa_def governing_def split: list.splits)
  next
    case False
    with 3 show ?thesis
      by (auto simp: covering_span_of governed_isa_def governing_def covering_before split: list.splits)
  qed
qed (simp_all add: covering_span_of governed_isa_def governing_def, simp add: covering_def)

lemma spans_from_ordered:
  "sorted (map ms_address ms) \<Longrightarrow> sorted_wrt (\<lambda>s t. cs_end s \<le> cs_start t) (spans_from e ms)"
proof (induction e ms rule: spans_from.induct)
  case (3 e m m' ms)
  then show ?case
    using spans_from_bounds [of "m' # ms" e]
    by (auto simp: sorted_wrt_append span_of_def list_all_iff)
qed (simp_all add: span_of_def)

text \<open>BuildCodeSpans covers every address of a section by exactly the spans its governing
  mapping symbol (the last one at or below it) asks for: one ARM span after $a, one Thumb
  span after $t, none after $d or before the first symbol; and the spans never overlap.\<close>

lemma BuildCodeSpans_governed:
  assumes "sorted (map ms_address ms)" and "ms \<noteq> []" and "x < section_end"
  shows "map cs_isa (covering (BuildCodeSpans section_start section_end ms) x) =
      (case governed_isa ms x of None \<Rightarrow> [] | Some i \<Rightarrow> [i]) \<and>
    sorted_wrt (\<lambda>s t. cs_end s \<le> cs_start t) (BuildCodeSpans section_start section_end ms)"
  using assms by (simp_all add: BuildCodeSpans_def covering_spans_from spans_from_ordered)

definition sample_symbols :: "MappingSymbol list" where
  "sample_symbols = [\<lparr>ms_address = 0x08000000, ms_kind = CHR ''t''\<rparr>, \<lparr>ms_address = 0x08000004, ms_kind = CHR ''d''\<rparr>]"

theorem BuildCodeSpans_governed_witness:
  "map cs_isa (covering (BuildCodeSpans 0x08000000 0x08000008 sample_symbols) 0x08000002) = [kThumb] \<and>
   sorted_wrt (\<lambda>s t. cs_end s \<le> cs_start t) (BuildCodeSpans 0x08000000 0x08000008 sample_symbols)"
proof -
  have "governed_isa sample_symbols 0x08000002 = Some kThumb"
    by (simp add: governed_isa_def governing_def sample_symbols_def isa_of_kind_def)
  with BuildCodeSpans_governed [where ms = sample_symbols and x = "0x08000002" and section_end = "0x08000008" and section_start = "0x08000000"] show ?thesis
    by (simp add: sample_symbols_def)
qed

section \<open>What decoding yields\<close>

definition decoder_bounded :: "'inst Disassembler \<Rightarrow> bool" where
  "decoder_bounded d \<longleftrightarrow> (\<forall>isa ctx bytes a. GetContext d isa = Some ctx \<longrightarrow>
     unat (fst (snd (cx_getInstruction ctx bytes a))) < 256)"

definition span_entries :: "CodeSpan \<Rightarrow> u64 \<Rightarrow> InstructionInfo list \<Rightarrow> bool" where
  "span_entries span cur xs \<longleftrightarrow>
     sorted_wrt (<) (map (\<lambda>i. di_address (ii_insn i)) xs) \<and>
     list_all (\<lambda>i. cur \<le> di_address (ii_insn i) \<and> di_address (ii_insn i) < cs_end span \<and>
       di_size (ii_insn i) \<noteq> 0 \<and> di_isa (ii_insn i) = cs_isa span) xs"

lemma decode_info_simps [simp]:
  "di_address (ii_insn (decode_info ctx dwarf isa bytes cur sz inst)) = cur"
  "di_size (ii_insn (decode_info ctx dwarf isa bytes cur sz inst)) = ucast sz"
  "di_isa (ii_insn (decode_info ctx dwarf isa bytes cur sz inst)) = isa"
  by (simp_all add: decode_info_def Let_def split: prod.splits option.splits)

lemma ucast_u8_nonzero:
  fixes w :: u64
  assumes "w \<noteq> 0" and "unat w < 256" shows "(ucast w :: u8) \<noteq> 0"
proof -
  have "unat (ucast w :: u8) = unat w" using assms(2) by (simp add: unsigned_ucast_eq take_bit_nat_eq_self)
  with assms(1) show ?thesis by (metis unat_0 unat_eq_zero)
qed

lemma step_forward:
  fixes cur e sz :: u64
  assumes "cur < e" and "unat e + 255 \<le> 2 ^ 64" and "sz \<noteq> 0" and "unat sz < 256"
  shows "cur < cur + sz" and "unat e - unat (cur + sz) < unat e - unat cur"
proof -
  have lt: "unat cur < unat e" using assms(1) by (simp add: word_less_nat_alt)
  then have "unat (cur + sz) = unat cur + unat sz"
    using assms(2,4) by (subst unat_plus_no_wrap) simp_all
  moreover have "0 < unat sz" using assms(3) by (simp add: unat_gt_0)
  ultimately show "cur < cur + sz" and "unat e - unat (cur + sz) < unat e - unat cur"
    using lt by (simp_all add: word_less_nat_alt)
qed

lemma span_entries_later:
  "span_entries span cur' xs \<Longrightarrow> cur \<le> cur' \<Longrightarrow> span_entries span cur xs"
  by (auto simp: span_entries_def list_all_iff)

lemma decode_span_loop_returns:
  assumes bound: "\<And>bytes a. unat (fst (snd (cx_getInstruction ctx bytes a))) < 256"
    and top: "unat (cs_end span) + 255 \<le> 2 ^ 64"
  shows "\<exists>xs. decode_span_loop ctx dwarf span bytes base sz cur acc = Some (acc @ xs) \<and> span_entries span cur xs"
proof (induction "unat (cs_end span) - unat cur" arbitrary: cur acc rule: less_induct)
  case less
  let ?bs = "drop (unat (cur - base)) bytes"
  obtain failed n inst where dec: "cx_getInstruction ctx (take (unat (sz - (cur - base))) ?bs) cur = (failed, n, inst)"
    by (metis prod_cases3)
  let ?step = "if n \<noteq> 0 then n else if cs_isa span = kThumb then 2 else 4"
  let ?new = "if failed \<or> n = 0 then [] else [decode_info ctx dwarf (cs_isa span) ?bs cur n inst]"
  show ?case
  proof (cases "cur < cs_end span \<and> cur - base < sz")
    case False
    then show ?thesis
      by (intro exI [of _ "[]"]) (auto simp: decode_span_loop.simps span_entries_def not_less)
  next
    case True
    have n: "unat n < 256" using bound [of "take (unat (sz - (cur - base))) ?bs" cur] dec by simp
    then have "?step \<noteq> 0" "unat ?step < 256" by (auto split: if_splits)
    note fwd = step_forward [OF conjunct1 [OF True] top this]
    from less.hyps [OF fwd(2), of "acc @ ?new"] obtain xs where
      xs: "decode_span_loop ctx dwarf span bytes base sz (cur + ?step) (acc @ ?new) = Some (acc @ ?new @ xs)"
        "span_entries span (cur + ?step) xs" by auto
    have "decode_span_loop ctx dwarf span bytes base sz cur acc =
        decode_span_loop ctx dwarf span bytes base sz (cur + ?step) (acc @ ?new)"
      using True dec by (subst decode_span_loop.simps) (auto simp: Let_def)
    moreover have "span_entries span cur (?new @ xs)"
      using xs(2) fwd(1) True ucast_u8_nonzero [OF _ n]
      by (auto simp: span_entries_def list_all_iff sorted_wrt_append)
    ultimately show ?thesis using xs(1) by auto
  qed
qed

definition entry_address :: "InstructionInfo \<Rightarrow> u64" where
  "entry_address i = di_address (ii_insn i)"

definition sized_entry :: "InstructionInfo \<Rightarrow> bool" where
  "sized_entry i \<longleftrightarrow> di_size (ii_insn i) \<noteq> 0"

lemma DecodeSpan_returns:
  assumes "decoder_bounded d" and "unat (cs_end span) + 255 \<le> 2 ^ 64"
  shows "\<exists>xs. DecodeSpan d span bytes base sz acc = Some (acc @ xs) \<and> span_entries span (cs_start span) xs"
proof (cases "GetContext d (cs_isa span)")
  case None
  then show ?thesis by (intro exI [of _ "[]"]) (simp add: DecodeSpan_def span_entries_def)
next
  case (Some ctx)
  with assms(1) have "\<And>bytes a. unat (fst (snd (cx_getInstruction ctx bytes a))) < 256"
    unfolding decoder_bounded_def by blast
  from decode_span_loop_returns [OF this assms(2)] Some show ?thesis
    by (simp add: DecodeSpan_def)
qed

lemma span_entries_sized: "span_entries span cur xs \<Longrightarrow> list_all sized_entry xs"
  by (auto simp: span_entries_def list_all_iff sized_entry_def)

lemma decode_spans_returns:
  assumes "decoder_bounded d"
  shows "list_all (\<lambda>s. unat (cs_end s) + 255 \<le> 2 ^ 64) spans \<Longrightarrow>
    \<exists>parts. decode_spans d bytes base sz spans acc = Some (acc @ concat parts) \<and>
      list_all2 (\<lambda>s. span_entries s (cs_start s)) spans parts"
proof (induction spans arbitrary: acc)
  case (Cons span spans)
  from DecodeSpan_returns [OF assms, of span bytes base sz acc] Cons.prems obtain xs where
    xs: "DecodeSpan d span bytes base sz acc = Some (acc @ xs)" "span_entries span (cs_start span) xs" by auto
  from Cons.IH [of "acc @ xs"] Cons.prems obtain parts where
    "decode_spans d bytes base sz spans (acc @ xs) = Some (acc @ xs @ concat parts)"
    "list_all2 (\<lambda>s. span_entries s (cs_start s)) spans parts" by auto
  with xs show ?case by (intro exI [of _ "xs # parts"]) simp
qed simp

lemma parts_sized:
  "list_all2 (\<lambda>s. span_entries s (cs_start s)) spans parts \<Longrightarrow> list_all sized_entry (concat parts)"
  by (induction rule: list_all2_induct) (simp_all add: span_entries_sized)

lemma parts_ascending:
  "list_all2 (\<lambda>s. span_entries s (cs_start s)) spans parts \<Longrightarrow>
   sorted_wrt (\<lambda>s t. cs_end s \<le> cs_start t) spans \<Longrightarrow>
   sorted_wrt (<) (map entry_address (concat parts)) \<and>
   (\<forall>i\<in>set (concat parts). \<exists>s\<in>set spans. cs_start s \<le> entry_address i \<and> entry_address i < cs_end s)"
proof (induction rule: list_all2_induct)
  case (Cons s spans xs parts)
  then have xs: "sorted_wrt (<) (map entry_address xs)"
      "\<forall>i\<in>set xs. cs_start s \<le> entry_address i \<and> entry_address i < cs_end s"
    by (auto simp: span_entries_def entry_address_def [abs_def] list_all_iff)
  have "\<forall>i\<in>set xs. \<forall>j\<in>set (concat parts). entry_address i < entry_address j"
    using Cons xs(2) by (fastforce dest: less_le_trans)
  with Cons xs show ?case by (auto simp: sorted_wrt_append)
qed simp

text \<open>Every mapping symbol of a text section lies at most at its end, and the end leaves room
  for one more instruction.\<close>

definition section_ok :: "TextSection \<Rightarrow> bool" where
  "section_ok se \<longleftrightarrow> unat (se_address se + se_size se) + 255 \<le> 2 ^ 64 \<and>
     list_all (\<lambda>s. case os_address s of None \<Rightarrow> True | Some a \<Rightarrow> a \<le> se_address se + se_size se) (se_symbols se)"

lemma spans_from_end:
  "list_all (\<lambda>m. ms_address m \<le> e) ms \<Longrightarrow> list_all (\<lambda>s. cs_end s \<le> e) (spans_from e ms)"
  by (induction e ms rule: spans_from.induct) (auto simp: span_of_def)

lemma BuildCodeSpans_end:
  "list_all (\<lambda>m. ms_address m \<le> e) ms \<Longrightarrow> list_all (\<lambda>s. cs_end s \<le> e) (BuildCodeSpans b e ms)"
  by (simp add: BuildCodeSpans_def spans_from_end)

lemma room_mono: "(x::u64) \<le> y \<Longrightarrow> unat y + 255 \<le> 2 ^ 64 \<Longrightarrow> unat x + 255 \<le> 2 ^ 64"
  by (simp add: word_le_nat_alt)

lemma CollectMappingSymbols_bound:
  assumes "std_sort srt" and "section_ok se"
  shows "list_all (\<lambda>m. ms_address m \<le> se_address se + se_size se) (CollectMappingSymbols srt (se_symbols se))"
  using assms(2) std_sort.srt_set [OF assms(1)]
  by (auto simp: CollectMappingSymbols_def list_all_iff section_ok_def List.map_filter_def
      split: option.splits if_splits)

lemma section_spans:
  assumes "std_sort srt" and "section_ok se"
  shows "list_all (\<lambda>s. unat (cs_end s) + 255 \<le> 2 ^ 64)
    (BuildCodeSpans (se_address se) (se_address se + se_size se) (CollectMappingSymbols srt (se_symbols se)))"
proof -
  from assms(2) have "unat (se_address se + se_size se) + 255 \<le> 2 ^ 64" by (simp add: section_ok_def)
  with BuildCodeSpans_end [OF CollectMappingSymbols_bound [OF assms]] show ?thesis
    unfolding list_all_iff using room_mono by blast
qed

lemma decode_sections_returns:
  assumes d: "decoder_bounded d" and srt: "std_sort srt"
  shows "list_all section_ok ses \<Longrightarrow> \<exists>xs. decode_sections srt d ses acc = Some (acc @ xs) \<and> list_all sized_entry xs"
proof (induction ses arbitrary: acc)
  case (Cons se ses)
  show ?case
  proof (cases "se_is_text se \<and> se_size se \<noteq> 0 \<and> se_contents se \<noteq> None")
    case False
    with Cons show ?thesis by (auto split: option.splits)
  next
    case True
    then obtain bytes where bytes: "se_contents se = Some bytes" by blast
    from Cons.prems have "section_ok se" by simp
    from decode_spans_returns [OF d section_spans [OF srt this], of bytes "se_address se" "se_size se" acc]
    obtain parts where p: "decode_spans d bytes (se_address se) (se_size se)
        (BuildCodeSpans (se_address se) (se_address se + se_size se) (CollectMappingSymbols srt (se_symbols se))) acc
        = Some (acc @ concat parts)" "list_all sized_entry (concat parts)"
      using parts_sized by blast
    from Cons.IH [of "acc @ concat parts"] Cons.prems obtain xs where
      "decode_sections srt d ses (acc @ concat parts) = Some (acc @ concat parts @ xs)" "list_all sized_entry xs"
      by auto
    with p True bytes show ?thesis by (intro exI [of _ "concat parts @ xs"]) (simp add: Let_def)
  qed
qed simp

lemma InstructionInfoAt_Some:
  assumes "InstructionInfoAt t a = Some i" shows "i \<in> set t" and "entry_address i = a"
proof -
  from assms obtain ys where d: "dropWhile (\<lambda>i. di_address (ii_insn i) < a) t = i # ys" and "di_address (ii_insn i) = a"
    by (auto simp: InstructionInfoAt_def split: list.splits if_splits)
  then show "entry_address i = a" by (simp add: entry_address_def)
  from d show "i \<in> set t" by (metis list.set_intros(1) set_dropWhileD)
qed

lemma InstructionInfoAt_sorted:
  assumes "sorted (map entry_address t)" and "i \<in> set t"
  shows "\<exists>j\<in>set t. InstructionInfoAt t (entry_address i) = Some j \<and> entry_address j = entry_address i"
  using assms
proof (induction t)
  case (Cons x t)
  show ?case
  proof (cases "entry_address x < entry_address i")
    case True
    with Cons have "i \<in> set t" by auto
    with Cons True show ?thesis by (auto simp: InstructionInfoAt_def entry_address_def)
  next
    case False
    with Cons.prems have "entry_address x = entry_address i" by auto
    then show ?thesis by (auto simp: InstructionInfoAt_def entry_address_def)
  qed
qed simp

lemma sized_table_InstructionInfoAt: "list_all sized_entry t \<Longrightarrow> sized_table (InstructionInfoAt t)"
  using InstructionInfoAt_Some(1) by (fastforce simp: sized_table_def list_all_iff sized_entry_def)

lemma load_instructions_returns:
  assumes d: "decoder_bounded d" and s: "std_sort srt_syms" "std_sort srt" and ses: "list_all section_ok ses"
  shows "\<exists>t. load_instructions srt_syms srt d ses = Some t \<and> sorted (map entry_address t) \<and> list_all sized_entry t"
proof -
  from decode_sections_returns [OF d s(1) ses, of "[]"] obtain xs where
    xs: "decode_sections srt_syms d ses [] = Some xs" "list_all sized_entry xs" by auto
  let ?t = "srt entry_address xs"
  from std_sort.srt_sorted [OF s(2)] have "sorted (map entry_address ?t)" .
  moreover have "list_all sized_entry ?t" using xs(2) std_sort.srt_set [OF s(2)] by (simp add: list_all_iff)
  ultimately show ?thesis using xs(1)
    by (simp add: load_instructions_def entry_address_def [abs_def])
qed

lemma parts_origin:
  "list_all2 (\<lambda>s. span_entries s (cs_start s)) spans parts \<Longrightarrow>
   list_all (\<lambda>i. \<exists>s\<in>set (covering spans (entry_address i)). cs_isa s = di_isa (ii_insn i)) (concat parts)"
proof (induction rule: list_all2_induct)
  case (Cons s spans xs parts)
  then show ?case
    by (auto simp: span_entries_def list_all_iff entry_address_def covering_def)
qed simp

text \<open>C30: decoding a section's spans returns, appends instructions at strictly ascending
  addresses, and decodes an instruction at an address only in the instruction set the
  address's governing mapping symbol names, so that data ($d) is never decoded.\<close>

theorem section_decoding_respects_mapping:
  assumes "decoder_bounded d" and "std_sort srt" and "section_ok se"
    and "CollectMappingSymbols srt (se_symbols se) \<noteq> []"
  shows "\<exists>xs. decode_spans d bytes (se_address se) (se_size se)
      (BuildCodeSpans (se_address se) (se_address se + se_size se) (CollectMappingSymbols srt (se_symbols se))) acc
      = Some (acc @ xs) \<and>
    sorted_wrt (<) (map entry_address xs) \<and>
    list_all (\<lambda>i. governed_isa (CollectMappingSymbols srt (se_symbols se)) (entry_address i)
      = Some (di_isa (ii_insn i))) xs"
proof -
  let ?ms = "CollectMappingSymbols srt (se_symbols se)"
  let ?e = "se_address se + se_size se"
  let ?spans = "BuildCodeSpans (se_address se) ?e ?ms"
  have sorted: "sorted (map ms_address ?ms)"
    using std_sort.srt_sorted [OF assms(2)] by (simp add: CollectMappingSymbols_def)
  have ends: "list_all (\<lambda>s. cs_end s \<le> ?e) ?spans"
    by (rule BuildCodeSpans_end [OF CollectMappingSymbols_bound [OF assms(2,3)]])
  from decode_spans_returns [OF assms(1) section_spans [OF assms(2,3)]] obtain parts where
    run: "decode_spans d bytes (se_address se) (se_size se) ?spans acc = Some (acc @ concat parts)"
    and parts: "list_all2 (\<lambda>s. span_entries s (cs_start s)) ?spans parts" by blast
  have spans: "?spans = spans_from ?e ?ms" using assms(4) by (simp add: BuildCodeSpans_def)
  have "governed_isa ?ms (entry_address i) = Some (di_isa (ii_insn i))" if "i \<in> set (concat parts)" for i
  proof -
    from parts_origin [OF parts] that obtain s where
      s: "s \<in> set (covering ?spans (entry_address i))" "cs_isa s = di_isa (ii_insn i)"
      by (auto simp: list_all_iff)
    with ends have "entry_address i < ?e" by (auto simp: covering_def list_all_iff)
    note isas = covering_spans_from [OF sorted this, folded spans]
    from s have "di_isa (ii_insn i) \<in> set (map cs_isa (covering ?spans (entry_address i)))" by force
    with isas show ?thesis by (simp split: option.splits)
  qed
  moreover have "sorted_wrt (<) (map entry_address (concat parts))"
    using parts_ascending [OF parts] spans_from_ordered [OF sorted] spans by simp
  ultimately show ?thesis using run by (auto simp: list_all_iff)
qed

definition sample_context :: "unit IsaContext" where
  "sample_context = \<lparr>cx_getInstruction = (\<lambda>bytes a. (False, 2, ())), cx_printInst = (\<lambda>_ _. ''nop''),
     cx_instr_analysis = None\<rparr>"

definition sample_disassembler :: "unit Disassembler" where
  "sample_disassembler = \<lparr>thumb_ctx = Some sample_context, arm_ctx = None, dwarf_context = None\<rparr>"

definition sample_section :: TextSection where
  "sample_section = \<lparr>se_is_text = True, se_address = 0x08000000, se_size = 8,
     se_contents = Some [0x00, 0xBF, 0x00, 0xBF, 1, 2, 3, 4],
     se_symbols = [\<lparr>os_name = Some ''$t'', os_in_section = True, os_address = Some 0x08000000\<rparr>,
       \<lparr>os_name = Some ''$d'', os_in_section = True, os_address = Some 0x08000004\<rparr>]\<rparr>"

lemma sample_disassembler_bounded: "decoder_bounded sample_disassembler"
  by (auto simp: decoder_bounded_def sample_disassembler_def sample_context_def GetContext_def
      split: InstructionSet.splits)

lemma sample_section_ok: "section_ok sample_section"
  by (simp add: section_ok_def sample_section_def)

lemma sample_section_symbols: "CollectMappingSymbols sort_key (se_symbols sample_section) = sample_symbols"
  by (simp add: CollectMappingSymbols_def sample_section_def sample_symbols_def ParseMappingSymbolKind_def
      List.map_filter_simps)

theorem section_decoding_respects_mapping_witness:
  "\<exists>xs. decode_spans sample_disassembler [0x00, 0xBF, 0x00, 0xBF, 1, 2, 3, 4] 0x08000000 8
      (BuildCodeSpans 0x08000000 0x08000008 sample_symbols) [] = Some xs \<and>
    sorted_wrt (<) (map entry_address xs) \<and>
    list_all (\<lambda>i. governed_isa sample_symbols (entry_address i) = Some (di_isa (ii_insn i))) xs"
  using section_decoding_respects_mapping [OF sample_disassembler_bounded key_sort.std_sort_axioms
      sample_section_ok, of "[0x00, 0xBF, 0x00, 0xBF, 1, 2, 3, 4]" "[]"]
  unfolding sample_section_symbols by (simp add: sample_section_def sample_symbols_def)

text \<open>C14: for a decoder whose instructions fit a byte-sized length and sections that do not
  touch the top of the address space, loading an image returns a table sorted by address,
  and reconstructing any trace-record stream against that table returns, each instruction
  range yielding a contiguous run of table entries that ends at the range's end or where the
  table has no entry, with only the last one possibly not executed.\<close>

theorem loaded_image_reconstructs:
  assumes "decoder_bounded d" and "std_sort srt_syms" and "std_sort srt" and "list_all section_ok ses"
    and "list_all (\<lambda>r. tr_kind r = kInstructionRange \<longrightarrow> below_top r) records"
  shows "\<exists>t parts. load_instructions srt_syms srt d ses = Some t \<and> sorted (map entry_address t) \<and>
    Transform_ReconstructedInstruction records (InstructionInfoAt t) = Some (concat parts) \<and>
    list_all2 (\<lambda>r xs. walk_result (InstructionInfoAt t) r (tr_start_addr r) xs)
      (filter (\<lambda>r. tr_kind r = kInstructionRange) records) parts"
proof -
  from load_instructions_returns [OF assms(1-4)] obtain t where
    t: "load_instructions srt_syms srt d ses = Some t" "sorted (map entry_address t)" "list_all sized_entry t" by blast
  from table.reconstruct_loop_returns [OF sized_table_InstructionInfoAt [OF t(3)] assms(5), of "[]"] t(1,2)
  show ?thesis by (auto simp: Transform_ReconstructedInstruction_def elim: list_all2_mono)
qed

definition sample_range :: TraceRecord where
  "sample_range = \<lparr>tr_index_sop = 0, tr_trace_id = 1, tr_kind = kInstructionRange, tr_isa = ocsd_isa_thumb2,
     tr_start_addr = 0x08000000, tr_end_addr = 0x08000004, tr_has_end_addr = True, tr_num_instr = 2,
     tr_last_instr_type = 0, tr_last_instr_subtype = 0, tr_last_instr_executed = True,
     tr_exception_number = 0, tr_trace_on_reason = trace_on_other 0, tr_no_sync_reason = unsync_other 0,
     tr_cycle_count = None, tr_timestamp = None, tr_timestamp_cycle_count = None\<rparr>"

theorem loaded_image_reconstructs_witness:
  "\<exists>t xs. load_instructions sort_key sort_key sample_disassembler [sample_section] = Some t \<and>
    sorted (map entry_address t) \<and>
    Transform_ReconstructedInstruction [sample_range] (InstructionInfoAt t) = Some xs \<and>
    walk_result (InstructionInfoAt t) sample_range 0x08000000 xs"
proof -
  have ok: "list_all section_ok [sample_section]" by (simp add: sample_section_ok)
  have top: "list_all (\<lambda>r. tr_kind r = kInstructionRange \<longrightarrow> below_top r) [sample_range]"
    by (simp add: sample_range_def below_top_def)
  have kind: "tr_kind sample_range = kInstructionRange" "tr_start_addr sample_range = 0x08000000"
    by (simp_all add: sample_range_def)
  from loaded_image_reconstructs [OF sample_disassembler_bounded key_sort.std_sort_axioms
      key_sort.std_sort_axioms ok top] show ?thesis
    by (auto simp: kind list_all2_Cons1)
qed

end
