(* ===== verification/Trace_Session.thy ===== *)
theory Trace_Session
  imports Trace_Decoder Program_Disassembler
begin

text \<open>
  \<open>trace_provider\<close>: a session appends captures.  Each capture is decoded on its own and
  projected; the session keeps how many captures it has taken and how many instructions
  they executed, and moves every gap of a capture to its place on the session's timeline.
\<close>

section \<open>The session\<close>

record DecodedIncrement =
  inc_instructions :: "ReconstructedInstruction list"
  inc_function_blocks :: "FunctionBlock list"
  inc_gaps :: "TraceGap list"

record TraceSession =
  base_config :: InstructionTraceDecodeConfig
  session_segments :: "LoadSegment list"
  session_resolve :: resolver
  capture_count :: u64
  total_executed_instructions :: u64

definition new_TraceSession :: "InstructionTraceDecodeConfig \<Rightarrow> LoadSegment list \<Rightarrow> resolver \<Rightarrow> TraceSession" where
  "new_TraceSession config segs resolve =
     \<lparr>base_config = config, session_segments = segs, session_resolve = resolve,
      capture_count = 0, total_executed_instructions = 0\<rparr>"

section \<open>Appending a capture\<close>

text \<open>The builder copies the base configuration with the capture's bytes.\<close>

definition capture_config :: "InstructionTraceDecodeConfig \<Rightarrow> u8 list \<Rightarrow> InstructionTraceDecodeConfig" where
  "capture_config base capture =
     \<lparr>program_path = program_path base, core_name = core_name base, deformatter = deformatter base,
      registers = registers base, trace_data = capture\<rparr>"

definition count_executed :: "ReconstructedInstruction list \<Rightarrow> u64" where
  "count_executed xs = foldl (\<lambda>n i. if ri_executed i then n + 1 else n) 0 xs"

definition session_gaps :: "TraceSession \<Rightarrow> TraceRecord list \<Rightarrow> TraceGap list" where
  "session_gaps s records =
     (let moved = map (\<lambda>gap. gap\<lparr>tg_instruction_index := tg_instruction_index gap + total_executed_instructions s\<rparr>)
            (Transform_TraceGap records)
      in if capture_count s > 0
         then \<lparr>tg_instruction_index = total_executed_instructions s, tg_reason = kCaptureBoundary\<rparr> # moved
         else moved)"

definition append_records :: "TraceSession \<Rightarrow> TraceRecord list \<Rightarrow> (DecodedIncrement \<times> TraceSession) option" where
  "append_records s records =
     (case Transform_ReconstructedInstruction records (session_resolve s) of
        None \<Rightarrow> None
      | Some insns \<Rightarrow>
          (case Transform_FunctionBlock insns (session_resolve s) of
             None \<Rightarrow> None
           | Some blocks \<Rightarrow>
               Some (\<lparr>inc_instructions = insns, inc_function_blocks = blocks,
                      inc_gaps = session_gaps s records\<rparr>,
                     s\<lparr>capture_count := capture_count s + 1,
                       total_executed_instructions := total_executed_instructions s + count_executed insns\<rparr>)))"

text \<open>The caught exceptions and the decoder's own errors become the error string; the session
  is as before then.  \<open>None\<close> is a projection that does not return.\<close>

definition thrown_message :: "decode_exception \<Rightarrow> string" where
  "thrown_message x =
     (case x of OcsdError e \<Rightarrow> ''OpenCSD decode threw: '' @ e
      | StdException e \<Rightarrow> ''decode threw: '' @ e
      | UnrecognizedException \<Rightarrow> ''decode threw an unrecognized exception'')"

definition Append ::
  "'tree OpenCsd \<Rightarrow> TraceSession \<Rightarrow> u8 list \<Rightarrow> ((sink_error + string + DecodedIncrement) \<times> TraceSession) option" where
  "Append csd s capture =
     (case Decode csd (capture_config (base_config s) capture) (session_segments s) of
        None \<Rightarrow> None
      | Some (SinkFault e) \<Rightarrow> Some (Inl e, s)
      | Some (DecodeThrew x) \<Rightarrow> Some (Inr (Inl (thrown_message x)), s)
      | Some (DecodeError e) \<Rightarrow> Some (Inr (Inl e), s)
      | Some (Decoded records dropped) \<Rightarrow>
          (case append_records s records of
             None \<Rightarrow> None
           | Some (increment, s') \<Rightarrow> Some (Inr (Inr increment), s')))"

text \<open>Successive captures, each decoded to its record list.\<close>

fun append_all :: "TraceSession \<Rightarrow> TraceRecord list list \<Rightarrow> (DecodedIncrement list \<times> TraceSession) option" where
  "append_all s [] = Some ([], s)"
| "append_all s (records # rest) =
     (case append_records s records of
        None \<Rightarrow> None
      | Some (increment, s') \<Rightarrow>
          (case append_all s' rest of
             None \<Rightarrow> None | Some (incs, s'') \<Rightarrow> Some (increment # incs, s'')))"

section \<open>The session's timeline\<close>

text \<open>Every range of a capture resolved to as many instructions as the trace counted, and the
  capture holds fewer than \<open>2 ^ 32\<close> instructions.\<close>

definition counted_record :: "resolver \<Rightarrow> TraceRecord \<Rightarrow> bool" where
  "counted_record resolve r \<longleftrightarrow> (tr_kind r = kInstructionRange \<longrightarrow>
     below_top r \<and> pred_option (range_counted r) (range_walk resolve r (tr_start_addr r) []))"

definition capture_ok :: "resolver \<Rightarrow> TraceRecord list \<Rightarrow> bool" where
  "capture_ok resolve records \<longleftrightarrow> list_all (counted_record resolve) records \<and>
     sum_list (map (\<lambda>r. unat (record_weight r)) records) < 2 ^ 32"

lemma count_executed_word: "count_executed xs = of_nat (length (filter ri_executed xs))"
proof -
  have "foldl (\<lambda>n i. if ri_executed i then n + 1 else n) k xs = k + of_nat (length (filter ri_executed xs))" for k :: u64
    by (induction xs arbitrary: k) (simp_all add: add.assoc)
  then show ?thesis by (simp add: count_executed_def)
qed

lemma weight_filter:
  "sum_list (map (\<lambda>r. unat (record_weight r)) (filter (\<lambda>r. tr_kind r = kInstructionRange) records)) =
   sum_list (map (\<lambda>r. unat (record_weight r)) records)"
  by (induction records) (simp_all add: record_weight_def)

lemma parts_executed:
  "list_all2 (\<lambda>r xs. executed_flags r (tr_start_addr r) xs \<and> range_counted r xs \<and> tr_kind r = kInstructionRange) rs parts \<Longrightarrow>
   length (filter ri_executed (concat parts)) = sum_list (map (\<lambda>r. unat (record_weight r)) rs)"
  by (induction rule: list_all2_induct) (simp_all add: executed_count_range record_weight_def)

lemma of_nat_weights: "of_nat (sum_list (map (\<lambda>r. unat (record_weight r)) rs)) = sum_list (map record_weight rs)"
  by (induction rs) simp_all

lemma capture_reconstructs:
  assumes "instruction_resolver resolve" and "sized_table resolve" and "list_all (counted_record resolve) records"
  shows "\<exists>xs. Transform_ReconstructedInstruction records resolve = Some xs \<and>
    length (filter ri_executed xs) = sum_list (map (\<lambda>r. unat (record_weight r)) records)"
proof -
  let ?ranges = "filter (\<lambda>r. tr_kind r = kInstructionRange) records"
  have "list_all (\<lambda>r. tr_kind r = kInstructionRange \<longrightarrow> below_top r) records"
    using assms(3) by (auto simp: list_all_iff counted_record_def)
  from instruction_resolver.reconstruct_loop_returns [OF assms(1,2) this, of "[]"] obtain parts where
    run: "Transform_ReconstructedInstruction records resolve = Some (concat parts)"
    and parts: "list_all2 (\<lambda>r xs. range_walk resolve r (tr_start_addr r) [] = Some xs \<and>
      walk_result resolve r (tr_start_addr r) xs) ?ranges parts"
    by (auto simp: Transform_ReconstructedInstruction_def)
  have "list_all2 (\<lambda>r xs. executed_flags r (tr_start_addr r) xs \<and> range_counted r xs \<and> tr_kind r = kInstructionRange) ?ranges parts"
    by (rule list.rel_mono_strong [OF parts])
      (use assms(3) in \<open>auto simp: walk_result_def counted_record_def list_all_iff\<close>)
  from parts_executed [OF this] run show ?thesis by (simp add: weight_filter)
qed

lemma function_blocks_return:
  assumes "length (filter ri_executed xs) < 2 ^ 32"
  shows "\<exists>fs. Transform_FunctionBlock xs resolve = Some fs"
  using function_block_loop_ok [of "[]" xs resolve] assms
  by (auto simp: Transform_FunctionBlock_def blocks_ok_def line_blocks_def)

lemma append_records_ok:
  assumes "instruction_resolver (session_resolve s)" and "sized_table (session_resolve s)"
    and "capture_ok (session_resolve s) records"
  shows "\<exists>inc. append_records s records =
      Some (inc, s\<lparr>capture_count := capture_count s + 1,
        total_executed_instructions := total_executed_instructions s + sum_list (map record_weight records)\<rparr>) \<and>
    inc_gaps inc = session_gaps s records"
proof -
  from capture_reconstructs [OF assms(1,2)] assms(3) obtain xs where
    xs: "Transform_ReconstructedInstruction records (session_resolve s) = Some xs"
      "length (filter ri_executed xs) = sum_list (map (\<lambda>r. unat (record_weight r)) records)"
    by (auto simp: capture_ok_def)
  with assms(3) have "length (filter ri_executed xs) < 2 ^ 32" by (simp add: capture_ok_def)
  from function_blocks_return [OF this] obtain fs where "Transform_FunctionBlock xs (session_resolve s) = Some fs"
    by blast
  with xs show ?thesis by (simp add: append_records_def count_executed_word of_nat_weights)
qed

lemma no_boundary_gaps: "filter (\<lambda>g. tg_reason g \<noteq> kCaptureBoundary) (trace_gap_loop n [] rs) = trace_gap_loop n [] rs"
proof -
  have "list_all (\<lambda>g. tg_reason g \<noteq> kCaptureBoundary) acc \<Longrightarrow>
      list_all (\<lambda>g. tg_reason g \<noteq> kCaptureBoundary) (trace_gap_loop n acc rs)" for acc
    by (induction rs arbitrary: n acc) (simp_all split: TraceRecordKind.splits)
  from this [of "[]"] show ?thesis by (simp add: filter_id_conv list_all_iff)
qed

lemma session_gaps_eq:
  "session_gaps s records =
     (if capture_count s > 0 then [\<lparr>tg_instruction_index = total_executed_instructions s, tg_reason = kCaptureBoundary\<rparr>] else [])
     @ trace_gap_loop (total_executed_instructions s) [] records"
  using gaps.run_shift [of "total_executed_instructions s" 0 records]
  by (simp add: session_gaps_def Transform_TraceGap_def gap_shift_def add.commute)

definition decoded_gaps :: "DecodedIncrement list \<Rightarrow> TraceGap list" where
  "decoded_gaps incs = filter (\<lambda>g. tg_reason g \<noteq> kCaptureBoundary) (concat (map inc_gaps incs))"

definition boundary_gaps :: "DecodedIncrement list \<Rightarrow> TraceGap list" where
  "boundary_gaps incs = filter (\<lambda>g. tg_reason g = kCaptureBoundary) (concat (map inc_gaps incs))"

text \<open>Where the boundaries belong: before each capture but the session's first, at the number
  of instructions executed so far.\<close>

fun boundaries_at :: "u64 \<Rightarrow> u64 \<Rightarrow> TraceRecord list list \<Rightarrow> TraceGap list" where
  "boundaries_at n executed [] = []"
| "boundaries_at n executed (records # rest) =
     (if n > 0 then [\<lparr>tg_instruction_index = executed, tg_reason = kCaptureBoundary\<rparr>] else []) @
     boundaries_at (n + 1) (executed + sum_list (map record_weight records)) rest"

lemma session_gaps_split:
  "filter (\<lambda>g. tg_reason g \<noteq> kCaptureBoundary) (session_gaps s records) =
     trace_gap_loop (total_executed_instructions s) [] records"
  "filter (\<lambda>g. tg_reason g = kCaptureBoundary) (session_gaps s records) =
     (if capture_count s > 0 then [\<lparr>tg_instruction_index = total_executed_instructions s, tg_reason = kCaptureBoundary\<rparr>] else [])"
proof -
  note nb = no_boundary_gaps [of "total_executed_instructions s" records]
  then have "filter (\<lambda>g. tg_reason g = kCaptureBoundary) (trace_gap_loop (total_executed_instructions s) [] records) = []"
    by (metis (mono_tags, lifting) filter_empty_conv filter_id_conv)
  with nb show
  "filter (\<lambda>g. tg_reason g \<noteq> kCaptureBoundary) (session_gaps s records) =
     trace_gap_loop (total_executed_instructions s) [] records"
  "filter (\<lambda>g. tg_reason g = kCaptureBoundary) (session_gaps s records) =
     (if capture_count s > 0 then [\<lparr>tg_instruction_index = total_executed_instructions s, tg_reason = kCaptureBoundary\<rparr>] else [])"
    by (simp_all add: session_gaps_eq)
qed

lemma append_all_ok:
  "instruction_resolver (session_resolve s) \<Longrightarrow> sized_table (session_resolve s) \<Longrightarrow>
   list_all (capture_ok (session_resolve s)) caps \<Longrightarrow>
   \<exists>incs s'. append_all s caps = Some (incs, s') \<and>
     decoded_gaps incs = trace_gap_loop (total_executed_instructions s) [] (concat caps) \<and>
     boundary_gaps incs = boundaries_at (capture_count s) (total_executed_instructions s) caps \<and>
     total_executed_instructions s' = total_executed_instructions s + sum_list (map record_weight (concat caps))"
proof (induction caps arbitrary: s)
  case Nil
  then show ?case by (simp add: decoded_gaps_def boundary_gaps_def)
next
  case (Cons records caps)
  let ?s = "s\<lparr>capture_count := capture_count s + 1,
        total_executed_instructions := total_executed_instructions s + sum_list (map record_weight records)\<rparr>"
  from append_records_ok [OF Cons.prems(1,2)] Cons.prems(3) obtain inc where
    inc: "append_records s records = Some (inc, ?s)" "inc_gaps inc = session_gaps s records" by auto
  from Cons.IH [of ?s] Cons.prems obtain incs s' where
    rest: "append_all ?s caps = Some (incs, s')"
      "decoded_gaps incs = trace_gap_loop (total_executed_instructions ?s) [] (concat caps)"
      "boundary_gaps incs = boundaries_at (capture_count ?s) (total_executed_instructions ?s) caps"
      "total_executed_instructions s' = total_executed_instructions ?s + sum_list (map record_weight (concat caps))"
    by auto
  have "decoded_gaps (inc # incs) = trace_gap_loop (total_executed_instructions s) [] (records @ concat caps)"
    using rest(2) unfolding gaps.run_append by (simp add: decoded_gaps_def inc(2) session_gaps_split)
  moreover have "boundary_gaps (inc # incs) = boundaries_at (capture_count s) (total_executed_instructions s) (records # caps)"
    using rest(3) by (simp add: boundary_gaps_def inc(2) session_gaps_split)
  ultimately show ?case using inc(1) rest(1,4) by (simp add: add.assoc)
qed


definition sample_entries :: "InstructionInfo list" where
  "sample_entries = [sample_info 0x08000000 1, sample_info 0x08000002 2]"

lemma sample_capture_ok: "capture_ok (InstructionInfoAt sample_entries) [sample_range]"
  by (simp add: capture_ok_def counted_record_def sample_range_def below_top_def range_walk.simps
      InstructionInfoAt_def sample_entries_def sample_info_def sample_insn_def range_counted_def
      record_weight_def executed_in_range_def Let_def)

definition sample_config :: InstructionTraceDecodeConfig where
  "sample_config = \<lparr>program_path = ''a.elf'', core_name = ''Cortex-M7'',
     deformatter = \<lparr>dc_source_format = kFrameFormatted, dc_frame_sync = kMemAligned, dc_reset_on_4x_fsync = True\<rparr>,
     registers = \<lparr>er_trcconfigr = 0, er_trctraceidr = 1, er_trcidr0 = 0, er_trcidr1 = 0, er_trcidr2 = 0,
       er_trcidr8 = 0, er_trcidr9 = 0, er_trcidr10 = 0, er_trcidr11 = 0, er_trcidr12 = 0, er_trcidr13 = 0,
       er_trcidr3 = 0, er_trcidr4 = 0, er_trcidr5 = 0, er_trcidr6 = 0, er_trcidr7 = 0, er_trcauthstatus = 0\<rparr>,
     trace_data = []\<rparr>"


text \<open>an append either fails with an error string and leaves the session exactly as it was
  (whether OpenCSD threw or answered an error), or counts one more capture and the
  instructions of its increment that were executed; it never ends in a sink fault.\<close>

lemma Append_all_or_nothing:
  "case Append csd s capture of
     None \<Rightarrow> True
   | Some (Inl fault, s') \<Rightarrow> False
   | Some (Inr (Inl message), s') \<Rightarrow> s' = s
   | Some (Inr (Inr inc), s') \<Rightarrow>
       s' = s\<lparr>capture_count := capture_count s + 1,
         total_executed_instructions := total_executed_instructions s + count_executed (inc_instructions inc)\<rparr>"
  by (auto simp: Append_def append_records_def Decode_no_fault
      split: option.splits decode_outcome.splits sum.splits prod.splits)

end
