(* ===== verification/Trace_Manager.thy ===== *)
theory Trace_Manager
  imports Trace_Session
begin

text \<open>
  The trace manager of the core (\<open>modules/core/src/components/trace_manager.cc\<close>).  Three threads share
  it: the OpenOCD thread hands over captures, the dispatcher arms and disarms the trace, and one
  worker takes captures off a queue, decodes them and emits the result.  Every critical section
  under the manager's mutex is one step.  OpenOCD, LLDB and the event bus are parameters or an
  output list; \<open>Append\<close> is the session's own operation.
\<close>

section \<open>State\<close>

datatype TraceStatusReason = eTraceStatusReasonUnavailable | eTraceStatusReasonIdle
  | eTraceStatusReasonArmedAwaitingResume | eTraceStatusReasonCapturing | eTraceStatusReasonDecodeError

record TraceStatusResponseBody =
  ts_available :: bool
  ts_enabled :: bool
  ts_reason :: TraceStatusReason
  ts_detail :: string
  ts_instructionCount :: u64
  ts_functionBlockCount :: u64

record TraceDataEvent =
  td_first_instruction_index :: u64
  td_first_function_block_index :: u64
  td_instructions :: "ReconstructedInstruction list"
  td_function_blocks :: "FunctionBlock list"
  td_gaps :: "TraceGap list"

datatype trace_event = TraceData TraceDataEvent | TraceStatus TraceStatusResponseBody | TraceOutput string

record TraceManager =
  tm_sink :: string
  tm_source :: string
  tm_session :: TraceSession
  tm_enabled :: bool
  tm_pending :: "u8 list"
  tm_instructions :: "ReconstructedInstruction list"
  tm_function_blocks :: "FunctionBlock list"
  tm_gaps :: "TraceGap list"
  tm_decode_queue :: "u8 list list"
  tm_shutting_down :: bool

text \<open>The calls into OpenOCD, the disassembly manager and the process state.\<close>

record trace_env =
  ReadETMv4Registers :: "string \<Rightarrow> string + Etmv4Registers"
  GetCoreName :: "string + string"
  disassembly_program :: "string + (LoadSegment list \<times> resolver)"
  session_program :: string
  ListTraceSinks :: "string + string list"
  ListTraceSources :: "string + string list"
  SubscribeTrace :: "string \<Rightarrow> string option"
  EnableTrace :: "string \<Rightarrow> string option"
  DisableTrace :: "string \<Rightarrow> string option"
  target_stopped :: bool

section \<open>Operations\<close>

definition BuildSession :: "trace_env \<Rightarrow> string \<Rightarrow> string + TraceSession" where
  "BuildSession env source =
     (case ReadETMv4Registers env source of
        Inl e \<Rightarrow> Inl e
      | Inr regs \<Rightarrow>
          (case GetCoreName env of
             Inl e \<Rightarrow> Inl e
           | Inr core \<Rightarrow>
               (case disassembly_program env of
                  Inl e \<Rightarrow> Inl e
                | Inr (segs, resolve) \<Rightarrow>
                    Inr (new_TraceSession
                      \<lparr>program_path = session_program env, core_name = core,
                       deformatter = \<lparr>dc_source_format = kFrameFormatted, dc_frame_sync = kMemAligned, dc_reset_on_4x_fsync = True\<rparr>,
                       registers = regs, trace_data = []\<rparr> segs resolve))))"

definition new_TraceManager :: "string \<Rightarrow> string \<Rightarrow> TraceSession \<Rightarrow> TraceManager" where
  "new_TraceManager sink source session =
     \<lparr>tm_sink = sink, tm_source = source, tm_session = session, tm_enabled = False, tm_pending = [],
      tm_instructions = [], tm_function_blocks = [], tm_gaps = [], tm_decode_queue = [], tm_shutting_down = False\<rparr>"

definition TraceManager_Create :: "trace_env option \<Rightarrow> string + TraceManager" where
  "TraceManager_Create openocd =
     (case openocd of
        None \<Rightarrow> Inl ''trace requires an OpenOCD-backed launch session''
      | Some env \<Rightarrow>
          (case ListTraceSinks env of
             Inl e \<Rightarrow> Inl e
           | Inr [] \<Rightarrow> Inl ''no trace sink found - check the sourced OpenOCD config''
           | Inr (sink # _) \<Rightarrow>
               (case ListTraceSources env of
                  Inl e \<Rightarrow> Inl e
                | Inr [] \<Rightarrow> Inl ''no trace source found - check the sourced OpenOCD config''
                | Inr (source # _) \<Rightarrow>
                    (case BuildSession env source of
                       Inl e \<Rightarrow> Inl e
                     | Inr session \<Rightarrow>
                         (case SubscribeTrace env sink of
                            Some e \<Rightarrow> Inl e
                          | None \<Rightarrow> Inr (new_TraceManager sink source session))))))"

definition Status :: "trace_env \<Rightarrow> TraceManager \<Rightarrow> TraceStatusResponseBody" where
  "Status env m =
     \<lparr>ts_available = True, ts_enabled = tm_enabled m,
      ts_reason = (if \<not> tm_enabled m then eTraceStatusReasonIdle
                   else if target_stopped env then eTraceStatusReasonArmedAwaitingResume else eTraceStatusReasonCapturing),
      ts_detail = [], ts_instructionCount = of_nat (length (tm_instructions m)),
      ts_functionBlockCount = of_nat (length (tm_function_blocks m))\<rparr>"

text \<open>The two critical sections of arming, and the one of disarming.\<close>

definition Enable_reset :: "TraceSession \<Rightarrow> TraceManager \<Rightarrow> TraceManager" where
  "Enable_reset session m =
     m\<lparr>tm_session := session, tm_pending := [], tm_decode_queue := [], tm_instructions := [], tm_function_blocks := [], tm_gaps := []\<rparr>"

definition Enable_done :: "TraceManager \<Rightarrow> TraceManager" where
  "Enable_done m = m\<lparr>tm_enabled := True\<rparr>"

definition Disable_done :: "TraceManager \<Rightarrow> TraceManager" where
  "Disable_done m = m\<lparr>tm_enabled := False, tm_pending := [], tm_decode_queue := []\<rparr>"

definition TraceManager_Enable :: "trace_env \<Rightarrow> TraceManager \<Rightarrow> string option \<times> TraceManager \<times> trace_event list" where
  "TraceManager_Enable env m =
     (case BuildSession env (tm_source m) of
        Inl e \<Rightarrow> (Some e, m, [])
      | Inr session \<Rightarrow>
          (let m = Enable_reset session m
           in case EnableTrace env (tm_sink m) of
                Some e \<Rightarrow> (Some e, m, [])
              | None \<Rightarrow>
                  (case EnableTrace env (tm_source m) of
                     Some e \<Rightarrow> (Some e, m, [])
                   | None \<Rightarrow> (let m = Enable_done m in (None, m, [TraceStatus (Status env m)])))))"

definition TraceManager_Disable :: "trace_env \<Rightarrow> TraceManager \<Rightarrow> string option \<times> TraceManager \<times> trace_event list" where
  "TraceManager_Disable env m =
     (case DisableTrace env (tm_source m) of
        Some e \<Rightarrow> (Some e, m, [])
      | None \<Rightarrow>
          (case DisableTrace env (tm_sink m) of
             Some e \<Rightarrow> (Some e, m, [])
           | None \<Rightarrow> (let m = Disable_done m in (None, m, [TraceStatus (Status env m)]))))"

definition push_chunk :: "u8 list \<Rightarrow> TraceManager \<Rightarrow> TraceManager" where
  "push_chunk chunk m = m\<lparr>tm_decode_queue := tm_decode_queue m @ [chunk]\<rparr>"

definition OnCapture :: "u8 list \<Rightarrow> bool \<Rightarrow> TraceManager \<Rightarrow> TraceManager" where
  "OnCapture data is_barrier m =
     (let m = m\<lparr>tm_pending := tm_pending m @ data\<rparr>
      in if is_barrier then m
         else if \<not> tm_enabled m then m\<lparr>tm_pending := []\<rparr>
         else (push_chunk (tm_pending m) m)\<lparr>tm_pending := []\<rparr>)"

text \<open>The worker: take a chunk (\<open>None\<close> while the queue is empty), then decode it under the lock.\<close>

definition pop_chunk :: "TraceManager \<Rightarrow> (u8 list \<times> TraceManager) option" where
  "pop_chunk m = (case tm_decode_queue m of [] \<Rightarrow> None | c # cs \<Rightarrow> Some (c, m\<lparr>tm_decode_queue := cs\<rparr>))"

definition decode_failed :: "string \<Rightarrow> TraceManager \<Rightarrow> trace_event list" where
  "decode_failed e m =
     [TraceOutput (''trace decode failed: '' @ e),
      TraceStatus \<lparr>ts_available = True, ts_enabled = tm_enabled m, ts_reason = eTraceStatusReasonDecodeError, ts_detail = e,
        ts_instructionCount = of_nat (length (tm_instructions m)), ts_functionBlockCount = of_nat (length (tm_function_blocks m))\<rparr>]"

definition increment_event :: "DecodedIncrement \<Rightarrow> TraceManager \<Rightarrow> TraceDataEvent" where
  "increment_event inc m =
     \<lparr>td_first_instruction_index = of_nat (length (tm_instructions m)),
      td_first_function_block_index = of_nat (length (tm_function_blocks m)),
      td_instructions = inc_instructions inc, td_function_blocks = inc_function_blocks inc, td_gaps = inc_gaps inc\<rparr>"

definition add_increment :: "DecodedIncrement \<Rightarrow> TraceManager \<Rightarrow> TraceManager" where
  "add_increment inc m =
     m\<lparr>tm_instructions := tm_instructions m @ inc_instructions inc,
       tm_function_blocks := tm_function_blocks m @ inc_function_blocks inc,
       tm_gaps := tm_gaps m @ inc_gaps inc\<rparr>"

text \<open>\<open>None\<close> when the decode does not return; a disabled manager drops the chunk.\<close>

definition decode_chunk :: "'tree OpenCsd \<Rightarrow> u8 list \<Rightarrow> TraceManager \<Rightarrow> (TraceManager \<times> trace_event list) option" where
  "decode_chunk csd chunk m =
     (if \<not> tm_enabled m then Some (m, [])
      else (case Append csd (tm_session m) chunk of
              None \<Rightarrow> None
            | Some (Inl fault, session) \<Rightarrow> None
            | Some (Inr (Inl e), session) \<Rightarrow> (let m = m\<lparr>tm_session := session\<rparr> in Some (m, decode_failed e m))
            | Some (Inr (Inr inc), session) \<Rightarrow>
                (let m = m\<lparr>tm_session := session\<rparr>;
                     event = increment_event inc m;
                     m = add_increment inc m
                 in Some (m, [TraceData event,
                      TraceStatus \<lparr>ts_available = True, ts_enabled = tm_enabled m, ts_reason = eTraceStatusReasonCapturing,
                        ts_detail = [], ts_instructionCount = of_nat (length (tm_instructions m)),
                        ts_functionBlockCount = of_nat (length (tm_function_blocks m))\<rparr>]))))"

section \<open>The queue\<close>

interpretation decode_queue: fifo push_chunk pop_chunk tm_decode_queue
  by unfold_locales (auto simp: push_chunk_def pop_chunk_def split: list.splits)

section \<open>Threads\<close>

text \<open>The worker between its critical sections, with the number of arms at which it took the chunk.\<close>

datatype worker_pc = Waiting | Holding nat "u8 list" | Emitting "trace_event list"

text \<open>The whole: the manager, the worker, what was emitted.  History: how often the trace was armed;
  the chunks queued and taken since the queue was last cleared; and every decode with the arm at
  which its chunk was taken, the arm of the session that decoded it, and the data event if any.\<close>

record trace_sys =
  sys_mgr :: TraceManager
  sys_worker :: worker_pc
  sys_out :: "trace_event list"
  sys_arms :: nat
  sys_put :: "u8 list list"
  sys_taken :: "u8 list list"
  sys_log :: "(nat \<times> nat \<times> TraceDataEvent option) list"

definition data_of :: "trace_event list \<Rightarrow> TraceDataEvent list" where
  "data_of es = List.map_filter (\<lambda>e. case e of TraceData d \<Rightarrow> Some d | _ \<Rightarrow> None) es"

inductive tm_step :: "'tree OpenCsd \<Rightarrow> trace_sys \<Rightarrow> trace_sys \<Rightarrow> bool" for csd where
  capture: "m = sys_mgr s \<Longrightarrow> m' = OnCapture data barrier m \<Longrightarrow>
    tm_step csd s (s\<lparr>sys_mgr := m', sys_put := sys_put s @ drop (length (tm_decode_queue m)) (tm_decode_queue m')\<rparr>)"
| arm_reset: "tm_step csd s (s\<lparr>sys_mgr := Enable_reset session (sys_mgr s), sys_arms := Suc (sys_arms s), sys_put := [], sys_taken := []\<rparr>)"
| arm_done: "m' = Enable_done (sys_mgr s) \<Longrightarrow>
    tm_step csd s (s\<lparr>sys_mgr := m', sys_out := sys_out s @ [TraceStatus (Status env m')]\<rparr>)"
| disarm: "m' = Disable_done (sys_mgr s) \<Longrightarrow>
    tm_step csd s (s\<lparr>sys_mgr := m', sys_out := sys_out s @ [TraceStatus (Status env m')], sys_put := [], sys_taken := []\<rparr>)"
| pop: "sys_worker s = Waiting \<Longrightarrow> \<not> tm_shutting_down (sys_mgr s) \<Longrightarrow> pop_chunk (sys_mgr s) = Some (chunk, m') \<Longrightarrow>
    tm_step csd s (s\<lparr>sys_mgr := m', sys_worker := Holding (sys_arms s) chunk, sys_taken := sys_taken s @ [chunk]\<rparr>)"
| decode: "sys_worker s = Holding arm chunk \<Longrightarrow> decode_chunk csd chunk (sys_mgr s) = Some (m', es) \<Longrightarrow>
    tm_step csd s (s\<lparr>sys_mgr := m', sys_worker := Emitting es,
      sys_log := sys_log s @ (if tm_enabled (sys_mgr s) then [(arm, sys_arms s, case data_of es of d # _ \<Rightarrow> Some d | [] \<Rightarrow> None)] else [])\<rparr>)"
| emit: "sys_worker s = Emitting es \<Longrightarrow> tm_step csd s (s\<lparr>sys_worker := Waiting, sys_out := sys_out s @ es\<rparr>)"
| shutdown: "tm_step csd s (s\<lparr>sys_mgr := (sys_mgr s)\<lparr>tm_shutting_down := True\<rparr>\<rparr>)"

definition sys_init :: "TraceManager \<Rightarrow> trace_sys" where
  "sys_init m = \<lparr>sys_mgr = m, sys_worker = Waiting, sys_out = [], sys_arms = 0, sys_put = [], sys_taken = [], sys_log = []\<rparr>"

section \<open>What the client sees is what was decoded\<close>

text \<open>The data events of one arm, in order of decoding.\<close>

definition arm_data :: "nat \<Rightarrow> (nat \<times> nat \<times> TraceDataEvent option) list \<Rightarrow> TraceDataEvent list" where
  "arm_data a log = List.map_filter (\<lambda>(_, b, d). if b = a then d else None) log"

definition log_data :: "(nat \<times> nat \<times> TraceDataEvent option) list \<Rightarrow> TraceDataEvent list" where
  "log_data log = List.map_filter (\<lambda>(_, _, d). d) log"

text \<open>Every data event starts where the earlier events of its arm end.\<close>

definition starts_after :: "TraceDataEvent list \<Rightarrow> TraceDataEvent \<Rightarrow> bool" where
  "starts_after ds d \<longleftrightarrow>
     td_first_instruction_index d = of_nat (length (concat (map td_instructions ds))) \<and>
     td_first_function_block_index d = of_nat (length (concat (map td_function_blocks ds)))"

definition indexed_log :: "(nat \<times> nat \<times> TraceDataEvent option) list \<Rightarrow> bool" where
  "indexed_log log \<longleftrightarrow> (\<forall>pre a b d post. log = pre @ (a, b, Some d) # post \<longrightarrow> starts_after (arm_data b pre) d)"

definition in_flight :: "worker_pc \<Rightarrow> trace_event list" where
  "in_flight w = (case w of Emitting es \<Rightarrow> es | _ \<Rightarrow> [])"

definition stored_is :: "TraceManager \<Rightarrow> TraceDataEvent list \<Rightarrow> bool" where
  "stored_is m ds \<longleftrightarrow> tm_instructions m = concat (map td_instructions ds) \<and>
     tm_function_blocks m = concat (map td_function_blocks ds) \<and> tm_gaps m = concat (map td_gaps ds)"

definition sys_inv :: "trace_sys \<Rightarrow> bool" where
  "sys_inv s \<longleftrightarrow> sys_put s = sys_taken s @ tm_decode_queue (sys_mgr s) \<and>
     data_of (sys_out s) @ data_of (in_flight (sys_worker s)) = log_data (sys_log s) \<and>
     stored_is (sys_mgr s) (arm_data (sys_arms s) (sys_log s)) \<and>
     indexed_log (sys_log s) \<and> (\<forall>(a, b, d) \<in> set (sys_log s). b \<le> sys_arms s)"

lemma data_of_simps [trace_simps]:
  "data_of (xs @ ys) = data_of xs @ data_of ys" "data_of [] = []" "data_of [TraceStatus b] = []"
  by (simp_all add: data_of_def List.map_filter_def)

lemma log_snoc [trace_simps]:
  "arm_data a (log @ [(k, b, d)]) = arm_data a log @ (if b = a then (case d of Some e \<Rightarrow> [e] | None \<Rightarrow> []) else [])"
  "log_data (log @ [(k, b, d)]) = log_data log @ (case d of Some e \<Rightarrow> [e] | None \<Rightarrow> [])"
  by (auto simp: arm_data_def log_data_def map_filter_append List.map_filter_def split: option.splits)

lemma arm_data_future:
  assumes "\<forall>(a, b, d) \<in> set log. b \<le> n"
  shows "arm_data (Suc n) log = []"
  using assms by (induction log) (auto simp: arm_data_def List.map_filter_def)

lemma indexed_log_snoc:
  "indexed_log (log @ [(k, b, d)]) \<longleftrightarrow> indexed_log log \<and> pred_option (starts_after (arm_data b log)) d"
proof -
  have split: "log @ [(k, b, d)] = pre @ x # post \<longleftrightarrow> (post = [] \<and> pre = log \<and> x = (k, b, d)) \<or> (\<exists>q. post = q @ [(k, b, d)] \<and> log = pre @ x # q)"
    for pre x post by (cases post rule: rev_cases) auto
  show ?thesis unfolding indexed_log_def split by (cases d) (simp_all, blast+)
qed

lemma indexed_log_Nil: "indexed_log []"
  by (simp add: indexed_log_def)

lemma decode_chunk_result:
  assumes "decode_chunk csd chunk m = Some (m', es)"
  shows "tm_decode_queue m' = tm_decode_queue m"
    and "(data_of es = [] \<and> tm_instructions m' = tm_instructions m \<and> tm_function_blocks m' = tm_function_blocks m \<and> tm_gaps m' = tm_gaps m) \<or>
      (tm_enabled m \<and> (\<exists>inc. data_of es = [increment_event inc m] \<and> tm_instructions m' = tm_instructions m @ inc_instructions inc \<and>
         tm_function_blocks m' = tm_function_blocks m @ inc_function_blocks inc \<and> tm_gaps m' = tm_gaps m @ inc_gaps inc))"
proof -
  show "tm_decode_queue m' = tm_decode_queue m"
    using assms by (auto simp: decode_chunk_def Let_def add_increment_def split: if_splits option.splits sum.splits)
  consider (off) "m' = m" "es = []"
    | (err) e session where "m' = m\<lparr>tm_session := session\<rparr>" "es = decode_failed e m'"
    | (ok) inc session b where "tm_enabled m" "m' = add_increment inc (m\<lparr>tm_session := session\<rparr>)"
        "es = [TraceData (increment_event inc (m\<lparr>tm_session := session\<rparr>)), TraceStatus b]"
    using assms by (auto simp: decode_chunk_def Let_def split: if_splits option.splits sum.splits)
  then show "(data_of es = [] \<and> tm_instructions m' = tm_instructions m \<and> tm_function_blocks m' = tm_function_blocks m \<and> tm_gaps m' = tm_gaps m) \<or>
      (tm_enabled m \<and> (\<exists>inc. data_of es = [increment_event inc m] \<and> tm_instructions m' = tm_instructions m @ inc_instructions inc \<and>
         tm_function_blocks m' = tm_function_blocks m @ inc_function_blocks inc \<and> tm_gaps m' = tm_gaps m @ inc_gaps inc))"
  proof cases
    case ok
    then show ?thesis
      by (intro disjI2 conjI exI [of _ inc])
         (simp_all add: data_of_def List.map_filter_def increment_event_def add_increment_def)
  qed (simp_all add: data_of_def List.map_filter_def decode_failed_def)
qed

lemma stored_is_cong:
  "tm_instructions m' = tm_instructions m \<Longrightarrow> tm_function_blocks m' = tm_function_blocks m \<Longrightarrow> tm_gaps m' = tm_gaps m \<Longrightarrow>
   stored_is m' ds = stored_is m ds"
  by (simp add: stored_is_def)

lemma sys_inv_decode:
  assumes inv: "sys_inv s" and w: "sys_worker s = Holding arm chunk" and d: "decode_chunk csd chunk (sys_mgr s) = Some (m', es)"
  shows "sys_inv (s\<lparr>sys_mgr := m', sys_worker := Emitting es,
    sys_log := sys_log s @ (if tm_enabled (sys_mgr s) then [(arm, sys_arms s, case data_of es of d # _ \<Rightarrow> Some d | [] \<Rightarrow> None)] else [])\<rparr>)"
proof (cases "data_of es")
  case Nil
  note r = decode_chunk_result [OF d]
  have same: "tm_instructions m' = tm_instructions (sys_mgr s)" "tm_function_blocks m' = tm_function_blocks (sys_mgr s)" "tm_gaps m' = tm_gaps (sys_mgr s)"
    using r(2) Nil by auto
  have log: "sys_log s @ (if tm_enabled (sys_mgr s) then [(arm, sys_arms s, case data_of es of d # _ \<Rightarrow> Some d | [] \<Rightarrow> None)] else []) =
      sys_log s @ (if tm_enabled (sys_mgr s) then [(arm, sys_arms s, None)] else [])" using Nil by simp
  let ?log = "sys_log s @ (if tm_enabled (sys_mgr s) then [(arm, sys_arms s, None)] else [])"
  have l: "log_data ?log = log_data (sys_log s)" "arm_data a ?log = arm_data a (sys_log s)" "indexed_log ?log = indexed_log (sys_log s)" for a
    by (simp_all add: trace_simps indexed_log_snoc)
  have b: "\<forall>(a, b, d) \<in> set ?log. b \<le> sys_arms s" using inv by (auto simp: sys_inv_def)
  have st: "stored_is m' ds = stored_is (sys_mgr s) ds" for ds using same by (rule stored_is_cong)
  have "data_of (in_flight (sys_worker s)) = []" using w by (simp add: in_flight_def trace_simps)
  then show ?thesis
    unfolding log using inv r(1) b by (simp add: sys_inv_def in_flight_def Nil l st)
next
  case (Cons e es')
  note r = decode_chunk_result [OF d]
  from r(2) Cons obtain inc where on: "tm_enabled (sys_mgr s)" and e: "data_of es = [increment_event inc (sys_mgr s)]"
    and m': "tm_instructions m' = tm_instructions (sys_mgr s) @ inc_instructions inc"
      "tm_function_blocks m' = tm_function_blocks (sys_mgr s) @ inc_function_blocks inc" "tm_gaps m' = tm_gaps (sys_mgr s) @ inc_gaps inc"
    by auto
  have ix: "indexed_log (sys_log s @ [(arm, sys_arms s, Some (increment_event inc (sys_mgr s)))])"
    using inv by (simp add: sys_inv_def indexed_log_snoc starts_after_def increment_event_def stored_is_def)
  have st: "stored_is m' (arm_data (sys_arms s) (sys_log s) @ [increment_event inc (sys_mgr s)])"
    using inv m' by (simp add: sys_inv_def stored_is_def increment_event_def)
  let ?log = "sys_log s @ [(arm, sys_arms s, Some (increment_event inc (sys_mgr s)))]"
  have log: "sys_log s @ (if tm_enabled (sys_mgr s) then [(arm, sys_arms s, case data_of es of d # _ \<Rightarrow> Some d | [] \<Rightarrow> None)] else []) = ?log"
    using on e by simp
  have l: "log_data ?log = log_data (sys_log s) @ [increment_event inc (sys_mgr s)]"
    "arm_data (sys_arms s) ?log = arm_data (sys_arms s) (sys_log s) @ [increment_event inc (sys_mgr s)]"
    by (simp_all add: trace_simps)
  have b: "\<forall>(a, b, d) \<in> set ?log. b \<le> sys_arms s" using inv by (auto simp: sys_inv_def)
  have "data_of (in_flight (sys_worker s)) = []" using w by (simp add: in_flight_def trace_simps)
  then show ?thesis
    unfolding log using inv r(1) b ix st by (simp add: sys_inv_def in_flight_def e l)
qed

lemma OnCapture_queue:
  "tm_decode_queue (OnCapture data barrier m) =
     tm_decode_queue m @ (if \<not> barrier \<and> tm_enabled m then [tm_pending m @ data] else [])"
  by (simp add: OnCapture_def push_chunk_def Let_def)

lemma OnCapture_store: "stored_is (OnCapture data barrier m) ds = stored_is m ds"
  by (rule stored_is_cong) (simp_all add: OnCapture_def push_chunk_def Let_def)

lemma tm_step_inv:
  assumes "tm_step csd s s'" and "sys_inv s"
  shows "sys_inv s'"
  using assms
proof (cases rule: tm_step.cases)
  case (capture m m' data barrier)
  with assms(2) show ?thesis by (simp add: sys_inv_def OnCapture_queue OnCapture_store)
next
  case (arm_reset session)
  have "arm_data (Suc (sys_arms s)) (sys_log s) = []"
    using assms(2) by (intro arm_data_future) (simp add: sys_inv_def)
  moreover have "\<forall>(a, b, d) \<in> set (sys_log s). b \<le> Suc (sys_arms s)"
    using assms(2) by (auto simp: sys_inv_def)
  ultimately show ?thesis
    using assms(2) arm_reset by (simp add: sys_inv_def Enable_reset_def stored_is_def)
next
  case (arm_done m' env)
  with assms(2) show ?thesis by (simp add: sys_inv_def Enable_done_def trace_simps stored_is_def)
next
  case (disarm m' env)
  with assms(2) show ?thesis by (simp add: sys_inv_def Disable_done_def trace_simps stored_is_def)
next
  case (pop chunk m')
  have "tm_decode_queue (sys_mgr s) = chunk # tm_decode_queue m'" by (rule decode_queue.take_Some [OF pop(4)])
  moreover have "stored_is m' ds = stored_is (sys_mgr s) ds" for ds
    using pop(4) by (intro stored_is_cong) (auto simp: pop_chunk_def split: list.splits)
  ultimately show ?thesis using assms(2) pop by (simp add: sys_inv_def in_flight_def)
next
  case (decode arm chunk m' es)
  show ?thesis unfolding decode(1) by (rule sys_inv_decode [OF assms(2) decode(2,3)])
next
  case (emit es)
  with assms(2) show ?thesis by (simp add: sys_inv_def in_flight_def trace_simps)
next
  case shutdown
  with assms(2) show ?thesis by (simp add: sys_inv_def stored_is_def)
qed

lemma tm_reach_inv:
  assumes "(tm_step csd)\<^sup>*\<^sup>* (sys_init (new_TraceManager sink source session)) s"
  shows "sys_inv s"
  using assms
proof (induction rule: rtranclp_induct)
  case base
  show ?case by (simp add: sys_inv_def sys_init_def new_TraceManager_def in_flight_def data_of_def log_data_def arm_data_def
      List.map_filter_def stored_is_def indexed_log_Nil)
next
  case (step t u)
  then show ?case by (rule_tac tm_step_inv)
qed

section \<open>Properties\<close>

text \<open>C3: Over every interleaving of captures, arming, disarming, the decode worker and shutdown: the
  chunks queued since the queue was last cleared are the chunks taken followed by those waiting;
  the data events on the bus, with those about to be emitted, are the decoded increments in
  order; what the manager stores is the concatenation of the increments decoded since the last
  arm; and every increment is announced at the index where the earlier ones of its arm end, so a
  client that appends them holds exactly the manager's instructions and function blocks.\<close>

theorem trace_manager_stream:
  assumes "(tm_step csd)\<^sup>*\<^sup>* (sys_init (new_TraceManager sink source session)) s"
  shows "sys_put s = sys_taken s @ tm_decode_queue (sys_mgr s) \<and>
    data_of (sys_out s) @ data_of (in_flight (sys_worker s)) = log_data (sys_log s) \<and>
    tm_instructions (sys_mgr s) = concat (map td_instructions (arm_data (sys_arms s) (sys_log s))) \<and>
    tm_function_blocks (sys_mgr s) = concat (map td_function_blocks (arm_data (sys_arms s) (sys_log s))) \<and>
    tm_gaps (sys_mgr s) = concat (map td_gaps (arm_data (sys_arms s) (sys_log s))) \<and>
    (\<forall>pre a b d post. sys_log s = pre @ (a, b, Some d) # post \<longrightarrow> starts_after (arm_data b pre) d)"
  using tm_reach_inv [OF assms] by (simp add: sys_inv_def stored_is_def indexed_log_def)

definition sample_manager :: TraceManager where
  "sample_manager = new_TraceManager ''tmc'' ''etm'' (new_TraceSession sample_config [] (\<lambda>_. None))"

definition sample_trace_env :: trace_env where
  "sample_trace_env = \<lparr>ReadETMv4Registers = (\<lambda>_. Inr (registers sample_config)), GetCoreName = Inr ''none'',
     disassembly_program = Inr ([], \<lambda>_. None), session_program = ''a.elf'', ListTraceSinks = Inr [''tmc''], ListTraceSources = Inr [''etm''],
     SubscribeTrace = (\<lambda>_. None), EnableTrace = (\<lambda>_. None), DisableTrace = (\<lambda>_. None), target_stopped = False\<rparr>"

definition blind_csd :: "u8 list OpenCsd" where
  "blind_csd = sample_csd\<lparr>getArchProfile := (\<lambda>_. None)\<rparr>"

text \<open>Arm, capture one chunk, take it.\<close>

definition armed_sys :: trace_sys where
  "armed_sys = (sys_init sample_manager)
     \<lparr>sys_mgr := Enable_done (Enable_reset (tm_session sample_manager) sample_manager), sys_arms := 1,
      sys_out := [TraceStatus (Status sample_trace_env (Enable_done (Enable_reset (tm_session sample_manager) sample_manager)))]\<rparr>"

definition holding_sys :: trace_sys where
  "holding_sys = armed_sys\<lparr>sys_worker := Holding 1 [7], sys_put := [[7]], sys_taken := [[7]]\<rparr>"

lemma reach_armed: "(tm_step csd)\<^sup>*\<^sup>* (sys_init sample_manager) armed_sys"
proof -
  have 1: "tm_step csd (sys_init sample_manager) ((sys_init sample_manager)
      \<lparr>sys_mgr := Enable_reset (tm_session sample_manager) (sys_mgr (sys_init sample_manager)),
       sys_arms := Suc (sys_arms (sys_init sample_manager)), sys_put := [], sys_taken := []\<rparr>)" (is "tm_step csd _ ?s1")
    by (rule tm_step.arm_reset)
  have "tm_step csd ?s1 (?s1\<lparr>sys_mgr := Enable_done (sys_mgr ?s1),
      sys_out := sys_out ?s1 @ [TraceStatus (Status sample_trace_env (Enable_done (sys_mgr ?s1)))]\<rparr>)" (is "tm_step csd _ ?s2")
    by (rule tm_step.arm_done [OF refl])
  moreover have "?s2 = armed_sys" by (simp add: armed_sys_def sys_init_def)
  ultimately show ?thesis using 1 by (metis r_into_rtranclp rtranclp.rtrancl_into_rtrancl)
qed

lemma reach_holding: "(tm_step csd)\<^sup>*\<^sup>* (sys_init sample_manager) holding_sys"
proof -
  let ?m = "sys_mgr armed_sys"
  let ?m1 = "OnCapture [7] False ?m"
  have q: "tm_decode_queue ?m = []" "tm_pending ?m = []" "tm_enabled ?m" "\<not> tm_shutting_down ?m"
    by (simp_all add: armed_sys_def Enable_done_def Enable_reset_def sample_manager_def new_TraceManager_def)
  let ?s1 = "armed_sys\<lparr>sys_mgr := ?m1, sys_put := sys_put armed_sys @ drop (length (tm_decode_queue ?m)) (tm_decode_queue ?m1)\<rparr>"
  have 1: "tm_step csd armed_sys ?s1" by (rule tm_step.capture [OF refl refl])
  have m1: "?m1 = ?m\<lparr>tm_decode_queue := [[7]], tm_pending := []\<rparr>" using q by (simp add: OnCapture_def push_chunk_def Let_def)
  have m2: "?m1\<lparr>tm_decode_queue := []\<rparr> = ?m" unfolding m1 using q by (cases ?m) simp
  have 2: "tm_step csd ?s1 (?s1\<lparr>sys_mgr := ?m1\<lparr>tm_decode_queue := []\<rparr>, sys_worker := Holding (sys_arms ?s1) [7], sys_taken := sys_taken ?s1 @ [[7]]\<rparr>)"
    by (rule tm_step.pop) (simp_all add: armed_sys_def sys_init_def m1 [unfolded armed_sys_def] pop_chunk_def Enable_done_def
        Enable_reset_def sample_manager_def new_TraceManager_def OnCapture_def push_chunk_def Let_def)
  have "?s1\<lparr>sys_mgr := ?m1\<lparr>tm_decode_queue := []\<rparr>, sys_worker := Holding (sys_arms ?s1) [7], sys_taken := sys_taken ?s1 @ [[7]]\<rparr> = holding_sys"
    unfolding m2 using q by (simp add: m1 holding_sys_def) (simp add: armed_sys_def sys_init_def)
  with 1 2 reach_armed show ?thesis by (metis rtranclp.rtrancl_into_rtrancl)
qed

theorem trace_manager_stream_witness: "sys_put holding_sys = [[7]] @ tm_decode_queue (sys_mgr holding_sys)"
  using trace_manager_stream [OF reach_holding [unfolded sample_manager_def]] by (simp add: holding_sys_def)

text \<open>A capture can cross an arm: the worker releases the lock between taking a chunk and decoding
  it, so a chunk captured before the trace was disarmed and armed again is decoded by the new
  session, although arming had discarded every earlier capture.\<close>

lemma trace_chunk_crosses_arms:
  "\<exists>s. (tm_step blind_csd)\<^sup>*\<^sup>* (sys_init sample_manager) s \<and> (\<exists>(a, b, d) \<in> set (sys_log s). a < b)"
proof -
  let ?h = holding_sys
  let ?s1 = "?h\<lparr>sys_mgr := Disable_done (sys_mgr ?h), sys_out := sys_out ?h @ [TraceStatus (Status sample_trace_env (Disable_done (sys_mgr ?h)))],
    sys_put := [], sys_taken := []\<rparr>"
  let ?s2 = "?s1\<lparr>sys_mgr := Enable_reset (tm_session sample_manager) (sys_mgr ?s1), sys_arms := Suc (sys_arms ?s1), sys_put := [], sys_taken := []\<rparr>"
  let ?s3 = "?s2\<lparr>sys_mgr := Enable_done (sys_mgr ?s2), sys_out := sys_out ?s2 @ [TraceStatus (Status sample_trace_env (Enable_done (sys_mgr ?s2)))]\<rparr>"
  have 1: "tm_step blind_csd ?h ?s1" by (rule tm_step.disarm [OF refl])
  have 2: "tm_step blind_csd ?s1 ?s2" by (rule tm_step.arm_reset)
  have 3: "tm_step blind_csd ?s2 ?s3" by (rule tm_step.arm_done [OF refl])
  have on: "tm_enabled (sys_mgr ?s3)" by (simp add: Enable_done_def)
  have "\<exists>e session. Append blind_csd (tm_session (sys_mgr ?s3)) [7] = Some (Inr (Inl e), session)"
    by (simp add: Append_def Decode_def blind_csd_def)
  then obtain m' es where d: "decode_chunk blind_csd [7] (sys_mgr ?s3) = Some (m', es)"
    using on by (auto simp: decode_chunk_def Let_def)
  have w: "sys_worker ?s3 = Holding 1 [7]" by (simp add: holding_sys_def)
  let ?s4 = "?s3\<lparr>sys_mgr := m', sys_worker := Emitting es,
      sys_log := sys_log ?s3 @ (if tm_enabled (sys_mgr ?s3) then [(1, sys_arms ?s3, case data_of es of d # _ \<Rightarrow> Some d | [] \<Rightarrow> None)] else [])\<rparr>"
  have 4: "tm_step blind_csd ?s3 ?s4" by (rule tm_step.decode [OF w d])
  have "(tm_step blind_csd)\<^sup>*\<^sup>* (sys_init sample_manager) ?s4"
    using reach_holding 1 2 3 4 by (meson rtranclp.rtrancl_into_rtrancl)
  moreover have "(1, 2, case data_of es of d # _ \<Rightarrow> Some d | [] \<Rightarrow> None) \<in> set (sys_log ?s4)"
    using on by (simp add: holding_sys_def armed_sys_def sys_init_def)
  moreover have "case (1, 2, case data_of es of d # _ \<Rightarrow> Some d | [] \<Rightarrow> None) of (a, b, d) \<Rightarrow> a < (b :: nat)" by simp
  ultimately show ?thesis by blast
qed

end
