(* ===== verification/Transport.thy ===== *)
theory Transport
  imports Prelude
begin

text \<open>
  The wire framing of the adapter (\<open>modules/dap/src/transport.cc\<close>, POSIX branch): messages are JSON
  bodies behind a \<open>Content-Length\<close> header.  What the descriptors deliver is explicit: the input is
  the list of what successive reads find (bytes in pieces of any size, a stop request, an error),
  its end is the end of input; the output records how much each write accepts.  The JSON library is
  a parameter: \<open>json_parse\<close> and \<open>json_print\<close>.
\<close>

section \<open>Descriptors\<close>

datatype read_event = Bytes string | ReadError | StopReq

record Transport =
  read_buffer :: string
  read_pos :: nat
  stop_pipe :: bool
  in_events :: "read_event list"

definition kReadChunkSize :: nat where "kReadChunkSize = 4096"

definition kContentLengthHeader :: string where "kContentLengthHeader = ''Content-Length:''"

abbreviation (input) CR :: char where "CR \<equiv> CHR 0x0D"
abbreviation (input) LF :: char where "LF \<equiv> CHR 0x0A"

text \<open>A stop request stays readable on its pipe: it is not consumed.\<close>

definition WaitForReadable :: "Transport \<Rightarrow> bool" where
  "WaitForReadable t \<longleftrightarrow> (if \<not> stop_pipe t then True else case in_events t of StopReq # _ \<Rightarrow> False | _ \<Rightarrow> True)"

text \<open>One read of at most \<open>n\<close> bytes: \<open>None\<close> for an error, no bytes at the end of input.\<close>

fun ReadBytes :: "nat \<Rightarrow> read_event list \<Rightarrow> string option \<times> read_event list" where
  "ReadBytes n [] = (Some [], [])"
| "ReadBytes n (StopReq # es) = ReadBytes n es"
| "ReadBytes n (ReadError # es) = (None, es)"
| "ReadBytes n (Bytes bs # es) = (Some (take n bs), if drop n bs = [] then es else Bytes (drop n bs) # es)"

section \<open>Reading\<close>

text \<open>The index of the first line end, as \<open>std::string::find\<close> gives it.\<close>

fun find_crlf :: "string \<Rightarrow> nat option" where
  "find_crlf (c # d # cs) = (if c = CR \<and> d = LF then Some 0 else map_option Suc (find_crlf (d # cs)))"
| "find_crlf _ = None"

fun events_size :: "read_event list \<Rightarrow> nat" where
  "events_size [] = 0"
| "events_size (Bytes bs # es) = Suc (length bs) + events_size es"
| "events_size (_ # es) = Suc (events_size es)"

lemma ReadBytes_size:
  "ReadBytes n es = (Some bs, es') \<Longrightarrow> bs \<noteq> [] \<Longrightarrow> events_size es' + length bs \<le> events_size es"
proof (induction n es rule: ReadBytes.induct)
  case (4 n cs es)
  then show ?case by (cases "drop n cs = []") (auto simp: min_def)
qed auto

lemma ReadBytes_less: "ReadBytes n es = (Some (b # bs), es') \<Longrightarrow> events_size es' < events_size es"
  using ReadBytes_size [of n es "b # bs" es'] by simp

function ReadHeaderLine :: "Transport \<Rightarrow> string option \<times> Transport" where
  "ReadHeaderLine t =
     (case find_crlf (drop (read_pos t) (read_buffer t)) of
        Some i \<Rightarrow> (Some (take i (drop (read_pos t) (read_buffer t))), t\<lparr>read_pos := read_pos t + i + 2\<rparr>)
      | None \<Rightarrow>
          (let t = t\<lparr>read_buffer := drop (read_pos t) (read_buffer t), read_pos := 0\<rparr>
           in if \<not> WaitForReadable t then (None, t)
              else (case ReadBytes kReadChunkSize (in_events t) of
                      (None, es) \<Rightarrow> (None, t\<lparr>in_events := es\<rparr>)
                    | (Some bs, es) \<Rightarrow>
                        if bs = [] then (None, t\<lparr>in_events := es\<rparr>)
                        else ReadHeaderLine (t\<lparr>read_buffer := read_buffer t @ bs, in_events := es\<rparr>))))"
  by pat_completeness auto

termination
  by (relation "measure (\<lambda>t. events_size (in_events t))") (auto simp: neq_Nil_conv dest: ReadBytes_less sym)

declare ReadHeaderLine.simps [simp del]

text \<open>\<open>std::from_chars\<close> into a \<open>size_t\<close> that has to use the whole text.\<close>

definition from_chars_size :: "string \<Rightarrow> u64 option" where
  "from_chars_size s = (if s \<noteq> [] \<and> list_all is_digit s \<and> dec_value s < 2 ^ 64 then Some (of_nat (dec_value s)) else None)"

definition content_length_header :: "string \<Rightarrow> u64 option \<Rightarrow> u64 option" where
  "content_length_header line content_length =
     (if take (length kContentLengthHeader) line = kContentLengthHeader
      then (let val = dropWhile (\<lambda>c. c = CHR '' '') (drop (length kContentLengthHeader) line)
            in case from_chars_size val of Some parsed \<Rightarrow> Some parsed | None \<Rightarrow> content_length)
      else content_length)"

text \<open>Bytes still to be read, in the buffer and from the descriptor.\<close>

definition avail :: "Transport \<Rightarrow> nat" where
  "avail t = (length (read_buffer t) - read_pos t) + events_size (in_events t)"

lemma find_crlf_bound: "find_crlf s = Some i \<Longrightarrow> i + 2 \<le> length s"
  by (induction s arbitrary: i rule: find_crlf.induct) (auto split: if_splits)

lemma ReadHeaderLine_progress: "ReadHeaderLine t = (Some line, t') \<Longrightarrow> avail t' < avail t"
proof (induction t rule: ReadHeaderLine.induct)
  case (1 t)
  show ?case
  proof (cases "find_crlf (drop (read_pos t) (read_buffer t))")
    case (Some i)
    with find_crlf_bound [OF Some] "1.prems" show ?thesis
      by (auto simp: ReadHeaderLine.simps [of t] avail_def)
  next
    case None
    let ?t = "t\<lparr>read_buffer := drop (read_pos t) (read_buffer t), read_pos := 0\<rparr>"
    from None "1.prems" obtain bs es where w: "WaitForReadable ?t" and r: "ReadBytes kReadChunkSize (in_events t) = (Some bs, es)"
      and bs: "bs \<noteq> []" and n: "ReadHeaderLine (?t\<lparr>read_buffer := read_buffer ?t @ bs, in_events := es\<rparr>) = (Some line, t')"
      by (auto simp: ReadHeaderLine.simps [of t] Let_def split: if_splits option.splits prod.splits)
    have "avail t' < avail (?t\<lparr>read_buffer := read_buffer ?t @ bs, in_events := es\<rparr>)"
      by (rule "1.IH" [OF None refl _ _ refl _ n]) (use w r bs in simp_all)
    also have "\<dots> \<le> avail t" using ReadBytes_size [OF r bs] by (simp add: avail_def)
    finally show ?thesis .
  qed
qed

function header_loop :: "Transport \<Rightarrow> u64 option \<Rightarrow> u64 option \<times> Transport" where
  "header_loop t content_length =
     (case ReadHeaderLine t of
        (None, t) \<Rightarrow> (content_length, t)
      | (Some line, t) \<Rightarrow> if line = [] then (content_length, t) else header_loop t (content_length_header line content_length))"
  by pat_completeness auto

termination
  by (relation "measure (\<lambda>(t, _). avail t)") (auto dest: ReadHeaderLine_progress sym)

declare header_loop.simps [simp del]

function body_loop :: "nat \<Rightarrow> string \<Rightarrow> Transport \<Rightarrow> string option \<times> Transport" where
  "body_loop remaining body t =
     (if remaining = 0 then (Some body, t)
      else if \<not> WaitForReadable t then (None, t)
      else (case ReadBytes (min remaining kReadChunkSize) (in_events t) of
              (None, es) \<Rightarrow> (None, t\<lparr>in_events := es\<rparr>)
            | (Some bs, es) \<Rightarrow>
                if bs = [] then (None, t\<lparr>in_events := es\<rparr>)
                else body_loop (remaining - length bs) (body @ bs) (t\<lparr>in_events := es\<rparr>)))"
  by pat_completeness auto

termination
  by (relation "measure (\<lambda>(remaining, _, _). remaining)") auto

declare body_loop.simps [simp del]

definition ReadMessage :: "(string \<Rightarrow> 'j option) \<Rightarrow> Transport \<Rightarrow> 'j option \<times> Transport" where
  "ReadMessage json_parse t =
     (case header_loop t None of
        (None, t) \<Rightarrow> (None, t)
      | (Some content_length, t) \<Rightarrow>
          (let buffered = length (read_buffer t) - read_pos t;
               take_from_buffer = min buffered (unat content_length);
               body = take take_from_buffer (drop (read_pos t) (read_buffer t));
               t = t\<lparr>read_pos := read_pos t + take_from_buffer\<rparr>
           in case body_loop (unat content_length - take_from_buffer) body t of
                (None, t) \<Rightarrow> (None, t)
              | (Some body, t) \<Rightarrow> (json_parse body, t)))"

section \<open>Writing\<close>

text \<open>What each write accepts, at most; an accepted count of 0 is a failure.  After the listed
  writes the descriptor takes everything.\<close>

fun write_all :: "nat list \<Rightarrow> string \<Rightarrow> bool \<times> string" where
  "write_all accepts [] = (True, [])"
| "write_all [] data = (True, data)"
| "write_all (k # ks) data =
     (if k = 0 then (False, [])
      else (let (ok, rest) = write_all ks (drop k data) in (ok, take k data @ rest)))"

definition frame :: "string \<Rightarrow> string" where
  "frame body = kContentLengthHeader @ '' '' @ dec_string (length body) @ [CR, LF, CR, LF] @ body"

definition WriteMessage :: "('j \<Rightarrow> string) \<Rightarrow> nat list \<Rightarrow> 'j \<Rightarrow> bool \<times> string" where
  "WriteMessage json_print accepts message = write_all accepts (frame (json_print message))"

section \<open>The byte stream\<close>

text \<open>What is still to be read, as one string: what is left in the buffer, then what the descriptor
  delivers.\<close>

fun event_bytes :: "read_event list \<Rightarrow> string" where
  "event_bytes [] = []"
| "event_bytes (Bytes bs # es) = bs @ event_bytes es"
| "event_bytes (_ # es) = event_bytes es"

definition stream :: "Transport \<Rightarrow> string" where
  "stream t = drop (read_pos t) (read_buffer t) @ event_bytes (in_events t)"

text \<open>An undisturbed peer: only bytes, no empty read.\<close>

fun steady_events :: "read_event list \<Rightarrow> bool" where
  "steady_events [] = True"
| "steady_events (Bytes bs # es) = (bs \<noteq> [] \<and> steady_events es)"
| "steady_events (_ # es) = False"

definition steady :: "Transport \<Rightarrow> bool" where
  "steady t \<longleftrightarrow> read_pos t \<le> length (read_buffer t) \<and> steady_events (in_events t)"

lemma steady_readable: "steady_events (in_events t) \<Longrightarrow> WaitForReadable t"
  by (cases "in_events t" rule: steady_events.cases) (simp_all add: WaitForReadable_def)

lemma ReadBytes_steady:
  assumes "steady_events es" and "event_bytes es \<noteq> []" and "0 < n"
  shows "\<exists>bs es'. ReadBytes n es = (Some bs, es') \<and> bs \<noteq> [] \<and> length bs \<le> n \<and> event_bytes es = bs @ event_bytes es' \<and> steady_events es'"
  using assms by (cases es rule: steady_events.cases) auto

lemma find_crlf_append: "find_crlf s = Some i \<Longrightarrow> find_crlf (s @ u) = Some i"
  by (induction s arbitrary: i rule: find_crlf.induct) (auto split: if_splits)

lemma find_crlf_line:
  assumes "CR \<notin> set l"
  shows "find_crlf (l @ CR # LF # rest) = Some (length l)"
  using assms
proof (induction l)
  case (Cons c l)
  then show ?case by (cases l) auto
qed simp

text \<open>A line is read off the stream however it arrives in pieces.\<close>

lemma ReadHeaderLine_stream:
  assumes "steady t" and "find_crlf (stream t) = Some i"
  shows "\<exists>t'. ReadHeaderLine t = (Some (take i (stream t)), t') \<and> steady t' \<and> stream t' = drop (i + 2) (stream t)"
  using assms
proof (induction t rule: ReadHeaderLine.induct)
  case (1 t)
  let ?b = "drop (read_pos t) (read_buffer t)"
  show ?case
  proof (cases "find_crlf ?b")
    case (Some k)
    then have "find_crlf (stream t) = Some k" by (simp add: stream_def find_crlf_append)
    with "1.prems" have k: "k = i" by simp
    have "i + 2 \<le> length ?b" using find_crlf_bound Some k by blast
    then show ?thesis
      using Some k "1.prems"(1) by (simp add: ReadHeaderLine.simps [of t] stream_def steady_def add.commute)
  next
    case None
    let ?t = "t\<lparr>read_buffer := ?b, read_pos := 0\<rparr>"
    from "1.prems" None have ne: "event_bytes (in_events t) \<noteq> []" by (auto simp: stream_def)
    have st: "steady_events (in_events t)" using "1.prems"(1) by (simp add: steady_def)
    from ReadBytes_steady [OF st ne, of kReadChunkSize] obtain bs es where
      r: "ReadBytes kReadChunkSize (in_events t) = (Some bs, es)" and bs: "bs \<noteq> []"
      and split: "event_bytes (in_events t) = bs @ event_bytes es" and es: "steady_events es"
      by (auto simp: kReadChunkSize_def)
    let ?n = "?t\<lparr>read_buffer := read_buffer ?t @ bs, in_events := es\<rparr>"
    have w: "WaitForReadable ?t" using st by (simp add: steady_readable)
    have sn: "stream ?n = stream t" using split by (simp add: stream_def)
    have eq: "ReadHeaderLine t = ReadHeaderLine ?n"
      using None w r bs by (simp add: ReadHeaderLine.simps [of t] Let_def)
    have "\<exists>t'. ReadHeaderLine ?n = (Some (take i (stream ?n)), t') \<and> steady t' \<and> stream t' = drop (i + 2) (stream ?n)"
      by (rule "1.IH" [OF None refl _ _ refl]) (use w r bs es sn "1.prems"(2) in \<open>simp_all add: steady_def\<close>)
    then show ?thesis unfolding eq sn .
  qed
qed

lemma ReadHeaderLine_line:
  assumes "steady t" and "stream t = l @ CR # LF # rest" and "CR \<notin> set l"
  shows "\<exists>t'. ReadHeaderLine t = (Some l, t') \<and> steady t' \<and> stream t' = rest"
proof -
  have "find_crlf (stream t) = Some (length l)" unfolding assms(2) by (rule find_crlf_line [OF assms(3)])
  from ReadHeaderLine_stream [OF assms(1) this] show ?thesis unfolding assms(2) by simp
qed

lemma header_line_parse:
  assumes "n < 2 ^ 64"
  shows "content_length_header (kContentLengthHeader @ '' '' @ dec_string n) cl = Some (of_nat n)"
proof -
  have d: "list_all is_digit (dec_string n)" by (simp add: list_all_iff dec_string_digits)
  obtain c s where s: "dec_string n = c # s" by (meson dec_string_not_Nil neq_Nil_conv)
  then have "c \<noteq> CHR '' ''" using d by (auto simp: is_digit_def)
  then have "dropWhile (\<lambda>c. c = CHR '' '') ('' '' @ dec_string n) = dec_string n" using s by simp
  then show ?thesis using d assms by (simp add: content_length_header_def from_chars_size_def)
qed

lemma header_loop_frame:
  assumes "steady t" and "stream t = frame body @ rest" and "length body < 2 ^ 64"
  shows "\<exists>t'. header_loop t None = (Some (of_nat (length body)), t') \<and> steady t' \<and> stream t' = body @ rest"
proof -
  let ?l = "kContentLengthHeader @ '' '' @ dec_string (length body)"
  have cr: "CR \<notin> set ?l"
    using dec_string_digits [of CR "length body"] by (auto simp: kContentLengthHeader_def is_digit_def)
  have s: "stream t = ?l @ CR # LF # (CR # LF # body @ rest)" using assms(2) by (simp add: frame_def)
  obtain t1 where t1: "ReadHeaderLine t = (Some ?l, t1)" "steady t1" "stream t1 = CR # LF # body @ rest"
    using ReadHeaderLine_line [OF assms(1) s cr] by blast
  obtain t2 where t2: "ReadHeaderLine t1 = (Some [], t2)" "steady t2" "stream t2 = body @ rest"
    using ReadHeaderLine_line [of t1 "[]" "body @ rest"] t1 by auto
  have "header_loop t None = header_loop t1 (Some (of_nat (length body)))"
    using t1(1) header_line_parse [OF assms(3)]
    by (subst header_loop.simps) (simp add: kContentLengthHeader_def)
  also have "\<dots> = (Some (of_nat (length body)), t2)" using t2(1) by (subst header_loop.simps) simp
  finally show ?thesis using t2 by blast
qed

lemma body_loop_stream:
  assumes "steady_events (in_events t)" and "remaining \<le> length (event_bytes (in_events t))"
  shows "\<exists>es. body_loop remaining body t = (Some (body @ take remaining (event_bytes (in_events t))), t\<lparr>in_events := es\<rparr>) \<and>
    steady_events es \<and> event_bytes es = drop remaining (event_bytes (in_events t))"
  using assms
proof (induction remaining body t rule: body_loop.induct)
  case (1 remaining body t)
  show ?case
  proof (cases "remaining = 0")
    case True
    with "1.prems" show ?thesis by (intro exI [of _ "in_events t"]) (simp add: body_loop.simps [of 0])
  next
    case False
    with "1.prems"(2) have ne: "event_bytes (in_events t) \<noteq> []" by auto
    have "0 < min remaining kReadChunkSize" using False by (simp add: kReadChunkSize_def)
    from ReadBytes_steady [OF "1.prems"(1) ne this] obtain bs es where
      r: "ReadBytes (min remaining kReadChunkSize) (in_events t) = (Some bs, es)" and bs: "bs \<noteq> []" "length bs \<le> remaining"
      and split: "event_bytes (in_events t) = bs @ event_bytes es" and es: "steady_events es" by auto
    have w: "WaitForReadable t" using "1.prems"(1) by (rule steady_readable)
    have "\<exists>es'. body_loop (remaining - length bs) (body @ bs) (t\<lparr>in_events := es\<rparr>) =
        (Some ((body @ bs) @ take (remaining - length bs) (event_bytes (in_events (t\<lparr>in_events := es\<rparr>)))),
         (t\<lparr>in_events := es\<rparr>)\<lparr>in_events := es'\<rparr>) \<and>
      steady_events es' \<and> event_bytes es' = drop (remaining - length bs) (event_bytes (in_events (t\<lparr>in_events := es\<rparr>)))"
      by (rule "1.IH" [OF False _ r [symmetric] refl bs(1)]) (use w es split "1.prems"(2) in simp_all)
    then show ?thesis
      using False w r bs split by (simp add: body_loop.simps [of remaining])
  qed
qed

lemma ReadMessage_frame:
  assumes "steady t" and "stream t = frame body @ rest" and "length body < 2 ^ 64"
  shows "\<exists>t'. ReadMessage json_parse t = (json_parse body, t') \<and> steady t' \<and> stream t' = rest"
proof -
  obtain t1 where h: "header_loop t None = (Some (of_nat (length body)), t1)" and st: "steady t1" and s1: "stream t1 = body @ rest"
    using header_loop_frame [OF assms] by blast
  have len: "unat (of_nat (length body) :: u64) = length body"
    using assms(3) by (simp add: unat_of_nat)
  let ?buf = "drop (read_pos t1) (read_buffer t1)"
  let ?k = "min (length (read_buffer t1) - read_pos t1) (length body)"
  let ?t2 = "t1\<lparr>read_pos := read_pos t1 + ?k\<rparr>"
  have ev: "steady_events (in_events ?t2)" using st by (simp add: steady_def)
  have lb: "length ?buf = length (read_buffer t1) - read_pos t1" by simp
  have app: "?buf @ event_bytes (in_events t1) = body @ rest" using s1 by (simp add: stream_def)
  have rem: "length body - ?k \<le> length (event_bytes (in_events ?t2))"
    using arg_cong [OF app, of length] by simp
  obtain es where b: "body_loop (length body - ?k) (take ?k ?buf) ?t2 =
      (Some (take ?k ?buf @ take (length body - ?k) (event_bytes (in_events t1))), ?t2\<lparr>in_events := es\<rparr>)"
    and es: "steady_events es" "event_bytes es = drop (length body - ?k) (event_bytes (in_events t1))"
    using body_loop_stream [OF ev rem, of "take ?k ?buf"] by auto
  have body: "take ?k ?buf @ take (length body - ?k) (event_bytes (in_events t1)) = body"
  proof -
    have "take (length body) (?buf @ event_bytes (in_events t1)) = body" by (simp only: app) simp
    then show ?thesis by (cases "length ?buf \<le> length body") simp_all
  qed
  have rest: "drop ?k ?buf @ drop (length body - ?k) (event_bytes (in_events t1)) = rest"
  proof -
    have "drop (length body) (?buf @ event_bytes (in_events t1)) = rest" by (simp only: app) simp
    then show ?thesis by (cases "length ?buf \<le> length body") simp_all
  qed
  have "ReadMessage json_parse t = (json_parse body, ?t2\<lparr>in_events := es\<rparr>)"
    unfolding ReadMessage_def h using b body len by (simp add: Let_def)
  moreover have "steady (?t2\<lparr>in_events := es\<rparr>)" using st es(1) by (auto simp: steady_def min_def)
  moreover have "stream (?t2\<lparr>in_events := es\<rparr>) = rest"
    using rest es by (simp add: stream_def add.commute)
  ultimately show ?thesis by blast
qed

lemma ReadMessage_end:
  assumes "steady t" and "stream t = []"
  shows "fst (ReadMessage json_parse t) = None"
proof -
  have e: "in_events t = []" using assms by (cases "in_events t" rule: steady_events.cases) (auto simp: steady_def stream_def)
  have b: "drop (read_pos t) (read_buffer t) = []" using assms(2) by (simp add: stream_def)
  have "fst (ReadHeaderLine t) = None"
    by (simp add: ReadHeaderLine.simps [of t] b e Let_def)
  then have "fst (header_loop t None) = None"
    by (subst header_loop.simps) (cases "ReadHeaderLine t", simp)
  then show ?thesis unfolding ReadMessage_def by (cases "header_loop t None") simp
qed

text \<open>Reading a number of messages one after the other.\<close>

fun ReadMessages :: "(string \<Rightarrow> 'j option) \<Rightarrow> nat \<Rightarrow> Transport \<Rightarrow> 'j option list \<times> Transport" where
  "ReadMessages json_parse 0 t = ([], t)"
| "ReadMessages json_parse (Suc n) t =
     (let (m, t) = ReadMessage json_parse t; (ms, t) = ReadMessages json_parse n t in (m # ms, t))"

lemma ReadMessages_frames:
  assumes "steady t" and "stream t = concat (map frame bodies) @ rest" and "\<forall>b \<in> set bodies. length b < 2 ^ 64"
  shows "\<exists>t'. ReadMessages json_parse (length bodies) t = (map json_parse bodies, t') \<and> steady t' \<and> stream t' = rest"
  using assms
proof (induction bodies arbitrary: t)
  case (Cons b bs)
  have s: "stream t = frame b @ (concat (map frame bs) @ rest)" using Cons.prems(2) by simp
  obtain t1 where t1: "ReadMessage json_parse t = (json_parse b, t1)" "steady t1" "stream t1 = concat (map frame bs) @ rest"
    using ReadMessage_frame [OF Cons.prems(1) s] Cons.prems(3) by auto
  from Cons.IH [OF t1(2,3)] Cons.prems(3) t1(1) show ?case by auto
qed simp

lemma write_all_ok: "list_all (\<lambda>k. 0 < k) accepts \<Longrightarrow> write_all accepts data = (True, data)"
  by (induction accepts data rule: write_all.induct) (simp_all add: Let_def)

lemma map2_snd: "length xs = length ys \<Longrightarrow> map2 (\<lambda>_. f) xs ys = map f ys"
  by (induction xs ys rule: list_induct2) simp_all

section \<open>Properties\<close>

text \<open>C17: Messages survive the wire: whatever pieces the writes accept and whatever pieces the reads
  deliver, a peer that reads gets exactly the messages written, in order, and then the end of
  input, provided the JSON library parses what it prints and no body reaches \<open>2^64\<close> bytes.\<close>

theorem transport_roundtrip:
  assumes "\<forall>m. json_parse (json_print m) = Some m" and "\<forall>m \<in> set ms. length (json_print m) < 2 ^ 64"
    and "list_all (list_all (\<lambda>k. 0 < k)) accepts" and "length accepts = length ms"
    and "steady_events es" and "event_bytes es = concat (map2 (\<lambda>a m. snd (WriteMessage json_print a m)) accepts ms)"
  shows "list_all2 (\<lambda>a m. fst (WriteMessage json_print a m)) accepts ms \<and>
    (\<exists>t. ReadMessages json_parse (length ms) \<lparr>read_buffer = [], read_pos = 0, stop_pipe = True, in_events = es\<rparr> = (map Some ms, t) \<and>
      fst (ReadMessage json_parse t) = None)"
proof -
  let ?t = "\<lparr>read_buffer = [], read_pos = 0, stop_pipe = True, in_events = es\<rparr>"
  have w: "\<forall>(a, m) \<in> set (zip accepts ms). WriteMessage json_print a m = (True, frame (json_print m))"
    using assms(3) by (auto simp: WriteMessage_def list_all_iff dest!: set_zip_leftD intro!: write_all_ok)
  then have "map2 (\<lambda>a m. snd (WriteMessage json_print a m)) accepts ms = map2 (\<lambda>a m. frame (json_print m)) accepts ms"
    by (intro map_cong refl) auto
  also have "\<dots> = map frame (map json_print ms)"
    using assms(4) by (simp add: map2_snd comp_def)
  finally have s: "stream ?t = concat (map frame (map json_print ms)) @ []" using assms(6) by (simp add: stream_def)
  have st: "steady ?t" using assms(5) by (simp add: steady_def)
  have "\<forall>b \<in> set (map json_print ms). length b < 2 ^ 64" using assms(2) by simp
  from ReadMessages_frames [OF st s this, of json_parse] assms(1) obtain t where
    "ReadMessages json_parse (length ms) ?t = (map Some ms, t)" "steady t" "stream t = []"
    by (auto simp: comp_def)
  moreover have "fst (ReadMessage json_parse t) = None" using ReadMessage_end calculation(2,3) by blast
  moreover have "list_all2 (\<lambda>a m. fst (WriteMessage json_print a m)) accepts ms"
    using w assms(4) by (auto simp: list_all2_iff)
  ultimately show ?thesis by blast
qed

theorem transport_roundtrip_witness:
  "\<exists>t. ReadMessages Some (Suc (Suc 0)) \<lparr>read_buffer = [], read_pos = 0, stop_pipe = True,
       in_events = [Bytes ''Content-Leng'', Bytes (''th: 2'' @ [CR]), Bytes ([LF, CR, LF] @ ''{}Content''), Bytes (''-Length: 1'' @ [CR, LF, CR, LF] @ ''7'')]\<rparr> =
     ([Some ''{}'', Some ''7''], t) \<and> fst (ReadMessage Some t) = None"
proof -
  let ?es = "[Bytes ''Content-Leng'', Bytes (''th: 2'' @ [CR]), Bytes ([LF, CR, LF] @ ''{}Content''), Bytes (''-Length: 1'' @ [CR, LF, CR, LF] @ ''7'')]"
  have "dec_string (Suc (Suc 0)) = ''2''" "dec_string (Suc 0) = ''1''" by (simp_all add: dec_string.simps digit_char_def char_of_def bit_0)
  then have e: "event_bytes ?es = concat (map2 (\<lambda>a m. snd (WriteMessage (\<lambda>s. s) a m)) [[3, 5], []] [''{}'', ''7''])"
    by (simp add: WriteMessage_def frame_def kContentLengthHeader_def)
  show ?thesis
    using transport_roundtrip [where json_parse = Some and json_print = "\<lambda>s. s" and ms = "[''{}'', ''7'']" and accepts = "[[3, 5], []]" and es = ?es] e
    by (simp del: ReadMessages.simps)
qed

section \<open>Reading consumes input\<close>

lemma ReadBytes_le: "ReadBytes n es = (x, es') \<Longrightarrow> events_size es' + (case x of Some bs \<Rightarrow> length bs | None \<Rightarrow> 0) \<le> events_size es"
proof (induction n es rule: ReadBytes.induct)
  case (4 n cs es)
  then show ?case by (cases "drop n cs = []") (auto simp: min_def)
qed auto

lemma ReadHeaderLine_avail: "ReadHeaderLine t = (x, t') \<Longrightarrow> avail t' \<le> avail t"
proof (induction t rule: ReadHeaderLine.induct)
  case (1 t)
  let ?t = "t\<lparr>read_buffer := drop (read_pos t) (read_buffer t), read_pos := 0\<rparr>"
  consider (line) i where "find_crlf (drop (read_pos t) (read_buffer t)) = Some i"
    | (stop) "find_crlf (drop (read_pos t) (read_buffer t)) = None" "x = None" "avail t' \<le> avail t"
    | (more) bs es where "find_crlf (drop (read_pos t) (read_buffer t)) = None" "WaitForReadable ?t"
        "ReadBytes kReadChunkSize (in_events t) = (Some bs, es)" "bs \<noteq> []"
        "ReadHeaderLine (?t\<lparr>read_buffer := read_buffer ?t @ bs, in_events := es\<rparr>) = (x, t')"
    using "1.prems" ReadBytes_le [of kReadChunkSize "in_events t"]
    by (auto simp: ReadHeaderLine.simps [of t] Let_def avail_def split: if_splits option.splits prod.splits)
  then show ?case
  proof cases
    case line
    then show ?thesis using "1.prems" by (auto simp: ReadHeaderLine.simps [of t] avail_def)
  next
    case more
    have "avail t' \<le> avail (?t\<lparr>read_buffer := read_buffer ?t @ bs, in_events := es\<rparr>)"
      by (rule "1.IH" [OF more(1) refl _ _ refl _ more(5)]) (use more in simp_all)
    also have "\<dots> \<le> avail t" using ReadBytes_le [OF more(3)] by (simp add: avail_def)
    finally show ?thesis .
  qed
qed

lemma header_loop_avail: "header_loop t c = (x, t') \<Longrightarrow> avail t' \<le> avail t \<and> (c = None \<longrightarrow> x \<noteq> None \<longrightarrow> avail t' < avail t)"
proof (induction t c rule: header_loop.induct)
  case (1 t c)
  obtain l t1 where l: "ReadHeaderLine t = (l, t1)" by fastforce
  have le: "avail t1 \<le> avail t" by (rule ReadHeaderLine_avail [OF l])
  show ?case
  proof (cases l)
    case None
    with "1.prems" l le show ?thesis by (simp add: header_loop.simps [of t])
  next
    case (Some line)
    have lt: "avail t1 < avail t" using ReadHeaderLine_progress l Some by blast
    show ?thesis
    proof (cases "line = []")
      case True
      with "1.prems" l Some lt show ?thesis by (simp add: header_loop.simps [of t])
    next
      case False
      with "1.prems" l Some have "header_loop t1 (content_length_header line c) = (x, t')" by (simp add: header_loop.simps [of t])
      from "1.IH" [OF l [symmetric] Some False this] lt show ?thesis by simp
    qed
  qed
qed

lemma body_loop_avail: "body_loop n body t = (x, t') \<Longrightarrow> avail t' \<le> avail t"
proof (induction n body t rule: body_loop.induct)
  case (1 n body t)
  obtain x1 es where r: "ReadBytes (min n kReadChunkSize) (in_events t) = (x1, es)" by fastforce
  have le: "avail (t\<lparr>in_events := es\<rparr>) \<le> avail t" using ReadBytes_le [OF r] by (simp add: avail_def)
  show ?case
  proof (cases "n = 0 \<or> \<not> WaitForReadable t \<or> x1 = None \<or> x1 = Some []")
    case True
    with "1.prems" r le show ?thesis by (auto simp: body_loop.simps [of n] split: if_splits)
  next
    case False
    then obtain bs where bs: "x1 = Some bs" "bs \<noteq> []" and n: "n \<noteq> 0" "WaitForReadable t" by auto
    with "1.prems" r have "body_loop (n - length bs) (body @ bs) (t\<lparr>in_events := es\<rparr>) = (x, t')" by (simp add: body_loop.simps [of n])
    from "1.IH" [OF n(1) _ r [symmetric] bs(1) bs(2) this] n le show ?thesis by simp
  qed
qed

lemma ReadMessage_avail: "ReadMessage p t = (Some v, t') \<Longrightarrow> avail t' < avail t"
  by (auto simp: ReadMessage_def avail_def Let_def split: prod.splits option.splits
      dest!: header_loop_avail body_loop_avail)

end
