(* ===== verification/Protocol_Base.thy ===== *)
theory Protocol_Base
  imports Prelude
begin

text \<open>
  The messages of the adapter and their JSON form
  (\<open>modules/dap/include/dap/protocol/protocol_base.hpp\<close>, \<open>modules/dap/src/protocol/protocol_base.cc\<close>,
  and the cancel arguments of \<open>protocol_requests.cc\<close>).  The JSON library is a parameter: the record
  \<open>Json\<close> holds the accessors and constructors of \<open>llvm::json::Value\<close> the code uses, and
  \<open>json_laws\<close> what their documentation promises.  A violated \<open>assert\<close> is the result \<open>None\<close> of a
  conversion to JSON; a rejected value is the result \<open>None\<close> of a conversion from JSON.
\<close>

section \<open>The JSON library\<close>

record 'j Json =
  as_object :: "'j \<Rightarrow> (string \<Rightarrow> 'j option) option"
  as_string :: "'j \<Rightarrow> string option"
  as_uint64 :: "'j \<Rightarrow> u64 option"
  as_integer :: "'j \<Rightarrow> s64 option"
  as_boolean :: "'j \<Rightarrow> bool option"
  as_null :: "'j \<Rightarrow> bool"
  of_object :: "(string \<times> 'j) list \<Rightarrow> 'j"
  of_string :: "string \<Rightarrow> 'j"
  of_uint64 :: "u64 \<Rightarrow> 'j"
  of_boolean :: "bool \<Rightarrow> 'j"
  is_utf8 :: "string \<Rightarrow> bool"

text \<open>Reading back what was built; text has to be UTF-8, which ASCII is.\<close>

definition json_laws :: "'j Json \<Rightarrow> bool" where
  "json_laws J \<longleftrightarrow>
     (\<forall>kvs. as_object J (of_object J kvs) = Some (map_of kvs)) \<and>
     (\<forall>s. is_utf8 J s \<longrightarrow> as_string J (of_string J s) = Some s \<and> \<not> as_null J (of_string J s)) \<and>
     (\<forall>n. as_uint64 J (of_uint64 J n) = Some n) \<and>
     (\<forall>b. as_boolean J (of_boolean J b) = Some b) \<and>
     (\<forall>s. list_all (\<lambda>c. (of_char c :: nat) < 128) s \<longrightarrow> is_utf8 J s)"

section \<open>Messages\<close>

type_synonym Id = u64

definition kCalculateSeq :: Id where "kCalculateSeq = - 1"

record 'j Request =
  req_command :: string
  req_arguments :: "'j option"
  req_seq :: Id

record 'j Event =
  ev_event :: string
  ev_body :: "'j option"
  ev_seq :: Id

datatype ResponseMessage = eResponseMessageCancelled | eResponseMessageNotStopped

record 'j Response =
  resp_request_seq :: Id
  resp_command :: string
  resp_success :: bool
  resp_message :: "(ResponseMessage + string) option"
  resp_body :: "'j option"
  resp_seq :: Id

record ErrorMessage =
  em_id :: u64
  em_format :: string
  em_variables :: "(string \<times> string) list option"
  em_sendTelemetry :: bool
  em_showUser :: bool
  em_url :: "string option"
  em_urlLabel :: "string option"

datatype 'j Message = MRequest "'j Request" | MResponse "'j Response" | MEvent "'j Event"

datatype MessageType = eMessageTypeRequest | eMessageTypeResponse | eMessageTypeEvent

record CancelArguments =
  ca_requestId :: "s64 option"
  ca_progressId :: "s64 option"

section \<open>To JSON\<close>

definition opt_field :: "string \<Rightarrow> 'j option \<Rightarrow> (string \<times> 'j) list" where
  "opt_field k v = (case v of Some j \<Rightarrow> [(k, j)] | None \<Rightarrow> [])"

definition Request_toJSON :: "'j Json \<Rightarrow> 'j Request \<Rightarrow> 'j option" where
  "Request_toJSON J r =
     (if req_seq r = kCalculateSeq then None
      else Some (of_object J ([(''type'', of_string J ''request''), (''seq'', of_uint64 J (req_seq r)),
        (''command'', of_string J (req_command r))] @ opt_field ''arguments'' (req_arguments r))))"

definition ResponseMessage_text :: "ResponseMessage + string \<Rightarrow> string" where
  "ResponseMessage_text m =
     (case m of Inl eResponseMessageCancelled \<Rightarrow> ''cancelled'' | Inl eResponseMessageNotStopped \<Rightarrow> ''notStopped'' | Inr s \<Rightarrow> s)"

definition Response_toJSON :: "'j Json \<Rightarrow> 'j Response \<Rightarrow> 'j option" where
  "Response_toJSON J r =
     (if resp_seq r = kCalculateSeq \<or> resp_message r \<noteq> None \<and> resp_success r then None
      else Some (of_object J ([(''type'', of_string J ''response''), (''seq'', of_uint64 J (resp_seq r)),
        (''command'', of_string J (resp_command r)), (''request_seq'', of_uint64 J (resp_request_seq r)),
        (''success'', of_boolean J (resp_success r))] @
        opt_field ''message'' (map_option (\<lambda>m. of_string J (ResponseMessage_text m)) (resp_message r)) @
        opt_field ''body'' (resp_body r))))"

definition Event_toJSON :: "'j Json \<Rightarrow> 'j Event \<Rightarrow> 'j option" where
  "Event_toJSON J e =
     (if ev_seq e = kCalculateSeq then None
      else Some (of_object J ([(''type'', of_string J ''event''), (''seq'', of_uint64 J (ev_seq e)),
        (''event'', of_string J (ev_event e))] @ opt_field ''body'' (ev_body e))))"

fun Message_toJSON :: "'j Json \<Rightarrow> 'j Message \<Rightarrow> 'j option" where
  "Message_toJSON J (MRequest r) = Request_toJSON J r"
| "Message_toJSON J (MResponse r) = Response_toJSON J r"
| "Message_toJSON J (MEvent e) = Event_toJSON J e"

definition ErrorMessage_toJSON :: "'j Json \<Rightarrow> ErrorMessage \<Rightarrow> 'j" where
  "ErrorMessage_toJSON J em =
     of_object J ([(''id'', of_uint64 J (em_id em)), (''format'', of_string J (em_format em))] @
       opt_field ''variables'' (map_option (\<lambda>vs. of_object J (map (\<lambda>(k, v). (k, of_string J v)) vs)) (em_variables em)) @
       (if em_sendTelemetry em then [(''sendTelemetry'', of_boolean J True)] else []) @
       (if em_showUser em then [(''showUser'', of_boolean J True)] else []) @
       opt_field ''url'' (map_option (of_string J) (em_url em)) @
       opt_field ''urlLabel'' (map_option (of_string J) (em_urlLabel em)))"

definition ErrorResponseBody_toJSON :: "'j Json \<Rightarrow> ErrorMessage option \<Rightarrow> 'j" where
  "ErrorResponseBody_toJSON J e = of_object J (opt_field ''error'' (map_option (ErrorMessage_toJSON J) e))"

section \<open>From JSON\<close>

definition MessageType_fromJSON :: "'j Json \<Rightarrow> 'j \<Rightarrow> MessageType option" where
  "MessageType_fromJSON J v =
     Option.bind (as_string J v) (\<lambda>s.
       if s = ''request'' then Some eMessageTypeRequest
       else if s = ''response'' then Some eMessageTypeResponse
       else if s = ''event'' then Some eMessageTypeEvent else None)"

text \<open>A required and an optional property of an object, as \<open>llvm::json::ObjectMapper\<close> documents them:
  a required one has to be there and be valid; an optional one may be missing or null.\<close>

definition map_prop :: "('j \<Rightarrow> 'a option) \<Rightarrow> (string \<Rightarrow> 'j option) \<Rightarrow> string \<Rightarrow> 'a option" where
  "map_prop from obj k = Option.bind (obj k) from"

definition map_opt :: "'j Json \<Rightarrow> ('j \<Rightarrow> 'a option) \<Rightarrow> (string \<Rightarrow> 'j option) \<Rightarrow> string \<Rightarrow> 'a option option" where
  "map_opt J from obj k =
     (case obj k of None \<Rightarrow> Some None | Some v \<Rightarrow> if as_null J v then Some None else map_option Some (from v))"

definition Request_fromJSON :: "'j Json \<Rightarrow> 'j \<Rightarrow> 'j Request option" where
  "Request_fromJSON J v =
     Option.bind (as_object J v) (\<lambda>obj.
     Option.bind (map_prop (MessageType_fromJSON J) obj ''type'') (\<lambda>type.
     Option.bind (map_prop (as_string J) obj ''command'') (\<lambda>command.
     Option.bind (map_prop (as_uint64 J) obj ''seq'') (\<lambda>seq.
       if type \<noteq> eMessageTypeRequest then None
       else if command = [] then None
       else if seq = 0 then None
       else Some \<lparr>req_command = command, req_arguments = obj ''arguments'', req_seq = seq\<rparr>))))"

text \<open>An empty text leaves the value as it was created, which is the first alternative.\<close>

definition ResponseMessage_fromJSON :: "'j Json \<Rightarrow> 'j \<Rightarrow> (ResponseMessage + string) option" where
  "ResponseMessage_fromJSON J v =
     Option.bind (as_string J v) (\<lambda>s.
       if s = ''cancelled'' then Some (Inl eResponseMessageCancelled)
       else if s = ''notStopped'' then Some (Inl eResponseMessageNotStopped)
       else if s \<noteq> [] then Some (Inr s) else Some (Inl eResponseMessageCancelled))"

definition Response_fromJSON :: "'j Json \<Rightarrow> 'j \<Rightarrow> 'j Response option" where
  "Response_fromJSON J v =
     Option.bind (as_object J v) (\<lambda>obj.
     Option.bind (map_prop (MessageType_fromJSON J) obj ''type'') (\<lambda>type.
     Option.bind (map_prop (as_uint64 J) obj ''seq'') (\<lambda>seq.
     Option.bind (map_prop (as_string J) obj ''command'') (\<lambda>command.
     Option.bind (map_prop (as_uint64 J) obj ''request_seq'') (\<lambda>request_seq.
       if type \<noteq> eMessageTypeResponse then None
       else if command = [] then None
       else Option.bind (map_prop (as_boolean J) obj ''success'') (\<lambda>success.
            Option.bind (map_opt J (ResponseMessage_fromJSON J) obj ''message'') (\<lambda>message.
              Some \<lparr>resp_request_seq = request_seq, resp_command = command, resp_success = success, resp_message = message,
                    resp_body = obj ''body'', resp_seq = seq\<rparr>)))))))"

definition Event_fromJSON :: "'j Json \<Rightarrow> 'j \<Rightarrow> 'j Event option" where
  "Event_fromJSON J v =
     Option.bind (as_object J v) (\<lambda>obj.
     Option.bind (map_prop (MessageType_fromJSON J) obj ''type'') (\<lambda>type.
     Option.bind (map_prop (as_uint64 J) obj ''seq'') (\<lambda>seq.
     Option.bind (map_prop (as_string J) obj ''event'') (\<lambda>event.
       if type \<noteq> eMessageTypeEvent then None
       else if event = [] then None
       else Some \<lparr>ev_event = event, ev_body = obj ''body'', ev_seq = seq\<rparr>))))"

definition Message_fromJSON :: "'j Json \<Rightarrow> 'j \<Rightarrow> 'j Message option" where
  "Message_fromJSON J v =
     Option.bind (as_object J v) (\<lambda>obj.
     Option.bind (map_prop (MessageType_fromJSON J) obj ''type'') (\<lambda>type.
       case type of
         eMessageTypeRequest \<Rightarrow> map_option MRequest (Request_fromJSON J v)
       | eMessageTypeResponse \<Rightarrow> map_option MResponse (Response_fromJSON J v)
       | eMessageTypeEvent \<Rightarrow> map_option MEvent (Event_fromJSON J v)))"

definition CancelArguments_fromJSON :: "'j Json \<Rightarrow> 'j \<Rightarrow> CancelArguments option" where
  "CancelArguments_fromJSON J v =
     Option.bind (as_object J v) (\<lambda>obj.
     Option.bind (map_opt J (as_integer J) obj ''requestId'') (\<lambda>requestId.
     Option.bind (map_opt J (as_integer J) obj ''progressId'') (\<lambda>progressId.
       Some \<lparr>ca_requestId = requestId, ca_progressId = progressId\<rparr>)))"

section \<open>Round trip\<close>

lemma json_lawsD [wire_simps]:
  assumes "json_laws J"
  shows "as_object J (of_object J kvs) = Some (map_of kvs)"
    and "is_utf8 J s \<Longrightarrow> as_string J (of_string J s) = Some s"
    and "is_utf8 J s \<Longrightarrow> \<not> as_null J (of_string J s)"
    and "as_uint64 J (of_uint64 J n) = Some n"
    and "as_boolean J (of_boolean J b) = Some b"
    and "list_all (\<lambda>c. (of_char c :: nat) < 128) s \<Longrightarrow> is_utf8 J s"
  using assms by (simp_all add: json_laws_def)

lemma utf8_literals [wire_simps]:
  assumes "json_laws J"
  shows "is_utf8 J ''request''" and "is_utf8 J ''response''" and "is_utf8 J ''event''"
    and "is_utf8 J ''cancelled''" and "is_utf8 J ''notStopped''"
  by (rule json_lawsD(6) [OF assms]; simp)+

lemmas message_json =
  Message_fromJSON_def Request_fromJSON_def Response_fromJSON_def Event_fromJSON_def
  Request_toJSON_def Response_toJSON_def Event_toJSON_def MessageType_fromJSON_def
  ResponseMessage_fromJSON_def map_prop_def map_opt_def opt_field_def

text \<open>What decodes: the message itself, except that a response text equal to a code, and the empty
  text, come back as the code.\<close>

definition canonical_text :: "ResponseMessage + string \<Rightarrow> ResponseMessage + string" where
  "canonical_text m =
     (if m = Inr ''cancelled'' \<or> m = Inr [] then Inl eResponseMessageCancelled
      else if m = Inr ''notStopped'' then Inl eResponseMessageNotStopped else m)"

fun canonical :: "'j Message \<Rightarrow> 'j Message" where
  "canonical (MResponse r) = MResponse (r\<lparr>resp_message := map_option canonical_text (resp_message r)\<rparr>)"
| "canonical m = m"

fun message_ok :: "'j Json \<Rightarrow> 'j Message \<Rightarrow> bool" where
  "message_ok J (MRequest r) \<longleftrightarrow> req_seq r \<noteq> kCalculateSeq \<and> req_seq r \<noteq> 0 \<and> req_command r \<noteq> [] \<and> is_utf8 J (req_command r)"
| "message_ok J (MResponse r) \<longleftrightarrow> resp_seq r \<noteq> kCalculateSeq \<and> resp_command r \<noteq> [] \<and> is_utf8 J (resp_command r) \<and>
     (case resp_message r of Some m \<Rightarrow> \<not> resp_success r \<and> is_utf8 J (ResponseMessage_text m) | None \<Rightarrow> True)"
| "message_ok J (MEvent e) \<longleftrightarrow> ev_seq e \<noteq> kCalculateSeq \<and> ev_event e \<noteq> [] \<and> is_utf8 J (ev_event e)"

lemma ResponseMessage_roundtrip:
  assumes "json_laws J" and "is_utf8 J (ResponseMessage_text m)"
  shows "ResponseMessage_fromJSON J (of_string J (ResponseMessage_text m)) = Some (canonical_text m)"
  using assms
  by (auto simp: ResponseMessage_fromJSON_def canonical_text_def ResponseMessage_text_def wire_simps
      split: sum.splits ResponseMessage.splits)

lemma Request_roundtrip:
  assumes "json_laws J" and "message_ok J (MRequest r)"
  shows "\<exists>v. Request_toJSON J r = Some v \<and> Message_fromJSON J v = Some (MRequest r)"
  using assms by (cases r; cases "req_arguments r") (auto simp: message_json wire_simps)

lemma Event_roundtrip:
  assumes "json_laws J" and "message_ok J (MEvent e)"
  shows "\<exists>v. Event_toJSON J e = Some v \<and> Message_fromJSON J v = Some (MEvent e)"
  using assms by (cases e; cases "ev_body e") (auto simp: message_json wire_simps)

lemma Response_roundtrip:
  assumes "json_laws J" and "message_ok J (MResponse r)"
  shows "\<exists>v. Response_toJSON J r = Some v \<and> Message_fromJSON J v = Some (canonical (MResponse r))"
  using assms ResponseMessage_roundtrip [OF assms(1)]
  by (cases r; cases "resp_body r"; cases "resp_message r")
    (auto simp: message_json wire_simps simp del: ResponseMessage_fromJSON_def)

text \<open>C36: Messages survive their JSON form: every well-formed request, response and event converts
  without violating an assertion, and decoding gives it back, with every field; only a response
  text that spells one of the codes, or is empty, comes back as a code.  A decoded request always
  has a command and a sequence number.\<close>

theorem message_json_roundtrip:
  assumes "json_laws J"
  shows "(message_ok J m \<longrightarrow> (\<exists>v. Message_toJSON J m = Some v \<and> Message_fromJSON J v = Some (canonical m))) \<and>
    (Request_fromJSON J v = Some r \<longrightarrow> req_command r \<noteq> [] \<and> req_seq r \<noteq> 0)"
proof
  show "message_ok J m \<longrightarrow> (\<exists>v. Message_toJSON J m = Some v \<and> Message_fromJSON J v = Some (canonical m))"
    using Request_roundtrip [OF assms] Response_roundtrip [OF assms] Event_roundtrip [OF assms] by (cases m) simp_all
  show "Request_fromJSON J v = Some r \<longrightarrow> req_command r \<noteq> [] \<and> req_seq r \<noteq> 0"
    by (auto simp: Request_fromJSON_def bind_eq_Some_conv split: if_splits)
qed

text \<open>A JSON value with the promised laws.\<close>

datatype json = JNull | JBool bool | JNum int | JStr string | JObj "(string \<times> json) list"

definition sample_json :: "json Json" where
  "sample_json =
     \<lparr>as_object = (\<lambda>v. case v of JObj kvs \<Rightarrow> Some (map_of kvs) | _ \<Rightarrow> None),
      as_string = (\<lambda>v. case v of JStr s \<Rightarrow> Some s | _ \<Rightarrow> None),
      as_uint64 = (\<lambda>v. case v of JNum n \<Rightarrow> if 0 \<le> n \<and> n < 2 ^ 64 then Some (of_int n) else None | _ \<Rightarrow> None),
      as_integer = (\<lambda>v. case v of JNum n \<Rightarrow> if - (2 ^ 63) \<le> n \<and> n < 2 ^ 63 then Some (of_int n) else None | _ \<Rightarrow> None),
      as_boolean = (\<lambda>v. case v of JBool b \<Rightarrow> Some b | _ \<Rightarrow> None),
      as_null = (\<lambda>v. v = JNull),
      of_object = JObj, of_string = JStr, of_uint64 = (\<lambda>n. JNum (uint n)), of_boolean = JBool,
      is_utf8 = list_all (\<lambda>c. (of_char c :: nat) < 128)\<rparr>"

lemma sample_json_laws: "json_laws sample_json"
  using uint_lt2p [where 'a = 64] by (auto simp: json_laws_def sample_json_def uint_lt2p)

definition sample_response :: "json Response" where
  "sample_response = \<lparr>resp_request_seq = 4, resp_command = ''next'', resp_success = False,
     resp_message = Some (Inr ''notStopped''), resp_body = Some (JNum 1), resp_seq = 9\<rparr>"

theorem message_json_roundtrip_witness:
  "\<exists>v. Message_toJSON sample_json (MResponse sample_response) = Some v \<and>
    Message_fromJSON sample_json v = Some (MResponse (sample_response\<lparr>resp_message := Some (Inl eResponseMessageNotStopped)\<rparr>))"
  using message_json_roundtrip [OF sample_json_laws, of "MResponse sample_response"]
  by (simp add: sample_response_def kCalculateSeq_def canonical_text_def ResponseMessage_text_def) (simp add: sample_json_def)

end
