(* ===== verification/Orchestrator.thy ===== *)
theory Orchestrator
  imports Transport Protocol_Base
begin

text \<open>
  The adapter's message pump (\<open>modules/dap/src/orchestrator.cc\<close>) and the base of its request handlers
  (\<open>modules/dap/src/handlers/request_handler.cc\<close>, \<open>request_handler.hpp\<close>, \<open>modules/dap/include/dap/request_handler.hpp\<close>).  A
  reader thread reads, decodes and enqueues; the dispatcher takes one request at a time and lets its
  handler answer; other threads send events.  What a handler does to the debug session is a
  parameter (\<open>rh_run\<close>: a result, the events sent meanwhile, the new session state); the checks,
  responses and deferred responses around it are the code's.
\<close>

section \<open>Errors and handlers\<close>

datatype DapError =
    NotStoppedError
  | DAPError string s32 bool "string option" "string option"
  | OtherError string s32

text \<open>The debug session and the JSON parser, as far as they are not under the sources modelled here.\<close>

record ('j, 'c) dap_env =
  env_json :: "'j Json"
  env_parse :: "string \<Rightarrow> 'j option"
  env_path_error :: "'j \<Rightarrow> string \<times> string"
  inconvertibleErrorCode :: s32
  IsInterruptRequested :: "'c \<Rightarrow> bool"
  CancelInterruptRequest :: "'c \<Rightarrow> 'c"

datatype args_kind = RequiredArgs | OptionalArgs | EmptyArgs

record ('j, 'c) RequestHandler =
  rh_args :: args_kind
  rh_parse :: "'j \<Rightarrow> (string \<times> string) option"
  rh_run :: "'j option \<Rightarrow> 'c \<Rightarrow> (DapError + 'j option) \<times> (string \<times> 'j option) list \<times> 'c"

datatype ('j, 'c) handler =
    Plain "('j, 'c) RequestHandler"
  | Delayed "('j, 'c) RequestHandler"
  | ConfigurationDone "('j, 'c) RequestHandler"
  | Cancel

record ('j, 'c) Orchestrator =
  transport :: Transport
  command_handlers :: "string \<Rightarrow> ('j, 'c) handler option"
  next_seq :: Id
  request_queue :: "'j Request list"
  reader_done :: bool
  cancelled_requests :: "s64 set"
  deferred_configuration_response :: "'j Response option"
  debug_context :: 'c
  wire :: "'j Message list"
  dropped :: "'j Response list"

text \<open>\<open>wire\<close> is what was handed to the transport; \<open>dropped\<close> keeps the deferred responses that another
  one replaced.\<close>

definition new_Orchestrator :: "Transport \<Rightarrow> 'c \<Rightarrow> ('j, 'c) Orchestrator" where
  "new_Orchestrator t c =
     \<lparr>transport = t, command_handlers = Map.empty, next_seq = 1, request_queue = [], reader_done = False,
      cancelled_requests = {}, deferred_configuration_response = None, debug_context = c, wire = [], dropped = []\<rparr>"

definition RegisterHandler :: "string \<Rightarrow> ('j, 'c) handler \<Rightarrow> ('j, 'c) Orchestrator \<Rightarrow> ('j, 'c) Orchestrator" where
  "RegisterHandler command h oc =
     (case command_handlers oc command of
        Some _ \<Rightarrow> oc
      | None \<Rightarrow> oc\<lparr>command_handlers := (command_handlers oc)(command \<mapsto> h)\<rparr>)"

section \<open>Sending\<close>

fun set_seq :: "Id \<Rightarrow> 'j Message \<Rightarrow> 'j Message" where
  "set_seq i (MRequest r) = MRequest (r\<lparr>req_seq := i\<rparr>)"
| "set_seq i (MResponse r) = MResponse (r\<lparr>resp_seq := i\<rparr>)"
| "set_seq i (MEvent e) = MEvent (e\<lparr>ev_seq := i\<rparr>)"

fun message_seq :: "'j Message \<Rightarrow> Id" where
  "message_seq (MRequest r) = req_seq r"
| "message_seq (MResponse r) = resp_seq r"
| "message_seq (MEvent e) = ev_seq e"

definition NextSeq :: "('j, 'c) Orchestrator \<Rightarrow> Id \<times> ('j, 'c) Orchestrator" where
  "NextSeq oc = (next_seq oc, oc\<lparr>next_seq := next_seq oc + 1\<rparr>)"

text \<open>\<open>None\<close> when an assertion fails.\<close>

definition Orchestrator_Send :: "'j Json \<Rightarrow> 'j Message \<Rightarrow> ('j, 'c) Orchestrator \<Rightarrow> (Id \<times> ('j, 'c) Orchestrator) option" where
  "Orchestrator_Send J m oc =
     (let (m, oc) = (if message_seq m = kCalculateSeq then (let (i, oc) = NextSeq oc in (set_seq i m, oc)) else (m, oc))
      in if message_seq m = 0 then None
         else (case Message_toJSON J m of None \<Rightarrow> None | Some v \<Rightarrow> Some (message_seq m, oc\<lparr>wire := wire oc @ [m]\<rparr>)))"

definition SendEvent :: "string \<Rightarrow> 'j option \<Rightarrow> 'j Message" where
  "SendEvent event body = MEvent \<lparr>ev_event = event, ev_body = body, ev_seq = kCalculateSeq\<rparr>"

definition SendErrorResponse :: "'j Request \<Rightarrow> string \<Rightarrow> 'j Message" where
  "SendErrorResponse r message =
     MResponse \<lparr>resp_request_seq = req_seq r, resp_command = req_command r, resp_success = False,
       resp_message = Some (Inr message), resp_body = None, resp_seq = kCalculateSeq\<rparr>"

section \<open>The handlers' base\<close>

definition dap_error :: "('j, 'c) dap_env \<Rightarrow> string \<Rightarrow> DapError" where
  "dap_error env message = DAPError message (inconvertibleErrorCode env) True None None"

abbreviation (input) quote :: string where "quote \<equiv> [CHR 0x27]"

definition parseArgs :: "('j, 'c) dap_env \<Rightarrow> args_kind \<Rightarrow> ('j \<Rightarrow> (string \<times> string) option) \<Rightarrow> 'j Request \<Rightarrow> DapError option" where
  "parseArgs env kind parse r =
     (if kind = EmptyArgs then None
      else (case req_arguments r of
              None \<Rightarrow> if kind \<noteq> OptionalArgs
                      then Some (dap_error env (''arguments required for command '' @ quote @ req_command r @ quote @ '' but none received''))
                      else None
            | Some v \<Rightarrow>
                (case parse v of
                   None \<Rightarrow> None
                 | Some (err, place) \<Rightarrow>
                     Some (dap_error env (''invalid arguments for request '' @ quote @ req_command r @ quote @ '': '' @ err @ [CHR 0x0A] @ place)))))"

definition new_response :: "'j Request \<Rightarrow> 'j Response" where
  "new_response r = \<lparr>resp_request_seq = req_seq r, resp_command = req_command r, resp_success = False,
     resp_message = None, resp_body = None, resp_seq = kCalculateSeq\<rparr>"

fun error_message :: "DapError \<Rightarrow> ErrorMessage" where
  "error_message (DAPError message ec show_user url url_label) =
     \<lparr>em_id = scast ec, em_format = message, em_variables = None, em_sendTelemetry = False, em_showUser = show_user, em_url = url, em_urlLabel = url_label\<rparr>"
| "error_message (OtherError message ec) =
     \<lparr>em_id = scast ec, em_format = message, em_variables = None, em_sendTelemetry = False, em_showUser = True, em_url = None, em_urlLabel = None\<rparr>"
| "error_message NotStoppedError =
     \<lparr>em_id = 0, em_format = [], em_variables = None, em_sendTelemetry = False, em_showUser = False, em_url = None, em_urlLabel = None\<rparr>"

definition BuildErrorResponse :: "('j, 'c) dap_env \<Rightarrow> DapError option \<Rightarrow> 'j Response \<Rightarrow> 'j Response" where
  "BuildErrorResponse env err r =
     (case err of
        None \<Rightarrow> r\<lparr>resp_success := True\<rparr>
      | Some NotStoppedError \<Rightarrow> r\<lparr>resp_success := False, resp_message := Some (Inl eResponseMessageNotStopped)\<rparr>
      | Some e \<Rightarrow> r\<lparr>resp_success := False, resp_body := Some (ErrorResponseBody_toJSON (env_json env) (Some (error_message e)))\<rparr>)"

definition Base_Send :: "('j, 'c) dap_env \<Rightarrow> 'c \<Rightarrow> 'j Response \<Rightarrow> 'j Message" where
  "Base_Send env c r =
     MResponse (if IsInterruptRequested env c
                then r\<lparr>resp_success := False, resp_message := Some (Inl eResponseMessageCancelled), resp_body := None\<rparr>
                else r)"

definition SendError :: "('j, 'c) dap_env \<Rightarrow> 'c \<Rightarrow> DapError \<Rightarrow> 'j Response \<Rightarrow> 'j Message" where
  "SendError env c err r = Base_Send env c (BuildErrorResponse env (Some err) r)"

definition SendSuccess :: "('j, 'c) dap_env \<Rightarrow> 'c \<Rightarrow> 'j option \<Rightarrow> 'j Response \<Rightarrow> 'j Message" where
  "SendSuccess env c body r =
     Base_Send env c (let r = r\<lparr>resp_success := True\<rparr> in case body of Some b \<Rightarrow> r\<lparr>resp_body := Some b\<rparr> | None \<Rightarrow> r)"

text \<open>The calls answer the messages they send, in order, and the new state.\<close>

definition handler_args :: "('j, 'c) RequestHandler \<Rightarrow> 'j Request \<Rightarrow> 'j option" where
  "handler_args h r = (if rh_args h = EmptyArgs then None else req_arguments r)"

definition RequestHandler_call ::
    "('j, 'c) dap_env \<Rightarrow> ('j, 'c) RequestHandler \<Rightarrow> (('j, 'c) Orchestrator \<Rightarrow> 'j Message list \<times> ('j, 'c) Orchestrator)
      \<Rightarrow> 'j Request \<Rightarrow> ('j, 'c) Orchestrator \<Rightarrow> 'j Message list \<times> ('j, 'c) Orchestrator" where
  "RequestHandler_call env h PostRun r oc =
     (let response = new_response r
      in case parseArgs env (rh_args h) (rh_parse h) r of
           Some err \<Rightarrow> ([SendError env (debug_context oc) err response], oc)
         | None \<Rightarrow>
             (let (result, events, c) = rh_run h (handler_args h r) (debug_context oc);
                  oc = oc\<lparr>debug_context := c\<rparr>;
                  answer = (case result of Inl err \<Rightarrow> SendError env c err response | Inr body \<Rightarrow> SendSuccess env c body response);
                  (post, oc) = PostRun oc
              in (map (\<lambda>(e, b). SendEvent e b) events @ [answer] @ post, oc)))"

definition no_PostRun :: "('j, 'c) Orchestrator \<Rightarrow> 'j Message list \<times> ('j, 'c) Orchestrator" where
  "no_PostRun oc = ([], oc)"

definition RunDeferredConfigurationResponse ::
    "('j, 'c) dap_env \<Rightarrow> ('j, 'c) Orchestrator \<Rightarrow> 'j Message list \<times> ('j, 'c) Orchestrator" where
  "RunDeferredConfigurationResponse env oc =
     (case deferred_configuration_response oc of
        None \<Rightarrow> ([], oc)
      | Some r \<Rightarrow> ([Base_Send env (debug_context oc) r], oc\<lparr>deferred_configuration_response := None\<rparr>))"

definition SetDeferredConfigurationResponse :: "'j Response \<Rightarrow> ('j, 'c) Orchestrator \<Rightarrow> ('j, 'c) Orchestrator" where
  "SetDeferredConfigurationResponse r oc =
     oc\<lparr>deferred_configuration_response := Some r, dropped := dropped oc @ (case deferred_configuration_response oc of Some d \<Rightarrow> [d] | None \<Rightarrow> [])\<rparr>"

definition DelayedResponseRequestHandler_call ::
    "('j, 'c) dap_env \<Rightarrow> ('j, 'c) RequestHandler \<Rightarrow> 'j Request \<Rightarrow> ('j, 'c) Orchestrator \<Rightarrow> 'j Message list \<times> ('j, 'c) Orchestrator" where
  "DelayedResponseRequestHandler_call env h r oc =
     (let response = new_response r
      in case parseArgs env (rh_args h) (rh_parse h) r of
           Some err \<Rightarrow> ([SendError env (debug_context oc) err response], oc)
         | None \<Rightarrow>
             (let (result, events, c) = rh_run h (handler_args h r) (debug_context oc);
                  oc = oc\<lparr>debug_context := c\<rparr>;
                  response = BuildErrorResponse env (case result of Inl err \<Rightarrow> Some err | Inr _ \<Rightarrow> None) response;
                  oc = SetDeferredConfigurationResponse response oc
              in (map (\<lambda>(e, b). SendEvent e b) events @ [SendEvent ''initialized'' None], oc)))"

definition ClearCancelRequest :: "CancelArguments \<Rightarrow> ('j, 'c) Orchestrator \<Rightarrow> ('j, 'c) Orchestrator" where
  "ClearCancelRequest args oc =
     (case ca_requestId args of Some i \<Rightarrow> oc\<lparr>cancelled_requests := cancelled_requests oc - {i}\<rparr> | None \<Rightarrow> oc)"

definition CancelRequestHandler_call ::
    "('j, 'c) dap_env \<Rightarrow> 'j Request \<Rightarrow> ('j, 'c) Orchestrator \<Rightarrow> 'j Message list \<times> ('j, 'c) Orchestrator" where
  "CancelRequestHandler_call env r oc =
     (let parse = (\<lambda>v. case CancelArguments_fromJSON (env_json env) v of None \<Rightarrow> Some (env_path_error env v) | Some _ \<Rightarrow> None)
      in case parseArgs env RequiredArgs parse r of
           Some err \<Rightarrow> ([SendError env (debug_context oc) err (new_response r)], oc)
         | None \<Rightarrow>
             (let args = Option.bind (req_arguments r) (CancelArguments_fromJSON (env_json env));
                  oc = (case args of Some a \<Rightarrow> ClearCancelRequest a oc | None \<Rightarrow> oc)
              in ([SendSuccess env (debug_context oc) None (new_response r)], oc)))"

definition IsCancelled :: "'j Request \<Rightarrow> ('j, 'c) Orchestrator \<Rightarrow> bool" where
  "IsCancelled r oc \<longleftrightarrow> req_seq r \<in> cancelled_requests oc"

definition BaseRequestHandler_Run ::
    "('j, 'c) dap_env \<Rightarrow> ('j, 'c) handler \<Rightarrow> 'j Request \<Rightarrow> ('j, 'c) Orchestrator \<Rightarrow> 'j Message list \<times> ('j, 'c) Orchestrator" where
  "BaseRequestHandler_Run env h r oc =
     (if IsCancelled r oc
      then ([MResponse ((new_response r)\<lparr>resp_message := Some (Inl eResponseMessageCancelled)\<rparr>)], oc)
      else (let oc = oc\<lparr>debug_context := CancelInterruptRequest env (debug_context oc)\<rparr>
            in case h of
                 Plain h \<Rightarrow> RequestHandler_call env h no_PostRun r oc
               | Delayed h \<Rightarrow> DelayedResponseRequestHandler_call env h r oc
               | ConfigurationDone h \<Rightarrow> RequestHandler_call env h (RunDeferredConfigurationResponse env) r oc
               | Cancel \<Rightarrow> CancelRequestHandler_call env r oc))"

definition HandleRequest ::
    "('j, 'c) dap_env \<Rightarrow> 'j Request \<Rightarrow> ('j, 'c) Orchestrator \<Rightarrow> 'j Message list \<times> ('j, 'c) Orchestrator" where
  "HandleRequest env r oc =
     (case command_handlers oc (req_command r) of
        Some h \<Rightarrow> BaseRequestHandler_Run env h r oc
      | None \<Rightarrow> ([SendErrorResponse r (''unrecognized request: '' @ quote @ req_command r @ quote)], oc))"

section \<open>The reader and the queue\<close>

definition mark_cancel :: "'j Json \<Rightarrow> 'j Request \<Rightarrow> ('j, 'c) Orchestrator \<Rightarrow> ('j, 'c) Orchestrator" where
  "mark_cancel J r oc =
     (if req_command r = ''cancel''
      then (case Option.bind (req_arguments r) (CancelArguments_fromJSON J) of
              Some args \<Rightarrow> (case ca_requestId args of Some i \<Rightarrow> oc\<lparr>cancelled_requests := insert i (cancelled_requests oc)\<rparr> | None \<Rightarrow> oc)
            | None \<Rightarrow> oc)
      else oc)"

definition push_request :: "'j Request \<Rightarrow> ('j, 'c) Orchestrator \<Rightarrow> ('j, 'c) Orchestrator" where
  "push_request r oc = oc\<lparr>request_queue := request_queue oc @ [r]\<rparr>"

definition pop_request :: "('j, 'c) Orchestrator \<Rightarrow> ('j Request \<times> ('j, 'c) Orchestrator) option" where
  "pop_request oc = (case request_queue oc of [] \<Rightarrow> None | r # rs \<Rightarrow> Some (r, oc\<lparr>request_queue := rs\<rparr>))"

interpretation dispatch_queue: fifo push_request pop_request request_queue
  by unfold_locales (auto simp: push_request_def pop_request_def split: list.splits)

section \<open>Threads\<close>

datatype 'j reader_pc = Reading | Enqueueing "'j Request" | AtEnd
datatype 'j dispatcher_pc = Idle | Handling "'j Request" | Sending "'j Message list" | Returned

record ('j, 'c) dap_sys =
  orch :: "('j, 'c) Orchestrator"
  reader :: "'j reader_pc"
  dispatcher :: "'j dispatcher_pc"
  handled :: "'j Request list"

text \<open>The steps of the reader (\<open>ReaderLoop\<close>) and of the dispatcher (\<open>DispatchLoop\<close>), one per critical
  section; the dispatcher sends the messages of a request one at a time, so that other threads can
  send in between.\<close>

inductive work_step :: "('j, 'c) dap_env \<Rightarrow> ('j, 'c) dap_sys \<Rightarrow> ('j, 'c) dap_sys \<Rightarrow> bool" for env where
  read_end: "reader s = Reading \<Longrightarrow> ReadMessage (env_parse env) (transport (orch s)) = (None, t) \<Longrightarrow>
    work_step env s (s\<lparr>orch := (orch s)\<lparr>transport := t, reader_done := True\<rparr>, reader := AtEnd\<rparr>)"
| read_bad: "reader s = Reading \<Longrightarrow> ReadMessage (env_parse env) (transport (orch s)) = (Some v, t) \<Longrightarrow>
    Request_fromJSON (env_json env) v = None \<Longrightarrow>
    work_step env s (s\<lparr>orch := (orch s)\<lparr>transport := t\<rparr>\<rparr>)"
| read_request: "reader s = Reading \<Longrightarrow> ReadMessage (env_parse env) (transport (orch s)) = (Some v, t) \<Longrightarrow>
    Request_fromJSON (env_json env) v = Some r \<Longrightarrow>
    work_step env s (s\<lparr>orch := mark_cancel (env_json env) r ((orch s)\<lparr>transport := t\<rparr>), reader := Enqueueing r\<rparr>)"
| enqueue: "reader s = Enqueueing r \<Longrightarrow> work_step env s (s\<lparr>orch := push_request r (orch s), reader := Reading\<rparr>)"
| pop: "dispatcher s = Idle \<Longrightarrow> pop_request (orch s) = Some (r, oc') \<Longrightarrow> work_step env s (s\<lparr>orch := oc', dispatcher := Handling r\<rparr>)"
| finish: "dispatcher s = Idle \<Longrightarrow> request_queue (orch s) = [] \<Longrightarrow> reader_done (orch s) \<Longrightarrow> work_step env s (s\<lparr>dispatcher := Returned\<rparr>)"
| handle: "dispatcher s = Handling r \<Longrightarrow> HandleRequest env r (orch s) = (ms, oc') \<Longrightarrow>
    work_step env s (s\<lparr>orch := oc', dispatcher := Sending ms, handled := handled s @ [r]\<rparr>)"
| send: "dispatcher s = Sending (m # ms) \<Longrightarrow> Orchestrator_Send (env_json env) m (orch s) = Some (i, oc') \<Longrightarrow>
    work_step env s (s\<lparr>orch := oc', dispatcher := Sending ms\<rparr>)"
| sent: "dispatcher s = Sending [] \<Longrightarrow> work_step env s (s\<lparr>dispatcher := Idle\<rparr>)"

inductive dap_step :: "('j, 'c) dap_env \<Rightarrow> ('j, 'c) dap_sys \<Rightarrow> ('j, 'c) dap_sys \<Rightarrow> bool" for env where
  work: "work_step env s s' \<Longrightarrow> dap_step env s s'"
| event: "Orchestrator_Send (env_json env) (SendEvent name body) (orch s) = Some (i, oc') \<Longrightarrow> dap_step env s (s\<lparr>orch := oc'\<rparr>)"

definition dap_init :: "('j, 'c) Orchestrator \<Rightarrow> ('j, 'c) dap_sys" where
  "dap_init oc = \<lparr>orch = oc, reader = Reading, dispatcher = Idle, handled = []\<rparr>"

section \<open>What a request leaves behind\<close>

fun answers :: "'j Message list \<Rightarrow> 'j Response list" where
  "answers [] = []"
| "answers (MResponse r # ms) = r # answers ms"
| "answers (_ # ms) = answers ms"

lemma answers_append [simp]: "answers (ms @ ns) = answers ms @ answers ns"
  by (induction ms rule: answers.induct) simp_all

lemma answers_events [simp]: "answers (map (\<lambda>(e, b). SendEvent e b) es) = []"
  by (induction es) (auto simp: SendEvent_def)

lemma answers_SendEvent [simp]: "answers (SendEvent e b # ms) = answers ms"
  by (simp add: SendEvent_def)

text \<open>A message built by the code: its number is still to be given, and a text only comes with a failure.\<close>

fun sendable :: "'j Message \<Rightarrow> bool" where
  "sendable (MRequest r) \<longleftrightarrow> req_seq r = kCalculateSeq"
| "sendable (MResponse r) \<longleftrightarrow> resp_seq r = kCalculateSeq \<and> (resp_message r = None \<or> \<not> resp_success r)"
| "sendable (MEvent e) \<longleftrightarrow> ev_seq e = kCalculateSeq"

lemma sendable_events [simp]: "sendable (SendEvent e b)" "list_all sendable (map (\<lambda>(e, b). SendEvent e b) es)"
  by (auto simp: SendEvent_def list_all_iff)

definition deferred_list :: "('j, 'c) Orchestrator \<Rightarrow> 'j Response list" where
  "deferred_list oc = (case deferred_configuration_response oc of Some d \<Rightarrow> [d] | None \<Rightarrow> [])"

definition deferred_ok :: "('j, 'c) Orchestrator \<Rightarrow> bool" where
  "deferred_ok oc \<longleftrightarrow> list_all (\<lambda>d. sendable (MResponse d)) (deferred_list oc)"

abbreviation request_seqs :: "'j Response list \<Rightarrow> Id multiset" where
  "request_seqs rs \<equiv> mset (map resp_request_seq rs)"

text \<open>One answer for \<open>r\<close>, now or kept for later.\<close>

definition one_answer :: "'j Request \<Rightarrow> ('j, 'c) Orchestrator \<Rightarrow> 'j Message list \<times> ('j, 'c) Orchestrator \<Rightarrow> bool" where
  "one_answer r oc res \<longleftrightarrow> (case res of (ms, oc') \<Rightarrow>
     request_seqs (answers ms) + request_seqs (deferred_list oc') + request_seqs (dropped oc') =
       {#req_seq r#} + request_seqs (deferred_list oc) + request_seqs (dropped oc) \<and>
     list_all sendable ms \<and> deferred_ok oc' \<and>
     transport oc' = transport oc \<and> request_queue oc' = request_queue oc \<and> reader_done oc' = reader_done oc \<and>
     next_seq oc' = next_seq oc \<and> wire oc' = wire oc)"

text \<open>A response to \<open>r\<close>.\<close>

definition response_to :: "'j Request \<Rightarrow> 'j Message \<Rightarrow> bool" where
  "response_to r m \<longleftrightarrow> sendable m \<and> (\<exists>a. m = MResponse a \<and> resp_request_seq a = req_seq r)"

lemma response_to_answers: "response_to r m \<Longrightarrow> \<exists>a. answers (m # ms) = a # answers ms \<and> resp_request_seq a = req_seq r"
  by (auto simp: response_to_def)

lemma built_responses [simp]:
  shows "response_to r (SendError env c err (new_response r))"
    and "response_to r (SendSuccess env c body (new_response r))"
    and "response_to r (SendErrorResponse r message)"
    and "response_to r (MResponse ((new_response r)\<lparr>resp_message := Some (Inl eResponseMessageCancelled)\<rparr>))"
  by (auto simp: response_to_def SendError_def SendSuccess_def SendErrorResponse_def Base_Send_def BuildErrorResponse_def
      new_response_def Let_def split: DapError.splits option.splits)

lemma built_deferred:
  "sendable (MResponse (BuildErrorResponse env err (new_response r))) \<and> resp_request_seq (BuildErrorResponse env err (new_response r)) = req_seq r"
  by (auto simp: BuildErrorResponse_def new_response_def split: DapError.splits option.splits)

lemma Base_Send_response [simp]:
  "sendable (MResponse d) \<Longrightarrow> sendable (Base_Send env c d)"
  "image_mset resp_request_seq (mset (answers (Base_Send env c d # ms))) = add_mset (resp_request_seq d) (image_mset resp_request_seq (mset (answers ms)))"
  by (auto simp: Base_Send_def)

lemma one_answer_now:
  assumes "response_to r m" and "deferred_ok oc"
    and "deferred_list oc' = deferred_list oc" and "dropped oc' = dropped oc"
    and "transport oc' = transport oc" and "request_queue oc' = request_queue oc" and "reader_done oc' = reader_done oc"
    and "next_seq oc' = next_seq oc" and "wire oc' = wire oc"
    and "list_all sendable es" and "answers es = []"
  shows "one_answer r oc (es @ [m], oc')"
  using assms by (auto simp: one_answer_def response_to_def deferred_ok_def)

lemmas one_answer_single = one_answer_now [where es = "[]", simplified]

lemma deferred_list_updates [simp]:
  "deferred_list (oc\<lparr>debug_context := c\<rparr>) = deferred_list oc"
  "deferred_list (oc\<lparr>cancelled_requests := k\<rparr>) = deferred_list oc"
  "deferred_list (oc\<lparr>transport := t\<rparr>) = deferred_list oc"
  "deferred_list (oc\<lparr>reader_done := b\<rparr>) = deferred_list oc"
  "deferred_list (oc\<lparr>request_queue := q\<rparr>) = deferred_list oc"
  "deferred_ok (oc\<lparr>debug_context := c\<rparr>) = deferred_ok oc"
  by (simp_all add: deferred_list_def deferred_ok_def)

lemma Orchestrator_Send_sendable:
  assumes "sendable m"
  shows "Orchestrator_Send J m oc =
    (if next_seq oc = 0 \<or> next_seq oc = kCalculateSeq then None
     else Some (next_seq oc, oc\<lparr>next_seq := next_seq oc + 1, wire := wire oc @ [set_seq (next_seq oc) m]\<rparr>))"
  using assms
  by (cases m) (auto simp: Orchestrator_Send_def NextSeq_def Let_def Request_toJSON_def Response_toJSON_def Event_toJSON_def)

lemma CancelRequestHandler_answers:
  assumes "deferred_ok oc"
  shows "one_answer r oc (CancelRequestHandler_call env r oc)"
  by (auto simp: CancelRequestHandler_call_def ClearCancelRequest_def Let_def assms intro!: one_answer_single split: option.split)

lemma RequestHandler_answers:
  assumes "deferred_ok oc"
  shows "one_answer r oc (RequestHandler_call env h no_PostRun r oc)"
  by (auto simp: RequestHandler_call_def no_PostRun_def Let_def assms intro!: one_answer_single one_answer_now split: option.split sum.split prod.split)

lemma ConfigurationDone_answers:
  assumes "deferred_ok oc"
  shows "one_answer r oc (RequestHandler_call env h (RunDeferredConfigurationResponse env) r oc)"
proof (cases "parseArgs env (rh_args h) (rh_parse h) r")
  case (Some err)
  then show ?thesis using assms by (auto intro!: one_answer_single simp: RequestHandler_call_def)
next
  case None
  obtain result events c where run: "rh_run h (handler_args h r) (debug_context oc) = (result, events, c)" by (cases "rh_run h (handler_args h r) (debug_context oc)") auto
  define m where "m = (case result of Inl err \<Rightarrow> SendError env c err (new_response r) | Inr body \<Rightarrow> SendSuccess env c body (new_response r))"
  have m: "response_to r m" by (simp add: m_def split: sum.split)
  from None run m assms show ?thesis
    by (cases "deferred_configuration_response oc")
      (auto simp: RequestHandler_call_def RunDeferredConfigurationResponse_def Let_def m_def [symmetric] one_answer_def
        deferred_list_def deferred_ok_def response_to_def)
qed

lemma Delayed_answers:
  assumes "deferred_ok oc"
  shows "one_answer r oc (DelayedResponseRequestHandler_call env h r oc)"
proof (cases "parseArgs env (rh_args h) (rh_parse h) r")
  case (Some err)
  then show ?thesis using assms by (auto intro!: one_answer_single simp: DelayedResponseRequestHandler_call_def)
next
  case None
  then show ?thesis using built_deferred [of env _ r]
    by (auto simp: DelayedResponseRequestHandler_call_def SetDeferredConfigurationResponse_def Let_def one_answer_def
        deferred_list_def deferred_ok_def split: prod.splits option.splits)
qed

lemma HandleRequest_answers:
  assumes "deferred_ok oc"
  shows "one_answer r oc (HandleRequest env r oc)"
proof -
  have ctx: "one_answer r oc res \<longleftrightarrow> one_answer r (oc\<lparr>debug_context := c\<rparr>) res" for res c
    by (simp add: one_answer_def)
  have "one_answer r oc (BaseRequestHandler_Run env h r oc)" for h
  proof (cases "IsCancelled r oc")
    case True
    then show ?thesis by (auto simp: BaseRequestHandler_Run_def assms intro!: one_answer_single)
  next
    case False
    then show ?thesis
      by (cases h) (simp_all add: BaseRequestHandler_Run_def Let_def ctx [of _ "CancelInterruptRequest env (debug_context oc)"] assms
        CancelRequestHandler_answers RequestHandler_answers ConfigurationDone_answers Delayed_answers)
  qed
  then show ?thesis by (auto simp: HandleRequest_def assms intro!: one_answer_single split: option.split)
qed

section \<open>Invariant of the session\<close>

definition to_send :: "('j, 'c) dap_sys \<Rightarrow> 'j Message list" where
  "to_send s = (case dispatcher s of Sending ms \<Rightarrow> ms | _ \<Rightarrow> [])"

text \<open>The numbers on the wire are 1, 2, 3 and so on.\<close>

definition numbered :: "('j, 'c) Orchestrator \<Rightarrow> bool" where
  "numbered oc \<longleftrightarrow> Suc (length (wire oc)) < 2 ^ 64 \<and> next_seq oc = of_nat (Suc (length (wire oc))) \<and>
     map message_seq (wire oc) = map of_nat [1..<Suc (length (wire oc))]"

definition answered :: "('j, 'c) dap_sys \<Rightarrow> bool" where
  "answered s \<longleftrightarrow>
     request_seqs (answers (wire (orch s))) + request_seqs (answers (to_send s)) + request_seqs (deferred_list (orch s)) +
       request_seqs (dropped (orch s)) = mset (map req_seq (handled s))"

definition dap_inv :: "('j, 'c) dap_sys \<Rightarrow> bool" where
  "dap_inv s \<longleftrightarrow> numbered (orch s) \<and> answered s \<and> list_all sendable (to_send s) \<and> deferred_ok (orch s) \<and>
     (reader_done (orch s) \<longleftrightarrow> reader s = AtEnd) \<and>
     (dispatcher s = Returned \<longrightarrow> request_queue (orch s) = [] \<and> reader s = AtEnd)"

lemma set_seq_view [simp]: "message_seq (set_seq i m) = i" "map resp_request_seq (answers [set_seq i m]) = map resp_request_seq (answers [m])"
  by (cases m; simp)+

lemma next_seq_fresh:
  assumes "numbered oc"
  shows "next_seq oc \<noteq> 0" and "next_seq oc \<noteq> kCalculateSeq \<Longrightarrow> Suc (Suc (length (wire oc))) < 2 ^ 64"
proof -
  let ?n = "Suc (length (wire oc))"
  have n: "?n < 2 ^ 64" "next_seq oc = of_nat ?n" using assms by (simp_all add: numbered_def)
  then have u: "unat (next_seq oc) = ?n" by (simp add: unsigned_of_nat take_bit_nat_eq_self del: of_nat_Suc)
  then show "next_seq oc \<noteq> 0" by auto
  have "unat kCalculateSeq = 2 ^ 64 - 1" by (simp add: kCalculateSeq_def unsigned_minus_1_eq_mask mask_eq_exp_minus_1)
  with u show "Suc ?n < 2 ^ 64" if "next_seq oc \<noteq> kCalculateSeq" using that n(1) by (metis Suc_lessI diff_Suc_1 word_unat_eq_iff)
qed

lemma Send_result:
  assumes "sendable m" and "Orchestrator_Send J m oc = Some (i, oc')" and "numbered oc"
  shows "numbered oc' \<and> wire oc' = wire oc @ [set_seq (next_seq oc) m] \<and> deferred_list oc' = deferred_list oc \<and> dropped oc' = dropped oc \<and>
    transport oc' = transport oc \<and> request_queue oc' = request_queue oc \<and> reader_done oc' = reader_done oc"
proof -
  from assms have ok: "next_seq oc \<noteq> kCalculateSeq"
    and oc': "oc' = oc\<lparr>next_seq := next_seq oc + 1, wire := wire oc @ [set_seq (next_seq oc) m]\<rparr>"
    by (auto simp: Orchestrator_Send_sendable split: if_splits)
  from next_seq_fresh(2) [OF assms(3) ok] assms(3) show ?thesis
    by (simp add: numbered_def oc' deferred_list_def)
qed

lemma mark_cancel_frame [simp]:
  "transport (mark_cancel J r oc) = transport oc" "request_queue (mark_cancel J r oc) = request_queue oc"
  "reader_done (mark_cancel J r oc) = reader_done oc" "deferred_list (mark_cancel J r oc) = deferred_list oc"
  "dropped (mark_cancel J r oc) = dropped oc" "wire (mark_cancel J r oc) = wire oc" "next_seq (mark_cancel J r oc) = next_seq oc"
  by (auto simp: mark_cancel_def split: option.split)

lemma numbered_cong: "wire oc' = wire oc \<Longrightarrow> next_seq oc' = next_seq oc \<Longrightarrow> numbered oc' = numbered oc"
  by (simp add: numbered_def)

lemma deferred_ok_cong: "deferred_list oc' = deferred_list oc \<Longrightarrow> deferred_ok oc' = deferred_ok oc"
  by (simp add: deferred_ok_def)

lemma dap_inv_read:
  assumes "dap_inv s" and "wire oc' = wire (orch s)" and "next_seq oc' = next_seq (orch s)" and "deferred_list oc' = deferred_list (orch s)"
    and "dropped oc' = dropped (orch s)" and "request_queue (orch s) = [] \<or> dispatcher s \<noteq> Returned"
    and "dispatcher s \<noteq> Returned \<or> request_queue oc' = [] \<and> p = AtEnd" and "reader_done oc' \<longleftrightarrow> p = AtEnd"
  shows "dap_inv (s\<lparr>orch := oc', reader := p\<rparr>)"
  using assms by (auto simp: dap_inv_def answered_def to_send_def numbered_cong [OF assms(2,3)] deferred_ok_cong [OF assms(4)])

lemma dap_inv_send:
  assumes inv: "dap_inv s" and m: "sendable m" and send: "Orchestrator_Send J m (orch s) = Some (i, oc')"
    and d: "dispatcher s = Sending (m # ms) \<and> d = Sending ms \<or> answers [m] = [] \<and> d = dispatcher s"
  shows "dap_inv (s\<lparr>orch := oc', dispatcher := d\<rparr>)"
proof -
  have num: "numbered (orch s)" using inv by (simp add: dap_inv_def)
  note r = Send_result [OF m send num]
  have "map resp_request_seq (answers (wire oc')) = map resp_request_seq (answers (wire (orch s))) @ map resp_request_seq (answers [m])"
    using r by simp
  moreover have "answers (m # ms) = answers [m] @ answers ms" by (cases m) simp_all
  ultimately have a: "answered (s\<lparr>orch := oc', dispatcher := d\<rparr>)"
    using inv d r by (auto simp: dap_inv_def answered_def to_send_def mset_map [symmetric] ac_simps simp del: mset_map split: dispatcher_pc.splits)
  show ?thesis using inv d r a by (auto simp: dap_inv_def to_send_def deferred_ok_cong [of oc' "orch s"] split: dispatcher_pc.splits)
qed

lemma work_step_inv:
  assumes "work_step env s s'" and inv: "dap_inv s"
  shows "dap_inv s'"
  using assms(1)
proof (cases rule: work_step.cases)
  case (read_end t)
  show ?thesis unfolding read_end(1) by (rule dap_inv_read [OF inv]) (use inv in \<open>auto simp: dap_inv_def\<close>)
next
  case (read_bad v t)
  have "dap_inv (s\<lparr>orch := (orch s)\<lparr>transport := t\<rparr>, reader := reader s\<rparr>)"
    by (rule dap_inv_read [OF inv]) (use inv read_bad in \<open>auto simp: dap_inv_def\<close>)
  then show ?thesis unfolding read_bad(1) by simp
next
  case (read_request v t r)
  show ?thesis unfolding read_request(1) by (rule dap_inv_read [OF inv]) (use inv read_request in \<open>auto simp: dap_inv_def\<close>)
next
  case (enqueue r)
  show ?thesis unfolding enqueue(1)
    by (rule dap_inv_read [OF inv]) (use inv enqueue in \<open>auto simp: dap_inv_def push_request_def\<close>)
next
  case (pop r oc')
  then show ?thesis using inv
    by (auto simp: dap_inv_def answered_def to_send_def pop_request_def numbered_def deferred_list_def deferred_ok_def split: list.splits)
next
  case finish
  then show ?thesis using inv by (simp add: dap_inv_def answered_def to_send_def)
next
  case (handle r ms oc')
  have "one_answer r (orch s) (ms, oc')" using HandleRequest_answers [of "orch s" r env] inv handle(3) by (simp add: dap_inv_def)
  then have one: "request_seqs (answers ms) + request_seqs (deferred_list oc') + request_seqs (dropped oc') =
      {#req_seq r#} + request_seqs (deferred_list (orch s)) + request_seqs (dropped (orch s))" (is "?new = ?old")
    and keep: "wire oc' = wire (orch s)" "next_seq oc' = next_seq (orch s)" "list_all sendable ms" "deferred_ok oc'"
      "reader_done oc' = reader_done (orch s)" "request_queue oc' = request_queue (orch s)"
    by (simp_all add: one_answer_def)
  have "request_seqs (answers (wire (orch s))) + ?old = mset (map req_seq (handled s @ [r]))"
    using inv handle(2) by (simp add: dap_inv_def answered_def to_send_def ac_simps)
  then have "answered s'" unfolding one [symmetric] handle(1) using keep(1) by (simp add: answered_def to_send_def add.assoc)
  then show ?thesis using inv handle(1,2) keep by (simp add: dap_inv_def to_send_def numbered_cong [OF keep(1,2)])
next
  case (send m ms i oc')
  have "sendable m" using inv send(2) by (simp add: dap_inv_def to_send_def)
  from dap_inv_send [OF inv this send(3)] send(1,2) show ?thesis by simp
next
  case sent
  then show ?thesis using inv by (simp add: dap_inv_def answered_def to_send_def)
qed

lemma dap_step_inv:
  assumes "dap_step env s s'" and inv: "dap_inv s"
  shows "dap_inv s'"
  using assms(1)
proof (cases rule: dap_step.cases)
  case work
  then show ?thesis using work_step_inv inv by blast
next
  case (event name body i oc')
  have "dap_inv (s\<lparr>orch := oc', dispatcher := dispatcher s\<rparr>)" by (rule dap_inv_send [OF inv _ event(2)]) simp_all
  then show ?thesis unfolding event(1) by simp
qed

lemma dap_reach_inv:
  assumes "(dap_step env)\<^sup>*\<^sup>* (dap_init ((new_Orchestrator t c)\<lparr>command_handlers := hs\<rparr>)) s"
  shows "dap_inv s"
  using assms
proof (induction rule: rtranclp_induct)
  case base
  show ?case by (simp add: dap_inv_def dap_init_def new_Orchestrator_def numbered_def answered_def to_send_def deferred_list_def deferred_ok_def)
qed (rule dap_step_inv)

section \<open>Every request is served\<close>

text \<open>The requests in a list of bodies: what parses and decodes.\<close>

fun requests :: "('j, 'c) dap_env \<Rightarrow> string list \<Rightarrow> 'j Request list" where
  "requests env [] = []"
| "requests env (b # bs) =
     (case Option.bind (env_parse env b) (Request_fromJSON (env_json env)) of Some r \<Rightarrow> r # requests env bs | None \<Rightarrow> requests env bs)"

definition good_body :: "('j, 'c) dap_env \<Rightarrow> string \<Rightarrow> bool" where
  "good_body env b \<longleftrightarrow> length b < 2 ^ 64 \<and> env_parse env b \<noteq> None"

definition taken :: "('j, 'c) dap_sys \<Rightarrow> 'j Request list" where
  "taken s = handled s @ (case dispatcher s of Handling r \<Rightarrow> [r] | _ \<Rightarrow> []) @ request_queue (orch s) @
     (case reader s of Enqueueing r \<Rightarrow> [r] | _ \<Rightarrow> [])"

definition serve_inv :: "('j, 'c) dap_env \<Rightarrow> string list \<Rightarrow> ('j, 'c) dap_sys \<Rightarrow> bool" where
  "serve_inv env bodies s \<longleftrightarrow>
     (if reader s = AtEnd then taken s = requests env bodies
      else \<exists>rest. steady (transport (orch s)) \<and> stream (transport (orch s)) = concat (map frame rest) \<and>
             list_all (good_body env) rest \<and> taken s @ requests env rest = requests env bodies)"

lemma serve_inv_keep:
  assumes "serve_inv env bodies s" and "reader s' = reader s" and "taken s' = taken s" and "transport (orch s') = transport (orch s)"
  shows "serve_inv env bodies s'"
  using assms(1) unfolding serve_inv_def assms(2-4) .

lemma read_cases:
  assumes "serve_inv env bodies s" and "reader s = Reading" and "ReadMessage (env_parse env) (transport (orch s)) = (x, t)"
  shows "case x of
      None \<Rightarrow> taken s = requests env bodies
    | Some v \<Rightarrow> \<exists>rest. steady t \<and> stream t = concat (map frame rest) \<and> list_all (good_body env) rest \<and>
        taken s @ (case Request_fromJSON (env_json env) v of Some r \<Rightarrow> [r] | None \<Rightarrow> []) @ requests env rest = requests env bodies"
proof -
  obtain rest where st: "steady (transport (orch s))" and str: "stream (transport (orch s)) = concat (map frame rest)"
    and good: "list_all (good_body env) rest" and eq: "taken s @ requests env rest = requests env bodies"
    using assms(1,2) by (auto simp: serve_inv_def)
  show ?thesis
  proof (cases rest)
    case Nil
    with ReadMessage_end [OF st, of "env_parse env"] str assms(3) eq show ?thesis by simp
  next
    case (Cons b bs)
    with good obtain v where v: "env_parse env b = Some v" and len: "length b < 2 ^ 64" and bs: "list_all (good_body env) bs"
      by (auto simp: good_body_def)
    have "stream (transport (orch s)) = frame b @ concat (map frame bs)" using str Cons by simp
    from ReadMessage_frame [OF st this len, of "env_parse env"] v assms(3)
    have "x = Some v" "steady t" "stream t = concat (map frame bs)" by auto
    with eq Cons v bs show ?thesis by (auto split: option.splits)
  qed
qed

lemma Send_frame:
  "Orchestrator_Send J m oc = Some (i, oc') \<Longrightarrow> transport oc' = transport oc \<and> request_queue oc' = request_queue oc"
  by (auto simp: Orchestrator_Send_def NextSeq_def Let_def split: if_splits option.splits)

lemma work_step_serve:
  assumes "work_step env s s'" and dinv: "dap_inv s" and inv: "serve_inv env bodies s"
  shows "serve_inv env bodies s'"
  using assms(1)
proof (cases rule: work_step.cases)
  case (read_end t)
  from read_cases [OF inv read_end(2,3)] show ?thesis unfolding read_end(1) using read_end(2) by (simp add: serve_inv_def taken_def)
next
  case (read_bad v t)
  from read_cases [OF inv read_bad(2,3)] read_bad(2,4) show ?thesis unfolding read_bad(1)
    by (auto simp: serve_inv_def taken_def)
next
  case (read_request v t r)
  from read_cases [OF inv read_request(2,3)] read_request(2,4) show ?thesis unfolding read_request(1)
    by (auto simp: serve_inv_def taken_def)
next
  case (enqueue r)
  then show ?thesis using inv by (auto simp: serve_inv_def taken_def push_request_def)
next
  case (pop r oc')
  have "request_queue (orch s) = r # request_queue oc'" by (rule dispatch_queue.take_Some [OF pop(3)])
  moreover have "transport oc' = transport (orch s)" using pop(3) by (auto simp: pop_request_def split: list.splits)
  ultimately show ?thesis using pop(1,2) by (intro serve_inv_keep [OF inv]) (simp_all add: taken_def)
next
  case finish
  then show ?thesis by (intro serve_inv_keep [OF inv]) (simp_all add: taken_def)
next
  case sent
  then show ?thesis by (intro serve_inv_keep [OF inv]) (simp_all add: taken_def)
next
  case (handle r ms oc')
  have "one_answer r (orch s) (ms, oc')" using HandleRequest_answers [of "orch s" r env] dinv handle(3) by (simp add: dap_inv_def)
  then show ?thesis using handle(1,2) by (intro serve_inv_keep [OF inv]) (simp_all add: taken_def one_answer_def)
next
  case (send m ms i oc')
  from Send_frame [OF send(3)] send(1,2) show ?thesis by (intro serve_inv_keep [OF inv]) (simp_all add: taken_def)
qed

lemma dap_reach_serve:
  assumes "(dap_step env)\<^sup>*\<^sup>* (dap_init ((new_Orchestrator t c)\<lparr>command_handlers := hs\<rparr>)) s"
    and "steady t" and "stream t = concat (map frame bodies)" and "list_all (good_body env) bodies"
  shows "serve_inv env bodies s"
  using assms(1)
proof (induction rule: rtranclp_induct)
  case base
  show ?case using assms(2-4) by (auto simp: serve_inv_def dap_init_def new_Orchestrator_def taken_def)
next
  case (step s s')
  from step(2) show ?case
  proof (cases rule: dap_step.cases)
    case work
    then show ?thesis using work_step_serve dap_reach_inv [OF step(1)] step(3) by blast
  next
    case (event name body i oc')
    from Send_frame [OF event(2)] show ?thesis unfolding event(1) by (intro serve_inv_keep [OF step(3)]) (simp_all add: taken_def)
  qed
qed

section \<open>The session ends\<close>

text \<open>The work left: input, requests on their way, messages to send.\<close>

fun reader_work :: "'j reader_pc \<Rightarrow> nat \<Rightarrow> nat" where
  "reader_work Reading n = 1 + 6 * n"
| "reader_work (Enqueueing r) n = 6 + 6 * n"
| "reader_work AtEnd n = 0"

fun dispatcher_work :: "'j dispatcher_pc \<Rightarrow> nat" where
  "dispatcher_work (Handling r) = 3"
| "dispatcher_work (Sending ms) = 2"
| "dispatcher_work Idle = 1"
| "dispatcher_work Returned = 0"

definition work_left :: "('j, 'c) dap_sys \<Rightarrow> nat \<times> nat" where
  "work_left s =
     (reader_work (reader s) (avail (transport (orch s))) + 4 * length (request_queue (orch s)) + dispatcher_work (dispatcher s),
      length (to_send s))"

lemma HandleRequest_frame:
  "HandleRequest env r oc = (ms, oc') \<Longrightarrow> transport oc' = transport oc \<and> request_queue oc' = request_queue oc"
  by (auto simp: HandleRequest_def BaseRequestHandler_Run_def RequestHandler_call_def DelayedResponseRequestHandler_call_def
      CancelRequestHandler_call_def no_PostRun_def RunDeferredConfigurationResponse_def SetDeferredConfigurationResponse_def
      ClearCancelRequest_def Let_def split: option.splits if_splits handler.splits prod.splits sum.splits)

lemma work_step_decreases:
  assumes "work_step env s s'"
  shows "(work_left s', work_left s) \<in> less_than <*lex*> less_than"
  using assms
proof (cases rule: work_step.cases)
  case (read_bad v t)
  from ReadMessage_avail [OF read_bad(3)] read_bad(1,2) show ?thesis by (simp add: work_left_def)
next
  case (read_request v t r)
  from ReadMessage_avail [OF read_request(3)] read_request(1,2) show ?thesis by (simp add: work_left_def)
next
  case (pop r oc')
  then show ?thesis by (auto simp: work_left_def pop_request_def split: list.splits)
next
  case (handle r ms oc')
  from HandleRequest_frame [OF handle(3)] handle(1,2) show ?thesis by (simp add: work_left_def)
next
  case (send m ms i oc')
  from Send_frame [OF send(3)] send(1,2) show ?thesis by (simp add: work_left_def to_send_def)
qed (simp_all add: work_left_def push_request_def)

lemma work_step_wf: "wf {(s', s). work_step env s s'}"
proof (rule wf_subset)
  show "wf (inv_image (less_than <*lex*> less_than) work_left)" by (intro wf_inv_image wf_lex_prod wf_less_than)
  show "{(s', s). work_step env s s'} \<subseteq> inv_image (less_than <*lex*> less_than) work_left"
    using work_step_decreases by (auto simp: in_inv_image)
qed

lemma work_step_progress:
  assumes "dap_inv s" and "dispatcher s \<noteq> Returned" and "next_seq (orch s) \<noteq> kCalculateSeq"
  shows "\<exists>s'. work_step env s s'"
proof (cases "dispatcher s")
  case Idle
  show ?thesis
  proof (cases "request_queue (orch s) = []")
    case False
    then obtain oc' where "pop_request (orch s) = Some (hd (request_queue (orch s)), oc')" using dispatch_queue.take_front_ex by blast
    from work_step.pop [OF Idle this] show ?thesis by blast
  next
    case q: True
    show ?thesis
    proof (cases "reader s")
      case Reading
      obtain x t where m: "ReadMessage (env_parse env) (transport (orch s)) = (x, t)" by fastforce
      show ?thesis
      proof (cases x)
        case None
        from work_step.read_end [OF Reading m [unfolded None]] show ?thesis by blast
      next
        case (Some v)
        from work_step.read_bad [OF Reading m [unfolded Some]] work_step.read_request [OF Reading m [unfolded Some]]
        show ?thesis by (cases "Request_fromJSON (env_json env) v") blast+
      qed
    next
      case (Enqueueing r)
      from work_step.enqueue [OF this] show ?thesis by blast
    next
      case AtEnd
      then have "reader_done (orch s)" using assms(1) by (simp add: dap_inv_def)
      from work_step.finish [OF Idle q this] show ?thesis by blast
    qed
  qed
next
  case (Handling r)
  obtain ms oc' where "HandleRequest env r (orch s) = (ms, oc')" by fastforce
  from work_step.handle [OF Handling this] show ?thesis by blast
next
  case (Sending ms)
  show ?thesis
  proof (cases ms)
    case Nil
    from work_step.sent [OF Sending [unfolded Nil]] show ?thesis by blast
  next
    case (Cons m ms')
    have "sendable m" "next_seq (orch s) \<noteq> 0" using assms(1) Sending Cons next_seq_fresh(1) by (auto simp: dap_inv_def to_send_def)
    then obtain i oc' where "Orchestrator_Send (env_json env) m (orch s) = Some (i, oc')"
      using assms(3) by (simp add: Orchestrator_Send_sendable)
    from work_step.send [OF Sending [unfolded Cons] this] show ?thesis by blast
  qed
qed (use assms in simp)

section \<open>Properties\<close>

text \<open>C2: A session serves its client.  Whatever pieces the input arrives in and however the reader, the
  dispatcher and other threads interleave: the requests handled so far are the first ones the client
  sent, each once and in order; when the dispatch loop has returned, they are all of them; until then
  the reader or the dispatcher can take a step, unless the sequence numbers are used up; and they
  cannot step forever, so every session over a finite input ends.\<close>

theorem session_serves_all:
  assumes "(dap_step env)\<^sup>*\<^sup>* (dap_init ((new_Orchestrator t c)\<lparr>command_handlers := hs\<rparr>)) s"
    and "steady t" and "stream t = concat (map frame bodies)" and "list_all (good_body env) bodies"
  shows "(\<exists>rest. handled s @ rest = requests env bodies) \<and>
    (dispatcher s = Returned \<longrightarrow> handled s = requests env bodies) \<and>
    (dispatcher s = Returned \<or> next_seq (orch s) = kCalculateSeq \<or> (\<exists>s'. work_step env s s')) \<and>
    wf {(s', s). work_step env s s'}"
proof -
  have inv: "dap_inv s" by (rule dap_reach_inv [OF assms(1)])
  have "serve_inv env bodies s" by (rule dap_reach_serve [OF assms])
  then obtain rest where "taken s @ rest = requests env bodies" and "reader s = AtEnd \<longrightarrow> rest = []"
    unfolding serve_inv_def by (metis append_Nil2)
  moreover have "dispatcher s = Returned \<longrightarrow> taken s = handled s \<and> reader s = AtEnd"
    using inv by (simp add: dap_inv_def taken_def)
  ultimately show ?thesis using work_step_progress [OF inv] work_step_wf by (auto simp: taken_def)
qed

text \<open>C18: Every request is answered exactly once and outgoing messages are numbered without gaps.  At any
  point of any interleaving, the answers on the wire, those about to be sent, the one kept until the
  configuration is done and those that were replaced there name, each once, the requests handled;
  and the messages on the wire carry the numbers 1, 2, 3 and so on.\<close>

theorem requests_answered_once:
  assumes "(dap_step env)\<^sup>*\<^sup>* (dap_init ((new_Orchestrator t c)\<lparr>command_handlers := hs\<rparr>)) s"
  shows "request_seqs (answers (wire (orch s))) + request_seqs (answers (to_send s)) + request_seqs (deferred_list (orch s)) +
      request_seqs (dropped (orch s)) = mset (map req_seq (handled s)) \<and>
    map message_seq (wire (orch s)) = map of_nat [1..<Suc (length (wire (orch s)))]"
  using dap_reach_inv [OF assms] by (simp add: dap_inv_def answered_def numbered_def)

text \<open>A launch or attach request can stay unanswered: when one arrives while the response of an earlier
  one still waits for the configuration to be done, the waiting response is replaced and is not
  among the messages sent.\<close>

lemma second_launch_drops_response:
  assumes "command_handlers oc (req_command r) = Some (Delayed h)" and "\<not> IsCancelled r oc"
    and "parseArgs env (rh_args h) (rh_parse h) r = None" and "deferred_configuration_response oc = Some d"
    and "HandleRequest env r oc = (ms, oc')"
  shows "answers ms = [] \<and> dropped oc' = dropped oc @ [d] \<and>
    (\<exists>d'. deferred_configuration_response oc' = Some d' \<and> resp_request_seq d' = req_seq r)"
  using assms built_deferred [of env _ r]
  by (auto simp: HandleRequest_def BaseRequestHandler_Run_def DelayedResponseRequestHandler_call_def
      SetDeferredConfigurationResponse_def Let_def split: prod.splits)

section \<open>A session\<close>

definition sample_body :: string where "sample_body = ''nop''"

definition sample_request :: "json Request" where
  "sample_request = \<lparr>req_command = ''nop'', req_arguments = None, req_seq = 5\<rparr>"

definition sample_answer :: "json Message" where
  "sample_answer = SendErrorResponse sample_request (''unrecognized request: '' @ quote @ ''nop'' @ quote)"

definition sample_dap_env :: "(json, unit) dap_env" where
  "sample_dap_env =
     \<lparr>env_json = sample_json,
      env_parse = (\<lambda>b. if b = sample_body then Request_toJSON sample_json sample_request else None),
      env_path_error = (\<lambda>_. ([], [])), inconvertibleErrorCode = 1, IsInterruptRequested = (\<lambda>_. False), CancelInterruptRequest = (\<lambda>c. c)\<rparr>"

definition sample_transport :: Transport where
  "sample_transport = \<lparr>read_buffer = [], read_pos = 0, stop_pipe = True, in_events = [Bytes (frame sample_body)]\<rparr>"

lemma Message_is_Request:
  assumes "Message_fromJSON J v = Some (MRequest r)"
  shows "Request_fromJSON J v = Some r"
proof -
  obtain ty where "(case ty of eMessageTypeRequest \<Rightarrow> map_option MRequest (Request_fromJSON J v)
      | eMessageTypeResponse \<Rightarrow> map_option MResponse (Response_fromJSON J v)
      | eMessageTypeEvent \<Rightarrow> map_option MEvent (Event_fromJSON J v)) = Some (MRequest r)"
    using assms by (auto simp: Message_fromJSON_def bind_eq_Some_conv)
  then show ?thesis by (cases ty) auto
qed

lemma sample_request_decodes:
  "\<exists>v. env_parse sample_dap_env sample_body = Some v \<and> Request_fromJSON sample_json v = Some sample_request"
proof -
  have "message_ok sample_json (MRequest sample_request)"
    by (simp add: sample_request_def kCalculateSeq_def sample_json_def)
  from Request_roundtrip [OF sample_json_laws this] show ?thesis
    using Message_is_Request by (auto simp: sample_dap_env_def)
qed

lemma sample_transport_ok: "steady sample_transport" "stream sample_transport = concat (map frame [sample_body])"
  by (simp_all add: steady_def stream_def sample_transport_def frame_def kContentLengthHeader_def)

definition served_state :: "Transport \<Rightarrow> (json, unit) dap_sys" where
  "served_state t =
     \<lparr>orch = (new_Orchestrator t ())\<lparr>reader_done := True, next_seq := 2,
        wire := [set_seq 1 sample_answer]\<rparr>,
      reader = AtEnd, dispatcher = Returned, handled = [sample_request]\<rparr>"

lemma sample_session: "\<exists>t. (dap_step sample_dap_env)\<^sup>*\<^sup>* (dap_init ((new_Orchestrator sample_transport ())\<lparr>command_handlers := Map.empty\<rparr>)) (served_state t)"
proof -
  let ?E = sample_dap_env and ?r = sample_request
  let ?m = sample_answer
  let ?o = "\<lambda>t. new_Orchestrator t () :: (json, unit) Orchestrator"
  let ?st = "\<lambda>oc p d hs. \<lparr>orch = oc, reader = p, dispatcher = d, handled = hs\<rparr> :: (json, unit) dap_sys"
  obtain v t1 where v: "Request_fromJSON (env_json ?E) v = Some ?r" and m1: "ReadMessage (env_parse ?E) sample_transport = (Some v, t1)"
      and t1: "steady t1" "stream t1 = []"
    using sample_request_decodes ReadMessage_frame [OF sample_transport_ok(1), of sample_body "[]" "env_parse ?E"] sample_transport_ok(2)
    by (auto simp: sample_body_def sample_dap_env_def)
  obtain t2 where m2: "ReadMessage (env_parse ?E) t1 = (None, t2)" using ReadMessage_end [OF t1, of "env_parse ?E"] by (metis prod.collapse)
  have 1: "work_step ?E (?st (?o sample_transport) Reading Idle []) (?st (?o t1) (Enqueueing ?r) Idle [])"
    using work_step.read_request [OF _ _ v, of "?st (?o sample_transport) Reading Idle []" t1] m1
    by (simp add: new_Orchestrator_def mark_cancel_def sample_request_def)
  have 2: "work_step ?E (?st (?o t1) (Enqueueing ?r) Idle []) (?st ((?o t1)\<lparr>request_queue := [?r]\<rparr>) Reading Idle [])"
    using work_step.enqueue [of "?st (?o t1) (Enqueueing ?r) Idle []" ?r ?E] by (simp add: new_Orchestrator_def push_request_def)
  let ?o3 = "(?o t2)\<lparr>request_queue := [?r], reader_done := True\<rparr>"
  have 3: "work_step ?E (?st ((?o t1)\<lparr>request_queue := [?r]\<rparr>) Reading Idle []) (?st ?o3 AtEnd Idle [])"
    using work_step.read_end [of "?st ((?o t1)\<lparr>request_queue := [?r]\<rparr>) Reading Idle []" ?E t2] m2 by (simp add: new_Orchestrator_def)
  let ?o4 = "(?o t2)\<lparr>reader_done := True\<rparr>"
  have 4: "work_step ?E (?st ?o3 AtEnd Idle []) (?st ?o4 AtEnd (Handling ?r) [])"
    using work_step.pop [of "?st ?o3 AtEnd Idle []" ?r ?o4 ?E] by (simp add: new_Orchestrator_def pop_request_def)
  have 5: "work_step ?E (?st ?o4 AtEnd (Handling ?r) []) (?st ?o4 AtEnd (Sending [?m]) [?r])"
    using work_step.handle [of "?st ?o4 AtEnd (Handling ?r) []" ?r ?E "[?m]" ?o4] by (simp add: new_Orchestrator_def HandleRequest_def sample_request_def sample_answer_def)
  let ?o6 = "?o4\<lparr>next_seq := 2, wire := [set_seq 1 ?m]\<rparr>"
  have s: "sendable ?m" by (simp add: sample_answer_def SendErrorResponse_def)
  have 6: "work_step ?E (?st ?o4 AtEnd (Sending [?m]) [?r]) (?st ?o6 AtEnd (Sending []) [?r])"
    using work_step.send [of "?st ?o4 AtEnd (Sending [?m]) [?r]" ?m "[]" ?E 1 ?o6]
    by (simp add: Orchestrator_Send_sendable [OF s] new_Orchestrator_def kCalculateSeq_def)
  have 7: "work_step ?E (?st ?o6 AtEnd (Sending []) [?r]) (?st ?o6 AtEnd Idle [?r])"
    using work_step.sent [of "?st ?o6 AtEnd (Sending []) [?r]" ?E] by simp
  have 8: "work_step ?E (?st ?o6 AtEnd Idle [?r]) (?st ?o6 AtEnd Returned [?r])"
    using work_step.finish [of "?st ?o6 AtEnd Idle [?r]" ?E] by (simp add: new_Orchestrator_def)
  have "(work_step ?E)\<^sup>*\<^sup>* (?st (?o sample_transport) Reading Idle []) (?st ?o6 AtEnd Returned [?r])"
    using 1 2 3 4 5 6 7 8 by (meson converse_rtranclp_into_rtranclp rtranclp.rtrancl_refl)
  then have "(dap_step ?E)\<^sup>*\<^sup>* (?st (?o sample_transport) Reading Idle []) (?st ?o6 AtEnd Returned [?r])"
    by (rule rtranclp_mono [THEN predicate2D, rotated]) (blast intro: dap_step.work)
  then show ?thesis by (intro exI [of _ t2]) (simp add: dap_init_def served_state_def new_Orchestrator_def)
qed

theorem session_serves_all_witness:
  "\<exists>t. dispatcher (served_state t) = Returned \<and> handled (served_state t) = requests sample_dap_env [sample_body]"
proof -
  obtain t where r: "(dap_step sample_dap_env)\<^sup>*\<^sup>* (dap_init ((new_Orchestrator sample_transport ())\<lparr>command_handlers := Map.empty\<rparr>)) (served_state t)"
    using sample_session by blast
  have "list_all (good_body sample_dap_env) [sample_body]" using sample_request_decodes by (auto simp: good_body_def sample_body_def)
  from session_serves_all [OF r sample_transport_ok this] show ?thesis by (intro exI [of _ t]) (simp add: served_state_def)
qed

theorem requests_answered_once_witness:
  "\<exists>t. request_seqs (answers (wire (orch (served_state t)))) = {#5#} \<and> map message_seq (wire (orch (served_state t))) = [1]"
proof -
  obtain t where r: "(dap_step sample_dap_env)\<^sup>*\<^sup>* (dap_init ((new_Orchestrator sample_transport ())\<lparr>command_handlers := Map.empty\<rparr>)) (served_state t)"
    using sample_session by blast
  from requests_answered_once [OF r] show ?thesis
    by (intro exI [of _ t]) (simp add: served_state_def to_send_def deferred_list_def new_Orchestrator_def sample_request_def)
qed

definition launch_handler :: "(json, unit) RequestHandler" where
  "launch_handler = \<lparr>rh_args = EmptyArgs, rh_parse = (\<lambda>_. None), rh_run = (\<lambda>_ _. (Inr None, [], ()))\<rparr>"

definition launched :: "(json, unit) Orchestrator" where
  "launched = (new_Orchestrator sample_transport ())\<lparr>command_handlers := [''nop'' \<mapsto> Delayed launch_handler],
     deferred_configuration_response := Some ((new_response sample_request)\<lparr>resp_request_seq := 3, resp_success := True\<rparr>)\<rparr>"

theorem second_launch_drops_response_witness:
  "case HandleRequest sample_dap_env sample_request launched of
     (ms, oc') \<Rightarrow> answers ms = [] \<and> map resp_request_seq (dropped oc') = [3]"
proof -
  obtain ms oc' where h: "HandleRequest sample_dap_env sample_request launched = (ms, oc')" by fastforce
  have "answers ms = [] \<and> dropped oc' = dropped launched @ [(new_response sample_request)\<lparr>resp_request_seq := 3, resp_success := True\<rparr>] \<and>
    (\<exists>d'. deferred_configuration_response oc' = Some d' \<and> resp_request_seq d' = req_seq sample_request)"
    by (rule second_launch_drops_response [where h = launch_handler, OF _ _ _ _ h])
      (simp_all add: launched_def new_Orchestrator_def sample_request_def IsCancelled_def parseArgs_def launch_handler_def)
  moreover have "dropped launched = []" by (simp add: launched_def new_Orchestrator_def)
  ultimately show ?thesis by (simp add: h)
qed

end
