(* ===== verification/Progress_Event.thy ===== *)
theory Progress_Event
  imports Prelude
begin

text \<open>
  Progress reports to the client (\<open>modules/dap/src/progress_event.cc\<close>): long operations are announced
  with a start, updates and an end, short ones not at all.  The managers are shared by pointer
  between the map of running operations and the queue of unreported starts, so they live in a store
  and both hold addresses.  Time is a count of microseconds given to every operation; the floating
  point percentage is the parameter \<open>pct\<close>.  The result \<open>None\<close> of an operation is the use of the null
  pointer the code does not check.
\<close>

section \<open>Events\<close>

datatype ProgressEventType = progressStart | progressUpdate | progressEnd

type_synonym time = nat

record ProgressEvent =
  pe_progress_id :: u64
  pe_message :: string
  pe_event_type :: ProgressEventType
  pe_percentage :: "u32 option"
  pe_creation_time :: time
  pe_minimum_allowed_report_time :: time
  pe_reported :: bool

definition kStartProgressEventReportDelay :: time where "kStartProgressEventReportDelay = 1000000"
definition kUpdateProgressEventReportDelay :: time where "kUpdateProgressEventReportDelay = 250000"

type_synonym percentage = "u64 \<Rightarrow> u64 \<Rightarrow> u32"

definition new_ProgressEvent :: "percentage \<Rightarrow> time \<Rightarrow> u64 \<Rightarrow> string \<Rightarrow> u64 \<Rightarrow> u64 \<Rightarrow> ProgressEvent option \<Rightarrow> ProgressEvent option" where
  "new_ProgressEvent pct now progress_id message completed amount prev_event =
     (let calculate_percentage = (amount \<noteq> - 1);
          event = \<lparr>pe_progress_id = progress_id, pe_message = message, pe_event_type = progressStart, pe_percentage = None,
            pe_creation_time = now, pe_minimum_allowed_report_time = 0, pe_reported = False\<rparr>
      in if completed = 0
         then Some (event\<lparr>pe_minimum_allowed_report_time := now + kStartProgressEventReportDelay,
                pe_percentage := (if calculate_percentage then Some 0 else None)\<rparr>)
         else if completed = amount
         then Some (event\<lparr>pe_event_type := progressEnd, pe_percentage := (if calculate_percentage then Some 100 else None)\<rparr>)
         else (case prev_event of
                 None \<Rightarrow> None
               | Some prev \<Rightarrow>
                   Some (event\<lparr>pe_event_type := progressUpdate, pe_percentage := Some (min (pct completed amount) 99),
                     pe_minimum_allowed_report_time :=
                       (if pe_reported prev then pe_minimum_allowed_report_time prev + kUpdateProgressEventReportDelay
                        else pe_minimum_allowed_report_time prev)\<rparr>)))"

definition EqualsForIDE :: "ProgressEvent \<Rightarrow> ProgressEvent \<Rightarrow> bool" where
  "EqualsForIDE a b \<longleftrightarrow> pe_progress_id a = pe_progress_id b \<and> pe_event_type a = pe_event_type b \<and>
     pe_percentage a = pe_percentage b \<and> pe_message a = pe_message b"

fun GetEventName :: "ProgressEventType \<Rightarrow> string" where
  "GetEventName progressStart = ''progressStart''"
| "GetEventName progressUpdate = ''progressUpdate''"
| "GetEventName progressEnd = ''progressEnd''"

definition ProgressEvent_Create ::
    "percentage \<Rightarrow> time \<Rightarrow> u64 \<Rightarrow> string \<Rightarrow> u64 \<Rightarrow> u64 \<Rightarrow> ProgressEvent option \<Rightarrow> ProgressEvent option option" where
  "ProgressEvent_Create pct now progress_id message completed amount prev_event =
     (if completed > 0 \<and> completed < amount \<and> prev_event = None then Some None
      else (case new_ProgressEvent pct now progress_id message completed amount prev_event of
              None \<Rightarrow> None
            | Some event \<Rightarrow>
                if pe_event_type event = progressStart \<and> GetEventName (pe_event_type event) = [] then Some None
                else (case prev_event of
                        Some prev \<Rightarrow> if EqualsForIDE prev event then Some None else Some (Some event)
                      | None \<Rightarrow> Some (Some event))))"

text \<open>Whether the event counts as reported, the event, and what the callback got.\<close>

definition Report :: "time \<Rightarrow> ProgressEvent \<Rightarrow> bool \<times> ProgressEvent \<times> ProgressEvent list" where
  "Report now event =
     (if pe_reported event then (True, event, [])
      else if now < pe_minimum_allowed_report_time event then (False, event, [])
      else (let event = event\<lparr>pe_reported := True\<rparr> in (True, event, [event])))"

section \<open>Managers\<close>

record ProgressEventManager =
  pm_start_event :: ProgressEvent
  pm_last_update_event :: "ProgressEvent option"
  pm_finished :: bool

definition new_ProgressEventManager :: "ProgressEvent \<Rightarrow> ProgressEventManager" where
  "new_ProgressEventManager start = \<lparr>pm_start_event = start, pm_last_update_event = None, pm_finished = False\<rparr>"

definition ReportIfNeeded :: "time \<Rightarrow> ProgressEventManager \<Rightarrow> bool \<times> ProgressEventManager \<times> ProgressEvent list" where
  "ReportIfNeeded now m =
     (if \<not> pe_reported (pm_start_event m) \<and> pm_finished m then (True, m, [])
      else (case Report now (pm_start_event m) of
              (False, _, _) \<Rightarrow> (False, m, [])
            | (True, start, out) \<Rightarrow>
                (let m = m\<lparr>pm_start_event := start\<rparr>
                 in case pm_last_update_event m of
                      None \<Rightarrow> (True, m, out)
                    | Some u \<Rightarrow> (let (_, u, out') = Report now u in (True, m\<lparr>pm_last_update_event := Some u\<rparr>, out @ out')))))"

definition GetMostRecentEvent :: "ProgressEventManager \<Rightarrow> ProgressEvent" where
  "GetMostRecentEvent m = (case pm_last_update_event m of Some u \<Rightarrow> u | None \<Rightarrow> pm_start_event m)"

definition Update ::
    "percentage \<Rightarrow> time \<Rightarrow> u64 \<Rightarrow> string \<Rightarrow> u64 \<Rightarrow> u64 \<Rightarrow> ProgressEventManager \<Rightarrow> (ProgressEventManager \<times> ProgressEvent list) option" where
  "Update pct now progress_id message completed amount m =
     (case ProgressEvent_Create pct now progress_id message completed amount (Some (GetMostRecentEvent m)) of
        None \<Rightarrow> None
      | Some None \<Rightarrow> Some (m, [])
      | Some (Some event) \<Rightarrow>
          (let m = (if pe_event_type event = progressEnd then m\<lparr>pm_finished := True\<rparr> else m);
               m = m\<lparr>pm_last_update_event := Some event\<rparr>;
               (_, m, out) = ReportIfNeeded now m
           in Some (m, out)))"

section \<open>The reporter\<close>

record ProgressEventReporter =
  pr_store :: "ProgressEventManager list"
  pr_event_managers :: "u64 \<Rightarrow> nat option"
  pr_unreported_start_events :: "nat list"

definition new_ProgressEventReporter :: ProgressEventReporter where
  "new_ProgressEventReporter = \<lparr>pr_store = [], pr_event_managers = Map.empty, pr_unreported_start_events = []\<rparr>"

text \<open>What is reported carries the address of its manager.\<close>

fun report_start_loop :: "time \<Rightarrow> nat list \<Rightarrow> ProgressEventManager list \<Rightarrow> nat list \<times> ProgressEventManager list \<times> (nat \<times> ProgressEvent) list" where
  "report_start_loop now [] store = ([], store, [])"
| "report_start_loop now (a # q) store =
     (if pm_finished (store ! a) then report_start_loop now q store
      else (case ReportIfNeeded now (store ! a) of
              (False, m, out) \<Rightarrow> (a # q, store[a := m], map (Pair a) out)
            | (True, m, out) \<Rightarrow>
                (let (q, store, out') = report_start_loop now q (store[a := m]) in (q, store, map (Pair a) out @ out'))))"

definition ReportStartEvents :: "time \<Rightarrow> ProgressEventReporter \<Rightarrow> ProgressEventReporter \<times> (nat \<times> ProgressEvent) list" where
  "ReportStartEvents now r =
     (let (q, store, out) = report_start_loop now (pr_unreported_start_events r) (pr_store r)
      in (r\<lparr>pr_store := store, pr_unreported_start_events := q\<rparr>, out))"

definition Push ::
    "percentage \<Rightarrow> time \<Rightarrow> u64 \<Rightarrow> string \<Rightarrow> u64 \<Rightarrow> u64 \<Rightarrow> ProgressEventReporter \<Rightarrow> (ProgressEventReporter \<times> (nat \<times> ProgressEvent) list) option" where
  "Push pct now progress_id message completed amount r =
     (case pr_event_managers r progress_id of
        None \<Rightarrow>
          (case ProgressEvent_Create pct now progress_id message completed amount None of
             None \<Rightarrow> None
           | Some None \<Rightarrow> Some (r, [])
           | Some (Some event) \<Rightarrow>
               (let a = length (pr_store r)
                in Some (r\<lparr>pr_store := pr_store r @ [new_ProgressEventManager event],
                     pr_event_managers := (pr_event_managers r)(progress_id \<mapsto> a),
                     pr_unreported_start_events := pr_unreported_start_events r @ [a]\<rparr>, [])))
      | Some a \<Rightarrow>
          (case Update pct now progress_id message completed amount (pr_store r ! a) of
             None \<Rightarrow> None
           | Some (m, out) \<Rightarrow>
               (let r = r\<lparr>pr_store := (pr_store r)[a := m]\<rparr>
                in Some (if pm_finished m then r\<lparr>pr_event_managers := (pr_event_managers r)(progress_id := None)\<rparr> else r,
                         map (Pair a) out))))"

text \<open>Pushes and the reporting thread, in any order; the log is what the callback got.\<close>

inductive progress_step :: "percentage \<Rightarrow> ProgressEventReporter \<times> (nat \<times> ProgressEvent) list \<Rightarrow> ProgressEventReporter \<times> (nat \<times> ProgressEvent) list \<Rightarrow> bool"
  for pct where
  push: "Push pct now progress_id message completed amount r = Some (r', out) \<Longrightarrow> progress_step pct (r, log) (r', log @ out)"
| tick: "ReportStartEvents now r = (r', out) \<Longrightarrow> progress_step pct (r, log) (r', log @ out)"

section \<open>One manager\<close>

definition not_end :: "ProgressEvent \<Rightarrow> bool" where
  "not_end e \<longleftrightarrow> pe_event_type e \<noteq> progressEnd"

text \<open>The reports of a manager: nothing, or first its start event; an end, after the start, exactly when
  it has finished, and then last.\<close>

definition bracketed :: "ProgressEventManager \<Rightarrow> ProgressEvent list \<Rightarrow> bool" where
  "bracketed m es \<longleftrightarrow>
     (if es = [] then \<not> pe_reported (pm_start_event m)
      else pe_reported (pm_start_event m) \<and> EqualsForIDE (hd es) (pm_start_event m) \<and>
        (if pm_finished m then tl es \<noteq> [] \<and> pe_event_type (last es) = progressEnd \<and> list_all not_end (butlast (tl es))
         else list_all not_end (tl es)))"

definition manager_ok :: "ProgressEventManager \<Rightarrow> ProgressEvent list \<Rightarrow> bool" where
  "manager_ok m es \<longleftrightarrow> bracketed m es \<and> pe_event_type (pm_start_event m) \<noteq> progressUpdate \<and>
     (\<not> pm_finished m \<longrightarrow> (case pm_last_update_event m of Some u \<Rightarrow> not_end u | None \<Rightarrow> True))"

lemma Create_result:
  assumes "ProgressEvent_Create pct now i msg c n p = Some (Some e)"
  shows "\<not> pe_reported e" and "p = None \<Longrightarrow> pe_event_type e \<noteq> progressUpdate"
    and "pe_event_type e = progressEnd \<Longrightarrow> pe_minimum_allowed_report_time e = 0"
  using assms by (auto simp: ProgressEvent_Create_def new_ProgressEvent_def Let_def split: if_splits option.splits)

lemma EqualsForIDE_reported [simp]:
  "EqualsForIDE (e\<lparr>pe_reported := b\<rparr>) x = EqualsForIDE e x" "EqualsForIDE x (e\<lparr>pe_reported := b\<rparr>) = EqualsForIDE x e" "EqualsForIDE e e"
  by (simp_all add: EqualsForIDE_def)

lemma not_end_reported [simp]: "not_end (e\<lparr>pe_reported := b\<rparr>) = not_end e"
  by (simp add: not_end_def)

lemma Report_cases:
  "Report now e = (True, e, []) \<and> pe_reported e \<or> Report now e = (False, e, []) \<and> \<not> pe_reported e \<and> now < pe_minimum_allowed_report_time e \<or>
   Report now e = (True, e\<lparr>pe_reported := True\<rparr>, [e\<lparr>pe_reported := True\<rparr>]) \<and> \<not> pe_reported e \<and> pe_minimum_allowed_report_time e \<le> now"
  by (auto simp: Report_def Let_def)

lemma ReportIfNeeded_running:
  assumes "manager_ok m es" and "\<not> pm_finished m" and "ReportIfNeeded now m = (b, m', out)"
  shows "manager_ok m' (es @ out) \<and> \<not> pm_finished m'"
proof (cases "pm_last_update_event m")
  case None
  then show ?thesis using assms Report_cases [of now "pm_start_event m"]
    by (auto simp: ReportIfNeeded_def manager_ok_def bracketed_def Let_def split: if_splits)
next
  case (Some u)
  then show ?thesis using assms Report_cases [of now "pm_start_event m"] Report_cases [of now u]
    by (auto simp: ReportIfNeeded_def manager_ok_def bracketed_def Let_def split: if_splits)
qed

lemma Update_ok:
  assumes "manager_ok m es" and "\<not> pm_finished m" and "Update pct now i msg c n m = Some (m', out)"
  shows "manager_ok m' (es @ out)"
proof (cases "ProgressEvent_Create pct now i msg c n (Some (GetMostRecentEvent m))")
  case (Some x)
  show ?thesis
  proof (cases x)
    case None
    then show ?thesis using assms Some by (simp add: Update_def)
  next
    case e: (Some e)
    note new = Create_result [OF Some [unfolded e]]
    show ?thesis
    proof (cases "pe_event_type e = progressEnd")
      case False
      let ?m = "m\<lparr>pm_last_update_event := Some e\<rparr>"
      have "manager_ok ?m es" "\<not> pm_finished ?m" using assms(1,2) False by (simp_all add: manager_ok_def bracketed_def not_end_def)
      moreover obtain b where "ReportIfNeeded now ?m = (b, m', out)"
        using assms(3) Some e False by (auto simp: Update_def Let_def split: prod.splits)
      ultimately show ?thesis using ReportIfNeeded_running by blast
    next
      case True
      let ?m = "m\<lparr>pm_finished := True, pm_last_update_event := Some e\<rparr>"
      obtain b where r: "ReportIfNeeded now ?m = (b, m', out)" using assms(3) Some e True by (auto simp: Update_def Let_def split: prod.splits)
      have "Report now e = (True, e\<lparr>pe_reported := True\<rparr>, [e\<lparr>pe_reported := True\<rparr>])" using new True by (simp add: Report_def Let_def)
      then show ?thesis using assms(1,2) r True
        by (auto simp: ReportIfNeeded_def Report_def manager_ok_def bracketed_def Let_def butlast_append split: if_splits)
    qed
  qed
qed (use assms in \<open>simp add: Update_def\<close>)

section \<open>All managers\<close>

definition reports :: "nat \<Rightarrow> (nat \<times> ProgressEvent) list \<Rightarrow> ProgressEvent list" where
  "reports a log = map snd (filter (\<lambda>(b, _). b = a) log)"

lemma reports_simps [simp]:
  "reports a (log @ log') = reports a log @ reports a log'" "reports a [] = []"
  "reports a (map (Pair b) es) = (if a = b then es else [])"
  by (induction es) (auto simp: reports_def)

definition store_ok :: "ProgressEventManager list \<Rightarrow> (nat \<times> ProgressEvent) list \<Rightarrow> bool" where
  "store_ok store log \<longleftrightarrow> (\<forall>a. if a < length store then manager_ok (store ! a) (reports a log) else reports a log = [])"

definition reporter_ok :: "ProgressEventReporter \<times> (nat \<times> ProgressEvent) list \<Rightarrow> bool" where
  "reporter_ok s \<longleftrightarrow> (case s of (r, log) \<Rightarrow>
     store_ok (pr_store r) log \<and> inj_on (pr_event_managers r) (dom (pr_event_managers r)) \<and>
     (\<forall>i a. pr_event_managers r i = Some a \<longrightarrow> a < length (pr_store r) \<and> \<not> pm_finished (pr_store r ! a)) \<and>
     list_all (\<lambda>a. a < length (pr_store r)) (pr_unreported_start_events r))"

lemma store_ok_update:
  assumes "store_ok store log" and "a < length store" and "manager_ok (store ! a) (reports a log) \<Longrightarrow> manager_ok m (reports a log @ out)"
  shows "store_ok (store[a := m]) (log @ map (Pair a) out)"
  using assms by (auto simp: store_ok_def nth_list_update)

lemma report_start_loop_ok:
  assumes "report_start_loop now q store = (q', store', out)" and "store_ok store log" and "list_all (\<lambda>a. a < length store) q"
  shows "store_ok store' (log @ out) \<and> length store' = length store \<and> list_all (\<lambda>a. a < length store') q' \<and>
    (\<forall>a < length store. pm_finished (store' ! a) = pm_finished (store ! a))"
  using assms
proof (induction q arbitrary: store log q' store' out)
  case (Cons a q)
  show ?case
  proof (cases "pm_finished (store ! a)")
    case True
    then have l: "report_start_loop now q store = (q', store', out)" using Cons.prems(1) by simp
    from Cons.IH [OF l Cons.prems(2)] Cons.prems(3) show ?thesis by auto
  next
    case False
    obtain b m o1 where r: "ReportIfNeeded now (store ! a) = (b, m, o1)" by (cases "ReportIfNeeded now (store ! a)") auto
    have a: "a < length store" using Cons.prems(3) by simp
    have ok: "manager_ok (store ! a) (reports a log)" using Cons.prems(2) a by (simp add: store_ok_def)
    note run = ReportIfNeeded_running [OF ok False r]
    have one: "store_ok (store[a := m]) (log @ map (Pair a) o1)" "pm_finished m = pm_finished (store ! a)"
      using run False by (auto intro: store_ok_update [OF Cons.prems(2) a])
    show ?thesis
    proof (cases b)
      case True
      then obtain o2 where l: "report_start_loop now q (store[a := m]) = (q', store', o2)" and o: "out = map (Pair a) o1 @ o2"
        using Cons.prems(1) False r by (auto simp: Let_def split: prod.splits)
      have "list_all (\<lambda>b. b < length (store[a := m])) q" using Cons.prems(3) by simp
      moreover have "pm_finished (store[a := m] ! b) = pm_finished (store ! b)" for b using one(2) a by (cases "b = a") simp_all
      ultimately show ?thesis using Cons.IH [OF l one(1)] o by auto
    next
      case b: False
      then show ?thesis using Cons.prems False r one by (auto simp: nth_list_update split: if_splits)
    qed
  qed
qed simp

lemma Push_ok:
  assumes "reporter_ok (r, log)" and "Push pct now i msg c n r = Some (r', out)"
  shows "reporter_ok (r', log @ out)"
proof (cases "pr_event_managers r i")
  case None
  show ?thesis
  proof (cases "ProgressEvent_Create pct now i msg c n None")
    case (Some x)
    show ?thesis
    proof (cases x)
      case e: (Some e)
      let ?a = "length (pr_store r)"
      have r': "out = []" "r' = r\<lparr>pr_store := pr_store r @ [new_ProgressEventManager e],
          pr_event_managers := (pr_event_managers r)(i \<mapsto> ?a), pr_unreported_start_events := pr_unreported_start_events r @ [?a]\<rparr>"
        using assms(2) None Some e by (simp_all add: Push_def Let_def)
      have "manager_ok (new_ProgressEventManager e) []"
        using Create_result [OF Some [unfolded e]] by (simp add: manager_ok_def bracketed_def new_ProgressEventManager_def)
      then have "store_ok (pr_store r @ [new_ProgressEventManager e]) log"
        using assms(1) by (auto simp: reporter_ok_def store_ok_def nth_append less_Suc_eq)
      moreover have "inj_on ((pr_event_managers r)(i \<mapsto> ?a)) (insert i (dom (pr_event_managers r)))"
      proof -
        have "\<forall>j. pr_event_managers r j \<noteq> Some ?a" using assms(1) by (auto simp: reporter_ok_def)
        moreover have "inj_on (pr_event_managers r) (dom (pr_event_managers r))" using assms(1) by (simp add: reporter_ok_def)
        ultimately show ?thesis using None by (intro inj_onI) (auto dest: inj_onD split: if_splits)
      qed
      moreover have "\<not> pm_finished (new_ProgressEventManager e)" by (simp add: new_ProgressEventManager_def)
      ultimately show ?thesis using assms(1) by (auto simp: reporter_ok_def r' nth_append less_Suc_eq list_all_iff)
    qed (use assms None Some in \<open>simp add: Push_def\<close>)
  qed (use assms None in \<open>simp add: Push_def\<close>)
next
  case (Some a)
  have a: "a < length (pr_store r)" "\<not> pm_finished (pr_store r ! a)" using assms(1) Some by (auto simp: reporter_ok_def)
  obtain m o1 where u: "Update pct now i msg c n (pr_store r ! a) = Some (m, o1)" and o: "out = map (Pair a) o1"
    and r': "r' = (let r = r\<lparr>pr_store := (pr_store r)[a := m]\<rparr>
      in if pm_finished m then r\<lparr>pr_event_managers := (pr_event_managers r)(i := None)\<rparr> else r)"
    using assms(2) Some by (auto simp: Push_def Let_def split: option.splits)
  have st: "store_ok ((pr_store r)[a := m]) (log @ out)" unfolding o
    using assms(1) by (intro store_ok_update [OF _ a(1)] Update_ok [OF _ a(2) u]) (simp_all add: reporter_ok_def)
  have inj: "j = i" if "pr_event_managers r j = Some a" for j
    using assms(1) Some that unfolding reporter_ok_def by (auto intro!: inj_onD [of "pr_event_managers r" "dom (pr_event_managers r)" j i])
  have "inj_on ((pr_event_managers r)(i := None)) (dom (pr_event_managers r) - {i})"
    using assms(1) by (auto simp: reporter_ok_def inj_on_def)
  with assms(1) st inj a show ?thesis
    by (cases "pm_finished m") (auto simp: reporter_ok_def r' Let_def nth_list_update split: if_splits)
qed

lemma progress_step_ok: "progress_step pct s s' \<Longrightarrow> reporter_ok s \<Longrightarrow> reporter_ok s'"
proof (induction rule: progress_step.induct)
  case (push now i msg c n r r' out log)
  then show ?case using Push_ok by blast
next
  case (tick now r r' out log)
  obtain q store where l: "report_start_loop now (pr_unreported_start_events r) (pr_store r) = (q, store, out)"
    and r': "r' = r\<lparr>pr_store := store, pr_unreported_start_events := q\<rparr>"
    using tick(1) by (auto simp: ReportStartEvents_def Let_def split: prod.splits)
  from report_start_loop_ok [OF l] tick(2) show ?case by (auto simp: reporter_ok_def r')
qed

lemma progress_reach_ok:
  assumes "(progress_step pct)\<^sup>*\<^sup>* (new_ProgressEventReporter, []) s"
  shows "reporter_ok s"
  using assms
proof (induction rule: rtranclp_induct)
  case base
  show ?case by (simp add: reporter_ok_def new_ProgressEventReporter_def store_ok_def)
qed (use progress_step_ok in blast)

section \<open>Properties\<close>


text \<open>An operation pushed: started, run for two seconds, ended.\<close>

definition sample_start :: ProgressEvent where
  "sample_start = \<lparr>pe_progress_id = 7, pe_message = ''load'', pe_event_type = progressStart, pe_percentage = Some 0,
     pe_creation_time = 0, pe_minimum_allowed_report_time = 1000000, pe_reported = False\<rparr>"

definition sample_end :: ProgressEvent where
  "sample_end = \<lparr>pe_progress_id = 7, pe_message = ''load'', pe_event_type = progressEnd, pe_percentage = Some 100,
     pe_creation_time = 2000000, pe_minimum_allowed_report_time = 0, pe_reported = True\<rparr>"

definition sample_reporter :: ProgressEventReporter where
  "sample_reporter = \<lparr>pr_store = [\<lparr>pm_start_event = sample_start\<lparr>pe_reported := True\<rparr>, pm_last_update_event = Some sample_end, pm_finished = True\<rparr>],
     pr_event_managers = Map.empty, pr_unreported_start_events = []\<rparr>"

lemmas progress_eval =
  Push_def ReportStartEvents_def Update_def ProgressEvent_Create_def new_ProgressEvent_def Report_def ReportIfNeeded_def
  GetMostRecentEvent_def EqualsForIDE_def new_ProgressEventManager_def new_ProgressEventReporter_def
  kStartProgressEventReportDelay_def kUpdateProgressEventReportDelay_def

lemma sample_progress:
  "(progress_step (\<lambda>_ _. 0))\<^sup>*\<^sup>* (new_ProgressEventReporter, []) (sample_reporter, [(0, sample_start\<lparr>pe_reported := True\<rparr>), (0, sample_end)])"
proof -
  let ?r1 = "\<lparr>pr_store = [new_ProgressEventManager sample_start], pr_event_managers = [7 \<mapsto> 0], pr_unreported_start_events = [0]\<rparr>"
  let ?r2 = "\<lparr>pr_store = [new_ProgressEventManager (sample_start\<lparr>pe_reported := True\<rparr>)], pr_event_managers = [7 \<mapsto> 0], pr_unreported_start_events = []\<rparr>"
  have "Push (\<lambda>_ _. 0) 0 7 ''load'' 0 10 new_ProgressEventReporter = Some (?r1, [])"
    by (simp add: progress_eval Let_def sample_start_def)
  from progress_step.push [OF this, of "[]"] have 1: "progress_step (\<lambda>_ _. 0) (new_ProgressEventReporter, []) (?r1, [])" by simp
  have "ReportStartEvents 1500000 ?r1 = (?r2, [(0, sample_start\<lparr>pe_reported := True\<rparr>)])"
    by (simp add: progress_eval Let_def sample_start_def)
  from progress_step.tick [OF this, of "\<lambda>_ _. 0" "[]"]
  have 2: "progress_step (\<lambda>_ _. 0) (?r1, []) (?r2, [(0, sample_start\<lparr>pe_reported := True\<rparr>)])" by simp
  have "Push (\<lambda>_ _. 0) 2000000 7 ''load'' 10 10 ?r2 = Some (sample_reporter, [(0, sample_end)])"
    by (simp add: progress_eval Let_def sample_start_def sample_end_def sample_reporter_def)
  from progress_step.push [OF this, of "[(0, sample_start\<lparr>pe_reported := True\<rparr>)]"]
  have 3: "progress_step (\<lambda>_ _. 0) (?r2, [(0, sample_start\<lparr>pe_reported := True\<rparr>)]) (sample_reporter, [(0, sample_start\<lparr>pe_reported := True\<rparr>), (0, sample_end)])" by simp
  from 1 2 3 show ?thesis by (meson converse_rtranclp_into_rtranclp rtranclp.rtrancl_refl)
qed


text \<open>An operation whose first push is already complete is announced by its end alone; one whose first
  push is beyond its total uses the missing previous event.\<close>

lemma lone_end_reported:
  "\<exists>r r' e. Push pct now 7 ''load'' 10 10 new_ProgressEventReporter = Some (r, []) \<and>
    ReportStartEvents now r = (r', [(0, e)]) \<and> pe_event_type e = progressEnd"
  by (simp add: progress_eval Let_def)

lemma beyond_total_null: "Push pct now 7 ''load'' 11 10 new_ProgressEventReporter = None"
  by (simp add: progress_eval Let_def)

end
