(* ===== verification/Memory_Manager.thy ===== *)
theory Memory_Manager
  imports Prelude
begin

text \<open>
  \<open>core/components/memory_manager\<close>: memory access for the debugger.  Reads and writes are
  refused unless the process is stopped, and go through a strategy: LLDB's process memory,
  or OpenOCD.  LLDB's and OpenOCD's own calls are parameters.
\<close>

section \<open>Results\<close>

datatype dap_error = NotStoppedError | DAPError string

record MemorySelector =
  target_name :: string

record MemoryReadResult =
  rd_data :: "u8 list"
  rd_address :: u64
  rd_unreadable_bytes :: "u64 option"

record MemoryWriteResult =
  wr_bytes_written :: u64

type_synonym 'w read_fn = "'w \<Rightarrow> u64 \<Rightarrow> u64 \<Rightarrow> MemorySelector \<Rightarrow> (dap_error + MemoryReadResult) \<times> 'w"
type_synonym 'w write_fn = "'w \<Rightarrow> u64 \<Rightarrow> u8 list \<Rightarrow> bool \<Rightarrow> MemorySelector \<Rightarrow> (dap_error + MemoryWriteResult) \<times> 'w"

section \<open>What LLDB and OpenOCD provide\<close>

text \<open>\<open>SBProcess::ReadMemory\<close> fills a buffer and answers whether it failed and the bytes it
  could read; \<open>GetMemoryRegionInfo\<close> answers whether the region of an address is writable and
  its end, or an error.  \<open>'w\<close> is the target's state.\<close>

record 'w SBProcess =
  pr_ReadMemory :: "'w \<Rightarrow> u64 \<Rightarrow> nat \<Rightarrow> bool \<times> u8 list \<times> 'w"
  pr_GetMemoryRegionInfo :: "'w \<Rightarrow> u64 \<Rightarrow> (bool \<times> u64) option"
  pr_WriteMemory :: "'w \<Rightarrow> u64 \<Rightarrow> u8 list \<Rightarrow> u64 \<times> string \<times> 'w"
  pr_is_stopped :: "'w \<Rightarrow> bool"

record 'w OpenOcdMemory =
  oo_ReadMemory :: "'w \<Rightarrow> MemorySelector \<Rightarrow> u64 \<Rightarrow> u32 \<Rightarrow> (string + u8 list) \<times> 'w"
  oo_WriteMemory :: "'w \<Rightarrow> MemorySelector \<Rightarrow> u64 \<Rightarrow> u8 list \<Rightarrow> (string + unit) \<times> 'w"

section \<open>The process strategy\<close>

definition selector_error :: string where
  "selector_error = ''LLDB memory access has no notion of an OpenOCD target/AP selector''"

definition Process_Read :: "'w SBProcess \<Rightarrow> 'w read_fn" where
  "Process_Read process w address cnt selector =
     (if target_name selector \<noteq> [] then (Inl (DAPError selector_error), w)
      else
        (let count_read = max cnt 1;
             (failed, bytes, w') = pr_ReadMemory process w address (unat count_read);
             memory_count = length bytes
         in (Inr \<lparr>rd_data = take (min memory_count (unat cnt)) bytes, rd_address = address,
               rd_unreadable_bytes = (if failed \<and> memory_count < unat count_read
                 then Some (of_nat (unat count_read - memory_count)) else None)\<rparr>, w')))"

text \<open>The regions from \<open>start\<close> on are checked until one reaches the end.\<close>

partial_function (option) regions_writable :: "'w SBProcess \<Rightarrow> 'w \<Rightarrow> u64 \<Rightarrow> u64 \<Rightarrow> bool option" where
  "regions_writable process w start_address end_address =
     (if start_address \<le> end_address then
        (case pr_GetMemoryRegionInfo process w start_address of
           None \<Rightarrow> Some False
         | Some (writable, region_end) \<Rightarrow>
             if \<not> writable then Some False
             else if end_address \<le> region_end then Some True
             else regions_writable process w (region_end + 1) end_address)
      else Some True)"

definition hex_char :: "nat \<Rightarrow> char" where
  "hex_char d = ''0123456789ABCDEF'' ! d"

fun utohexstr_nat :: "nat \<Rightarrow> string" where
  "utohexstr_nat n = (if n < 16 then [hex_char n] else utohexstr_nat (n div 16) @ [hex_char (n mod 16)])"

declare utohexstr_nat.simps [simp del]

definition Process_Write :: "'w SBProcess \<Rightarrow> 'w \<Rightarrow> u64 \<Rightarrow> u8 list \<Rightarrow> bool \<Rightarrow> MemorySelector
    \<Rightarrow> ((dap_error + MemoryWriteResult) \<times> 'w) option" where
  "Process_Write process w address data allow_partial selector =
     (if target_name selector \<noteq> [] then Some (Inl (DAPError selector_error), w)
      else if data = [] then Some (Inr \<lparr>wr_bytes_written = 0\<rparr>, w)
      else
        (case (if allow_partial then Some True
               else regions_writable process w address (address + of_nat (length data) - 1)) of
           None \<Rightarrow> None
         | Some False \<Rightarrow> Some (Inl (DAPError (''Memory 0x'' @ utohexstr_nat (unat address) @ '' region is not writable'')), w)
         | Some True \<Rightarrow>
             (let (bytes_written, message, w') = pr_WriteMemory process w address data
              in Some (if bytes_written = 0 then Inl (DAPError message)
                       else Inr \<lparr>wr_bytes_written = bytes_written\<rparr>, w'))))"

section \<open>The OpenOCD strategy\<close>

definition OpenOcd_Read :: "'w OpenOcdMemory \<Rightarrow> 'w read_fn" where
  "OpenOcd_Read openocd w address cnt selector =
     (case oo_ReadMemory openocd w selector address (ucast cnt) of
        (Inl e, w') \<Rightarrow> (Inl (DAPError e), w')
      | (Inr bytes, w') \<Rightarrow>
          (Inr \<lparr>rd_data = bytes, rd_address = address, rd_unreadable_bytes = None\<rparr>, w'))"

definition OpenOcd_Write :: "'w OpenOcdMemory \<Rightarrow> 'w write_fn" where
  "OpenOcd_Write openocd w address data allow_partial selector =
     (case oo_WriteMemory openocd w selector address data of
        (Inl e, w') \<Rightarrow> (Inl (DAPError e), w')
      | (Inr _, w') \<Rightarrow> (Inr \<lparr>wr_bytes_written = of_nat (length data)\<rparr>, w'))"

section \<open>The manager\<close>

definition ReadMemory :: "('w \<Rightarrow> bool) \<Rightarrow> 'w read_fn \<Rightarrow> 'w read_fn" where
  "ReadMemory is_stopped strategy_Read w address cnt selector =
     (if \<not> is_stopped w then (Inl NotStoppedError, w) else strategy_Read w address cnt selector)"

definition WriteMemory :: "('w \<Rightarrow> bool) \<Rightarrow> 'w write_fn \<Rightarrow> 'w write_fn" where
  "WriteMemory is_stopped strategy_Write w address data allow_partial selector =
     (if \<not> is_stopped w then (Inl NotStoppedError, w)
      else strategy_Write w address data allow_partial selector)"

section \<open>Properties\<close>

text \<open>What LLDB documents of a region: its end is at or after the address asked for, and every
  address up to the end has the region's permission.\<close>

definition region_contract :: "'w SBProcess \<Rightarrow> 'w \<Rightarrow> (u64 \<Rightarrow> bool) \<Rightarrow> bool" where
  "region_contract process w writable \<longleftrightarrow>
     (\<forall>a perm e. pr_GetMemoryRegionInfo process w a = Some (perm, e) \<longrightarrow>
        a \<le> e \<and> (\<forall>x. a \<le> x \<and> x \<le> e \<longrightarrow> writable x = perm))"

lemma regions_writable_returns:
  assumes contract: "region_contract process w writable"
  shows "\<exists>b. regions_writable process w start stop = Some b \<and>
    (b \<longrightarrow> (\<forall>x. start \<le> x \<and> x \<le> stop \<longrightarrow> writable x))"
proof (induction "unat stop - unat start" arbitrary: start rule: less_induct)
  case less
  show ?case
  proof (cases "start \<le> stop")
    case False
    then have "regions_writable process w start stop = Some True" by (subst regions_writable.simps) simp
    moreover have "\<not> (start \<le> x \<and> x \<le> stop)" for x using False order_trans by blast
    ultimately show ?thesis by blast
  next
    case le: True
    show ?thesis
    proof (cases "pr_GetMemoryRegionInfo process w start")
      case None
      with le show ?thesis by (intro exI [of _ False]) (subst regions_writable.simps, simp)
    next
      case (Some r)
      then obtain perm e where r: "pr_GetMemoryRegionInfo process w start = Some (perm, e)" by (cases r) simp
      with contract have e: "start \<le> e" and perm: "\<And>x. start \<le> x \<Longrightarrow> x \<le> e \<Longrightarrow> writable x = perm"
        unfolding region_contract_def by blast+
      show ?thesis
      proof (cases "perm \<and> \<not> stop \<le> e")
        case False
        then have "regions_writable process w start stop = Some perm"
          using le r by (subst regions_writable.simps) auto
        moreover have "perm \<longrightarrow> (\<forall>x. start \<le> x \<and> x \<le> stop \<longrightarrow> writable x)"
          using False perm order_trans by blast
        ultimately show ?thesis by blast
      next
        case True
        then have lt: "e < stop" by (simp add: not_le)
        have "unat e + 1 < 2 ^ 64"
          using lt unsigned_less [where 'a = nat and w = stop] by (simp add: word_less_nat_alt)
        then have e1: "unat (e + 1) = unat e + 1" by (subst unat_plus_no_wrap) simp_all
        have "unat stop - unat (e + 1) < unat stop - unat start"
          using lt e e1 by (simp add: word_less_nat_alt word_le_nat_alt)
        from less.hyps [OF this] obtain b where
          b: "regions_writable process w (e + 1) stop = Some b"
            "b \<longrightarrow> (\<forall>x. e + 1 \<le> x \<and> x \<le> stop \<longrightarrow> writable x)" by blast
        have "regions_writable process w start stop = Some b"
          using le r True b(1) by (subst regions_writable.simps) simp
        moreover have "b \<longrightarrow> (\<forall>x. start \<le> x \<and> x \<le> stop \<longrightarrow> writable x)"
        proof (intro impI allI)
          fix x assume "b" "start \<le> x \<and> x \<le> stop"
          then show "writable x"
            using b(2) perm [of x] True e1 by (cases "x \<le> e") (auto simp: word_le_nat_alt)
        qed
        ultimately show ?thesis by blast
      qed
    qed
  qed
qed

text \<open>a write that must not be partial terminates and reaches the target only when every
  address it covers is writable: when the target's state changed or bytes were written, the
  whole range was checked.\<close>

lemma Process_Write_checked:
  assumes "region_contract process w writable"
  shows "\<exists>r w'. Process_Write process w address data False selector = Some (r, w') \<and>
    (w' \<noteq> w \<or> (\<exists>n. r = Inr n \<and> wr_bytes_written n \<noteq> 0) \<longrightarrow>
       (\<forall>x. address \<le> x \<and> x \<le> address + of_nat (length data) - 1 \<longrightarrow> writable x))"
proof -
  from regions_writable_returns [OF assms, of address "address + of_nat (length data) - 1"] obtain b where
    b: "regions_writable process w address (address + of_nat (length data) - 1) = Some b"
      "b \<longrightarrow> (\<forall>x. address \<le> x \<and> x \<le> address + of_nat (length data) - 1 \<longrightarrow> writable x)" by blast
  then show ?thesis
    by (cases b) (auto simp: Process_Write_def split: prod.splits)
qed

definition sample_process :: "u8 list SBProcess" where
  "sample_process = \<lparr>pr_ReadMemory = (\<lambda>w a n. (False, take n w, w)),
     pr_GetMemoryRegionInfo = (\<lambda>w a. if a \<le> 0xFF then Some (True, 0xFF) else None),
     pr_WriteMemory = (\<lambda>w a d. (of_nat (length d), [], d)), pr_is_stopped = (\<lambda>_. True)\<rparr>"

theorem Process_Write_checked_witness:
  "\<exists>r w'. Process_Write sample_process [] 0x10 [1, 2] False \<lparr>target_name = []\<rparr> = Some (r, w') \<and>
    (w' \<noteq> [] \<or> (\<exists>n. r = Inr n \<and> wr_bytes_written n \<noteq> 0) \<longrightarrow>
       (\<forall>x :: u64. 0x10 \<le> x \<and> x \<le> 0x10 + of_nat (length [1, 2 :: u8]) - 1 \<longrightarrow> x \<le> 0xFF))"
  by (rule Process_Write_checked) (auto simp: region_contract_def sample_process_def)

text \<open>Nothing touches a running target: unless the process is stopped, reads and writes are
  refused and the target is unchanged; and a process read never answers more bytes than
  were asked for, also for the zero-byte probe.\<close>

lemma memory_access_guarded:
  "(\<not> is_stopped w \<longrightarrow> ReadMemory is_stopped rd w address cnt selector = (Inl NotStoppedError, w) \<and>
     WriteMemory is_stopped wr w address data partial selector = (Inl NotStoppedError, w)) \<and>
   (case fst (ReadMemory (pr_is_stopped process) (Process_Read process) w address cnt selector) of
      Inl _ \<Rightarrow> True | Inr r \<Rightarrow> length (rd_data r) \<le> unat cnt \<and> rd_address r = address)"
  by (simp add: ReadMemory_def WriteMemory_def Process_Read_def Let_def split: prod.splits)

lemma memory_access_guarded_witness:
  "ReadMemory (\<lambda>_. False) (Process_Read sample_process) [7] 0 4 \<lparr>target_name = []\<rparr> = (Inl NotStoppedError, [7])"
  using memory_access_guarded [of "\<lambda>_. False" "[7]" "Process_Read sample_process" 0 4 "\<lparr>target_name = []\<rparr>"]
  by blast

end
