(* ===== verification/Svd.thy ===== *)
theory Svd
  imports Prelude
begin

text \<open>
  \<open>device_xml\<close>: the device description read from a CMSIS-SVD file.  The model types, and the
  loader that translates the parsed document: number syntax, bit ranges, inherited access
  and read actions, nested clusters and derived peripherals.  The XML parser and the
  document classes generated from the schema are a parameter; the records of its section
  list what the loader reads of them.
\<close>

section \<open>The device model\<close>

datatype AccessKind = kUnspecified | kReadOnly | kWriteOnly | kReadWrite | kWriteOnce | kReadWriteOnce

datatype ReadActionKind = kNone | kClear | kSet | kModify | kModifyExternal

record EnumeratedValue =
  ev_name :: string
  ev_description :: string
  ev_value :: "u32 option"
  ev_is_default :: bool

record RegisterField =
  fd_name :: string
  fd_description :: string
  fd_bit_offset :: u32
  fd_bit_width :: u32
  fd_access :: AccessKind
  fd_read_action :: ReadActionKind
  fd_enumerated_values :: "EnumeratedValue list"

record AddressBlock =
  ab_offset :: u32
  ab_size :: u32
  ab_usage :: string

record Register =
  rg_name :: string
  rg_description :: string
  rg_address_offset :: u32
  rg_size_bits :: u32
  rg_access :: AccessKind
  rg_read_action :: ReadActionKind
  rg_reset_value :: "u32 option"
  rg_reset_mask :: "u32 option"
  rg_fields :: "RegisterField list"

definition ReadSafe :: "Register \<Rightarrow> bool" where
  "ReadSafe r \<longleftrightarrow> rg_read_action r = kNone \<and> rg_access r \<noteq> kWriteOnly"

record Interrupt =
  in_name :: string
  in_description :: string
  in_value :: s32

record Peripheral =
  pe_name :: string
  pe_description :: string
  pe_group_name :: string
  pe_base_address :: u32
  pe_address_block :: AddressBlock
  pe_registers :: "Register list"
  pe_interrupts :: "Interrupt list"

record Cpu =
  cpu_name :: string
  cpu_revision :: string
  cpu_endian :: string
  cpu_mpu_present :: bool
  cpu_fpu_present :: bool
  cpu_nvic_prio_bits :: u32
  cpu_vendor_systick_config :: bool

record Device =
  dv_name :: string
  dv_version :: string
  dv_description :: string
  dv_cpu :: "Cpu option"
  dv_address_unit_bits :: u32
  dv_width :: u32
  dv_peripherals :: "Peripheral list"

section \<open>The parsed document\<close>

datatype accessType = read_only | write_only | read_write | writeOnce | read_writeOnce

datatype readActionType = clear | set_action | modify | modifyExternal

record enumeratedValueType =
  xev_name :: string
  xev_description :: "string option"
  xev_value :: "string option"
  xev_isDefault :: "bool option"

record fieldType =
  xf_name :: string
  xf_description :: "string option"
  xf_bitOffset :: "string option"
  xf_bitWidth :: "string option"
  xf_lsb :: "string option"
  xf_msb :: "string option"
  xf_bitRange :: "string option"
  xf_access :: "accessType option"
  xf_readAction :: "readActionType option"
  xf_enumeratedValues :: "enumeratedValueType list list"

record registerType =
  xr_name :: string
  xr_description :: "string option"
  xr_addressOffset :: string
  xr_size :: "string option"
  xr_access :: "accessType option"
  xr_readAction :: "readActionType option"
  xr_fields :: "fieldType list option"
  xr_resetValue :: "string option"
  xr_resetMask :: "string option"

datatype clusterType = Cluster
  (xc_addressOffset: string) (xc_name: string) (xc_access: "accessType option")
  (xc_register: "registerType list") (xc_cluster: "clusterType list")

record addressBlockType =
  xb_offset :: string
  xb_size :: string
  xb_usage :: string

record interruptType =
  xi_name :: string
  xi_description :: "string option"
  xi_value :: s64

record peripheralType =
  xp_derivedFrom :: "string option"
  xp_name :: string
  xp_baseAddress :: string
  xp_description :: "string option"
  xp_groupName :: "string option"
  xp_access :: "accessType option"
  xp_addressBlock :: "addressBlockType list"
  xp_registers :: "(registerType list \<times> clusterType list) option"
  xp_interrupt :: "interruptType list"

record cpuType =
  xcpu_name :: string
  xcpu_revision :: string
  xcpu_endian :: string
  xcpu_mpuPresent :: "bool option"
  xcpu_fpuPresent :: "bool option"
  xcpu_nvicPrioBits :: string
  xcpu_vendorSystickConfig :: bool

record deviceType =
  xd_name :: string
  xd_version :: string
  xd_description :: string
  xd_addressUnitBits :: string
  xd_width :: string
  xd_cpu :: "cpuType option"
  xd_access :: "accessType option"
  xd_peripherals :: "peripheralType list"

section \<open>Numbers\<close>

definition isspace :: "char \<Rightarrow> bool" where
  "isspace c \<longleftrightarrow> c = CHR '' '' \<or> (9 \<le> (of_char c :: nat) \<and> (of_char c :: nat) \<le> 13)"

definition digit_in_base :: "nat \<Rightarrow> char \<Rightarrow> nat option" where
  "digit_in_base base c =
     (let k = (of_char c :: nat);
          d = (if 48 \<le> k \<and> k \<le> 57 then k - 48
               else if 97 \<le> k \<and> k \<le> 122 then k - 97 + 10
               else if 65 \<le> k \<and> k \<le> 90 then k - 65 + 10 else 36)
      in if d < base then Some d else None)"

definition digits_value :: "nat \<Rightarrow> string \<Rightarrow> nat" where
  "digits_value base s =
     foldl (\<lambda>v c. base * v + (case digit_in_base base c of None \<Rightarrow> 0 | Some d \<Rightarrow> d)) 0 s"

text \<open>\<open>strtoul\<close> of the C library for a 64-bit \<open>unsigned long\<close>: white space, a sign, for base 16
  an optional prefix, then the longest run of digits.  It answers the value and the rest of
  the text, the whole text when there is no digit; a value out of range is \<open>ULONG_MAX\<close>.\<close>

definition strtoul :: "nat \<Rightarrow> string \<Rightarrow> u64 \<times> string" where
  "strtoul base text =
     (let s1 = dropWhile isspace text;
          neg = (s1 \<noteq> [] \<and> hd s1 = CHR ''-'');
          s2 = (if s1 \<noteq> [] \<and> (hd s1 = CHR ''-'' \<or> hd s1 = CHR ''+'') then tl s1 else s1);
          s3 = (if base = 16 \<and> length s2 \<ge> 3 \<and> s2 ! 0 = CHR ''0'' \<and> (s2 ! 1 = CHR ''x'' \<or> s2 ! 1 = CHR ''X'')
                   \<and> digit_in_base 16 (s2 ! 2) \<noteq> None
                then drop 2 s2 else s2);
          ds = takeWhile (\<lambda>c. digit_in_base base c \<noteq> None) s3
      in if ds = [] then (0, text)
         else (let v = digits_value base ds
               in ((if v \<ge> 2 ^ 64 then - 1 else if neg then - of_nat v else of_nat v),
                   drop (length ds) s3)))"

definition char_at :: "string \<Rightarrow> nat \<Rightarrow> char" where
  "char_at s i = (if i < length s then s ! i else CHR 0x00)"

definition number_base :: "string \<Rightarrow> nat \<Rightarrow> nat \<times> nat" where
  "number_base text i =
     (if char_at text i = CHR ''#'' then (2, i + 1)
      else if i + 1 < length text \<and> char_at text i = CHR ''0''
           \<and> (char_at text (i + 1) = CHR ''x'' \<or> char_at text (i + 1) = CHR ''X'')
      then (16, i + 2) else (10, i))"

definition scale_suffix :: "char \<Rightarrow> u64 \<Rightarrow> u64" where
  "scale_suffix e value =
     (if e = CHR ''k'' \<or> e = CHR ''K'' then value * 1024
      else if e = CHR ''m'' \<or> e = CHR ''M'' then value * (1024 * 1024)
      else if e = CHR ''g'' \<or> e = CHR ''G'' then value * (1024 * 1024 * 1024)
      else value)"

definition ParseScaledInt :: "string \<Rightarrow> u32" where
  "ParseScaledInt text =
     (if text = [] then 0
      else
        (let (base, i) = number_base text (length (takeWhile isspace text));
             (value, rest) = strtoul base (drop i text)
         in ucast (scale_suffix (char_at rest 0) value)))"

section \<open>Access, bit ranges and flds\<close>

definition ToAccessKind :: "accessType \<Rightarrow> AccessKind" where
  "ToAccessKind a =
     (case a of read_only \<Rightarrow> kReadOnly | write_only \<Rightarrow> kWriteOnly | read_write \<Rightarrow> kReadWrite
      | writeOnce \<Rightarrow> kWriteOnce | read_writeOnce \<Rightarrow> kReadWriteOnce)"

definition ToReadActionKind :: "readActionType \<Rightarrow> ReadActionKind" where
  "ToReadActionKind a =
     (case a of clear \<Rightarrow> kClear | set_action \<Rightarrow> kSet | modify \<Rightarrow> kModify | modifyExternal \<Rightarrow> kModifyExternal)"

text \<open>\<open>find\<close> of one character.\<close>

fun find_char :: "char \<Rightarrow> string \<Rightarrow> nat option" where
  "find_char c [] = None"
| "find_char c (x # xs) = (if x = c then Some 0 else map_option Suc (find_char c xs))"

text \<open>\<open>substr\<close> counts in \<open>size_t\<close>: a count below zero wraps to a huge one and takes the rest.\<close>

definition substr_between :: "string \<Rightarrow> nat \<Rightarrow> nat \<Rightarrow> string" where
  "substr_between s start stop =
     (if start \<le> stop then take (stop - start) (drop start s) else drop start s)"

definition ResolveBitRange :: "fieldType \<Rightarrow> u32 \<times> u32" where
  "ResolveBitRange field =
     (case xf_bitOffset field of
        Some t \<Rightarrow> (ParseScaledInt t, (case xf_bitWidth field of None \<Rightarrow> 1 | Some w \<Rightarrow> ParseScaledInt w))
      | None \<Rightarrow>
          (let by_range =
             (case xf_bitRange field of
                None \<Rightarrow> (0, 0)
              | Some text \<Rightarrow>
                  (case (find_char (CHR '':'') text, find_char (CHR ''['') text, find_char (CHR '']'') text) of
                     (Some colon, Some opn, Some cls) \<Rightarrow>
                       (let msb = ParseScaledInt (substr_between text (opn + 1) colon);
                            lsb = ParseScaledInt (substr_between text (colon + 1) cls)
                        in (lsb, if msb \<ge> lsb then msb - lsb + 1 else 1))
                   | _ \<Rightarrow> (0, 0)))
           in case (xf_lsb field, xf_msb field) of
                (Some l, Some m) \<Rightarrow>
                  (let lsb = ParseScaledInt l; msb = ParseScaledInt m
                   in (lsb, if msb \<ge> lsb then msb - lsb + 1 else 1))
              | _ \<Rightarrow> by_range))"

definition TranslateEnumeratedValues :: "fieldType \<Rightarrow> EnumeratedValue list" where
  "TranslateEnumeratedValues field =
     concat (map (map (\<lambda>ev. \<lparr>ev_name = xev_name ev,
        ev_description = (case xev_description ev of None \<Rightarrow> [] | Some d \<Rightarrow> d),
        ev_value = map_option ParseScaledInt (xev_value ev),
        ev_is_default = (case xev_isDefault ev of None \<Rightarrow> False | Some b \<Rightarrow> b)\<rparr>))
       (xf_enumeratedValues field))"

definition TranslateField :: "fieldType \<Rightarrow> AccessKind \<Rightarrow> ReadActionKind \<Rightarrow> RegisterField" where
  "TranslateField field inherited_access inherited_read_action =
     (let (offset, width) = ResolveBitRange field
      in \<lparr>fd_name = xf_name field,
          fd_description = (case xf_description field of None \<Rightarrow> [] | Some d \<Rightarrow> d),
          fd_bit_offset = offset, fd_bit_width = width,
          fd_access = (case xf_access field of None \<Rightarrow> inherited_access | Some a \<Rightarrow> ToAccessKind a),
          fd_read_action = (case xf_readAction field of None \<Rightarrow> inherited_read_action | Some a \<Rightarrow> ToReadActionKind a),
          fd_enumerated_values = TranslateEnumeratedValues field\<rparr>)"

definition AggregateAccess :: "RegisterField list \<Rightarrow> AccessKind \<Rightarrow> AccessKind" where
  "AggregateAccess flds fallback =
     (if flds = [] then fallback
      else if list_all (\<lambda>f. fd_access f = kWriteOnly) flds then kWriteOnly
      else if list_all (\<lambda>f. fd_access f = kReadOnly) flds then kReadOnly
      else kReadWrite)"

fun AggregateReadAction :: "RegisterField list \<Rightarrow> ReadActionKind" where
  "AggregateReadAction [] = kNone"
| "AggregateReadAction (f # fs) =
     (if fd_read_action f \<noteq> kNone then fd_read_action f else AggregateReadAction fs)"

section \<open>Registers, clusters and peripherals\<close>

definition TranslateRegister :: "registerType \<Rightarrow> u32 \<Rightarrow> AccessKind \<Rightarrow> ReadActionKind \<Rightarrow> Register" where
  "TranslateRegister reg base_offset inherited_access inherited_read_action =
     (let declared_access = (case xr_access reg of None \<Rightarrow> kUnspecified | Some a \<Rightarrow> ToAccessKind a);
          field_default = (if declared_access \<noteq> kUnspecified then declared_access else inherited_access);
          declared_read_action = (case xr_readAction reg of None \<Rightarrow> kNone | Some a \<Rightarrow> ToReadActionKind a);
          flds = (case xr_fields reg of None \<Rightarrow> []
                    | Some fs \<Rightarrow> map (\<lambda>f. TranslateField f field_default declared_read_action) fs)
      in \<lparr>rg_name = xr_name reg,
          rg_description = (case xr_description reg of None \<Rightarrow> [] | Some d \<Rightarrow> d),
          rg_address_offset = base_offset + ParseScaledInt (xr_addressOffset reg),
          rg_size_bits = (case xr_size reg of None \<Rightarrow> 32 | Some t \<Rightarrow> ParseScaledInt t),
          rg_access = (if declared_access \<noteq> kUnspecified then declared_access
                       else AggregateAccess flds field_default),
          rg_read_action = (if declared_read_action \<noteq> kNone then declared_read_action
                            else AggregateReadAction flds),
          rg_reset_value = map_option ParseScaledInt (xr_resetValue reg),
          rg_reset_mask = map_option ParseScaledInt (xr_resetMask reg),
          rg_fields = flds\<rparr>)"

fun FlattenCluster :: "clusterType \<Rightarrow> u32 \<Rightarrow> string \<Rightarrow> AccessKind \<Rightarrow> ReadActionKind \<Rightarrow> Register list \<Rightarrow> Register list"
  and flatten_nested :: "clusterType list \<Rightarrow> u32 \<Rightarrow> string \<Rightarrow> AccessKind \<Rightarrow> ReadActionKind \<Rightarrow> Register list \<Rightarrow> Register list"
where
  "FlattenCluster (Cluster addressOffset name acc regs nested) base_offset name_prefix inherited_access inherited_read_action out =
     (let offset = base_offset + ParseScaledInt addressOffset;
          prefix = name_prefix @ name @ ''_'';
          access = (case acc of None \<Rightarrow> inherited_access | Some a \<Rightarrow> ToAccessKind a)
      in flatten_nested nested offset prefix access inherited_read_action
           (out @ map (\<lambda>reg. let t = TranslateRegister reg offset access inherited_read_action
                             in t\<lparr>rg_name := prefix @ rg_name t\<rparr>) regs))"
| "flatten_nested [] offset prefix access read_action out = out"
| "flatten_nested (c # cs) offset prefix access read_action out =
     flatten_nested cs offset prefix access read_action (FlattenCluster c offset prefix access read_action out)"

definition TranslateAddressBlock :: "addressBlockType \<Rightarrow> AddressBlock" where
  "TranslateAddressBlock b =
     \<lparr>ab_offset = ParseScaledInt (xb_offset b), ab_size = ParseScaledInt (xb_size b), ab_usage = xb_usage b\<rparr>"

definition TranslateInterrupt :: "interruptType \<Rightarrow> Interrupt" where
  "TranslateInterrupt i =
     \<lparr>in_name = xi_name i, in_description = (case xi_description i of None \<Rightarrow> [] | Some d \<Rightarrow> d),
      in_value = scast (xi_value i)\<rparr>"

definition empty_Peripheral :: Peripheral where
  "empty_Peripheral = \<lparr>pe_name = [], pe_description = [], pe_group_name = [], pe_base_address = 0,
     pe_address_block = \<lparr>ab_offset = 0, ab_size = 0, ab_usage = []\<rparr>, pe_registers = [], pe_interrupts = []\<rparr>"

text \<open>The index keeps the last peripheral of each name.\<close>

definition IndexPeripherals :: "peripheralType list \<Rightarrow> (string \<rightharpoonup> peripheralType)" where
  "IndexPeripherals ps = foldl (\<lambda>m p. m(xp_name p \<mapsto> p)) Map.empty ps"

definition translate_registers :: "AccessKind \<Rightarrow> registerType list \<times> clusterType list \<Rightarrow> Register list" where
  "translate_registers access rc =
     foldl (\<lambda>out c. FlattenCluster c 0 [] access kNone out)
       (map (\<lambda>reg. TranslateRegister reg 0 access kNone) (fst rc)) (snd rc)"

definition override_peripheral :: "AccessKind \<Rightarrow> peripheralType \<Rightarrow> Peripheral \<Rightarrow> Peripheral" where
  "override_peripheral device_access node out =
     (let access = (case xp_access node of None \<Rightarrow> device_access | Some a \<Rightarrow> ToAccessKind a)
      in \<lparr>pe_name = xp_name node,
          pe_description = (case xp_description node of None \<Rightarrow> pe_description out | Some d \<Rightarrow> d),
          pe_group_name = (case xp_groupName node of None \<Rightarrow> pe_group_name out | Some g \<Rightarrow> g),
          pe_base_address = ParseScaledInt (xp_baseAddress node),
          pe_address_block = (case xp_addressBlock node of [] \<Rightarrow> pe_address_block out
                              | b # _ \<Rightarrow> TranslateAddressBlock b),
          pe_registers = (case xp_registers node of None \<Rightarrow> pe_registers out
                          | Some rc \<Rightarrow> translate_registers access rc),
          pe_interrupts = (case xp_interrupt node of [] \<Rightarrow> pe_interrupts out
                           | ints \<Rightarrow> map TranslateInterrupt ints)\<rparr>)"

function TranslateImpl :: "AccessKind \<Rightarrow> (string \<rightharpoonup> peripheralType) \<Rightarrow> peripheralType \<Rightarrow> nat \<Rightarrow> Peripheral" where
  "TranslateImpl device_access by_name node depth =
     override_peripheral device_access node
       (case xp_derivedFrom node of
          None \<Rightarrow> empty_Peripheral
        | Some name \<Rightarrow>
            if depth < 8 then
              (case by_name name of
                 None \<Rightarrow> empty_Peripheral
               | Some b \<Rightarrow> TranslateImpl device_access by_name b (depth + 1))
            else empty_Peripheral)"
  by pat_completeness auto
termination by (relation "measure (\<lambda>(a, m, n, depth). 8 - depth)") auto

declare TranslateImpl.simps [simp del]

text \<open>The parser answers the document or the text of the exception it threw.\<close>

definition LoadSvd :: "(string \<Rightarrow> string + deviceType) \<Rightarrow> string \<Rightarrow> string + Device" where
  "LoadSvd parse path =
     (case parse path of
        Inl e \<Rightarrow> Inl e
      | Inr root \<Rightarrow>
          (let device_access = (case xd_access root of None \<Rightarrow> kUnspecified | Some a \<Rightarrow> ToAccessKind a)
           in Inr \<lparr>dv_name = xd_name root, dv_version = xd_version root, dv_description = xd_description root,
                dv_cpu = map_option (\<lambda>c. \<lparr>cpu_name = xcpu_name c, cpu_revision = xcpu_revision c,
                    cpu_endian = xcpu_endian c,
                    cpu_mpu_present = (case xcpu_mpuPresent c of None \<Rightarrow> False | Some b \<Rightarrow> b),
                    cpu_fpu_present = (case xcpu_fpuPresent c of None \<Rightarrow> False | Some b \<Rightarrow> b),
                    cpu_nvic_prio_bits = ParseScaledInt (xcpu_nvicPrioBits c),
                    cpu_vendor_systick_config = xcpu_vendorSystickConfig c\<rparr>) (xd_cpu root),
                dv_address_unit_bits = ParseScaledInt (xd_addressUnitBits root),
                dv_width = ParseScaledInt (xd_width root),
                dv_peripherals = map (\<lambda>p. TranslateImpl device_access (IndexPeripherals (xd_peripherals root)) p 0)
                  (xd_peripherals root)\<rparr>))"

section \<open>Numbers round trip\<close>

definition scale_of :: "string \<Rightarrow> nat option" where
  "scale_of suffix =
     (if suffix = [] then Some 1
      else if suffix = ''k'' \<or> suffix = ''K'' then Some 1024
      else if suffix = ''m'' \<or> suffix = ''M'' then Some (1024 * 1024)
      else if suffix = ''g'' \<or> suffix = ''G'' then Some (1024 * 1024 * 1024) else None)"

definition base_digits :: "nat \<Rightarrow> string \<Rightarrow> bool" where
  "base_digits base ds \<longleftrightarrow> ds \<noteq> [] \<and> list_all (\<lambda>c. digit_in_base base c \<noteq> None) ds"

definition base_prefix :: "nat \<Rightarrow> string" where
  "base_prefix base = (if base = 2 then ''#'' else if base = 16 then ''0x'' else [])"

lemma scale_of_cases:
  assumes "scale_of suffix = Some k"
  obtains "suffix = []" "k = 1" | c where "suffix = [c]" "c \<in> {CHR ''k'', CHR ''K''}" "k = 1024"
  | c where "suffix = [c]" "c \<in> {CHR ''m'', CHR ''M''}" "k = 1024 * 1024"
  | c where "suffix = [c]" "c \<in> {CHR ''g'', CHR ''G''}" "k = 1024 * 1024 * 1024"
  using assms by (auto simp: scale_of_def split: if_splits)

lemma suffix_not_digit:
  "scale_of suffix = Some k \<Longrightarrow> base \<in> {2, 10, 16} \<Longrightarrow> suffix = [] \<or> digit_in_base base (hd suffix) = None"
  by (erule scale_of_cases) (auto simp: digit_in_base_def)

lemma digit_in_base_char:
  assumes "digit_in_base base c \<noteq> None" and "base \<le> 16"
  shows "\<not> isspace c" and "c \<noteq> CHR ''-''" and "c \<noteq> CHR ''+''" and "c \<noteq> CHR ''#''" and "c \<noteq> CHR ''x''" and "c \<noteq> CHR ''X''"
  using assms by (auto simp: digit_in_base_def isspace_def Let_def split: if_splits)

lemma takeWhile_digits:
  assumes "base_digits base ds" and "suffix = [] \<or> digit_in_base base (hd suffix) = None"
  shows "takeWhile (\<lambda>c. digit_in_base base c \<noteq> None) (ds @ suffix) = ds"
  using assms by (cases suffix) (auto simp: base_digits_def list_all_iff takeWhile_append2)

lemma strtoul_digits:
  assumes "base_digits base ds" and "suffix = [] \<or> digit_in_base base (hd suffix) = None"
    and "base \<le> 16" and "digits_value base ds < 2 ^ 64" and "suffix = [] \<or> hd suffix \<noteq> CHR ''x'' \<and> hd suffix \<noteq> CHR ''X''"
  shows "strtoul base (ds @ suffix) = (of_nat (digits_value base ds), suffix)"
proof -
  from assms(1) obtain c cs where ds: "ds = c # cs" "digit_in_base base c \<noteq> None"
    by (cases ds) (auto simp: base_digits_def)
  note c = digit_in_base_char [OF ds(2) assms(3)]
  have second: "(ds @ suffix) ! 1 \<noteq> CHR ''x'' \<and> (ds @ suffix) ! 1 \<noteq> CHR ''X''" if "3 \<le> length (ds @ suffix)"
  proof (cases cs)
    case Nil
    with that assms(5) ds show ?thesis by (cases suffix) auto
  next
    case (Cons d ds')
    with ds assms(1) have "digit_in_base base d \<noteq> None" by (simp add: base_digits_def)
    with Cons ds digit_in_base_char(5,6) [OF this assms(3)] show ?thesis by simp
  qed
  let ?t = "ds @ suffix"
  have noprefix: "(base = 16 \<and> length ?t \<ge> 3 \<and> ?t ! 0 = CHR ''0'' \<and> (?t ! 1 = CHR ''x'' \<or> ?t ! 1 = CHR ''X'')
      \<and> digit_in_base 16 (?t ! 2) \<noteq> None) = False" using second by blast
  have s1: "dropWhile isspace ?t = ?t" and hd: "hd ?t \<noteq> CHR ''-''" "hd ?t \<noteq> CHR ''+''" using ds c by simp_all
  have ne: "ds \<noteq> []" using ds by simp
  have v: "(2 ^ 64 \<le> digits_value base ds) = False" using assms(4) by simp
  show ?thesis
    unfolding strtoul_def Let_def s1
    by (simp only: hd noprefix if_False simp_thms)
      (simp only: takeWhile_digits [OF assms(1,2)] ne v if_False simp_thms, simp)
qed

lemma ucast_of_nat_u64: "(ucast (of_nat n :: u64) :: u32) = of_nat n"
  by transfer simp

lemma scale_suffix_scale_of:
  assumes "scale_of suffix = Some k"
  shows "scale_suffix (char_at suffix 0) (of_nat v) = of_nat (v * k)"
  using assms
  by (elim scale_of_cases) (auto simp: scale_suffix_def char_at_def)

lemma number_base_prefix:
  assumes "base \<in> {2, 10, 16}" and "base_digits base ds"
    and "suffix = [] \<or> hd suffix \<noteq> CHR ''x'' \<and> hd suffix \<noteq> CHR ''X''"
  shows "number_base (base_prefix base @ ds @ suffix) 0 = (base, length (base_prefix base))"
    and "takeWhile isspace (base_prefix base @ ds @ suffix) = []"
proof -
  have le: "base \<le> 16" using assms(1) by auto
  from assms(2) obtain c cs where ds: "ds = c # cs" "digit_in_base base c \<noteq> None"
    by (cases ds) (auto simp: base_digits_def)
  note c = digit_in_base_char [OF ds(2) le]
  have second: "char_at (cs @ suffix) 0 \<noteq> CHR ''x'' \<and> char_at (cs @ suffix) 0 \<noteq> CHR ''X''"
  proof (cases cs)
    case Nil
    with assms(3) show ?thesis by (cases suffix) (simp_all add: char_at_def)
  next
    case (Cons d ds')
    with ds assms(2) have "digit_in_base base d \<noteq> None" by (simp add: base_digits_def)
    with Cons digit_in_base_char(5,6) [OF this le] show ?thesis by (simp add: char_at_def)
  qed
  from assms(1) consider "base = 2" | "base = 10" | "base = 16" by blast
  then show "number_base (base_prefix base @ ds @ suffix) 0 = (base, length (base_prefix base))"
  proof cases
    case 2
    have "char_at (c # cs @ suffix) 0 = c" "char_at (c # cs @ suffix) 1 = char_at (cs @ suffix) 0"
      by (simp_all add: char_at_def)
    with 2 c(4) second show ?thesis
      unfolding ds(1) number_base_def base_prefix_def by simp
  qed (simp_all add: number_base_def base_prefix_def char_at_def)
  from assms(1) c show "takeWhile isspace (base_prefix base @ ds @ suffix) = []"
    unfolding ds(1) by (auto simp: base_prefix_def isspace_def)
qed

text \<open>a number written in binary (#), decimal or hexadecimal (0x) digits below 2^64, with
  an optional k, m or g suffix in either case, is read as its value times the scale, cut to
  32 bits.\<close>

lemma ParseScaledInt_reads:
  assumes "base \<in> {2, 10, 16}" and "base_digits base ds" and "digits_value base ds < 2 ^ 64"
    and "scale_of suffix = Some k"
  shows "ParseScaledInt (base_prefix base @ ds @ suffix) = of_nat (digits_value base ds * k)"
proof -
  have le: "base \<le> 16" using assms(1) by auto
  have notx: "suffix = [] \<or> hd suffix \<noteq> CHR ''x'' \<and> hd suffix \<noteq> CHR ''X''"
    using assms(4) by (rule scale_of_cases) auto
  have num: "strtoul base (ds @ suffix) = (of_nat (digits_value base ds), suffix)"
    by (rule strtoul_digits [OF assms(2) suffix_not_digit [OF assms(4,1)] le assms(3) notx])
  have "base_prefix base @ ds @ suffix \<noteq> []" using assms(2) by (simp add: base_digits_def)
  then have "ParseScaledInt (base_prefix base @ ds @ suffix) =
      ucast (scale_suffix (char_at suffix 0) (of_nat (digits_value base ds)))"
    unfolding ParseScaledInt_def number_base_prefix(2) [OF assms(1,2) notx]
    by (simp only: list.size number_base_prefix(1) [OF assms(1,2) notx] Let_def prod.case if_False
        drop_append drop_all order_refl diff_self_eq_0 diff_0_eq_0 drop_0 append_Nil num)
  then show ?thesis by (simp only: scale_suffix_scale_of [OF assms(4)] ucast_of_nat_u64)
qed

theorem ParseScaledInt_reads_witness:
  "ParseScaledInt ''0x2Fk'' = 48128"
proof -
  have "base_digits 16 ''2F''" by (simp add: base_digits_def digit_in_base_def)
  moreover have v: "digits_value 16 ''2F'' = 47" by (simp add: digits_value_def digit_in_base_def)
  moreover have "scale_of ''k'' = Some 1024" by (simp add: scale_of_def)
  ultimately show ?thesis
    using ParseScaledInt_reads [of 16 "''2F''" "''k''" 1024] by (simp add: base_prefix_def)
qed

section \<open>Read-safe registers\<close>

lemma AggregateReadAction_none: "AggregateReadAction fs = kNone \<longleftrightarrow> list_all (\<lambda>f. fd_read_action f = kNone) fs"
  by (induction fs) auto

text \<open>a translated register is read-safe exactly when neither it nor any of its fields
  declares a read action and its access, declared, aggregated from its fields or
  inherited, is not write-only; in particular no field of a read-safe register changes
  state when read.\<close>

lemma TranslateRegister_ReadSafe:
  "ReadSafe (TranslateRegister reg base_offset inherited ra) \<longleftrightarrow>
     xr_readAction reg = None \<and>
     list_all (\<lambda>f. fd_read_action f = kNone) (rg_fields (TranslateRegister reg base_offset inherited ra)) \<and>
     (case xr_access reg of
        Some a \<Rightarrow> a \<noteq> write_only
      | None \<Rightarrow> AggregateAccess (rg_fields (TranslateRegister reg base_offset inherited ra)) inherited \<noteq> kWriteOnly)"
  by (cases "xr_readAction reg"; cases "xr_access reg")
    (auto simp: TranslateRegister_def ReadSafe_def Let_def AggregateReadAction_none list_all_iff
      ToAccessKind_def ToReadActionKind_def split: accessType.splits readActionType.splits)

section \<open>Clusters\<close>

text \<open>The registers of a cluster tree, each with the clusters on its path from the outside in.\<close>

fun cluster_paths :: "clusterType \<Rightarrow> (clusterType list \<times> registerType) list"
  and clusters_paths :: "clusterType list \<Rightarrow> (clusterType list \<times> registerType) list"
where
  "cluster_paths (Cluster off name acc regs nested) =
     map (\<lambda>(path, reg). (Cluster off name acc regs nested # path, reg))
       (map (\<lambda>reg. ([], reg)) regs @ clusters_paths nested)"
| "clusters_paths [] = []"
| "clusters_paths (c # cs) = cluster_paths c @ clusters_paths cs"

definition path_offset :: "clusterType list \<Rightarrow> u32" where
  "path_offset path = sum_list (map (\<lambda>c. ParseScaledInt (xc_addressOffset c)) path)"

definition path_prefix :: "clusterType list \<Rightarrow> string" where
  "path_prefix path = concat (map (\<lambda>c. xc_name c @ ''_'') path)"

definition path_access :: "AccessKind \<Rightarrow> clusterType list \<Rightarrow> AccessKind" where
  "path_access = foldl (\<lambda>a c. case xc_access c of None \<Rightarrow> a | Some b \<Rightarrow> ToAccessKind b)"

definition path_register :: "u32 \<Rightarrow> string \<Rightarrow> AccessKind \<Rightarrow> ReadActionKind \<Rightarrow> clusterType list \<times> registerType \<Rightarrow> Register" where
  "path_register base prefix access ra = (\<lambda>(path, reg).
     (TranslateRegister reg (base + path_offset path) (path_access access path) ra)
       \<lparr>rg_name := prefix @ path_prefix path @ xr_name reg\<rparr>)"

lemma path_register_Cons:
  "path_register base prefix access ra (c # path, reg) =
     path_register (base + ParseScaledInt (xc_addressOffset c)) (prefix @ xc_name c @ ''_'')
       (case xc_access c of None \<Rightarrow> access | Some b \<Rightarrow> ToAccessKind b) ra (path, reg)"
  by (simp add: path_register_def path_offset_def path_prefix_def path_access_def add.assoc)

lemma rg_name_TranslateRegister [simp]: "rg_name (TranslateRegister reg b a ra) = xr_name reg"
  by (simp add: TranslateRegister_def Let_def)

lemma flatten_paths:
  "FlattenCluster c base prefix access ra out = out @ map (path_register base prefix access ra) (cluster_paths c)"
  "flatten_nested cs base prefix access ra out = out @ map (path_register base prefix access ra) (clusters_paths cs)"
proof (induction c base prefix access ra out and cs base prefix access ra out rule: FlattenCluster_flatten_nested.induct)
  case (1 off name acc regs nested base prefix access ra out)
  have "path_register (base + ParseScaledInt off) (prefix @ name @ ''_'')
       (case acc of None \<Rightarrow> access | Some a \<Rightarrow> ToAccessKind a) ra ([], reg) =
      (TranslateRegister reg (base + ParseScaledInt off)
         (case acc of None \<Rightarrow> access | Some a \<Rightarrow> ToAccessKind a) ra)
      \<lparr>rg_name := prefix @ name @ ''_'' @ xr_name reg\<rparr>" for reg
    by (simp add: path_register_def path_offset_def path_prefix_def path_access_def)
  with 1 show ?case by (simp add: Let_def comp_def path_register_Cons case_prod_unfold)
qed simp_all

text \<open>flattening a cluster tree lists every register of the tree once, outer before nested,
  at the sum of the offsets on its path, under the path's names joined by underscores,
  with the access of the innermost cluster that declares one.\<close>

lemma FlattenCluster_flattens:
  "FlattenCluster c base prefix access ra out = out @ map (path_register base prefix access ra) (cluster_paths c)"
  by (rule flatten_paths)

section \<open>Derived peripherals\<close>

text \<open>A peripheral and the peripherals it derives from, nearest first, at most \<open>k\<close> steps up.\<close>

fun ancestors :: "(string \<rightharpoonup> peripheralType) \<Rightarrow> nat \<Rightarrow> peripheralType \<Rightarrow> peripheralType list" where
  "ancestors by_name 0 node = [node]"
| "ancestors by_name (Suc k) node =
     node # (case Option.bind (xp_derivedFrom node) by_name of None \<Rightarrow> [] | Some b \<Rightarrow> ancestors by_name k b)"

definition own_access :: "AccessKind \<Rightarrow> peripheralType \<Rightarrow> AccessKind" where
  "own_access device_access node = (case xp_access node of None \<Rightarrow> device_access | Some a \<Rightarrow> ToAccessKind a)"

definition inherited_registers :: "AccessKind \<Rightarrow> peripheralType list \<Rightarrow> Register list" where
  "inherited_registers acc chain =
     (case List.find (\<lambda>p. xp_registers p \<noteq> None) chain of
        None \<Rightarrow> [] | Some p \<Rightarrow> translate_registers (own_access acc p) (the (xp_registers p)))"

definition inherited_interrupts :: "peripheralType list \<Rightarrow> Interrupt list" where
  "inherited_interrupts chain =
     (case List.find (\<lambda>p. xp_interrupt p \<noteq> []) chain of None \<Rightarrow> [] | Some p \<Rightarrow> map TranslateInterrupt (xp_interrupt p))"

lemma override_registers:
  "pe_registers (override_peripheral acc node out) =
     (if xp_registers node = None then pe_registers out
      else translate_registers (own_access acc node) (the (xp_registers node)))"
  "pe_interrupts (override_peripheral acc node out) =
     (if xp_interrupt node = [] then pe_interrupts out else map TranslateInterrupt (xp_interrupt node))"
  "pe_name (override_peripheral acc node out) = xp_name node"
  "pe_base_address (override_peripheral acc node out) = ParseScaledInt (xp_baseAddress node)"
  by (auto simp: override_peripheral_def own_access_def Let_def split: option.splits list.splits)

lemma TranslateImpl_chain:
  "depth + k = 8 \<Longrightarrow>
   pe_registers (TranslateImpl acc by_name node depth) = inherited_registers acc (ancestors by_name k node) \<and>
   pe_interrupts (TranslateImpl acc by_name node depth) = inherited_interrupts (ancestors by_name k node)"
proof (induction k arbitrary: node depth)
  case 0
  then have d: "depth = 8" by simp
  show ?case unfolding d
    by (auto simp: TranslateImpl.simps [of acc by_name node 8] override_registers empty_Peripheral_def
        inherited_registers_def inherited_interrupts_def split: option.split)
next
  case (Suc k)
  show ?case
  proof (cases "Option.bind (xp_derivedFrom node) by_name")
    case None
    then show ?thesis
      by (auto simp: TranslateImpl.simps [of acc by_name node depth] override_registers empty_Peripheral_def
        inherited_registers_def inherited_interrupts_def split: option.split)
  next
    case (Some b)
    with Suc.prems have "TranslateImpl acc by_name node depth =
        override_peripheral acc node (TranslateImpl acc by_name b (depth + 1))"
      by (cases "xp_derivedFrom node") (simp_all add: TranslateImpl.simps [of acc by_name node depth])
    with Suc.IH [of "depth + 1" b] Suc.prems Some show ?thesis
      by (simp add: override_registers inherited_registers_def inherited_interrupts_def)
  qed
qed

text \<open>translating a peripheral always returns, also on a cyclic derivation; the result has
  the peripheral's own name and base address, and its registers and its interrupts are each
  those of the nearest peripheral, of itself and at most eight it derives from, that declares
  any, translated with that peripheral's access.\<close>

lemma TranslateImpl_inherits:
  "pe_name (TranslateImpl acc by_name node 0) = xp_name node \<and>
   pe_base_address (TranslateImpl acc by_name node 0) = ParseScaledInt (xp_baseAddress node) \<and>
   pe_registers (TranslateImpl acc by_name node 0) = inherited_registers acc (ancestors by_name 8 node) \<and>
   pe_interrupts (TranslateImpl acc by_name node 0) = inherited_interrupts (ancestors by_name 8 node)"
  using TranslateImpl_chain [of 0 8 acc by_name node]
  by (simp add: TranslateImpl.simps [of acc by_name node 0] override_registers(3,4))

end
