(* ===== verification/Device_Pack.thy ===== *)
theory Device_Pack
  imports Svd
begin

text \<open>
  \<open>device_provider\<close>: what the engine knows of a device by its name.  A tab-separated index
  gives the die and its memory sizes, they name an Rzone file that lists the memory
  regions, and the core names a CMSIS-SVD file of core peripherals.  Reading files and
  parsing XML are parameters; \<open>std::stoul\<close> throws on a field that is not a number.
\<close>

section \<open>Memory map\<close>

datatype MemoryKind = kRam | kRom | kExternal

record MemoryRegion =
  mr_name :: string
  mr_info :: string
  mr_start :: u64
  mr_size :: u64
  mr_readable :: bool
  mr_writable :: bool
  mr_executable :: bool
  mr_kind :: MemoryKind

record MemoryMap =
  m_regions :: "MemoryRegion list"

definition new_MemoryMap ::
  "((MemoryRegion \<Rightarrow> u64) \<Rightarrow> MemoryRegion list \<Rightarrow> MemoryRegion list) \<Rightarrow> MemoryRegion list \<Rightarrow> MemoryMap" where
  "new_MemoryMap srt regions = \<lparr>m_regions = srt mr_start regions\<rparr>"

definition region_covers :: "u64 \<Rightarrow> MemoryRegion \<Rightarrow> bool" where
  "region_covers address region \<longleftrightarrow> address \<ge> mr_start region \<and> address < mr_start region + mr_size region"

definition MemoryMap_Find :: "MemoryMap \<Rightarrow> u64 \<Rightarrow> MemoryRegion option" where
  "MemoryMap_Find m address = List.find (region_covers address) (m_regions m)"

definition IsRam :: "MemoryMap \<Rightarrow> u64 \<Rightarrow> bool" where
  "IsRam m address = (case MemoryMap_Find m address of None \<Rightarrow> False | Some region \<Rightarrow> mr_kind region = kRam)"

definition IsRom :: "MemoryMap \<Rightarrow> u64 \<Rightarrow> bool" where
  "IsRom m address = (case MemoryMap_Find m address of None \<Rightarrow> False | Some region \<Rightarrow> mr_kind region = kRom)"

section \<open>Device index\<close>

datatype std_exception = InvalidArgument | OutOfRange

text \<open>\<open>std::stoul\<close> in base 10 on a 64-bit \<open>unsigned long\<close>.\<close>

definition stoul :: "string \<Rightarrow> std_exception + u64" where
  "stoul s =
     (let s1 = dropWhile isspace s;
          s2 = (if s1 \<noteq> [] \<and> (hd s1 = CHR ''-'' \<or> hd s1 = CHR ''+'') then tl s1 else s1);
          ds = takeWhile (\<lambda>c. digit_in_base 10 c \<noteq> None) s2
      in if ds = [] then Inl InvalidArgument
         else if digits_value 10 ds \<ge> 2 ^ 64 then Inl OutOfRange
         else Inr (fst (strtoul 10 s)))"

record DeviceIndexEntry =
  ix_core :: string
  ix_die :: string
  ix_ram_kb :: u32
  ix_flash_kb :: u32
  ix_core_count :: u32

type_synonym DeviceIndex = "string \<rightharpoonup> DeviceIndexEntry"

fun SplitTab :: "string \<Rightarrow> string list" where
  "SplitTab [] = [[]]"
| "SplitTab (c # cs) =
     (if c = CHR 0x09 then [] # SplitTab cs
      else (case SplitTab cs of [] \<Rightarrow> [[c]] | f # fs \<Rightarrow> (c # f) # fs))"

definition index_entry :: "string list \<Rightarrow> std_exception + DeviceIndexEntry" where
  "index_entry cols =
     (case stoul (cols ! 3) of
        Inl e \<Rightarrow> Inl e
      | Inr ram \<Rightarrow>
          (case stoul (cols ! 4) of
             Inl e \<Rightarrow> Inl e
           | Inr flash \<Rightarrow>
               (case stoul (cols ! 5) of
                  Inl e \<Rightarrow> Inl e
                | Inr cores \<Rightarrow> Inr \<lparr>ix_core = cols ! 1, ix_die = cols ! 2, ix_ram_kb = ucast ram,
                    ix_flash_kb = ucast flash, ix_core_count = ucast cores\<rparr>)))"

fun index_lines :: "string list \<Rightarrow> DeviceIndex \<Rightarrow> std_exception + DeviceIndex" where
  "index_lines [] index = Inr index"
| "index_lines (line # lines) index =
     (if line = [] then index_lines lines index
      else
        (let cols = SplitTab line
         in if length cols \<noteq> 6 then index_lines lines index
            else (case index_entry cols of
                    Inl e \<Rightarrow> Inl e
                  | Inr entry \<Rightarrow>
                      index_lines lines (if index (cols ! 0) = None then index(cols ! 0 \<mapsto> entry) else index))))"

text \<open>The lines of the file, or \<open>None\<close> when it does not open; the first line is the header.\<close>

definition DeviceIndex_Load :: "string list option \<Rightarrow> std_exception + DeviceIndex option" where
  "DeviceIndex_Load file =
     (case file of
        None \<Rightarrow> Inr None
      | Some lines \<Rightarrow> map_sum id Some (index_lines (drop 1 lines) Map.empty))"

definition DeviceIndex_Find :: "DeviceIndex \<Rightarrow> string \<Rightarrow> DeviceIndexEntry option" where
  "DeviceIndex_Find index device_name = index device_name"

section \<open>Rzone files\<close>

text \<open>The attributes as the XML library converts them; a missing one reads as empty or zero.\<close>

record xml_node =
  xn_name :: string
  xn_info :: string
  xn_start :: u64
  xn_size :: u64
  xn_access :: string
  xn_type :: string

definition TranslateMemory :: "xml_node \<Rightarrow> MemoryRegion" where
  "TranslateMemory node =
     \<lparr>mr_name = xn_name node, mr_info = xn_info node, mr_start = xn_start node, mr_size = xn_size node,
      mr_readable = (find_char (CHR ''r'') (xn_access node) \<noteq> None),
      mr_writable = (find_char (CHR ''w'') (xn_access node) \<noteq> None),
      mr_executable = (find_char (CHR ''x'') (xn_access node) \<noteq> None),
      mr_kind = (if xn_type node = ''RAM'' then kRam else kRom)\<rparr>"

definition TranslateProvisioning :: "xml_node \<Rightarrow> MemoryRegion" where
  "TranslateProvisioning node =
     \<lparr>mr_name = xn_name node, mr_info = xn_info node, mr_start = xn_start node, mr_size = xn_size node,
      mr_readable = False, mr_writable = False, mr_executable = False, mr_kind = kExternal\<rparr>"

definition rzone_filename :: "string \<Rightarrow> u32 \<Rightarrow> u32 \<Rightarrow> u32 \<Rightarrow> string" where
  "rzone_filename die ram_kb flash_kb core_count =
     ''STM32_'' @ die @ ''_'' @ dec_string (unat ram_kb) @ ''_'' @ dec_string (unat flash_kb) @
     (if core_count > 1 then ''_DUAL'' else []) @ ''.xml''"

text \<open>Loading answers the \<open>memory\<close> and \<open>provisioning\<close> children of \<open>rzone/resources/memories\<close>,
  or \<open>None\<close> when the file does not parse or has no such element.\<close>

definition LoadRzoneMemoryMap ::
  "((MemoryRegion \<Rightarrow> u64) \<Rightarrow> MemoryRegion list \<Rightarrow> MemoryRegion list) \<Rightarrow>
   (string \<Rightarrow> (xml_node list \<times> xml_node list) option) \<Rightarrow> string \<Rightarrow> string \<Rightarrow> u32 \<Rightarrow> u32 \<Rightarrow> u32 \<Rightarrow> MemoryMap option" where
  "LoadRzoneMemoryMap srt load_file rzone_dir die ram_kb flash_kb core_count =
     (case load_file (rzone_dir @ ''/'' @ rzone_filename die ram_kb flash_kb core_count) of
        None \<Rightarrow> None
      | Some (memory, provisioning) \<Rightarrow>
          Some (new_MemoryMap srt (map TranslateMemory memory @ map TranslateProvisioning provisioning)))"

section \<open>The pack\<close>

record DevicePack =
  pack_memory :: MemoryMap
  pack_core :: "Device option"

record pack_env =
  ResourcesRoot :: string
  read_lines :: "string \<Rightarrow> string list option"
  load_rzone :: "string \<Rightarrow> (xml_node list \<times> xml_node list) option"
  parse_svd :: "string \<Rightarrow> string + deviceType"
  sort_regions :: "(MemoryRegion \<Rightarrow> u64) \<Rightarrow> MemoryRegion list \<Rightarrow> MemoryRegion list"

definition empty_pack :: DevicePack where
  "empty_pack = \<lparr>pack_memory = \<lparr>m_regions = []\<rparr>, pack_core = None\<rparr>"

definition DevicePack_Load :: "pack_env \<Rightarrow> string \<Rightarrow> std_exception + DevicePack" where
  "DevicePack_Load env device_name =
     (if ResourcesRoot env = [] then Inr empty_pack
      else
        (case DeviceIndex_Load (read_lines env (ResourcesRoot env @ ''/device_index.tsv'')) of
           Inl e \<Rightarrow> Inl e
         | Inr None \<Rightarrow> Inr empty_pack
         | Inr (Some index) \<Rightarrow>
             (case DeviceIndex_Find index device_name of
                None \<Rightarrow> Inr empty_pack
              | Some entry \<Rightarrow>
                  (let memory = LoadRzoneMemoryMap (sort_regions env) (load_rzone env)
                         (ResourcesRoot env @ ''/XML/Rzone'') (ix_die entry) (ix_ram_kb entry)
                         (ix_flash_kb entry) (ix_core_count entry);
                       core = (if ix_core entry = [] then None
                               else (case LoadSvd (parse_svd env)
                                       (ResourcesRoot env @ ''/XML/Cores/'' @ ix_core entry @ ''.svd'') of
                                       Inl _ \<Rightarrow> None | Inr d \<Rightarrow> Some d))
                   in Inr \<lparr>pack_memory = (case memory of None \<Rightarrow> \<lparr>m_regions = []\<rparr> | Some m \<Rightarrow> m),
                           pack_core = core\<rparr>))))"

section \<open>Lookups in the memory map\<close>

text \<open>when one region alone can cover an address, the lookup finds exactly it, in whatever
  order the unstable sort leaves the regions, and finds nothing when it does not cover the
  address; RAM and ROM are the kinds of that region.\<close>

lemma MemoryMap_Find_unique:
  assumes "std_sort srt" and "\<forall>q\<in>set regions. region_covers a q \<longrightarrow> q = s"
  shows "MemoryMap_Find (new_MemoryMap srt regions) a =
      (if s \<in> set regions \<and> region_covers a s then Some s else None) \<and>
    (IsRam (new_MemoryMap srt regions) a \<longleftrightarrow> s \<in> set regions \<and> region_covers a s \<and> mr_kind s = kRam) \<and>
    (IsRom (new_MemoryMap srt regions) a \<longleftrightarrow> s \<in> set regions \<and> region_covers a s \<and> mr_kind s = kRom)"
proof -
  have regions: "set (srt mr_start regions) = set regions" by (rule std_sort.srt_set [OF assms(1)])
  have "List.find (region_covers a) (srt mr_start regions) =
      (if s \<in> set regions \<and> region_covers a s then Some s else None)"
  proof (cases "List.find (region_covers a) (srt mr_start regions)")
    case None
    then show ?thesis using regions by (auto simp: find_None_iff)
  next
    case (Some r)
    from find_Some_in [OF this] regions assms(2) have "r = s" by blast
    with find_Some_in [OF Some] regions Some show ?thesis by simp
  qed
  then show ?thesis by (auto simp: IsRam_def IsRom_def MemoryMap_Find_def new_MemoryMap_def)
qed

definition sample_region :: "u64 \<Rightarrow> u64 \<Rightarrow> MemoryKind \<Rightarrow> MemoryRegion" where
  "sample_region start sz kind = \<lparr>mr_name = ''R'', mr_info = [], mr_start = start, mr_size = sz,
     mr_readable = True, mr_writable = True, mr_executable = True, mr_kind = kind\<rparr>"

lemma MemoryMap_Find_unique_witness:
  "IsRam (new_MemoryMap sort_key [sample_region 0x20000000 0x10000 kRam, sample_region 0x08000000 0x10000 kRom]) 0x20000010"
proof -
  have "\<forall>q\<in>set [sample_region 0x20000000 0x10000 kRam, sample_region 0x08000000 0x10000 kRom].
      region_covers 0x20000010 q \<longrightarrow> q = sample_region 0x20000000 0x10000 kRam"
    by (simp add: region_covers_def sample_region_def)
  from MemoryMap_Find_unique [OF key_sort.std_sort_axioms this] show ?thesis
    by (simp add: region_covers_def sample_region_def)
qed

section \<open>The index round trip\<close>

definition tab :: char where
  "tab = CHR 0x09"

fun join_tabs :: "string list \<Rightarrow> string" where
  "join_tabs [] = []"
| "join_tabs [f] = f"
| "join_tabs (f # g # fs) = f @ tab # join_tabs (g # fs)"

definition print_row :: "string \<times> DeviceIndexEntry \<Rightarrow> string" where
  "print_row = (\<lambda>(name, e). join_tabs [name, ix_core e, ix_die e, dec_string (unat (ix_ram_kb e)),
     dec_string (unat (ix_flash_kb e)), dec_string (unat (ix_core_count e))])"

definition row_ok :: "string \<times> DeviceIndexEntry \<Rightarrow> bool" where
  "row_ok = (\<lambda>(name, e). tab \<notin> set name \<and> tab \<notin> set (ix_core e) \<and> tab \<notin> set (ix_die e))"

lemma SplitTab_field: "tab \<notin> set f \<Longrightarrow> SplitTab f = [f]"
  by (induction f) (auto simp: tab_def)

lemma SplitTab_append: "tab \<notin> set f \<Longrightarrow> SplitTab (f @ tab # rest) = f # SplitTab rest"
  by (induction f) (auto simp: tab_def)

lemma SplitTab_join: "fs \<noteq> [] \<Longrightarrow> list_all (\<lambda>f. tab \<notin> set f) fs \<Longrightarrow> SplitTab (join_tabs fs) = fs"
  by (induction fs rule: join_tabs.induct) (simp_all add: SplitTab_field SplitTab_append)

lemma digit_is_base10: "is_digit c \<Longrightarrow> digit_in_base 10 c = Some (digit_val c)"
  by (auto simp: is_digit_def digit_in_base_def digit_val_def Let_def)

lemma dec_string_base10: "base_digits 10 (dec_string n)"
  by (simp add: base_digits_def list_all_iff digit_is_base10 dec_string_digits)

lemma digits_value_dec_string: "digits_value 10 (dec_string n) = n"
proof -
  have "foldl (\<lambda>v c. 10 * v + (case digit_in_base 10 c of None \<Rightarrow> 0 | Some d \<Rightarrow> d)) a ds =
      foldl (\<lambda>v c. 10 * v + digit_val c) a ds" if "\<forall>c\<in>set ds. is_digit c" for a ds
    using that by (induction ds arbitrary: a) (simp_all add: digit_is_base10)
  from this [of "dec_string n" 0] dec_value_dec_string [of n] show ?thesis
    by (simp add: digits_value_def dec_value_def dec_string_digits)
qed

lemma stoul_dec_string:
  assumes "n < 2 ^ 64" shows "stoul (dec_string n) = Inr (of_nat n)"
proof -
  obtain c cs where ds: "dec_string n = c # cs" by (cases "dec_string n") simp_all
  then have c: "digit_in_base 10 c \<noteq> None" using dec_string_base10 [of n] by (simp add: base_digits_def)
  note nc = digit_in_base_char [OF c, simplified]
  have tw: "takeWhile (\<lambda>c. digit_in_base 10 c \<noteq> None) (dec_string n) = dec_string n"
    using takeWhile_digits [OF dec_string_base10, of "[]"] by simp
  have s1: "dropWhile isspace (dec_string n) = dec_string n" and hd: "hd (dec_string n) \<noteq> CHR ''-''" "hd (dec_string n) \<noteq> CHR ''+''"
    using ds nc by simp_all
  have num: "strtoul 10 (dec_string n) = (of_nat n, [])"
    using strtoul_digits [OF dec_string_base10, of "[]" n] assms by (simp add: digits_value_dec_string)
  show ?thesis unfolding stoul_def Let_def s1
    using assms by (simp add: hd tw num digits_value_dec_string del: not_None_eq)
qed

lemma no_tab_dec_string: "tab \<notin> set (dec_string n)"
  using dec_string_digits [of tab n] by (auto simp: tab_def is_digit_def)

lemma unat_u32_lt: "unat (w :: u32) < 2 ^ 64"
proof -
  have "unat w < 2 ^ 32" using unsigned_less [where 'a = nat and w = w] by simp
  then show ?thesis by simp
qed

lemma ucast_back_u32: "ucast (ucast (w :: u32) :: u64) = w"
  by transfer simp

lemma index_entry_print:
  assumes "row_ok (name, e)"
  shows "print_row (name, e) \<noteq> []" and "length (SplitTab (print_row (name, e))) = 6"
    and "SplitTab (print_row (name, e)) ! 0 = name" and "index_entry (SplitTab (print_row (name, e))) = Inr e"
proof -
  let ?cols = "[name, ix_core e, ix_die e, dec_string (unat (ix_ram_kb e)),
     dec_string (unat (ix_flash_kb e)), dec_string (unat (ix_core_count e))]"
  have cols: "SplitTab (print_row (name, e)) = ?cols"
    using assms unfolding print_row_def prod.case
    by (intro SplitTab_join) (simp_all add: row_ok_def no_tab_dec_string)
  then show "length (SplitTab (print_row (name, e))) = 6" "SplitTab (print_row (name, e)) ! 0 = name" by simp_all
  show "print_row (name, e) \<noteq> []" by (simp add: print_row_def)
  show "index_entry (SplitTab (print_row (name, e))) = Inr e"
    unfolding cols index_entry_def nth_Cons_numeral nth_Cons_0 nth_Cons_Suc One_nat_def
    by (simp add: stoul_dec_string [OF unat_u32_lt] ucast_back_u32)
qed

lemma index_lines_rows:
  "list_all row_ok rows \<Longrightarrow> index_lines (map print_row rows) index = Inr (map_of rows ++ index)"
proof (induction rows arbitrary: index)
  case (Cons row rows)
  obtain name e where row: "row = (name, e)" by (cases row)
  with Cons.prems have ok: "row_ok (name, e)" by simp
  note p = index_entry_print [OF ok]
  have oks: "list_all row_ok rows" using Cons.prems by simp
  have eq: "map_of rows ++ (if index name = None then index(name \<mapsto> e) else index) = map_of (row # rows) ++ index"
    by (auto simp: row map_add_def fun_eq_iff split: option.splits)
  have "index_lines (map print_row (row # rows)) index =
      index_lines (map print_row rows) (if index name = None then index(name \<mapsto> e) else index)"
    using p by (simp add: row Let_def)
  then show ?case by (simp only: Cons.IH [OF oks] eq)
qed simp

text \<open>loading an index printed from rows finds, for each device name, the first row of that
  name with all its columns, and nothing for a name no row has.\<close>

lemma device_index_roundtrip:
  assumes "list_all row_ok rows"
  shows "\<exists>index. DeviceIndex_Load (Some (header # map print_row rows)) = Inr (Some index) \<and>
    (\<forall>name. DeviceIndex_Find index name = map_of rows name)"
  using index_lines_rows [OF assms, of Map.empty]
  by (simp add: DeviceIndex_Load_def DeviceIndex_Find_def)

definition sample_row :: "string \<times> DeviceIndexEntry" where
  "sample_row = (''STM32H7S3'', \<lparr>ix_core = ''CM7'', ix_die = ''DIE485'', ix_ram_kb = 620, ix_flash_kb = 64, ix_core_count = 1\<rparr>)"

theorem device_index_roundtrip_witness:
  "\<exists>index. DeviceIndex_Load (Some [''header'', print_row sample_row]) = Inr (Some index) \<and>
    DeviceIndex_Find index ''STM32H7S3'' = Some (snd sample_row)"
  using device_index_roundtrip [of "[sample_row]" "''header''"]
  by (auto simp: sample_row_def row_ok_def tab_def)

end
