(* ===== verification/Device_Manager.thy ===== *)
theory Device_Manager
  imports Memory_Manager Device_Pack
begin

text \<open>
  \<open>core/components/device_manager\<close>: peripherals by name.  Reading a peripheral coalesces its
  registers into runs of adjacent registers of one width, reads each run once and decodes
  the registers from it; writing one register bumps the epoch of every watch on the
  peripheral.  Watches poll in threads of their own; the locked sections of their loop are
  the atomic steps here.
\<close>

section \<open>Little-endian values\<close>

text \<open>Reading past the data and shifting a 32-bit value by 32 or more are undefined in the
  source, and \<open>None\<close> here.\<close>

definition DecodeLE :: "u8 list \<Rightarrow> u32 \<Rightarrow> u32 option" where
  "DecodeLE data size_bits =
     (let bytes = unat (size_bits div 8)
      in if bytes \<le> length data \<and> bytes \<le> 4
         then Some (foldl (\<lambda>value i. value OR push_bit (8 * i) (ucast (data ! i))) 0 [0..<bytes])
         else None)"

definition EncodeLE :: "u32 \<Rightarrow> u32 \<Rightarrow> u8 list option" where
  "EncodeLE value size_bits =
     (let bytes = unat (size_bits div 8)
      in if bytes \<le> 4 then Some (map (\<lambda>i. ucast (drop_bit (8 * i) value AND 0xFF)) [0..<bytes]) else None)"

section \<open>State\<close>

record RegisterRun =
  run_start_offset :: u32
  run_byte_length :: u32
  run_registers :: "Register list"

record RegisterValue =
  rv_name :: string
  rv_value :: u32

datatype peripheral_event =
    is_PeripheralWatchDataEvent: PeripheralWatchDataEvent (pd_watch_id: s64) (pd_sequence: u64) (pd_epoch: u64) (pd_registers: "RegisterValue list")
  | PeripheralWatchStateEvent (ps_watch_id: s64) (ps_active: bool) (ps_detail: string)

text \<open>Where a worker stands: before its next poll, reading without the lock since it captured
  an epoch, about to check the epoch of what it read, or returned.\<close>

datatype watch_pc = AtLoop | Reading u64 | Checking u64 "RegisterValue list" | Returned

record PeripheralWatch =
  pw_id :: s64
  pw_peripheral_name :: string
  pw_base_address :: u32
  pw_runs :: "RegisterRun list"
  pw_interval_ms :: u64
  pw_stopping :: bool
  pw_sequence :: u64
  pw_epoch :: u64
  pw_last_read_ok :: bool
  pw_pc :: watch_pc

record DeviceManager =
  dm_memory :: MemoryMap
  dm_core :: "Device option"
  dm_svd_path :: string
  dm_svd_future :: bool
  dm_device_peripherals :: "Device option"
  dm_device_peripherals_error :: string
  dm_next_watch_id :: s64
  dm_watches :: "s64 \<rightharpoonup> PeripheralWatch"

definition new_DeviceManager :: DeviceManager where
  "new_DeviceManager = \<lparr>dm_memory = \<lparr>m_regions = []\<rparr>, dm_core = None, dm_svd_path = [], dm_svd_future = False,
     dm_device_peripherals = None, dm_device_peripherals_error = [], dm_next_watch_id = 1, dm_watches = Map.empty\<rparr>"

section \<open>Configuration\<close>

text \<open>The background parse runs once; its result is stored when it ends.\<close>

definition EnsureDevicePeripherals :: "(string \<Rightarrow> string + deviceType) \<Rightarrow> DeviceManager \<Rightarrow> DeviceManager" where
  "EnsureDevicePeripherals parse m =
     (if dm_svd_future m then m
      else
        (let m' = m\<lparr>dm_svd_future := True\<rparr>
         in if dm_svd_path m = [] then m'
            else (case LoadSvd parse (dm_svd_path m) of
                    Inr d \<Rightarrow> m'\<lparr>dm_device_peripherals := Some d\<rparr>
                  | Inl e \<Rightarrow> m'\<lparr>dm_device_peripherals_error := e\<rparr>)))"

definition Configure :: "pack_env \<Rightarrow> string \<Rightarrow> string \<Rightarrow> DeviceManager \<Rightarrow> std_exception + DeviceManager" where
  "Configure env device_name svd_path m =
     (let m1 = EnsureDevicePeripherals (parse_svd env) (m\<lparr>dm_svd_path := svd_path\<rparr>)
      in if device_name = [] then Inr m1
         else (case DevicePack_Load env device_name of
                 Inl e \<Rightarrow> Inl e
               | Inr pack \<Rightarrow> Inr (m1\<lparr>dm_memory := pack_memory pack, dm_core := pack_core pack\<rparr>)))"

definition FindPeripheral :: "DeviceManager \<Rightarrow> string \<Rightarrow> bool \<Rightarrow> Peripheral option" where
  "FindPeripheral m name core =
     (case (if core then dm_core m else dm_device_peripherals m) of
        None \<Rightarrow> None
      | Some device \<Rightarrow> List.find (\<lambda>p. pe_name p = name) (dv_peripherals device))"

section \<open>Runs of registers\<close>

definition reg_bytes :: "Register \<Rightarrow> u32" where
  "reg_bytes reg = rg_size_bits reg div 8"

definition new_run :: "Register \<Rightarrow> RegisterRun" where
  "new_run reg = \<lparr>run_start_offset = rg_address_offset reg, run_byte_length = reg_bytes reg, run_registers = [reg]\<rparr>"

definition add_register :: "RegisterRun list \<Rightarrow> Register \<Rightarrow> RegisterRun list" where
  "add_register runs reg =
     (if runs \<noteq> [] \<and>
         rg_address_offset reg = run_start_offset (last runs) + run_byte_length (last runs) \<and>
         rg_size_bits reg = rg_size_bits (last (run_registers (last runs)))
      then butlast runs @ [(last runs)\<lparr>run_byte_length := run_byte_length (last runs) + reg_bytes reg,
                             run_registers := run_registers (last runs) @ [reg]\<rparr>]
      else runs @ [new_run reg])"

definition candidates :: "Peripheral \<Rightarrow> bool \<Rightarrow> Register list" where
  "candidates peripheral safe_only = filter (\<lambda>reg. \<not> safe_only \<or> ReadSafe reg) (pe_registers peripheral)"

definition CoalesceSafeRuns ::
  "((Register \<Rightarrow> u32) \<Rightarrow> Register list \<Rightarrow> Register list) \<Rightarrow> Peripheral \<Rightarrow> bool \<Rightarrow> RegisterRun list" where
  "CoalesceSafeRuns srt peripheral safe_only =
     foldl add_register [] (srt rg_address_offset (candidates peripheral safe_only))"

section \<open>Reading and writing\<close>

datatype device_error = DeviceError dap_error | ReadPastData

text \<open>Decoding the registers of one run, each at the running offset into its data.\<close>

fun decode_run :: "u8 list \<Rightarrow> nat \<Rightarrow> Register list \<Rightarrow> RegisterValue list option" where
  "decode_run data offset [] = Some []"
| "decode_run data offset (reg # regs) =
     (case DecodeLE (drop offset data) (rg_size_bits reg) of
        None \<Rightarrow> None
      | Some v \<Rightarrow> map_option ((#) \<lparr>rv_name = rg_name reg, rv_value = v\<rparr>)
          (decode_run data (offset + unat (rg_size_bits reg div 8)) regs))"

fun read_runs :: "'w read_fn \<Rightarrow> u32 \<Rightarrow> RegisterRun list \<Rightarrow> RegisterValue list \<Rightarrow> 'w \<Rightarrow> (device_error + RegisterValue list) \<times> 'w" where
  "read_runs rd base [] values w = (Inr values, w)"
| "read_runs rd base (run # runs) values w =
     (case rd w (ucast (base + run_start_offset run)) (ucast (run_byte_length run)) \<lparr>target_name = []\<rparr> of
        (Inl e, w') \<Rightarrow> (Inl (DeviceError e), w')
      | (Inr r, w') \<Rightarrow>
          (case decode_run (rd_data r) 0 (run_registers run) of
             None \<Rightarrow> (Inl ReadPastData, w')
           | Some vs \<Rightarrow> read_runs rd base runs (values @ vs) w'))"

definition ReadPeripheral ::
  "((Register \<Rightarrow> u32) \<Rightarrow> Register list \<Rightarrow> Register list) \<Rightarrow> 'w read_fn \<Rightarrow> DeviceManager
     \<Rightarrow> string \<Rightarrow> bool \<Rightarrow> bool \<Rightarrow> 'w \<Rightarrow> (device_error + RegisterValue list) \<times> 'w" where
  "ReadPeripheral srt rd m peripheral_name safe_only core w =
     (case FindPeripheral m peripheral_name core of
        None \<Rightarrow> (Inl (DeviceError (DAPError (''no such peripheral: '' @ peripheral_name))), w)
      | Some peripheral \<Rightarrow>
          read_runs rd (pe_base_address peripheral) (CoalesceSafeRuns srt peripheral safe_only) [] w)"

definition bump_watch :: "string \<Rightarrow> PeripheralWatch \<Rightarrow> PeripheralWatch" where
  "bump_watch peripheral_name watch =
     (if pw_peripheral_name watch \<noteq> peripheral_name then watch else watch\<lparr>pw_epoch := pw_epoch watch + 1\<rparr>)"

definition BumpWatchEpochs :: "string \<Rightarrow> DeviceManager \<Rightarrow> DeviceManager" where
  "BumpWatchEpochs peripheral_name m =
     m\<lparr>dm_watches := (\<lambda>id. map_option (bump_watch peripheral_name) (dm_watches m id))\<rparr>"

definition WritePeripheralRegister ::
  "'w read_fn \<Rightarrow> 'w write_fn \<Rightarrow> DeviceManager \<Rightarrow> string \<Rightarrow> string \<Rightarrow> u32 \<Rightarrow> bool \<Rightarrow> 'w
     \<Rightarrow> (device_error + u32 option) \<times> DeviceManager \<times> 'w" where
  "WritePeripheralRegister rd wr m peripheral_name register_name value core w =
     (case FindPeripheral m peripheral_name core of
        None \<Rightarrow> (Inl (DeviceError (DAPError (''no such peripheral: '' @ peripheral_name))), m, w)
      | Some peripheral \<Rightarrow>
          (case List.find (\<lambda>r. rg_name r = register_name) (pe_registers peripheral) of
             None \<Rightarrow> (Inl (DeviceError (DAPError (''no such register: '' @ peripheral_name @ ''::'' @ register_name))), m, w)
           | Some reg \<Rightarrow>
               (case EncodeLE value (rg_size_bits reg) of
                  None \<Rightarrow> (Inl ReadPastData, m, w)
                | Some encoded \<Rightarrow>
                    (case wr w (ucast (pe_base_address peripheral + rg_address_offset reg)) encoded False \<lparr>target_name = []\<rparr> of
                       (Inl e, w1) \<Rightarrow> (Inl (DeviceError e), m, w1)
                     | (Inr _, w1) \<Rightarrow>
                         (let m1 = BumpWatchEpochs peripheral_name m
                          in if \<not> ReadSafe reg then (Inr None, m1, w1)
                             else (case rd w1 (ucast (pe_base_address peripheral + rg_address_offset reg))
                                     (ucast (rg_size_bits reg div 8)) \<lparr>target_name = []\<rparr> of
                                     (Inl e, w2) \<Rightarrow> (Inl (DeviceError e), m1, w2)
                                   | (Inr r, w2) \<Rightarrow>
                                       (case DecodeLE (rd_data r) (rg_size_bits reg) of
                                          None \<Rightarrow> (Inl ReadPastData, m1, w2)
                                        | Some v \<Rightarrow> (Inr (Some v), m1, w2))))))))"

section \<open>Watches\<close>

record PeripheralWatchStartArgs =
  wa_peripheral :: string
  wa_interval_ms :: u64
  wa_safe_only :: bool
  wa_core :: bool

definition StartPeripheralWatch ::
  "((Register \<Rightarrow> u32) \<Rightarrow> Register list \<Rightarrow> Register list) \<Rightarrow> bool \<Rightarrow> PeripheralWatchStartArgs \<Rightarrow> DeviceManager
     \<Rightarrow> (dap_error + s64) \<times> DeviceManager" where
  "StartPeripheralWatch srt has_openocd args m =
     (if \<not> has_openocd then (Inl (DAPError ''no active OpenOCD session to watch peripherals on''), m)
      else
        (case FindPeripheral m (wa_peripheral args) (wa_core args) of
           None \<Rightarrow> (Inl (DAPError (''no such peripheral: '' @ wa_peripheral args)), m)
         | Some peripheral \<Rightarrow>
             (let id = dm_next_watch_id m;
                  watch = \<lparr>pw_id = id, pw_peripheral_name = wa_peripheral args,
                    pw_base_address = pe_base_address peripheral,
                    pw_runs = CoalesceSafeRuns srt peripheral (wa_safe_only args),
                    pw_interval_ms = (if wa_interval_ms args = 0 then 1 else wa_interval_ms args),
                    pw_stopping = False, pw_sequence = 0, pw_epoch = 0, pw_last_read_ok = True, pw_pc = AtLoop\<rparr>
              in (Inr id, m\<lparr>dm_next_watch_id := id + 1, dm_watches := (dm_watches m)(id \<mapsto> watch)\<rparr>))))"

text \<open>Stopping takes the watch out of the map, raises its flag and joins the worker, so that the
  worker is gone when the call returns.\<close>

definition StopPeripheralWatch :: "s64 \<Rightarrow> DeviceManager \<Rightarrow> (dap_error + unit) \<times> DeviceManager" where
  "StopPeripheralWatch watch_id m =
     (case dm_watches m watch_id of
        None \<Rightarrow> (Inl (DAPError ''no such peripheral watch''), m)
      | Some _ \<Rightarrow> (Inr (), m\<lparr>dm_watches := (dm_watches m)(watch_id := None)\<rparr>))"

definition StopAllPeripheralWatches :: "DeviceManager \<Rightarrow> DeviceManager" where
  "StopAllPeripheralWatches m = m\<lparr>dm_watches := Map.empty\<rparr>"

text \<open>The worker's loop, cut at the points where it holds the lock.\<close>

definition worker_capture :: "PeripheralWatch \<Rightarrow> PeripheralWatch" where
  "worker_capture watch =
     (if pw_stopping watch then watch\<lparr>pw_pc := Returned\<rparr> else watch\<lparr>pw_pc := Reading (pw_epoch watch)\<rparr>)"

definition worker_result ::
  "(string + RegisterValue list) \<Rightarrow> u64 \<Rightarrow> PeripheralWatch \<Rightarrow> peripheral_event list \<times> PeripheralWatch" where
  "worker_result result captured_epoch watch =
     (if pw_stopping watch then ([], watch\<lparr>pw_pc := Returned\<rparr>)
      else
        (case result of
           Inr values \<Rightarrow>
             (if pw_last_read_ok watch then ([], watch\<lparr>pw_pc := Checking captured_epoch values\<rparr>)
              else ([PeripheralWatchStateEvent (pw_id watch) True []],
                    watch\<lparr>pw_last_read_ok := True, pw_pc := Checking captured_epoch values\<rparr>))
         | Inl failure \<Rightarrow>
             (if pw_last_read_ok watch
              then ([PeripheralWatchStateEvent (pw_id watch) False failure],
                    watch\<lparr>pw_last_read_ok := False, pw_pc := AtLoop\<rparr>)
              else ([], watch\<lparr>pw_pc := AtLoop\<rparr>))))"

definition worker_check :: "u64 \<Rightarrow> RegisterValue list \<Rightarrow> PeripheralWatch \<Rightarrow> peripheral_event list \<times> PeripheralWatch" where
  "worker_check captured_epoch values watch =
     (if pw_epoch watch = captured_epoch
      then ([PeripheralWatchDataEvent (pw_id watch) (pw_sequence watch) (pw_epoch watch) values],
            watch\<lparr>pw_sequence := pw_sequence watch + 1, pw_pc := AtLoop\<rparr>)
      else ([], watch\<lparr>pw_pc := AtLoop\<rparr>))"

fun poll_runs :: "'w OpenOcdMemory \<Rightarrow> u32 \<Rightarrow> RegisterRun list \<Rightarrow> RegisterValue list \<Rightarrow> 'w
    \<Rightarrow> (string + RegisterValue list) option \<times> 'w" where
  "poll_runs openocd base [] values w = (Some (Inr values), w)"
| "poll_runs openocd base (run # runs) values w =
     (case oo_ReadMemory openocd w \<lparr>target_name = []\<rparr> (ucast (base + run_start_offset run)) (run_byte_length run) of
        (Inl e, w') \<Rightarrow> (Some (Inl e), w')
      | (Inr data, w') \<Rightarrow>
          (case decode_run data 0 (run_registers run) of
             None \<Rightarrow> (None, w')
           | Some vs \<Rightarrow> poll_runs openocd base runs (values @ vs) w'))"

section \<open>Values round trip\<close>

lemma byte_of_word:
  fixes v :: u32
  shows "ucast (ucast (drop_bit k v AND 0xFF) :: u8) = take_bit 8 (drop_bit k v)"
proof -
  have "(0xFF :: u32) = mask 8" by (simp add: mask_eq_exp_minus_1)
  then have "drop_bit k v AND 0xFF = take_bit 8 (drop_bit k v)" by (simp add: take_bit_eq_mask)
  moreover have "ucast (ucast (take_bit 8 w) :: u8) = take_bit 8 w" for w :: u32
    by (rule bit_word_eqI) (auto simp: bit_simps)
  ultimately show ?thesis by simp
qed

lemma take_bit_byte_step:
  fixes v :: u32
  shows "take_bit k v OR push_bit k (take_bit 8 (drop_bit k v)) = take_bit (k + 8) v"
  by (rule bit_word_eqI) (auto simp: bit_simps)

lemma decode_encode_bits:
  fixes v :: u32
  shows "n \<le> m \<Longrightarrow> foldl (\<lambda>value i. value OR push_bit (8 * i)
      (ucast (map (\<lambda>i. ucast (drop_bit (8 * i) v AND 0xFF) :: u8) [0..<m] ! i))) 0 [0..<n]
    = take_bit (8 * n) v"
proof (induction n)
  case (Suc n)
  then show ?case
    by (simp add: byte_of_word take_bit_byte_step add.commute)
qed simp

text \<open>A register value encoded little-endian into its size and decoded again is the value
  cut to the register's whole bytes; sizes above 32 bits are refused on both sides.\<close>

lemma LE_roundtrip:
  "(case EncodeLE v size_bits of
      None \<Rightarrow> unat (size_bits div 8) > 4 \<and> (\<forall>data. DecodeLE data size_bits = None)
    | Some bytes \<Rightarrow> length bytes = unat (size_bits div 8) \<and>
        DecodeLE bytes size_bits = Some (take_bit (8 * unat (size_bits div 8)) v))"
  by (simp add: EncodeLE_def DecodeLE_def Let_def decode_encode_bits)

section \<open>Coalesced reads\<close>

text \<open>The registers of a run lie back to back from an offset on.\<close>

fun laid_out :: "u32 \<Rightarrow> Register list \<Rightarrow> bool" where
  "laid_out off [] = True"
| "laid_out off (r # rs) = (rg_address_offset r = off \<and> laid_out (off + reg_bytes r) rs)"

definition run_ok :: "RegisterRun \<Rightarrow> bool" where
  "run_ok run \<longleftrightarrow> run_registers run \<noteq> [] \<and> laid_out (run_start_offset run) (run_registers run) \<and>
     run_byte_length run = sum_list (map reg_bytes (run_registers run)) \<and>
     (\<forall>r\<in>set (run_registers run). rg_size_bits r = rg_size_bits (last (run_registers run)))"

lemma laid_out_snoc:
  "laid_out off (rs @ [r]) \<longleftrightarrow> laid_out off rs \<and> rg_address_offset r = off + sum_list (map reg_bytes rs)"
  by (induction rs arbitrary: off) (auto simp: add.assoc)

lemma run_ok_new: "run_ok (new_run r)"
  by (simp add: run_ok_def new_run_def)

lemma add_register_ok:
  assumes "list_all run_ok runs"
  shows "list_all run_ok (add_register runs r)"
    and "concat (map run_registers (add_register runs r)) = concat (map run_registers runs) @ [r]"
proof -
  have "list_all run_ok (add_register runs r) \<and>
      concat (map run_registers (add_register runs r)) = concat (map run_registers runs) @ [r]"
  proof (cases runs rule: rev_cases)
    case Nil
    then show ?thesis by (simp add: add_register_def run_ok_new) (simp add: new_run_def)
  next
    case (snoc rs run)
    with assms have ok: "run_ok run" and oks: "list_all run_ok rs" by simp_all
    show ?thesis
    proof (cases "rg_address_offset r = run_start_offset run + run_byte_length run \<and>
        rg_size_bits r = rg_size_bits (last (run_registers run))")
      case True
      let ?run = "run\<lparr>run_byte_length := run_byte_length run + reg_bytes r, run_registers := run_registers run @ [r]\<rparr>"
      have eq: "add_register runs r = rs @ [?run]" using True snoc by (simp add: add_register_def)
      from ok have d: "\<And>x. x \<in> set (run_registers run) \<Longrightarrow> rg_size_bits x = rg_size_bits (last (run_registers run))"
        unfolding run_ok_def by blast
      have "\<forall>x\<in>set (run_registers run @ [r]). rg_size_bits x = rg_size_bits r"
      proof
        fix x assume "x \<in> set (run_registers run @ [r])"
        then show "rg_size_bits x = rg_size_bits r" using d [of x] conjunct2 [OF True] by (cases "x = r") simp_all
      qed
      moreover have "laid_out (run_start_offset run) (run_registers run @ [r])"
        using ok conjunct1 [OF True] by (simp add: run_ok_def laid_out_snoc)
      moreover have "run_byte_length run + reg_bytes r = sum_list (map reg_bytes (run_registers run @ [r]))"
        using ok by (simp add: run_ok_def)
      ultimately have "run_ok ?run" by (simp add: run_ok_def)
      then show ?thesis unfolding eq using oks snoc by simp
    next
      case False
      then have "add_register runs r = runs @ [new_run r]" using snoc by (simp add: add_register_def)
      then show ?thesis using assms run_ok_new [of r] by (simp add: new_run_def)
    qed
  qed
  then show "list_all run_ok (add_register runs r)"
    and "concat (map run_registers (add_register runs r)) = concat (map run_registers runs) @ [r]" by auto
qed

lemma coalesce_ok:
  "list_all run_ok runs \<Longrightarrow> list_all run_ok (foldl add_register runs regs) \<and>
   concat (map run_registers (foldl add_register runs regs)) = concat (map run_registers runs) @ regs"
  by (induction regs arbitrary: runs) (simp_all add: add_register_ok)

text \<open>The bytes of memory from an address on, and the value of a register there.\<close>

definition mem_bytes :: "(u64 \<Rightarrow> u8) \<Rightarrow> u64 \<Rightarrow> nat \<Rightarrow> u8 list" where
  "mem_bytes mem a n = map (\<lambda>i. mem (a + of_nat i)) [0..<n]"

definition register_value :: "(u64 \<Rightarrow> u8) \<Rightarrow> u32 \<Rightarrow> Register \<Rightarrow> RegisterValue" where
  "register_value mem base r = \<lparr>rv_name = rg_name r,
     rv_value = the (DecodeLE (mem_bytes mem (ucast (base + rg_address_offset r)) (unat (reg_bytes r))) (rg_size_bits r))\<rparr>"

definition register_fits :: "u32 \<Rightarrow> Register \<Rightarrow> bool" where
  "register_fits base r \<longleftrightarrow> unat (reg_bytes r) \<le> 4 \<and>
     unat base + unat (rg_address_offset r) + unat (reg_bytes r) < 2 ^ 32"

definition exact_reader :: "'w read_fn \<Rightarrow> 'w \<Rightarrow> (u64 \<Rightarrow> u8) \<Rightarrow> bool" where
  "exact_reader rd w mem \<longleftrightarrow> (\<forall>a n. rd w a n \<lparr>target_name = []\<rparr> =
     (Inr \<lparr>rd_data = mem_bytes mem a (unat n), rd_address = a, rd_unreadable_bytes = None\<rparr>, w))"

lemma DecodeLE_prefix:
  assumes "unat (size_bits div 8) \<le> n" and "n \<le> length data"
  shows "DecodeLE data size_bits = DecodeLE (take n data) size_bits"
  using assms unfolding DecodeLE_def Let_def
  by (auto intro!: arg_cong [of _ _ Some] foldl_cong)

lemma drop_mem_bytes: "drop k (mem_bytes mem a n) = mem_bytes mem (a + of_nat k) (n - k)"
  by (simp add: mem_bytes_def drop_map drop_upt map_add_upt [symmetric] add.assoc add.commute add.left_commute)
    (rule nth_equalityI, auto simp: ac_simps)

lemma take_mem_bytes: "m \<le> n \<Longrightarrow> take m (mem_bytes mem a n) = mem_bytes mem a m"
  by (simp add: mem_bytes_def take_map min_def)

lemma ucast_plus_u64:
  fixes x y :: u32
  assumes "unat x + unat y < 2 ^ 32"
  shows "(ucast (x + y) :: u64) = ucast x + ucast y"
proof -
  have "unat (x + y) = unat x + unat y" using assms by (subst unat_plus_no_wrap) simp_all
  moreover have "unat (ucast x + ucast y :: u64) = unat x + unat y"
    using assms by (subst unat_plus_no_wrap) simp_all
  ultimately show ?thesis by (simp add: word_unat_eq_iff)
qed

lemma fits_step:
  assumes "register_fits base r" and "rg_address_offset r = off"
  shows "unat (off + reg_bytes r) = unat off + unat (reg_bytes r)"
    and "(ucast (base + (off + reg_bytes r)) :: u64) = ucast (base + off) + of_nat (unat (reg_bytes r))"
proof -
  from assms have b: "unat base + unat off + unat (reg_bytes r) < 2 ^ 32" by (simp add: register_fits_def)
  then show "unat (off + reg_bytes r) = unat off + unat (reg_bytes r)" by (subst unat_plus_no_wrap) simp_all
  have "unat (base + off) = unat base + unat off" using b by (subst unat_plus_no_wrap) simp_all
  with b have "(ucast ((base + off) + reg_bytes r) :: u64) = ucast (base + off) + ucast (reg_bytes r)"
    by (intro ucast_plus_u64) simp
  then show "(ucast (base + (off + reg_bytes r)) :: u64) = ucast (base + off) + of_nat (unat (reg_bytes r))"
    by (simp add: add.assoc)
qed

lemma laid_out_bound:
  "laid_out off regs \<Longrightarrow> list_all (register_fits base) regs \<Longrightarrow> regs \<noteq> [] \<Longrightarrow>
   unat base + unat off + sum_list (map (\<lambda>r. unat (reg_bytes r)) regs) < 2 ^ 32"
proof (induction regs arbitrary: off)
  case (Cons r rs)
  then have r: "register_fits base r" "rg_address_offset r = off" by simp_all
  show ?case
  proof (cases "rs = []")
    case True
    with r show ?thesis by (simp add: register_fits_def)
  next
    case False
    with Cons.IH [of "off + reg_bytes r"] Cons.prems fits_step(1) [OF r] show ?thesis by simp
  qed
qed simp

lemma unat_sum_reg_bytes:
  "sum_list (map (\<lambda>r. unat (reg_bytes r)) regs) < 2 ^ 32 \<Longrightarrow>
   unat (sum_list (map reg_bytes regs)) = sum_list (map (\<lambda>r. unat (reg_bytes r)) regs)"
  by (induction regs) (simp_all add: unat_plus_no_wrap)

lemma decode_run_ok:
  "laid_out off regs \<Longrightarrow> list_all (register_fits base) regs \<Longrightarrow>
   k + sum_list (map (\<lambda>r. unat (reg_bytes r)) regs) \<le> n \<Longrightarrow> a + of_nat k = ucast (base + off) \<Longrightarrow>
   decode_run (mem_bytes mem a n) k regs = Some (map (register_value mem base) regs)"
proof (induction regs arbitrary: off k)
  case (Cons r rs)
  then have r: "register_fits base r" "rg_address_offset r = off" by simp_all
  let ?b = "unat (reg_bytes r)"
  have "?b \<le> n - k" using Cons.prems(3) by simp
  then have "DecodeLE (drop k (mem_bytes mem a n)) (rg_size_bits r) =
      DecodeLE (mem_bytes mem (ucast (base + off)) ?b) (rg_size_bits r)"
    using DecodeLE_prefix [of "rg_size_bits r" ?b "mem_bytes mem (ucast (base + off)) (n - k)"]
    by (simp add: drop_mem_bytes Cons.prems(4) take_mem_bytes reg_bytes_def) (simp add: mem_bytes_def)
  moreover have "\<exists>v. DecodeLE (mem_bytes mem (ucast (base + off)) ?b) (rg_size_bits r) = Some v"
    using r by (simp add: DecodeLE_def mem_bytes_def register_fits_def reg_bytes_def Let_def)
  ultimately have dec: "DecodeLE (drop k (mem_bytes mem a n)) (rg_size_bits r) = Some (rv_value (register_value mem base r))"
    using r(2) by (auto simp: register_value_def)
  have "a + of_nat (k + ?b) = ucast (base + (off + reg_bytes r))"
    using fits_step(2) [OF r] Cons.prems(4) by (simp add: add.assoc [symmetric])
  then have "decode_run (mem_bytes mem a n) (k + ?b) rs = Some (map (register_value mem base) rs)"
    using Cons.IH [of "off + reg_bytes r" "k + ?b"] Cons.prems by (simp add: add.assoc)
  then show ?case using dec by (simp add: reg_bytes_def register_value_def)
qed simp

lemma read_run_ok:
  assumes "run_ok run" and "list_all (register_fits base) (run_registers run)"
  shows "decode_run (mem_bytes mem (ucast (base + run_start_offset run)) (unat (ucast (run_byte_length run) :: u64))) 0 (run_registers run)
    = Some (map (register_value mem base) (run_registers run))"
proof -
  from assms(1) have run: "laid_out (run_start_offset run) (run_registers run)" "run_registers run \<noteq> []"
    "run_byte_length run = sum_list (map reg_bytes (run_registers run))" by (simp_all add: run_ok_def)
  from laid_out_bound [OF run(1) assms(2) run(2)]
  have "sum_list (map (\<lambda>r. unat (reg_bytes r)) (run_registers run)) < 2 ^ 32" by simp
  from unat_sum_reg_bytes [OF this] show ?thesis
    by (intro decode_run_ok [OF run(1) assms(2)]) (simp_all add: run(3))
qed

lemma read_runs_ok:
  assumes "exact_reader rd w mem"
  shows "list_all run_ok runs \<Longrightarrow> list_all (register_fits base) (concat (map run_registers runs)) \<Longrightarrow>
    read_runs rd base runs vals w = (Inr (vals @ map (register_value mem base) (concat (map run_registers runs))), w)"
proof (induction runs arbitrary: vals)
  case (Cons run runs)
  then have "run_ok run" "list_all (register_fits base) (run_registers run)" by simp_all
  from read_run_ok [OF this] Cons assms show ?case by (simp add: exact_reader_def)
qed simp

text \<open>C19: over a memory that answers every read in full, reading a peripheral in coalesced runs
  gives exactly the values of reading each of its candidate registers on its own at its
  address, in address order, with nothing left out; with \<open>safe_only\<close> only read-safe registers
  are candidates, and a run never mixes widths.\<close>

theorem ReadPeripheral_register_by_register:
  assumes "std_sort srt" and "exact_reader rd w mem" and "FindPeripheral m name core = Some p"
    and "list_all (register_fits (pe_base_address p)) (candidates p safe_only)"
  shows "ReadPeripheral srt rd m name safe_only core w =
      (Inr (map (register_value mem (pe_base_address p)) (srt rg_address_offset (candidates p safe_only))), w) \<and>
    list_all run_ok (CoalesceSafeRuns srt p safe_only)"
proof -
  let ?regs = "srt rg_address_offset (candidates p safe_only)"
  from coalesce_ok [of "[]" ?regs] have runs: "list_all run_ok (CoalesceSafeRuns srt p safe_only)"
    "concat (map run_registers (CoalesceSafeRuns srt p safe_only)) = ?regs"
    by (simp_all add: CoalesceSafeRuns_def)
  have "list_all (register_fits (pe_base_address p)) ?regs"
    using assms(4) std_sort.srt_set [OF assms(1)] by (simp add: list_all_iff)
  with read_runs_ok [OF assms(2) runs(1)] runs assms(3) show ?thesis by (simp add: ReadPeripheral_def)
qed

definition sample_register :: "string \<Rightarrow> u32 \<Rightarrow> Register" where
  "sample_register name off = \<lparr>rg_name = name, rg_description = [], rg_address_offset = off, rg_size_bits = 32,
     rg_access = kReadWrite, rg_read_action = kNone, rg_reset_value = None, rg_reset_mask = None, rg_fields = []\<rparr>"

definition sample_timer :: Peripheral where
  "sample_timer = \<lparr>pe_name = ''TIM6'', pe_description = [], pe_group_name = [], pe_base_address = 0x40001000,
     pe_address_block = \<lparr>ab_offset = 0, ab_size = 0x400, ab_usage = []\<rparr>,
     pe_registers = [sample_register ''CR2'' 4, sample_register ''CR1'' 0], pe_interrupts = []\<rparr>"

definition sample_manager :: DeviceManager where
  "sample_manager = new_DeviceManager\<lparr>dm_core := Some \<lparr>dv_name = [], dv_version = [], dv_description = [],
     dv_cpu = None, dv_address_unit_bits = 8, dv_width = 32, dv_peripherals = [sample_timer]\<rparr>\<rparr>"

definition sample_reader :: "unit read_fn" where
  "sample_reader w a n sel = (Inr \<lparr>rd_data = mem_bytes ucast a (unat n), rd_address = a, rd_unreadable_bytes = None\<rparr>, w)"

theorem ReadPeripheral_register_by_register_witness:
  "ReadPeripheral sort_key sample_reader sample_manager ''TIM6'' True True () =
     (Inr (map (register_value ucast 0x40001000) [sample_register ''CR1'' 0, sample_register ''CR2'' 4]), ())"
proof -
  have find: "FindPeripheral sample_manager ''TIM6'' True = Some sample_timer"
    by (simp add: FindPeripheral_def sample_manager_def sample_timer_def)
  have regs: "candidates sample_timer True = [sample_register ''CR2'' 4, sample_register ''CR1'' 0]"
    by (simp add: candidates_def sample_timer_def sample_register_def ReadSafe_def)
  have base: "pe_base_address sample_timer = 0x40001000" by (simp add: sample_timer_def)
  have reader: "exact_reader sample_reader () ucast" by (simp add: exact_reader_def sample_reader_def)
  have fits: "list_all (register_fits (pe_base_address sample_timer)) (candidates sample_timer True)"
    by (simp add: regs base register_fits_def reg_bytes_def sample_register_def)
  have "sort_key rg_address_offset (candidates sample_timer True) = [sample_register ''CR1'' 0, sample_register ''CR2'' 4]"
    by (simp add: regs sample_register_def)
  with ReadPeripheral_register_by_register [OF key_sort.std_sort_axioms reader find fits] base show ?thesis by simp
qed

section \<open>Watches against writes\<close>

text \<open>One watch, its worker and the writers of its peripheral.  A write changes the target first
  and bumps the epoch later.  \<open>ws_seen\<close> is how many writes had reached the target when the
  current poll began; the log pairs each event with it.\<close>

record watch_sys =
  ws_watch :: PeripheralWatch
  ws_writes :: nat
  ws_bumps :: nat
  ws_seen :: nat
  ws_log :: "(peripheral_event \<times> nat) list"

inductive watch_step :: "watch_sys \<Rightarrow> watch_sys \<Rightarrow> bool" where
  do_write: "watch_step s (s\<lparr>ws_writes := ws_writes s + 1\<rparr>)"
| do_bump: "ws_bumps s < ws_writes s \<Longrightarrow>
    watch_step s (s\<lparr>ws_bumps := ws_bumps s + 1,
      ws_watch := bump_watch (pw_peripheral_name (ws_watch s)) (ws_watch s)\<rparr>)"
| do_stop: "watch_step s (s\<lparr>ws_watch := (ws_watch s)\<lparr>pw_stopping := True\<rparr>\<rparr>)"
| do_capture: "pw_pc (ws_watch s) = AtLoop \<Longrightarrow>
    watch_step s (s\<lparr>ws_watch := worker_capture (ws_watch s), ws_seen := ws_writes s\<rparr>)"
| do_result: "pw_pc (ws_watch s) = Reading e \<Longrightarrow> worker_result r e (ws_watch s) = (events, w) \<Longrightarrow>
    watch_step s (s\<lparr>ws_watch := w, ws_log := ws_log s @ map (\<lambda>ev. (ev, ws_seen s)) events\<rparr>)"
| do_check: "pw_pc (ws_watch s) = Checking e vs \<Longrightarrow> worker_check e vs (ws_watch s) = (events, w) \<Longrightarrow>
    watch_step s (s\<lparr>ws_watch := w, ws_log := ws_log s @ map (\<lambda>ev. (ev, ws_seen s)) events\<rparr>)"

definition watch_start :: "watch_sys \<Rightarrow> bool" where
  "watch_start s \<longleftrightarrow> pw_pc (ws_watch s) = AtLoop \<and> pw_sequence (ws_watch s) = 0 \<and> pw_epoch (ws_watch s) = 0 \<and>
     pw_last_read_ok (ws_watch s) \<and> ws_writes s = 0 \<and> ws_bumps s = 0 \<and> ws_log s = []"

definition data_events :: "watch_sys \<Rightarrow> (peripheral_event \<times> nat) list" where
  "data_events s = filter (\<lambda>(ev, _). is_PeripheralWatchDataEvent ev) (ws_log s)"

definition state_flags :: "watch_sys \<Rightarrow> bool list" where
  "state_flags s = map ps_active (filter (\<lambda>ev. \<not> is_PeripheralWatchDataEvent ev) (map fst (ws_log s)))"

text \<open>A poll under way captured the epoch of some number of bumps, none above the writes it
  can have seen.\<close>

fun captured_ok :: "nat \<Rightarrow> watch_pc \<Rightarrow> bool" where
  "captured_ok seen (Reading e) = (\<exists>b \<le> seen. e = of_nat b)"
| "captured_ok seen (Checking e values) = (\<exists>b \<le> seen. e = of_nat b)"
| "captured_ok seen _ = True"

definition watch_inv :: "watch_sys \<Rightarrow> bool" where
  "watch_inv s \<longleftrightarrow> ws_bumps s \<le> ws_writes s \<and> pw_epoch (ws_watch s) = of_nat (ws_bumps s) \<and>
     captured_ok (ws_seen s) (pw_pc (ws_watch s)) \<and>
     pw_sequence (ws_watch s) = of_nat (length (data_events s)) \<and>
     map (pd_sequence \<circ> fst) (data_events s) = map of_nat [0..<length (data_events s)] \<and>
     list_all (\<lambda>(ev, seen). \<exists>b \<le> seen. pd_epoch ev = of_nat b) (data_events s) \<and>
     successively (\<noteq>) (True # state_flags s) \<and> last (True # state_flags s) = pw_last_read_ok (ws_watch s)"

lemma captured_ok_mono: "captured_ok n pc \<Longrightarrow> n \<le> m \<Longrightarrow> captured_ok m pc"
  by (cases pc) (auto intro: le_trans)

lemmas watch_defs = watch_inv_def data_events_def state_flags_def

lemma watch_inv_log:
  assumes "watch_inv s" and "captured_ok (ws_seen s) (pw_pc w)" and "pw_epoch w = pw_epoch (ws_watch s)"
    and "pw_sequence w = pw_sequence (ws_watch s)"
    and "(events = [] \<and> pw_last_read_ok w = pw_last_read_ok (ws_watch s)) \<or>
         (\<exists>i d. events = [PeripheralWatchStateEvent i (pw_last_read_ok w) d] \<and> pw_last_read_ok w \<noteq> pw_last_read_ok (ws_watch s))"
  shows "watch_inv (s\<lparr>ws_watch := w, ws_log := ws_log s @ map (\<lambda>ev. (ev, ws_seen s)) events\<rparr>)"
  using assms(5)
proof
  assume "events = [] \<and> pw_last_read_ok w = pw_last_read_ok (ws_watch s)"
  with assms show ?thesis by (simp add: watch_defs)
next
  assume "\<exists>i d. events = [PeripheralWatchStateEvent i (pw_last_read_ok w) d] \<and> pw_last_read_ok w \<noteq> pw_last_read_ok (ws_watch s)"
  then obtain i d where ev: "events = [PeripheralWatchStateEvent i (pw_last_read_ok w) d]"
    and ne: "pw_last_read_ok w \<noteq> pw_last_read_ok (ws_watch s)" by blast
  let ?t = "s\<lparr>ws_watch := w, ws_log := ws_log s @ map (\<lambda>ev. (ev, ws_seen s)) events\<rparr>"
  have data: "data_events ?t = data_events s" by (simp add: data_events_def ev)
  have flags: "True # state_flags ?t = (True # state_flags s) @ [pw_last_read_ok w]" by (simp add: state_flags_def ev)
  have "successively (\<noteq>) (True # state_flags ?t)"
    unfolding flags successively_snoc_bool using assms(1) ne by (simp add: watch_inv_def)
  moreover have "last (True # state_flags ?t) = pw_last_read_ok w" unfolding flags by simp
  ultimately show ?thesis using assms(1-4) unfolding watch_inv_def data by simp
qed

lemma watch_inv_data:
  assumes "watch_inv s" and pc: "pw_pc (ws_watch s) = Checking e values" and "pw_epoch (ws_watch s) = e"
  shows "watch_inv (s\<lparr>ws_watch := (ws_watch s)\<lparr>pw_sequence := pw_sequence (ws_watch s) + 1, pw_pc := AtLoop\<rparr>,
    ws_log := ws_log s @ [(PeripheralWatchDataEvent i (pw_sequence (ws_watch s)) (pw_epoch (ws_watch s)) values, ws_seen s)]\<rparr>)"
proof -
  let ?ev = "(PeripheralWatchDataEvent i (pw_sequence (ws_watch s)) (pw_epoch (ws_watch s)) values, ws_seen s)"
  let ?t = "s\<lparr>ws_watch := (ws_watch s)\<lparr>pw_sequence := pw_sequence (ws_watch s) + 1, pw_pc := AtLoop\<rparr>,
    ws_log := ws_log s @ [?ev]\<rparr>"
  have data: "data_events ?t = data_events s @ [?ev]" by (simp add: data_events_def)
  have flags: "state_flags ?t = state_flags s" by (simp add: state_flags_def)
  from assms(1) have "captured_ok (ws_seen s) (pw_pc (ws_watch s))" unfolding watch_inv_def by blast
  then have "\<exists>b \<le> ws_seen s. e = of_nat b" unfolding pc by simp
  then have "\<exists>b \<le> ws_seen s. pw_epoch (ws_watch s) = of_nat b" using assms(3) by blast
  moreover have "pw_sequence (ws_watch s) = of_nat (length (data_events s))" using assms(1) by (simp add: watch_inv_def)
  ultimately show ?thesis using assms(1) unfolding watch_inv_def data flags by simp
qed

lemma watch_step_inv:
  assumes "watch_step s t" and "watch_inv s" shows "watch_inv t"
  using assms
proof cases
  case do_write
  with assms(2) show ?thesis by (simp add: watch_defs)
next
  case do_bump
  with assms(2) show ?thesis by (simp add: watch_defs bump_watch_def add.commute)
next
  case do_stop
  with assms(2) show ?thesis by (simp add: watch_defs)
next
  case do_capture
  with assms(2) show ?thesis by (auto simp: watch_defs worker_capture_def)
next
  case (do_result e r events w)
  from do_result(2) assms(2) have "captured_ok (ws_seen s) (Checking e vs)" for vs
    by (simp add: watch_inv_def)
  with do_result(3) show ?thesis unfolding do_result(1)
    by (intro watch_inv_log [OF assms(2)])
      (auto simp: worker_result_def split: if_splits sum.splits)
next
  case (do_check e vs events w)
  show ?thesis
  proof (cases "pw_epoch (ws_watch s) = e")
    case True
    then show ?thesis using do_check(3) watch_inv_data [OF assms(2) do_check(2) True, of "pw_id (ws_watch s)"]
      unfolding do_check(1) by (auto simp: worker_check_def)
  next
    case False
    with do_check(3) show ?thesis unfolding do_check(1)
      by (intro watch_inv_log [OF assms(2)]) (auto simp: worker_check_def)
  qed
qed

lemma watch_reachable_inv:
  assumes "watch_start s0" and "watch_step\<^sup>*\<^sup>* s0 s" shows "watch_inv s"
  using assms(2)
proof (induction rule: rtranclp_induct)
  case base
  from assms(1) show ?case by (simp add: watch_start_def watch_defs)
next
  case (step t u)
  then show ?case using watch_step_inv by blast 
qed

text \<open>C20: over any interleaving of writes, epoch bumps, a stop request and the worker's polls, the
  data events of a watch carry the sequence numbers 0, 1, 2, ... without a gap, an event of
  epoch b was read after at least b writes had reached the target, and state events
  alternate between inactive and active, beginning with inactive.\<close>

theorem peripheral_watch_frames:
  assumes "watch_start s0" and "watch_step\<^sup>*\<^sup>* s0 s"
  shows "map (pd_sequence \<circ> fst) (data_events s) = map of_nat [0..<length (data_events s)] \<and>
    list_all (\<lambda>(ev, seen). \<exists>b \<le> seen. pd_epoch ev = of_nat b) (data_events s) \<and>
    successively (\<noteq>) (True # state_flags s)"
  using watch_reachable_inv [OF assms] by (simp add: watch_inv_def)

definition sample_watch :: PeripheralWatch where
  "sample_watch = \<lparr>pw_id = 1, pw_peripheral_name = ''TIM6'', pw_base_address = 0x40001000, pw_runs = [],
     pw_interval_ms = 500, pw_stopping = False, pw_sequence = 0, pw_epoch = 0, pw_last_read_ok = True, pw_pc = AtLoop\<rparr>"

definition sample_sys :: watch_sys where
  "sample_sys = \<lparr>ws_watch = sample_watch, ws_writes = 0, ws_bumps = 0, ws_seen = 0, ws_log = []\<rparr>"

text \<open>Capture, read, then a write reaches the target, then the frame goes out.\<close>

definition sample_stale :: watch_sys where
  "sample_stale = \<lparr>ws_watch = sample_watch\<lparr>pw_sequence := 1\<rparr>, ws_writes = 1, ws_bumps = 0, ws_seen = 0,
     ws_log = [(PeripheralWatchDataEvent 1 0 0 [], 0)]\<rparr>"

lemma sample_stale_reachable: "watch_step\<^sup>*\<^sup>* sample_sys sample_stale"
proof -
  let ?s1 = "sample_sys\<lparr>ws_watch := worker_capture (ws_watch sample_sys), ws_seen := ws_writes sample_sys\<rparr>"
  have 1: "watch_step sample_sys ?s1" by (rule do_capture) (simp add: sample_sys_def sample_watch_def)
  let ?w2 = "sample_watch\<lparr>pw_pc := Checking 0 []\<rparr>"
  let ?s2 = "?s1\<lparr>ws_watch := ?w2, ws_log := ws_log ?s1 @ map (\<lambda>ev. (ev, ws_seen ?s1)) []\<rparr>"
  have 2: "watch_step ?s1 ?s2"
    by (rule do_result [where e = 0 and r = "Inr []"])
      (simp_all add: sample_sys_def sample_watch_def worker_capture_def worker_result_def)
  let ?s3 = "?s2\<lparr>ws_writes := ws_writes ?s2 + 1\<rparr>"
  have 3: "watch_step ?s2 ?s3" by (rule do_write)
  let ?ev = "PeripheralWatchDataEvent 1 0 0 []"
  let ?s4 = "?s3\<lparr>ws_watch := sample_watch\<lparr>pw_sequence := 1\<rparr>, ws_log := ws_log ?s3 @ map (\<lambda>ev. (ev, ws_seen ?s3)) [?ev]\<rparr>"
  have 4: "watch_step ?s3 ?s4"
    by (rule do_check [where e = 0 and vs = "[]"]) (simp_all add: sample_watch_def worker_check_def)
  have "?s4 = sample_stale" by (simp add: sample_sys_def sample_stale_def)
  with 1 2 3 4 show ?thesis by (metis (no_types, lifting) r_into_rtranclp rtranclp.rtrancl_into_rtrancl)
qed

theorem peripheral_watch_frames_witness:
  "map (pd_sequence \<circ> fst) (data_events sample_stale) = map of_nat [0..<length (data_events sample_stale)] \<and>
   list_all (\<lambda>(ev, seen). \<exists>b \<le> seen. pd_epoch ev = of_nat b) (data_events sample_stale) \<and>
   successively (\<noteq>) (True # state_flags sample_stale)"
  by (rule peripheral_watch_frames [OF _ sample_stale_reachable])
    (simp add: watch_start_def sample_sys_def sample_watch_def)

text \<open>a frame can go out although a write has already reached the target that the frame does
  not show: the write happens before the epoch is bumped, so a poll that read before the
  write and checks between the two still passes.\<close>

lemma peripheral_watch_stale_frame:
  "\<exists>s0 s ev seen. watch_start s0 \<and> watch_step\<^sup>*\<^sup>* s0 s \<and> (ev, seen) \<in> set (data_events s) \<and> seen < ws_writes s \<and>
     pd_epoch ev = pw_epoch (ws_watch s)"
proof (intro exI conjI)
  show "watch_start sample_sys" by (simp add: watch_start_def sample_sys_def sample_watch_def)
  show "watch_step\<^sup>*\<^sup>* sample_sys sample_stale" by (rule sample_stale_reachable)
  show "(PeripheralWatchDataEvent 1 0 0 [], 0) \<in> set (data_events sample_stale)"
    by (simp add: data_events_def sample_stale_def)
qed (simp_all add: sample_stale_def sample_watch_def)

end
