(* ===== verification/Watch_Manager.thy ===== *)
theory Watch_Manager
  imports Memory_Manager
begin

text \<open>
  \<open>core/components/watch_manager\<close>: live memory watches.  Every watch has a worker thread that reads the
  watched memory through OpenOCD again and again and emits what it read; stopping a watch takes it
  out of the manager's map, raises its flag and joins the worker.  The watches live in a store under
  their identifiers; the map of the manager is the set of the identifiers it still owns.  The steps
  of the threads are the sections between two acquisitions of a lock; waiting for the next deadline
  is left to the interleaving.
\<close>

section \<open>State\<close>

datatype watch_event =
    WatchDataEvent (we_id: s64) (we_address: u64) (we_data: "u8 list") (we_sequence: u64)
  | WatchStateEvent (we_id: s64) (we_active: bool) (we_detail: string)

datatype poll_pc = LoopTop | Polling | Emitting "watch_event list" | Exited

record Watch =
  wt_id :: s64
  wt_address :: u64
  wt_size :: u64
  wt_interval_ms :: u64
  wt_selector :: MemorySelector
  wt_stopping :: bool
  wt_sequence :: u64
  wt_last_read_ok :: bool
  wt_pc :: poll_pc

record StartArgs =
  sa_address :: u64
  sa_size :: u64
  sa_interval_ms :: u64
  sa_target_name :: string

record WatchManager =
  wm_next_id :: s64
  wm_watches :: "s64 set"
  wm_store :: "s64 \<Rightarrow> Watch option"

definition new_WatchManager :: WatchManager where
  "new_WatchManager = \<lparr>wm_next_id = 1, wm_watches = {}, wm_store = Map.empty\<rparr>"

section \<open>Operations\<close>

definition WatchManager_Start :: "bool \<Rightarrow> StartArgs \<Rightarrow> WatchManager \<Rightarrow> (dap_error + s64) \<times> WatchManager" where
  "WatchManager_Start has_openocd args m =
     (if \<not> has_openocd then (Inl (DAPError ''no active OpenOCD session to watch memory on''), m)
      else if sa_size args = 0 then (Inl (DAPError ''watch size must be greater than zero''), m)
      else
        (let id = wm_next_id m;
             watch = \<lparr>wt_id = id, wt_address = sa_address args, wt_size = sa_size args,
               wt_interval_ms = (if sa_interval_ms args = 0 then 1 else sa_interval_ms args),
               wt_selector = \<lparr>target_name = sa_target_name args\<rparr>, wt_stopping = False, wt_sequence = 0,
               wt_last_read_ok = True, wt_pc = LoopTop\<rparr>
         in (Inr id, m\<lparr>wm_next_id := id + 1, wm_watches := insert id (wm_watches m), wm_store := (wm_store m)(id \<mapsto> watch)\<rparr>)))"

text \<open>The first half of stopping, up to the join.\<close>

definition raise_stop :: "Watch \<Rightarrow> Watch" where
  "raise_stop w = w\<lparr>wt_stopping := True\<rparr>"

definition WatchManager_Stop :: "s64 \<Rightarrow> WatchManager \<Rightarrow> (dap_error + unit) \<times> WatchManager" where
  "WatchManager_Stop watch_id m =
     (if watch_id \<notin> wm_watches m then (Inl (DAPError ''no such watch''), m)
      else (Inr (), m\<lparr>wm_watches := wm_watches m - {watch_id},
             wm_store := (wm_store m)(watch_id := map_option raise_stop (wm_store m watch_id))\<rparr>))"

definition StopAll :: "WatchManager \<Rightarrow> WatchManager" where
  "StopAll m = m\<lparr>wm_watches := {},
     wm_store := (\<lambda>i. if i \<in> wm_watches m then map_option raise_stop (wm_store m i) else wm_store m i)\<rparr>"

text \<open>The worker.  The size goes to OpenOCD as 32 bits.  The session may be gone when a poll comes to it.\<close>

definition poll_read :: "'w OpenOcdMemory option \<Rightarrow> 'w \<Rightarrow> Watch \<Rightarrow> string + u8 list" where
  "poll_read openocd world w =
     (case openocd of
        Some oo \<Rightarrow> fst (oo_ReadMemory oo world (wt_selector w) (wt_address w) (ucast (wt_size w)))
      | None \<Rightarrow> Inl ''no active OpenOCD session'')"

definition poll_top :: "Watch \<Rightarrow> Watch" where
  "poll_top w = w\<lparr>wt_pc := (if wt_stopping w then Exited else Polling)\<rparr>"

definition poll_result :: "string + u8 list \<Rightarrow> Watch \<Rightarrow> Watch" where
  "poll_result result w =
     (if wt_stopping w then w\<lparr>wt_pc := Exited\<rparr>
      else
        (case result of
           Inr data \<Rightarrow>
             (let became_active = (if wt_last_read_ok w then [] else [WatchStateEvent (wt_id w) True []])
              in w\<lparr>wt_last_read_ok := True, wt_sequence := wt_sequence w + 1,
                   wt_pc := Emitting (became_active @ [WatchDataEvent (wt_id w) (wt_address w) data (wt_sequence w)])\<rparr>)
         | Inl failure \<Rightarrow>
             (if wt_last_read_ok w
              then w\<lparr>wt_last_read_ok := False, wt_pc := Emitting [WatchStateEvent (wt_id w) False failure]\<rparr>
              else w\<lparr>wt_pc := Emitting []\<rparr>)))"

inductive poll_step :: "'w OpenOcdMemory option \<Rightarrow> Watch \<Rightarrow> watch_event list \<Rightarrow> Watch \<Rightarrow> bool" for openocd where
  at_top: "wt_pc w = LoopTop \<Longrightarrow> poll_step openocd w [] (poll_top w)"
| at_result: "wt_pc w = Polling \<Longrightarrow> session = openocd \<or> session = None \<Longrightarrow>
    poll_step openocd w [] (poll_result (poll_read session world w) w)"
| at_emit: "wt_pc w = Emitting (e # es) \<Longrightarrow> poll_step openocd w [e] (w\<lparr>wt_pc := Emitting es\<rparr>)"
| at_wait: "wt_pc w = Emitting [] \<Longrightarrow> poll_step openocd w [] (w\<lparr>wt_pc := LoopTop\<rparr>)"

section \<open>Threads\<close>

text \<open>The manager, what was emitted, how many watches were started, and for every stop that returned
  the length of the log at that point.\<close>

record wm_sys =
  wy_mgr :: WatchManager
  wy_log :: "watch_event list"
  wy_started :: nat
  wy_joined :: "(s64 \<times> nat) list"

inductive wm_step :: "'w OpenOcdMemory option \<Rightarrow> wm_sys \<Rightarrow> wm_sys \<Rightarrow> bool" for openocd where
  start: "WatchManager_Start has_openocd args (wy_mgr s) = (Inr i, m) \<Longrightarrow>
    wm_step openocd s (s\<lparr>wy_mgr := m, wy_started := Suc (wy_started s)\<rparr>)"
| stop: "WatchManager_Stop i (wy_mgr s) = (Inr (), m) \<Longrightarrow> wm_step openocd s (s\<lparr>wy_mgr := m\<rparr>)"
| stop_all: "wm_step openocd s (s\<lparr>wy_mgr := StopAll (wy_mgr s)\<rparr>)"
| worker: "wm_store (wy_mgr s) i = Some w \<Longrightarrow> poll_step openocd w es w' \<Longrightarrow>
    wm_step openocd s (s\<lparr>wy_mgr := (wy_mgr s)\<lparr>wm_store := (wm_store (wy_mgr s))(i \<mapsto> w')\<rparr>, wy_log := wy_log s @ es\<rparr>)"
| join: "wm_store (wy_mgr s) i = Some w \<Longrightarrow> i \<notin> wm_watches (wy_mgr s) \<Longrightarrow> wt_pc w = Exited \<Longrightarrow>
    wm_step openocd s (s\<lparr>wy_mgr := (wy_mgr s)\<lparr>wm_store := (wm_store (wy_mgr s))(i := None)\<rparr>,
      wy_joined := wy_joined s @ [(i, length (wy_log s))]\<rparr>)"

definition wm_init :: wm_sys where
  "wm_init = \<lparr>wy_mgr = new_WatchManager, wy_log = [], wy_started = 0, wy_joined = []\<rparr>"

section \<open>One watch\<close>

definition event_number :: "watch_event \<Rightarrow> u64 option" where
  "event_number e = (case e of WatchDataEvent i a d n \<Rightarrow> Some n | WatchStateEvent i b d \<Rightarrow> None)"

definition event_state :: "watch_event \<Rightarrow> bool option" where
  "event_state e = (case e of WatchDataEvent i a d n \<Rightarrow> None | WatchStateEvent i b d \<Rightarrow> Some b)"

abbreviation numbers :: "watch_event list \<Rightarrow> u64 list" where "numbers es \<equiv> List.map_filter event_number es"
abbreviation states :: "watch_event list \<Rightarrow> bool list" where "states es \<equiv> List.map_filter event_state es"

text \<open>Data numbered from 0 without gaps, \<open>n\<close> the next number; states that alternate, the last one \<open>ok\<close>.\<close>

definition orderly :: "watch_event list \<Rightarrow> bool" where
  "orderly es \<longleftrightarrow> numbers es = map of_nat [0..<length (numbers es)] \<and> successively (\<noteq>) (True # states es)"

definition stream_at :: "watch_event list \<Rightarrow> u64 \<Rightarrow> bool \<Rightarrow> bool" where
  "stream_at es n ok \<longleftrightarrow> orderly es \<and> n = of_nat (length (numbers es)) \<and> last (True # states es) = ok"

lemma event_views [simp]:
  "numbers (es @ [WatchDataEvent i a d n]) = numbers es @ [n]" "states (es @ [WatchDataEvent i a d n]) = states es"
  "numbers (es @ [WatchStateEvent i b d']) = numbers es" "states (es @ [WatchStateEvent i b d']) = states es @ [b]"
  by (simp_all add: map_filter_append List.map_filter_simps event_number_def event_state_def)

lemma stream_at_data: "stream_at es n ok \<Longrightarrow> stream_at (es @ [WatchDataEvent i a d n]) (n + 1) ok"
  by (simp add: stream_at_def orderly_def add.commute)

lemma stream_at_state:
  assumes "stream_at es n ok" and "b \<noteq> ok"
  shows "stream_at (es @ [WatchStateEvent i b d]) n b"
proof -
  have "successively (\<noteq>) ((True # states es) @ [b])"
    unfolding successively_snoc_bool using assms by (simp add: stream_at_def orderly_def)
  then show ?thesis using assms(1) by (simp add: stream_at_def orderly_def)
qed

definition unemitted :: "Watch \<Rightarrow> watch_event list" where
  "unemitted w = (case wt_pc w of Emitting es \<Rightarrow> es | _ \<Rightarrow> [])"

text \<open>What a worker emitted and still has to emit.\<close>

definition watch_ok :: "s64 \<Rightarrow> watch_event list \<Rightarrow> Watch \<Rightarrow> bool" where
  "watch_ok i es w \<longleftrightarrow> wt_id w = i \<and> list_all (\<lambda>e. we_id e = i) (unemitted w) \<and>
     stream_at (es @ unemitted w) (wt_sequence w) (wt_last_read_ok w)"

lemma watch_ok_result:
  assumes "watch_ok i es w" and "wt_pc w = Polling"
  shows "watch_ok i es (poll_result r w)"
proof -
  have s: "stream_at es (wt_sequence w) (wt_last_read_ok w)" and i: "wt_id w = i" using assms by (simp_all add: watch_ok_def unemitted_def)
  show ?thesis
  proof (cases "wt_stopping w")
    case True
    then show ?thesis using s i by (simp add: poll_result_def watch_ok_def unemitted_def)
  next
    case False
    have up: "stream_at (es @ [WatchStateEvent i True []]) (wt_sequence w) True" if "\<not> wt_last_read_ok w"
      using stream_at_state [OF s, of True] that by simp
    show ?thesis
      using False s i stream_at_state [OF s, of False] stream_at_data [OF s] stream_at_data [OF up]
      by (cases "wt_last_read_ok w"; cases r) (simp_all add: poll_result_def watch_ok_def unemitted_def Let_def)
  qed
qed

lemma poll_step_ok:
  assumes "poll_step openocd w new w'" and "watch_ok i es w"
  shows "watch_ok i (es @ new) w' \<and> list_all (\<lambda>e. we_id e = i) new"
  using assms(1)
proof (cases rule: poll_step.cases)
  case at_top
  then show ?thesis using assms(2) by (simp add: watch_ok_def poll_top_def unemitted_def)
next
  case (at_result session world)
  then show ?thesis using watch_ok_result [OF assms(2)] by simp
next
  case (at_emit e es')
  then show ?thesis using assms(2) by (simp add: watch_ok_def unemitted_def)
next
  case at_wait
  then show ?thesis using assms(2) by (simp add: watch_ok_def unemitted_def)
qed

lemma watch_ok_raise: "watch_ok i es w \<Longrightarrow> watch_ok i es (raise_stop w)"
  by (simp add: watch_ok_def raise_stop_def unemitted_def)

lemma orderly_prefix:
  assumes "orderly (es @ es')"
  shows "orderly es"
proof -
  let ?n = "length (numbers es)"
  have "take ?n (numbers (es @ es')) = take ?n (map of_nat [0..<length (numbers (es @ es'))])" using assms by (simp add: orderly_def)
  then have "numbers es = map of_nat [0..<?n]" by (simp add: map_filter_append take_map take_upt)
  moreover have "successively (\<noteq>) ((True # states es) @ states es')" using assms by (simp add: orderly_def map_filter_append)
  then have "successively (\<noteq>) (True # states es)" by (simp only: successively_append_iff)
  ultimately show ?thesis by (simp add: orderly_def)
qed

text \<open>A stop returns: once the flag is raised, every step of the worker brings it closer to its end, and
  it can always take one.\<close>

definition poll_rank :: "Watch \<Rightarrow> nat" where
  "poll_rank w = (case wt_pc w of Exited \<Rightarrow> 0 | LoopTop \<Rightarrow> 1 | Polling \<Rightarrow> 1 | Emitting es \<Rightarrow> 2 + length es)"

lemma stopped_worker_step:
  assumes "poll_step openocd w es w'" and "wt_stopping w"
  shows "wt_stopping w' \<and> poll_rank w' < poll_rank w"
  using assms by (cases rule: poll_step.cases) (simp_all add: poll_rank_def poll_top_def poll_result_def)

lemma worker_not_stuck: "wt_pc w \<noteq> Exited \<Longrightarrow> \<exists>es w'. poll_step openocd w es w'"
  by (cases "wt_pc w"; cases "unemitted w") (auto simp: unemitted_def intro: poll_step.intros)

lemma stopped_worker_exits:
  assumes "wt_stopping w"
  shows "\<exists>w'. (\<lambda>a b. \<exists>es. poll_step openocd a es b)\<^sup>*\<^sup>* w w' \<and> wt_pc w' = Exited"
  using assms
proof (induction "poll_rank w" arbitrary: w rule: less_induct)
  case less
  show ?case
  proof (cases "wt_pc w = Exited")
    case False
    then obtain es w' where st: "poll_step openocd w es w'" using worker_not_stuck by blast
    from less(1) stopped_worker_step [OF st less(2)] obtain w'' where
      "(\<lambda>a b. \<exists>es. poll_step openocd a es b)\<^sup>*\<^sup>* w' w''" "wt_pc w'' = Exited" by blast
    with st show ?thesis by (metis (mono_tags, lifting) converse_rtranclp_into_rtranclp)
  qed auto
qed

section \<open>All watches\<close>

definition events_of :: "s64 \<Rightarrow> watch_event list \<Rightarrow> watch_event list" where
  "events_of i log = filter (\<lambda>e. we_id e = i) log"

lemma events_of_append [simp]: "events_of i (log @ new) = events_of i log @ events_of i new"
  by (simp add: events_of_def)

lemma events_of_own: "list_all (\<lambda>e. we_id e = j) new \<Longrightarrow> events_of i new = (if i = j then new else [])"
  by (induction new) (auto simp: events_of_def)

definition started_ids :: "wm_sys \<Rightarrow> s64 set" where
  "started_ids s = of_nat ` {1..wy_started s}"

definition wm_inv :: "wm_sys \<Rightarrow> bool" where
  "wm_inv s \<longleftrightarrow> wm_next_id (wy_mgr s) = of_nat (Suc (wy_started s)) \<and> dom (wm_store (wy_mgr s)) \<subseteq> started_ids s \<and>
     (\<forall>i w. wm_store (wy_mgr s) i = Some w \<longrightarrow> watch_ok i (events_of i (wy_log s)) w) \<and>
     (\<forall>i. orderly (events_of i (wy_log s))) \<and> (\<forall>i. i \<notin> started_ids s \<longrightarrow> events_of i (wy_log s) = []) \<and>
     (\<forall>i n. (i, n) \<in> set (wy_joined s) \<longrightarrow> i \<in> started_ids s \<and> wm_store (wy_mgr s) i = None \<and> n \<le> length (wy_log s) \<and> events_of i (drop n (wy_log s)) = [])"

lemma fresh_id:
  assumes "Suc (wy_started s) < 2 ^ 63"
  shows "of_nat (Suc (wy_started s)) \<notin> started_ids s"
proof
  assume "of_nat (Suc (wy_started s)) \<in> started_ids s"
  then obtain k where k: "k \<le> wy_started s" "(of_nat (Suc (wy_started s)) :: s64) = of_nat k" by (auto simp: started_ids_def)
  have "unat (of_nat n :: s64) = n" if "n < 2 ^ 63" for n using that by (simp add: unsigned_of_nat take_bit_nat_eq_self)
  then have "Suc (wy_started s) = k" using k assms by (metis le_imp_less_Suc less_trans)
  with k(1) show False by simp
qed

lemma started_ids_frame [simp]:
  "started_ids (s\<lparr>wy_mgr := m\<rparr>) = started_ids s" "started_ids (s\<lparr>wy_log := log\<rparr>) = started_ids s" "started_ids (s\<lparr>wy_joined := js\<rparr>) = started_ids s"
  by (simp_all add: started_ids_def)

lemma wm_inv_store:
  assumes "wm_inv s" and "dom st \<subseteq> dom (wm_store (wy_mgr s))" and "\<And>i w. st i = Some w \<Longrightarrow> watch_ok i (events_of i (wy_log s)) w"
  shows "wm_inv (s\<lparr>wy_mgr := (wy_mgr s)\<lparr>wm_watches := ids, wm_store := st\<rparr>\<rparr>)"
proof -
  have none: "st i = None" if "wm_store (wy_mgr s) i = None" for i using assms(2) that by (metis domIff subsetD)
  have "dom st \<subseteq> started_ids s" using assms(1,2) by (auto simp: wm_inv_def)
  then show ?thesis using assms(1,3) none by (simp add: wm_inv_def)
qed

lemma wm_inv_start:
  assumes inv: "wm_inv s" and n: "Suc (wy_started s) < 2 ^ 63" and st: "WatchManager_Start has_openocd args (wy_mgr s) = (Inr i, m)"
  shows "wm_inv (s\<lparr>wy_mgr := m, wy_started := Suc (wy_started s)\<rparr>)" (is "wm_inv ?s")
proof -
  obtain w where i: "i = of_nat (Suc (wy_started s))" and m: "wm_store m = (wm_store (wy_mgr s))(i \<mapsto> w)" "wm_next_id m = i + 1"
    and w: "wt_id w = i" "wt_pc w = LoopTop" "wt_sequence w = 0" "wt_last_read_ok w"
    using st inv by (auto simp: WatchManager_Start_def Let_def wm_inv_def split: if_splits)
  have ids: "started_ids ?s = insert i (started_ids s)"
    by (auto simp: started_ids_def i image_iff intro: le_SucI elim!: le_SucE simp del: of_nat_Suc)
  have fresh: "i \<notin> started_ids s" unfolding i by (rule fresh_id [OF n])
  then have "events_of i (wy_log s) = []" using inv by (simp add: wm_inv_def)
  then have ok: "watch_ok i (events_of i (wy_log s)) w"
    using w by (simp add: watch_ok_def unemitted_def stream_at_def orderly_def List.map_filter_simps)
  have next_id: "wm_next_id m = of_nat (Suc (Suc (wy_started s)))" by (simp add: m(2) i)
  have "dom (wm_store m) \<subseteq> insert i (started_ids s)" using inv by (auto simp: m(1) wm_inv_def)
  moreover have "\<forall>j w'. wm_store m j = Some w' \<longrightarrow> watch_ok j (events_of j (wy_log s)) w'"
    using inv ok by (auto simp: m(1) wm_inv_def)
  moreover have "\<forall>j k. (j, k) \<in> set (wy_joined s) \<longrightarrow> j \<in> insert i (started_ids s) \<and> wm_store m j = None \<and> k \<le> length (wy_log s) \<and> events_of j (drop k (wy_log s)) = []"
    using inv fresh by (auto simp: m(1) wm_inv_def)
  ultimately show ?thesis using inv next_id unfolding wm_inv_def ids by simp
qed

lemma wm_inv_worker:
  assumes inv: "wm_inv s" and w: "wm_store (wy_mgr s) i = Some w" and st: "poll_step openocd w new w'"
  shows "wm_inv (s\<lparr>wy_mgr := (wy_mgr s)\<lparr>wm_store := (wm_store (wy_mgr s))(i \<mapsto> w')\<rparr>, wy_log := wy_log s @ new\<rparr>)"
proof -
  have "watch_ok i (events_of i (wy_log s)) w" using inv w by (simp add: wm_inv_def)
  from poll_step_ok [OF st this] have ok: "watch_ok i (events_of i (wy_log s) @ new) w'" and own: "list_all (\<lambda>e. we_id e = i) new" by simp_all
  have ev: "events_of j new = (if j = i then new else [])" for j by (rule events_of_own [OF own])
  have i: "i \<in> started_ids s" using inv w by (auto simp: wm_inv_def)
  have ord: "orderly (events_of i (wy_log s) @ new)" using ok by (auto simp: watch_ok_def stream_at_def intro: orderly_prefix)
  have "wm_store (wy_mgr s) j = None \<and> k \<le> length (wy_log s) + length new \<and> events_of j (drop k (wy_log s @ new)) = []"
    if "(j, k) \<in> set (wy_joined s)" for j k
    using inv that w by (auto simp: wm_inv_def ev intro: trans_le_add1)
  then show ?thesis using inv ok ord i w by (auto simp: wm_inv_def ev)
qed

lemma wm_inv_join:
  assumes inv: "wm_inv s" and w: "wm_store (wy_mgr s) i = Some w"
  shows "wm_inv (s\<lparr>wy_mgr := (wy_mgr s)\<lparr>wm_store := (wm_store (wy_mgr s))(i := None)\<rparr>, wy_joined := wy_joined s @ [(i, length (wy_log s))]\<rparr>)"
proof -
  have "i \<in> started_ids s" using inv w by (auto simp: wm_inv_def)
  then show ?thesis using inv by (auto simp: wm_inv_def events_of_def [of _ "[]"])
qed

lemma wm_step_inv:
  assumes "wm_step openocd s s'" and "wm_inv s" and "wy_started s' < 2 ^ 63"
  shows "wm_inv s' \<and> wy_started s \<le> wy_started s'"
  using assms(1)
proof (cases rule: wm_step.cases)
  case (start has_openocd args i m)
  then show ?thesis using wm_inv_start [OF assms(2)] assms(3) by simp
next
  case (stop i m)
  then have m: "m = (wy_mgr s)\<lparr>wm_watches := wm_watches (wy_mgr s) - {i},
      wm_store := (wm_store (wy_mgr s))(i := map_option raise_stop (wm_store (wy_mgr s) i))\<rparr>"
    by (auto simp: WatchManager_Stop_def split: if_splits)
  show ?thesis unfolding stop(1) m using assms(2)
    by (auto intro!: wm_inv_store [OF assms(2)] watch_ok_raise simp: wm_inv_def split: if_splits)
next
  case stop_all
  let ?st = "\<lambda>i. if i \<in> wm_watches (wy_mgr s) then map_option raise_stop (wm_store (wy_mgr s) i) else wm_store (wy_mgr s) i"
  have "dom ?st \<subseteq> dom (wm_store (wy_mgr s))" by (auto split: if_splits)
  moreover have "watch_ok i (events_of i (wy_log s)) w" if "?st i = Some w" for i w
    using assms(2) that by (auto simp: wm_inv_def intro: watch_ok_raise split: if_splits)
  ultimately show ?thesis unfolding stop_all StopAll_def using wm_inv_store [OF assms(2)] by simp
next
  case (worker i w es w')
  then show ?thesis using wm_inv_worker [OF assms(2)] by simp
next
  case (join i w)
  then show ?thesis using wm_inv_join [OF assms(2)] by simp
qed

lemma wm_started_mono: "wm_step openocd s s' \<Longrightarrow> wy_started s \<le> wy_started s'"
  by (cases rule: wm_step.cases) auto

lemma wm_reach_inv:
  assumes "(wm_step openocd)\<^sup>*\<^sup>* wm_init s" and "wy_started s < 2 ^ 63"
  shows "wm_inv s"
  using assms
proof (induction rule: rtranclp_induct)
  case base
  show ?case by (simp add: wm_inv_def wm_init_def new_WatchManager_def started_ids_def events_of_def orderly_def List.map_filter_simps)
next
  case (step s s')
  then show ?case using wm_started_mono [OF step(2)] wm_step_inv [OF step(2)] by auto
qed

section \<open>Properties\<close>

text \<open>C21: Memory watches deliver ordered streams and stop for good.  Over any interleaving of starting,
  stopping and the workers' polls: the data events of every watch carry the numbers 0, 1, 2 without
  a gap, its state events alternate beginning with an error, and once a stop of a watch has returned,
  no event of it follows.\<close>

theorem watch_streams:
  assumes "(wm_step openocd)\<^sup>*\<^sup>* wm_init s" and "wy_started s < 2 ^ 63"
  shows "orderly (events_of i (wy_log s)) \<and> ((i, n) \<in> set (wy_joined s) \<longrightarrow> events_of i (drop n (wy_log s)) = [])"
  using wm_reach_inv [OF assms] by (auto simp: wm_inv_def)

text \<open>A watch of \<open>2^32\<close> bytes reads nothing.\<close>

lemma poll_read_truncates:
  assumes "wt_size w = 2 ^ 32"
  shows "poll_read (Some oo) world w = fst (oo_ReadMemory oo world (wt_selector w) (wt_address w) 0)"
proof -
  have "(ucast (2 ^ 32 :: u64) :: u32) = 0" by (rule bit_word_eqI) (simp only: bit_ucast_iff bit_exp_iff, simp)
  with assms show ?thesis by (simp only: poll_read_def option.simps)
qed

section \<open>A watch\<close>

definition failing_openocd :: "unit OpenOcdMemory" where
  "failing_openocd = \<lparr>oo_ReadMemory = (\<lambda>w _ _ _. (Inl ''fault'', w)), oo_WriteMemory = (\<lambda>w _ _ _. (Inl ''fault'', w))\<rparr>"

definition sample_started :: Watch where
  "sample_started = \<lparr>wt_id = 1, wt_address = 0x24000000, wt_size = 4, wt_interval_ms = 500, wt_selector = \<lparr>target_name = []\<rparr>,
     wt_stopping = False, wt_sequence = 0, wt_last_read_ok = True, wt_pc = LoopTop\<rparr>"

definition sample_args :: StartArgs where
  "sample_args = \<lparr>sa_address = 0x24000000, sa_size = 4, sa_interval_ms = 500, sa_target_name = []\<rparr>"

definition watch_sys_of :: "s64 set \<Rightarrow> Watch \<Rightarrow> watch_event list \<Rightarrow> wm_sys" where
  "watch_sys_of ids w log = \<lparr>wy_mgr = \<lparr>wm_next_id = 2, wm_watches = ids, wm_store = [1 \<mapsto> w]\<rparr>, wy_log = log, wy_started = 1, wy_joined = []\<rparr>"

definition stopped_sys :: wm_sys where
  "stopped_sys = \<lparr>wy_mgr = \<lparr>wm_next_id = 2, wm_watches = {}, wm_store = Map.empty\<rparr>,
     wy_log = [WatchStateEvent 1 False ''fault''], wy_started = 1, wy_joined = [(1, 1)]\<rparr>"

lemma watch_sys_worker:
  assumes "poll_step openocd w es w'"
  shows "wm_step openocd (watch_sys_of ids w log) (watch_sys_of ids w' (log @ es))"
  using wm_step.worker [OF _ assms, of "watch_sys_of ids w log" 1] by (simp add: watch_sys_of_def)

lemma sample_watch_run: "(wm_step (Some failing_openocd))\<^sup>*\<^sup>* wm_init stopped_sys"
proof -
  let ?E = "Some failing_openocd" and ?w = sample_started
  let ?ev = "WatchStateEvent 1 False ''fault''"
  have 0: "wm_step ?E wm_init (watch_sys_of {1} ?w [])"
    using wm_step.start [of True sample_args wm_init 1 "\<lparr>wm_next_id = 2, wm_watches = {1}, wm_store = [1 \<mapsto> ?w]\<rparr>" ?E]
    by (simp add: WatchManager_Start_def sample_args_def wm_init_def new_WatchManager_def watch_sys_of_def sample_started_def Let_def)
  let ?w1 = "?w\<lparr>wt_pc := Polling\<rparr>" and ?w2 = "?w\<lparr>wt_last_read_ok := False, wt_pc := Emitting [?ev]\<rparr>"
    and ?w3 = "?w\<lparr>wt_last_read_ok := False, wt_pc := Emitting []\<rparr>" and ?w4 = "?w\<lparr>wt_last_read_ok := False\<rparr>"
  have "poll_step ?E ?w [] ?w1" using at_top [of ?w ?E] by (simp add: sample_started_def poll_top_def)
  from watch_sys_worker [OF this, of "{1}" "[]"] have 1: "wm_step ?E (watch_sys_of {1} ?w []) (watch_sys_of {1} ?w1 [])" by simp
  have "poll_step ?E ?w1 [] ?w2"
    using at_result [of ?w1 ?E ?E "()"] by (simp add: sample_started_def poll_read_def failing_openocd_def poll_result_def)
  from watch_sys_worker [OF this, of "{1}" "[]"] have 2: "wm_step ?E (watch_sys_of {1} ?w1 []) (watch_sys_of {1} ?w2 [])" by simp
  have "poll_step ?E ?w2 [?ev] ?w3" using at_emit [of ?w2 ?ev "[]" ?E] by simp
  from watch_sys_worker [OF this, of "{1}" "[]"] have 3: "wm_step ?E (watch_sys_of {1} ?w2 []) (watch_sys_of {1} ?w3 [?ev])" by simp
  have "poll_step ?E ?w3 [] ?w4" using at_wait [of ?w3 ?E] by (simp add: sample_started_def)
  from watch_sys_worker [OF this, of "{1}" "[?ev]"] have 4: "wm_step ?E (watch_sys_of {1} ?w3 [?ev]) (watch_sys_of {1} ?w4 [?ev])" by simp
  let ?w5 = "raise_stop ?w4" and ?w6 = "(raise_stop ?w4)\<lparr>wt_pc := Exited\<rparr>"
  have 5: "wm_step ?E (watch_sys_of {1} ?w4 [?ev]) (watch_sys_of {} ?w5 [?ev])"
    using wm_step.stop [of 1 "watch_sys_of {1} ?w4 [?ev]" "\<lparr>wm_next_id = 2, wm_watches = {}, wm_store = [1 \<mapsto> ?w5]\<rparr>" ?E]
    by (simp add: watch_sys_of_def WatchManager_Stop_def)
  have "poll_step ?E ?w5 [] ?w6" using at_top [of ?w5 ?E] by (simp add: sample_started_def poll_top_def raise_stop_def)
  from watch_sys_worker [OF this, of "{}" "[?ev]"] have 6: "wm_step ?E (watch_sys_of {} ?w5 [?ev]) (watch_sys_of {} ?w6 [?ev])" by simp
  have 7: "wm_step ?E (watch_sys_of {} ?w6 [?ev]) stopped_sys"
    using wm_step.join [of "watch_sys_of {} ?w6 [?ev]" 1 ?w6 ?E] by (simp add: watch_sys_of_def stopped_sys_def)
  from 0 1 2 3 4 5 6 7 show ?thesis by (meson converse_rtranclp_into_rtranclp rtranclp.rtrancl_refl)
qed

theorem watch_streams_witness:
  "orderly (events_of 1 (wy_log stopped_sys)) \<and> (1, 1) \<in> set (wy_joined stopped_sys) \<and> events_of 1 (drop 1 (wy_log stopped_sys)) = []"
proof -
  have "wy_started stopped_sys < 2 ^ 63" "(1, 1) \<in> set (wy_joined stopped_sys)" by (simp_all add: stopped_sys_def)
  with watch_streams [OF sample_watch_run, of 1 1] show ?thesis by blast
qed

end
