(* ===== verification/Exception_Attribution.thy ===== *)
theory Exception_Attribution
  imports Trace_Transform Svd
begin

text \<open>
  \<open>trace_exception_attribution\<close>: names for the exception numbers of a trace.  Core
  exceptions have fixed names; interrupt numbers, which the trace encodes in two ranges, are
  named by the device's interrupt list.
\<close>

section \<open>Names\<close>

definition kMClassExceptionNames :: "string list" where
  "kMClassExceptionNames =
     [''Reserved'', ''Reset'', ''NMI'', ''HardFault'',
      ''MemManage'', ''BusFault'', ''UsageFault'', ''Reserved'',
      ''Reserved'', ''Reserved'', ''Reserved'', ''SVCall'',
      ''DebugMonitor'', ''Reserved'', ''PendSV'', ''SysTick'',
      ''IRQ0'', ''IRQ1'', ''IRQ2'', ''IRQ3'',
      ''IRQ4'', ''IRQ5'', ''IRQ6'', ''IRQ7'',
      ''DebugHalt'', ''LazyFP Push'', ''Lockup'', ''Reserved'',
      ''Reserved'', ''Reserved'', ''Reserved'', ''Reserved'']"

definition kIrq8PlusBase :: u32 where
  "kIrq8PlusBase = 0x208"

definition kIrq8PlusLimit :: u32 where
  "kIrq8PlusLimit = 0x3EF"

definition FindPeripheralInterruptName :: "u32 \<Rightarrow> Device \<Rightarrow> string option" where
  "FindPeripheralInterruptName irq_number device =
     map_option in_name
       (List.find (\<lambda>i. in_value i = irq_number) (concat (map pe_interrupts (dv_peripherals device))))"

definition irq_of :: "u32 \<Rightarrow> u32 option" where
  "irq_of exception_number =
     (if exception_number \<ge> 16 \<and> exception_number \<le> 23 then Some (exception_number - 16)
      else if exception_number \<ge> kIrq8PlusBase \<and> exception_number \<le> kIrq8PlusLimit
      then Some (exception_number - 0x200)
      else None)"

definition NamedPeripheralIrq :: "u32 \<Rightarrow> Device \<Rightarrow> string option" where
  "NamedPeripheralIrq exception_number device =
     (case irq_of exception_number of
        None \<Rightarrow> None
      | Some irq_number \<Rightarrow>
          (case FindPeripheralInterruptName irq_number device of
             Some name \<Rightarrow> Some name
           | None \<Rightarrow> Some (''IRQ'' @ dec_string (unat irq_number) @ '' (unnamed)'')))"

definition ExceptionName :: "u32 \<Rightarrow> Device \<Rightarrow> string" where
  "ExceptionName exception_number device =
     (case NamedPeripheralIrq exception_number device of
        Some name \<Rightarrow> name
      | None \<Rightarrow>
          if unat exception_number < length kMClassExceptionNames
          then kMClassExceptionNames ! unat exception_number
          else ''Exception'' @ dec_string (unat exception_number) @ '' (reserved)'')"

record AttributedException =
  ae_instruction_index :: u64
  ae_exception_number :: u32
  ae_name :: string
  ae_is_return :: bool

definition AttributeExceptions :: "ExceptionEvent list \<Rightarrow> Device \<Rightarrow> AttributedException list" where
  "AttributeExceptions events device =
     foldl (\<lambda>attributed event. attributed @
       [\<lparr>ae_instruction_index = ee_instruction_index event, ae_exception_number = ee_exception_number event,
         ae_name = (if ee_is_return event then [] else ExceptionName (ee_exception_number event) device),
         ae_is_return = ee_is_return event\<rparr>]) [] events"

section \<open>Properties\<close>

text \<open>The exception number the trace gives interrupt \<open>n\<close>.\<close>

definition irq_exception :: "u32 \<Rightarrow> u32" where
  "irq_exception n = (if n < 8 then n + 16 else n + 0x200)"

lemma irq_of_irq_exception:
  assumes "n \<le> 0x1EF" shows "irq_of (irq_exception n) = Some n"
proof (cases "n < 8")
  case True
  then have "unat n < 8" by (simp add: word_less_nat_alt)
  then have "unat (n + 16) = unat n + 16" by (subst unat_plus_no_wrap) simp_all
  with True \<open>unat n < 8\<close> show ?thesis
    by (simp add: irq_of_def irq_exception_def word_le_nat_alt)
next
  case False
  from assms have le: "unat n \<le> 0x1EF" by (simp add: word_le_nat_alt)
  then have s: "unat (n + 0x200) = unat n + 0x200" by (subst unat_plus_no_wrap) simp_all
  from False have "8 \<le> unat n" by (simp add: word_less_nat_alt)
  with False le s show ?thesis
    by (simp add: irq_of_def irq_exception_def word_le_nat_alt kIrq8PlusBase_def kIrq8PlusLimit_def)
qed

text \<open>every interrupt from 0 to 495, decoded from whichever of the two ranges the trace
  encodes it in, is named by the first interrupt of the device that has its number, and as
  unnamed when there is none; two interrupts are never confused.\<close>

lemma ExceptionName_irq:
  assumes "n \<le> 0x1EF"
  shows "ExceptionName (irq_exception n) device =
    (case FindPeripheralInterruptName n device of
       Some name \<Rightarrow> name | None \<Rightarrow> ''IRQ'' @ dec_string (unat n) @ '' (unnamed)'')"
  using irq_of_irq_exception [OF assms]
  by (simp add: ExceptionName_def NamedPeripheralIrq_def split: option.splits)

definition sample_device :: Device where
  "sample_device = \<lparr>dv_name = ''D'', dv_version = [], dv_description = [], dv_cpu = None, dv_address_unit_bits = 8,
     dv_width = 32, dv_peripherals = [\<lparr>pe_name = ''TIM6'', pe_description = [], pe_group_name = [],
       pe_base_address = 0x40001000, pe_address_block = \<lparr>ab_offset = 0, ab_size = 0x400, ab_usage = []\<rparr>,
       pe_registers = [], pe_interrupts = [\<lparr>in_name = ''TIM6'', in_description = [], in_value = 54\<rparr>]\<rparr>]\<rparr>"

theorem ExceptionName_irq_witness: "ExceptionName (irq_exception 54) sample_device = ''TIM6''"
  using ExceptionName_irq [of 54 sample_device]
  by (simp add: FindPeripheralInterruptName_def sample_device_def)

text \<open>Attribution keeps the events one for one and in order, with their index, number and
  direction; an entry always gets a name and a return never does.\<close>

lemma AttributeExceptions_order:
  "map (\<lambda>a. (ae_instruction_index a, ae_exception_number a, ae_is_return a)) (AttributeExceptions events device) =
     map (\<lambda>e. (ee_instruction_index e, ee_exception_number e, ee_is_return e)) events \<and>
   map ae_name (AttributeExceptions events device) =
     map (\<lambda>e. if ee_is_return e then [] else ExceptionName (ee_exception_number e) device) events"
  by (simp add: AttributeExceptions_def foldl_snoc_map)

end
