(* ===== verification/Hal_Tim.thy ===== *)
theory Hal_Tim
  imports Prelude
begin

unbundle bit_operations_syntax

text \<open>
  The timer driver of the validation firmware (\<open>stm32h7rsxx_hal_tim.c\<close>): registers, handle,
  macros and the functions that configure one channel.  A timer's registers are a map from
  register names to 32-bit words; the handle carries them, since the driver reaches them only
  through it.  Status-register bits are cleared by writing zero, as the reference manual
  documents; the event register keeps the last event written.  Parameter assertions are off
  in the firmware's build.
\<close>

section \<open>Constants of the device header\<close>

text \<open>CR1, CR2, EGR, BDTR and SMCR.\<close>

abbreviation (input) TIM_CR1_CEN :: u32 where "TIM_CR1_CEN \<equiv> 1"
abbreviation (input) TIM_CR1_URS :: u32 where "TIM_CR1_URS \<equiv> 4"
abbreviation (input) TIM_CR1_ARPE :: u32 where "TIM_CR1_ARPE \<equiv> 0x80"
abbreviation (input) TIM_CR1_DIR :: u32 where "TIM_CR1_DIR \<equiv> 0x10"
abbreviation (input) TIM_CR1_CMS :: u32 where "TIM_CR1_CMS \<equiv> 0x60"
abbreviation (input) TIM_CR1_CKD :: u32 where "TIM_CR1_CKD \<equiv> 0x300"
abbreviation (input) TIM_CR1_OPM :: u32 where "TIM_CR1_OPM \<equiv> 8"
abbreviation (input) TIM_BDTR_MOE :: u32 where "TIM_BDTR_MOE \<equiv> 0x8000"
abbreviation (input) TIM_EGR_UG :: u32 where "TIM_EGR_UG \<equiv> 1"
abbreviation (input) TIM_SMCR_SMS :: u32 where "TIM_SMCR_SMS \<equiv> 0x10007"
abbreviation (input) TIM_SMCR_TS :: u32 where "TIM_SMCR_TS \<equiv> 0x300070"
abbreviation (input) TIM_SMCR_ETF :: u32 where "TIM_SMCR_ETF \<equiv> 0xF00"
abbreviation (input) TIM_SMCR_ETPS :: u32 where "TIM_SMCR_ETPS \<equiv> 0x3000"
abbreviation (input) TIM_SMCR_ECE :: u32 where "TIM_SMCR_ECE \<equiv> 0x4000"
abbreviation (input) TIM_SMCR_ETP :: u32 where "TIM_SMCR_ETP \<equiv> 0x8000"
abbreviation (input) TIM_SLAVEMODE_TRIGGER :: u32 where "TIM_SLAVEMODE_TRIGGER \<equiv> 6"
abbreviation (input) TIM_SLAVEMODE_COMBINED_RESETTRIGGER :: u32 where "TIM_SLAVEMODE_COMBINED_RESETTRIGGER \<equiv> 0x10000"
abbreviation (input) TIM_SLAVEMODE_GATED :: u32 where "TIM_SLAVEMODE_GATED \<equiv> 5"
abbreviation (input) TIM_SLAVEMODE_COMBINED_GATEDRESET :: u32 where "TIM_SLAVEMODE_COMBINED_GATEDRESET \<equiv> 0x10001"
abbreviation (input) TIM_SLAVEMODE_EXTERNAL1 :: u32 where "TIM_SLAVEMODE_EXTERNAL1 \<equiv> 7"
abbreviation (input) TIM_CR2_OIS1 :: u32 where "TIM_CR2_OIS1 \<equiv> 0x100"
abbreviation (input) TIM_CR2_OIS1N :: u32 where "TIM_CR2_OIS1N \<equiv> 0x200"
abbreviation (input) TIM_CR2_OIS2 :: u32 where "TIM_CR2_OIS2 \<equiv> 0x400"
abbreviation (input) TIM_CR2_OIS2N :: u32 where "TIM_CR2_OIS2N \<equiv> 0x800"
abbreviation (input) TIM_CR2_OIS3 :: u32 where "TIM_CR2_OIS3 \<equiv> 0x1000"
abbreviation (input) TIM_CR2_OIS3N :: u32 where "TIM_CR2_OIS3N \<equiv> 0x2000"
abbreviation (input) TIM_CR2_OIS4 :: u32 where "TIM_CR2_OIS4 \<equiv> 0x4000"
abbreviation (input) TIM_CR2_OIS4N :: u32 where "TIM_CR2_OIS4N \<equiv> 0x8000"
abbreviation (input) TIM_CR2_OIS5 :: u32 where "TIM_CR2_OIS5 \<equiv> 0x10000"
abbreviation (input) TIM_CR2_OIS6 :: u32 where "TIM_CR2_OIS6 \<equiv> 0x40000"

text \<open>CCMR1 to CCMR3 and CCER.\<close>

abbreviation (input) TIM_CCER_CC1E :: u32 where "TIM_CCER_CC1E \<equiv> 1"
abbreviation (input) TIM_CCER_CC2E :: u32 where "TIM_CCER_CC2E \<equiv> 0x10"
abbreviation (input) TIM_CCER_CC3E :: u32 where "TIM_CCER_CC3E \<equiv> 0x100"
abbreviation (input) TIM_CCER_CC4E :: u32 where "TIM_CCER_CC4E \<equiv> 0x1000"
abbreviation (input) TIM_CCER_CC5E :: u32 where "TIM_CCER_CC5E \<equiv> 0x10000"
abbreviation (input) TIM_CCER_CC6E :: u32 where "TIM_CCER_CC6E \<equiv> 0x100000"
abbreviation (input) TIM_CCER_CC1NE :: u32 where "TIM_CCER_CC1NE \<equiv> 4"
abbreviation (input) TIM_CCER_CC2NE :: u32 where "TIM_CCER_CC2NE \<equiv> 0x40"
abbreviation (input) TIM_CCER_CC3NE :: u32 where "TIM_CCER_CC3NE \<equiv> 0x400"
abbreviation (input) TIM_CCER_CC4NE :: u32 where "TIM_CCER_CC4NE \<equiv> 0x4000"
abbreviation (input) TIM_CCER_CCxE_MASK :: u32 where "TIM_CCER_CCxE_MASK \<equiv> 0x111111"
abbreviation (input) TIM_CCER_CCxNE_MASK :: u32 where "TIM_CCER_CCxNE_MASK \<equiv> 0x4444"
abbreviation (input) TIM_CCMR1_CC1S :: u32 where "TIM_CCMR1_CC1S \<equiv> 3"
abbreviation (input) TIM_CCMR1_CC2S :: u32 where "TIM_CCMR1_CC2S \<equiv> 0x300"
abbreviation (input) TIM_CCMR2_CC3S :: u32 where "TIM_CCMR2_CC3S \<equiv> 3"
abbreviation (input) TIM_CCMR2_CC4S :: u32 where "TIM_CCMR2_CC4S \<equiv> 0x300"
abbreviation (input) TIM_CCMR1_OC1M :: u32 where "TIM_CCMR1_OC1M \<equiv> 0x10070"
abbreviation (input) TIM_CCMR1_OC2M :: u32 where "TIM_CCMR1_OC2M \<equiv> 0x1007000"
abbreviation (input) TIM_CCMR2_OC3M :: u32 where "TIM_CCMR2_OC3M \<equiv> 0x10070"
abbreviation (input) TIM_CCMR2_OC4M :: u32 where "TIM_CCMR2_OC4M \<equiv> 0x1007000"
abbreviation (input) TIM_CCMR3_OC5M :: u32 where "TIM_CCMR3_OC5M \<equiv> 0x10070"
abbreviation (input) TIM_CCMR3_OC6M :: u32 where "TIM_CCMR3_OC6M \<equiv> 0x1007000"
abbreviation (input) TIM_CCER_CC1P :: u32 where "TIM_CCER_CC1P \<equiv> 2"
abbreviation (input) TIM_CCER_CC1NP :: u32 where "TIM_CCER_CC1NP \<equiv> 8"
abbreviation (input) TIM_CCER_CC2P :: u32 where "TIM_CCER_CC2P \<equiv> 0x20"
abbreviation (input) TIM_CCER_CC2NP :: u32 where "TIM_CCER_CC2NP \<equiv> 0x80"
abbreviation (input) TIM_CCER_CC3P :: u32 where "TIM_CCER_CC3P \<equiv> 0x200"
abbreviation (input) TIM_CCER_CC3NP :: u32 where "TIM_CCER_CC3NP \<equiv> 0x800"
abbreviation (input) TIM_CCER_CC4P :: u32 where "TIM_CCER_CC4P \<equiv> 0x2000"
abbreviation (input) TIM_CCER_CC4NP :: u32 where "TIM_CCER_CC4NP \<equiv> 0x8000"
abbreviation (input) TIM_CCER_CC5P :: u32 where "TIM_CCER_CC5P \<equiv> 0x20000"
abbreviation (input) TIM_CCER_CC6P :: u32 where "TIM_CCER_CC6P \<equiv> 0x200000"
abbreviation (input) TIM_CCMR1_IC1F :: u32 where "TIM_CCMR1_IC1F \<equiv> 0xF0"
abbreviation (input) TIM_CCMR1_IC2F :: u32 where "TIM_CCMR1_IC2F \<equiv> 0xF000"
abbreviation (input) TIM_CCMR2_IC3F :: u32 where "TIM_CCMR2_IC3F \<equiv> 0xF0"
abbreviation (input) TIM_CCMR2_IC4F :: u32 where "TIM_CCMR2_IC4F \<equiv> 0xF000"
abbreviation (input) TIM_CCMR1_CC1S_0 :: u32 where "TIM_CCMR1_CC1S_0 \<equiv> 1"
abbreviation (input) TIM_CCMR1_IC1PSC :: u32 where "TIM_CCMR1_IC1PSC \<equiv> 0xC"
abbreviation (input) TIM_CCMR1_IC2PSC :: u32 where "TIM_CCMR1_IC2PSC \<equiv> 0xC00"
abbreviation (input) TIM_CCMR2_IC3PSC :: u32 where "TIM_CCMR2_IC3PSC \<equiv> 0xC"
abbreviation (input) TIM_CCMR2_IC4PSC :: u32 where "TIM_CCMR2_IC4PSC \<equiv> 0xC00"

text \<open>Channels, interrupts, DMA requests and flags.\<close>

abbreviation (input) TIM_CHANNEL_1 :: u32 where "TIM_CHANNEL_1 \<equiv> 0"
abbreviation (input) TIM_CHANNEL_2 :: u32 where "TIM_CHANNEL_2 \<equiv> 4"
abbreviation (input) TIM_CHANNEL_3 :: u32 where "TIM_CHANNEL_3 \<equiv> 8"
abbreviation (input) TIM_CHANNEL_4 :: u32 where "TIM_CHANNEL_4 \<equiv> 0xC"
abbreviation (input) TIM_CHANNEL_5 :: u32 where "TIM_CHANNEL_5 \<equiv> 0x10"
abbreviation (input) TIM_CHANNEL_6 :: u32 where "TIM_CHANNEL_6 \<equiv> 0x14"
abbreviation (input) TIM_CHANNEL_ALL :: u32 where "TIM_CHANNEL_ALL \<equiv> 0x3C"
abbreviation (input) TIM_IT_UPDATE :: u32 where "TIM_IT_UPDATE \<equiv> 1"
abbreviation (input) TIM_IT_CC1 :: u32 where "TIM_IT_CC1 \<equiv> 2"
abbreviation (input) TIM_IT_CC2 :: u32 where "TIM_IT_CC2 \<equiv> 4"
abbreviation (input) TIM_IT_CC3 :: u32 where "TIM_IT_CC3 \<equiv> 8"
abbreviation (input) TIM_IT_CC4 :: u32 where "TIM_IT_CC4 \<equiv> 0x10"
abbreviation (input) TIM_IT_COM :: u32 where "TIM_IT_COM \<equiv> 0x20"
abbreviation (input) TIM_IT_TRIGGER :: u32 where "TIM_IT_TRIGGER \<equiv> 0x40"
abbreviation (input) TIM_IT_BREAK :: u32 where "TIM_IT_BREAK \<equiv> 0x80"
abbreviation (input) TIM_IT_IDX :: u32 where "TIM_IT_IDX \<equiv> 0x100000"
abbreviation (input) TIM_IT_DIR :: u32 where "TIM_IT_DIR \<equiv> 0x200000"
abbreviation (input) TIM_IT_IERR :: u32 where "TIM_IT_IERR \<equiv> 0x400000"
abbreviation (input) TIM_IT_TERR :: u32 where "TIM_IT_TERR \<equiv> 0x800000"
abbreviation (input) TIM_DMA_UPDATE :: u32 where "TIM_DMA_UPDATE \<equiv> 0x100"
abbreviation (input) TIM_DMA_CC1 :: u32 where "TIM_DMA_CC1 \<equiv> 0x200"
abbreviation (input) TIM_DMA_CC2 :: u32 where "TIM_DMA_CC2 \<equiv> 0x400"
abbreviation (input) TIM_DMA_CC3 :: u32 where "TIM_DMA_CC3 \<equiv> 0x800"
abbreviation (input) TIM_DMA_CC4 :: u32 where "TIM_DMA_CC4 \<equiv> 0x1000"
abbreviation (input) TIM_DMA_COM :: u32 where "TIM_DMA_COM \<equiv> 0x2000"
abbreviation (input) TIM_DMA_TRIGGER :: u32 where "TIM_DMA_TRIGGER \<equiv> 0x4000"
abbreviation (input) TIM_FLAG_UPDATE :: u32 where "TIM_FLAG_UPDATE \<equiv> 1"
abbreviation (input) TIM_FLAG_CC1 :: u32 where "TIM_FLAG_CC1 \<equiv> 2"
abbreviation (input) TIM_FLAG_CC2 :: u32 where "TIM_FLAG_CC2 \<equiv> 4"
abbreviation (input) TIM_FLAG_CC3 :: u32 where "TIM_FLAG_CC3 \<equiv> 8"
abbreviation (input) TIM_FLAG_CC4 :: u32 where "TIM_FLAG_CC4 \<equiv> 0x10"
abbreviation (input) TIM_FLAG_COM :: u32 where "TIM_FLAG_COM \<equiv> 0x20"
abbreviation (input) TIM_FLAG_TRIGGER :: u32 where "TIM_FLAG_TRIGGER \<equiv> 0x40"
abbreviation (input) TIM_FLAG_BREAK :: u32 where "TIM_FLAG_BREAK \<equiv> 0x80"
abbreviation (input) TIM_FLAG_BREAK2 :: u32 where "TIM_FLAG_BREAK2 \<equiv> 0x100"
abbreviation (input) TIM_FLAG_SYSTEM_BREAK :: u32 where "TIM_FLAG_SYSTEM_BREAK \<equiv> 0x2000"
abbreviation (input) TIM_FLAG_IDX :: u32 where "TIM_FLAG_IDX \<equiv> 0x100000"
abbreviation (input) TIM_FLAG_DIR :: u32 where "TIM_FLAG_DIR \<equiv> 0x200000"
abbreviation (input) TIM_FLAG_IERR :: u32 where "TIM_FLAG_IERR \<equiv> 0x400000"
abbreviation (input) TIM_FLAG_TERR :: u32 where "TIM_FLAG_TERR \<equiv> 0x800000"
abbreviation (input) TIM_CCx_ENABLE :: u32 where "TIM_CCx_ENABLE \<equiv> 1"
abbreviation (input) TIM_CCx_DISABLE :: u32 where "TIM_CCx_DISABLE \<equiv> 0"

text \<open>Trigger selections.\<close>

abbreviation (input) TIM_TS_ITR0 :: u32 where "TIM_TS_ITR0 \<equiv> 0"
abbreviation (input) TIM_TS_ITR1 :: u32 where "TIM_TS_ITR1 \<equiv> 0x10"
abbreviation (input) TIM_TS_ITR2 :: u32 where "TIM_TS_ITR2 \<equiv> 0x20"
abbreviation (input) TIM_TS_ITR3 :: u32 where "TIM_TS_ITR3 \<equiv> 0x30"
abbreviation (input) TIM_TS_ITR4 :: u32 where "TIM_TS_ITR4 \<equiv> 0x100000"
abbreviation (input) TIM_TS_ITR5 :: u32 where "TIM_TS_ITR5 \<equiv> 0x100010"
abbreviation (input) TIM_TS_ITR6 :: u32 where "TIM_TS_ITR6 \<equiv> 0x100020"
abbreviation (input) TIM_TS_ITR7 :: u32 where "TIM_TS_ITR7 \<equiv> 0x100030"
abbreviation (input) TIM_TS_ITR8 :: u32 where "TIM_TS_ITR8 \<equiv> 0x100040"
abbreviation (input) TIM_TS_ITR9 :: u32 where "TIM_TS_ITR9 \<equiv> 0x100050"
abbreviation (input) TIM_TS_ITR10 :: u32 where "TIM_TS_ITR10 \<equiv> 0x100060"
abbreviation (input) TIM_TS_ITR11 :: u32 where "TIM_TS_ITR11 \<equiv> 0x100070"
abbreviation (input) TIM_TS_ITR13 :: u32 where "TIM_TS_ITR13 \<equiv> 0x200010"
abbreviation (input) TIM_TS_ITR14 :: u32 where "TIM_TS_ITR14 \<equiv> 0x200020"
abbreviation (input) TIM_TS_TI1F_ED :: u32 where "TIM_TS_TI1F_ED \<equiv> 0x40"
abbreviation (input) TIM_TS_TI1FP1 :: u32 where "TIM_TS_TI1FP1 \<equiv> 0x50"
abbreviation (input) TIM_TS_TI2FP2 :: u32 where "TIM_TS_TI2FP2 \<equiv> 0x60"
abbreviation (input) TIM_TS_ETRF :: u32 where "TIM_TS_ETRF \<equiv> 0x70"

section \<open>Registers\<close>

datatype tim_instance = TIM1 | TIM2 | TIM3 | TIM4 | TIM5 | TIM6 | TIM7 | TIM9 | TIM12 | TIM13 | TIM14 | TIM15 | TIM16 | TIM17

datatype tim_reg = CR1 | CR2 | SMCR | DIER | SR | EGR | CCMR1 | CCMR2 | CCER | CNT | PSC | ARR | RCR
  | CCR1 | CCR2 | CCR3 | CCR4 | BDTR | CCR5 | CCR6 | CCMR3 | DTR2 | ECR | TISEL | AF1 | AF2 | DCR | DMAR

type_synonym tim_regs = "tim_reg \<Rightarrow> u32"

definition IS_TIM_BREAK_INSTANCE :: "tim_instance \<Rightarrow> bool" where
  "IS_TIM_BREAK_INSTANCE i \<longleftrightarrow> i \<in> {TIM1, TIM15, TIM16, TIM17}"

definition IS_TIM_SLAVE_INSTANCE :: "tim_instance \<Rightarrow> bool" where
  "IS_TIM_SLAVE_INSTANCE i \<longleftrightarrow> i \<in> {TIM1, TIM2, TIM3, TIM4, TIM5, TIM9, TIM12, TIM15}"

definition IS_TIM_CC2_INSTANCE :: "tim_instance \<Rightarrow> bool" where
  "IS_TIM_CC2_INSTANCE i \<longleftrightarrow> i \<in> {TIM1, TIM2, TIM3, TIM4, TIM5, TIM9, TIM12, TIM15}"

definition IS_TIM_COUNTER_MODE_SELECT_INSTANCE :: "tim_instance \<Rightarrow> bool" where
  "IS_TIM_COUNTER_MODE_SELECT_INSTANCE i \<longleftrightarrow> i \<in> {TIM1, TIM2, TIM3, TIM4, TIM5}"

definition IS_TIM_CLOCK_DIVISION_INSTANCE :: "tim_instance \<Rightarrow> bool" where
  "IS_TIM_CLOCK_DIVISION_INSTANCE i \<longleftrightarrow> i \<in> {TIM1, TIM2, TIM3, TIM4, TIM5, TIM9, TIM12, TIM13, TIM14, TIM15, TIM16, TIM17}"

definition IS_TIM_REPETITION_COUNTER_INSTANCE :: "tim_instance \<Rightarrow> bool" where
  "IS_TIM_REPETITION_COUNTER_INSTANCE i \<longleftrightarrow> i \<in> {TIM1, TIM15, TIM16, TIM17}"

definition IS_TIM_CCXN_INSTANCE :: "tim_instance \<Rightarrow> u32 \<Rightarrow> bool" where
  "IS_TIM_CCXN_INSTANCE i channel \<longleftrightarrow>
     i = TIM1 \<and> channel \<in> {TIM_CHANNEL_1, TIM_CHANNEL_2, TIM_CHANNEL_3, TIM_CHANNEL_4} \<or>
     i \<in> {TIM15, TIM16, TIM17} \<and> channel = TIM_CHANNEL_1"

section \<open>Configuration structures\<close>

record TIM_Base_InitTypeDef =
  Prescaler :: u32
  CounterMode :: u32
  Period :: u32
  ClockDivision :: u32
  RepetitionCounter :: u32
  AutoReloadPreload :: u32

record TIM_OC_InitTypeDef =
  OCMode :: u32
  OC_Pulse :: u32
  OCPolarity :: u32
  OCNPolarity :: u32
  OCFastMode :: u32
  OCIdleState :: u32
  OCNIdleState :: u32

record TIM_IC_InitTypeDef =
  ICPolarity :: u32
  ICSelection :: u32
  ICPrescaler :: u32
  ICFilter :: u32

record TIM_SlaveConfigTypeDef =
  SlaveMode :: u32
  InputTrigger :: u32
  TriggerPolarity :: u32
  TriggerPrescaler :: u32
  TriggerFilter :: u32

section \<open>Handle\<close>

datatype HAL_StatusTypeDef = HAL_OK | HAL_ERROR | HAL_BUSY | HAL_TIMEOUT

datatype HAL_TIM_StateTypeDef = HAL_TIM_STATE_RESET | HAL_TIM_STATE_READY | HAL_TIM_STATE_BUSY
  | HAL_TIM_STATE_TIMEOUT | HAL_TIM_STATE_ERROR

datatype HAL_TIM_ChannelStateTypeDef = HAL_TIM_CHANNEL_STATE_RESET | HAL_TIM_CHANNEL_STATE_READY
  | HAL_TIM_CHANNEL_STATE_BUSY

datatype HAL_TIM_DMABurstStateTypeDef = HAL_DMA_BURST_STATE_RESET | HAL_DMA_BURST_STATE_READY
  | HAL_DMA_BURST_STATE_BUSY

datatype HAL_TIM_ActiveChannel = HAL_TIM_ACTIVE_CHANNEL_1 | HAL_TIM_ACTIVE_CHANNEL_2
  | HAL_TIM_ACTIVE_CHANNEL_3 | HAL_TIM_ACTIVE_CHANNEL_4 | HAL_TIM_ACTIVE_CHANNEL_5
  | HAL_TIM_ACTIVE_CHANNEL_6 | HAL_TIM_ACTIVE_CHANNEL_CLEARED

datatype HAL_LockTypeDef = HAL_UNLOCKED | HAL_LOCKED

text \<open>The functions the driver hands to the DMA driver, and the user's callbacks it calls.\<close>

datatype dma_callback = NoCallback | TIM_DMAPeriodElapsedCplt_fn | TIM_DMAPeriodElapsedHalfCplt_fn
  | TIM_DMADelayPulseCplt_fn | TIM_DMADelayPulseHalfCplt_fn | TIM_DMACaptureCplt_fn
  | TIM_DMACaptureHalfCplt_fn | TIM_DMATriggerCplt_fn | TIM_DMATriggerHalfCplt_fn | TIM_DMAError_fn

datatype tim_callback = Base_MspInit | Base_MspDeInit | OC_MspInit | OC_MspDeInit | PWM_MspInit
  | PWM_MspDeInit | IC_MspInit | IC_MspDeInit | OnePulse_MspInit | OnePulse_MspDeInit | Encoder_MspInit
  | Encoder_MspDeInit | PeriodElapsedCallback | PeriodElapsedHalfCpltCallback | OC_DelayElapsedCallback
  | IC_CaptureCallback | IC_CaptureHalfCpltCallback | PWM_PulseFinishedCallback
  | PWM_PulseFinishedHalfCpltCallback | TriggerCallback | TriggerHalfCpltCallback | ErrorCallback
  | BreakCallback | Break2Callback | CommutCallback | EncoderIndexCallback | DirectionChangeCallback
  | IndexErrorCallback | TransitionErrorCallback

text \<open>The fields of a DMA handle the timer driver touches: the mode, the link registers (length,
  source, destination) of the head of its list, \<open>None\<close> without a list, and its callbacks; the
  rest is opaque.\<close>

record DMA_HandleTypeDef =
  dma_linkedlist :: bool
  dma_head :: "(u32 \<times> u32 \<times> u32) option"
  XferCpltCallback :: dma_callback
  XferHalfCpltCallback :: dma_callback
  XferErrorCallback :: dma_callback
  dma_rest :: nat

abbreviation (input) TIM_DMA_ID_UPDATE :: nat where "TIM_DMA_ID_UPDATE \<equiv> 0"
abbreviation (input) TIM_DMA_ID_CC1 :: nat where "TIM_DMA_ID_CC1 \<equiv> 1"
abbreviation (input) TIM_DMA_ID_CC2 :: nat where "TIM_DMA_ID_CC2 \<equiv> 2"
abbreviation (input) TIM_DMA_ID_CC3 :: nat where "TIM_DMA_ID_CC3 \<equiv> 3"
abbreviation (input) TIM_DMA_ID_CC4 :: nat where "TIM_DMA_ID_CC4 \<equiv> 4"
abbreviation (input) TIM_DMA_ID_COMMUTATION :: nat where "TIM_DMA_ID_COMMUTATION \<equiv> 5"
abbreviation (input) TIM_DMA_ID_TRIGGER :: nat where "TIM_DMA_ID_TRIGGER \<equiv> 6"

text \<open>\<open>h_hdma\<close> holds the pointers of the handle's DMA array, \<open>h_dma\<close> the DMA handles they point
  to; two entries may point to one handle.  \<open>h_calls\<close> records the user callbacks made, each with the active
  channel it sees.\<close>

record TIM_HandleTypeDef =
  h_Instance :: tim_instance
  h_regs :: tim_regs
  h_Init :: TIM_Base_InitTypeDef
  h_Channel :: HAL_TIM_ActiveChannel
  h_hdma :: "nat \<Rightarrow> nat"
  h_dma :: "nat \<Rightarrow> DMA_HandleTypeDef"
  h_Lock :: HAL_LockTypeDef
  h_State :: HAL_TIM_StateTypeDef
  h_ChannelState :: "nat \<Rightarrow> HAL_TIM_ChannelStateTypeDef"
  h_ChannelNState :: "nat \<Rightarrow> HAL_TIM_ChannelStateTypeDef"
  h_DMABurstState :: HAL_TIM_DMABurstStateTypeDef
  h_calls :: "(tim_callback \<times> HAL_TIM_ActiveChannel) list"

text \<open>What lies outside the driver: the addresses of the registers, the DMA driver's entry points
  and the user's callbacks.\<close>

record tim_env =
  reg_address :: "tim_instance \<Rightarrow> tim_reg \<Rightarrow> u32"
  HAL_DMA_Start_IT :: "DMA_HandleTypeDef \<Rightarrow> u32 \<Rightarrow> u32 \<Rightarrow> u32 \<Rightarrow> HAL_StatusTypeDef \<times> DMA_HandleTypeDef"
  HAL_DMAEx_List_Start_IT :: "DMA_HandleTypeDef \<Rightarrow> HAL_StatusTypeDef \<times> DMA_HandleTypeDef"
  HAL_DMA_Abort_IT :: "DMA_HandleTypeDef \<Rightarrow> DMA_HandleTypeDef"
  user_callback :: "tim_callback \<Rightarrow> TIM_HandleTypeDef \<Rightarrow> TIM_HandleTypeDef"

definition callback :: "tim_env \<Rightarrow> tim_callback \<Rightarrow> TIM_HandleTypeDef \<Rightarrow> TIM_HandleTypeDef" where
  "callback env c h = user_callback env c (h\<lparr>h_calls := h_calls h @ [(c, h_Channel h)]\<rparr>)"

section \<open>Macros\<close>

definition on_regs :: "(tim_regs \<Rightarrow> tim_regs) \<Rightarrow> TIM_HandleTypeDef \<Rightarrow> TIM_HandleTypeDef" where
  "on_regs f h = h\<lparr>h_regs := f (h_regs h)\<rparr>"

definition HAL_TIM_ENABLE :: "TIM_HandleTypeDef \<Rightarrow> TIM_HandleTypeDef" where
  "HAL_TIM_ENABLE = on_regs (\<lambda>r. r(CR1 := r CR1 OR TIM_CR1_CEN))"

definition HAL_TIM_MOE_ENABLE :: "TIM_HandleTypeDef \<Rightarrow> TIM_HandleTypeDef" where
  "HAL_TIM_MOE_ENABLE = on_regs (\<lambda>r. r(BDTR := r BDTR OR TIM_BDTR_MOE))"

definition outputs_off :: "tim_regs \<Rightarrow> bool" where
  "outputs_off r \<longleftrightarrow> r CCER AND TIM_CCER_CCxE_MASK = 0 \<and> r CCER AND TIM_CCER_CCxNE_MASK = 0"

definition HAL_TIM_DISABLE :: "TIM_HandleTypeDef \<Rightarrow> TIM_HandleTypeDef" where
  "HAL_TIM_DISABLE = on_regs (\<lambda>r. if outputs_off r then r(CR1 := r CR1 AND NOT TIM_CR1_CEN) else r)"

definition HAL_TIM_MOE_DISABLE :: "TIM_HandleTypeDef \<Rightarrow> TIM_HandleTypeDef" where
  "HAL_TIM_MOE_DISABLE = on_regs (\<lambda>r. if outputs_off r then r(BDTR := r BDTR AND NOT TIM_BDTR_MOE) else r)"

definition HAL_TIM_ENABLE_IT :: "u32 \<Rightarrow> TIM_HandleTypeDef \<Rightarrow> TIM_HandleTypeDef" where
  "HAL_TIM_ENABLE_IT it = on_regs (\<lambda>r. r(DIER := r DIER OR it))"

definition HAL_TIM_DISABLE_IT :: "u32 \<Rightarrow> TIM_HandleTypeDef \<Rightarrow> TIM_HandleTypeDef" where
  "HAL_TIM_DISABLE_IT it = on_regs (\<lambda>r. r(DIER := r DIER AND NOT it))"

definition HAL_TIM_ENABLE_DMA :: "u32 \<Rightarrow> TIM_HandleTypeDef \<Rightarrow> TIM_HandleTypeDef" where
  "HAL_TIM_ENABLE_DMA dma = on_regs (\<lambda>r. r(DIER := r DIER OR dma))"

definition HAL_TIM_DISABLE_DMA :: "u32 \<Rightarrow> TIM_HandleTypeDef \<Rightarrow> TIM_HandleTypeDef" where
  "HAL_TIM_DISABLE_DMA dma = on_regs (\<lambda>r. r(DIER := r DIER AND NOT dma))"

text \<open>The driver writes the complement of the flag; a bit written as zero is cleared.\<close>

definition HAL_TIM_CLEAR_FLAG :: "u32 \<Rightarrow> TIM_HandleTypeDef \<Rightarrow> TIM_HandleTypeDef" where
  "HAL_TIM_CLEAR_FLAG flag = on_regs (\<lambda>r. r(SR := r SR AND NOT flag))"

definition IS_TIM_SLAVEMODE_TRIGGER_ENABLED :: "u32 \<Rightarrow> bool" where
  "IS_TIM_SLAVEMODE_TRIGGER_ENABLED t \<longleftrightarrow> t = TIM_SLAVEMODE_TRIGGER \<or> t = TIM_SLAVEMODE_COMBINED_RESETTRIGGER"

text \<open>Enable the counter unless a trigger will: the tail of every start function.\<close>

definition enable_unless_triggered :: "TIM_HandleTypeDef \<Rightarrow> TIM_HandleTypeDef" where
  "enable_unless_triggered h =
     (if IS_TIM_SLAVE_INSTANCE (h_Instance h)
      then (let tmpsmcr = h_regs h SMCR AND TIM_SMCR_SMS
            in if \<not> IS_TIM_SLAVEMODE_TRIGGER_ENABLED tmpsmcr then HAL_TIM_ENABLE h else h)
      else HAL_TIM_ENABLE h)"

definition channel_index :: "u32 \<Rightarrow> nat" where
  "channel_index ch =
     (if ch = TIM_CHANNEL_1 then 0 else if ch = TIM_CHANNEL_2 then 1 else if ch = TIM_CHANNEL_3 then 2
      else if ch = TIM_CHANNEL_4 then 3 else if ch = TIM_CHANNEL_5 then 4 else 5)"

definition channel_n_index :: "u32 \<Rightarrow> nat" where
  "channel_n_index ch =
     (if ch = TIM_CHANNEL_1 then 0 else if ch = TIM_CHANNEL_2 then 1 else if ch = TIM_CHANNEL_3 then 2 else 3)"

definition TIM_CHANNEL_STATE_GET :: "TIM_HandleTypeDef \<Rightarrow> u32 \<Rightarrow> HAL_TIM_ChannelStateTypeDef" where
  "TIM_CHANNEL_STATE_GET h ch = h_ChannelState h (channel_index ch)"

definition TIM_CHANNEL_STATE_SET :: "u32 \<Rightarrow> HAL_TIM_ChannelStateTypeDef \<Rightarrow> TIM_HandleTypeDef \<Rightarrow> TIM_HandleTypeDef" where
  "TIM_CHANNEL_STATE_SET ch st h = h\<lparr>h_ChannelState := (h_ChannelState h)(channel_index ch := st)\<rparr>"

definition TIM_CHANNEL_STATE_SET_ALL :: "HAL_TIM_ChannelStateTypeDef \<Rightarrow> TIM_HandleTypeDef \<Rightarrow> TIM_HandleTypeDef" where
  "TIM_CHANNEL_STATE_SET_ALL st h = h\<lparr>h_ChannelState := (\<lambda>i. if i < 6 then st else h_ChannelState h i)\<rparr>"

definition TIM_CHANNEL_N_STATE_GET :: "TIM_HandleTypeDef \<Rightarrow> u32 \<Rightarrow> HAL_TIM_ChannelStateTypeDef" where
  "TIM_CHANNEL_N_STATE_GET h ch = h_ChannelNState h (channel_n_index ch)"

definition TIM_CHANNEL_N_STATE_SET :: "u32 \<Rightarrow> HAL_TIM_ChannelStateTypeDef \<Rightarrow> TIM_HandleTypeDef \<Rightarrow> TIM_HandleTypeDef" where
  "TIM_CHANNEL_N_STATE_SET ch st h = h\<lparr>h_ChannelNState := (h_ChannelNState h)(channel_n_index ch := st)\<rparr>"

definition TIM_CHANNEL_N_STATE_SET_ALL :: "HAL_TIM_ChannelStateTypeDef \<Rightarrow> TIM_HandleTypeDef \<Rightarrow> TIM_HandleTypeDef" where
  "TIM_CHANNEL_N_STATE_SET_ALL st h = h\<lparr>h_ChannelNState := (\<lambda>i. if i < 4 then st else h_ChannelNState h i)\<rparr>"

section \<open>Configuring registers\<close>

definition TIM_CCxChannelCmd :: "u32 \<Rightarrow> u32 \<Rightarrow> tim_regs \<Rightarrow> tim_regs" where
  "TIM_CCxChannelCmd Channel ChannelState r =
     (let tmp = push_bit (unat (Channel AND 0x1F)) TIM_CCER_CC1E;
          r = r(CCER := r CCER AND NOT tmp)
      in r(CCER := r CCER OR push_bit (unat (Channel AND 0x1F)) ChannelState))"

definition TIM_Base_SetConfig :: "tim_instance \<Rightarrow> TIM_Base_InitTypeDef \<Rightarrow> tim_regs \<Rightarrow> tim_regs" where
  "TIM_Base_SetConfig i Structure r =
     (let tmpcr1 = r CR1;
          tmpcr1 = (if IS_TIM_COUNTER_MODE_SELECT_INSTANCE i
                    then (tmpcr1 AND NOT (TIM_CR1_DIR OR TIM_CR1_CMS)) OR CounterMode Structure else tmpcr1);
          tmpcr1 = (if IS_TIM_CLOCK_DIVISION_INSTANCE i
                    then (tmpcr1 AND NOT TIM_CR1_CKD) OR ClockDivision Structure else tmpcr1);
          tmpcr1 = (tmpcr1 AND NOT TIM_CR1_ARPE) OR AutoReloadPreload Structure;
          r = r(ARR := Period Structure);
          r = r(PSC := Prescaler Structure);
          r = (if IS_TIM_REPETITION_COUNTER_INSTANCE i then r(RCR := RepetitionCounter Structure) else r);
          r = r(CR1 := r CR1 OR TIM_CR1_URS);
          r = r(EGR := TIM_EGR_UG)
      in r(CR1 := tmpcr1))"

definition TIM_OC1_SetConfig :: "tim_instance \<Rightarrow> TIM_OC_InitTypeDef \<Rightarrow> tim_regs \<Rightarrow> tim_regs" where
  "TIM_OC1_SetConfig i OC_Config r =
     (let tmpccer = r CCER;
          r = r(CCER := r CCER AND NOT TIM_CCER_CC1E);
          tmpcr2 = r CR2;
          tmpccmrx = r CCMR1;
          tmpccmrx = tmpccmrx AND NOT TIM_CCMR1_OC1M;
          tmpccmrx = tmpccmrx AND NOT TIM_CCMR1_CC1S;
          tmpccmrx = tmpccmrx OR OCMode OC_Config;
          tmpccer = tmpccer AND NOT TIM_CCER_CC1P;
          tmpccer = tmpccer OR OCPolarity OC_Config;
          (r, tmpccer) =
            (if IS_TIM_CCXN_INSTANCE i TIM_CHANNEL_1
             then (r(CCER := r CCER AND NOT TIM_CCER_CC1NE),
                   (tmpccer AND NOT TIM_CCER_CC1NP) OR OCNPolarity OC_Config)
             else (r, tmpccer));
          tmpcr2 =
            (if IS_TIM_BREAK_INSTANCE i
             then (tmpcr2 AND NOT TIM_CR2_OIS1 AND NOT TIM_CR2_OIS1N)
                  OR OCIdleState OC_Config OR OCNIdleState OC_Config
             else tmpcr2)
      in r(CR2 := tmpcr2, CCMR1 := tmpccmrx, CCR1 := OC_Pulse OC_Config, CCER := tmpccer))"

definition TIM_OC2_SetConfig :: "tim_instance \<Rightarrow> TIM_OC_InitTypeDef \<Rightarrow> tim_regs \<Rightarrow> tim_regs" where
  "TIM_OC2_SetConfig i OC_Config r =
     (let tmpccer = r CCER;
          r = r(CCER := r CCER AND NOT TIM_CCER_CC2E);
          tmpcr2 = r CR2;
          tmpccmrx = r CCMR1;
          tmpccmrx = tmpccmrx AND NOT TIM_CCMR1_OC2M;
          tmpccmrx = tmpccmrx AND NOT TIM_CCMR1_CC2S;
          tmpccmrx = tmpccmrx OR push_bit 8 (OCMode OC_Config);
          tmpccer = tmpccer AND NOT TIM_CCER_CC2P;
          tmpccer = tmpccer OR push_bit 4 (OCPolarity OC_Config);
          (r, tmpccer) =
            (if IS_TIM_CCXN_INSTANCE i TIM_CHANNEL_2
             then (r(CCER := r CCER AND NOT TIM_CCER_CC2NE),
                   (tmpccer AND NOT TIM_CCER_CC2NP) OR push_bit 4 (OCNPolarity OC_Config))
             else (r, tmpccer));
          tmpcr2 =
            (if IS_TIM_BREAK_INSTANCE i
             then (tmpcr2 AND NOT TIM_CR2_OIS2 AND NOT TIM_CR2_OIS2N)
                  OR push_bit 2 (OCIdleState OC_Config) OR push_bit 2 (OCNIdleState OC_Config)
             else tmpcr2)
      in r(CR2 := tmpcr2, CCMR1 := tmpccmrx, CCR2 := OC_Pulse OC_Config, CCER := tmpccer))"

definition TIM_OC3_SetConfig :: "tim_instance \<Rightarrow> TIM_OC_InitTypeDef \<Rightarrow> tim_regs \<Rightarrow> tim_regs" where
  "TIM_OC3_SetConfig i OC_Config r =
     (let tmpccer = r CCER;
          r = r(CCER := r CCER AND NOT TIM_CCER_CC3E);
          tmpcr2 = r CR2;
          tmpccmrx = r CCMR2;
          tmpccmrx = tmpccmrx AND NOT TIM_CCMR2_OC3M;
          tmpccmrx = tmpccmrx AND NOT TIM_CCMR2_CC3S;
          tmpccmrx = tmpccmrx OR OCMode OC_Config;
          tmpccer = tmpccer AND NOT TIM_CCER_CC3P;
          tmpccer = tmpccer OR push_bit 8 (OCPolarity OC_Config);
          (r, tmpccer) =
            (if IS_TIM_CCXN_INSTANCE i TIM_CHANNEL_3
             then (r(CCER := r CCER AND NOT TIM_CCER_CC3NE),
                   (tmpccer AND NOT TIM_CCER_CC3NP) OR push_bit 8 (OCNPolarity OC_Config))
             else (r, tmpccer));
          tmpcr2 =
            (if IS_TIM_BREAK_INSTANCE i
             then (tmpcr2 AND NOT TIM_CR2_OIS3 AND NOT TIM_CR2_OIS3N)
                  OR push_bit 4 (OCIdleState OC_Config) OR push_bit 4 (OCNIdleState OC_Config)
             else tmpcr2)
      in r(CR2 := tmpcr2, CCMR2 := tmpccmrx, CCR3 := OC_Pulse OC_Config, CCER := tmpccer))"

definition TIM_OC4_SetConfig :: "tim_instance \<Rightarrow> TIM_OC_InitTypeDef \<Rightarrow> tim_regs \<Rightarrow> tim_regs" where
  "TIM_OC4_SetConfig i OC_Config r =
     (let tmpccer = r CCER;
          r = r(CCER := r CCER AND NOT TIM_CCER_CC4E);
          tmpcr2 = r CR2;
          tmpccmrx = r CCMR2;
          tmpccmrx = tmpccmrx AND NOT TIM_CCMR2_OC4M;
          tmpccmrx = tmpccmrx AND NOT TIM_CCMR2_CC4S;
          tmpccmrx = tmpccmrx OR push_bit 8 (OCMode OC_Config);
          tmpccer = tmpccer AND NOT TIM_CCER_CC4P;
          tmpccer = tmpccer OR push_bit 12 (OCPolarity OC_Config);
          (r, tmpccer) =
            (if IS_TIM_CCXN_INSTANCE i TIM_CHANNEL_4
             then (r(CCER := r CCER AND NOT TIM_CCER_CC4NE),
                   (tmpccer AND NOT TIM_CCER_CC4NP) OR push_bit 12 (OCNPolarity OC_Config))
             else (r, tmpccer));
          tmpcr2 =
            (if IS_TIM_BREAK_INSTANCE i
             then (tmpcr2 AND NOT TIM_CR2_OIS4 AND NOT TIM_CR2_OIS4N)
                  OR push_bit 6 (OCIdleState OC_Config) OR push_bit 6 (OCNIdleState OC_Config)
             else tmpcr2)
      in r(CR2 := tmpcr2, CCMR2 := tmpccmrx, CCR4 := OC_Pulse OC_Config, CCER := tmpccer))"

definition TIM_OC5_SetConfig :: "tim_instance \<Rightarrow> TIM_OC_InitTypeDef \<Rightarrow> tim_regs \<Rightarrow> tim_regs" where
  "TIM_OC5_SetConfig i OC_Config r =
     (let tmpccer = r CCER;
          r = r(CCER := r CCER AND NOT TIM_CCER_CC5E);
          tmpcr2 = r CR2;
          tmpccmrx = r CCMR3;
          tmpccmrx = tmpccmrx AND NOT TIM_CCMR3_OC5M;
          tmpccmrx = tmpccmrx OR OCMode OC_Config;
          tmpccer = tmpccer AND NOT TIM_CCER_CC5P;
          tmpccer = tmpccer OR push_bit 16 (OCPolarity OC_Config);
          tmpcr2 =
            (if IS_TIM_BREAK_INSTANCE i
             then (tmpcr2 AND NOT TIM_CR2_OIS5) OR push_bit 8 (OCIdleState OC_Config)
             else tmpcr2)
      in r(CR2 := tmpcr2, CCMR3 := tmpccmrx, CCR5 := OC_Pulse OC_Config, CCER := tmpccer))"

definition TIM_OC6_SetConfig :: "tim_instance \<Rightarrow> TIM_OC_InitTypeDef \<Rightarrow> tim_regs \<Rightarrow> tim_regs" where
  "TIM_OC6_SetConfig i OC_Config r =
     (let tmpccer = r CCER;
          r = r(CCER := r CCER AND NOT TIM_CCER_CC6E);
          tmpcr2 = r CR2;
          tmpccmrx = r CCMR3;
          tmpccmrx = tmpccmrx AND NOT TIM_CCMR3_OC6M;
          tmpccmrx = tmpccmrx OR push_bit 8 (OCMode OC_Config);
          tmpccer = tmpccer AND NOT TIM_CCER_CC6P;
          tmpccer = tmpccer OR push_bit 20 (OCPolarity OC_Config);
          tmpcr2 =
            (if IS_TIM_BREAK_INSTANCE i
             then (tmpcr2 AND NOT TIM_CR2_OIS6) OR push_bit 10 (OCIdleState OC_Config)
             else tmpcr2)
      in r(CR2 := tmpcr2, CCMR3 := tmpccmrx, CCR6 := OC_Pulse OC_Config, CCER := tmpccer))"

definition TIM_TI1_SetConfig :: "tim_instance \<Rightarrow> u32 \<Rightarrow> u32 \<Rightarrow> u32 \<Rightarrow> tim_regs \<Rightarrow> tim_regs" where
  "TIM_TI1_SetConfig i TIM_ICPolarity TIM_ICSelection TIM_ICFilter r =
     (let tmpccer = r CCER;
          r = r(CCER := r CCER AND NOT TIM_CCER_CC1E);
          r = (if IS_TIM_CCXN_INSTANCE i TIM_CHANNEL_1 then r(CCER := r CCER AND NOT TIM_CCER_CC1NE) else r);
          tmpccmr = r CCMR1;
          tmpccmr = (if IS_TIM_CC2_INSTANCE i then (tmpccmr AND NOT TIM_CCMR1_CC1S) OR TIM_ICSelection
                     else tmpccmr OR TIM_CCMR1_CC1S_0);
          tmpccmr = tmpccmr AND NOT TIM_CCMR1_IC1F;
          tmpccmr = tmpccmr OR (push_bit 4 TIM_ICFilter AND TIM_CCMR1_IC1F);
          tmpccer = tmpccer AND NOT (TIM_CCER_CC1P OR TIM_CCER_CC1NP);
          tmpccer = tmpccer OR (TIM_ICPolarity AND (TIM_CCER_CC1P OR TIM_CCER_CC1NP))
      in r(CCMR1 := tmpccmr, CCER := tmpccer))"

definition TIM_TI2_SetConfig :: "tim_instance \<Rightarrow> u32 \<Rightarrow> u32 \<Rightarrow> u32 \<Rightarrow> tim_regs \<Rightarrow> tim_regs" where
  "TIM_TI2_SetConfig i TIM_ICPolarity TIM_ICSelection TIM_ICFilter r =
     (let tmpccer = r CCER;
          r = r(CCER := r CCER AND NOT TIM_CCER_CC2E);
          r = (if IS_TIM_CCXN_INSTANCE i TIM_CHANNEL_2 then r(CCER := r CCER AND NOT TIM_CCER_CC2NE) else r);
          tmpccmr = r CCMR1;
          tmpccmr = (tmpccmr AND NOT TIM_CCMR1_CC2S) OR push_bit 8 TIM_ICSelection;
          tmpccmr = tmpccmr AND NOT TIM_CCMR1_IC2F;
          tmpccmr = tmpccmr OR (push_bit 12 TIM_ICFilter AND TIM_CCMR1_IC2F);
          tmpccer = tmpccer AND NOT (TIM_CCER_CC2P OR TIM_CCER_CC2NP);
          tmpccer = tmpccer OR (push_bit 4 TIM_ICPolarity AND (TIM_CCER_CC2P OR TIM_CCER_CC2NP))
      in r(CCMR1 := tmpccmr, CCER := tmpccer))"

definition TIM_TI3_SetConfig :: "tim_instance \<Rightarrow> u32 \<Rightarrow> u32 \<Rightarrow> u32 \<Rightarrow> tim_regs \<Rightarrow> tim_regs" where
  "TIM_TI3_SetConfig i TIM_ICPolarity TIM_ICSelection TIM_ICFilter r =
     (let tmpccer = r CCER;
          r = r(CCER := r CCER AND NOT TIM_CCER_CC3E);
          r = (if IS_TIM_CCXN_INSTANCE i TIM_CHANNEL_3 then r(CCER := r CCER AND NOT TIM_CCER_CC3NE) else r);
          tmpccmr = r CCMR2;
          tmpccmr = (tmpccmr AND NOT TIM_CCMR2_CC3S) OR TIM_ICSelection;
          tmpccmr = tmpccmr AND NOT TIM_CCMR2_IC3F;
          tmpccmr = tmpccmr OR (push_bit 4 TIM_ICFilter AND TIM_CCMR2_IC3F);
          tmpccer = tmpccer AND NOT (TIM_CCER_CC3P OR TIM_CCER_CC3NP);
          tmpccer = tmpccer OR (push_bit 8 TIM_ICPolarity AND (TIM_CCER_CC3P OR TIM_CCER_CC3NP))
      in r(CCMR2 := tmpccmr, CCER := tmpccer))"

definition TIM_TI4_SetConfig :: "tim_instance \<Rightarrow> u32 \<Rightarrow> u32 \<Rightarrow> u32 \<Rightarrow> tim_regs \<Rightarrow> tim_regs" where
  "TIM_TI4_SetConfig i TIM_ICPolarity TIM_ICSelection TIM_ICFilter r =
     (let tmpccer = r CCER;
          r = r(CCER := r CCER AND NOT TIM_CCER_CC4E);
          r = (if IS_TIM_CCXN_INSTANCE i TIM_CHANNEL_4 then r(CCER := r CCER AND NOT TIM_CCER_CC4NE) else r);
          tmpccmr = r CCMR2;
          tmpccmr = (tmpccmr AND NOT TIM_CCMR2_CC4S) OR push_bit 8 TIM_ICSelection;
          tmpccmr = tmpccmr AND NOT TIM_CCMR2_IC4F;
          tmpccmr = tmpccmr OR (push_bit 12 TIM_ICFilter AND TIM_CCMR2_IC4F);
          tmpccer = tmpccer AND NOT (TIM_CCER_CC4P OR TIM_CCER_CC4NP);
          tmpccer = tmpccer OR (push_bit 12 TIM_ICPolarity AND (TIM_CCER_CC4P OR TIM_CCER_CC4NP))
      in r(CCMR2 := tmpccmr, CCER := tmpccer))"

definition TIM_TI1_ConfigInputStage :: "tim_instance \<Rightarrow> u32 \<Rightarrow> u32 \<Rightarrow> tim_regs \<Rightarrow> tim_regs" where
  "TIM_TI1_ConfigInputStage i TIM_ICPolarity TIM_ICFilter r =
     (let tmpccer = r CCER;
          r = r(CCER := r CCER AND NOT TIM_CCER_CC1E);
          r = (if IS_TIM_CCXN_INSTANCE i TIM_CHANNEL_1 then r(CCER := r CCER AND NOT TIM_CCER_CC1NE) else r);
          tmpccmr1 = r CCMR1;
          tmpccmr1 = tmpccmr1 AND NOT TIM_CCMR1_IC1F;
          tmpccmr1 = tmpccmr1 OR push_bit 4 TIM_ICFilter;
          tmpccer = tmpccer AND NOT (TIM_CCER_CC1P OR TIM_CCER_CC1NP);
          tmpccer = tmpccer OR TIM_ICPolarity
      in r(CCMR1 := tmpccmr1, CCER := tmpccer))"

definition TIM_TI2_ConfigInputStage :: "tim_instance \<Rightarrow> u32 \<Rightarrow> u32 \<Rightarrow> tim_regs \<Rightarrow> tim_regs" where
  "TIM_TI2_ConfigInputStage i TIM_ICPolarity TIM_ICFilter r =
     (let tmpccer = r CCER;
          r = r(CCER := r CCER AND NOT TIM_CCER_CC2E);
          r = (if IS_TIM_CCXN_INSTANCE i TIM_CHANNEL_2 then r(CCER := r CCER AND NOT TIM_CCER_CC2NE) else r);
          tmpccmr1 = r CCMR1;
          tmpccmr1 = tmpccmr1 AND NOT TIM_CCMR1_IC2F;
          tmpccmr1 = tmpccmr1 OR push_bit 12 TIM_ICFilter;
          tmpccer = tmpccer AND NOT (TIM_CCER_CC2P OR TIM_CCER_CC2NP);
          tmpccer = tmpccer OR push_bit 4 TIM_ICPolarity
      in r(CCMR1 := tmpccmr1, CCER := tmpccer))"

definition TIM_ITRx_SetConfig :: "u32 \<Rightarrow> tim_regs \<Rightarrow> tim_regs" where
  "TIM_ITRx_SetConfig InputTriggerSource r =
     (let tmpsmcr = r SMCR;
          tmpsmcr = tmpsmcr AND NOT TIM_SMCR_TS;
          tmpsmcr = tmpsmcr OR (InputTriggerSource OR TIM_SLAVEMODE_EXTERNAL1)
      in r(SMCR := tmpsmcr))"

definition TIM_ETR_SetConfig :: "u32 \<Rightarrow> u32 \<Rightarrow> u32 \<Rightarrow> tim_regs \<Rightarrow> tim_regs" where
  "TIM_ETR_SetConfig TIM_ExtTRGPrescaler TIM_ExtTRGPolarity ExtTRGFilter r =
     (let tmpsmcr = r SMCR;
          tmpsmcr = tmpsmcr AND NOT (TIM_SMCR_ETF OR TIM_SMCR_ETPS OR TIM_SMCR_ECE OR TIM_SMCR_ETP);
          tmpsmcr = tmpsmcr OR (TIM_ExtTRGPrescaler OR (TIM_ExtTRGPolarity OR push_bit 8 ExtTRGFilter))
      in r(SMCR := tmpsmcr))"

definition internal_triggers :: "u32 list" where
  "internal_triggers = [TIM_TS_ITR0, TIM_TS_ITR1, TIM_TS_ITR2, TIM_TS_ITR3, TIM_TS_ITR4, TIM_TS_ITR5, TIM_TS_ITR6, TIM_TS_ITR7, TIM_TS_ITR8, TIM_TS_ITR9, TIM_TS_ITR10, TIM_TS_ITR11, TIM_TS_ITR13, TIM_TS_ITR14]"

definition TIM_SlaveTimer_SetConfig :: "tim_instance \<Rightarrow> TIM_SlaveConfigTypeDef \<Rightarrow> tim_regs \<Rightarrow> HAL_StatusTypeDef \<times> tim_regs" where
  "TIM_SlaveTimer_SetConfig i sSlaveConfig r =
     (let tmpsmcr = r SMCR;
          tmpsmcr = tmpsmcr AND NOT TIM_SMCR_TS;
          tmpsmcr = tmpsmcr OR InputTrigger sSlaveConfig;
          tmpsmcr = tmpsmcr AND NOT TIM_SMCR_SMS;
          tmpsmcr = tmpsmcr OR SlaveMode sSlaveConfig;
          r = r(SMCR := tmpsmcr)
      in if InputTrigger sSlaveConfig = TIM_TS_ETRF
         then (HAL_OK, TIM_ETR_SetConfig (TriggerPrescaler sSlaveConfig) (TriggerPolarity sSlaveConfig)
                 (TriggerFilter sSlaveConfig) r)
         else if InputTrigger sSlaveConfig = TIM_TS_TI1F_ED
         then (if SlaveMode sSlaveConfig = TIM_SLAVEMODE_GATED \<or>
                  SlaveMode sSlaveConfig = TIM_SLAVEMODE_COMBINED_GATEDRESET
               then (HAL_ERROR, r)
               else (let tmpccer = r CCER;
                         r = r(CCER := r CCER AND NOT TIM_CCER_CC1E);
                         tmpccmr1 = r CCMR1;
                         tmpccmr1 = tmpccmr1 AND NOT TIM_CCMR1_IC1F;
                         tmpccmr1 = tmpccmr1 OR push_bit 4 (TriggerFilter sSlaveConfig)
                     in (HAL_OK, r(CCMR1 := tmpccmr1, CCER := tmpccer))))
         else if InputTrigger sSlaveConfig = TIM_TS_TI1FP1
         then (HAL_OK, TIM_TI1_ConfigInputStage i (TriggerPolarity sSlaveConfig) (TriggerFilter sSlaveConfig) r)
         else if InputTrigger sSlaveConfig = TIM_TS_TI2FP2
         then (HAL_OK, TIM_TI2_ConfigInputStage i (TriggerPolarity sSlaveConfig) (TriggerFilter sSlaveConfig) r)
         else if InputTrigger sSlaveConfig \<in> set internal_triggers then (HAL_OK, r)
         else (HAL_ERROR, r))"

section \<open>Starting DMA\<close>

definition TIM_DMA_Start_IT :: "tim_env \<Rightarrow> u32 \<Rightarrow> u32 \<Rightarrow> u32 \<Rightarrow> DMA_HandleTypeDef \<Rightarrow> HAL_StatusTypeDef \<times> DMA_HandleTypeDef" where
  "TIM_DMA_Start_IT env src dst len hdma =
     (if dma_linkedlist hdma
      then (case dma_head hdma of
              Some _ \<Rightarrow> HAL_DMAEx_List_Start_IT env (hdma\<lparr>dma_head := Some (len, src, dst)\<rparr>)
            | None \<Rightarrow> (HAL_ERROR, hdma))
      else HAL_DMA_Start_IT env hdma src dst len)"

text \<open>Setting the callbacks of one entry of the DMA array and starting it.\<close>

definition dma_start :: "tim_env \<Rightarrow> nat \<Rightarrow> dma_callback \<Rightarrow> dma_callback \<Rightarrow> u32 \<Rightarrow> u32 \<Rightarrow> u32 \<Rightarrow> TIM_HandleTypeDef
    \<Rightarrow> HAL_StatusTypeDef \<times> TIM_HandleTypeDef" where
  "dma_start env ident cplt half src dst len h =
     (let p = h_hdma h ident;
          d = (h_dma h p)\<lparr>XferCpltCallback := cplt, XferHalfCpltCallback := half, XferErrorCallback := TIM_DMAError_fn\<rparr>;
          (status, d') = TIM_DMA_Start_IT env src dst len d
      in (status, h\<lparr>h_dma := (h_dma h)(p := d')\<rparr>))"

definition dma_abort :: "tim_env \<Rightarrow> nat \<Rightarrow> TIM_HandleTypeDef \<Rightarrow> TIM_HandleTypeDef" where
  "dma_abort env ident h =
     (let p = h_hdma h ident in h\<lparr>h_dma := (h_dma h)(p := HAL_DMA_Abort_IT env (h_dma h p))\<rparr>)"

section \<open>A quiet board\<close>

text \<open>An environment whose DMA always starts and whose callbacks do nothing, and a handle that is
  ready on every channel: the concrete inputs of the examples.\<close>

definition quiet_env :: tim_env where
  "quiet_env = \<lparr>reg_address = (\<lambda>_ _. 0), HAL_DMA_Start_IT = (\<lambda>d _ _ _. (HAL_OK, d)),
     HAL_DMAEx_List_Start_IT = (\<lambda>d. (HAL_OK, d)), HAL_DMA_Abort_IT = (\<lambda>d. d), user_callback = (\<lambda>_ h. h)\<rparr>"

definition idle_dma :: DMA_HandleTypeDef where
  "idle_dma = \<lparr>dma_linkedlist = False, dma_head = None, XferCpltCallback = NoCallback,
     XferHalfCpltCallback = NoCallback, XferErrorCallback = NoCallback, dma_rest = 0\<rparr>"

definition idle_handle :: "tim_instance \<Rightarrow> tim_regs \<Rightarrow> TIM_HandleTypeDef" where
  "idle_handle i r = \<lparr>h_Instance = i, h_regs = r,
     h_Init = \<lparr>Prescaler = 0, CounterMode = 0, Period = 0, ClockDivision = 0, RepetitionCounter = 0, AutoReloadPreload = 0\<rparr>,
     h_Channel = HAL_TIM_ACTIVE_CHANNEL_CLEARED, h_hdma = (\<lambda>n. n), h_dma = (\<lambda>_. idle_dma), h_Lock = HAL_UNLOCKED,
     h_State = HAL_TIM_STATE_READY, h_ChannelState = (\<lambda>_. HAL_TIM_CHANNEL_STATE_READY),
     h_ChannelNState = (\<lambda>_. HAL_TIM_CHANNEL_STATE_READY), h_DMABurstState = HAL_DMA_BURST_STATE_READY, h_calls = []\<rparr>"

end
