(* ===== verification/Hal_Tim_Modes.thy ===== *)
theory Hal_Tim_Modes
  imports Hal_Tim
begin

unbundle bit_operations_syntax

text \<open>
  The operating modes of the timer driver (\<open>stm32h7rsxx_hal_tim.c\<close>): initialising, starting and
  stopping the time base, output compare, PWM, input capture, one-pulse and encoder modes, each
  polled, with interrupts and with DMA.  Every function returns its status and the handle it
  leaves; an early return is a branch that leaves the handle as it is at that point.
\<close>

section \<open>What the functions share\<close>

text \<open>The channel switches: the interrupt, the DMA request, the DMA entry and the capture/compare
  register of channels 1 to 4; \<open>None\<close> is the default branch.\<close>

definition channel_it :: "u32 \<Rightarrow> u32 option" where
  "channel_it ch =
     (if ch = TIM_CHANNEL_1 then Some TIM_IT_CC1 else if ch = TIM_CHANNEL_2 then Some TIM_IT_CC2
      else if ch = TIM_CHANNEL_3 then Some TIM_IT_CC3 else if ch = TIM_CHANNEL_4 then Some TIM_IT_CC4 else None)"

definition channel_dma :: "u32 \<Rightarrow> (u32 \<times> nat \<times> tim_reg) option" where
  "channel_dma ch =
     (if ch = TIM_CHANNEL_1 then Some (TIM_DMA_CC1, TIM_DMA_ID_CC1, CCR1)
      else if ch = TIM_CHANNEL_2 then Some (TIM_DMA_CC2, TIM_DMA_ID_CC2, CCR2)
      else if ch = TIM_CHANNEL_3 then Some (TIM_DMA_CC3, TIM_DMA_ID_CC3, CCR3)
      else if ch = TIM_CHANNEL_4 then Some (TIM_DMA_CC4, TIM_DMA_ID_CC4, CCR4) else None)"

text \<open>Enabling and disabling a capture/compare channel of a handle.\<close>

definition ccx_enable :: "u32 \<Rightarrow> TIM_HandleTypeDef \<Rightarrow> TIM_HandleTypeDef" where
  "ccx_enable ch = on_regs (TIM_CCxChannelCmd ch TIM_CCx_ENABLE)"

definition ccx_disable :: "u32 \<Rightarrow> TIM_HandleTypeDef \<Rightarrow> TIM_HandleTypeDef" where
  "ccx_disable ch = on_regs (TIM_CCxChannelCmd ch TIM_CCx_DISABLE)"

definition moe_enable :: "TIM_HandleTypeDef \<Rightarrow> TIM_HandleTypeDef" where
  "moe_enable h = (if IS_TIM_BREAK_INSTANCE (h_Instance h) then HAL_TIM_MOE_ENABLE h else h)"

definition moe_disable :: "TIM_HandleTypeDef \<Rightarrow> TIM_HandleTypeDef" where
  "moe_disable h = (if IS_TIM_BREAK_INSTANCE (h_Instance h) then HAL_TIM_MOE_DISABLE h else h)"

abbreviation (input) READY :: HAL_TIM_ChannelStateTypeDef where "READY \<equiv> HAL_TIM_CHANNEL_STATE_READY"
abbreviation (input) BUSY :: HAL_TIM_ChannelStateTypeDef where "BUSY \<equiv> HAL_TIM_CHANNEL_STATE_BUSY"
abbreviation (input) RESETST :: HAL_TIM_ChannelStateTypeDef where "RESETST \<equiv> HAL_TIM_CHANNEL_STATE_RESET"

text \<open>Channel states of the two channels a one-pulse or encoder mode uses.\<close>

definition set_channels_12 :: "HAL_TIM_ChannelStateTypeDef \<Rightarrow> TIM_HandleTypeDef \<Rightarrow> TIM_HandleTypeDef" where
  "set_channels_12 st h =
     TIM_CHANNEL_N_STATE_SET TIM_CHANNEL_2 st (TIM_CHANNEL_N_STATE_SET TIM_CHANNEL_1 st
       (TIM_CHANNEL_STATE_SET TIM_CHANNEL_2 st (TIM_CHANNEL_STATE_SET TIM_CHANNEL_1 st h)))"

definition channels_12 :: "TIM_HandleTypeDef \<Rightarrow> HAL_TIM_ChannelStateTypeDef list" where
  "channels_12 h =
     [TIM_CHANNEL_STATE_GET h TIM_CHANNEL_1, TIM_CHANNEL_STATE_GET h TIM_CHANNEL_2,
      TIM_CHANNEL_N_STATE_GET h TIM_CHANNEL_1, TIM_CHANNEL_N_STATE_GET h TIM_CHANNEL_2]"

definition set_channel_both :: "u32 \<Rightarrow> HAL_TIM_ChannelStateTypeDef \<Rightarrow> TIM_HandleTypeDef \<Rightarrow> TIM_HandleTypeDef" where
  "set_channel_both ch st h = TIM_CHANNEL_N_STATE_SET ch st (TIM_CHANNEL_STATE_SET ch st h)"

text \<open>The first part of every initialisation: unlock and call the board support on a handle that
  is still reset.\<close>

definition msp_init :: "tim_env \<Rightarrow> tim_callback \<Rightarrow> TIM_HandleTypeDef \<Rightarrow> TIM_HandleTypeDef" where
  "msp_init env c h =
     (if h_State h = HAL_TIM_STATE_RESET then callback env c (h\<lparr>h_Lock := HAL_UNLOCKED\<rparr>) else h)"

definition base_config :: "TIM_HandleTypeDef \<Rightarrow> TIM_HandleTypeDef" where
  "base_config h = on_regs (TIM_Base_SetConfig (h_Instance h) (h_Init h)) h"

section \<open>Time base\<close>

definition HAL_TIM_Base_Init :: "tim_env \<Rightarrow> TIM_HandleTypeDef option \<Rightarrow> HAL_StatusTypeDef \<times> TIM_HandleTypeDef option" where
  "HAL_TIM_Base_Init env htim =
     (case htim of None \<Rightarrow> (HAL_ERROR, None)
      | Some h \<Rightarrow>
          (let h = msp_init env Base_MspInit h;
               h = h\<lparr>h_State := HAL_TIM_STATE_BUSY\<rparr>;
               h = base_config h;
               h = h\<lparr>h_DMABurstState := HAL_DMA_BURST_STATE_READY\<rparr>;
               h = TIM_CHANNEL_STATE_SET_ALL READY h;
               h = TIM_CHANNEL_N_STATE_SET_ALL READY h
           in (HAL_OK, Some (h\<lparr>h_State := HAL_TIM_STATE_READY\<rparr>))))"

definition HAL_TIM_Base_DeInit :: "tim_env \<Rightarrow> TIM_HandleTypeDef \<Rightarrow> HAL_StatusTypeDef \<times> TIM_HandleTypeDef" where
  "HAL_TIM_Base_DeInit env h =
     (let h = h\<lparr>h_State := HAL_TIM_STATE_BUSY\<rparr>;
          h = HAL_TIM_DISABLE h;
          h = callback env Base_MspDeInit h;
          h = h\<lparr>h_DMABurstState := HAL_DMA_BURST_STATE_RESET\<rparr>;
          h = TIM_CHANNEL_STATE_SET_ALL RESETST h;
          h = TIM_CHANNEL_N_STATE_SET_ALL RESETST h
      in (HAL_OK, h\<lparr>h_State := HAL_TIM_STATE_RESET, h_Lock := HAL_UNLOCKED\<rparr>))"

definition HAL_TIM_Base_Start :: "TIM_HandleTypeDef \<Rightarrow> HAL_StatusTypeDef \<times> TIM_HandleTypeDef" where
  "HAL_TIM_Base_Start h =
     (if h_State h \<noteq> HAL_TIM_STATE_READY then (HAL_ERROR, h)
      else (HAL_OK, enable_unless_triggered (h\<lparr>h_State := HAL_TIM_STATE_BUSY\<rparr>)))"

definition HAL_TIM_Base_Stop :: "TIM_HandleTypeDef \<Rightarrow> HAL_StatusTypeDef \<times> TIM_HandleTypeDef" where
  "HAL_TIM_Base_Stop h = (HAL_OK, (HAL_TIM_DISABLE h)\<lparr>h_State := HAL_TIM_STATE_READY\<rparr>)"

definition HAL_TIM_Base_Start_IT :: "TIM_HandleTypeDef \<Rightarrow> HAL_StatusTypeDef \<times> TIM_HandleTypeDef" where
  "HAL_TIM_Base_Start_IT h =
     (if h_State h \<noteq> HAL_TIM_STATE_READY then (HAL_ERROR, h)
      else (HAL_OK, enable_unless_triggered (HAL_TIM_ENABLE_IT TIM_IT_UPDATE (h\<lparr>h_State := HAL_TIM_STATE_BUSY\<rparr>))))"

definition HAL_TIM_Base_Stop_IT :: "TIM_HandleTypeDef \<Rightarrow> HAL_StatusTypeDef \<times> TIM_HandleTypeDef" where
  "HAL_TIM_Base_Stop_IT h =
     (HAL_OK, (HAL_TIM_DISABLE (HAL_TIM_DISABLE_IT TIM_IT_UPDATE h))\<lparr>h_State := HAL_TIM_STATE_READY\<rparr>)"

definition HAL_TIM_Base_Start_DMA :: "tim_env \<Rightarrow> TIM_HandleTypeDef \<Rightarrow> u32 \<Rightarrow> u16 \<Rightarrow> HAL_StatusTypeDef \<times> TIM_HandleTypeDef" where
  "HAL_TIM_Base_Start_DMA env h pData Length =
     (if h_State h = HAL_TIM_STATE_BUSY then (HAL_BUSY, h)
      else if h_State h = HAL_TIM_STATE_READY
      then (if pData = 0 \<or> Length = 0 then (HAL_ERROR, h)
            else (let h = h\<lparr>h_State := HAL_TIM_STATE_BUSY\<rparr>;
                      (status, h) = dma_start env TIM_DMA_ID_UPDATE TIM_DMAPeriodElapsedCplt_fn
                          TIM_DMAPeriodElapsedHalfCplt_fn pData (reg_address env (h_Instance h) ARR) (ucast Length) h
                  in if status \<noteq> HAL_OK then (HAL_ERROR, h)
                     else (HAL_OK, enable_unless_triggered (HAL_TIM_ENABLE_DMA TIM_DMA_UPDATE h))))
      else (HAL_ERROR, h))"

definition HAL_TIM_Base_Stop_DMA :: "tim_env \<Rightarrow> TIM_HandleTypeDef \<Rightarrow> HAL_StatusTypeDef \<times> TIM_HandleTypeDef" where
  "HAL_TIM_Base_Stop_DMA env h =
     (let h = HAL_TIM_DISABLE_DMA TIM_DMA_UPDATE h;
          h = dma_abort env TIM_DMA_ID_UPDATE h
      in (HAL_OK, (HAL_TIM_DISABLE h)\<lparr>h_State := HAL_TIM_STATE_READY\<rparr>))"

section \<open>Output compare\<close>

definition HAL_TIM_OC_Init :: "tim_env \<Rightarrow> TIM_HandleTypeDef option \<Rightarrow> HAL_StatusTypeDef \<times> TIM_HandleTypeDef option" where
  "HAL_TIM_OC_Init env htim =
     (case htim of None \<Rightarrow> (HAL_ERROR, None)
      | Some h \<Rightarrow>
          (let h = msp_init env OC_MspInit h;
               h = h\<lparr>h_State := HAL_TIM_STATE_BUSY\<rparr>;
               h = base_config h;
               h = h\<lparr>h_DMABurstState := HAL_DMA_BURST_STATE_READY\<rparr>;
               h = TIM_CHANNEL_STATE_SET_ALL READY h;
               h = TIM_CHANNEL_N_STATE_SET_ALL READY h
           in (HAL_OK, Some (h\<lparr>h_State := HAL_TIM_STATE_READY\<rparr>))))"

definition HAL_TIM_OC_DeInit :: "tim_env \<Rightarrow> TIM_HandleTypeDef \<Rightarrow> HAL_StatusTypeDef \<times> TIM_HandleTypeDef" where
  "HAL_TIM_OC_DeInit env h =
     (let h = h\<lparr>h_State := HAL_TIM_STATE_BUSY\<rparr>;
          h = HAL_TIM_DISABLE h;
          h = callback env OC_MspDeInit h;
          h = h\<lparr>h_DMABurstState := HAL_DMA_BURST_STATE_RESET\<rparr>;
          h = TIM_CHANNEL_STATE_SET_ALL RESETST h;
          h = TIM_CHANNEL_N_STATE_SET_ALL RESETST h
      in (HAL_OK, h\<lparr>h_State := HAL_TIM_STATE_RESET, h_Lock := HAL_UNLOCKED\<rparr>))"

definition HAL_TIM_OC_Start :: "TIM_HandleTypeDef \<Rightarrow> u32 \<Rightarrow> HAL_StatusTypeDef \<times> TIM_HandleTypeDef" where
  "HAL_TIM_OC_Start h Channel =
     (if TIM_CHANNEL_STATE_GET h Channel \<noteq> READY then (HAL_ERROR, h)
      else (let h = TIM_CHANNEL_STATE_SET Channel BUSY h;
                h = ccx_enable Channel h;
                h = moe_enable h
            in (HAL_OK, enable_unless_triggered h)))"

definition HAL_TIM_OC_Stop :: "TIM_HandleTypeDef \<Rightarrow> u32 \<Rightarrow> HAL_StatusTypeDef \<times> TIM_HandleTypeDef" where
  "HAL_TIM_OC_Stop h Channel =
     (let h = ccx_disable Channel h;
          h = moe_disable h;
          h = HAL_TIM_DISABLE h
      in (HAL_OK, TIM_CHANNEL_STATE_SET Channel READY h))"

definition HAL_TIM_OC_Start_IT :: "TIM_HandleTypeDef \<Rightarrow> u32 \<Rightarrow> HAL_StatusTypeDef \<times> TIM_HandleTypeDef" where
  "HAL_TIM_OC_Start_IT h Channel =
     (if TIM_CHANNEL_STATE_GET h Channel \<noteq> READY then (HAL_ERROR, h)
      else (let h = TIM_CHANNEL_STATE_SET Channel BUSY h
            in case channel_it Channel of
                 None \<Rightarrow> (HAL_ERROR, h)
               | Some it \<Rightarrow>
                   (let h = HAL_TIM_ENABLE_IT it h;
                        h = ccx_enable Channel h;
                        h = moe_enable h
                    in (HAL_OK, enable_unless_triggered h))))"

definition HAL_TIM_OC_Stop_IT :: "TIM_HandleTypeDef \<Rightarrow> u32 \<Rightarrow> HAL_StatusTypeDef \<times> TIM_HandleTypeDef" where
  "HAL_TIM_OC_Stop_IT h Channel =
     (case channel_it Channel of
        None \<Rightarrow> (HAL_ERROR, h)
      | Some it \<Rightarrow>
          (let h = HAL_TIM_DISABLE_IT it h;
               h = ccx_disable Channel h;
               h = moe_disable h;
               h = HAL_TIM_DISABLE h
           in (HAL_OK, TIM_CHANNEL_STATE_SET Channel READY h)))"

definition OC_dma_channel :: "tim_env \<Rightarrow> TIM_HandleTypeDef \<Rightarrow> u32 \<Rightarrow> u32 \<Rightarrow> u16 \<Rightarrow> (HAL_StatusTypeDef \<times> TIM_HandleTypeDef) \<times> bool" where
  "OC_dma_channel env h Channel pData Length =
     (case channel_dma Channel of
        None \<Rightarrow> ((HAL_ERROR, h), False)
      | Some (request, ident, ccr) \<Rightarrow>
          (let (status, h) = dma_start env ident TIM_DMADelayPulseCplt_fn TIM_DMADelayPulseHalfCplt_fn
                               pData (reg_address env (h_Instance h) ccr) (ucast Length) h
           in if status \<noteq> HAL_OK then ((HAL_ERROR, h), True)
              else ((HAL_OK, HAL_TIM_ENABLE_DMA request h), False)))"

definition HAL_TIM_OC_Start_DMA :: "tim_env \<Rightarrow> TIM_HandleTypeDef \<Rightarrow> u32 \<Rightarrow> u32 \<Rightarrow> u16 \<Rightarrow> HAL_StatusTypeDef \<times> TIM_HandleTypeDef" where
  "HAL_TIM_OC_Start_DMA env h Channel pData Length =
     (if TIM_CHANNEL_STATE_GET h Channel = BUSY then (HAL_BUSY, h)
      else if TIM_CHANNEL_STATE_GET h Channel = READY
      then (if pData = 0 \<or> Length = 0 then (HAL_ERROR, h)
            else (let h = TIM_CHANNEL_STATE_SET Channel BUSY h;
                      ((status, h), returned) = OC_dma_channel env h Channel pData Length
                  in if returned \<or> status \<noteq> HAL_OK then (status, h)
                     else (let h = ccx_enable Channel h;
                               h = moe_enable h
                           in (HAL_OK, enable_unless_triggered h))))
      else (HAL_ERROR, h))"

definition HAL_TIM_OC_Stop_DMA :: "tim_env \<Rightarrow> TIM_HandleTypeDef \<Rightarrow> u32 \<Rightarrow> HAL_StatusTypeDef \<times> TIM_HandleTypeDef" where
  "HAL_TIM_OC_Stop_DMA env h Channel =
     (case channel_dma Channel of
        None \<Rightarrow> (HAL_ERROR, h)
      | Some (request, ident, ccr) \<Rightarrow>
          (let h = HAL_TIM_DISABLE_DMA request h;
               h = dma_abort env ident h;
               h = ccx_disable Channel h;
               h = moe_disable h;
               h = HAL_TIM_DISABLE h
           in (HAL_OK, TIM_CHANNEL_STATE_SET Channel READY h)))"

section \<open>PWM\<close>

definition HAL_TIM_PWM_Init :: "tim_env \<Rightarrow> TIM_HandleTypeDef option \<Rightarrow> HAL_StatusTypeDef \<times> TIM_HandleTypeDef option" where
  "HAL_TIM_PWM_Init env htim =
     (case htim of None \<Rightarrow> (HAL_ERROR, None)
      | Some h \<Rightarrow>
          (let h = msp_init env PWM_MspInit h;
               h = h\<lparr>h_State := HAL_TIM_STATE_BUSY\<rparr>;
               h = base_config h;
               h = h\<lparr>h_DMABurstState := HAL_DMA_BURST_STATE_READY\<rparr>;
               h = TIM_CHANNEL_STATE_SET_ALL READY h;
               h = TIM_CHANNEL_N_STATE_SET_ALL READY h
           in (HAL_OK, Some (h\<lparr>h_State := HAL_TIM_STATE_READY\<rparr>))))"

definition HAL_TIM_PWM_DeInit :: "tim_env \<Rightarrow> TIM_HandleTypeDef \<Rightarrow> HAL_StatusTypeDef \<times> TIM_HandleTypeDef" where
  "HAL_TIM_PWM_DeInit env h =
     (let h = h\<lparr>h_State := HAL_TIM_STATE_BUSY\<rparr>;
          h = HAL_TIM_DISABLE h;
          h = callback env PWM_MspDeInit h;
          h = h\<lparr>h_DMABurstState := HAL_DMA_BURST_STATE_RESET\<rparr>;
          h = TIM_CHANNEL_STATE_SET_ALL RESETST h;
          h = TIM_CHANNEL_N_STATE_SET_ALL RESETST h
      in (HAL_OK, h\<lparr>h_State := HAL_TIM_STATE_RESET, h_Lock := HAL_UNLOCKED\<rparr>))"

definition HAL_TIM_PWM_Start :: "TIM_HandleTypeDef \<Rightarrow> u32 \<Rightarrow> HAL_StatusTypeDef \<times> TIM_HandleTypeDef" where
  "HAL_TIM_PWM_Start h Channel =
     (if TIM_CHANNEL_STATE_GET h Channel \<noteq> READY then (HAL_ERROR, h)
      else (let h = TIM_CHANNEL_STATE_SET Channel BUSY h;
                h = ccx_enable Channel h;
                h = moe_enable h
            in (HAL_OK, enable_unless_triggered h)))"

definition HAL_TIM_PWM_Stop :: "TIM_HandleTypeDef \<Rightarrow> u32 \<Rightarrow> HAL_StatusTypeDef \<times> TIM_HandleTypeDef" where
  "HAL_TIM_PWM_Stop h Channel =
     (let h = ccx_disable Channel h;
          h = moe_disable h;
          h = HAL_TIM_DISABLE h
      in (HAL_OK, TIM_CHANNEL_STATE_SET Channel READY h))"

definition HAL_TIM_PWM_Start_IT :: "TIM_HandleTypeDef \<Rightarrow> u32 \<Rightarrow> HAL_StatusTypeDef \<times> TIM_HandleTypeDef" where
  "HAL_TIM_PWM_Start_IT h Channel =
     (if TIM_CHANNEL_STATE_GET h Channel \<noteq> READY then (HAL_ERROR, h)
      else (let h = TIM_CHANNEL_STATE_SET Channel BUSY h
            in case channel_it Channel of
                 None \<Rightarrow> (HAL_ERROR, h)
               | Some it \<Rightarrow>
                   (let h = HAL_TIM_ENABLE_IT it h;
                        h = ccx_enable Channel h;
                        h = moe_enable h
                    in (HAL_OK, enable_unless_triggered h))))"

definition HAL_TIM_PWM_Stop_IT :: "TIM_HandleTypeDef \<Rightarrow> u32 \<Rightarrow> HAL_StatusTypeDef \<times> TIM_HandleTypeDef" where
  "HAL_TIM_PWM_Stop_IT h Channel =
     (case channel_it Channel of
        None \<Rightarrow> (HAL_ERROR, h)
      | Some it \<Rightarrow>
          (let h = HAL_TIM_DISABLE_IT it h;
               h = ccx_disable Channel h;
               h = moe_disable h;
               h = HAL_TIM_DISABLE h
           in (HAL_OK, TIM_CHANNEL_STATE_SET Channel READY h)))"

definition PWM_dma_channel :: "tim_env \<Rightarrow> TIM_HandleTypeDef \<Rightarrow> u32 \<Rightarrow> u32 \<Rightarrow> u16 \<Rightarrow> (HAL_StatusTypeDef \<times> TIM_HandleTypeDef) \<times> bool" where
  "PWM_dma_channel env h Channel pData Length =
     (case channel_dma Channel of
        None \<Rightarrow> ((HAL_ERROR, h), False)
      | Some (request, ident, ccr) \<Rightarrow>
          (let (status, h) = dma_start env ident TIM_DMADelayPulseCplt_fn TIM_DMADelayPulseHalfCplt_fn
                               pData (reg_address env (h_Instance h) ccr) (ucast Length) h
           in if status \<noteq> HAL_OK then ((HAL_ERROR, h), True)
              else ((HAL_OK, HAL_TIM_ENABLE_DMA request h), False)))"

definition HAL_TIM_PWM_Start_DMA :: "tim_env \<Rightarrow> TIM_HandleTypeDef \<Rightarrow> u32 \<Rightarrow> u32 \<Rightarrow> u16 \<Rightarrow> HAL_StatusTypeDef \<times> TIM_HandleTypeDef" where
  "HAL_TIM_PWM_Start_DMA env h Channel pData Length =
     (if TIM_CHANNEL_STATE_GET h Channel = BUSY then (HAL_BUSY, h)
      else if TIM_CHANNEL_STATE_GET h Channel = READY
      then (if pData = 0 \<or> Length = 0 then (HAL_ERROR, h)
            else (let h = TIM_CHANNEL_STATE_SET Channel BUSY h;
                      ((status, h), returned) = PWM_dma_channel env h Channel pData Length
                  in if returned \<or> status \<noteq> HAL_OK then (status, h)
                     else (let h = ccx_enable Channel h;
                               h = moe_enable h
                           in (HAL_OK, enable_unless_triggered h))))
      else (HAL_ERROR, h))"

definition HAL_TIM_PWM_Stop_DMA :: "tim_env \<Rightarrow> TIM_HandleTypeDef \<Rightarrow> u32 \<Rightarrow> HAL_StatusTypeDef \<times> TIM_HandleTypeDef" where
  "HAL_TIM_PWM_Stop_DMA env h Channel =
     (case channel_dma Channel of
        None \<Rightarrow> (HAL_ERROR, h)
      | Some (request, ident, ccr) \<Rightarrow>
          (let h = HAL_TIM_DISABLE_DMA request h;
               h = dma_abort env ident h;
               h = ccx_disable Channel h;
               h = moe_disable h;
               h = HAL_TIM_DISABLE h
           in (HAL_OK, TIM_CHANNEL_STATE_SET Channel READY h)))"

section \<open>Input capture\<close>

definition HAL_TIM_IC_Init :: "tim_env \<Rightarrow> TIM_HandleTypeDef option \<Rightarrow> HAL_StatusTypeDef \<times> TIM_HandleTypeDef option" where
  "HAL_TIM_IC_Init env htim =
     (case htim of None \<Rightarrow> (HAL_ERROR, None)
      | Some h \<Rightarrow>
          (let h = msp_init env IC_MspInit h;
               h = h\<lparr>h_State := HAL_TIM_STATE_BUSY\<rparr>;
               h = base_config h;
               h = h\<lparr>h_DMABurstState := HAL_DMA_BURST_STATE_READY\<rparr>;
               h = TIM_CHANNEL_STATE_SET_ALL READY h;
               h = TIM_CHANNEL_N_STATE_SET_ALL READY h
           in (HAL_OK, Some (h\<lparr>h_State := HAL_TIM_STATE_READY\<rparr>))))"

definition HAL_TIM_IC_DeInit :: "tim_env \<Rightarrow> TIM_HandleTypeDef \<Rightarrow> HAL_StatusTypeDef \<times> TIM_HandleTypeDef" where
  "HAL_TIM_IC_DeInit env h =
     (let h = h\<lparr>h_State := HAL_TIM_STATE_BUSY\<rparr>;
          h = HAL_TIM_DISABLE h;
          h = callback env IC_MspDeInit h;
          h = h\<lparr>h_DMABurstState := HAL_DMA_BURST_STATE_RESET\<rparr>;
          h = TIM_CHANNEL_STATE_SET_ALL RESETST h;
          h = TIM_CHANNEL_N_STATE_SET_ALL RESETST h
      in (HAL_OK, h\<lparr>h_State := HAL_TIM_STATE_RESET, h_Lock := HAL_UNLOCKED\<rparr>))"

definition HAL_TIM_IC_Start :: "TIM_HandleTypeDef \<Rightarrow> u32 \<Rightarrow> HAL_StatusTypeDef \<times> TIM_HandleTypeDef" where
  "HAL_TIM_IC_Start h Channel =
     (if TIM_CHANNEL_STATE_GET h Channel \<noteq> READY \<or> TIM_CHANNEL_N_STATE_GET h Channel \<noteq> READY then (HAL_ERROR, h)
      else (let h = set_channel_both Channel BUSY h;
                h = ccx_enable Channel h
            in (HAL_OK, enable_unless_triggered h)))"

definition HAL_TIM_IC_Stop :: "TIM_HandleTypeDef \<Rightarrow> u32 \<Rightarrow> HAL_StatusTypeDef \<times> TIM_HandleTypeDef" where
  "HAL_TIM_IC_Stop h Channel =
     (let h = ccx_disable Channel h;
          h = HAL_TIM_DISABLE h
      in (HAL_OK, set_channel_both Channel READY h))"

definition HAL_TIM_IC_Start_IT :: "TIM_HandleTypeDef \<Rightarrow> u32 \<Rightarrow> HAL_StatusTypeDef \<times> TIM_HandleTypeDef" where
  "HAL_TIM_IC_Start_IT h Channel =
     (if TIM_CHANNEL_STATE_GET h Channel \<noteq> READY \<or> TIM_CHANNEL_N_STATE_GET h Channel \<noteq> READY then (HAL_ERROR, h)
      else (let h = set_channel_both Channel BUSY h
            in case channel_it Channel of
                 None \<Rightarrow> (HAL_ERROR, h)
               | Some it \<Rightarrow>
                   (let h = HAL_TIM_ENABLE_IT it h;
                        h = ccx_enable Channel h
                    in (HAL_OK, enable_unless_triggered h))))"

definition HAL_TIM_IC_Stop_IT :: "TIM_HandleTypeDef \<Rightarrow> u32 \<Rightarrow> HAL_StatusTypeDef \<times> TIM_HandleTypeDef" where
  "HAL_TIM_IC_Stop_IT h Channel =
     (case channel_it Channel of
        None \<Rightarrow> (HAL_ERROR, h)
      | Some it \<Rightarrow>
          (let h = HAL_TIM_DISABLE_IT it h;
               h = ccx_disable Channel h;
               h = HAL_TIM_DISABLE h
           in (HAL_OK, set_channel_both Channel READY h)))"

definition capture_dma_start :: "tim_env \<Rightarrow> nat \<Rightarrow> tim_reg \<Rightarrow> u32 \<Rightarrow> u16 \<Rightarrow> TIM_HandleTypeDef \<Rightarrow> HAL_StatusTypeDef \<times> TIM_HandleTypeDef" where
  "capture_dma_start env ident ccr pData Length h =
     dma_start env ident TIM_DMACaptureCplt_fn TIM_DMACaptureHalfCplt_fn
       (reg_address env (h_Instance h) ccr) pData (ucast Length) h"

definition IC_dma_channel :: "tim_env \<Rightarrow> TIM_HandleTypeDef \<Rightarrow> u32 \<Rightarrow> u32 \<Rightarrow> u16 \<Rightarrow> (HAL_StatusTypeDef \<times> TIM_HandleTypeDef) \<times> bool" where
  "IC_dma_channel env h Channel pData Length =
     (case channel_dma Channel of
        None \<Rightarrow> ((HAL_ERROR, h), False)
      | Some (request, ident, ccr) \<Rightarrow>
          (let (status, h) = capture_dma_start env ident ccr pData Length h
           in if status \<noteq> HAL_OK then ((HAL_ERROR, h), True)
              else ((HAL_OK, HAL_TIM_ENABLE_DMA request h), False)))"

definition HAL_TIM_IC_Start_DMA :: "tim_env \<Rightarrow> TIM_HandleTypeDef \<Rightarrow> u32 \<Rightarrow> u32 \<Rightarrow> u16 \<Rightarrow> HAL_StatusTypeDef \<times> TIM_HandleTypeDef" where
  "HAL_TIM_IC_Start_DMA env h Channel pData Length =
     (if TIM_CHANNEL_STATE_GET h Channel = BUSY \<or> TIM_CHANNEL_N_STATE_GET h Channel = BUSY then (HAL_BUSY, h)
      else if TIM_CHANNEL_STATE_GET h Channel = READY \<and> TIM_CHANNEL_N_STATE_GET h Channel = READY
      then (if pData = 0 \<or> Length = 0 then (HAL_ERROR, h)
            else (let h = set_channel_both Channel BUSY h;
                      h = ccx_enable Channel h;
                      ((status, h), returned) = IC_dma_channel env h Channel pData Length
                  in if returned then (status, h)
                     else (status, enable_unless_triggered h)))
      else (HAL_ERROR, h))"

definition HAL_TIM_IC_Stop_DMA :: "tim_env \<Rightarrow> TIM_HandleTypeDef \<Rightarrow> u32 \<Rightarrow> HAL_StatusTypeDef \<times> TIM_HandleTypeDef" where
  "HAL_TIM_IC_Stop_DMA env h Channel =
     (let h = ccx_disable Channel h
      in case channel_dma Channel of
           None \<Rightarrow> (HAL_ERROR, h)
         | Some (request, ident, ccr) \<Rightarrow>
             (let h = HAL_TIM_DISABLE_DMA request h;
                  h = dma_abort env ident h;
                  h = HAL_TIM_DISABLE h
              in (HAL_OK, set_channel_both Channel READY h)))"

section \<open>One pulse\<close>

definition HAL_TIM_OnePulse_Init :: "tim_env \<Rightarrow> TIM_HandleTypeDef option \<Rightarrow> u32 \<Rightarrow> HAL_StatusTypeDef \<times> TIM_HandleTypeDef option" where
  "HAL_TIM_OnePulse_Init env htim OnePulseMode =
     (case htim of None \<Rightarrow> (HAL_ERROR, None)
      | Some h \<Rightarrow>
          (let h = msp_init env OnePulse_MspInit h;
               h = h\<lparr>h_State := HAL_TIM_STATE_BUSY\<rparr>;
               h = base_config h;
               h = on_regs (\<lambda>r. r(CR1 := r CR1 AND NOT TIM_CR1_OPM)) h;
               h = on_regs (\<lambda>r. r(CR1 := r CR1 OR OnePulseMode)) h;
               h = h\<lparr>h_DMABurstState := HAL_DMA_BURST_STATE_READY\<rparr>;
               h = set_channels_12 READY h
           in (HAL_OK, Some (h\<lparr>h_State := HAL_TIM_STATE_READY\<rparr>))))"

definition HAL_TIM_OnePulse_DeInit :: "tim_env \<Rightarrow> TIM_HandleTypeDef \<Rightarrow> HAL_StatusTypeDef \<times> TIM_HandleTypeDef" where
  "HAL_TIM_OnePulse_DeInit env h =
     (let h = h\<lparr>h_State := HAL_TIM_STATE_BUSY\<rparr>;
          h = HAL_TIM_DISABLE h;
          h = callback env OnePulse_MspDeInit h;
          h = h\<lparr>h_DMABurstState := HAL_DMA_BURST_STATE_RESET\<rparr>;
          h = set_channels_12 RESETST h
      in (HAL_OK, h\<lparr>h_State := HAL_TIM_STATE_RESET, h_Lock := HAL_UNLOCKED\<rparr>))"

definition HAL_TIM_OnePulse_Start :: "TIM_HandleTypeDef \<Rightarrow> u32 \<Rightarrow> HAL_StatusTypeDef \<times> TIM_HandleTypeDef" where
  "HAL_TIM_OnePulse_Start h OutputChannel =
     (if list_ex (\<lambda>s. s \<noteq> READY) (channels_12 h) then (HAL_ERROR, h)
      else (let h = set_channels_12 BUSY h;
                h = ccx_enable TIM_CHANNEL_1 h;
                h = ccx_enable TIM_CHANNEL_2 h
            in (HAL_OK, moe_enable h)))"

definition HAL_TIM_OnePulse_Stop :: "TIM_HandleTypeDef \<Rightarrow> u32 \<Rightarrow> HAL_StatusTypeDef \<times> TIM_HandleTypeDef" where
  "HAL_TIM_OnePulse_Stop h OutputChannel =
     (let h = ccx_disable TIM_CHANNEL_1 h;
          h = ccx_disable TIM_CHANNEL_2 h;
          h = moe_disable h;
          h = HAL_TIM_DISABLE h
      in (HAL_OK, set_channels_12 READY h))"

definition HAL_TIM_OnePulse_Start_IT :: "TIM_HandleTypeDef \<Rightarrow> u32 \<Rightarrow> HAL_StatusTypeDef \<times> TIM_HandleTypeDef" where
  "HAL_TIM_OnePulse_Start_IT h OutputChannel =
     (if list_ex (\<lambda>s. s \<noteq> READY) (channels_12 h) then (HAL_ERROR, h)
      else (let h = set_channels_12 BUSY h;
                h = HAL_TIM_ENABLE_IT TIM_IT_CC1 h;
                h = HAL_TIM_ENABLE_IT TIM_IT_CC2 h;
                h = ccx_enable TIM_CHANNEL_1 h;
                h = ccx_enable TIM_CHANNEL_2 h
            in (HAL_OK, moe_enable h)))"

definition HAL_TIM_OnePulse_Stop_IT :: "TIM_HandleTypeDef \<Rightarrow> u32 \<Rightarrow> HAL_StatusTypeDef \<times> TIM_HandleTypeDef" where
  "HAL_TIM_OnePulse_Stop_IT h OutputChannel =
     (let h = HAL_TIM_DISABLE_IT TIM_IT_CC1 h;
          h = HAL_TIM_DISABLE_IT TIM_IT_CC2 h;
          h = ccx_disable TIM_CHANNEL_1 h;
          h = ccx_disable TIM_CHANNEL_2 h;
          h = moe_disable h;
          h = HAL_TIM_DISABLE h
      in (HAL_OK, set_channels_12 READY h))"

section \<open>Encoder\<close>

record TIM_Encoder_InitTypeDef =
  EncoderMode :: u32
  IC1Polarity :: u32
  IC1Selection :: u32
  IC1Prescaler :: u32
  IC1Filter :: u32
  IC2Polarity :: u32
  IC2Selection :: u32
  IC2Prescaler :: u32
  IC2Filter :: u32

definition encoder_config :: "TIM_Encoder_InitTypeDef \<Rightarrow> tim_regs \<Rightarrow> tim_regs" where
  "encoder_config sConfig r =
     (let tmpsmcr = r SMCR;
          tmpccmr1 = r CCMR1;
          tmpccer = r CCER;
          tmpsmcr = tmpsmcr OR EncoderMode sConfig;
          tmpccmr1 = tmpccmr1 AND NOT (TIM_CCMR1_CC1S OR TIM_CCMR1_CC2S);
          tmpccmr1 = tmpccmr1 OR (IC1Selection sConfig OR push_bit 8 (IC2Selection sConfig));
          tmpccmr1 = tmpccmr1 AND NOT (TIM_CCMR1_IC1PSC OR TIM_CCMR1_IC2PSC);
          tmpccmr1 = tmpccmr1 AND NOT (TIM_CCMR1_IC1F OR TIM_CCMR1_IC2F);
          tmpccmr1 = tmpccmr1 OR (IC1Prescaler sConfig OR push_bit 8 (IC2Prescaler sConfig));
          tmpccmr1 = tmpccmr1 OR (push_bit 4 (IC1Filter sConfig) OR push_bit 12 (IC2Filter sConfig));
          tmpccer = tmpccer AND NOT (TIM_CCER_CC1P OR TIM_CCER_CC2P);
          tmpccer = tmpccer AND NOT (TIM_CCER_CC1NP OR TIM_CCER_CC2NP);
          tmpccer = tmpccer OR (IC1Polarity sConfig OR push_bit 4 (IC2Polarity sConfig))
      in r(SMCR := tmpsmcr, CCMR1 := tmpccmr1, CCER := tmpccer))"

definition HAL_TIM_Encoder_Init :: "tim_env \<Rightarrow> TIM_HandleTypeDef option \<Rightarrow> TIM_Encoder_InitTypeDef \<Rightarrow> HAL_StatusTypeDef \<times> TIM_HandleTypeDef option" where
  "HAL_TIM_Encoder_Init env htim sConfig =
     (case htim of None \<Rightarrow> (HAL_ERROR, None)
      | Some h \<Rightarrow>
          (let h = msp_init env Encoder_MspInit h;
               h = h\<lparr>h_State := HAL_TIM_STATE_BUSY\<rparr>;
               h = on_regs (\<lambda>r. r(SMCR := r SMCR AND NOT (TIM_SMCR_SMS OR TIM_SMCR_ECE))) h;
               h = base_config h;
               h = on_regs (encoder_config sConfig) h;
               h = h\<lparr>h_DMABurstState := HAL_DMA_BURST_STATE_READY\<rparr>;
               h = set_channels_12 READY h
           in (HAL_OK, Some (h\<lparr>h_State := HAL_TIM_STATE_READY\<rparr>))))"

definition HAL_TIM_Encoder_DeInit :: "tim_env \<Rightarrow> TIM_HandleTypeDef \<Rightarrow> HAL_StatusTypeDef \<times> TIM_HandleTypeDef" where
  "HAL_TIM_Encoder_DeInit env h =
     (let h = h\<lparr>h_State := HAL_TIM_STATE_BUSY\<rparr>;
          h = HAL_TIM_DISABLE h;
          h = callback env Encoder_MspDeInit h;
          h = h\<lparr>h_DMABurstState := HAL_DMA_BURST_STATE_RESET\<rparr>;
          h = set_channels_12 RESETST h
      in (HAL_OK, h\<lparr>h_State := HAL_TIM_STATE_RESET, h_Lock := HAL_UNLOCKED\<rparr>))"

text \<open>The channel states a call on \<open>Channel\<close> looks at, setting them, and the channels it drives:
  channel 1, channel 2, or both for any other value.\<close>

definition encoder_states :: "TIM_HandleTypeDef \<Rightarrow> u32 \<Rightarrow> HAL_TIM_ChannelStateTypeDef list" where
  "encoder_states h Channel =
     (if Channel = TIM_CHANNEL_1 then [TIM_CHANNEL_STATE_GET h TIM_CHANNEL_1, TIM_CHANNEL_N_STATE_GET h TIM_CHANNEL_1]
      else if Channel = TIM_CHANNEL_2 then [TIM_CHANNEL_STATE_GET h TIM_CHANNEL_2, TIM_CHANNEL_N_STATE_GET h TIM_CHANNEL_2]
      else channels_12 h)"

definition encoder_set :: "u32 \<Rightarrow> HAL_TIM_ChannelStateTypeDef \<Rightarrow> TIM_HandleTypeDef \<Rightarrow> TIM_HandleTypeDef" where
  "encoder_set Channel st h =
     (if Channel = TIM_CHANNEL_1 then set_channel_both TIM_CHANNEL_1 st h
      else if Channel = TIM_CHANNEL_2 then set_channel_both TIM_CHANNEL_2 st h
      else set_channels_12 st h)"

definition HAL_TIM_Encoder_Start :: "TIM_HandleTypeDef \<Rightarrow> u32 \<Rightarrow> HAL_StatusTypeDef \<times> TIM_HandleTypeDef" where
  "HAL_TIM_Encoder_Start h Channel =
     (if list_ex (\<lambda>s. s \<noteq> READY) (encoder_states h Channel) then (HAL_ERROR, h)
      else (let h = encoder_set Channel BUSY h;
                h = (if Channel = TIM_CHANNEL_1 then ccx_enable TIM_CHANNEL_1 h
                     else if Channel = TIM_CHANNEL_2 then ccx_enable TIM_CHANNEL_2 h
                     else ccx_enable TIM_CHANNEL_2 (ccx_enable TIM_CHANNEL_1 h))
            in (HAL_OK, HAL_TIM_ENABLE h)))"

definition HAL_TIM_Encoder_Stop :: "TIM_HandleTypeDef \<Rightarrow> u32 \<Rightarrow> HAL_StatusTypeDef \<times> TIM_HandleTypeDef" where
  "HAL_TIM_Encoder_Stop h Channel =
     (let h = (if Channel = TIM_CHANNEL_1 then ccx_disable TIM_CHANNEL_1 h
               else if Channel = TIM_CHANNEL_2 then ccx_disable TIM_CHANNEL_2 h
               else ccx_disable TIM_CHANNEL_2 (ccx_disable TIM_CHANNEL_1 h));
          h = HAL_TIM_DISABLE h
      in (HAL_OK, encoder_set Channel READY h))"

definition HAL_TIM_Encoder_Start_IT :: "TIM_HandleTypeDef \<Rightarrow> u32 \<Rightarrow> HAL_StatusTypeDef \<times> TIM_HandleTypeDef" where
  "HAL_TIM_Encoder_Start_IT h Channel =
     (if list_ex (\<lambda>s. s \<noteq> READY) (encoder_states h Channel) then (HAL_ERROR, h)
      else (let h = encoder_set Channel BUSY h;
                h = (if Channel = TIM_CHANNEL_1 then HAL_TIM_ENABLE_IT TIM_IT_CC1 (ccx_enable TIM_CHANNEL_1 h)
                     else if Channel = TIM_CHANNEL_2 then HAL_TIM_ENABLE_IT TIM_IT_CC2 (ccx_enable TIM_CHANNEL_2 h)
                     else HAL_TIM_ENABLE_IT TIM_IT_CC2 (HAL_TIM_ENABLE_IT TIM_IT_CC1
                            (ccx_enable TIM_CHANNEL_2 (ccx_enable TIM_CHANNEL_1 h))))
            in (HAL_OK, HAL_TIM_ENABLE h)))"

definition HAL_TIM_Encoder_Stop_IT :: "TIM_HandleTypeDef \<Rightarrow> u32 \<Rightarrow> HAL_StatusTypeDef \<times> TIM_HandleTypeDef" where
  "HAL_TIM_Encoder_Stop_IT h Channel =
     (let h = (if Channel = TIM_CHANNEL_1 then HAL_TIM_DISABLE_IT TIM_IT_CC1 (ccx_disable TIM_CHANNEL_1 h)
               else if Channel = TIM_CHANNEL_2 then HAL_TIM_DISABLE_IT TIM_IT_CC2 (ccx_disable TIM_CHANNEL_2 h)
               else HAL_TIM_DISABLE_IT TIM_IT_CC2 (HAL_TIM_DISABLE_IT TIM_IT_CC1
                      (ccx_disable TIM_CHANNEL_2 (ccx_disable TIM_CHANNEL_1 h))));
          h = HAL_TIM_DISABLE h
      in (HAL_OK, encoder_set Channel READY h))"

definition encoder_dma_guard :: "TIM_HandleTypeDef \<Rightarrow> u32 \<Rightarrow> u32 \<Rightarrow> u32 \<Rightarrow> u16 \<Rightarrow> HAL_StatusTypeDef" where
  "encoder_dma_guard h Channel pData1 pData2 Length =
     (let states = encoder_states h Channel;
          no_data = (if Channel = TIM_CHANNEL_1 then pData1 = 0 else if Channel = TIM_CHANNEL_2 then pData2 = 0
                     else pData1 = 0 \<or> pData2 = 0)
      in if list_ex (\<lambda>s. s = BUSY) states then HAL_BUSY
         else if list_all (\<lambda>s. s = READY) states
         then (if no_data \<or> Length = 0 then HAL_ERROR else HAL_OK)
         else HAL_ERROR)"

definition encoder_dma_one :: "tim_env \<Rightarrow> u32 \<Rightarrow> u32 \<Rightarrow> nat \<Rightarrow> tim_reg \<Rightarrow> u32 \<Rightarrow> u16 \<Rightarrow> TIM_HandleTypeDef \<Rightarrow> HAL_StatusTypeDef \<times> TIM_HandleTypeDef" where
  "encoder_dma_one env Channel request ident ccr pData Length h =
     (let (status, h) = capture_dma_start env ident ccr pData Length h
      in if status \<noteq> HAL_OK then (HAL_ERROR, h)
         else (let h = HAL_TIM_ENABLE_DMA request h;
                   h = ccx_enable Channel h
               in (HAL_OK, HAL_TIM_ENABLE h)))"

definition encoder_dma_both :: "tim_env \<Rightarrow> u32 \<Rightarrow> u32 \<Rightarrow> u16 \<Rightarrow> TIM_HandleTypeDef \<Rightarrow> HAL_StatusTypeDef \<times> TIM_HandleTypeDef" where
  "encoder_dma_both env pData1 pData2 Length h =
     (let (status, h) = capture_dma_start env TIM_DMA_ID_CC1 CCR1 pData1 Length h
      in if status \<noteq> HAL_OK then (HAL_ERROR, h)
         else (let (status, h) = capture_dma_start env TIM_DMA_ID_CC2 CCR2 pData2 Length h
               in if status \<noteq> HAL_OK then (HAL_ERROR, h)
                  else (let h = HAL_TIM_ENABLE_DMA TIM_DMA_CC1 h;
                            h = HAL_TIM_ENABLE_DMA TIM_DMA_CC2 h;
                            h = ccx_enable TIM_CHANNEL_1 h;
                            h = ccx_enable TIM_CHANNEL_2 h
                        in (HAL_OK, HAL_TIM_ENABLE h))))"

definition HAL_TIM_Encoder_Start_DMA :: "tim_env \<Rightarrow> TIM_HandleTypeDef \<Rightarrow> u32 \<Rightarrow> u32 \<Rightarrow> u32 \<Rightarrow> u16 \<Rightarrow> HAL_StatusTypeDef \<times> TIM_HandleTypeDef" where
  "HAL_TIM_Encoder_Start_DMA env h Channel pData1 pData2 Length =
     (let guard = encoder_dma_guard h Channel pData1 pData2 Length
      in if guard \<noteq> HAL_OK then (guard, h)
         else (let h = encoder_set Channel BUSY h
               in if Channel = TIM_CHANNEL_1
                  then encoder_dma_one env TIM_CHANNEL_1 TIM_DMA_CC1 TIM_DMA_ID_CC1 CCR1 pData1 Length h
                  else if Channel = TIM_CHANNEL_2
                  then encoder_dma_one env TIM_CHANNEL_2 TIM_DMA_CC2 TIM_DMA_ID_CC2 CCR2 pData2 Length h
                  else encoder_dma_both env pData1 pData2 Length h))"

definition HAL_TIM_Encoder_Stop_DMA :: "tim_env \<Rightarrow> TIM_HandleTypeDef \<Rightarrow> u32 \<Rightarrow> HAL_StatusTypeDef \<times> TIM_HandleTypeDef" where
  "HAL_TIM_Encoder_Stop_DMA env h Channel =
     (let h = (if Channel = TIM_CHANNEL_1
               then dma_abort env TIM_DMA_ID_CC1 (HAL_TIM_DISABLE_DMA TIM_DMA_CC1 (ccx_disable TIM_CHANNEL_1 h))
               else if Channel = TIM_CHANNEL_2
               then dma_abort env TIM_DMA_ID_CC2 (HAL_TIM_DISABLE_DMA TIM_DMA_CC2 (ccx_disable TIM_CHANNEL_2 h))
               else dma_abort env TIM_DMA_ID_CC2 (dma_abort env TIM_DMA_ID_CC1
                      (HAL_TIM_DISABLE_DMA TIM_DMA_CC2 (HAL_TIM_DISABLE_DMA TIM_DMA_CC1
                        (ccx_disable TIM_CHANNEL_2 (ccx_disable TIM_CHANNEL_1 h))))));
          h = HAL_TIM_DISABLE h
      in (HAL_OK, encoder_set Channel READY h))"

section \<open>Channels and their enable bits\<close>

definition valid_channel :: "u32 \<Rightarrow> bool" where
  "valid_channel ch \<longleftrightarrow>
     ch \<in> {TIM_CHANNEL_1, TIM_CHANNEL_2, TIM_CHANNEL_3, TIM_CHANNEL_4, TIM_CHANNEL_5, TIM_CHANNEL_6}"

text \<open>The registers and states the modes share: the channel enable bits and the channel states.\<close>

type_synonym ch_view = "u32 \<times> (nat \<Rightarrow> HAL_TIM_ChannelStateTypeDef)"

definition ch_view :: "TIM_HandleTypeDef \<Rightarrow> ch_view" where
  "ch_view h = (h_regs h CCER, h_ChannelState h)"

definition cc_on :: "u32 \<Rightarrow> ch_view \<Rightarrow> ch_view" where
  "cc_on ch v = (TIM_CCxChannelCmd ch TIM_CCx_ENABLE (\<lambda>_. fst v) CCER, snd v)"

definition cc_off :: "u32 \<Rightarrow> ch_view \<Rightarrow> ch_view" where
  "cc_off ch v = (TIM_CCxChannelCmd ch TIM_CCx_DISABLE (\<lambda>_. fst v) CCER, snd v)"

definition cc_state :: "u32 \<Rightarrow> HAL_TIM_ChannelStateTypeDef \<Rightarrow> ch_view \<Rightarrow> ch_view" where
  "cc_state ch st v = (fst v, (snd v)(channel_index ch := st))"

named_theorems ch_view_simps \<open>effect of the driver's steps on channel enables and states\<close>

lemma ch_view_enable [ch_view_simps]: "ch_view (ccx_enable ch h) = cc_on ch (ch_view h)"
  by (simp add: ch_view_def ccx_enable_def on_regs_def cc_on_def TIM_CCxChannelCmd_def Let_def)

lemma ch_view_disable [ch_view_simps]: "ch_view (ccx_disable ch h) = cc_off ch (ch_view h)"
  by (simp add: ch_view_def ccx_disable_def on_regs_def cc_off_def TIM_CCxChannelCmd_def Let_def)

lemma ch_view_state [ch_view_simps]: "ch_view (TIM_CHANNEL_STATE_SET ch st h) = cc_state ch st (ch_view h)"
  by (simp add: ch_view_def TIM_CHANNEL_STATE_SET_def cc_state_def)

lemma ch_view_frame [ch_view_simps]:
  "ch_view (TIM_CHANNEL_N_STATE_SET ch st h) = ch_view h"
  "ch_view (HAL_TIM_ENABLE h) = ch_view h"
  "ch_view (HAL_TIM_DISABLE h) = ch_view h"
  "ch_view (moe_enable h) = ch_view h"
  "ch_view (moe_disable h) = ch_view h"
  "ch_view (enable_unless_triggered h) = ch_view h"
  "ch_view (HAL_TIM_ENABLE_IT it h) = ch_view h"
  "ch_view (HAL_TIM_DISABLE_IT it h) = ch_view h"
  "ch_view (HAL_TIM_ENABLE_DMA it h) = ch_view h"
  "ch_view (HAL_TIM_DISABLE_DMA it h) = ch_view h"
  "ch_view (dma_abort env ident h) = ch_view h"
  "ch_view (snd (dma_start env ident cp hc src dst len h)) = ch_view h"
  "ch_view (h\<lparr>h_State := s\<rparr>) = ch_view h"
  by (simp_all add: ch_view_def TIM_CHANNEL_N_STATE_SET_def HAL_TIM_ENABLE_def HAL_TIM_DISABLE_def moe_enable_def
      moe_disable_def HAL_TIM_MOE_ENABLE_def HAL_TIM_MOE_DISABLE_def enable_unless_triggered_def HAL_TIM_ENABLE_IT_def
      HAL_TIM_DISABLE_IT_def HAL_TIM_ENABLE_DMA_def HAL_TIM_DISABLE_DMA_def dma_abort_def dma_start_def on_regs_def
      Let_def case_prod_beta)

lemma ch_view_both [ch_view_simps]: "ch_view (set_channel_both ch st h) = cc_state ch st (ch_view h)"
  by (simp add: set_channel_both_def ch_view_simps)

lemma ch_view_12 [ch_view_simps]:
  "ch_view (set_channels_12 st h) = cc_state TIM_CHANNEL_2 st (cc_state TIM_CHANNEL_1 st (ch_view h))"
  by (simp add: set_channels_12_def ch_view_simps)

lemma ch_view_capture [ch_view_simps]: "ch_view (snd (capture_dma_start env ident ccr p n h)) = ch_view h"
  by (simp add: capture_dma_start_def ch_view_simps)

lemma channel_bit:
  assumes "valid_channel ch"
  shows "unat (ch AND 0x1F) = 4 * channel_index ch" and "channel_index ch < 6"
  using assms unfolding valid_channel_def channel_index_def by auto

lemma cc_on_bit:
  assumes "valid_channel ch"
  shows "bit (fst (cc_on ch v)) j \<longleftrightarrow> j = 4 * channel_index ch \<or> bit (fst v) j"
  using channel_bit [OF assms] by (auto simp: cc_on_def TIM_CCxChannelCmd_def Let_def bit_simps dest: bit_u32_lt)

lemma cc_off_bit:
  assumes "valid_channel ch"
  shows "bit (fst (cc_off ch v)) j \<longleftrightarrow> j \<noteq> 4 * channel_index ch \<and> bit (fst v) j"
  using channel_bit [OF assms] by (auto simp: cc_off_def TIM_CCxChannelCmd_def Let_def bit_simps dest: bit_u32_lt)

section \<open>An enabled channel is busy\<close>

definition busy_inv :: "ch_view \<Rightarrow> bool" where
  "busy_inv v \<longleftrightarrow> (\<forall>i < 6. bit (fst v) (4 * i) \<longrightarrow> snd v i = BUSY)"

lemma busy_inv_off:
  assumes "busy_inv v" and "valid_channel ch"
  shows "busy_inv (cc_off ch v)" and "busy_inv (cc_state ch st (cc_off ch v))"
  using assms cc_off_bit [OF assms(2)] by (auto simp: busy_inv_def cc_state_def cc_off_def)

lemma busy_inv_busy: "busy_inv v \<Longrightarrow> busy_inv (cc_state ch BUSY v)"
  by (simp add: busy_inv_def cc_state_def)

lemma busy_inv_on:
  assumes "busy_inv v" and "valid_channel ch" and "snd v (channel_index ch) = BUSY"
  shows "busy_inv (cc_on ch v)"
  using assms(1,3) cc_on_bit [OF assms(2)] by (auto simp: busy_inv_def cc_on_def)

lemma busy_inv_start: "busy_inv v \<Longrightarrow> valid_channel ch \<Longrightarrow> busy_inv (cc_on ch (cc_state ch BUSY v))"
  by (rule busy_inv_on) (simp_all add: busy_inv_busy, simp add: cc_state_def)

lemma valid_12 [simp]: "valid_channel TIM_CHANNEL_1" "valid_channel TIM_CHANNEL_2"
  by (simp_all add: valid_channel_def)

lemma snd_cc [simp]: "snd (cc_on ch v) = snd v" "snd (cc_off ch v) = snd v" "snd (cc_state ch st v) = (snd v)(channel_index ch := st)"
  by (simp_all add: cc_on_def cc_off_def cc_state_def)

lemma index_12 [simp]: "channel_index TIM_CHANNEL_1 = 0" "channel_index TIM_CHANNEL_2 = 1"
  by (simp_all add: channel_index_def)

lemma busy_inv_start_12:
  assumes "busy_inv v"
  shows "busy_inv (cc_on TIM_CHANNEL_2 (cc_on TIM_CHANNEL_1 (cc_state TIM_CHANNEL_2 BUSY (cc_state TIM_CHANNEL_1 BUSY v))))"
  by (intro busy_inv_on busy_inv_busy assms) simp_all

lemma busy_inv_stop_12:
  assumes "busy_inv v"
  shows "busy_inv (cc_state TIM_CHANNEL_2 READY (cc_state TIM_CHANNEL_1 READY (cc_off TIM_CHANNEL_2 (cc_off TIM_CHANNEL_1 v))))"
proof -
  have "bit (fst (cc_off TIM_CHANNEL_2 (cc_off TIM_CHANNEL_1 v))) (4 * i) \<longleftrightarrow> i \<noteq> 0 \<and> i \<noteq> 1 \<and> bit (fst v) (4 * i)" for i
    by (simp add: cc_off_bit) auto
  then show ?thesis using assms by (simp add: busy_inv_def cc_state_def)
qed

lemmas busy_inv_rules = busy_inv_off busy_inv_busy busy_inv_start busy_inv_start_12 busy_inv_stop_12

section \<open>The calls of the driver\<close>

datatype tim_mode = Mode_OC | Mode_PWM | Mode_IC | Mode_OnePulse | Mode_Encoder

datatype tim_how = Polled | With_IT | With_DMA u32 u32 u16

datatype tim_call = Start_call tim_mode tim_how u32 | Stop_call tim_mode tim_how u32

text \<open>One call; the one-pulse mode has no DMA variant.\<close>

fun do_call :: "tim_env \<Rightarrow> tim_call \<Rightarrow> TIM_HandleTypeDef \<Rightarrow> HAL_StatusTypeDef \<times> TIM_HandleTypeDef" where
  "do_call env (Start_call Mode_OC Polled ch) h = HAL_TIM_OC_Start h ch"
| "do_call env (Start_call Mode_OC With_IT ch) h = HAL_TIM_OC_Start_IT h ch"
| "do_call env (Start_call Mode_OC (With_DMA p q n) ch) h = HAL_TIM_OC_Start_DMA env h ch p n"
| "do_call env (Start_call Mode_PWM Polled ch) h = HAL_TIM_PWM_Start h ch"
| "do_call env (Start_call Mode_PWM With_IT ch) h = HAL_TIM_PWM_Start_IT h ch"
| "do_call env (Start_call Mode_PWM (With_DMA p q n) ch) h = HAL_TIM_PWM_Start_DMA env h ch p n"
| "do_call env (Start_call Mode_IC Polled ch) h = HAL_TIM_IC_Start h ch"
| "do_call env (Start_call Mode_IC With_IT ch) h = HAL_TIM_IC_Start_IT h ch"
| "do_call env (Start_call Mode_IC (With_DMA p q n) ch) h = HAL_TIM_IC_Start_DMA env h ch p n"
| "do_call env (Start_call Mode_OnePulse With_IT ch) h = HAL_TIM_OnePulse_Start_IT h ch"
| "do_call env (Start_call Mode_OnePulse _ ch) h = HAL_TIM_OnePulse_Start h ch"
| "do_call env (Start_call Mode_Encoder Polled ch) h = HAL_TIM_Encoder_Start h ch"
| "do_call env (Start_call Mode_Encoder With_IT ch) h = HAL_TIM_Encoder_Start_IT h ch"
| "do_call env (Start_call Mode_Encoder (With_DMA p q n) ch) h = HAL_TIM_Encoder_Start_DMA env h ch p q n"
| "do_call env (Stop_call Mode_OC Polled ch) h = HAL_TIM_OC_Stop h ch"
| "do_call env (Stop_call Mode_OC With_IT ch) h = HAL_TIM_OC_Stop_IT h ch"
| "do_call env (Stop_call Mode_OC (With_DMA p q n) ch) h = HAL_TIM_OC_Stop_DMA env h ch"
| "do_call env (Stop_call Mode_PWM Polled ch) h = HAL_TIM_PWM_Stop h ch"
| "do_call env (Stop_call Mode_PWM With_IT ch) h = HAL_TIM_PWM_Stop_IT h ch"
| "do_call env (Stop_call Mode_PWM (With_DMA p q n) ch) h = HAL_TIM_PWM_Stop_DMA env h ch"
| "do_call env (Stop_call Mode_IC Polled ch) h = HAL_TIM_IC_Stop h ch"
| "do_call env (Stop_call Mode_IC With_IT ch) h = HAL_TIM_IC_Stop_IT h ch"
| "do_call env (Stop_call Mode_IC (With_DMA p q n) ch) h = HAL_TIM_IC_Stop_DMA env h ch"
| "do_call env (Stop_call Mode_OnePulse With_IT ch) h = HAL_TIM_OnePulse_Stop_IT h ch"
| "do_call env (Stop_call Mode_OnePulse _ ch) h = HAL_TIM_OnePulse_Stop h ch"
| "do_call env (Stop_call Mode_Encoder Polled ch) h = HAL_TIM_Encoder_Stop h ch"
| "do_call env (Stop_call Mode_Encoder With_IT ch) h = HAL_TIM_Encoder_Stop_IT h ch"
| "do_call env (Stop_call Mode_Encoder (With_DMA p q n) ch) h = HAL_TIM_Encoder_Stop_DMA env h ch"

text \<open>The channels a call may name: one of the six, and any value for the two modes that ignore it or
  take it as both channels.\<close>

fun valid_call :: "tim_call \<Rightarrow> bool" where
  "valid_call (Start_call m how ch) \<longleftrightarrow> m = Mode_OnePulse \<or> m = Mode_Encoder \<or> valid_channel ch"
| "valid_call (Stop_call m how ch) \<longleftrightarrow> m = Mode_OnePulse \<or> m = Mode_Encoder \<or> valid_channel ch"

definition run_calls :: "tim_env \<Rightarrow> tim_call list \<Rightarrow> TIM_HandleTypeDef \<Rightarrow> TIM_HandleTypeDef" where
  "run_calls env cs h = fold (\<lambda>c h. snd (do_call env c h)) cs h"

lemma busy_inv_OC:
  assumes "busy_inv (ch_view h)" and "valid_channel ch"
  shows "busy_inv (ch_view (snd (HAL_TIM_OC_Start h ch)))" "busy_inv (ch_view (snd (HAL_TIM_OC_Stop h ch)))"
    "busy_inv (ch_view (snd (HAL_TIM_OC_Start_IT h ch)))" "busy_inv (ch_view (snd (HAL_TIM_OC_Stop_IT h ch)))"
    "busy_inv (ch_view (snd (HAL_TIM_OC_Start_DMA env h ch p n)))" "busy_inv (ch_view (snd (HAL_TIM_OC_Stop_DMA env h ch)))"
  using assms
  by (simp_all add: HAL_TIM_OC_Start_def HAL_TIM_OC_Stop_def HAL_TIM_OC_Start_IT_def HAL_TIM_OC_Stop_IT_def
      HAL_TIM_OC_Start_DMA_def OC_dma_channel_def HAL_TIM_OC_Stop_DMA_def Let_def case_prod_beta ch_view_simps busy_inv_rules
      split: option.splits)

lemma PWM_is_OC:
  "HAL_TIM_PWM_Start = HAL_TIM_OC_Start" "HAL_TIM_PWM_Stop = HAL_TIM_OC_Stop"
  "HAL_TIM_PWM_Start_IT = HAL_TIM_OC_Start_IT" "HAL_TIM_PWM_Stop_IT = HAL_TIM_OC_Stop_IT"
  "HAL_TIM_PWM_Start_DMA = HAL_TIM_OC_Start_DMA" "HAL_TIM_PWM_Stop_DMA = HAL_TIM_OC_Stop_DMA"
  by (intro ext, simp only: HAL_TIM_OC_Start_def HAL_TIM_OC_Stop_def HAL_TIM_OC_Start_IT_def HAL_TIM_OC_Stop_IT_def
      HAL_TIM_OC_Start_DMA_def OC_dma_channel_def HAL_TIM_OC_Stop_DMA_def HAL_TIM_PWM_Start_def HAL_TIM_PWM_Stop_def
      HAL_TIM_PWM_Start_IT_def HAL_TIM_PWM_Stop_IT_def HAL_TIM_PWM_Start_DMA_def PWM_dma_channel_def HAL_TIM_PWM_Stop_DMA_def)+

lemma busy_inv_IC:
  assumes "busy_inv (ch_view h)" and "valid_channel ch"
  shows "busy_inv (ch_view (snd (HAL_TIM_IC_Start h ch)))" "busy_inv (ch_view (snd (HAL_TIM_IC_Stop h ch)))"
    "busy_inv (ch_view (snd (HAL_TIM_IC_Start_IT h ch)))" "busy_inv (ch_view (snd (HAL_TIM_IC_Stop_IT h ch)))"
    "busy_inv (ch_view (snd (HAL_TIM_IC_Start_DMA env h ch p n)))" "busy_inv (ch_view (snd (HAL_TIM_IC_Stop_DMA env h ch)))"
  using assms
  by (simp_all add: HAL_TIM_IC_Start_def HAL_TIM_IC_Stop_def HAL_TIM_IC_Start_IT_def HAL_TIM_IC_Stop_IT_def
      HAL_TIM_IC_Start_DMA_def IC_dma_channel_def HAL_TIM_IC_Stop_DMA_def Let_def case_prod_beta ch_view_simps busy_inv_rules
      split: option.splits)

lemma busy_inv_OnePulse:
  assumes "busy_inv (ch_view h)"
  shows "busy_inv (ch_view (snd (HAL_TIM_OnePulse_Start h ch)))" "busy_inv (ch_view (snd (HAL_TIM_OnePulse_Stop h ch)))"
    "busy_inv (ch_view (snd (HAL_TIM_OnePulse_Start_IT h ch)))" "busy_inv (ch_view (snd (HAL_TIM_OnePulse_Stop_IT h ch)))"
  using assms
  by (simp_all add: HAL_TIM_OnePulse_Start_def HAL_TIM_OnePulse_Stop_def HAL_TIM_OnePulse_Start_IT_def
      HAL_TIM_OnePulse_Stop_IT_def Let_def ch_view_simps busy_inv_rules del: One_nat_def)

lemma ch_view_encoder_set:
  "ch_view (encoder_set ch st h) =
     (if ch = TIM_CHANNEL_1 then cc_state TIM_CHANNEL_1 st (ch_view h)
      else if ch = TIM_CHANNEL_2 then cc_state TIM_CHANNEL_2 st (ch_view h)
      else cc_state TIM_CHANNEL_2 st (cc_state TIM_CHANNEL_1 st (ch_view h)))"
  by (simp add: encoder_set_def ch_view_simps)

lemma busy_inv_Encoder:
  assumes "busy_inv (ch_view h)"
  shows "busy_inv (ch_view (snd (HAL_TIM_Encoder_Start h ch)))" "busy_inv (ch_view (snd (HAL_TIM_Encoder_Stop h ch)))"
    "busy_inv (ch_view (snd (HAL_TIM_Encoder_Start_IT h ch)))" "busy_inv (ch_view (snd (HAL_TIM_Encoder_Stop_IT h ch)))"
    "busy_inv (ch_view (snd (HAL_TIM_Encoder_Start_DMA env h ch p q n)))" "busy_inv (ch_view (snd (HAL_TIM_Encoder_Stop_DMA env h ch)))"
  using assms
  by (simp_all add: HAL_TIM_Encoder_Start_def HAL_TIM_Encoder_Stop_def HAL_TIM_Encoder_Start_IT_def HAL_TIM_Encoder_Stop_IT_def
      HAL_TIM_Encoder_Start_DMA_def HAL_TIM_Encoder_Stop_DMA_def encoder_dma_one_def encoder_dma_both_def Let_def case_prod_beta
      ch_view_encoder_set ch_view_simps busy_inv_rules)

lemma do_call_busy_inv:
  assumes "busy_inv (ch_view h)" and "valid_call c"
  shows "busy_inv (ch_view (snd (do_call env c h)))"
  using assms
  by (cases "(env, c, h)" rule: do_call.cases)
     (simp_all only: do_call.simps PWM_is_OC busy_inv_OC busy_inv_IC busy_inv_OnePulse busy_inv_Encoder valid_call.simps prod.inject tim_mode.distinct simp_thms)

lemma run_calls_busy_inv:
  assumes "busy_inv (ch_view h)" and "\<forall>c \<in> set cs. valid_call c"
  shows "busy_inv (ch_view (run_calls env cs h))"
  using assms unfolding run_calls_def
  by (induction cs arbitrary: h) (simp_all add: do_call_busy_inv)


section \<open>Register effects\<close>

named_theorems hreg_simps \<open>registers after the driver's steps\<close>

lemma hreg_steps [hreg_simps]:
  "h_regs (ccx_enable ch h) = TIM_CCxChannelCmd ch TIM_CCx_ENABLE (h_regs h)"
  "h_regs (ccx_disable ch h) = TIM_CCxChannelCmd ch TIM_CCx_DISABLE (h_regs h)"
  "h_regs (HAL_TIM_ENABLE h) = (h_regs h)(CR1 := h_regs h CR1 OR TIM_CR1_CEN)"
  "h_regs (HAL_TIM_DISABLE h) = (if outputs_off (h_regs h) then (h_regs h)(CR1 := h_regs h CR1 AND NOT TIM_CR1_CEN) else h_regs h)"
  "h_regs (HAL_TIM_ENABLE_IT it h) = (h_regs h)(DIER := h_regs h DIER OR it)"
  "h_regs (HAL_TIM_DISABLE_IT it h) = (h_regs h)(DIER := h_regs h DIER AND NOT it)"
  "h_regs (HAL_TIM_ENABLE_DMA it h) = (h_regs h)(DIER := h_regs h DIER OR it)"
  "h_regs (HAL_TIM_DISABLE_DMA it h) = (h_regs h)(DIER := h_regs h DIER AND NOT it)"
  "h_regs (TIM_CHANNEL_STATE_SET ch st h) = h_regs h"
  "h_regs (TIM_CHANNEL_N_STATE_SET ch st h) = h_regs h"
  "h_regs (set_channel_both ch st h) = h_regs h"
  "h_regs (dma_abort env ident h) = h_regs h"
  "h_regs (snd (dma_start env ident cp hc src dst len h)) = h_regs h"
  by (simp_all add: ccx_enable_def ccx_disable_def HAL_TIM_ENABLE_def HAL_TIM_DISABLE_def HAL_TIM_ENABLE_IT_def HAL_TIM_DISABLE_IT_def
      HAL_TIM_ENABLE_DMA_def HAL_TIM_DISABLE_DMA_def TIM_CHANNEL_STATE_SET_def TIM_CHANNEL_N_STATE_SET_def set_channel_both_def
      dma_abort_def dma_start_def on_regs_def Let_def case_prod_beta)

lemma hreg_moe [hreg_simps]:
  "h_regs (moe_enable h) = (if IS_TIM_BREAK_INSTANCE (h_Instance h) then (h_regs h)(BDTR := h_regs h BDTR OR TIM_BDTR_MOE) else h_regs h)"
  "h_regs (moe_disable h) = (if IS_TIM_BREAK_INSTANCE (h_Instance h) \<and> outputs_off (h_regs h)
     then (h_regs h)(BDTR := h_regs h BDTR AND NOT TIM_BDTR_MOE) else h_regs h)"
  by (simp_all add: moe_enable_def moe_disable_def HAL_TIM_MOE_ENABLE_def HAL_TIM_MOE_DISABLE_def on_regs_def)

lemma hinst_steps [hreg_simps]:
  "h_Instance (ccx_enable ch h) = h_Instance h"
  "h_Instance (ccx_disable ch h) = h_Instance h"
  "h_Instance (HAL_TIM_ENABLE_IT it h) = h_Instance h"
  "h_Instance (HAL_TIM_DISABLE_IT it h) = h_Instance h"
  "h_Instance (HAL_TIM_DISABLE_DMA it h) = h_Instance h"
  "h_Instance (HAL_TIM_ENABLE_DMA it h) = h_Instance h"
  "h_Instance (dma_abort env ident h) = h_Instance h"
  "h_Instance (TIM_CHANNEL_STATE_SET ch st h) = h_Instance h"
  "h_Instance (set_channel_both ch st h) = h_Instance h"
  "h_Instance (moe_enable h) = h_Instance h"
  by (simp_all add: ccx_enable_def ccx_disable_def HAL_TIM_ENABLE_IT_def HAL_TIM_DISABLE_IT_def HAL_TIM_DISABLE_DMA_def
      HAL_TIM_ENABLE_DMA_def dma_abort_def TIM_CHANNEL_STATE_SET_def TIM_CHANNEL_N_STATE_SET_def set_channel_both_def on_regs_def
      moe_enable_def HAL_TIM_MOE_ENABLE_def Let_def)

lemma outputs_off_frame [hreg_simps]:
  "reg \<noteq> CCER \<Longrightarrow> outputs_off (r(reg := v)) = outputs_off r"
  by (simp add: outputs_off_def)

lemma CCxCmd_other: "reg \<noteq> CCER \<Longrightarrow> TIM_CCxChannelCmd ch st r reg = r reg"
  by (simp add: TIM_CCxChannelCmd_def Let_def)

lemma CCxCmd_fun_upd: "reg \<noteq> CCER \<Longrightarrow> TIM_CCxChannelCmd ch st (r(reg := v)) = (TIM_CCxChannelCmd ch st r)(reg := v)"
  by (auto simp: TIM_CCxChannelCmd_def Let_def)

text \<open>What every stop of channels 1 to 4 does, and a polled stop of any channel.\<close>

definition stops_channel :: "u32 \<Rightarrow> TIM_HandleTypeDef \<Rightarrow> HAL_StatusTypeDef \<times> TIM_HandleTypeDef \<Rightarrow> bool" where
  "stops_channel ch h res \<longleftrightarrow>
     fst res = HAL_OK \<and>
     (\<forall>j. bit (h_regs (snd res) CCER) j \<longleftrightarrow> j \<noteq> 4 * channel_index ch \<and> bit (h_regs h CCER) j) \<and>
     h_ChannelState (snd res) = (h_ChannelState h)(channel_index ch := READY) \<and>
     h_regs (snd res) CR1 = (if outputs_off (h_regs (snd res)) then h_regs h CR1 AND NOT TIM_CR1_CEN else h_regs h CR1) \<and>
     (\<forall>reg. reg \<notin> {CCER, CR1, BDTR, DIER} \<longrightarrow> h_regs (snd res) reg = h_regs h reg)"

lemma stops_channelI:
  assumes "valid_channel ch" and "fst res = HAL_OK"
    and "ch_view (snd res) = cc_state ch READY (cc_off ch (ch_view h))"
    and "h_regs (snd res) CR1 = (if outputs_off (h_regs (snd res)) then h_regs h CR1 AND NOT TIM_CR1_CEN else h_regs h CR1)"
    and "\<And>reg. reg \<notin> {CCER, CR1, BDTR, DIER} \<Longrightarrow> h_regs (snd res) reg = h_regs h reg"
  shows "stops_channel ch h res"
proof -
  have "h_regs (snd res) CCER = fst (cc_off ch (ch_view h))" "h_ChannelState (snd res) = (snd (ch_view h))(channel_index ch := READY)"
    using assms(3) by (simp_all add: ch_view_def cc_state_def)
  then have "bit (h_regs (snd res) CCER) j \<longleftrightarrow> j \<noteq> 4 * channel_index ch \<and> bit (h_regs h CCER) j" for j
    using cc_off_bit [OF assms(1), of "ch_view h" j] by (simp add: ch_view_def)
  with assms show ?thesis
    using \<open>h_ChannelState (snd res) = _\<close> unfolding stops_channel_def by (simp add: ch_view_def)
qed

lemma channel_it_Some: "valid_channel ch \<Longrightarrow> channel_index ch < 4 \<Longrightarrow> \<exists>it. channel_it ch = Some it"
  by (auto simp: valid_channel_def channel_index_def channel_it_def)

lemma channel_dma_Some: "valid_channel ch \<Longrightarrow> channel_index ch < 4 \<Longrightarrow> \<exists>x. channel_dma ch = Some x"
  by (auto simp: valid_channel_def channel_index_def channel_dma_def)

lemma OC_stops:
  assumes "valid_channel ch"
  shows "stops_channel ch h (HAL_TIM_OC_Stop h ch)"
  using assms
  by (rule stops_channelI) (simp_all add: HAL_TIM_OC_Stop_def Let_def ch_view_simps hreg_simps CCxCmd_other)

lemma OC_stops_IT:
  assumes "valid_channel ch" and "channel_index ch < 4"
  shows "stops_channel ch h (HAL_TIM_OC_Stop_IT h ch)"
proof -
  obtain it where "channel_it ch = Some it" using channel_it_Some [OF assms] by blast
  then show ?thesis
    by (intro stops_channelI assms)
       (simp_all add: HAL_TIM_OC_Stop_IT_def Let_def ch_view_simps hreg_simps CCxCmd_fun_upd CCxCmd_other)
qed

lemma OC_stops_DMA:
  assumes "valid_channel ch" and "channel_index ch < 4"
  shows "stops_channel ch h (HAL_TIM_OC_Stop_DMA env h ch)"
proof -
  obtain rq i ccr where "channel_dma ch = Some (rq, i, ccr)" using channel_dma_Some [OF assms] by auto
  then show ?thesis
    by (intro stops_channelI assms)
       (simp_all add: HAL_TIM_OC_Stop_DMA_def Let_def ch_view_simps hreg_simps CCxCmd_fun_upd CCxCmd_other)
qed

lemma IC_stops:
  assumes "valid_channel ch"
  shows "stops_channel ch h (HAL_TIM_IC_Stop h ch)"
  using assms
  by (rule stops_channelI) (simp_all add: HAL_TIM_IC_Stop_def Let_def ch_view_simps hreg_simps CCxCmd_other)

lemma IC_stops_IT:
  assumes "valid_channel ch" and "channel_index ch < 4"
  shows "stops_channel ch h (HAL_TIM_IC_Stop_IT h ch)"
proof -
  obtain it where "channel_it ch = Some it" using channel_it_Some [OF assms] by blast
  then show ?thesis
    by (intro stops_channelI assms)
       (simp_all add: HAL_TIM_IC_Stop_IT_def Let_def ch_view_simps hreg_simps CCxCmd_fun_upd CCxCmd_other)
qed

lemma IC_stops_DMA:
  assumes "valid_channel ch" and "channel_index ch < 4"
  shows "stops_channel ch h (HAL_TIM_IC_Stop_DMA env h ch)"
proof -
  obtain rq i ccr where "channel_dma ch = Some (rq, i, ccr)" using channel_dma_Some [OF assms] by auto
  then show ?thesis
    by (intro stops_channelI assms)
       (simp_all add: HAL_TIM_IC_Stop_DMA_def Let_def ch_view_simps hreg_simps CCxCmd_fun_upd CCxCmd_other)
qed


text \<open>The counter waits for a trigger: the timer is a slave in one of the two trigger modes.\<close>

definition trigger_starts :: "tim_instance \<Rightarrow> tim_regs \<Rightarrow> bool" where
  "trigger_starts i r \<longleftrightarrow> IS_TIM_SLAVE_INSTANCE i \<and> IS_TIM_SLAVEMODE_TRIGGER_ENABLED (r SMCR AND TIM_SMCR_SMS)"

lemma trigger_starts_frame [hreg_simps]:
  "reg \<noteq> SMCR \<Longrightarrow> trigger_starts i (r(reg := v)) = trigger_starts i r"
  "trigger_starts i (TIM_CCxChannelCmd ch st r) = trigger_starts i r"
  by (simp_all add: trigger_starts_def CCxCmd_other)

definition starts_channel :: "u32 \<Rightarrow> TIM_HandleTypeDef \<Rightarrow> HAL_StatusTypeDef \<times> TIM_HandleTypeDef \<Rightarrow> bool" where
  "starts_channel ch h res \<longleftrightarrow>
     (\<forall>j. bit (h_regs (snd res) CCER) j \<longleftrightarrow> j = 4 * channel_index ch \<or> bit (h_regs h CCER) j) \<and>
     h_ChannelState (snd res) = (h_ChannelState h)(channel_index ch := BUSY) \<and>
     h_regs (snd res) CR1 =
       (if trigger_starts (h_Instance h) (h_regs h)
        then h_regs h CR1 else h_regs h CR1 OR TIM_CR1_CEN) \<and>
     (\<forall>reg. reg \<notin> {CCER, CR1, BDTR, DIER} \<longrightarrow> h_regs (snd res) reg = h_regs h reg)"

lemma hreg_unless_triggered [hreg_simps]:
  "h_regs (enable_unless_triggered h) =
     (if trigger_starts (h_Instance h) (h_regs h)
      then h_regs h else (h_regs h)(CR1 := h_regs h CR1 OR TIM_CR1_CEN))"
  by (auto simp: enable_unless_triggered_def trigger_starts_def Let_def hreg_simps)

lemma hinst_dma_start [hreg_simps]: "h_Instance (snd (dma_start env ident cp hc src dst len h)) = h_Instance h"
  by (simp add: dma_start_def Let_def case_prod_beta)

lemma hreg_capture [hreg_simps]:
  "h_regs (snd (capture_dma_start env ident ccr p n h)) = h_regs h"
  "h_Instance (snd (capture_dma_start env ident ccr p n h)) = h_Instance h"
  by (simp_all add: capture_dma_start_def hreg_simps)

lemma starts_channelI:
  assumes "valid_channel ch"
    and "ch_view (snd res) = cc_on ch (cc_state ch BUSY (ch_view h))"
    and "h_regs (snd res) CR1 =
       (if trigger_starts (h_Instance h) (h_regs h)
        then h_regs h CR1 else h_regs h CR1 OR TIM_CR1_CEN)"
    and "\<And>reg. reg \<notin> {CCER, CR1, BDTR, DIER} \<Longrightarrow> h_regs (snd res) reg = h_regs h reg"
  shows "starts_channel ch h res"
proof -
  have c: "h_regs (snd res) CCER = fst (cc_on ch (cc_state ch BUSY (ch_view h)))"
    and s: "h_ChannelState (snd res) = (h_ChannelState h)(channel_index ch := BUSY)"
    using assms(2) by (simp_all add: ch_view_def cc_on_def cc_state_def)
  have "bit (h_regs (snd res) CCER) j \<longleftrightarrow> j = 4 * channel_index ch \<or> bit (h_regs h CCER) j" for j
    using cc_on_bit [OF assms(1), of "cc_state ch BUSY (ch_view h)" j] c by (simp add: ch_view_def cc_state_def)
  with assms s show ?thesis unfolding starts_channel_def by simp
qed

section \<open>The contract of starting and stopping a channel\<close>

text \<open>The polled, interrupt and DMA pairs of output compare, PWM and input capture all promise the
  same: a channel that is not ready is refused and nothing changes; a successful start enables the
  channel, and only it, and marks it busy; a stop undoes that and stops the counter when no output
  is left.\<close>

locale channel_ops =
  fixes start_op stop_op :: "TIM_HandleTypeDef \<Rightarrow> u32 \<Rightarrow> HAL_StatusTypeDef \<times> TIM_HandleTypeDef"
    and drives :: "u32 \<Rightarrow> bool"
  assumes refuses: "TIM_CHANNEL_STATE_GET h ch \<noteq> READY \<Longrightarrow> fst (start_op h ch) \<noteq> HAL_OK \<and> snd (start_op h ch) = h"
    and starts: "drives ch \<Longrightarrow> fst (start_op h ch) = HAL_OK \<Longrightarrow> starts_channel ch h (start_op h ch)"
    and stops: "drives ch \<Longrightarrow> stops_channel ch h (stop_op h ch)"
begin

lemma second_start_refused:
  assumes "drives ch" and "fst (start_op h ch) = HAL_OK"
  shows "fst (start_op (snd (start_op h ch)) ch) \<noteq> HAL_OK" and "snd (start_op (snd (start_op h ch)) ch) = snd (start_op h ch)"
  using refuses [of "snd (start_op h ch)" ch] starts [OF assms] by (simp_all add: starts_channel_def TIM_CHANNEL_STATE_GET_def)

lemma was_ready: "fst (start_op h ch) = HAL_OK \<Longrightarrow> h_ChannelState h (channel_index ch) = READY"
  using refuses [of h ch] by (auto simp: TIM_CHANNEL_STATE_GET_def)

lemma start_stop:
  assumes "drives ch" and "fst (start_op h ch) = HAL_OK" and "\<not> bit (h_regs h CCER) (4 * channel_index ch)"
  shows "h_regs (snd (stop_op (snd (start_op h ch)) ch)) CCER = h_regs h CCER"
    and "h_ChannelState (snd (stop_op (snd (start_op h ch)) ch)) = h_ChannelState h"
    and "outputs_off (h_regs h) \<Longrightarrow> \<not> bit (h_regs (snd (stop_op (snd (start_op h ch)) ch)) CR1) 0"
proof -
  let ?h1 = "snd (start_op h ch)" and ?h2 = "snd (stop_op (snd (start_op h ch)) ch)"
  have a: "starts_channel ch h (start_op h ch)" and b: "stops_channel ch ?h1 (stop_op ?h1 ch)"
    using starts [OF assms(1,2)] stops [OF assms(1)] by simp_all
  show ccer: "h_regs ?h2 CCER = h_regs h CCER"
    using a b assms(3) unfolding starts_channel_def stops_channel_def by (intro bit_word_eqI) auto
  show "h_ChannelState ?h2 = h_ChannelState h"
    using a b was_ready [OF assms(2)] unfolding starts_channel_def stops_channel_def by (auto simp: fun_upd_idem)
  assume "outputs_off (h_regs h)"
  then have "outputs_off (h_regs ?h2)" using ccer by (simp add: outputs_off_def)
  then have "h_regs ?h2 CR1 = h_regs ?h1 CR1 AND NOT TIM_CR1_CEN" using b unfolding stops_channel_def by simp
  then show "\<not> bit (h_regs ?h2 CR1) 0" by (simp only: bit_and_iff bit_not_iff) simp
qed

end

abbreviation (input) four_channels :: "u32 \<Rightarrow> bool" where
  "four_channels ch \<equiv> valid_channel ch \<and> channel_index ch < 4"

lemma OC_starts: "valid_channel ch \<Longrightarrow> fst (HAL_TIM_OC_Start h ch) = HAL_OK \<Longrightarrow> starts_channel ch h (HAL_TIM_OC_Start h ch)"
  by (erule starts_channelI)
     (simp_all add: HAL_TIM_OC_Start_def Let_def ch_view_simps hreg_simps CCxCmd_other split: if_splits)

lemma OC_starts_IT: "valid_channel ch \<Longrightarrow> fst (HAL_TIM_OC_Start_IT h ch) = HAL_OK \<Longrightarrow> starts_channel ch h (HAL_TIM_OC_Start_IT h ch)"
  by (erule starts_channelI)
     (simp_all add: HAL_TIM_OC_Start_IT_def Let_def ch_view_simps hreg_simps CCxCmd_fun_upd CCxCmd_other split: if_splits option.splits)

lemma OC_starts_DMA:
  assumes "four_channels ch" and "fst (HAL_TIM_OC_Start_DMA env h ch p n) = HAL_OK"
  shows "starts_channel ch h (HAL_TIM_OC_Start_DMA env h ch p n)"
proof -
  obtain rq i ccr where "channel_dma ch = Some (rq, i, ccr)" using channel_dma_Some assms(1) by fastforce
  with assms show ?thesis
    by (intro starts_channelI)
       (simp_all add: HAL_TIM_OC_Start_DMA_def OC_dma_channel_def Let_def case_prod_beta ch_view_simps hreg_simps CCxCmd_fun_upd CCxCmd_other
         split: if_splits)
qed

lemma IC_starts: "valid_channel ch \<Longrightarrow> fst (HAL_TIM_IC_Start h ch) = HAL_OK \<Longrightarrow> starts_channel ch h (HAL_TIM_IC_Start h ch)"
  by (erule starts_channelI)
     (simp_all add: HAL_TIM_IC_Start_def Let_def ch_view_simps hreg_simps CCxCmd_other split: if_splits)

lemma IC_starts_IT: "valid_channel ch \<Longrightarrow> fst (HAL_TIM_IC_Start_IT h ch) = HAL_OK \<Longrightarrow> starts_channel ch h (HAL_TIM_IC_Start_IT h ch)"
  by (erule starts_channelI)
     (simp_all add: HAL_TIM_IC_Start_IT_def Let_def ch_view_simps hreg_simps CCxCmd_fun_upd CCxCmd_other split: if_splits option.splits)

lemma IC_starts_DMA:
  assumes "four_channels ch" and "fst (HAL_TIM_IC_Start_DMA env h ch p n) = HAL_OK"
  shows "starts_channel ch h (HAL_TIM_IC_Start_DMA env h ch p n)"
proof -
  obtain rq i ccr where "channel_dma ch = Some (rq, i, ccr)" using channel_dma_Some assms(1) by fastforce
  with assms show ?thesis
    by (intro starts_channelI)
       (simp_all add: HAL_TIM_IC_Start_DMA_def IC_dma_channel_def Let_def case_prod_beta ch_view_simps hreg_simps CCxCmd_fun_upd CCxCmd_other
         split: if_splits)
qed

interpretation oc: channel_ops HAL_TIM_OC_Start HAL_TIM_OC_Stop valid_channel
  by unfold_locales (simp_all add: HAL_TIM_OC_Start_def OC_starts [unfolded HAL_TIM_OC_Start_def] OC_stops)

interpretation oc_it: channel_ops HAL_TIM_OC_Start_IT HAL_TIM_OC_Stop_IT four_channels
  by unfold_locales (simp add: HAL_TIM_OC_Start_IT_def, simp add: OC_starts_IT, simp add: OC_stops_IT)

interpretation oc_dma: channel_ops "\<lambda>h ch. HAL_TIM_OC_Start_DMA env h ch p n" "HAL_TIM_OC_Stop_DMA env" four_channels for env p n
  by unfold_locales (simp add: HAL_TIM_OC_Start_DMA_def, simp add: OC_starts_DMA, simp add: OC_stops_DMA)

interpretation pwm: channel_ops HAL_TIM_PWM_Start HAL_TIM_PWM_Stop valid_channel
  unfolding PWM_is_OC by unfold_locales

interpretation pwm_it: channel_ops HAL_TIM_PWM_Start_IT HAL_TIM_PWM_Stop_IT four_channels
  unfolding PWM_is_OC by unfold_locales

interpretation pwm_dma: channel_ops "\<lambda>h ch. HAL_TIM_PWM_Start_DMA env h ch p n" "HAL_TIM_PWM_Stop_DMA env" four_channels for env p n
  unfolding PWM_is_OC by unfold_locales

interpretation ic: channel_ops HAL_TIM_IC_Start HAL_TIM_IC_Stop valid_channel
  by unfold_locales (simp add: HAL_TIM_IC_Start_def, simp add: IC_starts, simp add: IC_stops)

interpretation ic_it: channel_ops HAL_TIM_IC_Start_IT HAL_TIM_IC_Stop_IT four_channels
  by unfold_locales (simp add: HAL_TIM_IC_Start_IT_def, simp add: IC_starts_IT, simp add: IC_stops_IT)

interpretation ic_dma: channel_ops "\<lambda>h ch. HAL_TIM_IC_Start_DMA env h ch p n" "HAL_TIM_IC_Stop_DMA env" four_channels for env p n
  by unfold_locales (simp add: HAL_TIM_IC_Start_DMA_def, simp add: IC_starts_DMA, simp add: IC_stops_DMA)


section \<open>Properties\<close>

text \<open>C29: In every handle reached by any sequence of start and stop calls, of any mode and any kind, on
  valid channels, from a handle where it holds: a channel whose output or capture is enabled in
  the hardware is marked busy, whatever the calls returned and whatever the DMA driver answered.\<close>

theorem tim_enabled_channel_busy:
  assumes "\<forall>i < 6. bit (h_regs h CCER) (4 * i) \<longrightarrow> h_ChannelState h i = BUSY"
    and "\<forall>c \<in> set cs. valid_call c" and "i < 6" and "bit (h_regs (run_calls env cs h) CCER) (4 * i)"
  shows "h_ChannelState (run_calls env cs h) i = BUSY"
proof -
  have "busy_inv (ch_view h)" using assms(1) by (simp add: busy_inv_def ch_view_def)
  from run_calls_busy_inv [OF this assms(2)] show ?thesis using assms(3,4) by (simp add: busy_inv_def ch_view_def)
qed

definition example_calls :: "tim_call list" where
  "example_calls = [Start_call Mode_PWM Polled TIM_CHANNEL_2, Start_call Mode_OC With_IT TIM_CHANNEL_1, Stop_call Mode_OC With_IT TIM_CHANNEL_1]"

theorem tim_enabled_channel_busy_witness:
  "h_ChannelState (run_calls quiet_env example_calls (idle_handle TIM3 (\<lambda>_. 0))) 1 = BUSY"
proof (rule tim_enabled_channel_busy)
  show "\<forall>i < 6. bit (h_regs (idle_handle TIM3 (\<lambda>_. 0)) CCER) (4 * i) \<longrightarrow> h_ChannelState (idle_handle TIM3 (\<lambda>_. 0)) i = BUSY"
    by (simp add: idle_handle_def)
  show "\<forall>c \<in> set example_calls. valid_call c" by (simp add: example_calls_def valid_channel_def)
  show "bit (h_regs (run_calls quiet_env example_calls (idle_handle TIM3 (\<lambda>_. 0))) CCER) (4 * 1)"
    by (simp add: run_calls_def example_calls_def HAL_TIM_PWM_Start_def HAL_TIM_OC_Start_IT_def HAL_TIM_OC_Stop_IT_def Let_def
        idle_handle_def TIM_CHANNEL_STATE_GET_def TIM_CHANNEL_STATE_SET_def channel_index_def channel_it_def hreg_simps
        TIM_CCxChannelCmd_def bit_simps)
qed simp

text \<open>The channel states a start of each mode looks at.\<close>

fun watched_states :: "tim_mode \<Rightarrow> u32 \<Rightarrow> TIM_HandleTypeDef \<Rightarrow> HAL_TIM_ChannelStateTypeDef list" where
  "watched_states Mode_OC ch h = [TIM_CHANNEL_STATE_GET h ch]"
| "watched_states Mode_PWM ch h = [TIM_CHANNEL_STATE_GET h ch]"
| "watched_states Mode_IC ch h = [TIM_CHANNEL_STATE_GET h ch, TIM_CHANNEL_N_STATE_GET h ch]"
| "watched_states Mode_OnePulse ch h = channels_12 h"
| "watched_states Mode_Encoder ch h = encoder_states h ch"

text \<open>A start of any mode and any kind looks at the states of the channels it needs first: when one
  of them is not ready, the call fails and the handle, its registers included, is left as it was.\<close>

lemma tim_start_refused:
  assumes "s \<in> set (watched_states mode ch h)" and "s \<noteq> READY"
  shows "\<exists>e. do_call env (Start_call mode how ch) h = (e, h) \<and> e \<noteq> HAL_OK"
proof -
  have one: "list_ex (\<lambda>s. s \<noteq> READY) (watched_states mode ch h)" using assms by (auto simp: list_ex_iff)
  show ?thesis
    using one
    by (cases mode; cases how)
       (auto simp: HAL_TIM_OC_Start_def HAL_TIM_OC_Start_IT_def HAL_TIM_OC_Start_DMA_def HAL_TIM_PWM_Start_def HAL_TIM_PWM_Start_IT_def
         HAL_TIM_PWM_Start_DMA_def HAL_TIM_IC_Start_def HAL_TIM_IC_Start_IT_def HAL_TIM_IC_Start_DMA_def HAL_TIM_OnePulse_Start_def
         HAL_TIM_OnePulse_Start_IT_def HAL_TIM_Encoder_Start_def HAL_TIM_Encoder_Start_IT_def HAL_TIM_Encoder_Start_DMA_def
         encoder_dma_guard_def Let_def list_ex_iff list_all_iff)
qed

theorem tim_start_refused_witness:
  "\<exists>e. do_call quiet_env (Start_call Mode_IC (With_DMA 4 0 1) TIM_CHANNEL_1)
     ((idle_handle TIM2 (\<lambda>_. 0))\<lparr>h_ChannelNState := (\<lambda>_. BUSY)\<rparr>) =
   (e, (idle_handle TIM2 (\<lambda>_. 0))\<lparr>h_ChannelNState := (\<lambda>_. BUSY)\<rparr>) \<and> e \<noteq> HAL_OK"
  by (rule tim_start_refused [where s = BUSY]) (simp_all add: TIM_CHANNEL_N_STATE_GET_def)



text \<open>When the DMA driver refuses the transfer, an output-compare start returns an error but leaves
  the channel marked busy and disabled: starting again answers busy without trying, and only a
  stop makes the channel ready again.\<close>

lemma OC_Start_DMA_failure_keeps_busy:
  assumes "valid_channel ch" and "channel_index ch < 4" and "TIM_CHANNEL_STATE_GET h ch = READY" and "p \<noteq> 0" and "n \<noteq> 0"
    and "\<forall>src dst len d. fst (TIM_DMA_Start_IT env src dst len d) \<noteq> HAL_OK"
  shows "\<exists>h1. HAL_TIM_OC_Start_DMA env h ch p n = (HAL_ERROR, h1) \<and> h_regs h1 = h_regs h \<and>
    HAL_TIM_OC_Start_DMA env h1 ch p n = (HAL_BUSY, h1) \<and>
    TIM_CHANNEL_STATE_GET (snd (HAL_TIM_OC_Stop_DMA env h1 ch)) ch = READY"
proof -
  obtain rq i ccr where c: "channel_dma ch = Some (rq, i, ccr)" using channel_dma_Some [OF assms(1,2)] by auto
  let ?d = "dma_start env i TIM_DMADelayPulseCplt_fn TIM_DMADelayPulseHalfCplt_fn p (reg_address env (h_Instance h) ccr) (ucast n)
    (TIM_CHANNEL_STATE_SET ch BUSY h)"
  have "fst ?d \<noteq> HAL_OK" using assms(6) by (simp add: dma_start_def Let_def case_prod_beta)
  then have first: "HAL_TIM_OC_Start_DMA env h ch p n = (HAL_ERROR, snd ?d)"
    using assms(3-5) c by (simp add: HAL_TIM_OC_Start_DMA_def OC_dma_channel_def Let_def case_prod_beta hreg_simps)
  have v: "ch_view (snd ?d) = cc_state ch BUSY (ch_view h)" by (simp add: ch_view_simps)
  then have busy: "TIM_CHANNEL_STATE_GET (snd ?d) ch = BUSY"
    by (simp add: TIM_CHANNEL_STATE_GET_def ch_view_def cc_state_def)
  then have again: "HAL_TIM_OC_Start_DMA env (snd ?d) ch p n = (HAL_BUSY, snd ?d)" by (simp add: HAL_TIM_OC_Start_DMA_def)
  have "TIM_CHANNEL_STATE_GET (snd (HAL_TIM_OC_Stop_DMA env (snd ?d) ch)) ch = READY"
    using OC_stops_DMA [OF assms(1,2), of "snd ?d" env] by (simp add: stops_channel_def TIM_CHANNEL_STATE_GET_def)
  with first again show ?thesis by (intro exI [of _ "snd ?d"]) (simp add: hreg_simps)
qed

definition refusing_env :: tim_env where
  "refusing_env = quiet_env\<lparr>HAL_DMA_Start_IT := (\<lambda>d _ _ _. (HAL_ERROR, d)), HAL_DMAEx_List_Start_IT := (\<lambda>d. (HAL_ERROR, d))\<rparr>"

theorem OC_Start_DMA_failure_keeps_busy_witness:
  "\<exists>h1. HAL_TIM_OC_Start_DMA refusing_env (idle_handle TIM3 (\<lambda>_. 0)) TIM_CHANNEL_1 4 1 = (HAL_ERROR, h1) \<and>
     HAL_TIM_OC_Start_DMA refusing_env h1 TIM_CHANNEL_1 4 1 = (HAL_BUSY, h1)"
proof -
  have r: "\<forall>src dst len d. fst (TIM_DMA_Start_IT refusing_env src dst len d) \<noteq> HAL_OK"
    by (simp add: TIM_DMA_Start_IT_def refusing_env_def split: option.splits)
  show ?thesis
    using OC_Start_DMA_failure_keeps_busy [of TIM_CHANNEL_1 "idle_handle TIM3 (\<lambda>_. 0)" 4 1, OF _ _ _ _ _ r]
    by (auto simp: TIM_CHANNEL_STATE_GET_def idle_handle_def)
qed

end
