(* ===== verification/Hal_Tim_Irq.thy ===== *)
theory Hal_Tim_Irq
  imports Hal_Tim
begin

unbundle bit_operations_syntax

text \<open>
  The interrupt handler of the timer driver and the functions it hands to the DMA driver
  (\<open>stm32h7rsxx_hal_tim.c\<close>).  The handler reads the interrupt enable and status registers once at
  entry; user callbacks run in between and may change the handle.
\<close>

section \<open>Interrupt handler\<close>

definition pending :: "u32 \<Rightarrow> u32 \<Rightarrow> u32 \<Rightarrow> u32 \<Rightarrow> bool" where
  "pending itflag itsource flag it \<longleftrightarrow> itflag AND flag = flag \<and> itsource AND it = it"

definition irq_cc :: "tim_env \<Rightarrow> u32 \<Rightarrow> HAL_TIM_ActiveChannel \<Rightarrow> tim_reg \<Rightarrow> u32 \<Rightarrow> TIM_HandleTypeDef \<Rightarrow> TIM_HandleTypeDef" where
  "irq_cc env flag active ccmr ccs h =
     (let h = HAL_TIM_CLEAR_FLAG flag h;
          h = h\<lparr>h_Channel := active\<rparr>;
          h = (if h_regs h ccmr AND ccs \<noteq> 0 then callback env IC_CaptureCallback h
               else callback env PWM_PulseFinishedCallback (callback env OC_DelayElapsedCallback h))
      in h\<lparr>h_Channel := HAL_TIM_ACTIVE_CHANNEL_CLEARED\<rparr>)"

definition irq_channels :: "tim_env \<Rightarrow> u32 \<Rightarrow> u32 \<Rightarrow> TIM_HandleTypeDef \<Rightarrow> TIM_HandleTypeDef" where
  "irq_channels env itflag itsource h =
     (let h = (if pending itflag itsource TIM_FLAG_CC1 TIM_IT_CC1
               then irq_cc env TIM_FLAG_CC1 HAL_TIM_ACTIVE_CHANNEL_1 CCMR1 TIM_CCMR1_CC1S h else h);
          h = (if pending itflag itsource TIM_FLAG_CC2 TIM_IT_CC2
               then irq_cc env TIM_FLAG_CC2 HAL_TIM_ACTIVE_CHANNEL_2 CCMR1 TIM_CCMR1_CC2S h else h);
          h = (if pending itflag itsource TIM_FLAG_CC3 TIM_IT_CC3
               then irq_cc env TIM_FLAG_CC3 HAL_TIM_ACTIVE_CHANNEL_3 CCMR2 TIM_CCMR2_CC3S h else h)
      in (if pending itflag itsource TIM_FLAG_CC4 TIM_IT_CC4
          then irq_cc env TIM_FLAG_CC4 HAL_TIM_ACTIVE_CHANNEL_4 CCMR2 TIM_CCMR2_CC4S h else h))"

definition irq_event :: "tim_env \<Rightarrow> bool \<Rightarrow> u32 \<Rightarrow> tim_callback \<Rightarrow> TIM_HandleTypeDef \<Rightarrow> TIM_HandleTypeDef" where
  "irq_event env raised flag c h = (if raised then callback env c (HAL_TIM_CLEAR_FLAG flag h) else h)"

definition irq_events :: "tim_env \<Rightarrow> u32 \<Rightarrow> u32 \<Rightarrow> TIM_HandleTypeDef \<Rightarrow> TIM_HandleTypeDef" where
  "irq_events env itflag itsource h =
     (let h = irq_event env (pending itflag itsource TIM_FLAG_UPDATE TIM_IT_UPDATE) TIM_FLAG_UPDATE PeriodElapsedCallback h;
          h = irq_event env (pending itflag itsource TIM_FLAG_BREAK TIM_IT_BREAK \<or>
                             pending itflag itsource TIM_FLAG_SYSTEM_BREAK TIM_IT_BREAK)
                (TIM_FLAG_BREAK OR TIM_FLAG_SYSTEM_BREAK) BreakCallback h;
          h = irq_event env (pending itflag itsource TIM_FLAG_BREAK2 TIM_IT_BREAK) TIM_FLAG_BREAK2 Break2Callback h;
          h = irq_event env (pending itflag itsource TIM_FLAG_TRIGGER TIM_IT_TRIGGER) TIM_FLAG_TRIGGER TriggerCallback h;
          h = irq_event env (pending itflag itsource TIM_FLAG_COM TIM_IT_COM) TIM_FLAG_COM CommutCallback h;
          h = irq_event env (pending itflag itsource TIM_FLAG_IDX TIM_IT_IDX) TIM_FLAG_IDX EncoderIndexCallback h;
          h = irq_event env (pending itflag itsource TIM_FLAG_DIR TIM_IT_DIR) TIM_FLAG_DIR DirectionChangeCallback h;
          h = irq_event env (pending itflag itsource TIM_FLAG_IERR TIM_IT_IERR) TIM_FLAG_IERR IndexErrorCallback h
      in irq_event env (pending itflag itsource TIM_FLAG_TERR TIM_IT_TERR) TIM_FLAG_TERR TransitionErrorCallback h)"

definition HAL_TIM_IRQHandler :: "tim_env \<Rightarrow> TIM_HandleTypeDef \<Rightarrow> TIM_HandleTypeDef" where
  "HAL_TIM_IRQHandler env h =
     (let itsource = h_regs h DIER;
          itflag = h_regs h SR;
          h = irq_channels env itflag itsource h
      in irq_events env itflag itsource h)"

section \<open>Functions called by the DMA driver\<close>

text \<open>They get the DMA handle that finished, here the pointer to it.\<close>

definition dma_active_channel :: "TIM_HandleTypeDef \<Rightarrow> nat \<Rightarrow> HAL_TIM_ActiveChannel option" where
  "dma_active_channel h hdma =
     (if hdma = h_hdma h TIM_DMA_ID_CC1 then Some HAL_TIM_ACTIVE_CHANNEL_1
      else if hdma = h_hdma h TIM_DMA_ID_CC2 then Some HAL_TIM_ACTIVE_CHANNEL_2
      else if hdma = h_hdma h TIM_DMA_ID_CC3 then Some HAL_TIM_ACTIVE_CHANNEL_3
      else if hdma = h_hdma h TIM_DMA_ID_CC4 then Some HAL_TIM_ACTIVE_CHANNEL_4 else None)"

definition with_active_channel :: "tim_env \<Rightarrow> tim_callback \<Rightarrow> nat \<Rightarrow> TIM_HandleTypeDef \<Rightarrow> TIM_HandleTypeDef" where
  "with_active_channel env c hdma h =
     (let h = (case dma_active_channel h hdma of Some ch \<Rightarrow> h\<lparr>h_Channel := ch\<rparr> | None \<Rightarrow> h);
          h = callback env c h
      in h\<lparr>h_Channel := HAL_TIM_ACTIVE_CHANNEL_CLEARED\<rparr>)"

definition dma_error_state :: "nat \<Rightarrow> TIM_HandleTypeDef \<Rightarrow> TIM_HandleTypeDef" where
  "dma_error_state hdma h =
     (if hdma = h_hdma h TIM_DMA_ID_CC1
      then TIM_CHANNEL_STATE_SET TIM_CHANNEL_1 HAL_TIM_CHANNEL_STATE_READY (h\<lparr>h_Channel := HAL_TIM_ACTIVE_CHANNEL_1\<rparr>)
      else if hdma = h_hdma h TIM_DMA_ID_CC2
      then TIM_CHANNEL_STATE_SET TIM_CHANNEL_2 HAL_TIM_CHANNEL_STATE_READY (h\<lparr>h_Channel := HAL_TIM_ACTIVE_CHANNEL_2\<rparr>)
      else if hdma = h_hdma h TIM_DMA_ID_CC3
      then TIM_CHANNEL_STATE_SET TIM_CHANNEL_3 HAL_TIM_CHANNEL_STATE_READY (h\<lparr>h_Channel := HAL_TIM_ACTIVE_CHANNEL_3\<rparr>)
      else if hdma = h_hdma h TIM_DMA_ID_CC4
      then TIM_CHANNEL_STATE_SET TIM_CHANNEL_4 HAL_TIM_CHANNEL_STATE_READY (h\<lparr>h_Channel := HAL_TIM_ACTIVE_CHANNEL_4\<rparr>)
      else h\<lparr>h_State := HAL_TIM_STATE_READY\<rparr>)"

definition TIM_DMAError :: "tim_env \<Rightarrow> nat \<Rightarrow> TIM_HandleTypeDef \<Rightarrow> TIM_HandleTypeDef" where
  "TIM_DMAError env hdma h =
     (callback env ErrorCallback (dma_error_state hdma h))\<lparr>h_Channel := HAL_TIM_ACTIVE_CHANNEL_CLEARED\<rparr>"

definition TIM_DMADelayPulseCplt :: "tim_env \<Rightarrow> nat \<Rightarrow> TIM_HandleTypeDef \<Rightarrow> TIM_HandleTypeDef" where
  "TIM_DMADelayPulseCplt env = with_active_channel env PWM_PulseFinishedCallback"

definition TIM_DMADelayPulseHalfCplt :: "tim_env \<Rightarrow> nat \<Rightarrow> TIM_HandleTypeDef \<Rightarrow> TIM_HandleTypeDef" where
  "TIM_DMADelayPulseHalfCplt env = with_active_channel env PWM_PulseFinishedHalfCpltCallback"

definition TIM_DMACaptureCplt :: "tim_env \<Rightarrow> nat \<Rightarrow> TIM_HandleTypeDef \<Rightarrow> TIM_HandleTypeDef" where
  "TIM_DMACaptureCplt env = with_active_channel env IC_CaptureCallback"

definition TIM_DMACaptureHalfCplt :: "tim_env \<Rightarrow> nat \<Rightarrow> TIM_HandleTypeDef \<Rightarrow> TIM_HandleTypeDef" where
  "TIM_DMACaptureHalfCplt env = with_active_channel env IC_CaptureHalfCpltCallback"

definition TIM_DMAPeriodElapsedCplt :: "tim_env \<Rightarrow> nat \<Rightarrow> TIM_HandleTypeDef \<Rightarrow> TIM_HandleTypeDef" where
  "TIM_DMAPeriodElapsedCplt env hdma = callback env PeriodElapsedCallback"

definition TIM_DMAPeriodElapsedHalfCplt :: "tim_env \<Rightarrow> nat \<Rightarrow> TIM_HandleTypeDef \<Rightarrow> TIM_HandleTypeDef" where
  "TIM_DMAPeriodElapsedHalfCplt env hdma = callback env PeriodElapsedHalfCpltCallback"

definition TIM_DMATriggerCplt :: "tim_env \<Rightarrow> nat \<Rightarrow> TIM_HandleTypeDef \<Rightarrow> TIM_HandleTypeDef" where
  "TIM_DMATriggerCplt env hdma = callback env TriggerCallback"

definition TIM_DMATriggerHalfCplt :: "tim_env \<Rightarrow> nat \<Rightarrow> TIM_HandleTypeDef \<Rightarrow> TIM_HandleTypeDef" where
  "TIM_DMATriggerHalfCplt env hdma = callback env TriggerHalfCpltCallback"

section \<open>What one interrupt does\<close>

text \<open>The callbacks an interrupt owes, from the registers at entry.\<close>

definition cc_calls :: "tim_regs \<Rightarrow> u32 \<Rightarrow> u32 \<Rightarrow> HAL_TIM_ActiveChannel \<Rightarrow> tim_reg \<Rightarrow> u32 \<Rightarrow> (tim_callback \<times> HAL_TIM_ActiveChannel) list" where
  "cc_calls r flag it active ccmr ccs =
     (if pending (r SR) (r DIER) flag it
      then if r ccmr AND ccs \<noteq> 0 then [(IC_CaptureCallback, active)]
           else [(OC_DelayElapsedCallback, active), (PWM_PulseFinishedCallback, active)]
      else [])"

definition owed_cc :: "tim_regs \<Rightarrow> (tim_callback \<times> HAL_TIM_ActiveChannel) list" where
  "owed_cc r =
     cc_calls r TIM_FLAG_CC1 TIM_IT_CC1 HAL_TIM_ACTIVE_CHANNEL_1 CCMR1 TIM_CCMR1_CC1S @
     cc_calls r TIM_FLAG_CC2 TIM_IT_CC2 HAL_TIM_ACTIVE_CHANNEL_2 CCMR1 TIM_CCMR1_CC2S @
     cc_calls r TIM_FLAG_CC3 TIM_IT_CC3 HAL_TIM_ACTIVE_CHANNEL_3 CCMR2 TIM_CCMR2_CC3S @
     cc_calls r TIM_FLAG_CC4 TIM_IT_CC4 HAL_TIM_ACTIVE_CHANNEL_4 CCMR2 TIM_CCMR2_CC4S"

definition handled_events :: "tim_regs \<Rightarrow> (bool \<times> u32 \<times> tim_callback) list" where
  "handled_events r =
     (let p = pending (r SR) (r DIER)
      in [(p TIM_FLAG_UPDATE TIM_IT_UPDATE, TIM_FLAG_UPDATE, PeriodElapsedCallback),
          (p TIM_FLAG_BREAK TIM_IT_BREAK \<or> p TIM_FLAG_SYSTEM_BREAK TIM_IT_BREAK,
           TIM_FLAG_BREAK OR TIM_FLAG_SYSTEM_BREAK, BreakCallback),
          (p TIM_FLAG_BREAK2 TIM_IT_BREAK, TIM_FLAG_BREAK2, Break2Callback),
          (p TIM_FLAG_TRIGGER TIM_IT_TRIGGER, TIM_FLAG_TRIGGER, TriggerCallback),
          (p TIM_FLAG_COM TIM_IT_COM, TIM_FLAG_COM, CommutCallback),
          (p TIM_FLAG_IDX TIM_IT_IDX, TIM_FLAG_IDX, EncoderIndexCallback),
          (p TIM_FLAG_DIR TIM_IT_DIR, TIM_FLAG_DIR, DirectionChangeCallback),
          (p TIM_FLAG_IERR TIM_IT_IERR, TIM_FLAG_IERR, IndexErrorCallback),
          (p TIM_FLAG_TERR TIM_IT_TERR, TIM_FLAG_TERR, TransitionErrorCallback)])"

text \<open>What the handler relies on: user callbacks leave the status register, the channel modes, the
  active channel and the call log alone; they may change anything else of the handle.\<close>

definition keeps_status :: "tim_env \<Rightarrow> bool" where
  "keeps_status env \<longleftrightarrow>
     (\<forall>c h. let h' = user_callback env c h
            in h_regs h' SR = h_regs h SR \<and> h_regs h' CCMR1 = h_regs h CCMR1 \<and> h_regs h' CCMR2 = h_regs h CCMR2 \<and>
               h_Channel h' = h_Channel h \<and> h_calls h' = h_calls h)"

text \<open>What the handler and its callbacks look at.\<close>

definition irq_view :: "TIM_HandleTypeDef \<Rightarrow> u32 \<times> u32 \<times> u32 \<times> HAL_TIM_ActiveChannel \<times> (tim_callback \<times> HAL_TIM_ActiveChannel) list" where
  "irq_view h = (h_regs h SR, h_regs h CCMR1, h_regs h CCMR2, h_Channel h, h_calls h)"

lemma callback_view:
  assumes "keeps_status env"
  shows "irq_view (callback env c h) = (h_regs h SR, h_regs h CCMR1, h_regs h CCMR2, h_Channel h, h_calls h @ [(c, h_Channel h)])"
  using assms unfolding keeps_status_def callback_def irq_view_def Let_def by simp

lemma irq_event_view:
  assumes "keeps_status env" and "irq_view h = (sr, m1, m2, ch, calls)"
  shows "irq_view (irq_event env raised flag c h) =
    (sr AND NOT (if raised then flag else 0), m1, m2, ch, calls @ (if raised then [(c, ch)] else []))"
  using assms(2) unfolding irq_event_def
  by (simp add: callback_view [OF assms(1)] HAL_TIM_CLEAR_FLAG_def on_regs_def) (simp add: irq_view_def)

lemma irq_cc_view:
  assumes k: "keeps_status env" and v: "irq_view h = (sr, m1, m2, ch, calls)" and m: "ccmr = CCMR1 \<or> ccmr = CCMR2"
  shows "irq_view (irq_cc env flag active ccmr ccs h) =
    (sr AND NOT flag, m1, m2, HAL_TIM_ACTIVE_CHANNEL_CLEARED,
     calls @ (if (if ccmr = CCMR1 then m1 else m2) AND ccs \<noteq> 0 then [(IC_CaptureCallback, active)]
              else [(OC_DelayElapsedCallback, active), (PWM_PulseFinishedCallback, active)]))"
proof -
  let ?h = "(HAL_TIM_CLEAR_FLAG flag h)\<lparr>h_Channel := active\<rparr>"
  have r: "h_regs ?h SR = sr AND NOT flag" "h_regs ?h CCMR1 = m1" "h_regs ?h CCMR2 = m2" "h_Channel ?h = active" "h_calls ?h = calls"
    using v by (simp_all add: irq_view_def HAL_TIM_CLEAR_FLAG_def on_regs_def)
  have c: "h_regs ?h ccmr = (if ccmr = CCMR1 then m1 else m2)" using m r by auto
  have one: "irq_view (callback env IC_CaptureCallback ?h) = (sr AND NOT flag, m1, m2, active, calls @ [(IC_CaptureCallback, active)])"
    by (simp only: callback_view [OF k] r)
  have first: "irq_view (callback env OC_DelayElapsedCallback ?h) = (sr AND NOT flag, m1, m2, active, calls @ [(OC_DelayElapsedCallback, active)])"
    by (simp only: callback_view [OF k] r)
  have two: "irq_view (callback env PWM_PulseFinishedCallback (callback env OC_DelayElapsedCallback ?h)) =
      (sr AND NOT flag, m1, m2, active, calls @ [(OC_DelayElapsedCallback, active), (PWM_PulseFinishedCallback, active)])"
    using first callback_view [OF k, of PWM_PulseFinishedCallback "callback env OC_DelayElapsedCallback ?h"]
    by (simp add: irq_view_def)
  have cleared: "irq_view (x\<lparr>h_Channel := HAL_TIM_ACTIVE_CHANNEL_CLEARED\<rparr>) =
      (case irq_view x of (a, b, d, _, e) \<Rightarrow> (a, b, d, HAL_TIM_ACTIVE_CHANNEL_CLEARED, e))" for x
    by (simp add: irq_view_def)
  show ?thesis
    unfolding irq_cc_def Let_def c cleared using one two by simp
qed

lemma irq_cc_step_view:
  assumes "keeps_status env" and "irq_view h = (sr, r CCMR1, r CCMR2, HAL_TIM_ACTIVE_CHANNEL_CLEARED, calls)"
    and "ccmr = CCMR1 \<or> ccmr = CCMR2"
  shows "irq_view (if pending (r SR) (r DIER) flag it then irq_cc env flag active ccmr ccs h else h) =
    (sr AND NOT (if pending (r SR) (r DIER) flag it then flag else 0), r CCMR1, r CCMR2, HAL_TIM_ACTIVE_CHANNEL_CLEARED,
     calls @ cc_calls r flag it active ccmr ccs)"
  using assms irq_cc_view [OF assms(1,2,3)] unfolding cc_calls_def by auto

text \<open>The status register after the handler: every served flag is cleared.\<close>

definition served_cc :: "tim_regs \<Rightarrow> u32" where
  "served_cc r =
     (let p = (\<lambda>flag it. if pending (r SR) (r DIER) flag it then flag else 0)
      in p TIM_FLAG_CC1 TIM_IT_CC1 OR p TIM_FLAG_CC2 TIM_IT_CC2 OR p TIM_FLAG_CC3 TIM_IT_CC3 OR p TIM_FLAG_CC4 TIM_IT_CC4)"

lemma irq_channels_view:
  assumes k: "keeps_status env" and c: "h_Channel h = HAL_TIM_ACTIVE_CHANNEL_CLEARED"
  shows "irq_view (irq_channels env (h_regs h SR) (h_regs h DIER) h) =
    (h_regs h SR AND NOT (served_cc (h_regs h)), h_regs h CCMR1, h_regs h CCMR2, HAL_TIM_ACTIVE_CHANNEL_CLEARED,
     h_calls h @ owed_cc (h_regs h))"
proof -
  have v0: "irq_view h = (h_regs h SR, h_regs h CCMR1, h_regs h CCMR2, HAL_TIM_ACTIVE_CHANNEL_CLEARED, h_calls h)"
    using c by (simp add: irq_view_def)
  show ?thesis
    unfolding irq_channels_def Let_def
    by (subst irq_cc_step_view [OF k irq_cc_step_view [OF k irq_cc_step_view [OF k irq_cc_step_view [OF k v0]]]])
       (simp_all add: served_cc_def owed_cc_def Let_def ac_simps)
qed

definition served_events :: "tim_regs \<Rightarrow> u32" where
  "served_events r = foldr (\<lambda>(raised, flag, _) acc. (if raised then flag else 0) OR acc) (handled_events r) 0"

definition owed_events :: "tim_regs \<Rightarrow> (tim_callback \<times> HAL_TIM_ActiveChannel) list" where
  "owed_events r = map (\<lambda>(_, _, c). (c, HAL_TIM_ACTIVE_CHANNEL_CLEARED)) (filter fst (handled_events r))"

lemma irq_event_list_view:
  assumes "keeps_status env" and "irq_view h = (sr, m1, m2, ch, calls)"
  shows "irq_view (fold (\<lambda>(raised, flag, c). irq_event env raised flag c) es h) =
    (sr AND NOT (foldr (\<lambda>(raised, flag, _) acc. (if raised then flag else 0) OR acc) es 0), m1, m2, ch,
     calls @ map (\<lambda>(_, _, c). (c, ch)) (filter fst es))"
  using assms(2)
proof (induction es arbitrary: h sr calls)
  case (Cons e es)
  obtain raised flag c where e: "e = (raised, flag, c)" by (cases e) auto
  show ?case
    using Cons.IH [OF irq_event_view [OF assms(1) Cons.prems, of raised flag c]] e
    by (simp add: ac_simps)
qed simp

lemma irq_events_fold:
  "irq_events env (r SR) (r DIER) h = fold (\<lambda>(raised, flag, c). irq_event env raised flag c) (handled_events r) h"
  by (simp add: irq_events_def handled_events_def Let_def)

lemma HAL_TIM_IRQHandler_view:
  assumes k: "keeps_status env" and c: "h_Channel h = HAL_TIM_ACTIVE_CHANNEL_CLEARED"
  shows "irq_view (HAL_TIM_IRQHandler env h) =
    (h_regs h SR AND NOT (served_cc (h_regs h) OR served_events (h_regs h)), h_regs h CCMR1, h_regs h CCMR2,
     HAL_TIM_ACTIVE_CHANNEL_CLEARED, h_calls h @ owed_cc (h_regs h) @ owed_events (h_regs h))"
  unfolding HAL_TIM_IRQHandler_def Let_def irq_events_fold
    irq_event_list_view [OF k irq_channels_view [OF k c]] served_events_def owed_events_def
  by (simp add: ac_simps)

text \<open>The bit of the status register that raises an interrupt, with the bit that enables it.\<close>

definition irq_enable_bit :: "nat \<Rightarrow> nat option" where
  "irq_enable_bit i =
     (if i \<in> {0, 1, 2, 3, 4, 5, 6, 7, 20, 21, 22, 23} then Some i else if i \<in> {8, 13} then Some 7 else None)"

lemma and_exp_eq: "w AND 2 ^ n = 2 ^ n \<longleftrightarrow> bit w n" if "n < 32" for w :: u32
proof
  assume "w AND 2 ^ n = 2 ^ n"
  then have "bit (w AND 2 ^ n) n = bit (2 ^ n :: u32) n" by simp
  with that show "bit w n" by (simp add: bit_simps)
next
  assume "bit w n"
  then show "w AND 2 ^ n = 2 ^ n" by (auto intro!: bit_word_eqI simp: bit_simps)
qed

lemma pending_exp: "f < 32 \<Longrightarrow> i < 32 \<Longrightarrow> pending sr dier (2 ^ f) (2 ^ i) \<longleftrightarrow> bit sr f \<and> bit dier i"
  by (simp add: pending_def and_exp_eq)

lemma pending_bits:
  "pending sr dier 1 1 \<longleftrightarrow> bit sr 0 \<and> bit dier 0" "pending sr dier 2 2 \<longleftrightarrow> bit sr 1 \<and> bit dier 1"
  "pending sr dier 4 4 \<longleftrightarrow> bit sr 2 \<and> bit dier 2" "pending sr dier 8 8 \<longleftrightarrow> bit sr 3 \<and> bit dier 3"
  "pending sr dier 0x10 0x10 \<longleftrightarrow> bit sr 4 \<and> bit dier 4" "pending sr dier 0x20 0x20 \<longleftrightarrow> bit sr 5 \<and> bit dier 5"
  "pending sr dier 0x40 0x40 \<longleftrightarrow> bit sr 6 \<and> bit dier 6" "pending sr dier 0x80 0x80 \<longleftrightarrow> bit sr 7 \<and> bit dier 7"
  "pending sr dier 0x2000 0x80 \<longleftrightarrow> bit sr 13 \<and> bit dier 7" "pending sr dier 0x100 0x80 \<longleftrightarrow> bit sr 8 \<and> bit dier 7"
  "pending sr dier 0x100000 0x100000 \<longleftrightarrow> bit sr 20 \<and> bit dier 20" "pending sr dier 0x200000 0x200000 \<longleftrightarrow> bit sr 21 \<and> bit dier 21"
  "pending sr dier 0x400000 0x400000 \<longleftrightarrow> bit sr 22 \<and> bit dier 22" "pending sr dier 0x800000 0x800000 \<longleftrightarrow> bit sr 23 \<and> bit dier 23"
  using pending_exp [of 0 0 sr dier] pending_exp [of 1 1 sr dier] pending_exp [of 2 2 sr dier] pending_exp [of 3 3 sr dier]
    pending_exp [of 4 4 sr dier] pending_exp [of 5 5 sr dier] pending_exp [of 6 6 sr dier] pending_exp [of 7 7 sr dier]
    pending_exp [of 13 7 sr dier] pending_exp [of 8 7 sr dier] pending_exp [of 20 20 sr dier] pending_exp [of 21 21 sr dier]
    pending_exp [of 22 22 sr dier] pending_exp [of 23 23 sr dier]
  by simp_all

lemma flag_bits:
  "bit (1 :: u32) i \<longleftrightarrow> i = 0" "bit (2 :: u32) i \<longleftrightarrow> i = 1" "bit (4 :: u32) i \<longleftrightarrow> i = 2" "bit (8 :: u32) i \<longleftrightarrow> i = 3"
  "bit (0x10 :: u32) i \<longleftrightarrow> i = 4" "bit (0x20 :: u32) i \<longleftrightarrow> i = 5" "bit (0x40 :: u32) i \<longleftrightarrow> i = 6"
  "bit (0x80 :: u32) i \<longleftrightarrow> i = 7" "bit (0x100 :: u32) i \<longleftrightarrow> i = 8" "bit (0x2000 :: u32) i \<longleftrightarrow> i = 13"
  "bit (0x100000 :: u32) i \<longleftrightarrow> i = 20" "bit (0x200000 :: u32) i \<longleftrightarrow> i = 21" "bit (0x400000 :: u32) i \<longleftrightarrow> i = 22"
  "bit (0x800000 :: u32) i \<longleftrightarrow> i = 23"
  using bit_u32_exp [of 0 i] bit_u32_exp [of 1 i] bit_u32_exp [of 2 i] bit_u32_exp [of 3 i] bit_u32_exp [of 4 i] bit_u32_exp [of 5 i]
    bit_u32_exp [of 6 i] bit_u32_exp [of 7 i] bit_u32_exp [of 8 i] bit_u32_exp [of 13 i] bit_u32_exp [of 20 i] bit_u32_exp [of 21 i]
    bit_u32_exp [of 22 i] bit_u32_exp [of 23 i]
  by simp_all

lemma bit_if_zero: "bit (if p then w else 0 :: u32) i \<longleftrightarrow> p \<and> bit w i"
  by simp

lemma served_cc_bits: "bit (served_cc r) i \<longleftrightarrow> bit (r SR) i \<and> bit (r DIER) i \<and> i \<in> {1, 2, 3, 4}"
proof -
  have "bit (served_cc r) i \<longleftrightarrow> (bit (r SR) 1 \<and> bit (r DIER) 1) \<and> i = 1 \<or> (bit (r SR) 2 \<and> bit (r DIER) 2) \<and> i = 2 \<or>
      (bit (r SR) 3 \<and> bit (r DIER) 3) \<and> i = 3 \<or> (bit (r SR) 4 \<and> bit (r DIER) 4) \<and> i = 4"
    by (simp only: served_cc_def Let_def pending_bits bit_or_iff bit_if_zero flag_bits disj_assoc)
  then show ?thesis by blast
qed

lemma served_events_bits: "bit (served_events r) i \<longleftrightarrow>
    (bit (r SR) 0 \<and> bit (r DIER) 0) \<and> i = 0 \<or>
    (bit (r SR) 7 \<and> bit (r DIER) 7 \<or> bit (r SR) 13 \<and> bit (r DIER) 7) \<and> (i = 7 \<or> i = 13) \<or>
    (bit (r SR) 8 \<and> bit (r DIER) 7) \<and> i = 8 \<or>
    (bit (r SR) 6 \<and> bit (r DIER) 6) \<and> i = 6 \<or>
    (bit (r SR) 5 \<and> bit (r DIER) 5) \<and> i = 5 \<or>
    (bit (r SR) 20 \<and> bit (r DIER) 20) \<and> i = 20 \<or>
    (bit (r SR) 21 \<and> bit (r DIER) 21) \<and> i = 21 \<or>
    (bit (r SR) 22 \<and> bit (r DIER) 22) \<and> i = 22 \<or>
    (bit (r SR) 23 \<and> bit (r DIER) 23) \<and> i = 23"
  unfolding served_events_def handled_events_def Let_def
  by (simp only: foldr.simps comp_def id_apply case_prod_conv pending_bits bit_or_iff bit_if_zero flag_bits bit_0_eq bot_apply bot_bool_def simp_thms)

lemma served_bits:
  "bit (r SR AND NOT (served_cc r OR served_events r)) i \<longleftrightarrow>
   bit (r SR) i \<and> \<not> (\<exists>e. irq_enable_bit i = Some e \<and> bit (r DIER) e)"
proof (cases "bit (r SR) i")
  case True
  then have i: "i < 32" using bit_imp_le_length [of "r SR" i] by simp
  have "bit (served_cc r OR served_events r) i \<longleftrightarrow> (\<exists>e. irq_enable_bit i = Some e \<and> bit (r DIER) e)"
    unfolding bit_or_iff served_cc_bits served_events_bits irq_enable_bit_def using True by (auto split: if_splits)
  with True i show ?thesis by (simp only: bit_and_iff bit_not_iff possible_bit_word) simp
qed (simp add: bit_and_iff)

section \<open>Properties\<close>

text \<open>C16: One call of the interrupt handler, with callbacks that leave the status register, the
  channel modes, the active channel and the call log alone: a status flag stays set exactly when
  its interrupt is not enabled, so no pending interrupt is left and no other flag is lost; the
  callbacks made are those the registers owe at entry, channels 1 to 4 first, a capture for an
  input channel and delay-elapsed then pulse-finished for an output channel, each with its channel
  active; and no channel is active afterwards.\<close>

theorem HAL_TIM_IRQHandler_serves:
  assumes "keeps_status env" and "h_Channel h = HAL_TIM_ACTIVE_CHANNEL_CLEARED"
  shows "(\<forall>i. bit (h_regs (HAL_TIM_IRQHandler env h) SR) i \<longleftrightarrow>
            bit (h_regs h SR) i \<and> \<not> (\<exists>e. irq_enable_bit i = Some e \<and> bit (h_regs h DIER) e)) \<and>
    h_calls (HAL_TIM_IRQHandler env h) = h_calls h @ owed_cc (h_regs h) @ owed_events (h_regs h) \<and>
    h_Channel (HAL_TIM_IRQHandler env h) = HAL_TIM_ACTIVE_CHANNEL_CLEARED"
proof -
  have sr: "h_regs (HAL_TIM_IRQHandler env h) SR = h_regs h SR AND NOT (served_cc (h_regs h) OR served_events (h_regs h))"
    and rest: "h_calls (HAL_TIM_IRQHandler env h) = h_calls h @ owed_cc (h_regs h) @ owed_events (h_regs h)"
      "h_Channel (HAL_TIM_IRQHandler env h) = HAL_TIM_ACTIVE_CHANNEL_CLEARED"
    using HAL_TIM_IRQHandler_view [OF assms] by (simp_all add: irq_view_def)
  show ?thesis unfolding sr rest using served_bits by blast
qed

lemma quiet_env_keeps: "keeps_status quiet_env"
  by (simp add: keeps_status_def quiet_env_def Let_def)

theorem HAL_TIM_IRQHandler_serves_witness:
  "h_calls (HAL_TIM_IRQHandler quiet_env (idle_handle TIM3 ((\<lambda>_. 0)(SR := 0xF, DIER := 3, CCMR1 := 1)))) =
    [(IC_CaptureCallback, HAL_TIM_ACTIVE_CHANNEL_1), (PeriodElapsedCallback, HAL_TIM_ACTIVE_CHANNEL_CLEARED)] \<and>
   bit (h_regs (HAL_TIM_IRQHandler quiet_env (idle_handle TIM3 ((\<lambda>_. 0)(SR := 0xF, DIER := 3, CCMR1 := 1)))) SR) 2"
proof -
  let ?r = "(\<lambda>_. 0 :: u32)(SR := 0xF, DIER := 3, CCMR1 := 1)"
  have "h_Channel (idle_handle TIM3 ?r) = HAL_TIM_ACTIVE_CHANNEL_CLEARED" "h_regs (idle_handle TIM3 ?r) = ?r" "h_calls (idle_handle TIM3 ?r) = []"
    by (simp_all add: idle_handle_def)
  note w = HAL_TIM_IRQHandler_serves [OF quiet_env_keeps this(1), unfolded this(2,3)]
  have "owed_cc ?r = [(IC_CaptureCallback, HAL_TIM_ACTIVE_CHANNEL_1)]"
    by (simp add: owed_cc_def cc_calls_def pending_def)
  moreover have "owed_events ?r = [(PeriodElapsedCallback, HAL_TIM_ACTIVE_CHANNEL_CLEARED)]"
    by (simp add: owed_events_def handled_events_def Let_def pending_def)
  moreover have "bit (?r SR) 2" "irq_enable_bit 2 = Some 2" "\<not> bit (?r DIER) 2"
    by (simp_all add: irq_enable_bit_def)
  ultimately show ?thesis using w by simp
qed

end
