(* ===== verification/Hal_Tim_Config.thy ===== *)
theory Hal_Tim_Config
  imports Hal_Tim
begin

unbundle bit_operations_syntax

text \<open>
  The configuration calls of the timer driver (\<open>stm32h7rsxx_hal_tim.c\<close>): output-compare, PWM,
  input-capture and one-pulse channels, clock source, slave mode, output clear, events, and the
  reads of captured values and states.  Each runs under the lock of the handle: a locked handle
  answers busy.
\<close>

abbreviation (input) TIM_CR2_TI1S :: u32 where "TIM_CR2_TI1S \<equiv> 0x80"
abbreviation (input) TIM_CLEARINPUTSOURCE_NONE :: u32 where "TIM_CLEARINPUTSOURCE_NONE \<equiv> 0"
abbreviation (input) TIM_CLEARINPUTSOURCE_ETR :: u32 where "TIM_CLEARINPUTSOURCE_ETR \<equiv> 1"
abbreviation (input) TIM_CLEARINPUTPRESCALER_DIV1 :: u32 where "TIM_CLEARINPUTPRESCALER_DIV1 \<equiv> 0"
abbreviation (input) TIM_CLOCKSOURCE_INTERNAL :: u32 where "TIM_CLOCKSOURCE_INTERNAL \<equiv> 0x1000"
abbreviation (input) TIM_CLOCKSOURCE_ETRMODE1 :: u32 where "TIM_CLOCKSOURCE_ETRMODE1 \<equiv> 0x70"
abbreviation (input) TIM_CLOCKSOURCE_ETRMODE2 :: u32 where "TIM_CLOCKSOURCE_ETRMODE2 \<equiv> 0x2000"
abbreviation (input) TIM_CLOCKSOURCE_TI1 :: u32 where "TIM_CLOCKSOURCE_TI1 \<equiv> 0x50"
abbreviation (input) TIM_CLOCKSOURCE_TI2 :: u32 where "TIM_CLOCKSOURCE_TI2 \<equiv> 0x60"
abbreviation (input) TIM_CLOCKSOURCE_TI1ED :: u32 where "TIM_CLOCKSOURCE_TI1ED \<equiv> 0x40"

abbreviation (input) TIM_CCMR1_OC1PE :: u32 where "TIM_CCMR1_OC1PE \<equiv> 8"
abbreviation (input) TIM_CCMR1_OC1FE :: u32 where "TIM_CCMR1_OC1FE \<equiv> 4"
abbreviation (input) TIM_CCMR1_OC2PE :: u32 where "TIM_CCMR1_OC2PE \<equiv> 0x800"
abbreviation (input) TIM_CCMR1_OC2FE :: u32 where "TIM_CCMR1_OC2FE \<equiv> 0x400"
abbreviation (input) TIM_CCMR2_OC3PE :: u32 where "TIM_CCMR2_OC3PE \<equiv> 8"
abbreviation (input) TIM_CCMR2_OC3FE :: u32 where "TIM_CCMR2_OC3FE \<equiv> 4"
abbreviation (input) TIM_CCMR2_OC4PE :: u32 where "TIM_CCMR2_OC4PE \<equiv> 0x800"
abbreviation (input) TIM_CCMR2_OC4FE :: u32 where "TIM_CCMR2_OC4FE \<equiv> 0x400"
abbreviation (input) TIM_CCMR3_OC5PE :: u32 where "TIM_CCMR3_OC5PE \<equiv> 8"
abbreviation (input) TIM_CCMR3_OC5FE :: u32 where "TIM_CCMR3_OC5FE \<equiv> 4"
abbreviation (input) TIM_CCMR3_OC6PE :: u32 where "TIM_CCMR3_OC6PE \<equiv> 0x800"
abbreviation (input) TIM_CCMR3_OC6FE :: u32 where "TIM_CCMR3_OC6FE \<equiv> 0x400"
abbreviation (input) TIM_CCMR1_OC1CE :: u32 where "TIM_CCMR1_OC1CE \<equiv> 0x80"
abbreviation (input) TIM_CCMR1_OC2CE :: u32 where "TIM_CCMR1_OC2CE \<equiv> 0x8000"
abbreviation (input) TIM_CCMR2_OC3CE :: u32 where "TIM_CCMR2_OC3CE \<equiv> 0x80"
abbreviation (input) TIM_CCMR2_OC4CE :: u32 where "TIM_CCMR2_OC4CE \<equiv> 0x8000"
abbreviation (input) TIM_CCMR3_OC5CE :: u32 where "TIM_CCMR3_OC5CE \<equiv> 0x80"
abbreviation (input) TIM_CCMR3_OC6CE :: u32 where "TIM_CCMR3_OC6CE \<equiv> 0x8000"

section \<open>Structures and the lock\<close>

record TIM_OnePulse_InitTypeDef =
  op_OCMode :: u32
  op_Pulse :: u32
  op_OCPolarity :: u32
  op_OCNPolarity :: u32
  op_OCIdleState :: u32
  op_OCNIdleState :: u32
  op_ICPolarity :: u32
  op_ICSelection :: u32
  op_ICFilter :: u32

record TIM_ClockConfigTypeDef =
  ClockSource :: u32
  ClockPolarity :: u32
  ClockPrescaler :: u32
  ClockFilter :: u32

record TIM_ClearInputConfigTypeDef =
  ClearInputState :: u32
  ClearInputSource :: u32
  ClearInputPolarity :: u32
  ClearInputPrescaler :: u32
  ClearInputFilter :: u32

text \<open>\<open>__HAL_LOCK\<close> returns busy from its caller when the handle is locked; the caller's body runs
  on the locked handle and every path of it ends with \<open>__HAL_UNLOCK\<close>.\<close>

definition with_lock :: "(TIM_HandleTypeDef \<Rightarrow> HAL_StatusTypeDef \<times> TIM_HandleTypeDef) \<Rightarrow> TIM_HandleTypeDef \<Rightarrow> HAL_StatusTypeDef \<times> TIM_HandleTypeDef" where
  "with_lock body h =
     (if h_Lock h = HAL_LOCKED then (HAL_BUSY, h)
      else (let (status, h) = body (h\<lparr>h_Lock := HAL_LOCKED\<rparr>) in (status, h\<lparr>h_Lock := HAL_UNLOCKED\<rparr>)))"

definition busy_while :: "(TIM_HandleTypeDef \<Rightarrow> HAL_StatusTypeDef \<times> TIM_HandleTypeDef) \<Rightarrow> TIM_HandleTypeDef \<Rightarrow> HAL_StatusTypeDef \<times> TIM_HandleTypeDef" where
  "busy_while body h =
     (let (status, h) = body (h\<lparr>h_State := HAL_TIM_STATE_BUSY\<rparr>) in (status, h\<lparr>h_State := HAL_TIM_STATE_READY\<rparr>))"

definition modify :: "tim_reg \<Rightarrow> u32 \<Rightarrow> u32 \<Rightarrow> tim_regs \<Rightarrow> tim_regs" where
  "modify reg off on r = r(reg := (r reg AND NOT off) OR on)"

section \<open>Channels\<close>

definition HAL_TIM_OC_ConfigChannel :: "TIM_HandleTypeDef \<Rightarrow> TIM_OC_InitTypeDef \<Rightarrow> u32 \<Rightarrow> HAL_StatusTypeDef \<times> TIM_HandleTypeDef" where
  "HAL_TIM_OC_ConfigChannel h sConfig Channel =
     with_lock (\<lambda>h.
       if Channel = TIM_CHANNEL_1 then (HAL_OK, on_regs (TIM_OC1_SetConfig (h_Instance h) sConfig) h)
       else if Channel = TIM_CHANNEL_2 then (HAL_OK, on_regs (TIM_OC2_SetConfig (h_Instance h) sConfig) h)
       else if Channel = TIM_CHANNEL_3 then (HAL_OK, on_regs (TIM_OC3_SetConfig (h_Instance h) sConfig) h)
       else if Channel = TIM_CHANNEL_4 then (HAL_OK, on_regs (TIM_OC4_SetConfig (h_Instance h) sConfig) h)
       else if Channel = TIM_CHANNEL_5 then (HAL_OK, on_regs (TIM_OC5_SetConfig (h_Instance h) sConfig) h)
       else if Channel = TIM_CHANNEL_6 then (HAL_OK, on_regs (TIM_OC6_SetConfig (h_Instance h) sConfig) h)
       else (HAL_ERROR, h)) h"

definition IC_ConfigRegs :: "tim_instance \<Rightarrow> TIM_IC_InitTypeDef \<Rightarrow> u32 \<Rightarrow> tim_regs \<Rightarrow> tim_regs option" where
  "IC_ConfigRegs i sConfig Channel r =
     (if Channel = TIM_CHANNEL_1
      then Some (modify CCMR1 TIM_CCMR1_IC1PSC (ICPrescaler sConfig)
             (TIM_TI1_SetConfig i (ICPolarity sConfig) (ICSelection sConfig) (ICFilter sConfig) r))
      else if Channel = TIM_CHANNEL_2
      then Some (modify CCMR1 TIM_CCMR1_IC2PSC (push_bit 8 (ICPrescaler sConfig))
             (TIM_TI2_SetConfig i (ICPolarity sConfig) (ICSelection sConfig) (ICFilter sConfig) r))
      else if Channel = TIM_CHANNEL_3
      then Some (modify CCMR2 TIM_CCMR2_IC3PSC (ICPrescaler sConfig)
             (TIM_TI3_SetConfig i (ICPolarity sConfig) (ICSelection sConfig) (ICFilter sConfig) r))
      else if Channel = TIM_CHANNEL_4
      then Some (modify CCMR2 TIM_CCMR2_IC4PSC (push_bit 8 (ICPrescaler sConfig))
             (TIM_TI4_SetConfig i (ICPolarity sConfig) (ICSelection sConfig) (ICFilter sConfig) r))
      else None)"

definition HAL_TIM_IC_ConfigChannel :: "TIM_HandleTypeDef \<Rightarrow> TIM_IC_InitTypeDef \<Rightarrow> u32 \<Rightarrow> HAL_StatusTypeDef \<times> TIM_HandleTypeDef" where
  "HAL_TIM_IC_ConfigChannel h sConfig Channel =
     with_lock (\<lambda>h.
       case IC_ConfigRegs (h_Instance h) sConfig Channel (h_regs h) of
         Some r \<Rightarrow> (HAL_OK, h\<lparr>h_regs := r\<rparr>)
       | None \<Rightarrow> (HAL_ERROR, h)) h"

text \<open>The preload bit is set, then the fast-mode bit cleared and written.\<close>

definition pwm_bits :: "tim_reg \<Rightarrow> u32 \<Rightarrow> u32 \<Rightarrow> u32 \<Rightarrow> tim_regs \<Rightarrow> tim_regs" where
  "pwm_bits ccmr pe fe fast r = modify ccmr fe fast (modify ccmr 0 pe r)"

definition PWM_ConfigRegs :: "tim_instance \<Rightarrow> TIM_OC_InitTypeDef \<Rightarrow> u32 \<Rightarrow> tim_regs \<Rightarrow> tim_regs option" where
  "PWM_ConfigRegs i sConfig Channel r =
     (if Channel = TIM_CHANNEL_1
      then Some (pwm_bits CCMR1 TIM_CCMR1_OC1PE TIM_CCMR1_OC1FE (OCFastMode sConfig) (TIM_OC1_SetConfig i sConfig r))
      else if Channel = TIM_CHANNEL_2
      then Some (pwm_bits CCMR1 TIM_CCMR1_OC2PE TIM_CCMR1_OC2FE (push_bit 8 (OCFastMode sConfig)) (TIM_OC2_SetConfig i sConfig r))
      else if Channel = TIM_CHANNEL_3
      then Some (pwm_bits CCMR2 TIM_CCMR2_OC3PE TIM_CCMR2_OC3FE (OCFastMode sConfig) (TIM_OC3_SetConfig i sConfig r))
      else if Channel = TIM_CHANNEL_4
      then Some (pwm_bits CCMR2 TIM_CCMR2_OC4PE TIM_CCMR2_OC4FE (push_bit 8 (OCFastMode sConfig)) (TIM_OC4_SetConfig i sConfig r))
      else if Channel = TIM_CHANNEL_5
      then Some (pwm_bits CCMR3 TIM_CCMR3_OC5PE TIM_CCMR3_OC5FE (OCFastMode sConfig) (TIM_OC5_SetConfig i sConfig r))
      else if Channel = TIM_CHANNEL_6
      then Some (pwm_bits CCMR3 TIM_CCMR3_OC6PE TIM_CCMR3_OC6FE (push_bit 8 (OCFastMode sConfig)) (TIM_OC6_SetConfig i sConfig r))
      else None)"

definition HAL_TIM_PWM_ConfigChannel :: "TIM_HandleTypeDef \<Rightarrow> TIM_OC_InitTypeDef \<Rightarrow> u32 \<Rightarrow> HAL_StatusTypeDef \<times> TIM_HandleTypeDef" where
  "HAL_TIM_PWM_ConfigChannel h sConfig Channel =
     with_lock (\<lambda>h.
       case PWM_ConfigRegs (h_Instance h) sConfig Channel (h_regs h) of
         Some r \<Rightarrow> (HAL_OK, h\<lparr>h_regs := r\<rparr>)
       | None \<Rightarrow> (HAL_ERROR, h)) h"

text \<open>The temporary structure leaves its fast mode uninitialised; it is not read.\<close>

definition onepulse_temp :: "TIM_OnePulse_InitTypeDef \<Rightarrow> u32 \<Rightarrow> TIM_OC_InitTypeDef" where
  "onepulse_temp sConfig uninitialised =
     \<lparr>OCMode = op_OCMode sConfig, OC_Pulse = op_Pulse sConfig, OCPolarity = op_OCPolarity sConfig,
      OCNPolarity = op_OCNPolarity sConfig, OCFastMode = uninitialised, OCIdleState = op_OCIdleState sConfig,
      OCNIdleState = op_OCNIdleState sConfig\<rparr>"

definition onepulse_trigger :: "u32 \<Rightarrow> u32 \<Rightarrow> tim_regs \<Rightarrow> tim_regs" where
  "onepulse_trigger psc ts r =
     (let r = r(CCMR1 := r CCMR1 AND NOT psc)
      in modify SMCR TIM_SMCR_SMS TIM_SLAVEMODE_TRIGGER (modify SMCR TIM_SMCR_TS ts r))"

definition HAL_TIM_OnePulse_ConfigChannel :: "TIM_HandleTypeDef \<Rightarrow> TIM_OnePulse_InitTypeDef \<Rightarrow> u32 \<Rightarrow> u32 \<Rightarrow> u32
    \<Rightarrow> HAL_StatusTypeDef \<times> TIM_HandleTypeDef" where
  "HAL_TIM_OnePulse_ConfigChannel h sConfig OutputChannel InputChannel uninitialised =
     (if OutputChannel \<noteq> InputChannel
      then with_lock (busy_while (\<lambda>h.
        (let i = h_Instance h;
             temp1 = onepulse_temp sConfig uninitialised;
             (status, h) =
               (if OutputChannel = TIM_CHANNEL_1 then (HAL_OK, on_regs (TIM_OC1_SetConfig i temp1) h)
                else if OutputChannel = TIM_CHANNEL_2 then (HAL_OK, on_regs (TIM_OC2_SetConfig i temp1) h)
                else (HAL_ERROR, h))
         in if status = HAL_OK
            then (if InputChannel = TIM_CHANNEL_1
                  then (HAL_OK, on_regs (\<lambda>r. onepulse_trigger TIM_CCMR1_IC1PSC TIM_TS_TI1FP1
                          (TIM_TI1_SetConfig i (op_ICPolarity sConfig) (op_ICSelection sConfig) (op_ICFilter sConfig) r)) h)
                  else if InputChannel = TIM_CHANNEL_2
                  then (HAL_OK, on_regs (\<lambda>r. onepulse_trigger TIM_CCMR1_IC2PSC TIM_TS_TI2FP2
                          (TIM_TI2_SetConfig i (op_ICPolarity sConfig) (op_ICSelection sConfig) (op_ICFilter sConfig) r)) h)
                  else (HAL_ERROR, h))
            else (status, h)))) h
      else (HAL_ERROR, h))"

section \<open>Events, output clear, clock source, inputs, slave mode\<close>

definition HAL_TIM_GenerateEvent :: "TIM_HandleTypeDef \<Rightarrow> u32 \<Rightarrow> HAL_StatusTypeDef \<times> TIM_HandleTypeDef" where
  "HAL_TIM_GenerateEvent h EventSource =
     with_lock (busy_while (\<lambda>h. (HAL_OK, on_regs (\<lambda>r. r(EGR := EventSource)) h))) h"

definition ocref_clear_bit :: "TIM_ClearInputConfigTypeDef \<Rightarrow> u32 \<Rightarrow> tim_regs \<Rightarrow> tim_regs" where
  "ocref_clear_bit cfg Channel r =
     (let put = (\<lambda>reg b. if ClearInputState cfg \<noteq> 0 then r(reg := r reg OR b) else r(reg := r reg AND NOT b))
      in if Channel = TIM_CHANNEL_1 then put CCMR1 TIM_CCMR1_OC1CE
         else if Channel = TIM_CHANNEL_2 then put CCMR1 TIM_CCMR1_OC2CE
         else if Channel = TIM_CHANNEL_3 then put CCMR2 TIM_CCMR2_OC3CE
         else if Channel = TIM_CHANNEL_4 then put CCMR2 TIM_CCMR2_OC4CE
         else if Channel = TIM_CHANNEL_5 then put CCMR3 TIM_CCMR3_OC5CE
         else if Channel = TIM_CHANNEL_6 then put CCMR3 TIM_CCMR3_OC6CE
         else r)"

definition HAL_TIM_ConfigOCrefClear :: "TIM_HandleTypeDef \<Rightarrow> TIM_ClearInputConfigTypeDef \<Rightarrow> u32 \<Rightarrow> HAL_StatusTypeDef \<times> TIM_HandleTypeDef" where
  "HAL_TIM_ConfigOCrefClear h cfg Channel =
     with_lock (busy_while (\<lambda>h.
       if ClearInputSource cfg = TIM_CLEARINPUTSOURCE_NONE
       then (let h = on_regs (\<lambda>r. r(SMCR := r SMCR AND NOT (TIM_SMCR_ETF OR TIM_SMCR_ETPS OR TIM_SMCR_ECE OR TIM_SMCR_ETP))) h
             in (HAL_OK, on_regs (ocref_clear_bit cfg Channel) h))
       else if ClearInputSource cfg = TIM_CLEARINPUTSOURCE_ETR
       then (if ClearInputPrescaler cfg \<noteq> TIM_CLEARINPUTPRESCALER_DIV1 then (HAL_ERROR, h)
             else (let h = on_regs (TIM_ETR_SetConfig (ClearInputPrescaler cfg) (ClearInputPolarity cfg) (ClearInputFilter cfg)) h
                   in (HAL_OK, on_regs (ocref_clear_bit cfg Channel) h)))
       else (HAL_ERROR, h))) h"

definition clock_source_regs :: "tim_instance \<Rightarrow> TIM_ClockConfigTypeDef \<Rightarrow> tim_regs \<Rightarrow> HAL_StatusTypeDef \<times> tim_regs" where
  "clock_source_regs i cfg r =
     (let etr = TIM_ETR_SetConfig (ClockPrescaler cfg) (ClockPolarity cfg) (ClockFilter cfg);
          ti1 = TIM_TI1_ConfigInputStage i (ClockPolarity cfg) (ClockFilter cfg);
          ti2 = TIM_TI2_ConfigInputStage i (ClockPolarity cfg) (ClockFilter cfg);
          src = ClockSource cfg
      in if src = TIM_CLOCKSOURCE_INTERNAL then (HAL_OK, r)
         else if src = TIM_CLOCKSOURCE_ETRMODE1
         then (HAL_OK, modify SMCR 0 (TIM_SLAVEMODE_EXTERNAL1 OR TIM_CLOCKSOURCE_ETRMODE1) (etr r))
         else if src = TIM_CLOCKSOURCE_ETRMODE2 then (HAL_OK, modify SMCR 0 TIM_SMCR_ECE (etr r))
         else if src = TIM_CLOCKSOURCE_TI1 then (HAL_OK, TIM_ITRx_SetConfig TIM_CLOCKSOURCE_TI1 (ti1 r))
         else if src = TIM_CLOCKSOURCE_TI2 then (HAL_OK, TIM_ITRx_SetConfig TIM_CLOCKSOURCE_TI2 (ti2 r))
         else if src = TIM_CLOCKSOURCE_TI1ED then (HAL_OK, TIM_ITRx_SetConfig TIM_CLOCKSOURCE_TI1ED (ti1 r))
         else if src \<in> set internal_triggers then (HAL_OK, TIM_ITRx_SetConfig src r)
         else (HAL_ERROR, r))"

definition HAL_TIM_ConfigClockSource :: "TIM_HandleTypeDef \<Rightarrow> TIM_ClockConfigTypeDef \<Rightarrow> HAL_StatusTypeDef \<times> TIM_HandleTypeDef" where
  "HAL_TIM_ConfigClockSource h cfg =
     with_lock (busy_while (\<lambda>h.
       (let tmpsmcr = h_regs h SMCR;
            tmpsmcr = tmpsmcr AND NOT (TIM_SMCR_SMS OR TIM_SMCR_TS);
            tmpsmcr = tmpsmcr AND NOT (TIM_SMCR_ETF OR TIM_SMCR_ETPS OR TIM_SMCR_ECE OR TIM_SMCR_ETP);
            (status, r) = clock_source_regs (h_Instance h) cfg ((h_regs h)(SMCR := tmpsmcr))
        in (status, h\<lparr>h_regs := r\<rparr>)))) h"

definition HAL_TIM_ConfigTI1Input :: "TIM_HandleTypeDef \<Rightarrow> u32 \<Rightarrow> HAL_StatusTypeDef \<times> TIM_HandleTypeDef" where
  "HAL_TIM_ConfigTI1Input h TI1_Selection = (HAL_OK, on_regs (modify CR2 TIM_CR2_TI1S TI1_Selection) h)"

definition slave_synchro :: "(TIM_HandleTypeDef \<Rightarrow> TIM_HandleTypeDef) \<Rightarrow> TIM_HandleTypeDef \<Rightarrow> TIM_SlaveConfigTypeDef \<Rightarrow> HAL_StatusTypeDef \<times> TIM_HandleTypeDef" where
  "slave_synchro trigger_it h sSlaveConfig =
     with_lock (busy_while (\<lambda>h.
       (let (status, r) = TIM_SlaveTimer_SetConfig (h_Instance h) sSlaveConfig (h_regs h);
            h = h\<lparr>h_regs := r\<rparr>
        in if status \<noteq> HAL_OK then (HAL_ERROR, h)
           else (HAL_OK, HAL_TIM_DISABLE_DMA TIM_DMA_TRIGGER (trigger_it h))))) h"

definition HAL_TIM_SlaveConfigSynchro :: "TIM_HandleTypeDef \<Rightarrow> TIM_SlaveConfigTypeDef \<Rightarrow> HAL_StatusTypeDef \<times> TIM_HandleTypeDef" where
  "HAL_TIM_SlaveConfigSynchro = slave_synchro (HAL_TIM_DISABLE_IT TIM_IT_TRIGGER)"

definition HAL_TIM_SlaveConfigSynchro_IT :: "TIM_HandleTypeDef \<Rightarrow> TIM_SlaveConfigTypeDef \<Rightarrow> HAL_StatusTypeDef \<times> TIM_HandleTypeDef" where
  "HAL_TIM_SlaveConfigSynchro_IT = slave_synchro (HAL_TIM_ENABLE_IT TIM_IT_TRIGGER)"

definition HAL_TIM_ReadCapturedValue :: "TIM_HandleTypeDef \<Rightarrow> u32 \<Rightarrow> u32" where
  "HAL_TIM_ReadCapturedValue h Channel =
     (if Channel = TIM_CHANNEL_1 then h_regs h CCR1 else if Channel = TIM_CHANNEL_2 then h_regs h CCR2
      else if Channel = TIM_CHANNEL_3 then h_regs h CCR3 else if Channel = TIM_CHANNEL_4 then h_regs h CCR4 else 0)"

section \<open>Configuring a channel leaves the other channels alone\<close>

definition channel_regs :: "nat \<Rightarrow> tim_reg \<times> tim_reg" where
  "channel_regs i = [(CCMR1, CCR1), (CCMR1, CCR2), (CCMR2, CCR3), (CCMR2, CCR4), (CCMR3, CCR5), (CCMR3, CCR6)] ! i"

definition config_frame :: "nat \<Rightarrow> tim_regs \<Rightarrow> tim_regs \<Rightarrow> bool" where
  "config_frame i r r' \<longleftrightarrow>
     (\<forall>j. j \<noteq> 4 * i + 1 \<longrightarrow> j \<noteq> 4 * i + 3 \<longrightarrow> bit (r' CCER) j = bit (r CCER) j) \<and>
     (\<forall>reg. reg \<notin> {CCER, CR2, fst (channel_regs i), snd (channel_regs i)} \<longrightarrow> r' reg = r reg)"

definition oc_config_ok :: "TIM_OC_InitTypeDef \<Rightarrow> bool" where
  "oc_config_ok c \<longleftrightarrow> (OCPolarity c = 0 \<or> OCPolarity c = TIM_CCER_CC1P) \<and> (OCNPolarity c = 0 \<or> OCNPolarity c = TIM_CCER_CC1NP)"

lemma bit_two: "bit (2 :: u32) j \<longleftrightarrow> j = 1" and bit_eight: "bit (8 :: u32) j \<longleftrightarrow> j = 3"
  using bit_u32_exp [of 1 j] bit_u32_exp [of 3 j] by simp_all

text \<open>Clearing and writing only the two polarity bits of channel \<open>i\<close> in CCER.\<close>

definition own_polarity :: "nat \<Rightarrow> u32 \<Rightarrow> bool" where
  "own_polarity i w \<longleftrightarrow> (\<forall>j. bit w j \<longrightarrow> j = 4 * i + 1 \<or> j = 4 * i + 3)"

lemma own_polarity_rules:
  "own_polarity i 0"
  "own_polarity i v \<Longrightarrow> own_polarity i w \<Longrightarrow> own_polarity i (v OR w)"
  "own_polarity i w \<Longrightarrow> own_polarity i (v AND w)"
  by (auto simp: own_polarity_def bit_simps)

lemma own_polarity_push:
  "own_polarity 0 w \<Longrightarrow> own_polarity i (push_bit (4 * i) w)"
  by (fastforce simp: own_polarity_def bit_simps)

lemma own_polarity_2: "own_polarity 0 2" and own_polarity_8: "own_polarity 0 8"
  by (simp_all only: own_polarity_def bit_two bit_eight) simp_all

lemma own_polarity_consts:
  "own_polarity 0 2" "own_polarity 0 8" "own_polarity 1 0x20" "own_polarity 1 0x80" "own_polarity 2 0x200" "own_polarity 2 0x800"
  "own_polarity 3 0x2000" "own_polarity 3 0x8000" "own_polarity 4 0x20000" "own_polarity 5 0x200000"
  using own_polarity_push [OF own_polarity_2, of 1] own_polarity_push [OF own_polarity_8, of 1]
    own_polarity_push [OF own_polarity_2, of 2] own_polarity_push [OF own_polarity_8, of 2]
    own_polarity_push [OF own_polarity_2, of 3] own_polarity_push [OF own_polarity_8, of 3]
    own_polarity_push [OF own_polarity_2, of 4] own_polarity_push [OF own_polarity_2, of 5] own_polarity_2 own_polarity_8
  by (simp_all add: push_bit_eq_mult del: mult_numeral_1)

definition keeps_ccer :: "nat \<Rightarrow> u32 \<Rightarrow> u32 \<Rightarrow> bool" where
  "keeps_ccer i w w' \<longleftrightarrow> (\<forall>j. j \<noteq> 4 * i + 1 \<longrightarrow> j \<noteq> 4 * i + 3 \<longrightarrow> bit w' j = bit w j)"

lemma keeps_ccer_rules:
  "keeps_ccer i w w"
  "keeps_ccer i w v \<Longrightarrow> own_polarity i m \<Longrightarrow> keeps_ccer i w (v AND NOT m)"
  "keeps_ccer i w v \<Longrightarrow> own_polarity i m \<Longrightarrow> keeps_ccer i w (v OR m)"
  by (auto simp: keeps_ccer_def own_polarity_def bit_simps dest: bit_u32_lt)

lemma config_frameI:
  assumes "keeps_ccer i (r CCER) (r' CCER)"
    and "\<And>reg. reg \<notin> {CCER, CR2, fst (channel_regs i), snd (channel_regs i)} \<Longrightarrow> r' reg = r reg"
  shows "config_frame i r r'"
  using assms by (simp add: config_frame_def keeps_ccer_def)

lemma oc_ok_own:
  assumes "oc_config_ok c"
  shows "own_polarity 0 (OCPolarity c)" "own_polarity 0 (OCNPolarity c)"
  using assms own_polarity_consts own_polarity_rules(1) by (auto simp: oc_config_ok_def)

lemma oc_ok_push:
  assumes "oc_config_ok c"
  shows "own_polarity 1 (push_bit 4 (OCPolarity c))" "own_polarity 1 (push_bit 4 (OCNPolarity c))"
    "own_polarity 2 (push_bit 8 (OCPolarity c))" "own_polarity 2 (push_bit 8 (OCNPolarity c))"
    "own_polarity 3 (push_bit 12 (OCPolarity c))" "own_polarity 3 (push_bit 12 (OCNPolarity c))"
    "own_polarity 4 (push_bit 16 (OCPolarity c))" "own_polarity 5 (push_bit 20 (OCPolarity c))"
  using own_polarity_push [OF oc_ok_own(1) [OF assms], of 1] own_polarity_push [OF oc_ok_own(2) [OF assms], of 1]
    own_polarity_push [OF oc_ok_own(1) [OF assms], of 2] own_polarity_push [OF oc_ok_own(2) [OF assms], of 2]
    own_polarity_push [OF oc_ok_own(1) [OF assms], of 3] own_polarity_push [OF oc_ok_own(2) [OF assms], of 3]
    own_polarity_push [OF oc_ok_own(1) [OF assms], of 4] own_polarity_push [OF oc_ok_own(1) [OF assms], of 5]
  by simp_all

lemmas polarity_rules = keeps_ccer_rules own_polarity_rules(2,3) own_polarity_consts

lemmas setconfig_defs = TIM_OC1_SetConfig_def TIM_OC2_SetConfig_def TIM_OC3_SetConfig_def TIM_OC4_SetConfig_def
  TIM_OC5_SetConfig_def TIM_OC6_SetConfig_def TIM_TI1_SetConfig_def TIM_TI2_SetConfig_def TIM_TI3_SetConfig_def TIM_TI4_SetConfig_def

lemma OC_SetConfig_ccer:
  assumes "oc_config_ok c"
  shows "keeps_ccer 0 (r CCER) (TIM_OC1_SetConfig i c r CCER)" "keeps_ccer 1 (r CCER) (TIM_OC2_SetConfig i c r CCER)"
    "keeps_ccer 2 (r CCER) (TIM_OC3_SetConfig i c r CCER)" "keeps_ccer 3 (r CCER) (TIM_OC4_SetConfig i c r CCER)"
    "keeps_ccer 4 (r CCER) (TIM_OC5_SetConfig i c r CCER)" "keeps_ccer 5 (r CCER) (TIM_OC6_SetConfig i c r CCER)"
  by (simp only: setconfig_defs Let_def case_prod_beta if_distrib [where f = snd] fst_conv snd_conv fun_upd_same fun_upd_other [OF tim_reg.distinct(1)] split: if_split,
      intro conjI impI polarity_rules oc_ok_own [OF assms] oc_ok_push [OF assms])+

lemma TI_SetConfig_ccer:
  "keeps_ccer 0 (r CCER) (TIM_TI1_SetConfig i p s f r CCER)" "keeps_ccer 1 (r CCER) (TIM_TI2_SetConfig i p s f r CCER)"
  "keeps_ccer 2 (r CCER) (TIM_TI3_SetConfig i p s f r CCER)" "keeps_ccer 3 (r CCER) (TIM_TI4_SetConfig i p s f r CCER)"
  by (simp only: setconfig_defs Let_def case_prod_beta fun_upd_same, intro polarity_rules)+

lemma OC_SetConfig_frame:
  assumes "oc_config_ok c"
  shows "config_frame 0 r (TIM_OC1_SetConfig i c r)" "config_frame 1 r (TIM_OC2_SetConfig i c r)"
    "config_frame 2 r (TIM_OC3_SetConfig i c r)" "config_frame 3 r (TIM_OC4_SetConfig i c r)"
    "config_frame 4 r (TIM_OC5_SetConfig i c r)" "config_frame 5 r (TIM_OC6_SetConfig i c r)"
  by (rule config_frameI, rule OC_SetConfig_ccer [OF assms], simp add: setconfig_defs Let_def channel_regs_def)+

lemma TI_SetConfig_frame:
  "config_frame 0 r (TIM_TI1_SetConfig i p s f r)" "config_frame 1 r (TIM_TI2_SetConfig i p s f r)"
  "config_frame 2 r (TIM_TI3_SetConfig i p s f r)" "config_frame 3 r (TIM_TI4_SetConfig i p s f r)"
  by (rule config_frameI, rule TI_SetConfig_ccer, simp add: setconfig_defs Let_def channel_regs_def)+

text \<open>Writing mode bits of the channel's own mode register keeps the frame.\<close>

lemma config_frame_modify:
  assumes "config_frame i r r'" and "fst (channel_regs i) \<noteq> CCER"
  shows "config_frame i r (modify (fst (channel_regs i)) off on r')"
  using assms by (auto simp: config_frame_def modify_def)

lemma config_frame_ccmr:
  "config_frame 0 r r' \<Longrightarrow> config_frame 0 r (modify CCMR1 off on r')" "config_frame 1 r r' \<Longrightarrow> config_frame 1 r (modify CCMR1 off on r')"
  "config_frame 2 r r' \<Longrightarrow> config_frame 2 r (modify CCMR2 off on r')" "config_frame 3 r r' \<Longrightarrow> config_frame 3 r (modify CCMR2 off on r')"
  "config_frame 4 r r' \<Longrightarrow> config_frame 4 r (modify CCMR3 off on r')" "config_frame 5 r r' \<Longrightarrow> config_frame 5 r (modify CCMR3 off on r')"
  using config_frame_modify [of 0 r r'] config_frame_modify [of 1 r r'] config_frame_modify [of 2 r r']
    config_frame_modify [of 3 r r'] config_frame_modify [of 4 r r'] config_frame_modify [of 5 r r']
  by (simp_all add: channel_regs_def)

lemma PWM_ConfigRegs_frame:
  assumes "oc_config_ok c" and "PWM_ConfigRegs inst c ch r = Some r'"
  shows "config_frame (channel_index ch) r r'"
  using assms(2) OC_SetConfig_frame [OF assms(1), of r inst]
  unfolding PWM_ConfigRegs_def pwm_bits_def
  by (auto simp: channel_index_def intro: config_frame_ccmr [simplified One_nat_def] split: if_splits)

lemma IC_ConfigRegs_frame:
  assumes "IC_ConfigRegs inst c ch r = Some r'"
  shows "config_frame (channel_index ch) r r'"
  using assms TI_SetConfig_frame [of r inst "ICPolarity c" "ICSelection c" "ICFilter c"]
  unfolding IC_ConfigRegs_def
  by (auto simp: channel_index_def intro: config_frame_ccmr [simplified One_nat_def] split: if_splits)

lemma with_lock_unlocked:
  "h_Lock h = HAL_UNLOCKED \<Longrightarrow>
   with_lock body h = (fst (body (h\<lparr>h_Lock := HAL_LOCKED\<rparr>)), (snd (body (h\<lparr>h_Lock := HAL_LOCKED\<rparr>)))\<lparr>h_Lock := HAL_UNLOCKED\<rparr>)"
  by (simp add: with_lock_def Let_def case_prod_beta)

section \<open>Properties\<close>

text \<open>Configuring a channel on an unlocked handle, as output compare or PWM with legal polarities or
  as input capture, succeeds on the channels the call supports, releases the lock, and changes only
  the channel's own polarity bits, its own mode and compare registers and the idle-state register:
  no output of any channel is enabled or disabled by it, and no other register changes.\<close>

lemma ConfigChannel_own_channel:
  assumes "h_Lock h = HAL_UNLOCKED" and "oc_config_ok oc"
    and "call \<in> {HAL_TIM_OC_ConfigChannel h oc ch, HAL_TIM_PWM_ConfigChannel h oc ch, HAL_TIM_IC_ConfigChannel h ic ch}"
    and "call = (HAL_OK, h')"
  shows "h_Lock h' = HAL_UNLOCKED \<and> h_ChannelState h' = h_ChannelState h \<and>
    (\<forall>j. j \<notin> {4 * channel_index ch + 1, 4 * channel_index ch + 3} \<longrightarrow> bit (h_regs h' CCER) j = bit (h_regs h CCER) j) \<and>
    (\<forall>reg. reg \<notin> {CCER, CR2, fst (channel_regs (channel_index ch)), snd (channel_regs (channel_index ch))} \<longrightarrow>
       h_regs h' reg = h_regs h reg)"
proof -
  have oc_case: "config_frame (channel_index ch) (h_regs h) (h_regs h') \<and> h_Lock h' = HAL_UNLOCKED \<and> h_ChannelState h' = h_ChannelState h"
    if "HAL_TIM_OC_ConfigChannel h oc ch = (HAL_OK, h')"
    using that OC_SetConfig_frame [OF assms(2), of "h_regs h" "h_Instance h"]
    unfolding HAL_TIM_OC_ConfigChannel_def with_lock_unlocked [OF assms(1)] on_regs_def
    by (auto simp: channel_index_def split: if_splits)
  have pwm_case: "config_frame (channel_index ch) (h_regs h) (h_regs h') \<and> h_Lock h' = HAL_UNLOCKED \<and> h_ChannelState h' = h_ChannelState h"
    if "HAL_TIM_PWM_ConfigChannel h oc ch = (HAL_OK, h')"
    using that PWM_ConfigRegs_frame [OF assms(2), of "h_Instance h" ch "h_regs h"]
    unfolding HAL_TIM_PWM_ConfigChannel_def with_lock_unlocked [OF assms(1)]
    by (auto split: option.splits)
  have ic_case: "config_frame (channel_index ch) (h_regs h) (h_regs h') \<and> h_Lock h' = HAL_UNLOCKED \<and> h_ChannelState h' = h_ChannelState h"
    if "HAL_TIM_IC_ConfigChannel h ic ch = (HAL_OK, h')"
    using that IC_ConfigRegs_frame [of "h_Instance h" ic ch "h_regs h"]
    unfolding HAL_TIM_IC_ConfigChannel_def with_lock_unlocked [OF assms(1)]
    by (auto split: option.splits)
  from assms(3,4) oc_case pwm_case ic_case show ?thesis unfolding config_frame_def by fastforce
qed

definition example_oc :: TIM_OC_InitTypeDef where
  "example_oc = \<lparr>OCMode = 0x60, OC_Pulse = 500, OCPolarity = TIM_CCER_CC1P, OCNPolarity = 0, OCFastMode = 0, OCIdleState = 0, OCNIdleState = 0\<rparr>"

theorem ConfigChannel_own_channel_witness:
  "\<exists>h'. HAL_TIM_PWM_ConfigChannel (idle_handle TIM3 ((\<lambda>_. 0)(CCER := 1))) example_oc TIM_CHANNEL_2 = (HAL_OK, h') \<and> bit (h_regs h' CCER) 0"
proof -
  let ?h = "idle_handle TIM3 ((\<lambda>_. 0)(CCER := 1))"
  have u: "h_Lock ?h = HAL_UNLOCKED" by (simp add: idle_handle_def)
  have ok: "oc_config_ok example_oc" by (simp add: oc_config_ok_def example_oc_def)
  obtain h' where h': "HAL_TIM_PWM_ConfigChannel ?h example_oc TIM_CHANNEL_2 = (HAL_OK, h')"
    unfolding HAL_TIM_PWM_ConfigChannel_def with_lock_unlocked [OF u] by (simp add: PWM_ConfigRegs_def)
  have mem: "HAL_TIM_PWM_ConfigChannel ?h example_oc TIM_CHANNEL_2 \<in>
      {HAL_TIM_OC_ConfigChannel ?h example_oc TIM_CHANNEL_2, HAL_TIM_PWM_ConfigChannel ?h example_oc TIM_CHANNEL_2,
       HAL_TIM_IC_ConfigChannel ?h \<lparr>ICPolarity = 0, ICSelection = 1, ICPrescaler = 0, ICFilter = 0\<rparr> TIM_CHANNEL_2}" by blast
  have "\<forall>j. j \<notin> {4 * channel_index TIM_CHANNEL_2 + 1, 4 * channel_index TIM_CHANNEL_2 + 3} \<longrightarrow> bit (h_regs h' CCER) j = bit (h_regs ?h CCER) j"
    using ConfigChannel_own_channel [OF u ok mem h'] by blast
  then have "bit (h_regs h' CCER) 0 = bit (h_regs ?h CCER) 0" by (simp add: channel_index_def)
  then have "bit (h_regs h' CCER) 0" by (simp add: idle_handle_def)
  with h' show ?thesis by blast
qed

end
