(* ===== verification/Firmware.thy ===== *)
theory Firmware
  imports Prelude
begin

text \<open>
  The target side of the validation campaign (\<open>validation/firmware\<close>): the heap end of the C library
  (\<open>common/Core/Src/sysmem.c\<close>) and the computations of the workloads whose traces are measured
  (\<open>w1_baseline\<close>, \<open>w2_callchain\<close>, \<open>w3_branchdense\<close>, \<open>w6_overflow\<close>, \<open>w7_fault\<close>).  Addresses are 32 bit words;
  memory the code indexes is a list, and an access outside it is the result \<open>None\<close>.
\<close>

section \<open>The heap\<close>

text \<open>The linker symbols, and the state of the C library.\<close>

record heap_layout =
  sym_end :: u32
  sym_estack :: u32
  sym_Min_Stack_Size :: u32

record sbrk_state =
  sbrk_heap_end :: u32
  errno_ENOMEM :: bool

definition stack_limit :: "heap_layout \<Rightarrow> u32" where
  "stack_limit l = sym_estack l - sym_Min_Stack_Size l"

definition sbrk :: "heap_layout \<Rightarrow> s32 \<Rightarrow> sbrk_state \<Rightarrow> u32 \<times> sbrk_state" where
  "sbrk l incr st =
     (let st = (if sbrk_heap_end st = 0 then st\<lparr>sbrk_heap_end := sym_end l\<rparr> else st)
      in if sbrk_heap_end st + incr > stack_limit l then (- 1, st\<lparr>errno_ENOMEM := True\<rparr>)
         else (sbrk_heap_end st, st\<lparr>sbrk_heap_end := sbrk_heap_end st + incr\<rparr>))"

text \<open>A sequence of calls, and the blocks it handed out.\<close>

fun sbrk_calls :: "heap_layout \<Rightarrow> s32 list \<Rightarrow> sbrk_state \<Rightarrow> (u32 \<times> s32) list \<times> sbrk_state" where
  "sbrk_calls l [] st = ([], st)"
| "sbrk_calls l (incr # incrs) st =
     (let (p, st1) = sbrk l incr st; (bs, st2) = sbrk_calls l incrs st1
      in (if p = - 1 then bs else (p, incr) # bs, st2))"

section \<open>The workloads\<close>

text \<open>W1: one pass of the main loop.\<close>

definition w1_body :: "int \<Rightarrow> int \<Rightarrow> int" where
  "w1_body i x = (let x = x + (i * i * i + 4) in if x > 25 then (if x > 49 then x + 13 else x + 22) else x)"

definition w1_pass :: int where
  "w1_pass = fold w1_body [0, 1, 2, 3, 4] 0"

text \<open>W2: the call chain.\<close>

definition leaf_inline :: "u32 \<Rightarrow> u32" where "leaf_inline x = x * 3 + 1"
definition level4 :: "u32 \<Rightarrow> u32" where "level4 x = leaf_inline x XOR 0x5A5A"
definition level3 :: "u32 \<Rightarrow> u32" where "level3 x = level4 x + level4 (drop_bit 1 x)"
definition level2 :: "u32 \<Rightarrow> u32" where "level2 x = fold (\<lambda>i acc. acc + level3 (x + i)) [0, 1, 2] 0"
definition level1 :: "u32 \<Rightarrow> u32" where "level1 x = level2 x - level2 (drop_bit 2 x)"
definition w2_pass :: "u32 \<Rightarrow> u32" where "w2_pass result = fold (\<lambda>seed r. level1 (r + seed)) [0, 1, 2, 3, 4, 5, 6, 7] result"

text \<open>W3: the sort.\<close>

function bubble_inner :: "nat \<Rightarrow> nat \<Rightarrow> u16 list \<Rightarrow> u16 list option" where
  "bubble_inner j m arr =
     (if j < m
      then (if j + 1 < length arr
            then bubble_inner (j + 1) m
                   (if arr ! j > arr ! (j + 1) then arr[j := arr ! (j + 1), j + 1 := arr ! j] else arr)
            else None)
      else Some arr)"
  by pat_completeness auto

termination
  by (relation "measure (\<lambda>(j, m, _). m - j)") auto

function bubble_outer :: "nat \<Rightarrow> nat \<Rightarrow> u16 list \<Rightarrow> u16 list option" where
  "bubble_outer i n arr =
     (if i < n - 1
      then (case bubble_inner 0 (n - i - 1) arr of None \<Rightarrow> None | Some arr \<Rightarrow> bubble_outer (i + 1) n arr)
      else Some arr)"
  by pat_completeness auto

termination
  by (relation "measure (\<lambda>(i, n, _). n - i)") auto

declare bubble_inner.simps [simp del] bubble_outer.simps [simp del]

text \<open>A negative length behaves like zero.\<close>

definition BubbleSort :: "u16 list \<Rightarrow> int \<Rightarrow> u16 list option" where
  "BubbleSort arr n = bubble_outer 0 (nat n) arr"

definition kTemplate :: "u16 list" where
  "kTemplate = [13, 2, 19, 7, 1, 25, 3, 42, 8, 15, 6, 30, 11, 4, 22, 9]"

text \<open>W6: one pass; true when the first branch is taken.\<close>

definition w6_pass :: "u32 \<Rightarrow> bool \<times> u32" where
  "w6_pass counter =
     (let counter = counter + 1
      in if counter AND 1 \<noteq> 0 then (True, counter + 3) else (False, counter + 5))"

text \<open>W7: the record is twelve bytes, the buffer and then the function pointer, low byte first.\<close>

definition set_on_complete :: "u32 \<Rightarrow> u8 list \<Rightarrow> u8 list" where
  "set_on_complete p mem = take 8 mem @ map (\<lambda>k. ucast (drop_bit (8 * k) p)) [0, 1, 2, 3]"

definition on_complete :: "u8 list \<Rightarrow> u32" where
  "on_complete mem = fold (\<lambda>k acc. acc OR push_bit (8 * k) (ucast (mem ! (8 + k)))) [0, 1, 2, 3] 0"

function process_loop :: "u8 list \<Rightarrow> nat \<Rightarrow> nat \<Rightarrow> u8 list \<Rightarrow> u8 list option" where
  "process_loop data len i mem =
     (if i \<le> len
      then (if len \<noteq> 0 \<and> i mod len < length data \<and> i < length mem
            then process_loop data len (i + 1) (mem[i := data ! (i mod len)])
            else None)
      else Some mem)"
  by pat_completeness auto

termination
  by (relation "measure (\<lambda>(_, len, i, _). Suc len - i)") auto

declare process_loop.simps [simp del]

definition Process :: "u8 list \<Rightarrow> nat \<Rightarrow> u8 list \<Rightarrow> u8 list option" where
  "Process data len mem = process_loop data len 0 mem"

text \<open>An indirect call faults when bit 0 of its target is clear.\<close>

definition invstate_fault :: "u32 \<Rightarrow> bool" where
  "invstate_fault target \<longleftrightarrow> \<not> bit target 0"

definition w7_pass :: "u32 \<Rightarrow> u8 list \<Rightarrow> u8 list \<Rightarrow> (bool \<times> u8 list) option" where
  "w7_pass SafeAction payload mem =
     (case Process payload 8 (set_on_complete SafeAction mem) of
        None \<Rightarrow> None
      | Some mem \<Rightarrow> Some (invstate_fault (on_complete mem), mem))"

section \<open>The sort sorts\<close>

lemma bubble_inner_result:
  assumes "j \<le> m" and "m < length arr" and "\<forall>k \<le> j. arr ! k \<le> arr ! j"
  shows "\<exists>arr'. bubble_inner j m arr = Some arr' \<and> mset arr' = mset arr \<and> length arr' = length arr \<and>
    (\<forall>k. m < k \<longrightarrow> k < length arr \<longrightarrow> arr' ! k = arr ! k) \<and> (\<forall>k \<le> m. arr' ! k \<le> arr' ! m)"
  using assms
proof (induction j m arr rule: bubble_inner.induct)
  case (1 j m arr)
  show ?case
  proof (cases "j < m")
    case True
    let ?arr = "if arr ! j > arr ! (j + 1) then arr[j := arr ! (j + 1), j + 1 := arr ! j] else arr"
    have len: "j + 1 < length arr" using True 1 by simp
    have b: "\<forall>k \<le> j + 1. ?arr ! k \<le> ?arr ! (j + 1)"
      using 1(4) len by (auto simp: nth_list_update le_Suc_eq not_less intro: order.trans less_imp_le)
    have m: "mset ?arr = mset arr" using mset_swap [of "j + 1" arr j] len by simp
    have ml: "m < length ?arr" using 1(3) by simp
    from "1.IH" [OF True len _ ml b] True obtain arr' where
      "bubble_inner (j + 1) m ?arr = Some arr'" "mset arr' = mset ?arr" "length arr' = length ?arr"
      "\<forall>k. m < k \<longrightarrow> k < length ?arr \<longrightarrow> arr' ! k = ?arr ! k" "\<forall>k \<le> m. arr' ! k \<le> arr' ! m"
      by auto
    then show ?thesis using True len m by (simp add: bubble_inner.simps [of j m arr] nth_list_update)
  next
    case False
    then have "bubble_inner j m arr = Some arr" by (simp add: bubble_inner.simps [of j m arr])
    then show ?thesis using 1(2-4) False by auto
  qed
qed

text \<open>The part already in place: the last \<open>i\<close> of the first \<open>n\<close> elements, sorted and not below the others.\<close>

definition settled :: "nat \<Rightarrow> nat \<Rightarrow> u16 list \<Rightarrow> bool" where
  "settled i n arr \<longleftrightarrow> sorted (drop (n - i) (take n arr)) \<and>
     (\<forall>x \<in> set (take (n - i) arr). \<forall>y \<in> set (drop (n - i) (take n arr)). x \<le> y)"

lemma mset_take_eq:
  assumes "mset xs = mset ys" and "drop k xs = drop k ys"
  shows "mset (take k xs) = mset (take k ys)"
proof -
  have "mset (take k xs) + mset (drop k xs) = mset (take k ys) + mset (drop k ys)"
    using assms(1) by (simp flip: mset_append)
  then show ?thesis using assms(2) by simp
qed

lemma bubble_pass:
  assumes "i + 1 < n" and "n \<le> length arr" and "settled i n arr"
  shows "\<exists>arr'. bubble_inner 0 (n - i - 1) arr = Some arr' \<and> mset (take n arr') = mset (take n arr) \<and> length arr' = length arr \<and>
    drop n arr' = drop n arr \<and> settled (i + 1) n arr'"
proof -
  define m where "m = n - i - 1"
  have m: "Suc m = n - i" "m < length arr" "Suc m \<le> n" "m = n - (i + 1)" using assms(1,2) by (simp_all add: m_def)
  from bubble_inner_result [of 0 m arr] m obtain arr' where r: "bubble_inner 0 m arr = Some arr'" and ms: "mset arr' = mset arr"
    and len: "length arr' = length arr" and rest: "\<forall>k. m < k \<longrightarrow> k < length arr \<longrightarrow> arr' ! k = arr ! k" and top: "\<forall>k \<le> m. arr' ! k \<le> arr' ! m"
    by auto
  have d: "drop (Suc m) arr' = drop (Suc m) arr" using rest len by (intro nth_equalityI) simp_all
  then have dn: "drop n arr' = drop n arr" using m(3) by (metis drop_drop le_add_diff_inverse2)
  have t: "mset (take (Suc m) arr') = mset (take (Suc m) arr)" by (rule mset_take_eq [OF ms d])
  have old: "drop (Suc m) (take n arr') = drop (Suc m) (take n arr)" using d by (simp add: drop_take)
  have split: "drop m (take n arr') = arr' ! m # drop (Suc m) (take n arr)"
    using Cons_nth_drop_Suc [of m "take n arr'"] m len assms(2) old by simp
  have below: "\<forall>x \<in> set (take (Suc m) arr'). \<forall>y \<in> set (drop (Suc m) (take n arr)). x \<le> y"
    using assms(3) t m(1) by (simp add: settled_def flip: set_mset_mset)
  have last: "arr' ! m \<in> set (take (Suc m) arr')" using m(2) len by (auto simp: in_set_conv_nth intro!: exI [of _ m])
  have "settled (i + 1) n arr'" unfolding settled_def m(4) [symmetric] split
  proof (intro conjI ballI)
    show "sorted (arr' ! m # drop (Suc m) (take n arr))" using assms(3) below last m(1) by (simp add: settled_def)
    fix x y assume x: "x \<in> set (take m arr')" and y: "y \<in> set (arr' ! m # drop (Suc m) (take n arr))"
    from x obtain k where k: "k < m" "x = arr' ! k" by (auto simp: in_set_conv_nth)
    then have "x \<le> arr' ! m" using top by simp
    moreover have "x \<in> set (take (Suc m) arr')" using k m(2) len by (auto simp: in_set_conv_nth intro!: exI [of _ k])
    ultimately show "x \<le> y" using y below by auto
  qed
  moreover have "mset (take n arr') = mset (take n arr)" by (rule mset_take_eq [OF ms dn])
  ultimately show ?thesis using r len dn by (auto simp: m_def)
qed

lemma settled_sorted:
  assumes "settled i n arr" and "n - i \<le> 1"
  shows "sorted (take n arr)"
proof -
  have eq: "take n arr = take (n - i) arr @ drop (n - i) (take n arr)"
    by (metis append_take_drop_id diff_le_self min.absorb1 take_take)
  have "sorted (take (n - i) arr)" using assms(2) by (cases "n - i"; cases arr) simp_all
  then have "sorted (take (n - i) arr @ drop (n - i) (take n arr))" using assms(1) by (simp add: settled_def sorted_append)
  then show ?thesis by (subst eq)
qed

lemma bubble_outer_result:
  assumes "n \<le> length arr" and "settled i n arr"
  shows "\<exists>arr'. bubble_outer i n arr = Some arr' \<and> mset (take n arr') = mset (take n arr) \<and> drop n arr' = drop n arr \<and> sorted (take n arr')"
  using assms
proof (induction i n arr rule: bubble_outer.induct)
  case (1 i n arr)
  show ?case
  proof (cases "i < n - 1")
    case True
    then have i: "i + 1 < n" by simp
    from bubble_pass [OF i "1.prems"] obtain arr1 where a: "bubble_inner 0 (n - i - 1) arr = Some arr1" "mset (take n arr1) = mset (take n arr)"
      "length arr1 = length arr" "drop n arr1 = drop n arr" "settled (i + 1) n arr1" by auto
    from "1.IH" [OF True a(1) _ a(5)] "1.prems" a True show ?thesis by (simp add: bubble_outer.simps [of i n arr])
  next
    case False
    then show ?thesis using settled_sorted "1.prems" by (simp add: bubble_outer.simps [of i n arr])
  qed
qed

text \<open>C34: The sort of the branch-dense workload implements sorting: for every array and every length that
  fits it, it returns, without an access outside the array, the array with its first elements in
  ascending order and the others untouched.\<close>

theorem BubbleSort_sorts:
  assumes "nat n \<le> length arr"
  shows "BubbleSort arr n = Some (sort (take (nat n) arr) @ drop (nat n) arr)"
proof -
  have "settled 0 (nat n) arr" by (simp add: settled_def)
  from bubble_outer_result [OF assms this] obtain arr' where r: "bubble_outer 0 (nat n) arr = Some arr'"
    and "mset (take (nat n) arr') = mset (take (nat n) arr)" "drop (nat n) arr' = drop (nat n) arr" "sorted (take (nat n) arr')" by auto
  then have "arr' = sort (take (nat n) arr) @ drop (nat n) arr" by (metis append_take_drop_id properties_for_sort)
  with r show ?thesis by (simp add: BubbleSort_def)
qed

theorem BubbleSort_sorts_witness:
  "BubbleSort kTemplate 16 = Some [1, 2, 3, 4, 6, 7, 8, 9, 11, 13, 15, 19, 22, 25, 30, 42]"
  using BubbleSort_sorts [of 16 kTemplate] by (simp add: kTemplate_def word_le_nat_alt)

section \<open>The heap stays in its region\<close>

text \<open>A layout: the heap starts above address 0 and below the stack limit, in the lower half of the
  address space, where RAM is.\<close>

definition layout_ok :: "heap_layout \<Rightarrow> bool" where
  "layout_ok l \<longleftrightarrow> sym_end l \<noteq> 0 \<and> sym_end l \<le> stack_limit l \<and> unat (stack_limit l) < 2 ^ 31"

text \<open>Where the next block starts.\<close>

definition heap_top :: "heap_layout \<Rightarrow> sbrk_state \<Rightarrow> u32" where
  "heap_top l st = (if sbrk_heap_end st = 0 then sym_end l else sbrk_heap_end st)"

text \<open>Blocks one after the other, from \<open>a\<close> to \<open>b\<close>.\<close>

fun contiguous :: "nat \<Rightarrow> (u32 \<times> s32) list \<Rightarrow> nat \<Rightarrow> bool" where
  "contiguous a [] b \<longleftrightarrow> a = b"
| "contiguous a ((p, n) # bs) b \<longleftrightarrow> unat p = a \<and> contiguous (a + unat n) bs b"

lemma unat_nonneg:
  fixes i :: s32
  assumes "0 \<le> sint i"
  shows "unat i < 2 ^ 31"
proof -
  have "sint i < 2 ^ 31" using sint_lt [of i] by simp
  moreover from this have "take_bit 32 (sint i) = sint i" using assms by (intro take_bit_int_eq_self) simp_all
  ultimately have "uint i < 2 ^ 31" using uint_sint [of i] by simp
  then have "int (unat i) < 2 ^ 31" by simp
  moreover have "unat i < 2 ^ 31 \<longleftrightarrow> int (unat i) < int (2 ^ 31)" by (rule of_nat_less_iff [symmetric])
  ultimately show ?thesis by (simp only: of_nat_power of_nat_numeral)
qed

lemma sbrk_step:
  assumes "layout_ok l" and "sym_end l \<le> heap_top l st" and "heap_top l st \<le> stack_limit l" and "0 \<le> sint incr"
  shows "if unat (heap_top l st) + unat incr \<le> unat (stack_limit l)
    then (\<exists>st'. sbrk l incr st = (heap_top l st, st') \<and> unat (heap_top l st') = unat (heap_top l st) + unat incr) \<and> heap_top l st \<noteq> - 1
    else (\<exists>st'. sbrk l incr st = (- 1, st') \<and> heap_top l st' = heap_top l st \<and> errno_ENOMEM st')"
proof -
  let ?h = "heap_top l st"
  have lim: "unat ?h < 2 ^ 31" "unat (stack_limit l) < 2 ^ 31" using assms(1,3) by (auto simp: layout_ok_def word_le_nat_alt)
  have nz: "0 < unat (sym_end l)" using assms(1) by (simp add: layout_ok_def unat_gt_0)
  have h0: "?h \<noteq> 0" using nz assms(2) by (auto simp: word_le_nat_alt)
  have sum: "unat (?h + incr) = unat ?h + unat incr" using unat_nonneg [OF assms(4)] lim by (intro unat_plus_no_wrap) simp
  have cmp: "?h + incr > stack_limit l \<longleftrightarrow> \<not> unat ?h + unat incr \<le> unat (stack_limit l)" by (simp add: word_less_nat_alt sum not_le)
  have n0: "?h + incr \<noteq> 0" using sum h0 by (metis add_is_0 unat_0 unat_eq_zero)
  have m1: "?h \<noteq> - 1" using lim(1) by (auto simp: unsigned_minus_1_eq_mask mask_eq_exp_minus_1)
  have s: "sbrk l incr st = (if ?h + incr > stack_limit l then (- 1, st\<lparr>sbrk_heap_end := ?h, errno_ENOMEM := True\<rparr>)
      else (?h, st\<lparr>sbrk_heap_end := ?h + incr\<rparr>))"
    by (cases st) (simp add: sbrk_def heap_top_def Let_def)
  have set: "heap_top l (st\<lparr>sbrk_heap_end := a\<rparr>) = a" "heap_top l (st\<lparr>sbrk_heap_end := a, errno_ENOMEM := b\<rparr>) = a" if "a \<noteq> 0" for a b
    using that by (simp_all add: heap_top_def)
  show ?thesis
    using m1 by (cases "unat ?h + unat incr \<le> unat (stack_limit l)") (simp_all add: s cmp set h0 n0 sum)
qed

lemma sbrk_calls_bounds:
  assumes "layout_ok l" and "sym_end l \<le> heap_top l st" and "heap_top l st \<le> stack_limit l" and "list_all (\<lambda>i. 0 \<le> sint i) incrs"
    and "sbrk_calls l incrs st = (bs, st')"
  shows "contiguous (unat (heap_top l st)) bs (unat (heap_top l st')) \<and> heap_top l st' \<le> stack_limit l"
  using assms(2-5)
proof (induction incrs arbitrary: st bs)
  case (Cons i ks)
  obtain p st1 where s: "sbrk l i st = (p, st1)" by fastforce
  obtain bs1 where c: "sbrk_calls l ks st1 = (bs1, st')" and bs: "bs = (if p = - 1 then bs1 else (p, i) # bs1)"
    using Cons.prems(4) s by (auto simp: Let_def split: prod.splits)
  note one = sbrk_step [OF assms(1) Cons.prems(1,2), of i]
  show ?case
  proof (cases "unat (heap_top l st) + unat i \<le> unat (stack_limit l)")
    case True
    with one s Cons.prems(3) have p: "p = heap_top l st" "unat (heap_top l st1) = unat (heap_top l st) + unat i" "p \<noteq> - 1" by auto
    then have "sym_end l \<le> heap_top l st1" "heap_top l st1 \<le> stack_limit l"
      using True Cons.prems(1) by (auto simp: word_le_nat_alt)
    from Cons.IH [OF this _ c] Cons.prems(3) p bs show ?thesis by simp
  next
    case False
    with one s Cons.prems(3) have "p = - 1" "heap_top l st1 = heap_top l st" by auto
    with Cons.IH [of st1, OF _ _ _ c] Cons.prems bs show ?thesis by simp
  qed
qed simp

text \<open>C35: The heap of the firmware stays between the end of the program's data and the stack's reserve: for
  any sequence of requests that do not shrink it, the blocks handed out follow one another without
  overlap from the end of the data, and the last one ends at or below the stack limit; a request is
  refused exactly when it does not fit, and then the heap end is unchanged and the error is set.\<close>

theorem sbrk_heap_bounds:
  assumes "layout_ok l" and "list_all (\<lambda>i. 0 \<le> sint i) incrs" and "0 \<le> sint incr"
    and "sbrk_calls l incrs \<lparr>sbrk_heap_end = 0, errno_ENOMEM = False\<rparr> = (bs, st)"
  shows "contiguous (unat (sym_end l)) bs (unat (heap_top l st)) \<and> heap_top l st \<le> stack_limit l \<and>
    (if unat (heap_top l st) + unat incr \<le> unat (stack_limit l) then fst (sbrk l incr st) = heap_top l st
     else fst (sbrk l incr st) = - 1 \<and> heap_top l (snd (sbrk l incr st)) = heap_top l st \<and> errno_ENOMEM (snd (sbrk l incr st)))"
proof -
  let ?st = "\<lparr>sbrk_heap_end = 0, errno_ENOMEM = False\<rparr>"
  have top: "heap_top l ?st = sym_end l" and le: "sym_end l \<le> stack_limit l" using assms(1) by (simp_all add: heap_top_def layout_ok_def)
  have b: "contiguous (unat (sym_end l)) bs (unat (heap_top l st))" "heap_top l st \<le> stack_limit l"
    using sbrk_calls_bounds [OF assms(1) _ _ assms(2,4)] top le by auto
  have "a \<le> b" if "contiguous a bs b" for a b using that by (induction a bs b rule: contiguous.induct) auto
  then have "sym_end l \<le> heap_top l st" using b(1) by (simp add: word_le_nat_alt)
  from sbrk_step [OF assms(1) this b(2) assms(3)] b show ?thesis by (auto split: if_splits)
qed

definition sample_layout :: heap_layout where
  "sample_layout = \<lparr>sym_end = 0x24000800, sym_estack = 0x24072000, sym_Min_Stack_Size = 0x400\<rparr>"

theorem sbrk_heap_bounds_witness:
  "fst (sbrk sample_layout 0x100000 (snd (sbrk_calls sample_layout [0x1000, 0x20] \<lparr>sbrk_heap_end = 0, errno_ENOMEM = False\<rparr>))) = - 1"
proof -
  let ?st = "\<lparr>sbrk_heap_end = 0x24001820, errno_ENOMEM = False\<rparr>"
  have calls: "sbrk_calls sample_layout [0x1000, 0x20] \<lparr>sbrk_heap_end = 0, errno_ENOMEM = False\<rparr> =
      ([(0x24000800, 0x1000), (0x24001800, 0x20)], ?st)"
    by (simp add: sbrk_def sample_layout_def stack_limit_def Let_def)
  have ok: "layout_ok sample_layout" "list_all (\<lambda>i. 0 \<le> sint i) [0x1000, 0x20 :: s32]" "0 \<le> sint (0x100000 :: s32)"
    by (simp_all add: layout_ok_def sample_layout_def stack_limit_def)
  have "\<not> unat (heap_top sample_layout ?st) + unat (0x100000 :: s32) \<le> unat (stack_limit sample_layout)"
    by (simp add: sample_layout_def stack_limit_def heap_top_def)
  with sbrk_heap_bounds [OF ok calls] show ?thesis unfolding calls snd_conv by (simp only: if_False)
qed

text \<open>A request that shrinks the heap is not checked against its start.\<close>

lemma sbrk_below_start:
  "fst (sbrk sample_layout (- 0x1000) \<lparr>sbrk_heap_end = 0, errno_ENOMEM = False\<rparr>) \<noteq> - 1 \<and>
    heap_top sample_layout (snd (sbrk sample_layout (- 0x1000) \<lparr>sbrk_heap_end = 0, errno_ENOMEM = False\<rparr>)) < sym_end sample_layout"
  by (simp add: sbrk_def sample_layout_def stack_limit_def heap_top_def Let_def)

section \<open>The stray write\<close>

lemma length_8: "length xs = 8 \<Longrightarrow> \<exists>a b c d e f g h. xs = [a, b, c, d, e, f, g, h]"
  by (auto simp: numeral_eq_Suc length_Suc_conv)

lemma Process_8:
  assumes "length payload = 8" and "length buf = 8"
  shows "Process payload 8 (buf @ b # bs) = Some (payload @ payload ! 0 # bs)"
proof -
  obtain p0 p1 p2 p3 p4 p5 p6 p7 where p: "payload = [p0, p1, p2, p3, p4, p5, p6, p7]" using length_8 [OF assms(1)] by blast
  obtain m0 m1 m2 m3 m4 m5 m6 m7 where m: "buf = [m0, m1, m2, m3, m4, m5, m6, m7]" using length_8 [OF assms(2)] by blast
  show ?thesis by (simp add: Process_def p m process_loop.simps)
qed

lemma on_complete_bit:
  assumes "length buf = 8"
  shows "bit (on_complete (buf @ b # bs)) 0 \<longleftrightarrow> bit b 0"
  using assms by (simp add: on_complete_def nth_append bit_simps)

text \<open>The defect of the fault workload is the one its description promises: with an eight byte payload
  the copy writes the buffer and exactly one byte more, the low byte of the function pointer, with
  the payload's first byte; every other byte of the pointer keeps its value; so the call faults
  exactly when that byte is even, as it is for the workload's payload, whatever the pointer was.\<close>

lemma w7_stray_write:
  assumes "length payload = 8" and "8 \<le> length mem"
  shows "w7_pass SafeAction payload mem =
    Some (\<not> bit (payload ! 0) 0, payload @ payload ! 0 # map (\<lambda>k. ucast (drop_bit (8 * k) SafeAction)) [1, 2, 3])"
proof -
  have buf: "length (take 8 mem) = 8" using assms(2) by simp
  have "Process payload 8 (set_on_complete SafeAction mem) =
      Some (payload @ payload ! 0 # map (\<lambda>k. ucast (drop_bit (8 * k) SafeAction)) [1, 2, 3])"
    using Process_8 [OF assms(1) buf] by (simp add: set_on_complete_def)
  then show ?thesis using on_complete_bit [OF assms(1)] by (simp add: w7_pass_def invstate_fault_def)
qed

theorem w7_stray_write_witness:
  "\<exists>mem. w7_pass 0x08000123 [0, 2, 3, 4, 5, 6, 7, 8] (replicate 12 0) = Some (True, mem) \<and> mem ! 8 = 0 \<and> mem ! 9 = 1"
  using w7_stray_write [of "[0, 2, 3, 4, 5, 6, 7, 8]" "replicate 12 0" "0x08000123"] by simp

text \<open>The counter of the overflow workload is even at every pass, so that its branch always goes the
  same way.\<close>

lemma w6_first_branch: "fst (w6_pass (2 * k)) \<and> snd (w6_pass (2 * k)) = 2 * (k + 2)"
proof -
  have "odd (2 * k + 1 :: u32)" by simp
  then have "(2 * k + 1) mod 2 = (1 :: u32)" by (simp only: odd_iff_mod_2_eq_one)
  then have "(2 * k + 1) AND 1 \<noteq> (0 :: u32)" by (simp add: and_one_eq)
  then show ?thesis by (simp add: w6_pass_def Let_def)
qed

end
