(* ===== verification/Log_Message.thy ===== *)
theory Log_Message
  imports Prelude
begin

text \<open>
  The log messages of source breakpoints (\<open>core/components/source_breakpoint\<close>): the message is cut at
  its outermost pairs of braces into text and expressions, the text is unescaped, and when the
  breakpoint is hit the parts are put together with the values of the expressions.  A failed
  assertion of the source is \<open>None\<close>.  Indices are taken to fit the \<open>int\<close> they are kept in.
\<close>

section \<open>Text\<close>

text \<open>\<open>strtoul\<close> on the digits the code collected.\<close>

definition is_octal :: "char \<Rightarrow> bool" where
  "is_octal c \<longleftrightarrow> 48 \<le> (of_char c :: nat) \<and> (of_char c :: nat) \<le> 55"

definition is_xdigit :: "char \<Rightarrow> bool" where
  "is_xdigit c \<longleftrightarrow> is_digit c \<or> (65 \<le> (of_char c :: nat) \<and> (of_char c :: nat) \<le> 70) \<or> (97 \<le> (of_char c :: nat) \<and> (of_char c :: nat) \<le> 102)"

definition xdigit_val :: "char \<Rightarrow> nat" where
  "xdigit_val c = (if is_digit c then digit_val c else if (of_char c :: nat) \<ge> 97 then of_char c - 87 else of_char c - 55)"

definition strtoul_digits :: "nat \<Rightarrow> string \<Rightarrow> nat" where
  "strtoul_digits base digits = foldl (\<lambda>v c. base * v + xdigit_val c) 0 digits"

abbreviation backslash :: char where "backslash \<equiv> CHR 0x5C"

text \<open>One escape: what follows the backslash, and the rest of the text.\<close>

definition octal_escape :: "string \<Rightarrow> string + char \<times> string" where
  "octal_escape text =
     (if text = [] then Inl (''missing octal number following '' @ [CHR 0x27, backslash, CHR ''0'', CHR 0x27])
      else
        (let oct_str = takeWhile is_octal (take 4 text);
             octal_value = strtoul_digits 8 oct_str
         in if octal_value \<le> 255 then Inr (char_of octal_value, drop (length oct_str) text)
            else Inl ''octal number is larger than a single byte''))"

definition hex_escape :: "string \<Rightarrow> string + char \<times> string" where
  "hex_escape text =
     (case text of
        [] \<Rightarrow> Inl (''missing hex number following '' @ [CHR 0x27, backslash, CHR ''x'', CHR 0x27])
      | c # text' \<Rightarrow>
          (if is_xdigit c then
             (let hex_str = c # takeWhile is_xdigit (take 1 text');
                  hex_value = strtoul_digits 16 hex_str
              in if hex_value \<le> 255 then Inr (char_of hex_value, drop (length hex_str) text)
                 else Inl ''hex number is larger than a single byte'')
           else Inr (CHR ''x'', text)))"

definition escape_char :: "char \<Rightarrow> string \<Rightarrow> string + char \<times> string" where
  "escape_char desens_char text =
     (if desens_char = CHR ''a'' then Inr (CHR 0x07, text)
      else if desens_char = CHR ''b'' then Inr (CHR 0x08, text)
      else if desens_char = CHR ''f'' then Inr (CHR 0x0C, text)
      else if desens_char = CHR ''n'' then Inr (CHR 0x0A, text)
      else if desens_char = CHR ''r'' then Inr (CHR 0x0D, text)
      else if desens_char = CHR ''t'' then Inr (CHR 0x09, text)
      else if desens_char = CHR ''v'' then Inr (CHR 0x0B, text)
      else if desens_char = CHR ''0'' then octal_escape text
      else if desens_char = CHR ''x'' then hex_escape text
      else Inr (desens_char, text))"

lemma escape_char_shortens: "escape_char c text = Inr (d, rest) \<Longrightarrow> length rest \<le> length text"
  by (auto simp: escape_char_def octal_escape_def hex_escape_def Let_def split: if_splits list.splits)

function FormatLogText :: "string \<Rightarrow> string \<Rightarrow> string + string" where
  "FormatLogText formatted text =
     (if text = [] then Inr formatted
      else
        (let before = takeWhile (\<lambda>c. c \<noteq> backslash) text
         in if length before = length text then Inr (formatted @ text)
            else
              (case drop (length before + 1) text of
                 [] \<Rightarrow> Inl ([CHR 0x27, backslash, CHR 0x27] @ '' character was not followed by another character'')
               | desens_char # text' \<Rightarrow>
                   (case escape_char desens_char text' of
                      Inl e \<Rightarrow> Inl e
                    | Inr (c, rest) \<Rightarrow> FormatLogText (formatted @ before @ [c]) rest))))"
  by pat_completeness auto

termination
proof (relation "measure (length \<circ> snd)")
  fix formatted s before :: string and desens_char s' x c rest
  assume "drop (length before + 1) s = desens_char # s'" and "escape_char desens_char s' = Inr x" and "(c, rest) = x"
  then have "length s' < length s" and "length rest \<le> length s'"
    using escape_char_shortens [of desens_char s' c rest] by (auto dest: arg_cong [where f = length])
  then show "((formatted @ before @ [c], rest), formatted, s) \<in> measure (length \<circ> snd)" by simp
qed simp

declare FormatLogText.simps [simp del]

section \<open>Braces\<close>

text \<open>Part 1 of \<open>SetLogMessage\<close>: the unmatched open braces and the matched ranges so far.\<close>

function erase_nested :: "nat \<Rightarrow> nat \<Rightarrow> (nat \<times> nat) list \<Rightarrow> (nat \<times> nat) list option" where
  "erase_nested last_unmatched_index i ranges =
     (if ranges = [] then Some []
      else if fst (last ranges) = last_unmatched_index then None
      else if fst (last ranges) < last_unmatched_index then Some ranges
      else if \<not> snd (last ranges) < i then None
      else erase_nested last_unmatched_index i (butlast ranges))"
  by pat_completeness auto
termination by (relation "measure (\<lambda>(l, i, ranges). length ranges)") auto

declare erase_nested.simps [simp del]

definition brace_step :: "nat \<Rightarrow> char \<Rightarrow> nat list \<times> (nat \<times> nat) list \<Rightarrow> (nat list \<times> (nat \<times> nat) list) option" where
  "brace_step i c st = (case st of (unmatched, ranges) \<Rightarrow>
     (if c = CHR ''{'' then Some (unmatched @ [i], ranges)
      else if c = CHR ''}'' then
        (if unmatched = [] then Some (unmatched, ranges)
         else
           (let last_unmatched_index = last unmatched
            in case erase_nested last_unmatched_index i ranges of
                 None \<Rightarrow> None
               | Some kept \<Rightarrow>
                   (if kept \<noteq> [] \<and> \<not> fst (last kept) < last_unmatched_index then None
                    else Some (butlast unmatched, kept @ [(last_unmatched_index, i)]))))
      else Some (unmatched, ranges)))"

fun brace_loop :: "nat \<Rightarrow> string \<Rightarrow> nat list \<times> (nat \<times> nat) list \<Rightarrow> (nat list \<times> (nat \<times> nat) list) option" where
  "brace_loop i [] st = Some st"
| "brace_loop i (c # cs) st = (case brace_step i c st of None \<Rightarrow> None | Some st' \<Rightarrow> brace_loop (i + 1) cs st')"

section \<open>Parts\<close>

record LogMessagePart =
  lp_text :: string
  lp_is_expr :: bool

definition AppendLogMessagePart :: "string \<Rightarrow> bool \<Rightarrow> LogMessagePart list \<Rightarrow> string + LogMessagePart list" where
  "AppendLogMessagePart part is_expr parts =
     (if is_expr then Inr (parts @ [\<lparr>lp_text = part, lp_is_expr = True\<rparr>])
      else
        (case FormatLogText [] part of
           Inl e \<Rightarrow> Inl e
         | Inr formatted \<Rightarrow> Inr (parts @ [\<lparr>lp_text = formatted, lp_is_expr = False\<rparr>])))"

definition substr :: "string \<Rightarrow> nat \<Rightarrow> nat \<Rightarrow> string" where
  "substr s pos n = take n (drop pos s)"

text \<open>What a parse leaves: the parts, and the error that stopped it.\<close>

type_synonym log_result = "LogMessagePart list \<times> string option"

fun part_loop :: "string \<Rightarrow> nat \<Rightarrow> (nat \<times> nat) list \<Rightarrow> LogMessagePart list \<Rightarrow> log_result option" where
  "part_loop msg last_raw_text_start [] parts =
     (if length msg > last_raw_text_start then
        (case AppendLogMessagePart (substr msg last_raw_text_start (length msg - last_raw_text_start)) False parts of
           Inl e \<Rightarrow> Some (parts, Some e)
         | Inr parts \<Rightarrow> Some (parts, None))
      else Some (parts, None))"
| "part_loop msg last_raw_text_start ((first, second) # ranges) parts =
     (if \<not> last_raw_text_start \<le> first then None
      else
        (case (if first - last_raw_text_start > 0
               then AppendLogMessagePart (substr msg last_raw_text_start (first - last_raw_text_start)) False parts
               else Inr parts) of
           Inl e \<Rightarrow> Some (parts, Some e)
         | Inr parts \<Rightarrow>
             (if \<not> first < second then None
              else
                (case AppendLogMessagePart (substr msg (first + 1) (second - first - 1)) True parts of
                   Inl e \<Rightarrow> Some (parts, Some e)
                 | Inr parts \<Rightarrow> part_loop msg (second + 1) ranges parts))))"

text \<open>The whole parse.  Without an error the breakpoint gets its callback.\<close>

definition SetLogMessage :: "string \<Rightarrow> log_result option" where
  "SetLogMessage msg =
     (case brace_loop 0 msg ([], []) of
        None \<Rightarrow> None
      | Some (unmatched, ranges) \<Rightarrow> part_loop msg 0 ranges [])"

definition log_error_output :: "string \<Rightarrow> string" where
  "log_error_output e = ''Log message has error: '' @ e"

text \<open>What a hit prints: \<open>SendOutput\<close> gets a C string and drops an empty one.\<close>

definition SendOutput :: "string \<Rightarrow> string list" where
  "SendOutput output = (if output = [] then [] else [output])"

definition BreakpointHitCallback :: "(string \<Rightarrow> string) \<Rightarrow> LogMessagePart list \<Rightarrow> string list" where
  "BreakpointHitCallback eval_expr parts =
     (let output = concat (map (\<lambda>p. if lp_is_expr p then eval_expr (lp_text p) else lp_text p) parts);
          output = (if output \<noteq> [] \<and> last output \<noteq> CHR 0x0A then output @ [CHR 0x0A] else output)
      in SendOutput (takeWhile (\<lambda>c. c \<noteq> CHR 0x00) output))"

section \<open>Matched braces\<close>

text \<open>How many braces are open after \<open>m\<close> characters, and the pairs of braces with balanced text between.\<close>

definition depth :: "string \<Rightarrow> nat \<Rightarrow> int" where
  "depth msg m = int (length (filter (\<lambda>c. c = CHR ''{'') (take m msg))) - int (length (filter (\<lambda>c. c = CHR ''}'') (take m msg)))"

definition closes :: "string \<Rightarrow> nat \<Rightarrow> nat \<Rightarrow> bool" where
  "closes msg i j \<longleftrightarrow> i < j \<and> j < length msg \<and> msg ! i = CHR ''{'' \<and> msg ! j = CHR ''}'' \<and>
     depth msg j = depth msg (Suc i) \<and> (\<forall>m. i < m \<and> m \<le> j \<longrightarrow> depth msg (Suc i) \<le> depth msg m)"

definition outermost :: "string \<Rightarrow> nat \<Rightarrow> (nat \<times> nat) set" where
  "outermost msg n = {(i, j). closes msg i j \<and> j < n \<and> \<not> (\<exists>i' j'. closes msg i' j' \<and> j' < n \<and> i' < i \<and> j < j')}"

definition opens :: "string \<Rightarrow> nat \<Rightarrow> nat set" where
  "opens msg n = {k. k < n \<and> msg ! k = CHR ''{'' \<and> (\<forall>m. k < m \<and> m \<le> n \<longrightarrow> depth msg (Suc k) \<le> depth msg m)}"

lemma depth_Suc:
  assumes "n < length msg"
  shows "depth msg (Suc n) = depth msg n + (if msg ! n = CHR ''{'' then 1 else if msg ! n = CHR ''}'' then - 1 else 0)"
  using assms by (simp add: depth_def take_Suc_conv_app_nth)

lemma closes_opens: "closes msg i n \<Longrightarrow> i \<in> opens msg n"
  by (simp add: closes_def opens_def)

text \<open>If more braces are open after \<open>n\<close> characters than right after position \<open>l\<close>, one of those between is still open.\<close>

lemma opens_beyond:
  assumes "l < n" and "n \<le> length msg" and "depth msg (Suc l) < depth msg n"
  shows "\<exists>k \<in> opens msg n. l < k"
proof -
  let ?P = "\<lambda>k. l < k \<and> k \<le> n \<and> depth msg k \<le> depth msg (Suc l)"
  define k where "k = (GREATEST k. ?P k)"
  have k: "?P k" unfolding k_def by (rule GreatestI_nat [of ?P "Suc l" n]) (use assms(1) in auto)
  have above: "depth msg (Suc l) < depth msg m" if "k < m" "m \<le> n" for m
  proof (rule ccontr)
    assume "\<not> depth msg (Suc l) < depth msg m"
    then have "m \<le> k" unfolding k_def using that k by (intro Greatest_le_nat [of ?P m n]) auto
    with that show False by simp
  qed
  have "k < n" using k assms(3) by (cases "k = n") auto
  then have "depth msg (Suc l) < depth msg (Suc k)" using above [of "Suc k"] by simp
  with k \<open>k < n\<close> assms(2) have "msg ! k = CHR ''{''" "depth msg (Suc k) = depth msg (Suc l) + 1"
    by (auto simp: depth_Suc split: if_splits)
  moreover have "depth msg (Suc l) + 1 \<le> depth msg m" if "k < m" "m \<le> n" for m using above [OF that] by simp
  ultimately have "k \<in> opens msg n" using \<open>k < n\<close> by (auto simp: opens_def)
  with k show ?thesis by blast
qed

lemma closes_last_open:
  assumes "closes msg i n" and "l \<in> opens msg n" and "\<And>k. k \<in> opens msg n \<Longrightarrow> k \<le> l"
  shows "i = l"
proof (rule ccontr)
  assume "i \<noteq> l"
  moreover have "i \<le> l" using assms(3) closes_opens [OF assms(1)] by blast
  ultimately have "depth msg (Suc i) \<le> depth msg l" "depth msg (Suc l) = depth msg l + 1" "depth msg (Suc l) \<le> depth msg n"
    using assms(1,2) by (auto simp: closes_def opens_def depth_Suc)
  moreover have "depth msg n = depth msg (Suc i)" using assms(1) by (simp add: closes_def)
  ultimately show False by simp
qed

lemma last_open_closes:
  assumes "l \<in> opens msg n" and "\<And>k. k \<in> opens msg n \<Longrightarrow> k \<le> l" and "n < length msg" and "msg ! n = CHR ''}''"
  shows "closes msg l n"
proof -
  have "\<not> depth msg (Suc l) < depth msg n"
    using opens_beyond [of l n msg] assms by (auto simp: opens_def dest: leD)
  moreover have "depth msg (Suc l) \<le> depth msg n" using assms(1) by (simp add: opens_def)
  ultimately show ?thesis using assms by (auto simp: closes_def opens_def)
qed

lemma closed_not_open: "closes msg i j \<Longrightarrow> j < n \<Longrightarrow> i \<notin> opens msg n"
proof
  assume c: "closes msg i j" and "j < n" and "i \<in> opens msg n"
  then have "depth msg (Suc i) \<le> depth msg (Suc j)" by (auto simp: closes_def opens_def)
  with c show False by (auto simp: closes_def depth_Suc)
qed

lemma closes_before_open:
  assumes "closes msg i j" and "j < n" and "l \<in> opens msg n" and "i < l"
  shows "j < l"
proof (rule ccontr)
  assume "\<not> j < l"
  moreover have "j \<noteq> l" using assms(1,3) by (auto simp: closes_def opens_def)
  ultimately have "l < j" by simp
  have "depth msg (Suc i) \<le> depth msg l" using assms(1,4) \<open>l < j\<close> by (simp add: closes_def)
  moreover have "depth msg (Suc l) \<le> depth msg (Suc j)" using assms(2,3) \<open>l < j\<close> by (simp add: opens_def)
  moreover have "depth msg (Suc l) = depth msg l + 1" using assms(1,3) \<open>l < j\<close> by (simp add: depth_Suc opens_def closes_def)
  moreover have "depth msg (Suc j) = depth msg (Suc i) - 1" using assms(1) by (simp add: depth_Suc closes_def)
  ultimately show False by simp
qed

section \<open>The ranges\<close>

definition brace_inv :: "string \<Rightarrow> nat \<Rightarrow> nat list \<times> (nat \<times> nat) list \<Rightarrow> bool" where
  "brace_inv msg n st \<longleftrightarrow> (case st of (unmatched, ranges) \<Rightarrow>
     sorted_wrt (<) unmatched \<and> set unmatched = opens msg n \<and>
     sorted_wrt (\<lambda>r q. snd r < fst q) ranges \<and> set ranges = outermost msg n)"

lemma sorted_wrt_butlast: "sorted_wrt P xs \<Longrightarrow> sorted_wrt P (butlast xs)"
  by (cases xs rule: rev_cases) (auto simp: sorted_wrt_append)

lemma erase_nested_filter:
  assumes "sorted_wrt (\<lambda>r q. snd r < fst q) ranges" and "\<forall>r \<in> set ranges. fst r < snd r \<and> snd r < i \<and> fst r \<noteq> l"
  shows "erase_nested l i ranges = Some (filter (\<lambda>r. fst r < l) ranges)"
  using assms
proof (induction l i ranges rule: erase_nested.induct)
  case (1 l i ranges)
  show ?case
  proof (cases ranges rule: rev_cases)
    case Nil
    then show ?thesis by (simp add: erase_nested.simps)
  next
    case (snoc rs r)
    show ?thesis
    proof (cases "fst r < l")
      case True
      have "fst q < l" if "q \<in> set rs" for q
        using "1.prems" that snoc True by (force simp: sorted_wrt_append)
      then have "filter (\<lambda>r. fst r < l) rs = rs" by simp
      then show ?thesis using snoc True by (simp add: erase_nested.simps [of l i "rs @ [r]"])
    next
      case False
      then have "erase_nested l i ranges = erase_nested l i rs"
        using "1.prems"(2) by (simp add: snoc erase_nested.simps [of l i "rs @ [r]"])
      moreover have "erase_nested l i rs = Some (filter (\<lambda>r. fst r < l) rs)"
        using "1.IH" "1.prems" snoc False by (simp add: sorted_wrt_append)
      ultimately show ?thesis using snoc False by simp
    qed
  qed
qed

lemma opens_Suc:
  "k \<in> opens msg (Suc n) \<longleftrightarrow> k = n \<and> msg ! n = CHR ''{'' \<or> k \<in> opens msg n \<and> depth msg (Suc k) \<le> depth msg (Suc n)"
  by (auto simp: opens_def less_Suc_eq le_Suc_eq)

lemma opens_step:
  assumes "n < length msg"
  shows "opens msg (Suc n) = (if msg ! n = CHR ''{'' then insert n (opens msg n)
     else if msg ! n = CHR ''}'' then {k \<in> opens msg n. depth msg (Suc k) < depth msg n} else opens msg n)"
proof (rule set_eqI)
  fix k
  have "k \<in> opens msg n \<longrightarrow> depth msg (Suc k) \<le> depth msg n" by (simp add: opens_def)
  then show "k \<in> opens msg (Suc n) \<longleftrightarrow> k \<in> (if msg ! n = CHR ''{'' then insert n (opens msg n)
     else if msg ! n = CHR ''}'' then {k \<in> opens msg n. depth msg (Suc k) < depth msg n} else opens msg n)"
    unfolding opens_Suc depth_Suc [OF assms] by auto
qed

lemma outermost_step_other: "\<not> (\<exists>i. closes msg i n) \<Longrightarrow> outermost msg (Suc n) = outermost msg n"
  unfolding outermost_def less_Suc_eq by blast

lemma outermost_step_close:
  assumes "closes msg l n" and only: "\<And>i. closes msg i n \<Longrightarrow> i = l"
  shows "outermost msg (Suc n) = insert (l, n) {r \<in> outermost msg n. fst r \<le> l}"
proof (rule set_eqI)
  fix r :: "nat \<times> nat"
  obtain i j where r: "r = (i, j)" by (cases r)
  define E where "E \<longleftrightarrow> (\<exists>i' j'. closes msg i' j' \<and> j' < n \<and> i' < i \<and> j < j')"
  have later: "(\<exists>i' j'. closes msg i' j' \<and> j' < Suc n \<and> i' < i \<and> j < j') \<longleftrightarrow> E \<or> l < i \<and> j < n"
  proof -
    have "(\<exists>i'. closes msg i' n \<and> i' < i) \<longleftrightarrow> l < i" using assms(1) only by metis
    then show ?thesis unfolding less_Suc_eq E_def by auto
  qed
  have new: "r \<in> outermost msg (Suc n) \<longleftrightarrow> closes msg i j \<and> j < Suc n \<and> \<not> E \<and> \<not> (l < i \<and> j < n)"
    unfolding r outermost_def mem_Collect_eq case_prod_conv later by (simp only: de_Morgan_disj)
  have old: "r \<in> outermost msg n \<longleftrightarrow> closes msg i j \<and> j < n \<and> \<not> E" unfolding E_def by (simp add: r outermost_def)
  show "r \<in> outermost msg (Suc n) \<longleftrightarrow> r \<in> insert (l, n) {r \<in> outermost msg n. fst r \<le> l}"
  proof (cases "j = n")
    case True
    have "\<not> E" using True less_asym unfolding E_def by blast
    moreover have "closes msg i j \<longleftrightarrow> i = l" using assms(1) only True by metis
    ultimately have "r \<in> outermost msg (Suc n) \<longleftrightarrow> i = l" using True by (simp add: new del: not_ex)
    moreover have "r \<notin> outermost msg n" using True by (simp add: old)
    ultimately show ?thesis using True by (simp add: r)
  next
    case False
    then have "j < Suc n \<longleftrightarrow> j < n" by auto
    with False have "r \<in> outermost msg (Suc n) \<longleftrightarrow> r \<in> outermost msg n \<and> i \<le> l" unfolding new old by auto
    with False show ?thesis by (simp add: r)
  qed
qed

lemma opens_less: "k \<in> opens msg n \<Longrightarrow> k < n"
  by (simp add: opens_def)

lemma butlast_smaller:
  assumes "sorted_wrt (<) (xs :: nat list)" and "xs \<noteq> []"
  shows "set (butlast xs) = {x \<in> set xs. x < last xs}" "x \<in> set xs \<Longrightarrow> x \<le> last xs"
proof -
  obtain ys y where xs: "xs = ys @ [y]" using assms(2) by (metis append_butlast_last_id)
  show "set (butlast xs) = {x \<in> set xs. x < last xs}" and "x \<in> set xs \<Longrightarrow> x \<le> last xs"
    using assms(1) by (auto simp: xs sorted_wrt_append less_imp_le)
qed

lemma opens_below_last:
  assumes "closes msg l n" and "k \<in> opens msg n"
  shows "depth msg (Suc k) < depth msg n \<longleftrightarrow> k < l \<or> l < k \<and> depth msg (Suc k) < depth msg n"
proof -
  have "depth msg (Suc k) < depth msg n" if "k < l"
  proof -
    have "depth msg (Suc k) \<le> depth msg l" using assms that by (simp add: opens_def closes_def)
    moreover have "depth msg (Suc l) = depth msg l + 1" using assms(1) by (simp add: closes_def depth_Suc)
    ultimately show ?thesis using assms(1) by (simp add: closes_def)
  qed
  moreover have "k = l \<Longrightarrow> depth msg (Suc k) = depth msg n" using assms(1) by (simp add: closes_def)
  ultimately show ?thesis by (metis linorder_neqE_nat less_irrefl)
qed

lemma last_filter: "filter P xs \<noteq> [] \<Longrightarrow> P (last (filter P xs))"
  using last_in_set [of "filter P xs"] by simp

lemma brace_step_inv:
  assumes inv: "brace_inv msg n st" and n: "n < length msg"
  shows "\<exists>st'. brace_step n (msg ! n) st = Some st' \<and> brace_inv msg (Suc n) st'"
proof -
  obtain U M where st: "st = (U, M)" by (cases st)
  note inv = inv [unfolded st brace_inv_def case_prod_conv]
  show ?thesis
  proof (cases "msg ! n = CHR ''}'' \<and> U \<noteq> []")
    case False
    have "\<not> closes msg i n" for i
    proof
      assume c: "closes msg i n"
      then have "msg ! n = CHR ''}''" by (simp add: closes_def)
      moreover have "i \<in> set U" using closes_opens [OF c] inv by simp
      ultimately show False using False by auto
    qed
    with False inv show ?thesis
      by (auto simp: st brace_step_def brace_inv_def opens_step [OF n] outermost_step_other sorted_wrt_append opens_less)
  next
    case True
    let ?l = "last U"
    have l: "?l \<in> opens msg n" using True inv by (metis last_in_set)
    have max: "k \<le> ?l" if "k \<in> opens msg n" for k using butlast_smaller(2) [of U k] that inv True by auto
    have cl: "closes msg ?l n" using last_open_closes [OF l max n] True by blast
    have out: "outermost msg (Suc n) = insert (?l, n) {r \<in> outermost msg n. fst r \<le> ?l}"
      by (rule outermost_step_close [OF cl]) (rule closes_last_open [OF _ l max])
    have M: "fst r < snd r \<and> snd r < n \<and> fst r \<noteq> ?l" if "r \<in> set M" for r
      using that inv closed_not_open [of msg "fst r" "snd r" n] l by (auto simp: outermost_def closes_def)
    have before: "snd r < ?l" if "r \<in> set M" "fst r < ?l" for r
      using that inv closes_before_open [OF _ _ l, of "fst r" "snd r"] by (auto simp: outermost_def)
    have keep: "erase_nested ?l n M = Some (filter (\<lambda>r. fst r < ?l) M)"
      by (rule erase_nested_filter) (use inv M in auto)
    have "set (filter (\<lambda>r. fst r < ?l) M @ [(?l, n)]) = outermost msg (Suc n)"
      unfolding out using inv M by (auto simp: order_less_le)
    moreover have "sorted_wrt (\<lambda>r q. snd r < fst q) (filter (\<lambda>r. fst r < ?l) M @ [(?l, n)])"
      using inv before by (auto simp: sorted_wrt_append intro: sorted_wrt_filter)
    moreover have "set (butlast U) = opens msg (Suc n)"
      using butlast_smaller(1) [of U] inv True max opens_below_last [OF cl] by (fastforce simp: opens_step [OF n])
    moreover have "filter (\<lambda>r. fst r < ?l) M = [] \<or> fst (last (filter (\<lambda>r. fst r < ?l) M)) < ?l"
      using last_filter [of "\<lambda>r. fst r < ?l" M] by blast
    ultimately show ?thesis
      using inv True keep by (simp add: st brace_step_def brace_inv_def sorted_wrt_butlast Let_def)
  qed
qed

lemma brace_loop_inv:
  assumes "brace_inv msg n st" and "n \<le> length msg"
  shows "\<exists>st'. brace_loop n (drop n msg) st = Some st' \<and> brace_inv msg (length msg) st'"
  using assms
proof (induction "length msg - n" arbitrary: n st)
  case 0
  then show ?case by simp
next
  case (Suc k)
  then have n: "n < length msg" by simp
  obtain st' where st': "brace_step n (msg ! n) st = Some st'" "brace_inv msg (Suc n) st'"
    using brace_step_inv [OF Suc.prems(1) n] by blast
  then show ?case using Suc.hyps(1) [of "Suc n" st'] Suc.hyps(2) n by (simp add: Cons_nth_drop_Suc [OF n, symmetric])
qed

text \<open>The outermost pairs, from left to right.\<close>

theorem brace_ranges:
  "\<exists>unmatched ranges. brace_loop 0 msg ([], []) = Some (unmatched, ranges) \<and>
     sorted_wrt (\<lambda>r q. snd r < fst q) ranges \<and> set ranges = outermost msg (length msg)"
proof -
  have "brace_inv msg 0 ([], [])" by (simp add: brace_inv_def opens_def outermost_def)
  from brace_loop_inv [OF this] show ?thesis by (auto simp: brace_inv_def)
qed

section \<open>The parts\<close>

text \<open>The segments that the ranges cut: text between, expression inside.\<close>

fun segments :: "string \<Rightarrow> nat \<Rightarrow> (nat \<times> nat) list \<Rightarrow> (string \<times> bool) list" where
  "segments msg start [] = (if start < length msg then [(drop start msg, False)] else [])"
| "segments msg start ((i, j) # ranges) =
     (if start < i then [(substr msg start (i - start), False)] else []) @
     (substr msg (i + 1) (j - i - 1), True) # segments msg (j + 1) ranges"

definition segment_text :: "string \<times> bool \<Rightarrow> string" where
  "segment_text seg = (if snd seg then ''{'' @ fst seg @ ''}'' else fst seg)"

text \<open>Appending segments until one has an error.\<close>

fun append_segments :: "(string \<times> bool) list \<Rightarrow> LogMessagePart list \<Rightarrow> log_result" where
  "append_segments [] parts = (parts, None)"
| "append_segments ((t, is_expr) # segs) parts =
     (case AppendLogMessagePart t is_expr parts of Inl e \<Rightarrow> (parts, Some e) | Inr parts \<Rightarrow> append_segments segs parts)"

definition ranges_from :: "string \<Rightarrow> nat \<Rightarrow> (nat \<times> nat) list \<Rightarrow> bool" where
  "ranges_from msg start ranges \<longleftrightarrow> sorted_wrt (\<lambda>r q. snd r < fst q) ranges \<and>
     (\<forall>r \<in> set ranges. start \<le> fst r \<and> closes msg (fst r) (snd r))"

lemma ranges_from_Cons: "ranges_from msg start ((i, j) # ranges) \<longleftrightarrow>
    start \<le> i \<and> closes msg i j \<and> ranges_from msg (Suc j) ranges"
  by (auto simp: ranges_from_def closes_def Suc_le_eq)

lemma part_loop_segments:
  "ranges_from msg start ranges \<Longrightarrow> part_loop msg start ranges parts = Some (append_segments (segments msg start ranges) parts)"
proof (induction msg start ranges parts rule: part_loop.induct)
  case (1 msg start parts)
  then show ?case by (simp add: substr_def split: sum.splits)
next
  case (2 msg start i j ranges parts)
  then show ?case
    by (auto simp: ranges_from_Cons closes_def AppendLogMessagePart_def split: sum.splits)
qed

lemma substr_drop: "start \<le> i \<Longrightarrow> drop start msg = substr msg start (i - start) @ drop i msg"
  using append_take_drop_id [of "i - start" "drop start msg"] by (simp add: substr_def)

lemma segments_rebuild:
  "ranges_from msg start ranges \<Longrightarrow> concat (map segment_text (segments msg start ranges)) = drop start msg"
proof (induction msg start ranges rule: segments.induct)
  case (1 msg start)
  then show ?case by (simp add: segment_text_def)
next
  case (2 msg start i j ranges)
  then have ij: "start \<le> i" "i < j" "j < length msg" "msg ! i = CHR ''{''" "msg ! j = CHR ''}''"
    and tail: "concat (map segment_text (segments msg (Suc j) ranges)) = drop (Suc j) msg"
    by (auto simp: ranges_from_Cons closes_def)
  have "drop start msg = substr msg start (i - start) @ drop i msg" using ij(1) by (rule substr_drop)
  moreover have "drop i msg = ''{'' @ drop (Suc i) msg" using ij by (simp add: Cons_nth_drop_Suc [symmetric])
  moreover have "drop (Suc i) msg = substr msg (Suc i) (j - Suc i) @ drop j msg" using ij(2) by (intro substr_drop) simp
  moreover have "drop j msg = ''}'' @ drop (Suc j) msg" using ij by (simp add: Cons_nth_drop_Suc [symmetric])
  moreover have "substr msg start (i - start) = []" if "\<not> start < i" using that ij(1) by (simp add: substr_def)
  ultimately show ?case using tail by (simp add: segment_text_def [of "(_, True)"] segment_text_def [of "(_, False)"])
qed

section \<open>Properties\<close>

text \<open>C24: Setting a log message never fails an assertion.  The message is cut at exactly its outermost
  pairs of matching braces, whatever the nesting and however many braces have no partner; the
  segments put together again are the message, and the parts are the segments in order with
  their text unescaped, up to the first that has a malformed escape.\<close>

theorem SetLogMessage_parses:
  "\<exists>ranges. sorted_wrt (\<lambda>r q. snd r < fst q) ranges \<and> set ranges = outermost msg (length msg) \<and>
     concat (map segment_text (segments msg 0 ranges)) = msg \<and>
     SetLogMessage msg = Some (append_segments (segments msg 0 ranges) [])"
proof -
  obtain unmatched ranges where loop: "brace_loop 0 msg ([], []) = Some (unmatched, ranges)"
    and ranges: "sorted_wrt (\<lambda>r q. snd r < fst q) ranges" "set ranges = outermost msg (length msg)"
    using brace_ranges by blast
  then have from_0: "ranges_from msg 0 ranges" by (auto simp: ranges_from_def outermost_def)
  have "SetLogMessage msg = Some (append_segments (segments msg 0 ranges) [])"
    using part_loop_segments [OF from_0] by (simp add: SetLogMessage_def loop)
  then show ?thesis using segments_rebuild [OF from_0] ranges by auto
qed

section \<open>Escapes\<close>

text \<open>Text without a backslash is itself; every character can be written as \<open>\x\<close> and two digits.\<close>

lemma FormatLogText_plain:
  assumes "backslash \<notin> set s"
  shows "FormatLogText acc s = Inr (acc @ s)"
proof -
  have "c \<in> set s \<Longrightarrow> c \<noteq> backslash" for c using assms by blast
  then have "takeWhile (\<lambda>c. c \<noteq> backslash) s = s" unfolding takeWhile_eq_all_conv by blast
  then have "length (takeWhile (\<lambda>c. c \<noteq> backslash) s) = length s" by (rule arg_cong)
  then show ?thesis by (simp add: FormatLogText.simps [of acc s] Let_def)
qed

definition hex_char :: "nat \<Rightarrow> char" where
  "hex_char d = (if d < 10 then digit_char d else char_of (87 + d))"

definition escape_all :: "string \<Rightarrow> string" where
  "escape_all s = concat (map (\<lambda>c. [backslash, CHR ''x'', hex_char (of_char c div 16), hex_char (of_char c mod 16)]) s)"

lemma xdigit_hex_char [simp]: "d < 16 \<Longrightarrow> is_xdigit (hex_char d) \<and> xdigit_val (hex_char d) = d"
  by (auto simp: is_xdigit_def xdigit_val_def hex_char_def is_digit_def digit_val_def digit_char_def)

lemma FormatLogText_escape_all: "FormatLogText acc (escape_all s) = Inr (acc @ s)"
proof (induction s arbitrary: acc)
  case Nil
  then show ?case by (simp add: escape_all_def FormatLogText.simps)
next
  case (Cons c s)
  have n: "(of_char c :: nat) div 16 < 16" "(of_char c :: nat) mod 16 < 16" "(of_char c :: nat) div 16 * 16 + of_char c mod 16 = of_char c"
    using nat_of_char_less_256 [of c] by (simp_all add: less_mult_imp_div_less)
  let ?h = "hex_char (of_char c div 16)" and ?l = "hex_char (of_char c mod 16)"
  have "hex_escape (?h # ?l # escape_all s) = Inr (c, escape_all s)"
    using n by (simp add: hex_escape_def strtoul_digits_def Let_def mult.commute)
  moreover have "escape_all (c # s) = backslash # CHR ''x'' # ?h # ?l # escape_all s" by (simp add: escape_all_def)
  ultimately show ?case
    using Cons.IH [of "acc @ [c]"] by (simp add: FormatLogText.simps [of acc "_ # _"] escape_char_def)
qed

text \<open>The comment on octal escapes says one to three digits; the code takes four.\<close>

lemma char_of_nat_A: "char_of (65 :: nat) = CHR ''A''"
  by code_simp

lemma FormatLogText_octal_four:
  "FormatLogText [] (backslash # ''00101'') = Inr ''A''"
  "FormatLogText [] (backslash # ''01234'') = Inl ''octal number is larger than a single byte''"
  by (simp_all add: FormatLogText.simps escape_char_def octal_escape_def is_octal_def strtoul_digits_def xdigit_val_def is_digit_def digit_val_def char_of_nat_A)

end
