(* ===== verification/Breakpoints.thy ===== *)
theory Breakpoints
  imports Log_Message Device_Pack Program_Disassembler
begin

text \<open>
  The breakpoint classes of \<open>core/components\<close> (\<open>breakpoint_base\<close>, \<open>breakpoint\<close>, \<open>source_breakpoint\<close>,
  \<open>function_breakpoint\<close>, \<open>instruction_breakpoint\<close>, \<open>exception_breakpoint\<close>, \<open>watchpoint\<close>) over the LLDB
  target.  The target is a parameter: its state, and the calls the code makes on it.  A breakpoint
  handle of LLDB is \<open>None\<close> until it is created; calls on such a handle do nothing.  Identifiers are
  taken to fit their 32 bits.  Reading an integer (\<open>llvm::to_integer\<close>, \<open>getAsInteger\<close>), rendering one, and
  the order in which a hash table is traversed are parameters too.
\<close>

section \<open>The target\<close>

type_synonym break_id = int

abbreviation LLDB_INVALID_ADDRESS :: u64 where "LLDB_INVALID_ADDRESS \<equiv> - 1"
abbreviation LLDB_INVALID_LINE_NUMBER :: u32 where "LLDB_INVALID_LINE_NUMBER \<equiv> - 1"
abbreviation LLDB_INVALID_COLUMN_NUMBER :: u32 where "LLDB_INVALID_COLUMN_NUMBER \<equiv> 0"

record PersistenceData =
  pd_module_path :: string
  pd_symbol_name :: string

record Source =
  src_name :: "string option"
  src_path :: "string option"
  src_sourceReference :: "s32 option"
  src_adapterData :: "PersistenceData option option"

record CallSiteLocation =
  cs_file :: "Source option option"
  cs_line :: u32
  cs_column :: u32

definition no_call_site :: CallSiteLocation where
  "no_call_site = \<lparr>cs_file = None, cs_line = LLDB_INVALID_LINE_NUMBER, cs_column = LLDB_INVALID_COLUMN_NUMBER\<rparr>"

text \<open>One location of a breakpoint, with what LLDB knows of its address: the inlined blocks around it from
  the inside out, its line entry, and the symbol with the number of instructions before the address.\<close>

record SBLocation =
  sl_load_address :: u64
  sl_enabled :: bool
  sl_resolved :: bool
  sl_address_valid :: bool
  sl_source :: "Source option"
  sl_inlined_blocks :: "CallSiteLocation list"
  sl_line :: u32
  sl_column :: u32
  sl_symbol :: "(u32 \<times> PersistenceData option) option"

text \<open>What a breakpoint can be created from.\<close>

datatype creation =
    ByLocation string u32 u32
  | ByAddress u64
  | ByName string
  | BySymbol string string u32
  | ForException nat bool bool

record 'w SBTarget_api =
  tg_create :: "creation \<Rightarrow> 'w \<Rightarrow> break_id \<times> 'w"
  tg_delete :: "break_id \<Rightarrow> 'w \<Rightarrow> 'w"
  tg_locations :: "break_id \<Rightarrow> 'w \<Rightarrow> SBLocation list"
  tg_set_enabled :: "break_id \<Rightarrow> nat \<Rightarrow> bool \<Rightarrow> 'w \<Rightarrow> 'w"
  tg_set_hardware :: "break_id \<Rightarrow> bool \<Rightarrow> 'w \<Rightarrow> string option option \<times> 'w"
  tg_add_name :: "break_id \<Rightarrow> string \<Rightarrow> 'w \<Rightarrow> 'w"
  tg_set_condition :: "break_id \<Rightarrow> string \<Rightarrow> 'w \<Rightarrow> 'w"
  tg_set_ignore_count :: "break_id \<Rightarrow> u32 \<Rightarrow> 'w \<Rightarrow> 'w"
  tg_set_callback :: "break_id \<Rightarrow> 'w \<Rightarrow> 'w"
  tg_resolve_symbol :: "u64 \<Rightarrow> 'w \<Rightarrow> u64 option option"
  tg_read_instructions :: "u64 \<Rightarrow> u32 \<Rightarrow> 'w \<Rightarrow> u64 list"

record bp_env =
  be_program :: "InstructionInfo list option"
  be_require_hardware :: "bool option"
  be_memory :: MemoryMap
  be_to_integer :: "string \<Rightarrow> u64 option"
  be_to_hex :: "u64 \<Rightarrow> string"
  be_to_string :: "break_id \<Rightarrow> string"
  be_source_reference :: "s32 \<Rightarrow> u64 option"
  be_to_integer_base :: "nat \<Rightarrow> string \<Rightarrow> u64 option"
  be_uninitialised :: u64
  be_name_order :: "string list \<Rightarrow> string list"
  be_address_order :: "u64 list \<Rightarrow> u64 list"

text \<open>The target with what the code printed to the console and to the log.\<close>

record 'w debugger =
  dg_world :: 'w
  dg_output :: "string list"
  dg_diagnostics :: "string list"

definition on_world :: "('w \<Rightarrow> 'w) \<Rightarrow> 'w debugger \<Rightarrow> 'w debugger" where
  "on_world f d = d\<lparr>dg_world := f (dg_world d)\<rparr>"

section \<open>Breakpoints in general\<close>

record Breakpoint =
  bp_handle :: "break_id option"
  bp_condition :: string
  bp_hit_condition :: string
  bp_hardware_error :: string

definition new_Breakpoint :: "string option \<Rightarrow> string option \<Rightarrow> Breakpoint" where
  "new_Breakpoint condition hit_condition =
     \<lparr>bp_handle = None, bp_condition = (case condition of None \<Rightarrow> [] | Some c \<Rightarrow> c),
      bp_hit_condition = (case hit_condition of None \<Rightarrow> [] | Some c \<Rightarrow> c), bp_hardware_error = []\<rparr>"

definition with_handle :: "('a Breakpoint_scheme) \<Rightarrow> (break_id \<Rightarrow> 'w \<Rightarrow> 'w) \<Rightarrow> 'w debugger \<Rightarrow> 'w debugger" where
  "with_handle bp call d = (case bp_handle bp of None \<Rightarrow> d | Some i \<Rightarrow> on_world (call i) d)"

definition GetNumLocations :: "'w SBTarget_api \<Rightarrow> 'a Breakpoint_scheme \<Rightarrow> 'w debugger \<Rightarrow> nat" where
  "GetNumLocations api bp d = (case bp_handle bp of None \<Rightarrow> 0 | Some i \<Rightarrow> length (tg_locations api i (dg_world d)))"

definition SetCondition :: "'w SBTarget_api \<Rightarrow> 'a Breakpoint_scheme \<Rightarrow> 'w debugger \<Rightarrow> 'w debugger" where
  "SetCondition api bp = with_handle bp (\<lambda>i. tg_set_condition api i (bp_condition bp))"

definition SetHitCondition :: "'w SBTarget_api \<Rightarrow> bp_env \<Rightarrow> 'a Breakpoint_scheme \<Rightarrow> 'w debugger \<Rightarrow> 'w debugger" where
  "SetHitCondition api env bp d =
     (case be_to_integer env (bp_hit_condition bp) of
        Some hitCount \<Rightarrow> with_handle bp (\<lambda>i. tg_set_ignore_count api i (ucast (hitCount - 1))) d
      | None \<Rightarrow> d)"

text \<open>\<open>BreakpointBase::UpdateBreakpoint\<close>: what changed is set again.\<close>

definition BreakpointBase_UpdateBreakpoint ::
  "'w SBTarget_api \<Rightarrow> bp_env \<Rightarrow> 'b Breakpoint_scheme \<Rightarrow> 'a Breakpoint_scheme \<times> 'w debugger \<Rightarrow> 'a Breakpoint_scheme \<times> 'w debugger" where
  "BreakpointBase_UpdateBreakpoint api env request_bp s =
     (let (bp, d) = s;
          (bp, d) = (if bp_condition bp \<noteq> bp_condition request_bp
                     then (let bp = bp\<lparr>bp_condition := bp_condition request_bp\<rparr> in (bp, SetCondition api bp d))
                     else (bp, d));
          (bp, d) = (if bp_hit_condition bp \<noteq> bp_hit_condition request_bp
                     then (let bp = bp\<lparr>bp_hit_condition := bp_hit_condition request_bp\<rparr> in (bp, SetHitCondition api env bp d))
                     else (bp, d))
      in (bp, d))"

section \<open>Setting a breakpoint\<close>

definition RequiresHardware :: "'w SBTarget_api \<Rightarrow> MemoryMap \<Rightarrow> 'a Breakpoint_scheme \<Rightarrow> 'w debugger \<Rightarrow> bool" where
  "RequiresHardware api memory bp d =
     (if m_regions memory = [] then True
      else
        (case bp_handle bp of
           None \<Rightarrow> False
         | Some i \<Rightarrow> list_ex (\<lambda>loc. sl_load_address loc = LLDB_INVALID_ADDRESS \<or> \<not> IsRam memory (sl_load_address loc))
                       (tg_locations api i (dg_world d))))"

definition prune_location :: "'w SBTarget_api \<Rightarrow> InstructionInfo list \<Rightarrow> break_id \<Rightarrow> nat \<Rightarrow> 'w \<Rightarrow> 'w" where
  "prune_location api program i n w =
     (if n < length (tg_locations api i w)
      then (let addr = sl_load_address (tg_locations api i w ! n)
            in if addr \<noteq> LLDB_INVALID_ADDRESS \<and> InstructionInfoAt program addr = None
               then tg_set_enabled api i n False w else w)
      else w)"

definition PruneNonCodeLocations :: "'w SBTarget_api \<Rightarrow> bp_env \<Rightarrow> 'a Breakpoint_scheme \<Rightarrow> 'w debugger \<Rightarrow> 'w debugger" where
  "PruneNonCodeLocations api env bp d =
     (case be_program env of
        None \<Rightarrow> d
      | Some program \<Rightarrow>
          with_handle bp (\<lambda>i w. fold (prune_location api program i) [0..<length (tg_locations api i w)] w) d)"

definition set_hardware :: "'w SBTarget_api \<Rightarrow> bp_env \<Rightarrow> bool \<Rightarrow> 'a Breakpoint_scheme \<Rightarrow> 'w debugger \<Rightarrow> 'a Breakpoint_scheme \<times> 'w debugger" where
  "set_hardware api env want_hardware bp d =
     (case bp_handle bp of
        None \<Rightarrow> (bp, d)
      | Some i \<Rightarrow>
          (case tg_set_hardware api i want_hardware (dg_world d) of
             (hw_error, w) \<Rightarrow>
               (case (want_hardware, hw_error) of
                  (True, Some msg) \<Rightarrow>
                    (let e = (case msg of Some m \<Rightarrow> m | None \<Rightarrow> ''failed to allocate a hardware breakpoint'')
                     in (bp\<lparr>bp_hardware_error := e\<rparr>,
                         d\<lparr>dg_world := w, dg_diagnostics := dg_diagnostics d @ [''breakpoint '' @ be_to_string env i @ '': '' @ e]\<rparr>))
                | _ \<Rightarrow> (bp, d\<lparr>dg_world := w\<rparr>))))"

definition Breakpoint_SetBreakpoint ::
  "'w SBTarget_api \<Rightarrow> bp_env \<Rightarrow> 'a Breakpoint_scheme \<times> 'w debugger \<Rightarrow> 'a Breakpoint_scheme \<times> 'w debugger" where
  "Breakpoint_SetBreakpoint api env s =
     (let (bp, d) = s;
          d = PruneNonCodeLocations api env bp d;
          want_hardware = (case be_require_hardware env of Some c \<Rightarrow> c | None \<Rightarrow> RequiresHardware api (be_memory env) bp d);
          (bp, d) = set_hardware api env want_hardware bp d;
          d = with_handle bp (\<lambda>i. tg_add_name api i ''dap'') d;
          d = (if bp_condition bp \<noteq> [] then SetCondition api bp d else d);
          d = (if bp_hit_condition bp \<noteq> [] then SetHitCondition api env bp d else d)
      in (bp, d))"

section \<open>What the client is told\<close>

record ProtocolBreakpoint =
  pb_id :: "break_id option"
  pb_verified :: bool
  pb_message :: "string option"
  pb_source :: "Source option"
  pb_line :: "u32 option"
  pb_column :: "u32 option"
  pb_instructionReference :: "string option"

definition new_ProtocolBreakpoint :: ProtocolBreakpoint where
  "new_ProtocolBreakpoint = \<lparr>pb_id = None, pb_verified = False, pb_message = None, pb_source = None, pb_line = None,
     pb_column = None, pb_instructionReference = None\<rparr>"

text \<open>The call site of the outermost inlined block.\<close>

definition GetOutermostInlinedCallSite :: "CallSiteLocation list \<Rightarrow> CallSiteLocation" where
  "GetOutermostInlinedCallSite blocks = foldl (\<lambda>_ block. block) no_call_site blocks"

definition valid_line :: "u32 \<Rightarrow> u32 option" where
  "valid_line line = (if line \<noteq> LLDB_INVALID_LINE_NUMBER then Some line else None)"

definition valid_column :: "u32 \<Rightarrow> u32 option" where
  "valid_column column = (if column \<noteq> LLDB_INVALID_COLUMN_NUMBER then Some column else None)"

definition chosen_location :: "SBLocation list \<Rightarrow> SBLocation option" where
  "chosen_location locations =
     (case List.find (\<lambda>l. sl_enabled l \<and> sl_resolved l) locations of
        Some best \<Rightarrow> Some best
      | None \<Rightarrow>
          (case List.find sl_enabled locations of
             Some enabled \<Rightarrow> Some enabled
           | None \<Rightarrow> (case locations of [] \<Rightarrow> None | loc # _ \<Rightarrow> Some loc)))"

definition describe_location :: "bp_env \<Rightarrow> SBLocation \<Rightarrow> ProtocolBreakpoint \<Rightarrow> ProtocolBreakpoint" where
  "describe_location env loc b =
     (let b = b\<lparr>pb_instructionReference := Some (''0x'' @ be_to_hex env (sl_load_address loc))\<rparr>
      in case sl_source loc of
           None \<Rightarrow> b\<lparr>pb_source := None\<rparr>
         | Some source \<Rightarrow>
             (if (case src_sourceReference source of None \<Rightarrow> 0 | Some r \<Rightarrow> r) = 0 then
                (let call_site = GetOutermostInlinedCallSite (sl_inlined_blocks loc)
                 in case cs_file call_site of
                      Some file \<Rightarrow> b\<lparr>pb_line := valid_line (cs_line call_site), pb_column := valid_column (cs_column call_site),
                                     pb_source := Some (case file of None \<Rightarrow> source | Some f \<Rightarrow> f)\<rparr>
                    | None \<Rightarrow> b\<lparr>pb_line := valid_line (sl_line loc), pb_column := valid_column (sl_column loc), pb_source := Some source\<rparr>)
              else
                (case sl_symbol loc of
                   None \<Rightarrow> b\<lparr>pb_source := Some source\<rparr>
                 | Some (instructions_before, persistence_data) \<Rightarrow>
                     b\<lparr>pb_line := Some (instructions_before + 1),
                       pb_source := Some (case persistence_data of
                         None \<Rightarrow> source
                       | Some p \<Rightarrow> source\<lparr>src_adapterData := Some (Some p)\<rparr>)\<rparr>)))"

definition ToProtocolBreakpoint :: "'w SBTarget_api \<Rightarrow> bp_env \<Rightarrow> 'a Breakpoint_scheme \<Rightarrow> 'w debugger \<Rightarrow> ProtocolBreakpoint" where
  "ToProtocolBreakpoint api env bp d =
     (case bp_handle bp of
        None \<Rightarrow> new_ProtocolBreakpoint
      | Some i \<Rightarrow>
          (let locations = tg_locations api i (dg_world d);
               b = new_ProtocolBreakpoint\<lparr>pb_id := Some i,
                 pb_message := (if bp_hardware_error bp \<noteq> [] then Some (bp_hardware_error bp) else None),
                 pb_verified := list_ex (\<lambda>l. sl_enabled l \<and> sl_resolved l) locations\<rparr>
           in case chosen_location locations of
                None \<Rightarrow> b
              | Some loc \<Rightarrow> if sl_address_valid loc then describe_location env loc b else b))"

section \<open>Source breakpoints\<close>

record SourceBreakpointRequest =
  rq_line :: u32
  rq_column :: "u32 option"
  rq_condition :: "string option"
  rq_hitCondition :: "string option"
  rq_logMessage :: "string option"

record SourceBreakpoint = Breakpoint +
  sb_log_message :: string
  sb_log_message_parts :: "LogMessagePart list"
  sb_line :: u32
  sb_column :: u32

definition new_SourceBreakpoint :: "SourceBreakpointRequest \<Rightarrow> SourceBreakpoint" where
  "new_SourceBreakpoint b = Breakpoint.extend (new_Breakpoint (rq_condition b) (rq_hitCondition b))
     (SourceBreakpoint.fields (case rq_logMessage b of None \<Rightarrow> [] | Some m \<Rightarrow> m) [] (rq_line b)
       (case rq_column b of None \<Rightarrow> LLDB_INVALID_COLUMN_NUMBER | Some c \<Rightarrow> c))"

text \<open>An assertion of the parse never fails, see \<open>Log_Message\<close>.\<close>

definition SourceBreakpoint_SetLogMessage ::
  "'w SBTarget_api \<Rightarrow> SourceBreakpoint \<times> 'w debugger \<Rightarrow> SourceBreakpoint \<times> 'w debugger" where
  "SourceBreakpoint_SetLogMessage api s =
     (let (bp, d) = s in
      case SetLogMessage (sb_log_message bp) of
        None \<Rightarrow> (bp, d)
      | Some (parts, Some e) \<Rightarrow>
          (bp\<lparr>sb_log_message_parts := parts\<rparr>, d\<lparr>dg_output := dg_output d @ SendOutput (log_error_output e)\<rparr>)
      | Some (parts, None) \<Rightarrow>
          (bp\<lparr>sb_log_message_parts := parts\<rparr>, with_handle bp (tg_set_callback api) d))"

definition create_breakpoint ::
  "'w SBTarget_api \<Rightarrow> creation \<Rightarrow> 'a Breakpoint_scheme \<times> 'w debugger \<Rightarrow> 'a Breakpoint_scheme \<times> 'w debugger" where
  "create_breakpoint api c s =
     (let (bp, d) = s; (i, w) = tg_create api c (dg_world d)
      in (bp\<lparr>bp_handle := Some i\<rparr>, d\<lparr>dg_world := w\<rparr>))"

definition CreatePathBreakpoint ::
  "'w SBTarget_api \<Rightarrow> Source \<Rightarrow> SourceBreakpoint \<times> 'w debugger \<Rightarrow> string option \<times> SourceBreakpoint \<times> 'w debugger" where
  "CreatePathBreakpoint api source s =
     (let path = (case src_path source of None \<Rightarrow> [] | Some p \<Rightarrow> p);
          (bp, d) = create_breakpoint api (ByLocation path (sb_line (fst s)) (sb_column (fst s))) s
      in if GetNumLocations api bp d = 0
         then (Some (''No code found at '' @ path @ '':'' @ dec_string (unat (sb_line bp))), bp, d)
         else (None, bp, d))"

definition CreateAssemblyBreakpointWithSourceReference ::
  "'w SBTarget_api \<Rightarrow> bp_env \<Rightarrow> s32 \<Rightarrow> SourceBreakpoint \<times> 'w debugger \<Rightarrow> string option \<times> SourceBreakpoint \<times> 'w debugger" where
  "CreateAssemblyBreakpointWithSourceReference api env source_reference s =
     (let (bp, d) = s in
      case be_source_reference env source_reference of
        None \<Rightarrow> (Some ''Invalid sourceReference.'', bp, d)
      | Some raw_addr \<Rightarrow>
          (case tg_resolve_symbol api raw_addr (dg_world d) of
             None \<Rightarrow> (Some ''Invalid sourceReference.'', bp, d)
           | Some None \<Rightarrow> (Some ''Breakpoints in assembly without a valid symbol are not supported yet.'', bp, d)
           | Some (Some start_address) \<Rightarrow>
               (let inst_list = tg_read_instructions api start_address (sb_line bp) (dg_world d)
                in if length inst_list < unat (sb_line bp) then (Some ''Invalid instruction list size.'', bp, d)
                   else (None, create_breakpoint api (ByAddress (inst_list ! (unat (sb_line bp) - 1))) s))))"

definition CreateAssemblyBreakpointWithPersistenceData ::
  "'w SBTarget_api \<Rightarrow> PersistenceData \<Rightarrow> SourceBreakpoint \<times> 'w debugger \<Rightarrow> string option \<times> SourceBreakpoint \<times> 'w debugger" where
  "CreateAssemblyBreakpointWithPersistenceData api p s =
     (None, create_breakpoint api (BySymbol (pd_module_path p) (pd_symbol_name p) (sb_line (fst s) - 1)) s)"

definition SourceBreakpoint_SetBreakpoint ::
  "'w SBTarget_api \<Rightarrow> bp_env \<Rightarrow> Source \<Rightarrow> SourceBreakpoint \<times> 'w debugger \<Rightarrow> string option \<times> SourceBreakpoint \<times> 'w debugger" where
  "SourceBreakpoint_SetBreakpoint api env source s =
     (if sb_line (fst s) = 0 then (Some ''Invalid line number.'', s)
      else
        (case (case src_sourceReference source of
                 Some r \<Rightarrow>
                   (case src_adapterData source of
                      Some (Some p) \<Rightarrow> CreateAssemblyBreakpointWithPersistenceData api p s
                    | _ \<Rightarrow> CreateAssemblyBreakpointWithSourceReference api env r s)
               | None \<Rightarrow> CreatePathBreakpoint api source s) of
           (Some error, s) \<Rightarrow> (Some error, s)
         | (None, s) \<Rightarrow>
             (let s = (if sb_log_message (fst s) \<noteq> [] then SourceBreakpoint_SetLogMessage api s else s)
              in (None, Breakpoint_SetBreakpoint api env s))))"

definition SourceBreakpoint_UpdateBreakpoint ::
  "'w SBTarget_api \<Rightarrow> bp_env \<Rightarrow> SourceBreakpoint \<Rightarrow> SourceBreakpoint \<times> 'w debugger \<Rightarrow> SourceBreakpoint \<times> 'w debugger" where
  "SourceBreakpoint_UpdateBreakpoint api env request_bp s =
     (let (bp, d) = s;
          s = (if sb_log_message bp \<noteq> sb_log_message request_bp
               then SourceBreakpoint_SetLogMessage api (bp\<lparr>sb_log_message := sb_log_message request_bp\<rparr>, d)
               else (bp, d))
      in BreakpointBase_UpdateBreakpoint api env request_bp s)"

section \<open>Function and instruction breakpoints\<close>

record FunctionBreakpointRequest =
  fq_name :: string
  fq_condition :: "string option"
  fq_hitCondition :: "string option"

record FunctionBreakpoint = Breakpoint +
  fb_function_name :: string

definition new_FunctionBreakpoint :: "FunctionBreakpointRequest \<Rightarrow> FunctionBreakpoint" where
  "new_FunctionBreakpoint b = Breakpoint.extend (new_Breakpoint (fq_condition b) (fq_hitCondition b))
     (FunctionBreakpoint.fields (fq_name b))"

definition FunctionBreakpoint_SetBreakpoint ::
  "'w SBTarget_api \<Rightarrow> bp_env \<Rightarrow> FunctionBreakpoint \<times> 'w debugger \<Rightarrow> FunctionBreakpoint \<times> 'w debugger" where
  "FunctionBreakpoint_SetBreakpoint api env s =
     (if fb_function_name (fst s) = [] then s
      else Breakpoint_SetBreakpoint api env (create_breakpoint api (ByName (fb_function_name (fst s))) s))"

record InstructionBreakpointRequest =
  iq_instructionReference :: string
  iq_offset :: "s32 option"
  iq_condition :: "string option"
  iq_hitCondition :: "string option"

record InstructionBreakpoint = Breakpoint +
  ib_instruction_address_reference :: u64
  ib_offset :: s32

definition new_InstructionBreakpoint :: "bp_env \<Rightarrow> InstructionBreakpointRequest \<Rightarrow> InstructionBreakpoint" where
  "new_InstructionBreakpoint env b =
     (let offset = (case iq_offset b of None \<Rightarrow> 0 | Some n \<Rightarrow> n);
          reference = (case be_to_integer_base env 0 (iq_instructionReference b) of None \<Rightarrow> LLDB_INVALID_ADDRESS | Some a \<Rightarrow> a)
      in Breakpoint.extend (new_Breakpoint (iq_condition b) (iq_hitCondition b))
           (InstructionBreakpoint.fields (reference + scast offset) offset))"

definition InstructionBreakpoint_SetBreakpoint ::
  "'w SBTarget_api \<Rightarrow> bp_env \<Rightarrow> InstructionBreakpoint \<times> 'w debugger \<Rightarrow> InstructionBreakpoint \<times> 'w debugger" where
  "InstructionBreakpoint_SetBreakpoint api env s =
     Breakpoint_SetBreakpoint api env (create_breakpoint api (ByAddress (ib_instruction_address_reference (fst s))) s)"

section \<open>Exception breakpoints\<close>

datatype ExceptionKind = eExceptionKindCatch | eExceptionKindThrow

record ExceptionBreakpoint =
  eb_filter :: string
  eb_label :: string
  eb_language :: nat
  eb_kind :: ExceptionKind
  eb_handle :: "break_id option"

definition ExceptionBreakpoint_SetBreakpoint ::
  "'w SBTarget_api \<Rightarrow> string \<Rightarrow> ExceptionBreakpoint \<times> 'w debugger \<Rightarrow> ProtocolBreakpoint \<times> ExceptionBreakpoint \<times> 'w debugger" where
  "ExceptionBreakpoint_SetBreakpoint api condition s =
     (let (bp, d) = s;
          (i, bp, w) =
            (case eb_handle bp of
               Some i \<Rightarrow> (i, bp, dg_world d)
             | None \<Rightarrow>
                 (let (i, w) = tg_create api (ForException (eb_language bp) (eb_kind bp = eExceptionKindCatch) (eb_kind bp = eExceptionKindThrow)) (dg_world d)
                  in (i, bp\<lparr>eb_handle := Some i\<rparr>, tg_add_name api i ''dap'' w)));
          w = tg_set_condition api i condition w
      in (new_ProtocolBreakpoint\<lparr>pb_id := Some i, pb_verified := True\<rparr>, bp, d\<lparr>dg_world := w\<rparr>))"

definition ExceptionBreakpoint_ClearBreakpoint ::
  "'w SBTarget_api \<Rightarrow> ExceptionBreakpoint \<times> 'w debugger \<Rightarrow> ExceptionBreakpoint \<times> 'w debugger" where
  "ExceptionBreakpoint_ClearBreakpoint api s =
     (let (bp, d) = s in
      case eb_handle bp of
        None \<Rightarrow> (bp, d)
      | Some i \<Rightarrow> (bp\<lparr>eb_handle := None\<rparr>, on_world (tg_delete api i) d))"

section \<open>Watchpoints\<close>

datatype DataBreakpointAccessType =
  eDataBreakpointAccessTypeRead | eDataBreakpointAccessTypeWrite | eDataBreakpointAccessTypeReadWrite

record DataBreakpoint =
  db_dataId :: string
  db_accessType :: "DataBreakpointAccessType option"
  db_condition :: "string option"
  db_hitCondition :: "string option"

record Watchpoint =
  wp_addr :: u64
  wp_size :: u64
  wp_read :: bool
  wp_write :: bool
  wp_condition :: string
  wp_hit_condition :: string
  wp_handle :: "break_id option"
  wp_error :: "string option"

text \<open>\<open>StringRef::split\<close> at the first slash.  A part that is not a number leaves its member as it was.\<close>

definition split_slash :: "string \<Rightarrow> string \<times> string" where
  "split_slash s = (takeWhile (\<lambda>c. c \<noteq> CHR ''/'') s, drop 1 (dropWhile (\<lambda>c. c \<noteq> CHR ''/'') s))"

definition new_Watchpoint :: "bp_env \<Rightarrow> DataBreakpoint \<Rightarrow> Watchpoint" where
  "new_Watchpoint env b =
     (let (addr_str, size_str) = split_slash (db_dataId b)
      in \<lparr>wp_addr = (case be_to_integer_base env 16 addr_str of None \<Rightarrow> be_uninitialised env | Some a \<Rightarrow> a),
          wp_size = (case be_to_integer env size_str of None \<Rightarrow> be_uninitialised env | Some n \<Rightarrow> n),
          wp_read = (db_accessType b \<noteq> Some eDataBreakpointAccessTypeWrite),
          wp_write = (db_accessType b \<noteq> Some eDataBreakpointAccessTypeRead),
          wp_condition = (case db_condition b of None \<Rightarrow> [] | Some c \<Rightarrow> c),
          wp_hit_condition = (case db_hitCondition b of None \<Rightarrow> [] | Some c \<Rightarrow> c),
          wp_handle = None, wp_error = None\<rparr>)"

text \<open>What the target offers for watchpoints.  Creating one gives a handle or an error.\<close>

record 'w watch_api =
  wa_delete_all :: "'w \<Rightarrow> 'w"
  wa_create :: "u64 \<Rightarrow> u64 \<Rightarrow> bool \<Rightarrow> bool \<Rightarrow> 'w \<Rightarrow> (string + break_id) \<times> 'w"
  wa_set_condition :: "break_id \<Rightarrow> string \<Rightarrow> 'w \<Rightarrow> 'w"
  wa_set_ignore_count :: "break_id \<Rightarrow> u32 \<Rightarrow> 'w \<Rightarrow> 'w"

definition SetWatchpoint :: "'w watch_api \<Rightarrow> bp_env \<Rightarrow> Watchpoint \<times> 'w \<Rightarrow> Watchpoint \<times> 'w" where
  "SetWatchpoint api env s =
     (let (wp, w) = s in
      case wa_create api (wp_addr wp) (wp_size wp) (wp_read wp) (wp_write wp) w of
        (Inl error, w) \<Rightarrow> (wp\<lparr>wp_error := Some error\<rparr>, w)
      | (Inr i, w) \<Rightarrow>
          (let w = (if wp_condition wp \<noteq> [] then wa_set_condition api i (wp_condition wp) w else w);
               w = (if wp_hit_condition wp \<noteq> []
                    then (case be_to_integer env (wp_hit_condition wp) of
                            Some hitCount \<Rightarrow> wa_set_ignore_count api i (ucast (hitCount - 1)) w
                          | None \<Rightarrow> w)
                    else w)
           in (wp\<lparr>wp_handle := Some i, wp_error := None\<rparr>, w)))"

text \<open>Without an attempt to set it the error object is not valid, and the watchpoint is not verified.\<close>

definition Watchpoint_ToProtocolBreakpoint :: "Watchpoint \<Rightarrow> ProtocolBreakpoint" where
  "Watchpoint_ToProtocolBreakpoint wp =
     (case wp_error wp of
        Some e \<Rightarrow> new_ProtocolBreakpoint\<lparr>pb_message := Some e\<rparr>
      | None \<Rightarrow>
          (case wp_handle wp of
             None \<Rightarrow> new_ProtocolBreakpoint
           | Some i \<Rightarrow> new_ProtocolBreakpoint\<lparr>pb_verified := True, pb_id := Some i\<rparr>))"

section \<open>Breakpoints that exist\<close>

text \<open>What is relied on of LLDB: a new breakpoint gets an identifier of its own, deleting removes one, and
  configuring neither creates nor removes any.\<close>

definition SBTarget_laws :: "'w SBTarget_api \<Rightarrow> ('w \<Rightarrow> break_id set) \<Rightarrow> bool" where
  "SBTarget_laws api live \<longleftrightarrow>
     (\<forall>c w i w'. tg_create api c w = (i, w') \<longrightarrow> i \<notin> live w \<and> live w' = insert i (live w)) \<and>
     (\<forall>i w. live (tg_delete api i w) = live w - {i}) \<and>
     (\<forall>i n b w. live (tg_set_enabled api i n b w) = live w) \<and>
     (\<forall>i b w e w'. tg_set_hardware api i b w = (e, w') \<longrightarrow> live w' = live w) \<and>
     (\<forall>i n w. live (tg_add_name api i n w) = live w) \<and>
     (\<forall>i c w. live (tg_set_condition api i c w) = live w) \<and>
     (\<forall>i n w. live (tg_set_ignore_count api i n w) = live w) \<and>
     (\<forall>i w. live (tg_set_callback api i w) = live w)"

definition live_ids :: "('w \<Rightarrow> break_id set) \<Rightarrow> 'w debugger \<Rightarrow> break_id set" where
  "live_ids live d = live (dg_world d)"

named_theorems live_simps \<open>operations that neither create nor delete a breakpoint\<close>

lemma live_ids_frame [live_simps]:
  "live_ids live (d\<lparr>dg_output := out\<rparr>) = live_ids live d" "live_ids live (d\<lparr>dg_diagnostics := out\<rparr>) = live_ids live d"
  "live_ids live (d\<lparr>dg_world := w\<rparr>) = live w"
  by (simp_all add: live_ids_def)

lemma live_with_handle: "(\<And>i w. live (f i w) = live w) \<Longrightarrow> live_ids live (with_handle bp f d) = live_ids live d"
  by (simp add: with_handle_def on_world_def live_ids_def split: option.splits)

lemma live_SetCondition [live_simps]: "SBTarget_laws api live \<Longrightarrow> live_ids live (SetCondition api bp d) = live_ids live d"
  by (simp add: SetCondition_def live_with_handle SBTarget_laws_def)

lemma live_SetHitCondition [live_simps]: "SBTarget_laws api live \<Longrightarrow> live_ids live (SetHitCondition api env bp d) = live_ids live d"
  by (simp add: SetHitCondition_def live_with_handle SBTarget_laws_def split: option.splits)

lemma live_PruneNonCodeLocations [live_simps]:
  assumes "SBTarget_laws api live"
  shows "live_ids live (PruneNonCodeLocations api env bp d) = live_ids live d"
proof -
  have "live (prune_location api program i n w) = live w" for program i n w
    using assms by (simp add: prune_location_def Let_def SBTarget_laws_def)
  then have "live (fold (prune_location api program i) ns w) = live w" for program i ns w
    by (induction ns arbitrary: w) simp_all
  then show ?thesis by (simp add: PruneNonCodeLocations_def live_with_handle split: option.splits)
qed

lemma set_hardware_live:
  assumes "SBTarget_laws api live" and "set_hardware api env hw bp d = (bp', d')"
  shows "live_ids live d' = live_ids live d" "bp_handle bp' = bp_handle bp"
  using assms by (auto simp: set_hardware_def SBTarget_laws_def live_ids_def Let_def split: option.splits prod.splits bool.splits)

lemma Breakpoint_SetBreakpoint_live:
  assumes "SBTarget_laws api live" and "Breakpoint_SetBreakpoint api env (bp, d) = (bp', d')"
  shows "live_ids live d' = live_ids live d" "bp_handle bp' = bp_handle bp"
proof -
  let ?d = "PruneNonCodeLocations api env bp d"
  let ?hw = "case be_require_hardware env of Some c \<Rightarrow> c | None \<Rightarrow> RequiresHardware api (be_memory env) bp ?d"
  obtain bp1 d1 where hw: "set_hardware api env ?hw bp ?d = (bp1, d1)" by fastforce
  note keep = set_hardware_live [OF assms(1) hw]
  have name: "live_ids live (with_handle bp1 (\<lambda>i. tg_add_name api i ''dap'') d1) = live_ids live d1"
    using assms(1) by (simp add: live_with_handle SBTarget_laws_def)
  show "bp_handle bp' = bp_handle bp" using assms(2) keep(2) by (simp add: Breakpoint_SetBreakpoint_def Let_def hw)
  show "live_ids live d' = live_ids live d"
    using assms keep(1) name by (auto simp: Breakpoint_SetBreakpoint_def Let_def hw live_simps split: if_split_asm)
qed

lemma BreakpointBase_UpdateBreakpoint_live:
  assumes "SBTarget_laws api live" and "BreakpointBase_UpdateBreakpoint api env request_bp (bp, d) = (bp', d')"
  shows "live_ids live d' = live_ids live d" "bp_handle bp' = bp_handle bp"
  using assms by (auto simp: BreakpointBase_UpdateBreakpoint_def Let_def live_simps split: if_splits)

lemma create_breakpoint_live:
  assumes "SBTarget_laws api live" and "create_breakpoint api c (bp, d) = (bp', d')"
  shows "\<exists>i. bp_handle bp' = Some i \<and> i \<notin> live_ids live d \<and> live_ids live d' = insert i (live_ids live d)"
proof -
  obtain i w where c: "tg_create api c (dg_world d) = (i, w)" by fastforce
  then have "i \<notin> live (dg_world d) \<and> live w = insert i (live (dg_world d))" using assms(1) by (simp add: SBTarget_laws_def)
  then show ?thesis using assms(2) by (auto simp: create_breakpoint_def c live_ids_def)
qed

lemma SourceBreakpoint_SetLogMessage_live:
  assumes "SBTarget_laws api live" and "SourceBreakpoint_SetLogMessage api (bp, d) = (bp', d')"
  shows "live_ids live d' = live_ids live d" "bp_handle bp' = bp_handle bp"
proof -
  have cb: "live_ids live (with_handle bp (tg_set_callback api) d) = live_ids live d"
    using assms(1) by (simp add: live_with_handle SBTarget_laws_def)
  have "live_ids live d' = live_ids live d \<and> bp_handle bp' = bp_handle bp"
  proof (cases "SetLogMessage (sb_log_message bp)")
    case None
    then show ?thesis using assms(2) by (simp add: SourceBreakpoint_SetLogMessage_def)
  next
    case (Some r)
    obtain parts e where r: "r = (parts, e)" by (cases r)
    have "SourceBreakpoint_SetLogMessage api (bp, d) = (bp\<lparr>sb_log_message_parts := parts\<rparr>,
        case e of None \<Rightarrow> with_handle bp (tg_set_callback api) d
        | Some m \<Rightarrow> d\<lparr>dg_output := dg_output d @ SendOutput (log_error_output m)\<rparr>)"
      by (cases e) (simp_all add: SourceBreakpoint_SetLogMessage_def Some r)
    with assms(2) have "bp' = bp\<lparr>sb_log_message_parts := parts\<rparr>"
      and "d' = (case e of None \<Rightarrow> with_handle bp (tg_set_callback api) d
        | Some m \<Rightarrow> d\<lparr>dg_output := dg_output d @ SendOutput (log_error_output m)\<rparr>)" by simp_all
    then show ?thesis using cb by (cases e) (simp_all add: live_simps)
  qed
  then show "live_ids live d' = live_ids live d" "bp_handle bp' = bp_handle bp" by simp_all
qed

lemma SourceBreakpoint_UpdateBreakpoint_live:
  assumes "SBTarget_laws api live" and "SourceBreakpoint_UpdateBreakpoint api env request_bp (bp, d) = (bp', d')"
  shows "live_ids live d' = live_ids live d" "bp_handle bp' = bp_handle bp"
proof -
  obtain bp1 d1 where s1: "(if sb_log_message bp \<noteq> sb_log_message request_bp
       then SourceBreakpoint_SetLogMessage api (bp\<lparr>sb_log_message := sb_log_message request_bp\<rparr>, d) else (bp, d)) = (bp1, d1)"
    by fastforce
  have "live_ids live d1 = live_ids live d \<and> bp_handle bp1 = bp_handle bp"
    using s1 SourceBreakpoint_SetLogMessage_live [OF assms(1)] by (auto split: if_splits)
  moreover have "BreakpointBase_UpdateBreakpoint api env request_bp (bp1, d1) = (bp', d')"
    using assms(2) by (simp add: SourceBreakpoint_UpdateBreakpoint_def Let_def s1)
  ultimately show "live_ids live d' = live_ids live d" "bp_handle bp' = bp_handle bp"
    using BreakpointBase_UpdateBreakpoint_live [OF assms(1)] by metis+
qed

text \<open>Creating the breakpoint of a source: on success one new breakpoint exists, the one of the handle.  On
  failure one may exist as well: a path without code leaves its breakpoint behind.\<close>

definition created :: "('w \<Rightarrow> break_id set) \<Rightarrow> 'w debugger \<Rightarrow> 'w debugger \<Rightarrow> break_id option \<Rightarrow> bool" where
  "created live d d' h \<longleftrightarrow> (\<exists>i. h = Some i \<and> i \<notin> live_ids live d \<and> live_ids live d' = insert i (live_ids live d))"

lemma created_same: "created live d d1 h \<Longrightarrow> live_ids live d2 = live_ids live d1 \<Longrightarrow> created live d d2 h"
  by (simp add: created_def)

lemma create_breakpoint_created:
  "SBTarget_laws api live \<Longrightarrow> create_breakpoint api c (bp, d) = (bp', d') \<Longrightarrow> created live d d' (bp_handle bp')"
  unfolding created_def by (rule create_breakpoint_live)

lemma CreatePathBreakpoint_created:
  "SBTarget_laws api live \<Longrightarrow> CreatePathBreakpoint api source (bp, d) = (e, bp', d') \<Longrightarrow> created live d d' (bp_handle bp')"
  by (auto simp: CreatePathBreakpoint_def Let_def split: prod.splits if_splits intro: create_breakpoint_created)

lemma CreateAssembly_created:
  assumes "SBTarget_laws api live"
  shows "CreateAssemblyBreakpointWithSourceReference api env r (bp, d) = (e, bp', d') \<Longrightarrow>
      (e = None \<longrightarrow> created live d d' (bp_handle bp')) \<and> (e \<noteq> None \<longrightarrow> d' = d)"
    and "CreateAssemblyBreakpointWithPersistenceData api p (bp, d) = (e, bp', d') \<Longrightarrow> created live d d' (bp_handle bp')"
  using create_breakpoint_created [OF assms]
  by (auto simp: CreateAssemblyBreakpointWithSourceReference_def CreateAssemblyBreakpointWithPersistenceData_def Let_def
      split: option.splits if_splits)

lemma SourceBreakpoint_SetBreakpoint_live:
  assumes laws: "SBTarget_laws api live" and set: "SourceBreakpoint_SetBreakpoint api env source (bp, d) = (e, bp', d')"
  shows "(e = None \<longrightarrow> created live d d' (bp_handle bp')) \<and> (e \<noteq> None \<longrightarrow> live_ids live d' = live_ids live d \<or> created live d d' (bp_handle bp'))"
proof (cases "sb_line bp = 0")
  case True
  then show ?thesis using set by (auto simp: SourceBreakpoint_SetBreakpoint_def)
next
  case False
  obtain e1 bp1 d1 where c: "(case src_sourceReference source of
       Some r \<Rightarrow> (case src_adapterData source of
           Some (Some p) \<Rightarrow> CreateAssemblyBreakpointWithPersistenceData api p (bp, d)
         | _ \<Rightarrow> CreateAssemblyBreakpointWithSourceReference api env r (bp, d))
     | None \<Rightarrow> CreatePathBreakpoint api source (bp, d)) = (e1, bp1, d1)" by (rule prod_cases3)
  have c1: "(e1 = None \<longrightarrow> created live d d1 (bp_handle bp1)) \<and> (e1 \<noteq> None \<longrightarrow> live_ids live d1 = live_ids live d \<or> created live d d1 (bp_handle bp1))"
  proof (cases "src_sourceReference source")
    case None
    then show ?thesis using c CreatePathBreakpoint_created [OF laws, of source bp d e1 bp1 d1] by simp
  next
    case (Some r)
    show ?thesis
    proof (cases "src_adapterData source = None \<or> src_adapterData source = Some None")
      case True
      then have "CreateAssemblyBreakpointWithSourceReference api env r (bp, d) = (e1, bp1, d1)" using c Some by auto
      from CreateAssembly_created(1) [OF laws this] show ?thesis by auto
    next
      case False
      then obtain p where "CreateAssemblyBreakpointWithPersistenceData api p (bp, d) = (e1, bp1, d1)" using c Some by auto
      from CreateAssembly_created(2) [OF laws this] show ?thesis by auto
    qed
  qed
  show ?thesis
  proof (cases e1)
    case (Some m)
    then show ?thesis using set False c c1 by (auto simp: SourceBreakpoint_SetBreakpoint_def)
  next
    case None
    obtain bp2 d2 where l: "(if sb_log_message bp1 \<noteq> [] then SourceBreakpoint_SetLogMessage api (bp1, d1) else (bp1, d1)) = (bp2, d2)" by fastforce
    then have "live_ids live d2 = live_ids live d1 \<and> bp_handle bp2 = bp_handle bp1"
      using SourceBreakpoint_SetLogMessage_live [OF laws] by (auto split: if_splits)
    moreover have f: "e = None" "Breakpoint_SetBreakpoint api env (bp2, d2) = (bp', d')"
      using set False c l None by (auto simp: SourceBreakpoint_SetBreakpoint_def Let_def)
    ultimately show ?thesis
      using c1 None Breakpoint_SetBreakpoint_live [OF laws f(2)] by (auto intro: created_same)
  qed
qed

lemma FunctionBreakpoint_SetBreakpoint_live:
  assumes laws: "SBTarget_laws api live" and set: "FunctionBreakpoint_SetBreakpoint api env (bp, d) = (bp', d')"
  shows "if fb_function_name bp = [] then bp' = bp \<and> d' = d else created live d d' (bp_handle bp')"
proof (cases "fb_function_name bp = []")
  case False
  obtain bp1 d1 where c: "create_breakpoint api (ByName (fb_function_name bp)) (bp, d) = (bp1, d1)" by fastforce
  then have "Breakpoint_SetBreakpoint api env (bp1, d1) = (bp', d')" using set False by (simp add: FunctionBreakpoint_SetBreakpoint_def)
  from Breakpoint_SetBreakpoint_live [OF laws this] create_breakpoint_created [OF laws c] False
  show ?thesis by (auto intro: created_same)
qed (use set in \<open>simp add: FunctionBreakpoint_SetBreakpoint_def\<close>)

lemma InstructionBreakpoint_SetBreakpoint_live:
  assumes laws: "SBTarget_laws api live" and set: "InstructionBreakpoint_SetBreakpoint api env (bp, d) = (bp', d')"
  shows "created live d d' (bp_handle bp')"
proof -
  obtain bp1 d1 where c: "create_breakpoint api (ByAddress (ib_instruction_address_reference bp)) (bp, d) = (bp1, d1)" by fastforce
  then have "Breakpoint_SetBreakpoint api env (bp1, d1) = (bp', d')" using set by (simp add: InstructionBreakpoint_SetBreakpoint_def)
  from Breakpoint_SetBreakpoint_live [OF laws this] create_breakpoint_created [OF laws c]
  show ?thesis by (auto intro: created_same)
qed

section \<open>A log message that is taken back\<close>

text \<open>Without its message a breakpoint should stop again.  The update installs the callback once more, with
  no parts: a hit prints nothing, and the callback tells LLDB not to stop.\<close>

lemma cleared_log_message_keeps_callback:
  assumes "sb_log_message bp \<noteq> []" and "sb_log_message request_bp = []" and "bp_handle bp = Some i"
    and "bp_condition request_bp = bp_condition bp" and "bp_hit_condition request_bp = bp_hit_condition bp"
  shows "dg_world (snd (SourceBreakpoint_UpdateBreakpoint api env request_bp (bp, d))) = tg_set_callback api i (dg_world d)"
    and "sb_log_message_parts (fst (SourceBreakpoint_UpdateBreakpoint api env request_bp (bp, d))) = []"
    and "BreakpointHitCallback eval_expr [] = []"
proof -
  have "SetLogMessage [] = Some ([], None)" by (simp add: SetLogMessage_def)
  then show "dg_world (snd (SourceBreakpoint_UpdateBreakpoint api env request_bp (bp, d))) = tg_set_callback api i (dg_world d)"
    and "sb_log_message_parts (fst (SourceBreakpoint_UpdateBreakpoint api env request_bp (bp, d))) = []"
    using assms by (simp_all add: SourceBreakpoint_UpdateBreakpoint_def SourceBreakpoint_SetLogMessage_def
        BreakpointBase_UpdateBreakpoint_def with_handle_def on_world_def Let_def)
  show "BreakpointHitCallback eval_expr [] = []" by (simp add: BreakpointHitCallback_def SendOutput_def)
qed

text \<open>A hit condition that is taken back stays in force, and 0 ignores nearly all hits.\<close>

lemma cleared_hit_condition_kept:
  "be_to_integer env (bp_hit_condition bp) = None \<Longrightarrow> SetHitCondition api env bp d = d"
  "be_to_integer env (bp_hit_condition bp) = Some 0 \<Longrightarrow> bp_handle bp = Some i \<Longrightarrow>
     dg_world (SetHitCondition api env bp d) = tg_set_ignore_count api i (- 1) (dg_world d)"
proof -
  have "(ucast (- 1 :: u64) :: u32) = - 1" by (rule bit_word_eqI) (simp add: bit_ucast_iff)
  then show "be_to_integer env (bp_hit_condition bp) = Some 0 \<Longrightarrow> bp_handle bp = Some i \<Longrightarrow>
     dg_world (SetHitCondition api env bp d) = tg_set_ignore_count api i (- 1) (dg_world d)"
    by (simp add: SetHitCondition_def with_handle_def on_world_def)
qed (simp add: SetHitCondition_def)

end
