(* ===== verification/Breakpoint_Table.thy ===== *)
theory Breakpoint_Table
  imports Breakpoints "HOL-Library.Product_Lexorder" "HOL-Library.Option_ord"
begin

text \<open>
  The tables in which \<open>core/components/breakpoint_manager\<close> keeps its breakpoints, and the contract that its
  requests share.  A request carries the whole list the client wants: breakpoints not yet known are set,
  known ones are updated, the others are deleted.  \<open>std::map\<close> and the hash maps are association lists, the
  first in the order of its keys.
\<close>

section \<open>Tables of breakpoints\<close>

definition try_emplace :: "'k::linorder \<Rightarrow> 'b \<Rightarrow> ('k \<times> 'b) list \<Rightarrow> ('k \<times> 'b) list" where
  "try_emplace k b t = (if map_of t k = None then insort_key fst (k, b) t else t)"

text \<open>The same on a hash table, whose order is not used.\<close>

definition hash_emplace :: "'k \<Rightarrow> 'b \<Rightarrow> ('k \<times> 'b) list \<Rightarrow> ('k \<times> 'b) list" where
  "hash_emplace k b t = (if map_of t k = None then (k, b) # t else t)"

definition replace_entry :: "'k \<Rightarrow> 'b \<Rightarrow> ('k \<times> 'b) list \<Rightarrow> ('k \<times> 'b) list" where
  "replace_entry k b t = map (\<lambda>e. if fst e = k then (k, b) else e) t"

definition erase_entry :: "'k \<Rightarrow> ('k \<times> 'b) list \<Rightarrow> ('k \<times> 'b) list" where
  "erase_entry k t = filter (\<lambda>e. fst e \<noteq> k) t"

lemma map_of_insort_key: "map_of t k = None \<Longrightarrow> map_of (insort_key fst (k, b) t) = (map_of t)(k \<mapsto> b)"
  by (induction t) (auto split: if_splits)

lemma map_of_try_emplace: "map_of (try_emplace k b t) = (if map_of t k = None then (map_of t)(k \<mapsto> b) else map_of t)"
  by (simp add: try_emplace_def map_of_insort_key)

lemma map_of_hash_emplace: "map_of (hash_emplace k b t) = (if map_of t k = None then (map_of t)(k \<mapsto> b) else map_of t)"
  by (simp add: hash_emplace_def)

lemma hash_emplace_keys: "distinct (map fst t) \<Longrightarrow> distinct (map fst (hash_emplace k b t))"
  by (simp add: hash_emplace_def map_of_eq_None_iff)

lemma map_of_replace_entry:
  "map_of (replace_entry k b t) x = (if x = k \<and> map_of t k \<noteq> None then Some b else map_of t x)"
  by (induction t) (auto simp: replace_entry_def)

lemma map_of_erase_entry: "map_of (erase_entry k t) = (map_of t)(k := None)"
  by (induction t) (auto simp: erase_entry_def)

lemma key_in_table: "k \<in> set (map fst t) \<longleftrightarrow> map_of t k \<noteq> None"
  by (simp add: map_of_eq_None_iff)

lemma try_emplace_keys:
  assumes "distinct (map fst t)"
  shows "distinct (map fst (try_emplace k b t))"
proof (cases "map_of t k")
  case None
  have "mset (map fst (insort_key fst (k, b) t)) = add_mset k (mset (map fst t))"
    by (induction t) auto
  moreover have "k \<notin> set (map fst t)" using None by (simp add: map_of_eq_None_iff)
  ultimately show ?thesis using assms None
    by (metis distinct.simps(2) mset.simps(2) mset_eq_imp_distinct_iff try_emplace_def)
qed (use assms in \<open>simp add: try_emplace_def\<close>)

lemma replace_entry_keys: "distinct (map fst t) \<Longrightarrow> distinct (map fst (replace_entry k b t))"
proof -
  have "map fst (replace_entry k b t) = map fst t" by (auto simp: replace_entry_def)
  then show "distinct (map fst t) \<Longrightarrow> distinct (map fst (replace_entry k b t))" by simp
qed

lemma erase_entry_keys: "distinct (map fst t) \<Longrightarrow> distinct (map fst (erase_entry k t))"
  by (simp add: erase_entry_def distinct_map_filter)

lemmas table_keys = try_emplace_keys hash_emplace_keys replace_entry_keys erase_entry_keys

section \<open>The entries of a request, in order\<close>

fun request_loop :: "('r \<Rightarrow> 's \<Rightarrow> 'p \<times> 's) \<Rightarrow> 'r list \<Rightarrow> 's \<Rightarrow> 'p list \<times> 's" where
  "request_loop step [] s = ([], s)"
| "request_loop step (r # rs) s = (let (p, s) = step r s; (ps, s) = request_loop step rs s in (p # ps, s))"

lemma request_loop_state: "snd (request_loop step rs s) = fold (\<lambda>r s. snd (step r s)) rs s"
  by (induction rs arbitrary: s) (simp_all add: Let_def split_beta)

lemma request_loop_fold: "request_loop step rs s = (ps, s') \<Longrightarrow> fold (\<lambda>r s. snd (step r s)) rs s = s'"
  using request_loop_state [of step rs s] by simp

lemma request_loop_length: "request_loop step rs s = (ps, s') \<Longrightarrow> length ps = length rs"
  by (induction rs arbitrary: s ps) (auto simp: Let_def split_beta)

section \<open>Bringing a table in line with a request\<close>

text \<open>The identifiers a table holds; a table is sound when its keys are distinct, no two entries hold the
  same identifier, and every identifier it holds exists in the target.\<close>

definition id_at :: "('b \<Rightarrow> break_id option) \<Rightarrow> ('k \<times> 'b) list \<Rightarrow> 'k \<Rightarrow> break_id option" where
  "id_at handle t k = (case map_of t k of None \<Rightarrow> None | Some b \<Rightarrow> handle b)"

definition held :: "('b \<Rightarrow> break_id option) \<Rightarrow> ('k \<times> 'b) list \<Rightarrow> break_id set" where
  "held handle t = {i. \<exists>k. id_at handle t k = Some i}"

definition table_ok :: "('b \<Rightarrow> break_id option) \<Rightarrow> ('k \<times> 'b) list \<Rightarrow> break_id set \<Rightarrow> bool" where
  "table_ok handle t live \<longleftrightarrow> distinct (map fst t) \<and> held handle t \<subseteq> live \<and>
     (\<forall>k k' i. id_at handle t k = Some i \<and> id_at handle t k' = Some i \<longrightarrow> k = k')"

text \<open>
  The contract of one entry of a request, for the three kinds of breakpoints that are replaced this
  way, under the laws of the target: a known key keeps its breakpoint, an unknown one gets a new breakpoint or stays unknown; other
  keys are not touched.  Removing deletes exactly the breakpoint of the key.
\<close>

locale breakpoint_diff =
  fixes laws :: bool
    and key :: "'r \<Rightarrow> 'k"
    and handle :: "'b \<Rightarrow> break_id option"
    and ids :: "'d \<Rightarrow> break_id set"
    and enter :: "'r \<Rightarrow> ('k \<times> 'b) list \<times> 'd \<Rightarrow> ('k \<times> 'b) list \<times> 'd"
    and remove :: "'k \<Rightarrow> ('k \<times> 'b) list \<times> 'd \<Rightarrow> ('k \<times> 'b) list \<times> 'd"
  assumes enter_known: "laws \<Longrightarrow> map_of t (key r) = Some b \<Longrightarrow> enter r (t, d) = (t', d') \<Longrightarrow>
      \<exists>b'. handle b' = handle b \<and> map_of t' = (map_of t)(key r \<mapsto> b') \<and> ids d' = ids d"
    and enter_new: "laws \<Longrightarrow> map_of t (key r) = None \<Longrightarrow> enter r (t, d) = (t', d') \<Longrightarrow>
      ids d \<subseteq> ids d' \<and> (map_of t' = map_of t \<or>
        (\<exists>b'. map_of t' = (map_of t)(key r \<mapsto> b') \<and> set_option (handle b') \<subseteq> ids d' - ids d))"
    and enter_distinct: "distinct (map fst t) \<Longrightarrow> enter r (t, d) = (t', d') \<Longrightarrow> distinct (map fst t')"
    and remove_one: "laws \<Longrightarrow> remove k (t, d) = (t', d') \<Longrightarrow> map_of t' = (map_of t)(k := None) \<and>
      ids d' = ids d - (case map_of t k of None \<Rightarrow> {} | Some b \<Rightarrow> set_option (handle b))"
    and remove_distinct: "distinct (map fst t) \<Longrightarrow> remove k (t, d) = (t', d') \<Longrightarrow> distinct (map fst t')"
begin

text \<open>What entering a list of requests does to the table.\<close>

definition entered :: "'k set \<Rightarrow> ('k \<times> 'b) list \<times> 'd \<Rightarrow> ('k \<times> 'b) list \<times> 'd \<Rightarrow> bool" where
  "entered ks s s' \<longleftrightarrow> (case (s, s') of ((t, d), (t', d')) \<Rightarrow>
     table_ok handle t' (ids d') \<and> ids d \<subseteq> ids d' \<and> held handle t' \<inter> ids d \<subseteq> held handle t \<and>
     (\<forall>k. k \<notin> ks \<longrightarrow> map_of t' k = map_of t k) \<and>
     (\<forall>k. map_of t k \<noteq> None \<longrightarrow> map_of t' k \<noteq> None \<and> id_at handle t' k = id_at handle t k))"

lemma entered_held: "entered ks (t, d) (t', d') \<Longrightarrow> held handle t \<subseteq> held handle t'"
proof
  assume e: "entered ks (t, d) (t', d')"
  fix i assume "i \<in> held handle t"
  then obtain k where k: "id_at handle t k = Some i" by (auto simp: held_def)
  then have "map_of t k \<noteq> None" by (metis id_at_def option.case(1) option.distinct(1))
  then have "id_at handle t' k = Some i" using e k by (simp add: entered_def)
  then show "i \<in> held handle t'" by (auto simp: held_def)
qed

lemma entered_refl: "table_ok handle t (ids d) \<Longrightarrow> entered ks (t, d) (t, d)"
  by (simp add: entered_def)

lemma entered_trans:
  assumes "entered ks (t, d) (t1, d1)" and "entered ks' (t1, d1) (t2, d2)"
  shows "entered (ks \<union> ks') (t, d) (t2, d2)"
  using assms unfolding entered_def case_prod_conv by (intro conjI allI impI) auto

lemma entered_enter:
  assumes laws: "laws" and ok: "table_ok handle t (ids d)" and st: "enter r (t, d) = (t', d')"
  shows "entered {key r} (t, d) (t', d')"
proof (cases "map_of t (key r)")
  case (Some b)
  from enter_known [OF laws Some st] obtain b' where b': "handle b' = handle b" "map_of t' = (map_of t)(key r \<mapsto> b')" "ids d' = ids d" by blast
  have same: "id_at handle t' k = id_at handle t k" for k using b' Some by (simp add: id_at_def)
  then have "held handle t' = held handle t" by (simp add: held_def)
  then show ?thesis using ok same b' enter_distinct [OF _ st] by (simp add: entered_def table_ok_def)
next
  case None
  note new = enter_new [OF laws None st]
  show ?thesis
  proof (cases "map_of t' = map_of t")
    case True
    then have same: "id_at handle t' k = id_at handle t k" for k by (simp add: id_at_def)
    then have "held handle t' = held handle t" by (simp add: held_def)
    then show ?thesis using True same new ok enter_distinct [OF _ st] by (auto simp: entered_def table_ok_def)
  next
    case False
    with new obtain b' where b': "map_of t' = (map_of t)(key r \<mapsto> b')" "set_option (handle b') \<subseteq> ids d' - ids d" "ids d \<subseteq> ids d'" by blast
    have at: "id_at handle t' k = (if k = key r then handle b' else id_at handle t k)" for k using b'(1) by (simp add: id_at_def)
    have old: "id_at handle t k = Some i \<Longrightarrow> i \<in> ids d" for k i using ok by (auto simp: table_ok_def held_def)
    have fresh: "handle b' = Some i \<Longrightarrow> i \<in> ids d' \<and> i \<notin> ids d" for i using b'(2) by auto
    have "held handle t' \<subseteq> ids d'" using old fresh b'(3) by (auto simp: held_def at split: if_splits)
    moreover have "held handle t' \<inter> ids d \<subseteq> held handle t" using fresh by (auto simp: held_def at split: if_splits)
    moreover have "k = k'" if "id_at handle t' k = Some i" "id_at handle t' k' = Some i" for k k' i
      using that ok old fresh unfolding at table_ok_def by (metis (full_types))
    ultimately have "table_ok handle t' (ids d')" using ok enter_distinct [OF _ st] by (auto simp: table_ok_def)
    then show ?thesis using b' at None \<open>held handle t' \<inter> ids d \<subseteq> held handle t\<close> by (auto simp: entered_def)
  qed
qed

lemma fold_enter:
  "laws \<Longrightarrow> table_ok handle t (ids d) \<Longrightarrow> fold enter rs (t, d) = (t', d') \<Longrightarrow> entered (key ` set rs) (t, d) (t', d')"
proof (induction rs arbitrary: t d)
  case Nil
  then show ?case by (simp add: entered_refl)
next
  case (Cons r rs)
  obtain t1 d1 where r: "enter r (t, d) = (t1, d1)" by fastforce
  have one: "entered {key r} (t, d) (t1, d1)" by (rule entered_enter [OF Cons.prems(1,2) r])
  then have "table_ok handle t1 (ids d1)" by (simp add: entered_def)
  moreover have "fold enter rs (t1, d1) = (t', d')" using Cons.prems(3) r by simp
  ultimately have "entered (key ` set rs) (t1, d1) (t', d')" by (rule Cons.IH [OF Cons.prems(1)])
  from entered_trans [OF one this] show ?case by simp
qed

lemma table_ok_remove:
  assumes laws: "laws" and ok: "table_ok handle t (ids d)" and r: "remove k (t, d) = (t1, d1)"
  shows "table_ok handle t1 (ids d1) \<and> held handle t1 \<subseteq> held handle t \<and> ids d1 = ids d - (held handle t - held handle t1)"
proof -
  note rm = remove_one [OF laws r]
  have at: "id_at handle t1 x = (if x = k then None else id_at handle t x)" for x using rm by (simp add: id_at_def)
  have inj: "id_at handle t x = Some i \<Longrightarrow> id_at handle t y = Some i \<Longrightarrow> x = y" for x y i
    using ok unfolding table_ok_def by blast
  have gone: "i \<in> held handle t - held handle t1 \<longleftrightarrow> id_at handle t k = Some i" for i
  proof
    assume i: "i \<in> held handle t - held handle t1"
    then obtain x where x: "id_at handle t x = Some i" by (auto simp: held_def)
    have "x = k"
    proof (rule ccontr)
      assume "x \<noteq> k"
      then have "i \<in> held handle t1" using x at [of x] by (auto simp: held_def)
      with i show False by simp
    qed
    with x show "id_at handle t k = Some i" by simp
  next
    assume "id_at handle t k = Some i"
    moreover have "id_at handle t1 x \<noteq> Some i" for x using calculation inj [of k i x] at [of x] by auto
    ultimately show "i \<in> held handle t - held handle t1" by (auto simp: held_def)
  qed
  have "held handle t - held handle t1 = set_option (id_at handle t k)" using gone by (auto simp: elem_set)
  moreover have "set_option (id_at handle t k) = (case map_of t k of None \<Rightarrow> {} | Some b \<Rightarrow> set_option (handle b))"
    by (simp add: id_at_def split: option.splits)
  ultimately have ids1: "ids d1 = ids d - (held handle t - held handle t1)" using rm by simp
  have sub: "held handle t1 \<subseteq> held handle t" by (auto simp: held_def at split: if_splits)
  moreover have "held handle t \<subseteq> ids d" "distinct (map fst t1)" using ok remove_distinct [OF _ r] by (simp_all add: table_ok_def)
  moreover have "x = y" if "id_at handle t1 x = Some i" "id_at handle t1 y = Some i" for x y i
    using that inj [of x i y] by (simp add: at split: if_splits)
  ultimately show ?thesis using ids1 by (auto simp: table_ok_def)
qed

lemma fold_remove:
  assumes laws: "laws" and "table_ok handle t (ids d)" and "fold remove ks (t, d) = (t', d')"
  shows "map_of t' = (\<lambda>k. if k \<in> set ks then None else map_of t k) \<and> table_ok handle t' (ids d') \<and>
    held handle t' \<subseteq> held handle t \<and> ids d' = ids d - (held handle t - held handle t')"
  using assms(2,3)
proof (induction ks arbitrary: t d)
  case Nil
  then show ?case by auto
next
  case (Cons k ks)
  obtain t1 d1 where r: "remove k (t, d) = (t1, d1)" by fastforce
  note one = table_ok_remove [OF laws Cons.prems(1) r]
  have rest: "fold remove ks (t1, d1) = (t', d')" using Cons.prems(2) r by simp
  note ih = Cons.IH [OF conjunct1 [OF one] rest]
  have "ids d' = ids d - (held handle t - held handle t')" using ih one by auto
  then show ?case using ih one remove_one [OF laws r] by auto
qed

lemma entered_dom: "entered ks (t, d) (t', d') \<Longrightarrow> map_of t k \<noteq> None \<Longrightarrow> map_of t' k \<noteq> None"
  by (simp add: entered_def)

lemma keys_entered: "entered ks (t, d) (t', d') \<Longrightarrow> set (map fst t') - ks = set (map fst t) - ks"
proof -
  assume e: "entered ks (t, d) (t', d')"
  have "x \<in> set (map fst t') \<longleftrightarrow> x \<in> set (map fst t)" if "x \<notin> ks" for x
  proof -
    have "map_of t' x = map_of t x" using e that by (simp add: entered_def)
    then show ?thesis by (simp only: key_in_table)
  qed
  then show ?thesis by blast
qed

text \<open>A whole request: enter every entry, then remove the keys that were not named.\<close>

lemma whole_request:
  assumes laws: "laws" and ok: "table_ok handle t (ids d)" and enter: "fold enter rs (t, d) = (t1, d1)"
    and remove: "fold remove ks (t1, d1) = (t', d')" and ks: "set ks = set (map fst t1) - key ` set rs"
  shows "table_ok handle t' (ids d') \<and> set (map fst t') \<subseteq> key ` set rs \<and>
    (\<forall>k \<in> key ` set rs. map_of t' k = map_of t1 k \<and>
       (map_of t k \<noteq> None \<longrightarrow> map_of t' k \<noteq> None \<and> id_at handle t' k = id_at handle t k)) \<and>
    (held handle t - held handle t') \<inter> ids d' = {} \<and> ids d - held handle t \<subseteq> ids d' \<and>
    held handle t' \<inter> ids d \<subseteq> held handle t"
proof -
  have e: "entered (key ` set rs) (t, d) (t1, d1)" by (rule fold_enter [OF laws ok enter])
  then have "table_ok handle t1 (ids d1)" by (simp add: entered_def)
  note r = fold_remove [OF laws this remove]
  have left: "map_of t' k = (if k \<in> key ` set rs then map_of t1 k else None)" for k
    using r ks by (auto simp: map_of_eq_None_iff)
  have "x \<in> key ` set rs" if "x \<in> set (map fst t')" for x
    using that left [of x] unfolding key_in_table by (auto split: if_splits)
  then have "set (map fst t') \<subseteq> key ` set rs" by blast
  moreover have "map_of t' k \<noteq> None \<and> id_at handle t' k = id_at handle t k" if "k \<in> key ` set rs" "map_of t k \<noteq> None" for k
    using e left [of k] that by (auto simp: entered_def id_at_def)
  moreover have "(held handle t - held handle t') \<inter> ids d' = {}" using entered_held [OF e] r by auto
  moreover have "ids d - held handle t \<subseteq> ids d'" using e r by (auto simp: entered_def)
  moreover have "held handle t' \<inter> ids d \<subseteq> held handle t" using e r by (auto simp: entered_def)
  ultimately show ?thesis using r left by auto
qed

end

end
