(* ===== verification/Breakpoint_Manager.thy ===== *)
theory Breakpoint_Manager
  imports Breakpoint_Table "HOL-Library.List_Lexorder" "HOL-Library.Char_ord"
begin

text \<open>
  \<open>core/components/breakpoint_manager\<close> and the two request handlers that replace breakpoints themselves
  (\<open>set_function_breakpoints\<close>, \<open>set_exception_breakpoints\<close>): every request carries the whole list the client
  wants, and the tables are brought in line with it.
\<close>

section \<open>Source breakpoints\<close>

type_synonym position = "u32 \<times> u32"
type_synonym SourceBreakpointMap = "(position \<times> SourceBreakpoint) list"

record BreakpointManager =
  bm_source_breakpoints :: "string \<Rightarrow> SourceBreakpointMap"
  bm_source_assembly_breakpoints :: "s32 \<Rightarrow> SourceBreakpointMap"
  bm_function_breakpoints :: "(string \<times> FunctionBreakpoint) list"
  bm_instruction_breakpoints :: "(u64 \<times> InstructionBreakpoint) list"
  bm_exception_breakpoints :: "ExceptionBreakpoint list"

definition position_of :: "SourceBreakpointRequest \<Rightarrow> position" where
  "position_of b = (sb_line (new_SourceBreakpoint b), sb_column (new_SourceBreakpoint b))"

definition source_response :: "'w SBTarget_api \<Rightarrow> bp_env \<Rightarrow> Source \<Rightarrow> SourceBreakpoint \<Rightarrow> SourceBreakpoint \<Rightarrow> 'w debugger \<Rightarrow> ProtocolBreakpoint" where
  "source_response api env source src_bp bp d =
     (let r = ToProtocolBreakpoint api env bp d;
          r = (if pb_source r = None then r\<lparr>pb_source := Some source\<rparr> else r);
          r = (if pb_line r = None then r\<lparr>pb_line := valid_line (sb_line src_bp)\<rparr> else r)
      in if pb_column r = None then r\<lparr>pb_column := valid_column (sb_column src_bp)\<rparr> else r)"

definition source_step ::
  "'w SBTarget_api \<Rightarrow> bp_env \<Rightarrow> Source \<Rightarrow> SourceBreakpointRequest \<Rightarrow>
   SourceBreakpointMap \<times> 'w debugger \<Rightarrow> ProtocolBreakpoint \<times> SourceBreakpointMap \<times> 'w debugger" where
  "source_step api env source b s =
     (let (existing_breakpoints, d) = s;
          src_bp = new_SourceBreakpoint b;
          bp_pos = (sb_line src_bp, sb_column src_bp)
      in case map_of existing_breakpoints bp_pos of
           None \<Rightarrow>
             (case SourceBreakpoint_SetBreakpoint api env source (src_bp, d) of
                (Some error, bp, d) \<Rightarrow> (new_ProtocolBreakpoint\<lparr>pb_message := Some error\<rparr>, existing_breakpoints, d)
              | (None, bp, d) \<Rightarrow>
                  (source_response api env source src_bp bp d, try_emplace bp_pos bp existing_breakpoints, d))
         | Some bp \<Rightarrow>
             (let (bp, d) = SourceBreakpoint_UpdateBreakpoint api env src_bp (bp, d)
              in (source_response api env source src_bp bp d, replace_entry bp_pos bp existing_breakpoints, d)))"

text \<open>Deleting one entry: its breakpoint in the target, then the entry.\<close>

definition remove_entry :: "'w SBTarget_api \<Rightarrow> ('b \<Rightarrow> break_id option) \<Rightarrow> 'k \<Rightarrow> ('k \<times> 'b) list \<times> 'w debugger \<Rightarrow> ('k \<times> 'b) list \<times> 'w debugger" where
  "remove_entry api handle k s =
     (let (t, d) = s in
      case map_of t k of
        None \<Rightarrow> (t, d)
      | Some bp \<Rightarrow> (erase_entry k t, case handle bp of None \<Rightarrow> d | Some i \<Rightarrow> on_world (tg_delete api i) d))"

definition SetSourceBreakpoints_in ::
  "'w SBTarget_api \<Rightarrow> bp_env \<Rightarrow> Source \<Rightarrow> SourceBreakpointRequest list option \<Rightarrow>
   SourceBreakpointMap \<times> 'w debugger \<Rightarrow> ProtocolBreakpoint list \<times> SourceBreakpointMap \<times> 'w debugger" where
  "SetSourceBreakpoints_in api env source breakpoints s =
     (let requests = (case breakpoints of None \<Rightarrow> [] | Some bs \<Rightarrow> bs);
          (responses, existing_breakpoints, d) = request_loop (source_step api env source) requests s;
          request_breakpoints = map position_of requests
      in (responses, fold (remove_entry api bp_handle)
            (filter (\<lambda>k. k \<notin> set request_breakpoints) (map fst existing_breakpoints)) (existing_breakpoints, d)))"

definition SetSourceBreakpoints ::
  "'w SBTarget_api \<Rightarrow> bp_env \<Rightarrow> Source \<Rightarrow> SourceBreakpointRequest list option \<Rightarrow>
   BreakpointManager \<times> 'w debugger \<Rightarrow> ProtocolBreakpoint list \<times> BreakpointManager \<times> 'w debugger" where
  "SetSourceBreakpoints api env source breakpoints s =
     (let (m, d) = s in
      case src_sourceReference source of
        Some reference \<Rightarrow>
          (let (rs, t, d) = SetSourceBreakpoints_in api env source breakpoints (bm_source_assembly_breakpoints m reference, d)
           in (rs, m\<lparr>bm_source_assembly_breakpoints := (bm_source_assembly_breakpoints m)(reference := t)\<rparr>, d))
      | None \<Rightarrow>
          (let path = (case src_path source of None \<Rightarrow> [] | Some p \<Rightarrow> p);
               (rs, t, d) = SetSourceBreakpoints_in api env source breakpoints (bm_source_breakpoints m path, d)
           in (rs, m\<lparr>bm_source_breakpoints := (bm_source_breakpoints m)(path := t)\<rparr>, d)))"

section \<open>Function breakpoints\<close>

definition function_step ::
  "'w SBTarget_api \<Rightarrow> bp_env \<Rightarrow> FunctionBreakpointRequest \<Rightarrow> (string \<times> FunctionBreakpoint) list \<times> 'w debugger \<Rightarrow>
   ProtocolBreakpoint \<times> (string \<times> FunctionBreakpoint) list \<times> 'w debugger" where
  "function_step api env fb s =
     (let (t, d) = s;
          fn_bp = new_FunctionBreakpoint fb;
          name = fb_function_name fn_bp
      in case map_of t name of
           None \<Rightarrow>
             (let (bp, d) = FunctionBreakpoint_SetBreakpoint api env (fn_bp, d)
              in (ToProtocolBreakpoint api env bp d, hash_emplace name bp t, d))
         | Some bp \<Rightarrow>
             (let (bp, d) = BreakpointBase_UpdateBreakpoint api env fn_bp (bp, d)
              in (ToProtocolBreakpoint api env bp d, replace_entry name bp t, d)))"

definition SetFunctionBreakpoints ::
  "'w SBTarget_api \<Rightarrow> bp_env \<Rightarrow> FunctionBreakpointRequest list \<Rightarrow>
   BreakpointManager \<times> 'w debugger \<Rightarrow> ProtocolBreakpoint list \<times> BreakpointManager \<times> 'w debugger" where
  "SetFunctionBreakpoints api env breakpoints s =
     (let (m, d) = s;
          seen = be_name_order env (map fst (bm_function_breakpoints m));
          (rs, t, d) = request_loop (function_step api env) breakpoints (bm_function_breakpoints m, d);
          seen = filter (\<lambda>name. name \<notin> set (map fq_name breakpoints)) seen;
          (t, d) = fold (remove_entry api bp_handle) seen (t, d)
      in (rs, m\<lparr>bm_function_breakpoints := t\<rparr>, d))"

section \<open>Instruction breakpoints\<close>

text \<open>Two addresses are reserved by \<open>llvm::DenseMap\<close> for its own marks; using one as a key is undefined.\<close>

definition reserved_address :: "u64 \<Rightarrow> bool" where
  "reserved_address a \<longleftrightarrow> a = - 1 \<or> a = - 2"

definition address_of :: "bp_env \<Rightarrow> InstructionBreakpointRequest \<Rightarrow> u64" where
  "address_of env b = ib_instruction_address_reference (new_InstructionBreakpoint env b)"

definition instruction_step ::
  "'w SBTarget_api \<Rightarrow> bp_env \<Rightarrow> InstructionBreakpointRequest \<Rightarrow> (u64 \<times> InstructionBreakpoint) list \<times> 'w debugger \<Rightarrow>
   ProtocolBreakpoint \<times> (u64 \<times> InstructionBreakpoint) list \<times> 'w debugger" where
  "instruction_step api env b s =
     (let (t, d) = s;
          inst_bp = new_InstructionBreakpoint env b;
          addr = ib_instruction_address_reference inst_bp
      in case map_of t addr of
           None \<Rightarrow>
             (let (bp, d) = InstructionBreakpoint_SetBreakpoint api env (inst_bp, d)
              in (ToProtocolBreakpoint api env bp d, hash_emplace addr bp t, d))
         | Some bp \<Rightarrow>
             (let (bp, d) = BreakpointBase_UpdateBreakpoint api env inst_bp (bp, d)
              in (ToProtocolBreakpoint api env bp d, replace_entry addr bp t, d)))"

definition SetInstructionBreakpoints ::
  "'w SBTarget_api \<Rightarrow> bp_env \<Rightarrow> InstructionBreakpointRequest list \<Rightarrow>
   BreakpointManager \<times> 'w debugger \<Rightarrow> (ProtocolBreakpoint list \<times> BreakpointManager \<times> 'w debugger) option" where
  "SetInstructionBreakpoints api env breakpoints s =
     (if list_ex (\<lambda>b. reserved_address (address_of env b)) breakpoints then None
      else Some
        (let (m, d) = s;
             seen = be_address_order env (map fst (bm_instruction_breakpoints m));
             (rs, t, d) = request_loop (instruction_step api env) breakpoints (bm_instruction_breakpoints m, d);
             seen = filter (\<lambda>addr. addr \<notin> set (map (address_of env) breakpoints)) seen;
             (t, d) = fold (remove_entry api bp_handle) seen (t, d)
         in (rs, m\<lparr>bm_instruction_breakpoints := t\<rparr>, d)))"

section \<open>Exception breakpoints\<close>

text \<open>What LLDB says of a language: whether it is of the C family, supported, its name, and the keywords of
  the exceptions it can stop at, with their fallbacks.\<close>

record language_info =
  li_language :: nat
  li_c_family :: bool
  li_supported :: bool
  li_name :: "string option"
  li_on_throw :: bool
  li_throw_keyword :: "string option"
  li_on_catch :: bool
  li_catch_keyword :: "string option"

definition to_upper :: "char \<Rightarrow> char" where
  "to_upper c = (if CHR ''a'' \<le> c \<and> c \<le> CHR ''z'' then char_of (of_char c - (32 :: nat)) else c)"

fun Capitalize :: "string \<Rightarrow> string" where
  "Capitalize [] = []"
| "Capitalize (c # s) = to_upper c # s"

definition new_ExceptionBreakpoint :: "string \<Rightarrow> string \<Rightarrow> nat \<Rightarrow> ExceptionKind \<Rightarrow> ExceptionBreakpoint" where
  "new_ExceptionBreakpoint f l lang kind = \<lparr>eb_filter = f, eb_label = l, eb_language = lang, eb_kind = kind, eb_handle = None\<rparr>"

definition language_breakpoints :: "language_info \<Rightarrow> ExceptionBreakpoint list" where
  "language_breakpoints lang =
     (if li_c_family lang \<or> \<not> li_supported lang then []
      else
        (case li_name lang of
           None \<Rightarrow> []
         | Some name \<Rightarrow>
             (if li_on_throw lang
              then (let keyword = (case li_throw_keyword lang of None \<Rightarrow> ''throw'' | Some k \<Rightarrow> k)
                    in [new_ExceptionBreakpoint (name @ ''_'' @ keyword) (Capitalize name @ '' '' @ Capitalize keyword)
                          (li_language lang) eExceptionKindThrow])
              else []) @
             (if li_on_catch lang
              then (let keyword = (case li_catch_keyword lang of None \<Rightarrow> ''catch'' | Some k \<Rightarrow> k)
                    in [new_ExceptionBreakpoint (name @ ''_'' @ keyword) (Capitalize name @ '' '' @ Capitalize keyword)
                          (li_language lang) eExceptionKindCatch])
              else [])))"

definition PopulateExceptionBreakpoints :: "nat \<Rightarrow> bool \<Rightarrow> language_info list \<Rightarrow> BreakpointManager \<Rightarrow> BreakpointManager" where
  "PopulateExceptionBreakpoints c_plus_plus supported languages m =
     m\<lparr>bm_exception_breakpoints := bm_exception_breakpoints m @
        (if supported
         then [new_ExceptionBreakpoint ''cpp_catch'' ''C++ Catch'' c_plus_plus eExceptionKindCatch,
               new_ExceptionBreakpoint ''cpp_throw'' ''C++ Throw'' c_plus_plus eExceptionKindThrow]
         else []) @
        concat (map language_breakpoints languages)\<rparr>"

definition GetExceptionBreakpoint_by_filter :: "string \<Rightarrow> ExceptionBreakpoint list \<Rightarrow> nat option" where
  "GetExceptionBreakpoint_by_filter f bps =
     (let n = length (takeWhile (\<lambda>bp. eb_filter bp \<noteq> f) bps) in if n < length bps then Some n else None)"

text \<open>The identifier of a breakpoint that was never set is 0.\<close>

definition GetExceptionBreakpoint_by_id :: "break_id \<Rightarrow> ExceptionBreakpoint list \<Rightarrow> nat option" where
  "GetExceptionBreakpoint_by_id i bps =
     (let n = length (takeWhile (\<lambda>bp. (case eb_handle bp of None \<Rightarrow> 0 | Some j \<Rightarrow> j) \<noteq> i) bps)
      in if n < length bps then Some n else None)"

text \<open>The stop reason of a thread is a list of pairs, the first of each a breakpoint.\<close>

fun GetExceptionBPFromStopReason :: "break_id list \<Rightarrow> ExceptionBreakpoint list \<Rightarrow> nat option \<Rightarrow> nat option" where
  "GetExceptionBPFromStopReason [] bps found = found"
| "GetExceptionBPFromStopReason [i] bps found = GetExceptionBreakpoint_by_id i bps"
| "GetExceptionBPFromStopReason (i # _ # rest) bps found =
     (case GetExceptionBreakpoint_by_id i bps of
        None \<Rightarrow> None
      | Some n \<Rightarrow> GetExceptionBPFromStopReason rest bps (Some n))"

definition CreateExceptionBreakpointFilter :: "ExceptionBreakpoint \<Rightarrow> string \<times> string \<times> string \<times> bool \<times> bool" where
  "CreateExceptionBreakpointFilter bp = (eb_filter bp, eb_label bp, eb_label bp, False, True)"

definition exception_step ::
  "'w SBTarget_api \<Rightarrow> string \<times> string \<Rightarrow> ExceptionBreakpoint list \<times> 'w debugger \<Rightarrow>
   ProtocolBreakpoint list \<times> ExceptionBreakpoint list \<times> 'w debugger" where
  "exception_step api fc s =
     (let (f, condition) = fc; (bps, d) = s in
      case GetExceptionBreakpoint_by_filter f bps of
        None \<Rightarrow> ([], bps, d)
      | Some n \<Rightarrow>
          (let (r, bp, d) = ExceptionBreakpoint_SetBreakpoint api condition (bps ! n, d) in ([r], bps[n := bp], d)))"

definition exception_clear ::
  "'w SBTarget_api \<Rightarrow> string \<Rightarrow> ExceptionBreakpoint list \<times> 'w debugger \<Rightarrow> ExceptionBreakpoint list \<times> 'w debugger" where
  "exception_clear api f s =
     (let (bps, d) = s in
      case GetExceptionBreakpoint_by_filter f bps of
        None \<Rightarrow> (bps, d)
      | Some n \<Rightarrow> (let (bp, d) = ExceptionBreakpoint_ClearBreakpoint api (bps ! n, d) in (bps[n := bp], d)))"

text \<open>The filters are set without a condition, then the filter options with theirs; the filters of the
  manager that neither names are cleared, in the order of a \<open>std::set\<close>.  A name that is erased from the set
  is the name of an existing filter.\<close>

definition SetExceptionBreakpoints ::
  "'w SBTarget_api \<Rightarrow> string list \<Rightarrow> (string \<times> string) list \<Rightarrow>
   BreakpointManager \<times> 'w debugger \<Rightarrow> ProtocolBreakpoint list \<times> BreakpointManager \<times> 'w debugger" where
  "SetExceptionBreakpoints api filters filterOptions s =
     (let (m, d) = s;
          unset_filters = sorted_list_of_set (set (map eb_filter (bm_exception_breakpoints m)));
          (body, bps, d) = request_loop (exception_step api) (map (\<lambda>f. (f, [])) filters @ filterOptions)
            (bm_exception_breakpoints m, d);
          unset_filters = filter (\<lambda>f. f \<notin> set filters \<union> fst ` set filterOptions) unset_filters;
          (bps, d) = fold (exception_clear api) unset_filters (bps, d)
      in (concat body, m\<lparr>bm_exception_breakpoints := bps\<rparr>, d))"

section \<open>Data breakpoints\<close>

text \<open>The watchpoints are set from the last to the first, unless a later one has the same address.\<close>

definition set_watchpoint ::
  "'w watch_api \<Rightarrow> bp_env \<Rightarrow> Watchpoint \<Rightarrow> Watchpoint list \<times> u64 set \<times> 'w \<Rightarrow> Watchpoint list \<times> u64 set \<times> 'w" where
  "set_watchpoint api env wp s =
     (let (watchpoints, addresses, w) = s in
      if wp_addr wp \<notin> addresses
      then (let (wp, w) = SetWatchpoint api env (wp, w) in (wp # watchpoints, insert (wp_addr wp) addresses, w))
      else (wp # watchpoints, addresses, w))"

definition SetDataBreakpoints ::
  "'w watch_api \<Rightarrow> bp_env \<Rightarrow> DataBreakpoint list \<Rightarrow> 'w \<Rightarrow> ProtocolBreakpoint list \<times> 'w" where
  "SetDataBreakpoints api env breakpoints w =
     (let w = wa_delete_all api w;
          (watchpoints, addresses, w) = foldr (set_watchpoint api env) (map (new_Watchpoint env) breakpoints) ([], {}, w)
      in (map Watchpoint_ToProtocolBreakpoint watchpoints, w))"

section \<open>Where a breakpoint can be set\<close>

record SBLineEntry =
  le_start_address :: u64
  le_end_address :: u64
  le_line :: u32
  le_column :: u32
  le_file :: "string \<times> string"

record SBCompileUnit =
  cu_valid :: bool
  cu_file :: "string \<times> string"
  cu_line_entries :: "SBLineEntry list"

type_synonym LocationLine = "u32 \<times> u32 option"

definition entry_location :: "(string \<times> string) \<Rightarrow> u32 \<Rightarrow> u32 \<Rightarrow> u32 \<Rightarrow> u32 \<Rightarrow> SBLineEntry \<Rightarrow> LocationLine option" where
  "entry_location primary_file start_line start_column end_line end_column e =
     (if le_start_address e = le_end_address e then None
      else if le_line e < start_line \<or> le_line e > end_line then None
      else if le_column e \<noteq> LLDB_INVALID_COLUMN_NUMBER \<and> le_line e = start_line \<and> le_column e < start_column then None
      else if le_column e \<noteq> LLDB_INVALID_COLUMN_NUMBER \<and> le_line e = end_line \<and> le_column e > end_column then None
      else if le_file e \<noteq> primary_file then None
      else Some (le_line e, valid_column (le_column e)))"

definition GetSourceBreakpointLocations :: "SBCompileUnit list \<Rightarrow> u32 \<Rightarrow> u32 \<Rightarrow> u32 \<Rightarrow> u32 \<Rightarrow> LocationLine list" where
  "GetSourceBreakpointLocations compile_units start_line start_column end_line end_column =
     concat (map (\<lambda>cu. if cu_valid cu
       then List.map_filter (entry_location (cu_file cu) start_line start_column end_line end_column) (cu_line_entries cu)
       else []) compile_units)"

text \<open>The second parameter is the number of instructions of the symbol at the address, if there is one.\<close>

definition GetAssemblyBreakpointLocations :: "(u64 \<Rightarrow> u32 option) \<Rightarrow> s32 \<Rightarrow> u32 \<Rightarrow> u32 \<Rightarrow> LocationLine list" where
  "GetAssemblyBreakpointLocations symbol_instructions source_reference start_line end_line =
     (case symbol_instructions (scast source_reference) of
        None \<Rightarrow> []
      | Some n \<Rightarrow>
          map (\<lambda>i. (word_of_nat i, Some 1))
            (filter (\<lambda>i. i \<le> unat (end_line - 1)) [unat (start_line - 1) ..< unat n]))"

record BreakpointLocationsArguments =
  bl_source :: Source
  bl_line :: u32
  bl_column :: "u32 option"
  bl_endLine :: "u32 option"
  bl_endColumn :: "u32 option"

fun unique :: "'a list \<Rightarrow> 'a list" where
  "unique (x # y # xs) = (if x = y then unique (y # xs) else x # unique (y # xs))"
| "unique xs = xs"

definition GetBreakpointLocations ::
  "(string \<Rightarrow> SBCompileUnit list) \<Rightarrow> (u64 \<Rightarrow> u32 option) \<Rightarrow> BreakpointLocationsArguments \<Rightarrow> LocationLine list" where
  "GetBreakpointLocations compile_units symbol_instructions args =
     (let start_line = bl_line args;
          start_column = (case bl_column args of None \<Rightarrow> LLDB_INVALID_COLUMN_NUMBER | Some c \<Rightarrow> c);
          end_line = (case bl_endLine args of None \<Rightarrow> start_line | Some l \<Rightarrow> l);
          end_column = (case bl_endColumn args of None \<Rightarrow> - 1 | Some c \<Rightarrow> c);
          locations =
            (case src_sourceReference (bl_source args) of
               Some source_reference \<Rightarrow> GetAssemblyBreakpointLocations symbol_instructions source_reference start_line end_line
             | None \<Rightarrow>
                 (let path = (case src_path (bl_source args) of None \<Rightarrow> [] | Some p \<Rightarrow> p)
                  in GetSourceBreakpointLocations (compile_units path) start_line start_column end_line end_column))
      in unique (sort locations))"

section \<open>What a data breakpoint could be\<close>

text \<open>The variable or the expression, as LLDB describes it.\<close>

record SBValue_info =
  vi_load_address :: u64
  vi_byte_size :: nat
  vi_location :: string

datatype expression_result =
    ExpressionFailed "string option"
  | ExpressionValue u64 "nat option"

record data_info_env =
  die_find_variable :: "int \<Rightarrow> string \<Rightarrow> SBValue_info option"
  die_frame :: "u64 \<Rightarrow> (string \<Rightarrow> expression_result) option"
  die_address_valid :: "u64 \<Rightarrow> bool"
  die_region :: "u64 \<Rightarrow> (bool \<times> bool) option"
  die_address_byte_size :: nat
  die_utohexstr :: "u64 \<Rightarrow> string"
  die_utostr :: "nat \<Rightarrow> string"

record DataBreakpointInfoArguments =
  di_variablesReference :: "int option"
  di_name :: string
  di_frameId :: u64
  di_bytes :: "s64 option"
  di_asAddress :: "bool option"

record DataBreakpointInfo =
  dr_dataId :: "string option"
  dr_description :: string
  dr_accessTypes :: "DataBreakpointAccessType list option"

definition IsReadableOrWritable :: "data_info_env \<Rightarrow> u64 \<Rightarrow> bool" where
  "IsReadableOrWritable die load_addr =
     (if \<not> die_address_valid die load_addr then False
      else (case die_region die load_addr of None \<Rightarrow> True | Some (readable, writable) \<Rightarrow> readable \<or> writable))"

text \<open>What was found: an address and a size, or why there is none; an error of the request itself comes first.\<close>

definition variable_data :: "data_info_env \<Rightarrow> SBValue_info \<Rightarrow> string + string \<times> string" where
  "variable_data die variable =
     (if vi_load_address variable = LLDB_INVALID_ADDRESS
      then Inl (''does not exist in memory, its location is '' @ vi_location variable)
      else if vi_byte_size variable = 0 then Inl ''variable size is 0''
      else Inr (die_utohexstr die (vi_load_address variable), die_utostr die (vi_byte_size variable)))"

definition no_access :: "string \<Rightarrow> string" where
  "no_access addr = ''memory region for address '' @ addr @ '' has no read or write permissions''"

definition expression_data :: "data_info_env \<Rightarrow> string \<Rightarrow> expression_result \<Rightarrow> string + string \<times> string" where
  "expression_data die name value =
     (case value of
        ExpressionFailed (Some (c # e)) \<Rightarrow> Inl (c # e)
      | ExpressionFailed _ \<Rightarrow> Inl ''evaluation failed''
      | ExpressionValue load_addr (Some n) \<Rightarrow>
          if \<not> IsReadableOrWritable die load_addr then Inl (no_access (die_utohexstr die load_addr))
          else Inr (die_utohexstr die load_addr, die_utostr die n)
      | ExpressionValue load_addr None \<Rightarrow> Inl (''unable to get byte size for expression: '' @ name))"

definition GetDataBreakpointInfo ::
  "data_info_env \<Rightarrow> bp_env \<Rightarrow> DataBreakpointInfoArguments \<Rightarrow> string + DataBreakpointInfo" where
  "GetDataBreakpointInfo die env args =
     (let reference = (case di_variablesReference args of None \<Rightarrow> 0 | Some r \<Rightarrow> r);
          found =
            (case die_find_variable die reference (di_name args) of
               Some variable \<Rightarrow> Inr (variable_data die variable)
             | None \<Rightarrow>
                 (case (reference = 0, die_frame die (di_frameId args)) of
                    (True, Some evaluate) \<Rightarrow> Inr (expression_data die (di_name args) (evaluate (di_name args)))
                  | _ \<Rightarrow>
                      if di_asAddress args \<noteq> None
                      then (case be_to_integer_base env 0 (di_name args) of
                              None \<Rightarrow> Inl (di_name args @ '' is not a valid address'')
                            | Some load_addr \<Rightarrow>
                                if \<not> IsReadableOrWritable die load_addr then Inl (no_access (die_utohexstr die load_addr))
                                else Inr (Inr (die_utohexstr die load_addr,
                                       die_utostr die (case di_bytes args of None \<Rightarrow> die_address_byte_size die | Some n \<Rightarrow> unat n))))
                      else Inr (Inl (''variable not found: '' @ di_name args))))
      in case found of
           Inl error \<Rightarrow> Inl error
         | Inr (Inl description) \<Rightarrow> Inr \<lparr>dr_dataId = None, dr_description = description, dr_accessTypes = None\<rparr>
         | Inr (Inr (addr, n)) \<Rightarrow>
             Inr \<lparr>dr_dataId = Some (addr @ ''/'' @ n),
               dr_description =
                 (if di_asAddress args \<noteq> None then n @ '' bytes at '' @ addr
                  else n @ '' bytes at '' @ addr @ '' '' @ di_name args),
               dr_accessTypes = Some [eDataBreakpointAccessTypeRead, eDataBreakpointAccessTypeWrite,
                 eDataBreakpointAccessTypeReadWrite]\<rparr>)"

section \<open>The requests meet the contract\<close>

lemma created_ids: "created live d d' h \<Longrightarrow> live_ids live d \<subseteq> live_ids live d' \<and> set_option h \<subseteq> live_ids live d' - live_ids live d"
  by (auto simp: created_def)

lemma removed_entry:
  assumes "SBTarget_laws api live" and "remove_entry api handle k (t, d) = (t', d')"
  shows "map_of t' = (map_of t)(k := None) \<and>
    live_ids live d' = live_ids live d - (case map_of t k of None \<Rightarrow> {} | Some b \<Rightarrow> set_option (handle b))"
proof -
  have del: "live (tg_delete api i w) = live w - {i}" for i w using assms(1) by (simp add: SBTarget_laws_def)
  show ?thesis
  proof (cases "map_of t k")
    case None
    then show ?thesis using assms(2) by (auto simp: remove_entry_def fun_upd_idem)
  next
    case (Some b)
    then show ?thesis using assms(2)
      by (auto simp: remove_entry_def map_of_erase_entry live_ids_def on_world_def del split: option.splits)
  qed
qed

lemma removed_distinct: "distinct (map fst t) \<Longrightarrow> remove_entry api handle k (t, d) = (t', d') \<Longrightarrow> distinct (map fst t')"
  by (auto simp: remove_entry_def table_keys split: option.splits)

definition source_enter where
  "source_enter api env source = (\<lambda>b s. snd (source_step api env source b s))"

definition function_enter where
  "function_enter api env = (\<lambda>b s. snd (function_step api env b s))"

definition instruction_enter where
  "instruction_enter api env = (\<lambda>b s. snd (instruction_step api env b s))"

lemma source_enter_known:
  assumes laws: "SBTarget_laws api live" and k: "map_of t (position_of r) = Some b"
    and e: "source_enter api env source r (t, d) = (t', d')"
  shows "\<exists>b'. bp_handle b' = bp_handle b \<and> map_of t' = (map_of t)(position_of r \<mapsto> b') \<and> live_ids live d' = live_ids live d"
proof -
  obtain b' d1 where u: "SourceBreakpoint_UpdateBreakpoint api env (new_SourceBreakpoint r) (b, d) = (b', d1)" by fastforce
  have "t' = replace_entry (position_of r) b' t" "d' = d1"
    using e k u by (simp_all add: source_enter_def source_step_def position_of_def Let_def)
  then show ?thesis using SourceBreakpoint_UpdateBreakpoint_live [OF laws u] k
    by (intro exI [of _ b']) (auto simp: map_of_replace_entry)
qed

lemma source_enter_new:
  assumes laws: "SBTarget_laws api live" and k: "map_of t (position_of r) = None"
    and e: "source_enter api env source r (t, d) = (t', d')"
  shows "live_ids live d \<subseteq> live_ids live d' \<and> (map_of t' = map_of t \<or>
    (\<exists>b'. map_of t' = (map_of t)(position_of r \<mapsto> b') \<and> set_option (bp_handle b') \<subseteq> live_ids live d' - live_ids live d))"
proof -
  obtain err b' d1 where s: "SourceBreakpoint_SetBreakpoint api env source (new_SourceBreakpoint r, d) = (err, b', d1)"
    by (rule prod_cases3)
  note l = SourceBreakpoint_SetBreakpoint_live [OF laws s]
  show ?thesis
  proof (cases err)
    case None
    then have "t' = try_emplace (position_of r) b' t" "d' = d1"
      using e k s by (simp_all add: source_enter_def source_step_def position_of_def Let_def)
    moreover have "live_ids live d \<subseteq> live_ids live d1 \<and> set_option (bp_handle b') \<subseteq> live_ids live d1 - live_ids live d"
      using l None created_ids by blast
    ultimately show ?thesis using k by (metis map_of_try_emplace)
  next
    case (Some m)
    then have "t' = t" "d' = d1" using e k s by (simp_all add: source_enter_def source_step_def position_of_def Let_def)
    then show ?thesis using l Some created_ids [of live d d1] by auto
  qed
qed

lemma source_enter_distinct:
  "distinct (map fst t) \<Longrightarrow> source_enter api env source r (t, d) = (t', d') \<Longrightarrow> distinct (map fst t')"
  by (auto simp: source_enter_def source_step_def Let_def table_keys split: option.splits prod.splits)

interpretation source: breakpoint_diff "SBTarget_laws api live" position_of bp_handle "live_ids live"
    "source_enter api env source" "remove_entry api bp_handle" for api live env source
  by unfold_locales (fact source_enter_known source_enter_new source_enter_distinct removed_entry removed_distinct)+

lemma function_enter_known:
  assumes laws: "SBTarget_laws api live" and k: "map_of t (fq_name r) = Some b"
    and e: "function_enter api env r (t, d) = (t', d')"
  shows "\<exists>b'. bp_handle b' = bp_handle b \<and> map_of t' = (map_of t)(fq_name r \<mapsto> b') \<and> live_ids live d' = live_ids live d"
proof -
  obtain b' d1 where u: "BreakpointBase_UpdateBreakpoint api env (new_FunctionBreakpoint r) (b, d) = (b', d1)" by fastforce
  have "t' = replace_entry (fq_name r) b' t" "d' = d1"
    using e k u by (simp_all add: function_enter_def function_step_def new_FunctionBreakpoint_def FunctionBreakpoint.defs Breakpoint.defs Let_def)
  then show ?thesis using BreakpointBase_UpdateBreakpoint_live [OF laws u] k
    by (intro exI [of _ b']) (auto simp: map_of_replace_entry)
qed

lemma new_FunctionBreakpoint_simps [simp]:
  "fb_function_name (new_FunctionBreakpoint r) = fq_name r" "bp_handle (new_FunctionBreakpoint r) = None"
  by (simp_all add: new_FunctionBreakpoint_def FunctionBreakpoint.defs Breakpoint.defs new_Breakpoint_def)

lemma function_enter_new:
  assumes laws: "SBTarget_laws api live" and k: "map_of t (fq_name r) = None"
    and e: "function_enter api env r (t, d) = (t', d')"
  shows "\<exists>b'. map_of t' = (map_of t)(fq_name r \<mapsto> b') \<and> live_ids live d \<subseteq> live_ids live d' \<and>
    set_option (bp_handle b') \<subseteq> live_ids live d' - live_ids live d"
proof -
  obtain b' d1 where s: "FunctionBreakpoint_SetBreakpoint api env (new_FunctionBreakpoint r, d) = (b', d1)" by fastforce
  note l = FunctionBreakpoint_SetBreakpoint_live [OF laws s]
  have "t' = hash_emplace (fq_name r) b' t" "d' = d1"
    using e k s by (simp_all add: function_enter_def function_step_def Let_def)
  then show ?thesis using l created_ids [of live d d1 "bp_handle b'"] k
    by (intro exI [of _ b']) (auto simp: map_of_hash_emplace split: if_splits)
qed

lemma function_enter_distinct:
  "distinct (map fst t) \<Longrightarrow> function_enter api env r (t, d) = (t', d') \<Longrightarrow> distinct (map fst t')"
  by (auto simp: function_enter_def function_step_def Let_def table_keys split: option.splits prod.splits)

interpretation func: breakpoint_diff "SBTarget_laws api live" fq_name bp_handle "live_ids live"
    "function_enter api env" "remove_entry api bp_handle" for api live env
  by unfold_locales ((drule (2) function_enter_new, blast) | fact function_enter_known function_enter_distinct removed_entry removed_distinct)+

lemma instruction_enter_known:
  assumes laws: "SBTarget_laws api live" and k: "map_of t (address_of env r) = Some b"
    and e: "instruction_enter api env r (t, d) = (t', d')"
  shows "\<exists>b'. bp_handle b' = bp_handle b \<and> map_of t' = (map_of t)(address_of env r \<mapsto> b') \<and> live_ids live d' = live_ids live d"
proof -
  obtain b' d1 where u: "BreakpointBase_UpdateBreakpoint api env (new_InstructionBreakpoint env r) (b, d) = (b', d1)" by fastforce
  have "t' = replace_entry (address_of env r) b' t" "d' = d1"
    using e k u by (simp_all add: instruction_enter_def instruction_step_def address_of_def Let_def)
  then show ?thesis using BreakpointBase_UpdateBreakpoint_live [OF laws u] k
    by (intro exI [of _ b']) (auto simp: map_of_replace_entry)
qed

lemma instruction_enter_new:
  assumes laws: "SBTarget_laws api live" and k: "map_of t (address_of env r) = None"
    and e: "instruction_enter api env r (t, d) = (t', d')"
  shows "\<exists>b'. map_of t' = (map_of t)(address_of env r \<mapsto> b') \<and> live_ids live d \<subseteq> live_ids live d' \<and>
    set_option (bp_handle b') \<subseteq> live_ids live d' - live_ids live d"
proof -
  obtain b' d1 where s: "InstructionBreakpoint_SetBreakpoint api env (new_InstructionBreakpoint env r, d) = (b', d1)" by fastforce
  note l = created_ids [OF InstructionBreakpoint_SetBreakpoint_live [OF laws s]]
  have "t' = hash_emplace (address_of env r) b' t" "d' = d1"
    using e k s by (simp_all add: instruction_enter_def instruction_step_def address_of_def Let_def)
  then show ?thesis using l k by (intro exI [of _ b']) (auto simp: map_of_hash_emplace)
qed

lemma instruction_enter_distinct:
  "distinct (map fst t) \<Longrightarrow> instruction_enter api env r (t, d) = (t', d') \<Longrightarrow> distinct (map fst t')"
  by (auto simp: instruction_enter_def instruction_step_def Let_def table_keys split: option.splits prod.splits)

interpretation instr: breakpoint_diff "SBTarget_laws api live" "address_of env" bp_handle "live_ids live"
    "instruction_enter api env" "remove_entry api bp_handle" for api live env
  by unfold_locales ((drule (2) instruction_enter_new, blast) | fact instruction_enter_known instruction_enter_distinct removed_entry removed_distinct)+

section \<open>A request for a source\<close>

lemma source_step_dom:
  assumes "source_step api env source b (t, d) = (r, t', d')"
  shows "map_of t k \<noteq> None \<Longrightarrow> map_of t' k \<noteq> None"
    and "map_of t' (position_of b) = None \<Longrightarrow> pb_message r \<noteq> None \<and> \<not> pb_verified r"
  using assms
  by (auto simp: source_step_def position_of_def Let_def map_of_try_emplace map_of_replace_entry new_ProtocolBreakpoint_def
      split: option.splits prod.splits if_splits)

lemma source_loop_dom:
  "request_loop (source_step api env source) bs (t, d) = (rs, t', d') \<Longrightarrow> map_of t k \<noteq> None \<Longrightarrow> map_of t' k \<noteq> None"
proof (induction bs arbitrary: t d rs)
  case (Cons b bs)
  obtain r t1 d1 where s: "source_step api env source b (t, d) = (r, t1, d1)" by (rule prod_cases3)
  obtain rs1 where l: "request_loop (source_step api env source) bs (t1, d1) = (rs1, t', d')"
    using Cons.prems(1) by (auto simp: s split: prod.splits)
  show ?case by (rule Cons.IH [OF l source_step_dom(1) [OF s Cons.prems(2)]])
qed simp

lemma source_loop_failed:
  "request_loop (source_step api env source) bs (t, d) = (rs, t', d') \<Longrightarrow> i < length bs \<Longrightarrow>
   map_of t' (position_of (bs ! i)) = None \<Longrightarrow> pb_message (rs ! i) \<noteq> None \<and> \<not> pb_verified (rs ! i)"
proof (induction bs arbitrary: t d rs i)
  case (Cons b bs)
  obtain r t1 d1 where s: "source_step api env source b (t, d) = (r, t1, d1)" by (rule prod_cases3)
  obtain rs1 where l: "request_loop (source_step api env source) bs (t1, d1) = (rs1, t', d')" and rs: "rs = r # rs1"
    using Cons.prems(1) by (auto simp: s split: prod.splits)
  show ?case
  proof (cases i)
    case 0
    then have "map_of t1 (position_of b) = None" using source_loop_dom [OF l] Cons.prems(3) by (metis nth_Cons_0)
    from source_step_dom(2) [OF s this] show ?thesis using 0 rs by simp
  next
    case (Suc j)
    then show ?thesis using Cons.IH [OF l, of j] Cons.prems(2,3) rs by simp
  qed
qed simp

definition requested :: "SourceBreakpointRequest list option \<Rightarrow> SourceBreakpointRequest list" where
  "requested breakpoints = (case breakpoints of None \<Rightarrow> [] | Some bs \<Rightarrow> bs)"

lemma SetSourceBreakpoints_in_parts:
  assumes "SetSourceBreakpoints_in api env source breakpoints (t, d) = (rs, t', d')"
  obtains t1 d1 where "request_loop (source_step api env source) (requested breakpoints) (t, d) = (rs, t1, d1)"
    and "fold (source_enter api env source) (requested breakpoints) (t, d) = (t1, d1)"
    and "fold (remove_entry api bp_handle) (filter (\<lambda>k. k \<notin> set (map position_of (requested breakpoints))) (map fst t1)) (t1, d1) = (t', d')"
proof -
  obtain ps t1 d1 where l: "request_loop (source_step api env source) (requested breakpoints) (t, d) = (ps, t1, d1)"
    by (rule prod_cases3)
  have "fold (source_enter api env source) (requested breakpoints) (t, d) = (t1, d1)"
    using request_loop_fold [OF l] by (simp add: source_enter_def)
  then show ?thesis using that l assms by (simp add: SetSourceBreakpoints_in_def requested_def)
qed

lemmas source_request = source.whole_request [where api = api and env = env and source = source for api env source]

text \<open>C22: A request for a source leaves exactly the wanted breakpoints: the table is sound again, holds no
  position that was not asked for, and a position that was asked for and is missing was answered with
  a message, not verified.  A position already known keeps its breakpoint in the target; a
  breakpoint that left the table is gone from the target; breakpoints of others are left alone.\<close>

theorem SetSourceBreakpoints_exact:
  assumes laws: "SBTarget_laws api live" and ok: "table_ok bp_handle t (live_ids live d)"
    and run: "SetSourceBreakpoints_in api env source breakpoints (t, d) = (rs, t', d')"
  shows "length rs = length (requested breakpoints) \<and> table_ok bp_handle t' (live_ids live d') \<and>
    set (map fst t') \<subseteq> position_of ` set (requested breakpoints) \<and>
    (\<forall>i < length rs. map_of t' (position_of (requested breakpoints ! i)) = None \<longrightarrow> pb_message (rs ! i) \<noteq> None \<and> \<not> pb_verified (rs ! i)) \<and>
    (\<forall>k \<in> position_of ` set (requested breakpoints). map_of t k \<noteq> None \<longrightarrow>
       map_of t' k \<noteq> None \<and> id_at bp_handle t' k = id_at bp_handle t k) \<and>
    (held bp_handle t - held bp_handle t') \<inter> live_ids live d' = {} \<and>
    live_ids live d - held bp_handle t \<subseteq> live_ids live d'"
proof -
  obtain t1 d1 where l: "request_loop (source_step api env source) (requested breakpoints) (t, d) = (rs, t1, d1)"
    and e: "fold (source_enter api env source) (requested breakpoints) (t, d) = (t1, d1)"
    and r: "fold (remove_entry api bp_handle) (filter (\<lambda>k. k \<notin> set (map position_of (requested breakpoints))) (map fst t1)) (t1, d1) = (t', d')"
    by (rule SetSourceBreakpoints_in_parts [OF run])
  have "set (filter (\<lambda>k. k \<notin> set (map position_of (requested breakpoints))) (map fst t1)) =
      set (map fst t1) - position_of ` set (requested breakpoints)" by auto
  note w = source_request [OF laws ok e r this]
  have len: "length rs = length (requested breakpoints)" by (rule request_loop_length [OF l])
  have "pb_message (rs ! i) \<noteq> None \<and> \<not> pb_verified (rs ! i)"
    if i: "i < length rs" and none: "map_of t' (position_of (requested breakpoints ! i)) = None" for i
  proof -
    have "map_of t1 (position_of (requested breakpoints ! i)) = None" using w none i len by auto
    then show ?thesis using source_loop_failed [OF l] i len by simp
  qed
  then show ?thesis using w len by blast
qed

end
