(* ===== verification/Breakpoint_Session.thy ===== *)
theory Breakpoint_Session
  imports Breakpoint_Manager
begin

text \<open>
  The breakpoint manager over a whole session: any sequence of the requests that replace breakpoints, on a
  target in which others may have breakpoints of their own.  Every table stays sound, no two tables share a
  breakpoint, and the breakpoints of others survive.
\<close>

section \<open>What the manager holds\<close>

datatype table = SourceTable string | AssemblyTable s32 | FunctionTable | InstructionTable | ExceptionTable

fun holds :: "BreakpointManager \<Rightarrow> table \<Rightarrow> break_id set" where
  "holds m (SourceTable path) = held bp_handle (bm_source_breakpoints m path)"
| "holds m (AssemblyTable reference) = held bp_handle (bm_source_assembly_breakpoints m reference)"
| "holds m FunctionTable = held bp_handle (bm_function_breakpoints m)"
| "holds m InstructionTable = held bp_handle (bm_instruction_breakpoints m)"
| "holds m ExceptionTable = {i. \<exists>bp \<in> set (bm_exception_breakpoints m). eb_handle bp = Some i}"

definition exceptions_ok :: "ExceptionBreakpoint list \<Rightarrow> bool" where
  "exceptions_ok bps \<longleftrightarrow> (\<forall>n p i. n < length bps \<and> p < length bps \<and> eb_handle (bps ! n) = Some i \<and>
     eb_handle (bps ! p) = Some i \<longrightarrow> n = p)"

fun sound :: "BreakpointManager \<Rightarrow> break_id set \<Rightarrow> table \<Rightarrow> bool" where
  "sound m live (SourceTable path) = table_ok bp_handle (bm_source_breakpoints m path) live"
| "sound m live (AssemblyTable reference) = table_ok bp_handle (bm_source_assembly_breakpoints m reference) live"
| "sound m live FunctionTable = table_ok bp_handle (bm_function_breakpoints m) live"
| "sound m live InstructionTable = table_ok bp_handle (bm_instruction_breakpoints m) live"
| "sound m live ExceptionTable = (exceptions_ok (bm_exception_breakpoints m) \<and> holds m ExceptionTable \<subseteq> live)"

text \<open>\<open>others\<close> are the breakpoints that the manager did not set.\<close>

definition manager_ok :: "break_id set \<Rightarrow> BreakpointManager \<Rightarrow> break_id set \<Rightarrow> bool" where
  "manager_ok others m live \<longleftrightarrow> others \<subseteq> live \<and>
     (\<forall>tbl. sound m live tbl \<and> holds m tbl \<inter> others = {}) \<and>
     (\<forall>tbl tbl'. tbl \<noteq> tbl' \<longrightarrow> holds m tbl \<inter> holds m tbl' = {})"

lemma sound_holds: "sound m live tbl \<Longrightarrow> holds m tbl \<subseteq> live"
  by (cases tbl) (simp_all add: table_ok_def)

lemma table_ok_mono: "table_ok handle t live \<Longrightarrow> held handle t \<subseteq> live' \<Longrightarrow> table_ok handle t live'"
  by (simp add: table_ok_def)

lemma sound_mono: "sound m live tbl \<Longrightarrow> holds m tbl \<subseteq> live' \<Longrightarrow> sound m live' tbl"
  by (cases tbl) (auto intro: table_ok_mono)

text \<open>A request touches one table: what it adds is new in the target, what it deletes was its own.\<close>

lemma manager_frame:
  assumes ok: "manager_ok others m live" and own: "sound m' live' tbl"
    and add: "holds m' tbl \<inter> live \<subseteq> holds m tbl" and keep: "live - holds m tbl \<subseteq> live'"
    and frame: "\<And>x. x \<noteq> tbl \<Longrightarrow> holds m' x = holds m x \<and> (sound m live' x \<longrightarrow> sound m' live' x)"
  shows "manager_ok others m' live'"
proof -
  have s: "sound m live x" "holds m x \<inter> others = {}" for x using ok by (simp_all add: manager_ok_def)
  have disj: "holds m x \<inter> holds m y = {}" if "x \<noteq> y" for x y using ok that by (simp add: manager_ok_def)
  have others: "others \<subseteq> live" using ok by (simp add: manager_ok_def)
  have own_new: "holds m' tbl \<inter> holds m x = {}" if "x \<noteq> tbl" for x
    using add disj [OF that] sound_holds [OF s(1) [of x]] by blast
  have "others \<subseteq> live'" using others keep s(2) [of tbl] by blast
  moreover have "sound m' live' x" for x
  proof (cases "x = tbl")
    case False
    have "holds m x \<subseteq> live'" using sound_holds [OF s(1) [of x]] disj [OF False] keep by blast
    then have "sound m live' x" by (rule sound_mono [OF s(1)])
    then show ?thesis using frame [OF False] by simp
  qed (use own in simp)
  moreover have "holds m' x \<inter> others = {}" for x
  proof (cases "x = tbl")
    case True
    then show ?thesis using add others s(2) [of tbl] by blast
  qed (use frame s(2) in simp)
  moreover have "holds m' x \<inter> holds m' y = {}" if "x \<noteq> y" for x y
    using that own_new [of x] own_new [of y] disj [OF that] frame [of x] frame [of y]
    by (cases "x = tbl"; cases "y = tbl") auto
  ultimately show ?thesis by (simp add: manager_ok_def)
qed

lemma manager_sound: "manager_ok others m live \<Longrightarrow> sound m live tbl"
  by (simp add: manager_ok_def)

section \<open>Every request keeps it\<close>

lemma SetSourceBreakpoints_in_frame:
  assumes laws: "SBTarget_laws api live" and ok: "table_ok bp_handle t (live_ids live d)"
    and run: "SetSourceBreakpoints_in api env source breakpoints (t, d) = (rs, t', d')"
  shows "table_ok bp_handle t' (live_ids live d') \<and> held bp_handle t' \<inter> live_ids live d \<subseteq> held bp_handle t \<and>
    live_ids live d - held bp_handle t \<subseteq> live_ids live d'"
proof -
  obtain t1 d1 where e: "fold (source_enter api env source) (requested breakpoints) (t, d) = (t1, d1)"
    and r: "fold (remove_entry api bp_handle) (filter (\<lambda>k. k \<notin> set (map position_of (requested breakpoints))) (map fst t1)) (t1, d1) = (t', d')"
    by (rule SetSourceBreakpoints_in_parts [OF run])
  have "set (filter (\<lambda>k. k \<notin> set (map position_of (requested breakpoints))) (map fst t1)) =
      set (map fst t1) - position_of ` set (requested breakpoints)" by auto
  from source_request [OF laws ok e r this] show ?thesis by blast
qed

lemma SetSourceBreakpoints_ok:
  assumes laws: "SBTarget_laws api live" and ok: "manager_ok others m (live_ids live d)"
    and run: "SetSourceBreakpoints api env source breakpoints (m, d) = (rs, m', d')"
  shows "manager_ok others m' (live_ids live d')"
proof (cases "src_sourceReference source")
  case (Some r)
  obtain rs1 t d1 where i: "SetSourceBreakpoints_in api env source breakpoints (bm_source_assembly_breakpoints m r, d) = (rs1, t, d1)"
    by (rule prod_cases3)
  have m': "m' = m\<lparr>bm_source_assembly_breakpoints := (bm_source_assembly_breakpoints m)(r := t)\<rparr>" "d' = d1"
    using run Some i by (simp_all add: SetSourceBreakpoints_def Let_def)
  have "sound m (live_ids live d) (AssemblyTable r)" by (rule manager_sound [OF ok])
  then have "table_ok bp_handle (bm_source_assembly_breakpoints m r) (live_ids live d)" by simp
  note f = SetSourceBreakpoints_in_frame [OF laws this i]
  show ?thesis
  proof (rule manager_frame [OF ok, where tbl = "AssemblyTable r"])
    show "holds m' x = holds m x \<and> (sound m (live_ids live d') x \<longrightarrow> sound m' (live_ids live d') x)" if "x \<noteq> AssemblyTable r" for x
      using that m' by (cases x) simp_all
  qed (use f m' in simp_all)
next
  case None
  define path where "path = (case src_path source of None \<Rightarrow> [] | Some p \<Rightarrow> p)"
  obtain rs1 t d1 where i: "SetSourceBreakpoints_in api env source breakpoints (bm_source_breakpoints m path, d) = (rs1, t, d1)"
    by (rule prod_cases3)
  have m': "m' = m\<lparr>bm_source_breakpoints := (bm_source_breakpoints m)(path := t)\<rparr>" "d' = d1"
    using run None i by (simp_all add: SetSourceBreakpoints_def Let_def path_def)
  have "sound m (live_ids live d) (SourceTable path)" by (rule manager_sound [OF ok])
  then have "table_ok bp_handle (bm_source_breakpoints m path) (live_ids live d)" by simp
  note f = SetSourceBreakpoints_in_frame [OF laws this i]
  show ?thesis
  proof (rule manager_frame [OF ok, where tbl = "SourceTable path"])
    show "holds m' x = holds m x \<and> (sound m (live_ids live d') x \<longrightarrow> sound m' (live_ids live d') x)" if "x \<noteq> SourceTable path" for x
      using that m' by (cases x) simp_all
  qed (use f m' in simp_all)
qed

text \<open>A hash table is traversed in some order of its keys.\<close>

definition traverses :: "bp_env \<Rightarrow> bool" where
  "traverses env \<longleftrightarrow> (\<forall>xs. set (be_name_order env xs) = set xs) \<and> (\<forall>xs. set (be_address_order env xs) = set xs)"

lemma seen_keys: "set seen = set (map fst t) \<Longrightarrow> set (map fst t1) - ks = set (map fst t) - ks \<Longrightarrow>
    set (filter (\<lambda>k. k \<notin> ks) seen) = set (map fst t1) - ks"
  by auto

lemma SetFunctionBreakpoints_frame:
  assumes laws: "SBTarget_laws api live" and env: "traverses env"
    and ok: "table_ok bp_handle (bm_function_breakpoints m) (live_ids live d)"
    and run: "SetFunctionBreakpoints api env bs (m, d) = (rs, m', d')"
  shows "m' = m\<lparr>bm_function_breakpoints := bm_function_breakpoints m'\<rparr> \<and> length rs = length bs \<and>
    table_ok bp_handle (bm_function_breakpoints m') (live_ids live d') \<and>
    holds m' FunctionTable \<inter> live_ids live d \<subseteq> holds m FunctionTable \<and>
    live_ids live d - holds m FunctionTable \<subseteq> live_ids live d' \<and>
    set (map fst (bm_function_breakpoints m')) \<subseteq> fq_name ` set bs"
proof -
  obtain ps t1 d1 where l: "request_loop (function_step api env) bs (bm_function_breakpoints m, d) = (ps, t1, d1)" by (rule prod_cases3)
  define seen where "seen = be_name_order env (map fst (bm_function_breakpoints m))"
  obtain t2 d2 where r: "fold (remove_entry api bp_handle) (filter (\<lambda>k. k \<notin> fq_name ` set bs) seen) (t1, d1) = (t2, d2)" by fastforce
  have m': "m' = m\<lparr>bm_function_breakpoints := t2\<rparr>" "d' = d2" "rs = ps"
    using run l r by (simp_all add: SetFunctionBreakpoints_def Let_def seen_def)
  have e: "fold (function_enter api env) bs (bm_function_breakpoints m, d) = (t1, d1)"
    using request_loop_fold [OF l] by (simp add: function_enter_def)
  have "set seen = set (map fst (bm_function_breakpoints m))" using env by (simp add: seen_def traverses_def)
  then have "set (filter (\<lambda>k. k \<notin> fq_name ` set bs) seen) = set (map fst t1) - fq_name ` set bs"
    by (rule seen_keys [OF _ func.keys_entered [OF func.fold_enter [OF laws ok e]]])
  from func.whole_request [OF laws ok e r this] m' request_loop_length [OF l] show ?thesis by simp
qed

lemma SetInstructionBreakpoints_frame:
  assumes laws: "SBTarget_laws api live" and env: "traverses env"
    and ok: "table_ok bp_handle (bm_instruction_breakpoints m) (live_ids live d)"
    and run: "SetInstructionBreakpoints api env bs (m, d) = Some (rs, m', d')"
  shows "m' = m\<lparr>bm_instruction_breakpoints := bm_instruction_breakpoints m'\<rparr> \<and> length rs = length bs \<and>
    table_ok bp_handle (bm_instruction_breakpoints m') (live_ids live d') \<and>
    holds m' InstructionTable \<inter> live_ids live d \<subseteq> holds m InstructionTable \<and>
    live_ids live d - holds m InstructionTable \<subseteq> live_ids live d' \<and>
    set (map fst (bm_instruction_breakpoints m')) \<subseteq> address_of env ` set bs"
proof -
  obtain ps t1 d1 where l: "request_loop (instruction_step api env) bs (bm_instruction_breakpoints m, d) = (ps, t1, d1)" by (rule prod_cases3)
  define seen where "seen = be_address_order env (map fst (bm_instruction_breakpoints m))"
  obtain t2 d2 where r: "fold (remove_entry api bp_handle) (filter (\<lambda>k. k \<notin> address_of env ` set bs) seen) (t1, d1) = (t2, d2)" by fastforce
  have m': "m' = m\<lparr>bm_instruction_breakpoints := t2\<rparr>" "d' = d2" "rs = ps"
    using run l r by (auto simp: SetInstructionBreakpoints_def Let_def seen_def split: if_splits)
  have e: "fold (instruction_enter api env) bs (bm_instruction_breakpoints m, d) = (t1, d1)"
    using request_loop_fold [OF l] by (simp add: instruction_enter_def)
  have "set seen = set (map fst (bm_instruction_breakpoints m))" using env by (simp add: seen_def traverses_def)
  then have "set (filter (\<lambda>k. k \<notin> address_of env ` set bs) seen) = set (map fst t1) - address_of env ` set bs"
    by (rule seen_keys [OF _ instr.keys_entered [OF instr.fold_enter [OF laws ok e]]])
  from instr.whole_request [OF laws ok e r this] m' request_loop_length [OF l] show ?thesis by simp
qed

text \<open>Exception breakpoints: the list keeps its filters, only handles come and go.\<close>

definition exception_ids :: "ExceptionBreakpoint list \<Rightarrow> break_id set" where
  "exception_ids bps = {i. \<exists>n < length bps. eb_handle (bps ! n) = Some i}"

lemma exception_ids_set: "exception_ids bps = {i. \<exists>bp \<in> set bps. eb_handle bp = Some i}"
  by (auto simp: exception_ids_def set_conv_nth)

definition exceptions_frame :: "('w \<Rightarrow> break_id set) \<Rightarrow> ExceptionBreakpoint list \<times> 'w debugger \<Rightarrow> ExceptionBreakpoint list \<times> 'w debugger \<Rightarrow> bool" where
  "exceptions_frame live s s' \<longleftrightarrow> (case (s, s') of ((bps, d), (bps', d')) \<Rightarrow>
     exceptions_ok bps' \<and> exception_ids bps' \<subseteq> live_ids live d' \<and>
     exception_ids bps' \<inter> live_ids live d \<subseteq> exception_ids bps \<and> live_ids live d - exception_ids bps \<subseteq> live_ids live d')"

lemma exceptions_frame_trans:
  "exceptions_frame live s s1 \<Longrightarrow> exceptions_frame live s1 s2 \<Longrightarrow> exceptions_frame live s s2"
  by (cases s; cases s1; cases s2) (auto simp: exceptions_frame_def)

lemma exceptions_frame_refl: "exceptions_ok bps \<Longrightarrow> exception_ids bps \<subseteq> live_ids live d \<Longrightarrow> exceptions_frame live (bps, d) (bps, d)"
  by (simp add: exceptions_frame_def)

lemma filter_index: "GetExceptionBreakpoint_by_filter f bps = Some n \<Longrightarrow> n < length bps"
  by (auto simp: GetExceptionBreakpoint_by_filter_def Let_def split: if_splits)

lemma exceptions_frame_update:
  assumes ok: "exceptions_ok bps" and ids: "exception_ids bps \<subseteq> live_ids live d" and n: "n < length bps"
    and new: "eb_handle bp = eb_handle (bps ! n) \<and> live_ids live d' = live_ids live d \<or>
      eb_handle (bps ! n) = None \<and> created live d d' (eb_handle bp) \<or>
      eb_handle bp = None \<and> live_ids live d' = live_ids live d - set_option (eb_handle (bps ! n))"
  shows "exceptions_frame live (bps, d) (bps[n := bp], d')"
proof -
  have at: "eb_handle (bps[n := bp] ! p) = (if p = n then eb_handle bp else eb_handle (bps ! p))" if "p < length bps" for p
    using n by (simp add: nth_list_update)
  have old: "i \<in> live_ids live d" if "p < length bps" "eb_handle (bps ! p) = Some i" for p i
    using ids that by (auto simp: exception_ids_def)
  have inj: "p = q" if "p < length bps" "q < length bps" "eb_handle (bps ! p) = Some i" "eb_handle (bps ! q) = Some i" for p q i
    using ok that unfolding exceptions_ok_def by blast
  consider (same) "eb_handle bp = eb_handle (bps ! n)" "live_ids live d' = live_ids live d"
    | (fresh) i where "eb_handle (bps ! n) = None" "eb_handle bp = Some i" "i \<notin> live_ids live d" "live_ids live d' = insert i (live_ids live d)"
    | (gone) "eb_handle bp = None" "live_ids live d' = live_ids live d - set_option (eb_handle (bps ! n))"
    using new by (auto simp: created_def)
  then show ?thesis
  proof cases
    case same
    then have h: "eb_handle (bps[n := bp] ! p) = eb_handle (bps ! p)" if "p < length bps" for p using at [OF that] by simp
    then have "exception_ids (bps[n := bp]) = exception_ids bps" by (auto simp: exception_ids_def)
    moreover have "exceptions_ok (bps[n := bp])" using ok h unfolding exceptions_ok_def length_list_update by (metis h)
    ultimately show ?thesis using same ids by (simp add: exceptions_frame_def)
  next
    case fresh
    have "exceptions_ok (bps[n := bp])"
      unfolding exceptions_ok_def length_list_update
    proof (intro allI impI, elim conjE)
      fix p q j assume "p < length bps" "q < length bps" "eb_handle (bps[n := bp] ! p) = Some j" "eb_handle (bps[n := bp] ! q) = Some j"
      then show "p = q" using at [of p] at [of q] fresh old [of p j] old [of q j] inj [of p q j] by (auto split: if_splits)
    qed
    moreover have "exception_ids (bps[n := bp]) \<subseteq> insert i (exception_ids bps)"
      using n fresh by (auto simp: exception_ids_def at cong: conj_cong split: if_splits)
    ultimately show ?thesis using fresh ids by (auto simp: exceptions_frame_def)
  next
    case gone
    have "exceptions_ok (bps[n := bp])"
      unfolding exceptions_ok_def length_list_update
    proof (intro allI impI, elim conjE)
      fix p q j assume "p < length bps" "q < length bps" "eb_handle (bps[n := bp] ! p) = Some j" "eb_handle (bps[n := bp] ! q) = Some j"
      then show "p = q" using at [of p] at [of q] gone inj [of p q j] by (auto split: if_splits)
    qed
    moreover have "exception_ids (bps[n := bp]) \<subseteq> exception_ids bps - set_option (eb_handle (bps ! n))"
    proof
      fix j assume "j \<in> exception_ids (bps[n := bp])"
      then obtain p where p: "p < length bps" "eb_handle (bps[n := bp] ! p) = Some j" by (auto simp: exception_ids_def)
      then have "p \<noteq> n" "eb_handle (bps ! p) = Some j" using at [of p] gone by (auto split: if_splits)
      then show "j \<in> exception_ids bps - set_option (eb_handle (bps ! n))" using p n inj [of p n j] by (auto simp: exception_ids_def)
    qed
    moreover have "set_option (eb_handle (bps ! n)) \<subseteq> exception_ids bps" using n by (auto simp: exception_ids_def)
    ultimately show ?thesis using gone ids by (auto simp: exceptions_frame_def)
  qed
qed

lemma ExceptionBreakpoint_SetBreakpoint_live:
  assumes laws: "SBTarget_laws api live" and run: "ExceptionBreakpoint_SetBreakpoint api condition (bp, d) = (r, bp', d')"
  shows "eb_handle bp' = eb_handle bp \<and> live_ids live d' = live_ids live d \<or>
    eb_handle bp = None \<and> created live d d' (eb_handle bp')"
proof -
  note law = laws [unfolded SBTarget_laws_def]
  show ?thesis
  proof (cases "eb_handle bp")
    case (Some i)
    then show ?thesis using run law by (auto simp: ExceptionBreakpoint_SetBreakpoint_def Let_def live_ids_def)
  next
    case None
    obtain i w where c: "tg_create api (ForException (eb_language bp) (eb_kind bp = eExceptionKindCatch) (eb_kind bp = eExceptionKindThrow)) (dg_world d) = (i, w)"
      by fastforce
    then have "i \<notin> live (dg_world d) \<and> live w = insert i (live (dg_world d))"
      by (rule law [THEN conjunct1, rule_format])
    moreover have "eb_handle bp' = Some i" "dg_world d' = tg_set_condition api i condition (tg_add_name api i ''dap'' w)"
      using run None c by (auto simp: ExceptionBreakpoint_SetBreakpoint_def Let_def)
    ultimately show ?thesis using None law by (simp add: created_def live_ids_def)
  qed
qed

lemma exception_step_frame:
  assumes laws: "SBTarget_laws api live" and ok: "exceptions_ok bps" "exception_ids bps \<subseteq> live_ids live d"
  shows "exceptions_frame live (bps, d) (snd (exception_step api fc (bps, d)))"
proof (cases "GetExceptionBreakpoint_by_filter (fst fc) bps")
  case None
  then show ?thesis using ok by (simp add: exception_step_def split_beta exceptions_frame_refl)
next
  case (Some n)
  obtain r bp d' where s: "ExceptionBreakpoint_SetBreakpoint api (snd fc) (bps ! n, d) = (r, bp, d')" by (rule prod_cases3)
  have "exceptions_frame live (bps, d) (bps[n := bp], d')"
    by (rule exceptions_frame_update [OF ok filter_index [OF Some]])
      (use ExceptionBreakpoint_SetBreakpoint_live [OF laws s] in blast)
  then show ?thesis using Some s by (simp add: exception_step_def split_beta)
qed

lemma exception_clear_frame:
  assumes laws: "SBTarget_laws api live" and ok: "exceptions_ok bps" "exception_ids bps \<subseteq> live_ids live d"
  shows "exceptions_frame live (bps, d) (exception_clear api f (bps, d))"
proof (cases "GetExceptionBreakpoint_by_filter f bps")
  case None
  then show ?thesis using ok by (simp add: exception_clear_def exceptions_frame_refl)
next
  case (Some n)
  obtain bp d' where s: "ExceptionBreakpoint_ClearBreakpoint api (bps ! n, d) = (bp, d')" by fastforce
  have del: "live (tg_delete api i w) = live w - {i}" for i w using laws by (simp add: SBTarget_laws_def)
  have "eb_handle bp = None \<and> live_ids live d' = live_ids live d - set_option (eb_handle (bps ! n))"
    using s by (auto simp: ExceptionBreakpoint_ClearBreakpoint_def live_ids_def on_world_def del split: option.splits)
  then have "exceptions_frame live (bps, d) (bps[n := bp], d')"
    by (intro exceptions_frame_update [OF ok filter_index [OF Some]]) blast
  then show ?thesis using Some s by (simp add: exception_clear_def)
qed

lemma exceptions_frame_fold:
  assumes "\<And>x bps d. exceptions_ok bps \<Longrightarrow> exception_ids bps \<subseteq> live_ids live d \<Longrightarrow> exceptions_frame live (bps, d) (f x (bps, d))"
    and "exceptions_ok bps" and "exception_ids bps \<subseteq> live_ids live d"
  shows "exceptions_frame live (bps, d) (fold f xs (bps, d))"
  using assms(2,3)
proof (induction xs arbitrary: bps d)
  case (Cons x xs)
  obtain bps1 d1 where f: "f x (bps, d) = (bps1, d1)" by fastforce
  have one: "exceptions_frame live (bps, d) (bps1, d1)" using assms(1) [OF Cons.prems, of x] f by simp
  then have "exceptions_frame live (bps1, d1) (fold f xs (bps1, d1))" by (intro Cons.IH) (simp_all add: exceptions_frame_def)
  from exceptions_frame_trans [OF one this] show ?case by (simp add: f)
qed (simp add: exceptions_frame_refl)

lemma SetExceptionBreakpoints_frame:
  assumes laws: "SBTarget_laws api live"
    and ok: "exceptions_ok (bm_exception_breakpoints m)" "exception_ids (bm_exception_breakpoints m) \<subseteq> live_ids live d"
    and run: "SetExceptionBreakpoints api filters filterOptions (m, d) = (rs, m', d')"
  shows "m' = m\<lparr>bm_exception_breakpoints := bm_exception_breakpoints m'\<rparr> \<and>
    exceptions_frame live (bm_exception_breakpoints m, d) (bm_exception_breakpoints m', d')"
proof -
  obtain ps bps1 d1 where l: "request_loop (exception_step api) (map (\<lambda>f. (f, [])) filters @ filterOptions) (bm_exception_breakpoints m, d) = (ps, bps1, d1)"
    by (rule prod_cases3)
  define unset where "unset = filter (\<lambda>f. f \<notin> set filters \<union> fst ` set filterOptions) (sorted_list_of_set (set (map eb_filter (bm_exception_breakpoints m))))"
  obtain bps2 d2 where r: "fold (exception_clear api) unset (bps1, d1) = (bps2, d2)" by fastforce
  have m': "m' = m\<lparr>bm_exception_breakpoints := bps2\<rparr>" "d' = d2"
    using run l r by (simp_all add: SetExceptionBreakpoints_def Let_def unset_def)
  have one: "exceptions_frame live (bm_exception_breakpoints m, d) (bps1, d1)"
    using exceptions_frame_fold [where f = "\<lambda>fc s. snd (exception_step api fc s)", OF exception_step_frame [OF laws] ok]
      request_loop_fold [OF l] by metis
  then have "exceptions_frame live (bps1, d1) (bps2, d2)"
    using exceptions_frame_fold [where f = "exception_clear api", OF exception_clear_frame [OF laws], of bps1 d1 unset] r
    by (simp add: exceptions_frame_def)
  from exceptions_frame_trans [OF one this] m' show ?thesis by simp
qed

section \<open>A session\<close>

datatype breakpoint_request =
    SourceRequest Source "SourceBreakpointRequest list option"
  | FunctionRequest "FunctionBreakpointRequest list"
  | InstructionRequest "InstructionBreakpointRequest list"
  | ExceptionRequest "string list" "(string \<times> string) list"
  | CapabilitiesRequest bool "language_info list"

definition breakpoint_request_step ::
  "'w SBTarget_api \<Rightarrow> bp_env \<Rightarrow> breakpoint_request \<Rightarrow> BreakpointManager \<times> 'w debugger \<Rightarrow>
   (ProtocolBreakpoint list \<times> BreakpointManager \<times> 'w debugger) option" where
  "breakpoint_request_step api env r s =
     (case r of
        SourceRequest source bs \<Rightarrow> Some (SetSourceBreakpoints api env source bs s)
      | FunctionRequest bs \<Rightarrow> Some (SetFunctionBreakpoints api env bs s)
      | InstructionRequest bs \<Rightarrow> SetInstructionBreakpoints api env bs s
      | ExceptionRequest filters filterOptions \<Rightarrow> Some (SetExceptionBreakpoints api filters filterOptions s)
      | CapabilitiesRequest supported languages \<Rightarrow>
          Some ([], PopulateExceptionBreakpoints 4 supported languages (fst s), snd s))"

fun breakpoint_session ::
  "'w SBTarget_api \<Rightarrow> bp_env \<Rightarrow> breakpoint_request list \<Rightarrow> BreakpointManager \<times> 'w debugger \<Rightarrow>
   (BreakpointManager \<times> 'w debugger) option" where
  "breakpoint_session api env [] s = Some s"
| "breakpoint_session api env (r # rs) s =
     (case breakpoint_request_step api env r s of None \<Rightarrow> None | Some (_, s) \<Rightarrow> breakpoint_session api env rs s)"

definition new_BreakpointManager :: BreakpointManager where
  "new_BreakpointManager = \<lparr>bm_source_breakpoints = (\<lambda>_. []), bm_source_assembly_breakpoints = (\<lambda>_. []),
     bm_function_breakpoints = [], bm_instruction_breakpoints = [], bm_exception_breakpoints = []\<rparr>"

lemma table_ok_empty: "table_ok handle [] live" "held handle [] = {}"
  by (simp_all add: table_ok_def held_def id_at_def)

lemma new_manager_ok: "manager_ok live new_BreakpointManager live"
proof -
  have "sound new_BreakpointManager live tbl \<and> holds new_BreakpointManager tbl = {}" for tbl
    by (cases tbl) (simp_all add: new_BreakpointManager_def table_ok_empty exceptions_ok_def)
  then show ?thesis by (simp add: manager_ok_def)
qed

text \<open>New exception breakpoints have no breakpoint in the target yet.\<close>

lemma populated: "\<exists>new. bm_exception_breakpoints (PopulateExceptionBreakpoints c supported languages m) =
    bm_exception_breakpoints m @ new \<and> (\<forall>bp \<in> set new. eb_handle bp = None)"
  unfolding PopulateExceptionBreakpoints_def
  by (rule exI, rule conjI, simp)
    (auto simp: new_ExceptionBreakpoint_def language_breakpoints_def Let_def split: option.splits if_splits)

lemma exceptions_ok_append:
  assumes "exceptions_ok bps" and "\<forall>bp \<in> set new. eb_handle bp = None"
  shows "exceptions_ok (bps @ new)"
  using assms unfolding exceptions_ok_def
  by (metis append_eq_conv_conj length_append nat_add_left_cancel_less not_less_iff_gr_or_eq nth_append nth_mem
      option.distinct(1) less_imp_add_positive add_diff_inverse_nat length_append)

lemma PopulateExceptionBreakpoints_ok:
  assumes ok: "manager_ok others m live"
  shows "manager_ok others (PopulateExceptionBreakpoints c supported languages m) live"
proof -
  let ?m = "PopulateExceptionBreakpoints c supported languages m"
  obtain new where new: "bm_exception_breakpoints ?m = bm_exception_breakpoints m @ new" "\<forall>bp \<in> set new. eb_handle bp = None"
    using populated by blast
  have h: "holds ?m ExceptionTable = holds m ExceptionTable" using new by auto
  have s: "sound m live ExceptionTable" by (rule manager_sound [OF ok])
  show ?thesis
  proof (rule manager_frame [OF ok, where tbl = ExceptionTable])
    show "sound ?m live ExceptionTable" using s h new exceptions_ok_append by (simp only: sound.simps)
    show "holds ?m x = holds m x \<and> (sound m live x \<longrightarrow> sound ?m live x)" if "x \<noteq> ExceptionTable" for x
      using that by (cases x) (simp_all add: PopulateExceptionBreakpoints_def)
  qed (use h in blast)+
qed

lemma breakpoint_request_step_ok:
  assumes laws: "SBTarget_laws api live" and env: "traverses env" and ok: "manager_ok others m (live_ids live d)"
    and run: "breakpoint_request_step api env r (m, d) = Some (rs, m', d')"
  shows "manager_ok others m' (live_ids live d')"
proof (cases r)
  case (SourceRequest source bs)
  then show ?thesis using run SetSourceBreakpoints_ok [OF laws ok] by (simp add: breakpoint_request_step_def)
next
  case (FunctionRequest bs)
  then have run: "SetFunctionBreakpoints api env bs (m, d) = (rs, m', d')" using run by (simp add: breakpoint_request_step_def)
  have "sound m (live_ids live d) FunctionTable" by (rule manager_sound [OF ok])
  note f = SetFunctionBreakpoints_frame [OF laws env this [unfolded sound.simps] run]
  show ?thesis
  proof (rule manager_frame [OF ok, where tbl = FunctionTable])
    show "holds m' x = holds m x \<and> (sound m (live_ids live d') x \<longrightarrow> sound m' (live_ids live d') x)" if "x \<noteq> FunctionTable" for x
      using that by (subst (1 2) conjunct1 [OF f], cases x) simp_all
  qed (use f in simp_all)
next
  case (InstructionRequest bs)
  then have run: "SetInstructionBreakpoints api env bs (m, d) = Some (rs, m', d')" using run by (simp add: breakpoint_request_step_def)
  have "sound m (live_ids live d) InstructionTable" by (rule manager_sound [OF ok])
  note f = SetInstructionBreakpoints_frame [OF laws env this [unfolded sound.simps] run]
  show ?thesis
  proof (rule manager_frame [OF ok, where tbl = InstructionTable])
    show "holds m' x = holds m x \<and> (sound m (live_ids live d') x \<longrightarrow> sound m' (live_ids live d') x)" if "x \<noteq> InstructionTable" for x
      using that by (subst (1 2) conjunct1 [OF f], cases x) simp_all
  qed (use f in simp_all)
next
  case (ExceptionRequest filters filterOptions)
  then have run: "SetExceptionBreakpoints api filters filterOptions (m, d) = (rs, m', d')" using run by (simp add: breakpoint_request_step_def)
  have "sound m (live_ids live d) ExceptionTable" by (rule manager_sound [OF ok])
  then have "exceptions_ok (bm_exception_breakpoints m)" "exception_ids (bm_exception_breakpoints m) \<subseteq> live_ids live d"
    by (simp_all add: exception_ids_set)
  note f = SetExceptionBreakpoints_frame [OF laws this run]
  show ?thesis
  proof (rule manager_frame [OF ok, where tbl = ExceptionTable])
    show "holds m' x = holds m x \<and> (sound m (live_ids live d') x \<longrightarrow> sound m' (live_ids live d') x)" if "x \<noteq> ExceptionTable" for x
      using that by (subst (1 2) conjunct1 [OF f], cases x) simp_all
  qed (use f in \<open>simp_all add: exceptions_frame_def exception_ids_set\<close>)
next
  case (CapabilitiesRequest supported languages)
  then show ?thesis using run PopulateExceptionBreakpoints_ok [OF ok] by (auto simp: breakpoint_request_step_def)
qed

lemma breakpoint_session_ok:
  assumes laws: "SBTarget_laws api live" and env: "traverses env"
  shows "manager_ok others m (live_ids live d) \<Longrightarrow> breakpoint_session api env rs (m, d) = Some (m', d') \<Longrightarrow>
    manager_ok others m' (live_ids live d')"
proof (induction rs arbitrary: m d)
  case (Cons r rs)
  then obtain ps m1 d1 where s: "breakpoint_request_step api env r (m, d) = Some (ps, m1, d1)"
    and l: "breakpoint_session api env rs (m1, d1) = Some (m', d')" by (auto split: option.splits)
  show ?case by (rule Cons.IH [OF breakpoint_request_step_ok [OF laws env Cons.prems(1) s] l])
qed simp

text \<open>A session only fails at an instruction breakpoint whose address the hash table reserves for itself.\<close>

definition well_addressed :: "bp_env \<Rightarrow> breakpoint_request \<Rightarrow> bool" where
  "well_addressed env r \<longleftrightarrow>
     (case r of InstructionRequest bs \<Rightarrow> \<not> list_ex (\<lambda>b. reserved_address (address_of env b)) bs | _ \<Rightarrow> True)"

lemma breakpoint_session_total:
  "list_all (well_addressed env) rs \<Longrightarrow> \<exists>m' d'. breakpoint_session api env rs s = Some (m', d')"
proof (induction rs arbitrary: s)
  case (Cons r rs)
  have "breakpoint_request_step api env r s \<noteq> None"
    using Cons.prems by (cases r) (simp_all add: breakpoint_request_step_def SetInstructionBreakpoints_def well_addressed_def)
  then obtain ps s1 where "breakpoint_request_step api env r s = Some (ps, s1)" by (metis option.exhaust surj_pair)
  then show ?case using Cons.IH [of s1] Cons.prems by simp
qed simp

text \<open>C4: Any sequence of breakpoint requests from a fresh manager, on a target where others already have
  breakpoints, runs to its end (unless an instruction breakpoint names one of the two addresses the hash
  table reserves) and leaves the manager consistent with the target: every identifier it holds exists
  there, is held once in one table only and is not one of the others', and all of the others' still exist.\<close>

theorem breakpoint_session_sound:
  assumes "SBTarget_laws api live" and "traverses env" and "list_all (well_addressed env) rs"
  shows "\<exists>m' d'. breakpoint_session api env rs (new_BreakpointManager, d) = Some (m', d') \<and>
    manager_ok (live_ids live d) m' (live_ids live d')"
  using breakpoint_session_total [OF assms(3), of api "(new_BreakpointManager, d)"]
    breakpoint_session_ok [OF assms(1,2) new_manager_ok] by blast

section \<open>A sample target\<close>

text \<open>Identifiers are counted up; every breakpoint has one location, in code.\<close>

type_synonym sample_world = "int \<times> int list"

definition sample_location :: SBLocation where
  "sample_location = \<lparr>sl_load_address = 0x1000, sl_enabled = True, sl_resolved = True, sl_address_valid = True,
     sl_source = None, sl_inlined_blocks = [], sl_line = 7, sl_column = 0, sl_symbol = None\<rparr>"

definition sample_api :: "sample_world SBTarget_api" where
  "sample_api = \<lparr>tg_create = (\<lambda>c w. (fst w, (fst w + 1, fst w # snd w))),
     tg_delete = (\<lambda>i w. (fst w, filter (\<lambda>j. j \<noteq> i) (snd w))),
     tg_locations = (\<lambda>i w. if i \<in> set (snd w) then [sample_location] else []),
     tg_set_enabled = (\<lambda>i n b w. w), tg_set_hardware = (\<lambda>i b w. (None, w)), tg_add_name = (\<lambda>i n w. w),
     tg_set_condition = (\<lambda>i c w. w), tg_set_ignore_count = (\<lambda>i n w. w), tg_set_callback = (\<lambda>i w. w),
     tg_resolve_symbol = (\<lambda>a w. None), tg_read_instructions = (\<lambda>a n w. [])\<rparr>"

definition sample_live :: "sample_world \<Rightarrow> break_id set" where
  "sample_live w = {i \<in> set (snd w). i < fst w}"

lemma sample_laws: "SBTarget_laws sample_api sample_live"
  by (auto simp: SBTarget_laws_def sample_api_def sample_live_def)

definition sample_bp_env :: bp_env where
  "sample_bp_env = \<lparr>be_program = None, be_require_hardware = Some True, be_memory = \<lparr>m_regions = []\<rparr>,
     be_to_integer = (\<lambda>_. None), be_to_hex = (\<lambda>_. []), be_to_string = (\<lambda>_. []), be_source_reference = (\<lambda>_. None),
     be_to_integer_base = (\<lambda>_ _. Some 0x2000), be_uninitialised = 0, be_name_order = rev, be_address_order = rev\<rparr>"

definition sample_debugger :: "sample_world debugger" where
  "sample_debugger = \<lparr>dg_world = (6, [5, 2]), dg_output = [], dg_diagnostics = []\<rparr>"

definition at_line :: "u32 \<Rightarrow> SourceBreakpointRequest" where
  "at_line n = \<lparr>rq_line = n, rq_column = None, rq_condition = None, rq_hitCondition = None, rq_logMessage = None\<rparr>"

definition sample_source :: Source where
  "sample_source = \<lparr>src_name = None, src_path = Some ''main.c'', src_sourceReference = None, src_adapterData = None\<rparr>"

definition at_function :: "string \<Rightarrow> FunctionBreakpointRequest" where
  "at_function f = \<lparr>fq_name = f, fq_condition = None, fq_hitCondition = None\<rparr>"

text \<open>The two breakpoints of others (5 and 2) survive a session that sets and takes back its own.\<close>

theorem breakpoint_session_sound_witness:
  "\<exists>m' d'. breakpoint_session sample_api sample_bp_env
      [CapabilitiesRequest True [], SourceRequest sample_source (Some [at_line 3, at_line 9]), FunctionRequest [at_function ''main''],
       InstructionRequest [\<lparr>iq_instructionReference = ''x'', iq_offset = None, iq_condition = None, iq_hitCondition = None\<rparr>],
       ExceptionRequest [''cpp_throw''] [], SourceRequest sample_source (Some [at_line 9]), FunctionRequest []]
      (new_BreakpointManager, sample_debugger) = Some (m', d') \<and>
    manager_ok (live_ids sample_live sample_debugger) m' (live_ids sample_live d')"
proof (rule breakpoint_session_sound [OF sample_laws])
  show "traverses sample_bp_env" by (simp add: traverses_def sample_bp_env_def)
  show "list_all (well_addressed sample_bp_env)
      [CapabilitiesRequest True [], SourceRequest sample_source (Some [at_line 3, at_line 9]), FunctionRequest [at_function ''main''],
       InstructionRequest [\<lparr>iq_instructionReference = ''x'', iq_offset = None, iq_condition = None, iq_hitCondition = None\<rparr>],
       ExceptionRequest [''cpp_throw''] [], SourceRequest sample_source (Some [at_line 9]), FunctionRequest []]"
    by (simp add: well_addressed_def reserved_address_def address_of_def new_InstructionBreakpoint_def sample_bp_env_def
        InstructionBreakpoint.defs Breakpoint.defs)
qed

text \<open>The request at lines 3 and 9 of a source, after one at line 9: the breakpoint at 9 is kept.\<close>

theorem SetSourceBreakpoints_exact_witness:
  "let (rs, t, d) = SetSourceBreakpoints_in sample_api sample_bp_env sample_source (Some [at_line 9]) ([], sample_debugger);
       (rs', t', d') = SetSourceBreakpoints_in sample_api sample_bp_env sample_source (Some [at_line 3]) (t, d)
   in length rs' = 1 \<and> set (map fst t') \<subseteq> {(3, 0)} \<and> (held bp_handle t - held bp_handle t') \<inter> live_ids sample_live d' = {}"
proof -
  obtain rs t d where a: "SetSourceBreakpoints_in sample_api sample_bp_env sample_source (Some [at_line 9]) ([], sample_debugger) = (rs, t, d)"
    by (rule prod_cases3)
  obtain rs' t' d' where b: "SetSourceBreakpoints_in sample_api sample_bp_env sample_source (Some [at_line 3]) (t, d) = (rs', t', d')"
    by (rule prod_cases3)
  have "table_ok bp_handle t (live_ids sample_live d)"
    using SetSourceBreakpoints_in_frame [OF sample_laws table_ok_empty(1) a] by blast
  moreover have "position_of (at_line 3) = (3, 0)"
    by (simp add: position_of_def new_SourceBreakpoint_def at_line_def SourceBreakpoint.defs Breakpoint.defs)
  ultimately show ?thesis using SetSourceBreakpoints_exact [OF sample_laws _ b] by (simp add: a b requested_def)
qed

section \<open>What the requests leave behind\<close>

text \<open>A path breakpoint without code is answered with an error and dropped from the table, but the breakpoint
  made in the target stays there: nothing refers to it any more.\<close>

lemma path_without_code_left_behind:
  assumes "SBTarget_laws api live" and "src_sourceReference source = None" and "src_path source = Some path"
    and "rq_line b \<noteq> 0" and "rq_column b = Some c" and "map_of t (position_of b) = None"
    and "tg_create api (ByLocation path (rq_line b) c) (dg_world d) = (i, w)" and "tg_locations api i w = []"
  shows "snd (source_step api env source b (t, d)) = (t, d\<lparr>dg_world := w\<rparr>)" and "i \<in> live w"
proof -
  have "sb_line (new_SourceBreakpoint b) = rq_line b" "sb_column (new_SourceBreakpoint b) = c"
    using assms(5) by (simp_all add: new_SourceBreakpoint_def SourceBreakpoint.defs Breakpoint.defs)
  with assms show "snd (source_step api env source b (t, d)) = (t, d\<lparr>dg_world := w\<rparr>)"
    by (simp add: source_step_def position_of_def Let_def SourceBreakpoint_SetBreakpoint_def CreatePathBreakpoint_def
        create_breakpoint_def GetNumLocations_def split_beta)
  have "live w = insert i (live (dg_world d))"
    by (rule assms(1) [unfolded SBTarget_laws_def, THEN conjunct1, rule_format, OF assms(7), THEN conjunct2])
  then show "i \<in> live w" by simp
qed

text \<open>The exception filters are added again every time the capabilities are asked for: two reports list
  every filter twice, and only the first of two equal filters can be set.\<close>

lemma exception_filters_repeated:
  "length (bm_exception_breakpoints (PopulateExceptionBreakpoints c True [] (PopulateExceptionBreakpoints c True [] new_BreakpointManager))) = 4"
  "map eb_filter (bm_exception_breakpoints (PopulateExceptionBreakpoints c True [] (PopulateExceptionBreakpoints c True [] new_BreakpointManager))) =
     [''cpp_catch'', ''cpp_throw'', ''cpp_catch'', ''cpp_throw'']"
  by (simp_all add: PopulateExceptionBreakpoints_def new_BreakpointManager_def new_ExceptionBreakpoint_def)

text \<open>An instruction breakpoint whose reference is no number gets the address the hash table reserves.\<close>

lemma unreadable_reference_is_reserved:
  "be_to_integer_base env 0 (iq_instructionReference b) = None \<Longrightarrow> iq_offset b = None \<Longrightarrow>
   SetInstructionBreakpoints api env [b] s = None"
  by (simp add: SetInstructionBreakpoints_def address_of_def reserved_address_def new_InstructionBreakpoint_def
      InstructionBreakpoint.defs Breakpoint.defs)

end
