(* ===== verification/Breakpoint_Places.thy ===== *)
theory Breakpoint_Places
  imports Breakpoint_Manager
begin

text \<open>
  The requests of \<open>core/components/breakpoint_manager\<close> that keep no table: data breakpoints, of which the last
  at an address wins, and the places of a source where a breakpoint can be set.
\<close>

section \<open>Data breakpoints\<close>

text \<open>The watchpoints that no later one replaces.\<close>

fun enabled_watchpoints :: "Watchpoint list \<Rightarrow> Watchpoint list" where
  "enabled_watchpoints [] = []"
| "enabled_watchpoints (wp # wps) =
     (if wp_addr wp \<in> wp_addr ` set wps then enabled_watchpoints wps else wp # enabled_watchpoints wps)"

lemma enabled_watchpoints_addresses:
  "wp_addr ` set (enabled_watchpoints wps) = wp_addr ` set wps \<and> distinct (map wp_addr (enabled_watchpoints wps))"
  by (induction wps) auto

lemma SetWatchpoint_result:
  assumes "SetWatchpoint api env (wp, w) = (wp', w')"
  shows "wp_addr wp' = wp_addr wp"
    and "(\<exists>i. Watchpoint_ToProtocolBreakpoint wp' = new_ProtocolBreakpoint\<lparr>pb_verified := True, pb_id := Some i\<rparr>) \<or>
      (\<exists>e. Watchpoint_ToProtocolBreakpoint wp' = new_ProtocolBreakpoint\<lparr>pb_message := Some e\<rparr>)"
  using assms by (auto simp: SetWatchpoint_def Watchpoint_ToProtocolBreakpoint_def Let_def split: prod.splits sum.splits)

lemma set_watchpoints:
  "foldr (set_watchpoint api env) wps ([], {}, w) = (ws, addresses, w') \<Longrightarrow>
   addresses = wp_addr ` set wps \<and> length ws = length wps \<and>
   w' = foldr (\<lambda>wp w. snd (SetWatchpoint api env (wp, w))) (enabled_watchpoints wps) w \<and>
   (\<forall>i < length wps.
      if wp_addr (wps ! i) \<in> wp_addr ` set (drop (Suc i) wps) then ws ! i = wps ! i
      else \<exists>u. \<exists>v. SetWatchpoint api env (wps ! i, u) = (ws ! i, v))"
proof (induction wps arbitrary: ws addresses w')
  case (Cons wp wps)
  obtain ws1 a1 w1 where f: "foldr (set_watchpoint api env) wps ([], {}, w) = (ws1, a1, w1)" by (rule prod_cases3)
  note ih = Cons.IH [OF f]
  have step: "set_watchpoint api env wp (ws1, a1, w1) = (ws, addresses, w')" using Cons.prems f by simp
  show ?case
  proof (cases "wp_addr wp \<in> a1")
    case True
    then have r: "ws = wp # ws1" "addresses = a1" "w' = w1" using step by (simp_all add: set_watchpoint_def)
    then show ?thesis using ih True by (auto simp: nth_Cons less_Suc_eq_0_disj split: nat.splits)
  next
    case False
    obtain wp' w2 where s: "SetWatchpoint api env (wp, w1) = (wp', w2)" by fastforce
    then have r: "ws = wp' # ws1" "addresses = insert (wp_addr wp') a1" "w' = w2"
      using step False by (simp_all add: set_watchpoint_def)
    have "wp_addr wp' = wp_addr wp" by (rule SetWatchpoint_result(1) [OF s])
    then show ?thesis using ih False r s by (auto simp: nth_Cons less_Suc_eq_0_disj split: nat.splits)
  qed
qed simp

lemma new_Watchpoint_unset: "Watchpoint_ToProtocolBreakpoint (new_Watchpoint env b) = new_ProtocolBreakpoint"
  by (simp add: new_Watchpoint_def Watchpoint_ToProtocolBreakpoint_def split_beta)

text \<open>C38: A request for data breakpoints deletes all watchpoints, then sets exactly the ones whose address no
  later one repeats, the last first, each at an address of its own.  Every breakpoint of the request is
  answered: one that is replaced by a later one as not verified, any other as verified with an identifier or
  with the reason of the target.\<close>

theorem SetDataBreakpoints_last_wins:
  assumes run: "SetDataBreakpoints api env bs w = (rs, w')" and wps: "wps = map (new_Watchpoint env) bs"
  shows "w' = foldr (\<lambda>wp w. snd (SetWatchpoint api env (wp, w))) (enabled_watchpoints wps) (wa_delete_all api w) \<and>
    wp_addr ` set (enabled_watchpoints wps) = wp_addr ` set wps \<and> distinct (map wp_addr (enabled_watchpoints wps)) \<and>
    length rs = length bs \<and>
    (\<forall>i < length bs.
       if wp_addr (wps ! i) \<in> wp_addr ` set (drop (Suc i) wps) then rs ! i = new_ProtocolBreakpoint
       else (\<exists>n. rs ! i = new_ProtocolBreakpoint\<lparr>pb_verified := True, pb_id := Some n\<rparr>) \<or>
            (\<exists>e. rs ! i = new_ProtocolBreakpoint\<lparr>pb_message := Some e\<rparr>))"
proof -
  obtain ws a w1 where f: "foldr (set_watchpoint api env) wps ([], {}, wa_delete_all api w) = (ws, a, w1)" by (rule prod_cases3)
  have r: "rs = map Watchpoint_ToProtocolBreakpoint ws" "w' = w1"
    using run f by (simp_all add: SetDataBreakpoints_def Let_def wps)
  note s = set_watchpoints [OF f]
  have len: "length wps = length bs" by (simp add: wps)
  have "if wp_addr (wps ! i) \<in> wp_addr ` set (drop (Suc i) wps) then rs ! i = new_ProtocolBreakpoint
       else (\<exists>n. rs ! i = new_ProtocolBreakpoint\<lparr>pb_verified := True, pb_id := Some n\<rparr>) \<or>
            (\<exists>e. rs ! i = new_ProtocolBreakpoint\<lparr>pb_message := Some e\<rparr>)" if i: "i < length bs" for i
  proof (cases "wp_addr (wps ! i) \<in> wp_addr ` set (drop (Suc i) wps)")
    case True
    then have "ws ! i = new_Watchpoint env (bs ! i)" using s i by (simp add: wps)
    then show ?thesis using True r s i by (simp add: new_Watchpoint_unset wps)
  next
    case False
    then obtain u v where "SetWatchpoint api env (wps ! i, u) = (ws ! i, v)"
      using s [THEN conjunct2, THEN conjunct2, THEN conjunct2, rule_format, of i] i len by (auto simp del: drop_eq_Nil)
    from SetWatchpoint_result(2) [OF this] show ?thesis using False r s i by (simp add: wps)
  qed
  moreover have "w' = foldr (\<lambda>wp w. snd (SetWatchpoint api env (wp, w))) (enabled_watchpoints wps) (wa_delete_all api w)"
    "length rs = length bs" using s r len by simp_all
  ultimately show ?thesis using enabled_watchpoints_addresses [of wps] by blast
qed

definition sample_watch_api :: "u64 list watch_api" where
  "sample_watch_api = \<lparr>wa_delete_all = (\<lambda>w. []), wa_create = (\<lambda>a n r wr w. (Inr (int (length w)), w @ [a])),
     wa_set_condition = (\<lambda>i c w. w), wa_set_ignore_count = (\<lambda>i n w. w)\<rparr>"

definition sample_data_env :: bp_env where
  "sample_data_env = \<lparr>be_program = None, be_require_hardware = None, be_memory = \<lparr>m_regions = []\<rparr>,
     be_to_integer = (\<lambda>_. Some 4), be_to_hex = (\<lambda>_. []), be_to_string = (\<lambda>_. []), be_source_reference = (\<lambda>_. None),
     be_to_integer_base = (\<lambda>_ s. Some (of_nat (length s))), be_uninitialised = 0, be_name_order = id, be_address_order = id\<rparr>"

definition data_at :: "string \<Rightarrow> DataBreakpoint" where
  "data_at s = \<lparr>db_dataId = s, db_accessType = None, db_condition = None, db_hitCondition = None\<rparr>"

text \<open>Three breakpoints, the first and the last at the same address: the first is not set.\<close>

theorem SetDataBreakpoints_last_wins_witness:
  "let (rs, w') = SetDataBreakpoints sample_watch_api sample_data_env [data_at ''aa/4'', data_at ''b/4'', data_at ''cc/4''] [9]
   in w' = [2, 1] \<and> rs ! 0 = new_ProtocolBreakpoint \<and> length rs = 3"
proof -
  let ?bs = "[data_at ''aa/4'', data_at ''b/4'', data_at ''cc/4'']"
  obtain rs w' where s: "SetDataBreakpoints sample_watch_api sample_data_env ?bs [9] = (rs, w')" by fastforce
  note p = SetDataBreakpoints_last_wins [OF s refl]
  have "wp_addr (new_Watchpoint sample_data_env (data_at ''aa/4'')) = 2" "wp_addr (new_Watchpoint sample_data_env (data_at ''b/4'')) = 1"
    "wp_addr (new_Watchpoint sample_data_env (data_at ''cc/4'')) = 2"
    by (simp_all add: new_Watchpoint_def sample_data_env_def data_at_def split_slash_def)
  then show ?thesis using p s
    by (simp add: sample_watch_api_def SetWatchpoint_def new_Watchpoint_def data_at_def All_less_Suc split_beta)
qed

section \<open>Where a breakpoint can be set\<close>

text \<open>A position with a column is in range when it is between the ends in the order of lines and columns; a
  row without a column is in range by its line alone.\<close>

definition in_range :: "u32 \<times> u32 \<Rightarrow> u32 \<times> u32 \<Rightarrow> u32 \<times> u32 \<Rightarrow> bool" where
  "in_range lo hi p \<longleftrightarrow> fst lo \<le> fst p \<and> fst p \<le> fst hi \<and> (snd p = 0 \<or> lo \<le> p \<and> p \<le> hi)"

lemma entry_location_range:
  "entry_location file l c l' c' e = Some p \<longleftrightarrow>
     le_start_address e \<noteq> le_end_address e \<and> le_file e = file \<and> in_range (l, c) (l', c') (le_line e, le_column e) \<and>
     p = (le_line e, valid_column (le_column e))"
  by (auto simp: entry_location_def in_range_def less_eq_prod_def split: if_splits)

lemma unique_remdups: "unique xs = remdups_adj xs"
  by (induction xs rule: unique.induct) auto

lemma sorted_unique: "sorted xs \<Longrightarrow> sorted (unique xs) \<and> distinct (unique xs) \<and> set (unique xs) = set xs"
  unfolding unique_remdups by (induction xs rule: remdups_adj.induct) (auto simp: order_antisym)

lemma set_map_filter: "set (List.map_filter f xs) = {y. \<exists>x \<in> set xs. f x = Some y}"
  by (induction xs) (auto simp: map_filter_simps split: option.splits)

text \<open>The places of a source file are listed in increasing order without repetition, and are exactly the
  rows of the line tables that belong to the file itself, cover code and are in the range asked for: from the
  first line and column to the last.\<close>

lemma GetBreakpointLocations_exact:
  assumes path: "src_sourceReference (bl_source args) = None" "src_path (bl_source args) = Some path"
    and ends: "bl_endLine args = Some l'" "bl_endColumn args = Some c'" "bl_column args = Some c"
  shows "sorted (GetBreakpointLocations units symbols args) \<and> distinct (GetBreakpointLocations units symbols args) \<and>
    (\<forall>p. p \<in> set (GetBreakpointLocations units symbols args) \<longleftrightarrow>
      (\<exists>cu \<in> set (units path). cu_valid cu \<and> (\<exists>e \<in> set (cu_line_entries cu).
         le_start_address e \<noteq> le_end_address e \<and> le_file e = cu_file cu \<and>
         in_range (bl_line args, c) (l', c') (le_line e, le_column e) \<and> p = (le_line e, valid_column (le_column e)))))"
proof -
  define ps where "ps = GetSourceBreakpointLocations (units path) (bl_line args) c l' c'"
  have g: "GetBreakpointLocations units symbols args = unique (sort ps)"
    using assms by (simp add: GetBreakpointLocations_def ps_def)
  have "p \<in> set ps \<longleftrightarrow> (\<exists>cu \<in> set (units path). cu_valid cu \<and> (\<exists>e \<in> set (cu_line_entries cu).
      entry_location (cu_file cu) (bl_line args) c l' c' e = Some p))" for p
    unfolding ps_def GetSourceBreakpointLocations_def by (auto simp add: set_map_filter)
  then show ?thesis using sorted_unique [of "sort ps"] unfolding entry_location_range by (simp add: g)
qed

definition sample_unit :: SBCompileUnit where
  "sample_unit = (let row = (\<lambda>a b l c f. \<lparr>le_start_address = a, le_end_address = b, le_line = l, le_column = c, le_file = f\<rparr>);
       f = (''src'', ''main.c'') in
     \<lparr>cu_valid = True, cu_file = f, cu_line_entries =
       [row 0 4 5 2 f, row 4 8 4 0 f, row 8 12 5 2 f, row 12 16 5 9 f, row 16 16 5 3 f, row 16 20 5 3 (''inc'', ''a.h'')]\<rparr>)"

theorem GetBreakpointLocations_exact_witness:
  "let args = \<lparr>bl_source = \<lparr>src_name = None, src_path = Some ''main.c'', src_sourceReference = None, src_adapterData = None\<rparr>,
       bl_line = 4, bl_column = Some 1, bl_endLine = Some 5, bl_endColumn = Some 8\<rparr>
   in (5, Some 2) \<in> set (GetBreakpointLocations (\<lambda>_. [sample_unit]) (\<lambda>_. None) args) \<and>
      (5, Some 9) \<notin> set (GetBreakpointLocations (\<lambda>_. [sample_unit]) (\<lambda>_. None) args) \<and>
      distinct (GetBreakpointLocations (\<lambda>_. [sample_unit]) (\<lambda>_. None) args)"
proof -
  define args where "args = \<lparr>bl_source = \<lparr>src_name = None, src_path = Some ''main.c'', src_sourceReference = None, src_adapterData = None\<rparr>,
       bl_line = 4, bl_column = Some 1, bl_endLine = Some 5, bl_endColumn = Some 8\<rparr>"
  have "src_sourceReference (bl_source args) = None" "src_path (bl_source args) = Some ''main.c''"
    "bl_endLine args = Some 5" "bl_endColumn args = Some 8" "bl_column args = Some 1" and line: "bl_line args = 4"
    by (simp_all add: args_def)
  note p = GetBreakpointLocations_exact [OF this(1-5), of "\<lambda>_. [sample_unit]" "\<lambda>_. None"]
  have "(5, Some 2) \<in> set (GetBreakpointLocations (\<lambda>_. [sample_unit]) (\<lambda>_. None) args)"
    by (subst p [THEN conjunct2, THEN conjunct2, rule_format])
      (simp add: sample_unit_def Let_def in_range_def line valid_column_def less_eq_prod_def)
  moreover have "(5, Some 9) \<notin> set (GetBreakpointLocations (\<lambda>_. [sample_unit]) (\<lambda>_. None) args)"
    by (subst p [THEN conjunct2, THEN conjunct2, rule_format])
      (simp add: sample_unit_def Let_def in_range_def line valid_column_def less_eq_prod_def)
  ultimately show ?thesis using p unfolding Let_def args_def [symmetric] by blast
qed

text \<open>The places of an assembly source are one less than the lines that set them: line 1 is the first
  instruction, and the list starts at 0.\<close>

lemma assembly_locations_off_by_one:
  "GetAssemblyBreakpointLocations (\<lambda>_. Some 3) r 1 2 = [(0, Some 1), (1, Some 1)]"
proof -
  have "[0..<3] = [0, 1, 2 :: nat]" by (simp add: upt_rec)
  then show ?thesis by (simp add: GetAssemblyBreakpointLocations_def)
qed

end
