(* ===== verification/Openocd_Guard.thy ===== *)
theory Openocd_Guard
  imports Prelude
begin

text \<open>
  \<open>openocd_provider/src/openocd_exit.c\<close>: OpenOCD ends itself by calling \<open>exit\<close>; linked into the adapter it
  calls \<open>openocd_exit\<close>, which jumps back to the innermost guarded call of its thread.  A call into OpenOCD
  returns a value, or is cut off by a jump to a frame, or ends the process.
\<close>

section \<open>Calls that may be cut off\<close>

record openocd_jmp_state =
  js_buf :: nat
  js_armed :: bool

datatype 'a outcome = Value 'a | Jump nat int | ProcessExit int

type_synonym ('w, 'a) c_call = "openocd_jmp_state \<times> 'w \<Rightarrow> 'a outcome \<times> openocd_jmp_state \<times> 'w"

definition c_return :: "'a \<Rightarrow> ('w, 'a) c_call" where
  "c_return a s = (Value a, s)"

definition c_bind :: "('w, 'a) c_call \<Rightarrow> ('a \<Rightarrow> ('w, 'b) c_call) \<Rightarrow> ('w, 'b) c_call" where
  "c_bind m f s =
     (case m s of
        (Value a, s') \<Rightarrow> f a s'
      | (Jump frame code, s') \<Rightarrow> (Jump frame code, s')
      | (ProcessExit code, s') \<Rightarrow> (ProcessExit code, s'))"

text \<open>A call of the library that does not exit: it works on the state of OpenOCD.\<close>

definition c_lift :: "('w \<Rightarrow> 'a \<times> 'w) \<Rightarrow> ('w, 'a) c_call" where
  "c_lift f s = (Value (fst (f (snd s))), (fst s, snd (f (snd s))))"

section \<open>Exit and guard\<close>

text \<open>\<open>openocd_exit\<close>: the jump delivers 1 instead of 0.\<close>

definition openocd_exit :: "int \<Rightarrow> ('w, 'a) c_call" where
  "openocd_exit code s =
     (let (jmp, w) = s in
      if js_armed jmp then (Jump (js_buf jmp) (if code = 0 then 1 else code), (jmp\<lparr>js_armed := False\<rparr>, w))
      else (ProcessExit code, s))"

text \<open>\<open>openocd_call_guarded\<close>: the buffer of the new frame replaces the one that was armed, which comes back on
  either way out.  The result is \<open>None\<close> with the exit code, or the value.\<close>

definition openocd_call_guarded :: "('w, 'a) c_call \<Rightarrow> ('w, int + 'a) c_call" where
  "openocd_call_guarded fn s =
     (let (saved, w) = s;
          frame = Suc (js_buf saved)
      in case fn (\<lparr>js_buf = frame, js_armed = True\<rparr>, w) of
           (Value a, (_, w')) \<Rightarrow> (Value (Inr a), (saved, w'))
         | (Jump to rc, (jmp, w')) \<Rightarrow>
             if to = frame then (Value (Inl rc), (saved, w')) else (Jump to rc, (jmp, w'))
         | (ProcessExit code, s') \<Rightarrow> (ProcessExit code, s'))"

text \<open>Code that only exits through \<open>openocd_exit\<close> and only changes the jump state through guards.\<close>

definition well_guarded :: "('w, 'a) c_call \<Rightarrow> bool" where
  "well_guarded fn \<longleftrightarrow>
     (\<forall>buf w. case fn (\<lparr>js_buf = buf, js_armed = True\<rparr>, w) of
        (Value _, (jmp, _)) \<Rightarrow> jmp = \<lparr>js_buf = buf, js_armed = True\<rparr>
      | (Jump frame code, _) \<Rightarrow> frame = buf \<and> code \<noteq> 0
      | (ProcessExit _, _) \<Rightarrow> False)"

lemma well_guardedD:
  assumes "well_guarded fn"
  shows "case fn (\<lparr>js_buf = buf, js_armed = True\<rparr>, w) of
        (Value _, (jmp, _)) \<Rightarrow> jmp = \<lparr>js_buf = buf, js_armed = True\<rparr>
      | (Jump frame code, _) \<Rightarrow> frame = buf \<and> code \<noteq> 0
      | (ProcessExit _, _) \<Rightarrow> False"
  by (rule assms [unfolded well_guarded_def, rule_format])

named_theorems guarded \<open>calls that only exit through the guard\<close>

lemma well_guarded_return [guarded]: "well_guarded (c_return a)"
  by (simp add: well_guarded_def c_return_def)

lemma well_guarded_lift [guarded]: "well_guarded (c_lift f)"
  by (simp add: well_guarded_def c_lift_def)

lemma well_guarded_exit [guarded]: "well_guarded (openocd_exit code)"
  by (simp add: well_guarded_def openocd_exit_def)

lemma well_guarded_bind [guarded]:
  assumes "well_guarded m" and "\<And>a. well_guarded (f a)"
  shows "well_guarded (c_bind m f)"
  unfolding well_guarded_def
proof (intro allI)
  fix buf w
  obtain out jmp w' where m: "m (\<lparr>js_buf = buf, js_armed = True\<rparr>, w) = (out, jmp, w')" by (rule prod_cases3)
  have "case (out, jmp, w') of (Value _, (jmp, _)) \<Rightarrow> jmp = \<lparr>js_buf = buf, js_armed = True\<rparr>
      | (Jump frame code, _) \<Rightarrow> frame = buf \<and> code \<noteq> 0 | (ProcessExit _, _) \<Rightarrow> False"
    using well_guardedD [OF assms(1), of buf w] unfolding m .
  then show "case c_bind m f (\<lparr>js_buf = buf, js_armed = True\<rparr>, w) of
      (Value _, (jmp, _)) \<Rightarrow> jmp = \<lparr>js_buf = buf, js_armed = True\<rparr>
      | (Jump frame code, _) \<Rightarrow> frame = buf \<and> code \<noteq> 0 | (ProcessExit _, _) \<Rightarrow> False"
    using assms(2) by (cases out) (simp_all add: c_bind_def m well_guarded_def)
qed

lemma guarded_result:
  assumes "well_guarded fn"
  shows "\<exists>r w'. openocd_call_guarded fn (jmp, w) = (Value r, (jmp, w')) \<and> r \<noteq> Inl 0"
proof -
  let ?s = "(\<lparr>js_buf = Suc (js_buf jmp), js_armed = True\<rparr>, w)"
  obtain out jmp' w' where f: "fn ?s = (out, jmp', w')" by (rule prod_cases3)
  have "case (out, jmp', w') of (Value _, (jmp', _)) \<Rightarrow> jmp' = \<lparr>js_buf = Suc (js_buf jmp), js_armed = True\<rparr>
      | (Jump frame code, _) \<Rightarrow> frame = Suc (js_buf jmp) \<and> code \<noteq> 0 | (ProcessExit _, _) \<Rightarrow> False"
    using well_guardedD [OF assms, of "Suc (js_buf jmp)" w] unfolding f .
  then show ?thesis by (cases out) (simp_all add: openocd_call_guarded_def f)
qed

text \<open>So guards nest.\<close>

lemma well_guarded_call [guarded]:
  assumes "well_guarded fn"
  shows "well_guarded (openocd_call_guarded fn)"
  using guarded_result [OF assms] unfolding well_guarded_def by (metis (mono_tags, lifting) case_prod_conv outcome.simps(10))

text \<open>C40: A guarded call always comes back, whatever OpenOCD does inside and whether or not it is itself inside
  another guarded call: with the value, or with an exit code that is not 0; the process is not ended, no jump
  passes the guard, and the jump state of the thread is exactly what it was before.\<close>

theorem guard_contains_exit:
  assumes "well_guarded fn"
  shows "\<exists>r w'. openocd_call_guarded fn (jmp, w) = (Value r, (jmp, w')) \<and> r \<noteq> Inl 0"
  using assms by (rule guarded_result)

text \<open>An exit inside an inner guard is seen there; the outer call goes on and returns its value.\<close>

definition sample_nested :: "(nat, nat) c_call" where
  "sample_nested = c_bind (openocd_call_guarded (openocd_exit 3 :: (nat, nat) c_call)) (\<lambda>_. c_return 7)"

theorem guard_contains_exit_witness:
  "\<exists>r w'. openocd_call_guarded sample_nested (\<lparr>js_buf = 0, js_armed = False\<rparr>, 5) = (Value r, (\<lparr>js_buf = 0, js_armed = False\<rparr>, w')) \<and> r \<noteq> Inl 0"
  by (rule guard_contains_exit) (unfold sample_nested_def, intro guarded)

text \<open>The code the caller sees is the requested one, except for 0.\<close>

lemma exit_code_seen:
  "fst (openocd_call_guarded (openocd_exit code) (jmp, w)) = Value (Inl (if code = 0 then 1 else code) :: int + 'a)"
  by (simp add: openocd_call_guarded_def openocd_exit_def)

end
