(* ===== verification/Command_Queue.thy ===== *)
theory Command_Queue
  imports Prelude
begin

text \<open>
  \<open>openocd_provider/src/command_queue\<close>: work for OpenOCD is queued by any thread and run by the thread of
  OpenOCD's server loop, which a byte on a loopback socket wakes up.  One step per critical section or
  system call: pushing under the mutex and sending the byte are two steps, so are receiving bytes and
  taking the tasks.  The state of OpenOCD is the parameter \<open>'w\<close>; what the server loop does on its own
  between two wakeups is the parameter \<open>poll\<close>, and \<open>stops\<close> tells when the loop returns.
\<close>

section \<open>The queue\<close>

type_synonym ('w, 'r) task = "'w \<Rightarrow> 'r \<times> 'w"

text \<open>Where the server thread is: in \<open>select\<close>, in \<open>Input\<close> between \<open>recv\<close> and \<open>DrainAndRun\<close>, in the loop over
  the tasks it took, or gone.\<close>

datatype server_at = Selecting | Received | Draining | Returned

text \<open>A client of \<open>RunSync\<close>: it pushed its task, it woke the server and waits for the future, or it has its
  answer, \<open>None\<close> after the timeout.\<close>

datatype 'r client_at = Idle | Pushed nat | Waiting nat | Answered nat "'r option"

text \<open>What happened to OpenOCD's state, in order: a record of the model, not of the code.\<close>

datatype history = Ran nat | Polled

record ('w, 'r) CommandQueue =
  cq_tasks :: "(nat \<times> ('w, 'r) task) list"
  cq_ready :: "(nat \<times> ('w, 'r) task) list"
  cq_bytes :: nat
  cq_server :: server_at
  cq_clients :: "nat \<Rightarrow> 'r client_at"
  cq_futures :: "nat \<Rightarrow> 'r option"
  cq_world :: 'w
  cq_posted :: "('w, 'r) task list"
  cq_history :: "history list"

definition started_queue :: "'w \<Rightarrow> ('w, 'r) CommandQueue" where
  "started_queue w = \<lparr>cq_tasks = [], cq_ready = [], cq_bytes = 0, cq_server = Selecting, cq_clients = (\<lambda>_. Idle),
     cq_futures = (\<lambda>_. None), cq_world = w, cq_posted = [], cq_history = []\<rparr>"

section \<open>The operations\<close>

text \<open>\<open>Post\<close>: the task enters the queue under the mutex, with a future of its own; then the server is woken.\<close>

definition Post_push :: "nat \<Rightarrow> ('w, 'r) task \<Rightarrow> ('w, 'r) CommandQueue \<Rightarrow> ('w, 'r) CommandQueue" where
  "Post_push c fn q =
     (let i = length (cq_posted q)
      in q\<lparr>cq_tasks := cq_tasks q @ [(i, fn)], cq_posted := cq_posted q @ [fn], cq_clients := (cq_clients q)(c := Pushed i)\<rparr>)"

definition Wake :: "nat \<Rightarrow> nat \<Rightarrow> ('w, 'r) CommandQueue \<Rightarrow> ('w, 'r) CommandQueue" where
  "Wake c i q = q\<lparr>cq_bytes := cq_bytes q + 1, cq_clients := (cq_clients q)(c := Waiting i)\<rparr>"

text \<open>\<open>Input\<close> receives up to 64 bytes at once, \<open>DrainAndRun\<close> takes all tasks and runs them one after another.\<close>

definition Input_recv :: "nat \<Rightarrow> ('w, 'r) CommandQueue \<Rightarrow> ('w, 'r) CommandQueue" where
  "Input_recv n q = q\<lparr>cq_bytes := cq_bytes q - n, cq_server := Received\<rparr>"

definition DrainAndRun_swap :: "('w, 'r) CommandQueue \<Rightarrow> ('w, 'r) CommandQueue" where
  "DrainAndRun_swap q = q\<lparr>cq_ready := cq_tasks q, cq_tasks := [], cq_server := Draining\<rparr>"

definition DrainAndRun_next :: "nat \<Rightarrow> ('w, 'r) task \<Rightarrow> (nat \<times> ('w, 'r) task) list \<Rightarrow> ('w, 'r) CommandQueue \<Rightarrow> ('w, 'r) CommandQueue" where
  "DrainAndRun_next i task rest q =
     (let (r, w) = task (cq_world q)
      in q\<lparr>cq_ready := rest, cq_world := w, cq_futures := (cq_futures q)(i := Some r), cq_history := cq_history q @ [Ran i]\<rparr>)"

definition DrainAndRun_end :: "('w \<Rightarrow> bool) \<Rightarrow> ('w, 'r) CommandQueue \<Rightarrow> ('w, 'r) CommandQueue" where
  "DrainAndRun_end stops q = q\<lparr>cq_server := if stops (cq_world q) then Returned else Selecting\<rparr>"

definition RunSync_return :: "nat \<Rightarrow> nat \<Rightarrow> ('w, 'r) CommandQueue \<Rightarrow> ('w, 'r) CommandQueue" where
  "RunSync_return c i q = q\<lparr>cq_clients := (cq_clients q)(c := Answered i (cq_futures q i))\<rparr>"

definition RunSync_timeout :: "nat \<Rightarrow> nat \<Rightarrow> ('w, 'r) CommandQueue \<Rightarrow> ('w, 'r) CommandQueue" where
  "RunSync_timeout c i q = q\<lparr>cq_clients := (cq_clients q)(c := Answered i None)\<rparr>"

text \<open>The steps of the server thread, and those of the clients.\<close>

inductive server_step :: "('w \<Rightarrow> 'w) \<Rightarrow> ('w \<Rightarrow> bool) \<Rightarrow> ('w, 'r) CommandQueue \<Rightarrow> ('w, 'r) CommandQueue \<Rightarrow> bool"
  for poll stops where
  recv: "cq_server q = Selecting \<Longrightarrow> 0 < cq_bytes q \<Longrightarrow> 0 < n \<Longrightarrow> n \<le> 64 \<Longrightarrow> n \<le> cq_bytes q \<Longrightarrow>
    server_step poll stops q (Input_recv n q)"
| swap: "cq_server q = Received \<Longrightarrow> server_step poll stops q (DrainAndRun_swap q)"
| run: "cq_server q = Draining \<Longrightarrow> cq_ready q = (i, task) # rest \<Longrightarrow>
    server_step poll stops q (DrainAndRun_next i task rest q)"
| turn: "cq_server q = Draining \<Longrightarrow> cq_ready q = [] \<Longrightarrow> server_step poll stops q (DrainAndRun_end stops q)"

inductive queue_step :: "('w \<Rightarrow> 'w) \<Rightarrow> ('w \<Rightarrow> bool) \<Rightarrow> ('w, 'r) CommandQueue \<Rightarrow> ('w, 'r) CommandQueue \<Rightarrow> bool"
  for poll stops where
  server: "server_step poll stops q q' \<Longrightarrow> queue_step poll stops q q'"
| poll: "cq_server q = Selecting \<Longrightarrow>
    queue_step poll stops q (q\<lparr>cq_world := poll (cq_world q), cq_history := cq_history q @ [Polled]\<rparr>)"
| leave: "cq_server q = Selecting \<Longrightarrow> queue_step poll stops q (q\<lparr>cq_server := Returned\<rparr>)"
| push: "\<not> (\<exists>i. cq_clients q c = Pushed i \<or> cq_clients q c = Waiting i) \<Longrightarrow> queue_step poll stops q (Post_push c fn q)"
| wake: "cq_clients q c = Pushed i \<Longrightarrow> queue_step poll stops q (Wake c i q)"
| return: "cq_clients q c = Waiting i \<Longrightarrow> cq_futures q i \<noteq> None \<Longrightarrow> queue_step poll stops q (RunSync_return c i q)"
| timeout: "cq_clients q c = Waiting i \<Longrightarrow> queue_step poll stops q (RunSync_timeout c i q)"

abbreviation queue_run where "queue_run poll stops \<equiv> (queue_step poll stops)\<^sup>*\<^sup>*"

section \<open>One after another\<close>

text \<open>The reference: the tasks run one at a time on the state of OpenOCD, in the order of the history.\<close>

fun replay :: "('w \<Rightarrow> 'w) \<Rightarrow> ('w, 'r) task list \<Rightarrow> history list \<Rightarrow> 'w \<Rightarrow> (nat \<Rightarrow> 'r option) \<Rightarrow> (nat \<Rightarrow> 'r option) \<times> 'w" where
  "replay poll tasks [] w results = (results, w)"
| "replay poll tasks (Polled # hs) w results = replay poll tasks hs (poll w) results"
| "replay poll tasks (Ran i # hs) w results =
     replay poll tasks hs (snd ((tasks ! i) w)) (results(i := Some (fst ((tasks ! i) w))))"

fun ran :: "history list \<Rightarrow> nat list" where
  "ran [] = []"
| "ran (Ran i # hs) = i # ran hs"
| "ran (Polled # hs) = ran hs"

lemma replay_append:
  "replay poll tasks (hs @ hs') w results =
     (let (results', w') = replay poll tasks hs w results in replay poll tasks hs' w' results')"
proof (induction hs arbitrary: w results)
  case (Cons h hs)
  then show ?case by (cases h) simp_all
qed simp

lemma ran_append [simp]: "ran (hs @ hs') = ran hs @ ran hs'"
  by (induction hs rule: ran.induct) simp_all

lemma replay_more_tasks:
  "\<forall>i \<in> set (ran hs). i < length tasks \<Longrightarrow> replay poll (tasks @ later) hs w results = replay poll tasks hs w results"
  by (induction poll tasks hs w results rule: replay.induct) (simp_all add: nth_append)

text \<open>The invariant: every task is where it should be, once and in order; what the futures and the state of
  OpenOCD hold is what the reference gives; nobody waits for a wakeup that will not come.\<close>

definition in_order :: "('w, 'r) CommandQueue \<Rightarrow> bool" where
  "in_order q \<longleftrightarrow> ran (cq_history q) @ map fst (cq_ready q) @ map fst (cq_tasks q) = [0 ..< length (cq_posted q)] \<and>
     (\<forall>(i, task) \<in> set (cq_ready q) \<union> set (cq_tasks q). task = cq_posted q ! i) \<and>
     (cq_ready q \<noteq> [] \<longrightarrow> cq_server q = Draining)"

definition replays :: "('w \<Rightarrow> 'w) \<Rightarrow> 'w \<Rightarrow> ('w, 'r) CommandQueue \<Rightarrow> bool" where
  "replays poll w q \<longleftrightarrow> replay poll (cq_posted q) (cq_history q) w (\<lambda>_. None) = (cq_futures q, cq_world q)"

definition woken :: "('w, 'r) CommandQueue \<Rightarrow> bool" where
  "woken q \<longleftrightarrow> (cq_tasks q \<noteq> [] \<longrightarrow> cq_server q \<in> {Received, Returned} \<or> 0 < cq_bytes q \<or> (\<exists>c i. cq_clients q c = Pushed i))"

definition answers_right :: "('w, 'r) CommandQueue \<Rightarrow> bool" where
  "answers_right q \<longleftrightarrow>
     (\<forall>c i r. cq_clients q c = Answered i (Some r) \<longrightarrow> cq_futures q i = Some r) \<and>
     (\<forall>c i. cq_clients q c \<in> {Pushed i, Waiting i} \<union> range (Answered i) \<longrightarrow> i < length (cq_posted q)) \<and>
     (\<forall>i. cq_futures q i \<noteq> None \<longleftrightarrow> i \<in> set (ran (cq_history q)))"

definition queue_ok :: "('w \<Rightarrow> 'w) \<Rightarrow> 'w \<Rightarrow> ('w, 'r) CommandQueue \<Rightarrow> bool" where
  "queue_ok poll w q \<longleftrightarrow> in_order q \<and> replays poll w q \<and> woken q \<and> answers_right q"

lemma started_queue_ok: "queue_ok poll w (started_queue w)"
  by (simp add: queue_ok_def started_queue_def in_order_def replays_def woken_def answers_right_def image_iff)

lemmas queue_ops = Post_push_def Wake_def Input_recv_def DrainAndRun_swap_def DrainAndRun_next_def DrainAndRun_end_def
  RunSync_return_def RunSync_timeout_def

lemma in_order_run:
  assumes "in_order q" and "cq_ready q = (i, task) # rest"
  shows "task = cq_posted q ! i" "i < length (cq_posted q)" "i \<notin> set (ran (cq_history q))"
    "\<forall>j \<in> set (ran (cq_history q)). j < length (cq_posted q)"
proof -
  have l: "ran (cq_history q) @ i # map fst rest @ map fst (cq_tasks q) = [0 ..< length (cq_posted q)]"
    using assms by (simp add: in_order_def)
  show "task = cq_posted q ! i" using assms by (auto simp: in_order_def)
  have "i \<in> set [0 ..< length (cq_posted q)]" unfolding l [symmetric] by simp
  then show "i < length (cq_posted q)" by simp
  have "distinct (ran (cq_history q) @ i # map fst rest @ map fst (cq_tasks q))" unfolding l by simp
  then show "i \<notin> set (ran (cq_history q))" by simp
  show "\<forall>j \<in> set (ran (cq_history q)). j < length (cq_posted q)"
  proof
    fix j assume "j \<in> set (ran (cq_history q))"
    then have "j \<in> set [0 ..< length (cq_posted q)]" unfolding l [symmetric] by simp
    then show "j < length (cq_posted q)" by simp
  qed
qed

lemma in_order_ran: "in_order q \<Longrightarrow> \<forall>j \<in> set (ran (cq_history q)). j < length (cq_posted q)"
proof
  assume o: "in_order q"
  fix j assume "j \<in> set (ran (cq_history q))"
  then have "j \<in> set (ran (cq_history q) @ map fst (cq_ready q) @ map fst (cq_tasks q))" by simp
  then show "j < length (cq_posted q)" using o by (simp add: in_order_def del: set_append set_map)
qed

lemma in_order_step:
  assumes o: "in_order q" and "queue_step poll stops q q'"
  shows "in_order q'"
  using assms(2)
proof cases
  case server
  then show ?thesis
  proof cases
    case (run i task rest)
    then show ?thesis using o by (auto simp: in_order_def queue_ops split_beta)
  qed (use o in \<open>auto simp: in_order_def queue_ops\<close>)
next
  case (push c fn)
  have "task = (cq_posted q @ [fn]) ! i" if m: "(i, task) \<in> set (cq_ready q) \<union> set (cq_tasks q)" for i task
  proof -
    have "i \<in> set (ran (cq_history q) @ map fst (cq_ready q) @ map fst (cq_tasks q))" using m by force
    then have "i < length (cq_posted q)" using o by (simp add: in_order_def del: set_append set_map)
    moreover have "task = cq_posted q ! i" using o m unfolding in_order_def by blast
    ultimately show ?thesis by (simp add: nth_append)
  qed
  moreover have "ran (cq_history q) @ map fst (cq_ready q) @ map fst (cq_tasks q) @ [length (cq_posted q)] = [0 ..< Suc (length (cq_posted q))]"
    using o by (simp add: in_order_def flip: append_assoc)
  moreover have "cq_ready q \<noteq> [] \<longrightarrow> cq_server q = Draining" using o by (simp add: in_order_def)
  ultimately show ?thesis unfolding push(1) in_order_def Post_push_def Let_def by auto
qed (use o in \<open>auto simp: in_order_def queue_ops\<close>)

lemma replays_step:
  assumes r: "replays poll w q" and o: "in_order q" and "queue_step poll stops q q'"
  shows "replays poll w q'"
  using assms(3)
proof cases
  case server
  then show ?thesis
  proof cases
    case (run i task rest)
    have "task = cq_posted q ! i" by (rule in_order_run(1) [OF o run(3)])
    then show ?thesis using r run by (simp add: replays_def DrainAndRun_next_def replay_append split_beta)
  qed (use r in \<open>simp_all add: replays_def queue_ops\<close>)
next
  case (push c fn)
  then show ?thesis using r replay_more_tasks [OF in_order_ran [OF o]] by (simp add: replays_def Post_push_def Let_def)
qed (use r in \<open>simp_all add: replays_def queue_ops replay_append\<close>)

lemma woken_clients:
  assumes "woken q" and "cq_clients q c = Waiting i"
  shows "woken (q\<lparr>cq_clients := (cq_clients q)(c := a)\<rparr>)"
proof -
  have "\<exists>c' j. ((cq_clients q)(c := a)) c' = Pushed j" if p: "cq_clients q c' = Pushed j" for c' j
  proof -
    have "c' \<noteq> c" using p assms(2) by auto
    then show ?thesis using p by (intro exI [of _ c'] exI [of _ j]) simp
  qed
  then show ?thesis using assms(1) unfolding woken_def by (simp del: fun_upd_apply) blast
qed

lemma woken_step:
  assumes k: "woken q" and o: "in_order q" and "queue_step poll stops q q'"
  shows "woken q'"
  using assms(3)
proof cases
  case server
  then show ?thesis
  proof cases
    case (run i task rest)
    then show ?thesis using k by (simp add: woken_def DrainAndRun_next_def split_beta)
  qed (use k in \<open>auto simp: woken_def queue_ops\<close>)
next
  case (push c fn)
  then show ?thesis by (auto simp: woken_def Post_push_def Let_def)
next
  case (return c i)
  then show ?thesis using woken_clients [OF k return(2)] by (simp add: RunSync_return_def)
next
  case (timeout c i)
  then show ?thesis using woken_clients [OF k timeout(2)] by (simp add: RunSync_timeout_def)
qed (use k in \<open>auto simp: woken_def queue_ops\<close>)

lemma answers_right_step:
  assumes a: "answers_right q" and o: "in_order q" and "queue_step poll stops q q'"
  shows "answers_right q'"
  using assms(3)
proof cases
  case server
  then show ?thesis
  proof cases
    case (run i task rest)
    note n = in_order_run(3) [OF o run(3)]
    have "cq_futures q i = None" using a n by (auto simp: answers_right_def)
    then show ?thesis using a run by (auto simp: answers_right_def DrainAndRun_next_def split_beta)
  qed (use a in \<open>simp_all add: answers_right_def queue_ops\<close>)
next
  case (push c fn)
  show ?thesis
    unfolding answers_right_def
  proof (intro conjI allI impI)
    show "cq_futures q' i = Some r" if "cq_clients q' c' = Answered i (Some r)" for c' i r
      using that a push by (auto simp: answers_right_def Post_push_def Let_def split: if_splits)
    show "i < length (cq_posted q')" if "cq_clients q' c' \<in> {Pushed i, Waiting i} \<union> range (Answered i)" for c' i
    proof (cases "c' = c")
      case True
      then show ?thesis using that push by (auto simp: Post_push_def Let_def)
    next
      case False
      then have "cq_clients q c' \<in> {Pushed i, Waiting i} \<union> range (Answered i)" using that push by (simp add: Post_push_def Let_def)
      then have "i < length (cq_posted q)" using a unfolding answers_right_def by blast
      then show ?thesis using push by (simp add: Post_push_def Let_def)
    qed
  qed (use a push in \<open>auto simp: answers_right_def Post_push_def Let_def\<close>)
next
  case (wake c i)
  have "i < length (cq_posted q)" using a wake unfolding answers_right_def by blast
  then show ?thesis using a wake by (auto simp: answers_right_def Wake_def split: if_splits)
next
  case (return c i)
  have "i < length (cq_posted q)" using a return unfolding answers_right_def by blast
  then show ?thesis using a return by (auto simp: answers_right_def RunSync_return_def split: if_splits)
next
  case (timeout c i)
  have "i < length (cq_posted q)" using a timeout unfolding answers_right_def by blast
  then show ?thesis using a timeout by (auto simp: answers_right_def RunSync_timeout_def split: if_splits)
qed (use a in \<open>simp_all add: answers_right_def\<close>)

lemma queue_ok_run: "queue_run poll stops (started_queue w) q \<Longrightarrow> queue_ok poll w q"
proof (induction rule: rtranclp_induct)
  case base
  show ?case by (rule started_queue_ok)
next
  case (step q q')
  then show ?case
    using in_order_step replays_step woken_step answers_right_step unfolding queue_ok_def by metis
qed

text \<open>A property of OpenOCD's state that every posted task and every turn of the server loop keep holds at all
  times.\<close>

lemma replay_invariant:
  assumes "\<And>w. P w \<Longrightarrow> P (poll w)" and "\<And>task w. task \<in> set tasks \<Longrightarrow> P w \<Longrightarrow> P (snd (task w))"
    and "\<forall>i \<in> set (ran hs). i < length tasks" and "P w"
  shows "P (snd (replay poll tasks hs w results))"
  using assms(3,4)
proof (induction hs arbitrary: w results)
  case (Cons h hs)
  show ?case
  proof (cases h)
    case (Ran i)
    then have "P (snd ((tasks ! i) w))" using assms(2) Cons.prems by simp
    then show ?thesis using Cons Ran by simp
  next
    case Polled
    then show ?thesis using Cons assms(1) by simp
  qed
qed simp

lemma queue_world_invariant:
  assumes run: "queue_run poll stops (started_queue w) q" and "P w" and "\<And>w. P w \<Longrightarrow> P (poll w)"
    and "\<And>task w. task \<in> set (cq_posted q) \<Longrightarrow> P w \<Longrightarrow> P (snd (task w))"
  shows "P (cq_world q)"
proof -
  have ok: "in_order q" "replays poll w q" using queue_ok_run [OF run] by (simp_all add: queue_ok_def)
  have "P (snd (replay poll (cq_posted q) (cq_history q) w (\<lambda>_. None)))"
    by (rule replay_invariant [where P = P]) (use assms(2-4) in_order_ran [OF ok(1)] in blast)+
  then show ?thesis using ok(2) by (simp add: replays_def)
qed

text \<open>C7: Whatever the interleaving of clients and server: the tasks that ran are the first ones posted, each
  once and in the order of posting; what the futures hold and the state of OpenOCD are those of running them
  one after another on the server thread; and a client that gets a value gets the one of its own task.\<close>

theorem queue_serializes:
  assumes run: "queue_run poll stops (started_queue w) q"
  shows "ran (cq_history q) = [0 ..< length (ran (cq_history q))] \<and> length (ran (cq_history q)) \<le> length (cq_posted q) \<and>
    replay poll (cq_posted q) (cq_history q) w (\<lambda>_. None) = (cq_futures q, cq_world q) \<and>
    (\<forall>c i r. cq_clients q c = Answered i (Some r) \<longrightarrow> i \<in> set (ran (cq_history q)) \<and> cq_futures q i = Some r)"
proof -
  have ok: "in_order q" "replays poll w q" "answers_right q" using queue_ok_run [OF run] by (simp_all add: queue_ok_def)
  define n where "n = length (ran (cq_history q))"
  have l: "ran (cq_history q) @ map fst (cq_ready q) @ map fst (cq_tasks q) = [0 ..< length (cq_posted q)]"
    using ok(1) by (simp add: in_order_def)
  then have le: "n \<le> length (cq_posted q)" by (metis n_def diff_zero length_append length_upt le_add1)
  have "ran (cq_history q) = take n [0 ..< length (cq_posted q)]" unfolding l [symmetric] by (simp add: n_def)
  also have "\<dots> = [0 ..< n]" using le by (simp add: take_upt)
  finally have "ran (cq_history q) = [0 ..< n]" .
  moreover have "i \<in> set (ran (cq_history q)) \<and> cq_futures q i = Some r" if "cq_clients q c = Answered i (Some r)" for c i r
    using that ok(3) unfolding answers_right_def by (metis option.distinct(1))
  ultimately show ?thesis using le ok(2) by (simp add: n_def replays_def)
qed

section \<open>No task is left waiting\<close>

fun server_weight :: "server_at \<Rightarrow> nat" where
  "server_weight Received = 2"
| "server_weight Draining = 1"
| "server_weight _ = 0"

definition server_work :: "('w, 'r) CommandQueue \<Rightarrow> nat" where
  "server_work q = 3 * cq_bytes q + length (cq_tasks q) + length (cq_ready q) + server_weight (cq_server q)"

lemma server_step_works: "in_order q \<Longrightarrow> server_step poll stops q q' \<Longrightarrow> server_work q' < server_work q"
  by (erule server_step.cases) (auto simp: server_work_def queue_ops in_order_def split_beta)

lemma server_step_clients: "server_step poll stops q q' \<Longrightarrow> cq_clients q' = cq_clients q"
  by (erule server_step.cases) (simp_all add: queue_ops split_beta)

lemma server_stuck:
  assumes ok: "in_order q" "woken q" and no: "\<not> (\<exists>c i. cq_clients q c = Pushed i)"
    and stuck: "\<not> (\<exists>q'. server_step poll stops q q')"
  shows "cq_server q = Returned \<or> ran (cq_history q) = [0 ..< length (cq_posted q)]"
proof (cases "cq_server q")
  case Selecting
  have "cq_bytes q = 0"
  proof (rule ccontr)
    assume "cq_bytes q \<noteq> 0"
    then have "server_step poll stops q (Input_recv 1 q)" using Selecting by (intro server_step.recv) auto
    then show False using stuck by blast
  qed
  then have "cq_tasks q = []" using ok(2) no Selecting by (auto simp: woken_def)
  then show ?thesis using ok(1) Selecting by (auto simp: in_order_def)
next
  case Received
  then show ?thesis using stuck server_step.swap by blast
next
  case Draining
  show ?thesis
  proof (cases "cq_ready q")
    case Nil
    then show ?thesis using stuck server_step.turn [OF Draining] by blast
  next
    case (Cons e rest)
    then show ?thesis using stuck server_step.run [OF Draining, of "fst e" "snd e" rest] by force
  qed
qed simp

lemma server_steps:
  assumes "(server_step poll stops)\<^sup>*\<^sup>* q q'"
  shows "queue_run poll stops q q'" and "cq_clients q' = cq_clients q"
proof -
  have "queue_run poll stops q q' \<and> cq_clients q' = cq_clients q"
    using assms
  proof (induction rule: rtranclp_induct)
    case (step y z)
    then show ?case using queue_step.server [OF step.hyps(2)] server_step_clients [OF step.hyps(2)] by (metis rtranclp.rtrancl_into_rtrancl)
  qed simp
  then show "queue_run poll stops q q'" and "cq_clients q' = cq_clients q" by simp_all
qed

lemma server_finishes:
  "queue_run poll stops (started_queue w) q \<Longrightarrow> \<exists>q'. (server_step poll stops)\<^sup>*\<^sup>* q q' \<and> \<not> (\<exists>q''. server_step poll stops q' q'')"
proof (induction "server_work q" arbitrary: q rule: less_induct)
  case less
  show ?case
  proof (cases "\<exists>q1. server_step poll stops q q1")
    case True
    then obtain q1 where s: "server_step poll stops q q1" by blast
    have "in_order q" using queue_ok_run [OF less.prems] by (simp add: queue_ok_def)
    then have "server_work q1 < server_work q" using s by (rule server_step_works)
    moreover have "queue_run poll stops (started_queue w) q1" using less.prems queue_step.server [OF s] by simp
    ultimately obtain q' where "(server_step poll stops)\<^sup>*\<^sup>* q1 q' \<and> \<not> (\<exists>q''. server_step poll stops q' q'')" using less.hyps by blast
    then show ?thesis using s by (meson converse_rtranclp_into_rtranclp)
  qed blast
qed

text \<open>C8: No wakeup is lost: from any state in which no client is between pushing its task and sending the
  byte, the server thread on its own comes to rest after finitely many steps, each of which reduces the work
  left, and it only rests when every task ever posted has run, or when the server loop has returned.\<close>

theorem queue_drains:
  assumes run: "queue_run poll stops (started_queue w) q" and no: "\<not> (\<exists>c i. cq_clients q c = Pushed i)"
  shows "(\<exists>q'. (server_step poll stops)\<^sup>*\<^sup>* q q' \<and> \<not> (\<exists>q''. server_step poll stops q' q'')) \<and>
    (\<forall>q'. (server_step poll stops)\<^sup>*\<^sup>* q q' \<longrightarrow>
       (\<forall>q''. server_step poll stops q' q'' \<longrightarrow> server_work q'' < server_work q') \<and>
       (\<not> (\<exists>q''. server_step poll stops q' q'') \<longrightarrow>
          cq_server q' = Returned \<or> ran (cq_history q') = [0 ..< length (cq_posted q')]))"
proof -
  have "(\<forall>q''. server_step poll stops q' q'' \<longrightarrow> server_work q'' < server_work q') \<and>
       (\<not> (\<exists>q''. server_step poll stops q' q'') \<longrightarrow>
          cq_server q' = Returned \<or> ran (cq_history q') = [0 ..< length (cq_posted q')])"
    if s: "(server_step poll stops)\<^sup>*\<^sup>* q q'" for q'
  proof -
    have "queue_run poll stops (started_queue w) q'" using run server_steps(1) [OF s] by (rule rtranclp_trans)
    from queue_ok_run [OF this] have "in_order q'" "woken q'" by (simp_all add: queue_ok_def)
    then show ?thesis using server_step_works server_stuck no server_steps(2) [OF s] by metis
  qed
  then show ?thesis using server_finishes [OF run] by blast
qed

section \<open>Sample runs\<close>

definition count_up :: "(nat, nat) task" where
  "count_up w = (w, w + 1)"

text \<open>Client 7 posts one task and waits.\<close>

definition sample_waiting :: "(nat, nat) CommandQueue" where
  "sample_waiting = Wake 7 0 (Post_push 7 count_up (started_queue 5))"

definition sample_ran :: "(nat, nat) CommandQueue \<Rightarrow> (nat, nat) CommandQueue" where
  "sample_ran q = DrainAndRun_end (\<lambda>_. False) (DrainAndRun_next 0 count_up [] (DrainAndRun_swap (Input_recv 1 q)))"

lemma sample_waiting_run: "queue_run id (\<lambda>_. False) (started_queue 5) sample_waiting"
proof -
  have "queue_step id (\<lambda>_. False) (started_queue 5) (Post_push 7 count_up (started_queue 5))"
    by (rule queue_step.push) (simp add: started_queue_def)
  moreover have "queue_step id (\<lambda>_. False) (Post_push 7 count_up (started_queue 5)) sample_waiting"
    unfolding sample_waiting_def by (rule queue_step.wake) (simp add: started_queue_def Post_push_def)
  ultimately show ?thesis by (meson converse_rtranclp_into_rtranclp rtranclp.rtrancl_refl)
qed

lemma sample_ran_run:
  assumes "cq_server q = Selecting" "cq_bytes q = 1" "cq_tasks q = [(0, count_up)]"
  shows "queue_run id (\<lambda>_. False) q (sample_ran q)"
proof -
  let ?q1 = "Input_recv 1 q" let ?q2 = "DrainAndRun_swap ?q1" let ?q3 = "DrainAndRun_next 0 count_up [] ?q2"
  have "server_step id (\<lambda>_. False) q ?q1" by (rule server_step.recv) (simp_all add: assms)
  moreover have "server_step id (\<lambda>_. False) ?q1 ?q2" by (rule server_step.swap) (simp add: queue_ops)
  moreover have "server_step id (\<lambda>_. False) ?q2 ?q3" by (rule server_step.run) (simp_all add: queue_ops assms)
  moreover have "server_step id (\<lambda>_. False) ?q3 (sample_ran q)"
    unfolding sample_ran_def by (rule server_step.turn) (simp_all add: queue_ops count_up_def)
  ultimately show ?thesis by (meson queue_step.server converse_rtranclp_into_rtranclp rtranclp.rtrancl_refl)
qed

lemma sample_waiting_simps [simp]:
  "cq_server sample_waiting = Selecting" "cq_bytes sample_waiting = 1" "cq_tasks sample_waiting = [(0, count_up)]"
  "cq_clients sample_waiting = (\<lambda>_. Idle)(7 := Waiting 0)" "cq_world sample_waiting = 5" "cq_posted sample_waiting = [count_up]"
  by (simp_all add: sample_waiting_def started_queue_def queue_ops)

theorem queue_serializes_witness:
  "replay id (cq_posted (sample_ran sample_waiting)) (cq_history (sample_ran sample_waiting)) 5 (\<lambda>_. None) =
     (cq_futures (sample_ran sample_waiting), cq_world (sample_ran sample_waiting))"
  using queue_serializes [OF rtranclp_trans [OF sample_waiting_run sample_ran_run]] by simp

theorem queue_drains_witness:
  "\<exists>q'. (server_step id (\<lambda>_. False))\<^sup>*\<^sup>* sample_waiting q' \<and> \<not> (\<exists>q''. server_step id (\<lambda>_. False) q' q'')"
  by (rule queue_drains [OF sample_waiting_run, THEN conjunct1]) (auto split: if_splits)

text \<open>The timeout takes back nothing: the task of a client that was told nothing runs all the same, later.\<close>

lemma timed_out_task_still_runs:
  "\<exists>q q' :: (nat, nat) CommandQueue. queue_run id (\<lambda>_. False) (started_queue 5) q \<and> cq_clients q 7 = Answered 0 None \<and> cq_world q = 5 \<and>
     queue_run id (\<lambda>_. False) q q' \<and> cq_world q' = 6"
proof -
  let ?q = "RunSync_timeout 7 0 sample_waiting"
  have "queue_step id (\<lambda>_. False) sample_waiting ?q" by (rule queue_step.timeout) simp
  with sample_waiting_run have "queue_run id (\<lambda>_. False) (started_queue 5) ?q" by simp
  moreover have "queue_run id (\<lambda>_. False) ?q (sample_ran ?q)" by (rule sample_ran_run) (simp_all add: RunSync_timeout_def)
  moreover have "cq_clients ?q 7 = Answered 0 None" "cq_world ?q = 5" by (simp_all add: RunSync_timeout_def)
  moreover have "cq_world (sample_ran ?q) = 6" by (simp add: sample_ran_def queue_ops count_up_def)
  ultimately show ?thesis by blast
qed

end
