(* ===== verification/Openocd_Provider.thy ===== *)
theory Openocd_Provider
  imports Openocd_Guard Command_Queue Memory_Manager Trace_Model
begin

text \<open>
  \<open>openocd_provider/src/openocd_provider\<close> and \<open>openocd_runtime\<close>: OpenOCD as a library.  \<open>Create\<close> brings it up,
  every later operation is a task for the command queue that runs under the guard, and the destructor takes
  it down.  OpenOCD itself is a parameter: its state \<open>'w\<close> and the functions the provider calls, each of which
  may exit (\<open>c_call\<close>); looking up an object by its name is taken not to depend on the state.
\<close>

section \<open>OpenOCD\<close>

text \<open>A target: its name, its type, and, for a Cortex-M core, the name of the core once it is examined.\<close>

record ocd_target =
  ot_name :: string
  ot_type :: string
  ot_core :: "string option option"

datatype TmcMode = kCircular | kSwFifo | kHwFifo
datatype TmcState = kDisabled | kStopped | kDisabling | kStopping | kRunning

record TmcObject =
  to_name :: string
  to_initialised :: bool
  to_mode :: TmcMode
  to_state :: TmcState
  to_ap_num :: u64
  to_base :: u32
  to_ram_size_words :: u32

text \<open>The same object as OpenOCD describes it: its access port may be missing, and the enumerations are C ones.\<close>

datatype tmc_mode = TMC_MODE_CIRC | TMC_MODE_SW_FIFO | TMC_MODE_HW_FIFO | tmc_mode_other
datatype tmc_state = TMC_DISABLED | TMC_STOPPED | TMC_DISABLING | TMC_STOPPING | TMC_RUNNING | tmc_state_other

record tmc_object =
  tmc_name :: string
  tmc_initialised :: bool
  tmc_mode_of :: tmc_mode
  tmc_state_of :: tmc_state
  tmc_ap :: bool
  tmc_ap_num :: u64
  tmc_base :: u32
  tmc_ram_size_words :: u32

fun ToTmcMode :: "tmc_mode \<Rightarrow> TmcMode" where
  "ToTmcMode TMC_MODE_SW_FIFO = kSwFifo"
| "ToTmcMode TMC_MODE_HW_FIFO = kHwFifo"
| "ToTmcMode _ = kCircular"

fun ToTmcState :: "tmc_state \<Rightarrow> TmcState" where
  "ToTmcState TMC_STOPPED = kStopped"
| "ToTmcState TMC_DISABLING = kDisabling"
| "ToTmcState TMC_STOPPING = kStopping"
| "ToTmcState TMC_RUNNING = kRunning"
| "ToTmcState _ = kDisabled"

definition trace_sink_of :: "tmc_object \<Rightarrow> TmcObject" where
  "trace_sink_of obj = \<lparr>to_name = tmc_name obj, to_initialised = tmc_initialised obj, to_mode = ToTmcMode (tmc_mode_of obj),
     to_state = ToTmcState (tmc_state_of obj), to_ap_num = (if tmc_ap obj then tmc_ap_num obj else 0),
     to_base = tmc_base obj, to_ram_size_words = tmc_ram_size_words obj\<rparr>"

record Etmv4Object =
  eo_name :: string
  eo_initialised :: bool
  eo_enabled :: bool
  eo_trace_requested :: bool
  eo_ap_num :: u64
  eo_base :: u32
  eo_traceid :: u32

abbreviation ERROR_OK :: int where "ERROR_OK \<equiv> 0"
abbreviation ERROR_FAIL :: int where "ERROR_FAIL \<equiv> - 4"
abbreviation ERROR_COMMAND_CLOSE_CONNECTION :: int where "ERROR_COMMAND_CLOSE_CONNECTION \<equiv> - 600"

record 'w openocd_api =
  oa_run_line :: "string \<Rightarrow> ('w, int) c_call"
  oa_targets :: "'w \<Rightarrow> ocd_target list"
  oa_current_target :: "'w \<Rightarrow> nat option"
  oa_get_target :: "string \<Rightarrow> 'w \<Rightarrow> nat option"
  oa_read_buffer :: "nat \<Rightarrow> u64 \<Rightarrow> u32 \<Rightarrow> ('w, int \<times> u8 list) c_call"
  oa_write_buffer :: "nat \<Rightarrow> u64 \<Rightarrow> u32 \<Rightarrow> u8 list \<Rightarrow> ('w, int) c_call"
  oa_tmc_objects :: "'w \<Rightarrow> tmc_object list"
  oa_etmv4_objects :: "'w \<Rightarrow> Etmv4Object list"
  oa_tmc_find :: "string \<Rightarrow> nat option"
  oa_etmv4_find :: "string \<Rightarrow> nat option"
  oa_etmv4_initialised :: "nat \<Rightarrow> 'w \<Rightarrow> bool"
  oa_etmv4_decode_regs :: "nat \<Rightarrow> ('w, Etmv4Registers) c_call"
  oa_tmc_set_capture_callback :: "nat \<Rightarrow> string \<Rightarrow> ('w, unit) c_call"
  oa_tmc_clear_capture_callback :: "nat \<Rightarrow> ('w, unit) c_call"
  oa_target_register :: "('w, unit) c_call"
  oa_target_unregister :: "('w, unit) c_call"
  oa_tmc_enable :: "nat \<Rightarrow> ('w, int) c_call"
  oa_tmc_disable :: "nat \<Rightarrow> ('w, int) c_call"
  oa_etmv4_enable :: "nat \<Rightarrow> ('w, int) c_call"
  oa_etmv4_disable :: "nat \<Rightarrow> ('w, int) c_call"
  oa_capture :: "'w \<Rightarrow> nat \<Rightarrow> string option"

text \<open>What the provider keeps besides: the callbacks (here identified by numbers) under the names of the
  trace sinks, and the one for the state of the target.  A capture callback of OpenOCD points to an entry of
  the first map, so \<open>oa_capture\<close> gives the name of the entry.\<close>

record 'w Impl =
  im_lib :: 'w
  im_trace_callbacks :: "(string \<times> nat) list"
  im_target_state_callback :: "nat option"

definition on_lib :: "('w, 'a) c_call \<Rightarrow> ('w Impl, 'a) c_call" where
  "on_lib call s = (let (out, jmp, w) = call (fst s, im_lib (snd s)) in (out, jmp, (snd s)\<lparr>im_lib := w\<rparr>))"

definition look :: "('w \<Rightarrow> 'a) \<Rightarrow> ('w Impl, 'a) c_call" where
  "look f = c_lift (\<lambda>im. (f (im_lib im), im))"

definition on_impl :: "('w Impl \<Rightarrow> 'w Impl) \<Rightarrow> ('w Impl, unit) c_call" where
  "on_impl f = c_lift (\<lambda>im. ((), f im))"

section \<open>Tasks and answers\<close>

text \<open>\<open>RunGuarded\<close> in a task: the value, or the code of the exit; see \<open>guarded_result\<close> for the rest.\<close>

definition RunGuarded :: "('s, 'a) c_call \<Rightarrow> (openocd_jmp_state \<times> 's, int + 'a) task" where
  "RunGuarded fn s =
     (case openocd_call_guarded fn s of
        (Value r, s') \<Rightarrow> (r, s')
      | (Jump _ code, s') \<Rightarrow> (Inl code, s')
      | (ProcessExit code, s') \<Rightarrow> (Inl code, s'))"

definition int_text :: "int \<Rightarrow> string" where
  "int_text n = (if n < 0 then ''-'' else []) @ dec_string (nat \<bar>n\<bar>)"

definition exit_text :: "int \<Rightarrow> string" where
  "exit_text code = ''openocd_exit('' @ int_text code @ '')''"

text \<open>The answer of an operation: what \<open>RunSync\<close> gave, read by the operation.\<close>

definition answer :: "string \<Rightarrow> ('a \<Rightarrow> string + 'b) \<Rightarrow> (int + 'a) option \<Rightarrow> string + 'b" where
  "answer name check result =
     (case result of
        None \<Rightarrow> Inl (''timed out waiting for OpenOCD during '' @ name)
      | Some (Inl code) \<Rightarrow> Inl (exit_text code @ '' during '' @ name)
      | Some (Inr a) \<Rightarrow> check a)"

definition expect_ok :: "string \<Rightarrow> int \<Rightarrow> string + unit" where
  "expect_ok failure retval = (if retval \<noteq> ERROR_OK then Inl failure else Inr ())"

definition in_quotes :: "string \<Rightarrow> string" where
  "in_quotes s = CHR 0x27 # s @ [CHR 0x27]"

section \<open>The operations\<close>

fun core_name_of :: "ocd_target list \<Rightarrow> string + string" where
  "core_name_of [] = Inl ''no non-AP target found''"
| "core_name_of (t # ts) =
     (if ot_type t = ''mem_ap'' then core_name_of ts
      else (case ot_core t of
              None \<Rightarrow> Inl (''target '' @ in_quotes (ot_name t) @ '' is not a Cortex-M core'')
            | Some None \<Rightarrow> Inl (''target '' @ in_quotes (ot_name t) @ '' has not been examined yet'')
            | Some (Some core) \<Rightarrow> Inr core))"

definition GetCoreName_task :: "'w openocd_api \<Rightarrow> ('w Impl, string + string) c_call" where
  "GetCoreName_task api = look (\<lambda>w. core_name_of (oa_targets api w))"

definition GetCoreName_answer :: "(int + (string + string)) option \<Rightarrow> string + string" where
  "GetCoreName_answer = answer ''GetCoreName'' id"

definition select_target :: "'w openocd_api \<Rightarrow> MemorySelector \<Rightarrow> ('w Impl, nat option) c_call" where
  "select_target api selector =
     look (if target_name selector = [] then oa_current_target api else oa_get_target api (target_name selector))"

definition ReadMemory_task :: "'w openocd_api \<Rightarrow> MemorySelector \<Rightarrow> u64 \<Rightarrow> u32 \<Rightarrow> ('w Impl, int \<times> u8 list) c_call" where
  "ReadMemory_task api selector address n =
     c_bind (select_target api selector) (\<lambda>target.
       case target of
         None \<Rightarrow> c_return (ERROR_FAIL, replicate (unat n) 0)
       | Some tgt \<Rightarrow> on_lib (oa_read_buffer api tgt address n))"

definition ReadMemory_answer :: "u32 \<Rightarrow> (int + int \<times> u8 list) option \<Rightarrow> string + u8 list" where
  "ReadMemory_answer n =
     answer ''ReadMemory'' (\<lambda>(retval, buffer).
       if retval \<noteq> ERROR_OK then Inl ''target_read_buffer() failed'' else Inr (take (unat n) buffer))"

definition WriteMemory_task :: "'w openocd_api \<Rightarrow> MemorySelector \<Rightarrow> u64 \<Rightarrow> u8 list \<Rightarrow> ('w Impl, int) c_call" where
  "WriteMemory_task api selector address bytes =
     c_bind (select_target api selector) (\<lambda>target.
       case target of
         None \<Rightarrow> c_return ERROR_FAIL
       | Some tgt \<Rightarrow> on_lib (oa_write_buffer api tgt address (of_nat (length bytes)) bytes))"

definition WriteMemory_answer :: "(int + int) option \<Rightarrow> string + unit" where
  "WriteMemory_answer = answer ''WriteMemory'' (expect_ok ''target_write_buffer() failed'')"

definition RunTclCommand_task :: "'w openocd_api \<Rightarrow> string \<Rightarrow> ('w Impl, int) c_call" where
  "RunTclCommand_task api command = on_lib (oa_run_line api command)"

definition RunTclCommand_answer :: "string \<Rightarrow> (int + int) option \<Rightarrow> string + unit" where
  "RunTclCommand_answer command = answer ''RunTclCommand'' (expect_ok (in_quotes command @ '' failed''))"

definition ListTraceSinks_task :: "'w openocd_api \<Rightarrow> ('w Impl, TmcObject list) c_call" where
  "ListTraceSinks_task api = look (\<lambda>w. map trace_sink_of (oa_tmc_objects api w))"

definition ListTraceSinks_answer :: "(int + TmcObject list) option \<Rightarrow> string + TmcObject list" where
  "ListTraceSinks_answer = answer ''ListTraceSinks'' Inr"

definition ListTraceSources_task :: "'w openocd_api \<Rightarrow> ('w Impl, Etmv4Object list) c_call" where
  "ListTraceSources_task api = look (oa_etmv4_objects api)"

definition ListTraceSources_answer :: "(int + Etmv4Object list) option \<Rightarrow> string + Etmv4Object list" where
  "ListTraceSources_answer = answer ''ListTraceSources'' Inr"

definition ReadETMv4Registers_task :: "'w openocd_api \<Rightarrow> string \<Rightarrow> ('w Impl, string + Etmv4Registers) c_call" where
  "ReadETMv4Registers_task api name =
     (case oa_etmv4_find api name of
        None \<Rightarrow> c_return (Inl (''no ETMv4 object named '' @ in_quotes name))
      | Some obj \<Rightarrow>
          c_bind (look (oa_etmv4_initialised api obj)) (\<lambda>initialised.
            if \<not> initialised then c_return (Inl (''ETMv4 object '' @ in_quotes name @ '' is not initialised''))
            else c_bind (on_lib (oa_etmv4_decode_regs api obj)) (\<lambda>regs. c_return (Inr regs))))"

definition ReadETMv4Registers_answer :: "(int + (string + Etmv4Registers)) option \<Rightarrow> string + Etmv4Registers" where
  "ReadETMv4Registers_answer = answer ''ReadETMv4Registers'' id"

section \<open>Subscriptions\<close>

definition insert_or_assign :: "string \<Rightarrow> nat \<Rightarrow> (string \<times> nat) list \<Rightarrow> (string \<times> nat) list" where
  "insert_or_assign name callback callbacks = (name, callback) # filter (\<lambda>e. fst e \<noteq> name) callbacks"

definition erase_callback :: "string \<Rightarrow> (string \<times> nat) list \<Rightarrow> (string \<times> nat) list" where
  "erase_callback name callbacks = filter (\<lambda>e. fst e \<noteq> name) callbacks"

definition SubscribeTrace_task :: "'w openocd_api \<Rightarrow> string \<Rightarrow> nat \<Rightarrow> ('w Impl, string + unit) c_call" where
  "SubscribeTrace_task api name callback =
     (case oa_tmc_find api name of
        None \<Rightarrow> c_return (Inl (''no TMC object named '' @ in_quotes name))
      | Some obj \<Rightarrow>
          c_bind (on_impl (\<lambda>im. im\<lparr>im_trace_callbacks := insert_or_assign name callback (im_trace_callbacks im)\<rparr>)) (\<lambda>_.
          c_bind (on_lib (oa_tmc_set_capture_callback api obj name)) (\<lambda>_.
          c_return (Inr ()))))"

definition SubscribeTrace_answer :: "(int + (string + unit)) option \<Rightarrow> string + unit" where
  "SubscribeTrace_answer = answer ''SubscribeTrace'' id"

definition UnsubscribeTrace_task :: "'w openocd_api \<Rightarrow> string \<Rightarrow> ('w Impl, string + unit) c_call" where
  "UnsubscribeTrace_task api name =
     (case oa_tmc_find api name of
        None \<Rightarrow> c_return (Inl (''no TMC object named '' @ in_quotes name))
      | Some obj \<Rightarrow>
          c_bind (on_lib (oa_tmc_clear_capture_callback api obj)) (\<lambda>_.
          c_bind (on_impl (\<lambda>im. im\<lparr>im_trace_callbacks := erase_callback name (im_trace_callbacks im)\<rparr>)) (\<lambda>_.
          c_return (Inr ()))))"

definition UnsubscribeTrace_answer :: "(int + (string + unit)) option \<Rightarrow> string + unit" where
  "UnsubscribeTrace_answer = answer ''UnsubscribeTrace'' id"

definition SubscribeTargetState_task :: "'w openocd_api \<Rightarrow> nat \<Rightarrow> ('w Impl, unit) c_call" where
  "SubscribeTargetState_task api callback =
     c_bind (c_lift (\<lambda>im. (im_target_state_callback im \<noteq> None, im))) (\<lambda>already_registered.
     c_bind (on_impl (\<lambda>im. im\<lparr>im_target_state_callback := Some callback\<rparr>)) (\<lambda>_.
     if already_registered then c_return () else on_lib (oa_target_register api)))"

definition SubscribeTargetState_answer :: "(int + unit) option \<Rightarrow> string + unit" where
  "SubscribeTargetState_answer = answer ''SubscribeTargetState'' Inr"

definition UnsubscribeTargetState_task :: "'w openocd_api \<Rightarrow> ('w Impl, unit) c_call" where
  "UnsubscribeTargetState_task api =
     c_bind (on_lib (oa_target_unregister api)) (\<lambda>_.
     on_impl (\<lambda>im. im\<lparr>im_target_state_callback := None\<rparr>))"

definition UnsubscribeTargetState_answer :: "(int + unit) option \<Rightarrow> string + unit" where
  "UnsubscribeTargetState_answer = answer ''UnsubscribeTargetState'' Inr"

text \<open>An event of a target reaches the callback when it is one of five; the rest is dropped.\<close>

datatype target_event =
    TARGET_EVENT_HALTED
  | TARGET_EVENT_RESUMED
  | TARGET_EVENT_RESET_START
  | TARGET_EVENT_RESET_END
  | TARGET_EVENT_EXAMINE_END
  | target_event_other

datatype TargetStateEvent = kHalted | kResumed | kResetStart | kResetEnd | kExamineEnd

record TargetStateChange =
  tc_target_name :: string
  tc_event :: TargetStateEvent
  tc_halted :: bool

fun MapTargetEvent :: "target_event \<Rightarrow> TargetStateEvent option" where
  "MapTargetEvent TARGET_EVENT_HALTED = Some kHalted"
| "MapTargetEvent TARGET_EVENT_RESUMED = Some kResumed"
| "MapTargetEvent TARGET_EVENT_RESET_START = Some kResetStart"
| "MapTargetEvent TARGET_EVENT_RESET_END = Some kResetEnd"
| "MapTargetEvent TARGET_EVENT_EXAMINE_END = Some kExamineEnd"
| "MapTargetEvent target_event_other = None"

definition TargetStateTrampoline :: "string \<Rightarrow> target_event \<Rightarrow> bool \<Rightarrow> TargetStateChange option" where
  "TargetStateTrampoline name event halted =
     map_option (\<lambda>mapped. \<lparr>tc_target_name = name, tc_event = mapped, tc_halted = halted\<rparr>) (MapTargetEvent event)"

definition ConfigureTrace_task :: "'w openocd_api \<Rightarrow> string \<Rightarrow> string \<Rightarrow> ('w Impl, int) c_call" where
  "ConfigureTrace_task api name options = on_lib (oa_run_line api (name @ '' configure '' @ options))"

definition ConfigureTrace_answer :: "string \<Rightarrow> string \<Rightarrow> (int + int) option \<Rightarrow> string + unit" where
  "ConfigureTrace_answer name options =
     answer ''ConfigureTrace'' (expect_ok (in_quotes (name @ '' configure '' @ options) @ '' failed''))"

text \<open>Switching a sink or a source on or off: the pair is whether it was found, and the result.\<close>

definition switch_trace ::
  "'w openocd_api \<Rightarrow> (nat \<Rightarrow> ('w, int) c_call) \<Rightarrow> (nat \<Rightarrow> ('w, int) c_call) \<Rightarrow> string \<Rightarrow> ('w Impl, bool \<times> int) c_call" where
  "switch_trace api tmc etmv4 name =
     (case oa_tmc_find api name of
        Some obj \<Rightarrow> c_bind (on_lib (tmc obj)) (\<lambda>retval. c_return (True, retval))
      | None \<Rightarrow>
          (case oa_etmv4_find api name of
             Some obj \<Rightarrow> c_bind (on_lib (etmv4 obj)) (\<lambda>retval. c_return (True, retval))
           | None \<Rightarrow> c_return (False, ERROR_OK)))"

definition EnableTrace_task :: "'w openocd_api \<Rightarrow> string \<Rightarrow> ('w Impl, bool \<times> int) c_call" where
  "EnableTrace_task api = switch_trace api (oa_tmc_enable api) (oa_etmv4_enable api)"

definition DisableTrace_task :: "'w openocd_api \<Rightarrow> string \<Rightarrow> ('w Impl, bool \<times> int) c_call" where
  "DisableTrace_task api = switch_trace api (oa_tmc_disable api) (oa_etmv4_disable api)"

definition switched :: "string \<Rightarrow> string \<Rightarrow> bool \<times> int \<Rightarrow> string + unit" where
  "switched name verb r =
     (if \<not> fst r then Inl (''no TMC or ETMv4 object named '' @ in_quotes name)
      else expect_ok (in_quotes name @ '' failed to '' @ verb) (snd r))"

definition EnableTrace_answer :: "string \<Rightarrow> (int + bool \<times> int) option \<Rightarrow> string + unit" where
  "EnableTrace_answer name = answer ''EnableTrace'' (switched name ''enable'')"

definition DisableTrace_answer :: "string \<Rightarrow> (int + bool \<times> int) option \<Rightarrow> string + unit" where
  "DisableTrace_answer name = answer ''DisableTrace'' (switched name ''disable'')"

section \<open>Commands\<close>

record OpenOcdLoadImageConfig =
  li_path :: string
  li_preverify :: bool
  li_verify :: bool
  li_reset :: bool

record OpenOcdConfig =
  oc_script_search_dirs :: "string list"
  oc_config_files :: "string list"
  oc_raw_commands :: "string list"
  oc_log_file_path :: string
  oc_debug_level :: int
  oc_init_at_startup :: bool
  oc_gdb_port :: string
  oc_tcl_port :: string
  oc_telnet_port :: string
  oc_wakeup_port :: string
  oc_load_image :: "OpenOcdLoadImageConfig option"

definition ToTclSafeArg :: "string \<Rightarrow> string" where
  "ToTclSafeArg path = CHR ''{'' # map (\<lambda>c. if c = CHR 0x5C then CHR ''/'' else c) path @ ''}''"

definition BuildProgramCommand :: "OpenOcdLoadImageConfig \<Rightarrow> string + string" where
  "BuildProgramCommand img =
     (if li_path img = [] then Inl ''loadImage requires a non-empty program path''
      else if \<exists>c \<in> set (li_path img). c \<in> {CHR ''{'', CHR ''}'', CHR 0x0D, CHR 0x0A, CHR 0x00}
      then Inl (''program path contains characters unsupported by OpenOCD'' @ [CHR 0x27] @ ''s program command'')
      else Inr (''program '' @ ToTclSafeArg (li_path img) @ (if li_preverify img then '' preverify'' else []) @
        (if li_verify img then '' verify'' else []) @ (if li_reset img then '' reset'' else [])))"

definition RegisterConfigCommands :: "OpenOcdConfig \<Rightarrow> string list" where
  "RegisterConfigCommands config = map (\<lambda>cfg. ''script '' @ ToTclSafeArg cfg) (oc_config_files config) @ oc_raw_commands config"

text \<open>How Tcl reads a command into words, as far as the command needs it: a word in braces ends at the brace
  that closes it, a backslash hides the character after it, any other word ends at a blank.\<close>

fun braced :: "nat \<Rightarrow> string \<Rightarrow> (string \<times> string) option" where
  "braced depth [] = None"
| "braced depth (c # s) =
     (if c = CHR 0x5C then
        (case s of [] \<Rightarrow> None | c' # s' \<Rightarrow> map_option (\<lambda>(w, rest). (c # c' # w, rest)) (braced depth s'))
      else if c = CHR ''}'' then
        (if depth = 0 then Some ([], s) else map_option (\<lambda>(w, rest). (c # w, rest)) (braced (depth - 1) s))
      else map_option (\<lambda>(w, rest). (c # w, rest)) (braced (if c = CHR ''{'' then Suc depth else depth) s))"

fun tcl_words :: "nat \<Rightarrow> string \<Rightarrow> string list option" where
  "tcl_words 0 s = None"
| "tcl_words (Suc n) s =
     (case dropWhile (\<lambda>c. c = CHR '' '') s of
        [] \<Rightarrow> Some []
      | c # s' \<Rightarrow>
          (case (if c = CHR ''{'' then braced 0 s'
                 else Some (takeWhile (\<lambda>c. c \<noteq> CHR '' '') (c # s'), dropWhile (\<lambda>c. c \<noteq> CHR '' '') (c # s'))) of
             None \<Rightarrow> None
           | Some (w, rest) \<Rightarrow>
               if rest \<noteq> [] \<and> hd rest \<noteq> CHR '' '' then None else map_option ((#) w) (tcl_words n rest)))"

definition slashes :: "string \<Rightarrow> string" where
  "slashes path = map (\<lambda>c. if c = CHR 0x5C then CHR ''/'' else c) path"

lemma braced_slashes:
  "CHR ''{'' \<notin> set path \<Longrightarrow> CHR ''}'' \<notin> set path \<Longrightarrow> braced 0 (slashes path @ CHR ''}'' # rest) = Some (slashes path, rest)"
  by (induction path) (auto simp: slashes_def)

definition program_flags :: "OpenOcdLoadImageConfig \<Rightarrow> string list" where
  "program_flags img = (if li_preverify img then [''preverify''] else []) @ (if li_verify img then [''verify''] else []) @
     (if li_reset img then [''reset''] else [])"

lemma flag_words:
  "tcl_words (Suc (Suc (Suc (Suc n)))) ((if li_preverify img then '' preverify'' else []) @
     (if li_verify img then '' verify'' else []) @ (if li_reset img then '' reset'' else [])) = Some (program_flags img)"
  by (cases "li_preverify img"; cases "li_verify img"; cases "li_reset img") (simp_all add: program_flags_def)

text \<open>C39: The command that programs an image is made exactly for the paths without braces, line ends and NUL, and
  OpenOCD reads it back as the words it is meant to have: the command, the path with its backslashes as
  slashes, and the flags that are set, in their order.  The path stays one word when the command wraps it in
  braces a second time.\<close>

theorem program_command_reads_back:
  "(\<forall>command. BuildProgramCommand img = Inr command \<longrightarrow>
      tcl_words 6 command = Some (''program'' # slashes (li_path img) # program_flags img) \<and>
      braced 0 (slashes (li_path img) @ ''}'') = Some (slashes (li_path img), [])) \<and>
   ((\<exists>command. BuildProgramCommand img = Inr command) \<longleftrightarrow>
      li_path img \<noteq> [] \<and> set (li_path img) \<inter> {CHR ''{'', CHR ''}'', CHR 0x0D, CHR 0x0A, CHR 0x00} = {})"
proof -
  have "tcl_words 6 command = Some (''program'' # slashes (li_path img) # program_flags img) \<and>
      braced 0 (slashes (li_path img) @ ''}'') = Some (slashes (li_path img), [])"
    if c: "BuildProgramCommand img = Inr command" for command
  proof -
    define flags where "flags = (if li_preverify img then '' preverify'' else []) @
      (if li_verify img then '' verify'' else []) @ (if li_reset img then '' reset'' else [])"
    have path: "CHR ''{'' \<notin> set (li_path img)" "CHR ''}'' \<notin> set (li_path img)"
      using c by (auto simp: BuildProgramCommand_def split: if_splits)
    have command: "command = ''program '' @ CHR ''{'' # slashes (li_path img) @ CHR ''}'' # flags"
      using c by (auto simp: BuildProgramCommand_def ToTclSafeArg_def slashes_def flags_def split: if_splits)
    have f: "flags = [] \<or> hd flags = CHR '' ''" by (simp add: flags_def)
    have "tcl_words 5 (CHR '' '' # CHR ''{'' # slashes (li_path img) @ CHR ''}'' # flags) =
        map_option ((#) (slashes (li_path img))) (tcl_words 4 flags)"
      using f by (auto simp: eval_nat_numeral braced_slashes [OF path])
    also have "tcl_words 4 flags = Some (program_flags img)"
      using flag_words [of 0 img] by (simp add: eval_nat_numeral flags_def del: tcl_words.simps)
    finally have "tcl_words 6 command = Some (''program'' # slashes (li_path img) # program_flags img)"
      by (simp add: command eval_nat_numeral)
    then show ?thesis using braced_slashes [OF path, of "[]"] by simp
  qed
  moreover have "(\<exists>command. BuildProgramCommand img = Inr command) \<longleftrightarrow>
      li_path img \<noteq> [] \<and> set (li_path img) \<inter> {CHR ''{'', CHR ''}'', CHR 0x0D, CHR 0x0A, CHR 0x00} = {}"
    by (auto simp: BuildProgramCommand_def)
  ultimately show ?thesis by blast
qed

definition sample_image :: OpenOcdLoadImageConfig where
  "sample_image = \<lparr>li_path = ''C:'' @ [CHR 0x5C] @ ''a b.elf'', li_preverify = False, li_verify = True, li_reset = True\<rparr>"

theorem program_command_reads_back_witness:
  "tcl_words 6 ''program {C:/a b.elf} verify reset'' = Some [''program'', ''C:/a b.elf'', ''verify'', ''reset'']"
proof -
  have "BuildProgramCommand sample_image = Inr ''program {C:/a b.elf} verify reset''"
    by (simp add: BuildProgramCommand_def sample_image_def ToTclSafeArg_def)
  with program_command_reads_back [of sample_image, THEN conjunct1, rule_format]
  show ?thesis by (simp add: slashes_def program_flags_def sample_image_def del: tcl_words.simps)
qed

end
