(* ===== verification/Openocd_Lifecycle.thy ===== *)
theory Openocd_Lifecycle
  imports Openocd_Provider
begin

text \<open>
  The life of \<open>openocd_provider\<close>: bringing OpenOCD up in \<open>Create\<close>, with every way it can fail, taking it down
  in the destructor, and the callbacks that OpenOCD holds into the provider while it runs.
\<close>

section \<open>Callbacks stay alive\<close>

text \<open>What is assumed of OpenOCD: only setting and clearing a capture callback change what is captured, and
  each sets or clears the one of its object, unless it exits before it got there.\<close>

definition keeps_capture :: "'w openocd_api \<Rightarrow> ('w, 'a) c_call \<Rightarrow> bool" where
  "keeps_capture api call \<longleftrightarrow> (\<forall>s. oa_capture api (snd (snd (call s))) = oa_capture api (snd s))"

definition capture_laws :: "'w openocd_api \<Rightarrow> bool" where
  "capture_laws api \<longleftrightarrow>
     (\<forall>obj name s. case oa_tmc_set_capture_callback api obj name s of
        (Value _, _, w) \<Rightarrow> oa_capture api w = (oa_capture api (snd s))(obj := Some name)
      | (_, _, w) \<Rightarrow> oa_capture api w = oa_capture api (snd s) \<or> oa_capture api w = (oa_capture api (snd s))(obj := Some name)) \<and>
     (\<forall>obj s. case oa_tmc_clear_capture_callback api obj s of
        (Value _, _, w) \<Rightarrow> oa_capture api w = (oa_capture api (snd s))(obj := None)
      | (_, _, w) \<Rightarrow> oa_capture api w = oa_capture api (snd s) \<or> oa_capture api w = (oa_capture api (snd s))(obj := None)) \<and>
     (\<forall>line. keeps_capture api (oa_run_line api line)) \<and>
     (\<forall>tgt a n. keeps_capture api (oa_read_buffer api tgt a n)) \<and>
     (\<forall>tgt a n bs. keeps_capture api (oa_write_buffer api tgt a n bs)) \<and>
     keeps_capture api (oa_target_register api) \<and> keeps_capture api (oa_target_unregister api) \<and>
     (\<forall>obj. keeps_capture api (oa_tmc_enable api obj) \<and> keeps_capture api (oa_tmc_disable api obj) \<and>
        keeps_capture api (oa_etmv4_enable api obj) \<and> keeps_capture api (oa_etmv4_disable api obj))"

text \<open>Every capture callback of OpenOCD points to an entry of the provider that exists, the one under the name
  of its object.\<close>

definition callbacks_live :: "'w openocd_api \<Rightarrow> 'w Impl \<Rightarrow> bool" where
  "callbacks_live api im \<longleftrightarrow> (\<forall>obj name. oa_capture api (im_lib im) obj = Some name \<longrightarrow>
     name \<in> fst ` set (im_trace_callbacks im) \<and> oa_tmc_find api name = Some obj)"

text \<open>Before and after a call: what holds when it returns, and that the invariant holds when it is cut off.\<close>

definition triple :: "('s \<Rightarrow> bool) \<Rightarrow> ('s \<Rightarrow> bool) \<Rightarrow> ('s, 'a) c_call \<Rightarrow> ('a \<Rightarrow> 's \<Rightarrow> bool) \<Rightarrow> bool" where
  "triple safe P c Q \<longleftrightarrow> (\<forall>jmp s. P s \<longrightarrow> (case c (jmp, s) of (Value a, _, s') \<Rightarrow> Q a s' | (_, _, s') \<Rightarrow> safe s'))"

lemma tripleD:
  assumes "triple safe P c Q" and "P s" and "c (jmp, s) = (out, jmp', s')"
  shows "case out of Value a \<Rightarrow> Q a s' | Jump _ _ \<Rightarrow> safe s' | ProcessExit _ \<Rightarrow> safe s'"
proof -
  have "case c (jmp, s) of (Value a, _, s') \<Rightarrow> Q a s' | (_, _, s') \<Rightarrow> safe s'"
    by (rule assms(1) [unfolded triple_def, rule_format, OF assms(2)])
  then show ?thesis by (cases out) (simp_all add: assms(3))
qed

named_theorems triples \<open>what the calls of the provider keep\<close>

lemma triple_return [triples]: "(\<And>s. P s \<Longrightarrow> Q a s) \<Longrightarrow> triple safe P (c_return a) Q"
  by (simp add: triple_def c_return_def)

lemma triple_bind:
  assumes "triple safe P c R" and "\<And>a. triple safe (R a) (f a) Q"
  shows "triple safe P (c_bind c f) Q"
  unfolding triple_def
proof (intro allI impI)
  fix jmp s assume p: "P s"
  obtain out jmp' s' where c: "c (jmp, s) = (out, jmp', s')" by (rule prod_cases3)
  show "case c_bind c f (jmp, s) of (Value a, _, s') \<Rightarrow> Q a s' | (_, _, s') \<Rightarrow> safe s'"
  proof (cases out)
    case (Value a)
    have "R a s'" using tripleD [OF assms(1) p c] Value by simp
    then have "case f a (jmp', s') of (Value a, _, s') \<Rightarrow> Q a s' | (_, _, s') \<Rightarrow> safe s'"
      by (rule assms(2) [unfolded triple_def, rule_format])
    then show ?thesis by (simp add: c_bind_def c Value)
  next
    case (Jump x1 x2)
    have "safe s'" using tripleD [OF assms(1) p c] Jump by simp
    then show ?thesis by (simp add: c_bind_def c Jump)
  next
    case (ProcessExit x3)
    have "safe s'" using tripleD [OF assms(1) p c] ProcessExit by simp
    then show ?thesis by (simp add: c_bind_def c ProcessExit)
  qed
qed

lemma triple_look: "(\<And>a s. P s \<Longrightarrow> Q a s) \<Longrightarrow> triple safe P (look f) Q"
  by (simp add: triple_def look_def c_lift_def)

lemma triple_on_impl: "(\<And>s. P s \<Longrightarrow> Q () (f s)) \<Longrightarrow> triple safe P (on_impl f) Q"
  by (simp add: triple_def on_impl_def c_lift_def)

lemma triple_lift: "(\<And>s. P s \<Longrightarrow> Q (fst (f s)) (snd (f s))) \<Longrightarrow> triple safe P (c_lift f) Q"
  by (simp add: triple_def c_lift_def)

lemma triple_keeps:
  assumes "keeps_capture api call"
  shows "triple (callbacks_live api) (callbacks_live api) (on_lib call) (\<lambda>_. callbacks_live api)"
proof -
  have "callbacks_live api (im\<lparr>im_lib := w\<rparr>)" if "callbacks_live api im" "call (jmp, im_lib im) = (out, jmp', w)" for jmp im out jmp' w
  proof -
    have "oa_capture api w = oa_capture api (im_lib im)" using assms that(2) unfolding keeps_capture_def by (metis snd_conv)
    then show ?thesis using that(1) by (simp add: callbacks_live_def)
  qed
  then show ?thesis unfolding triple_def on_lib_def by (auto split: prod.split outcome.split)
qed

lemma RunGuarded_keeps:
  assumes "triple safe safe c (\<lambda>_. safe)" and "safe s"
  shows "safe (snd (snd (RunGuarded c (jmp, s))))"
proof -
  obtain out jmp' s' where c: "c (\<lparr>js_buf = Suc (js_buf jmp), js_armed = True\<rparr>, s) = (out, jmp', s')" by (rule prod_cases3)
  have "safe s'" using tripleD [OF assms c] by (cases out) simp_all
  then show ?thesis by (cases out) (simp_all add: RunGuarded_def openocd_call_guarded_def c)
qed

lemma SubscribeTrace_keeps:
  assumes laws: "capture_laws api"
  shows "triple (callbacks_live api) (callbacks_live api) (SubscribeTrace_task api name callback) (\<lambda>_. callbacks_live api)"
proof (cases "oa_tmc_find api name")
  case None
  then show ?thesis by (simp add: SubscribeTrace_task_def triple_return)
next
  case (Some obj)
  let ?there = "\<lambda>im. callbacks_live api im \<and> name \<in> fst ` set (im_trace_callbacks im)"
  have set: "triple (callbacks_live api) ?there (on_lib (oa_tmc_set_capture_callback api obj name)) (\<lambda>_. callbacks_live api)"
    unfolding triple_def
  proof (intro allI impI)
    fix jmp im assume p: "?there im"
    obtain out jmp' w where c: "oa_tmc_set_capture_callback api obj name (jmp, im_lib im) = (out, jmp', w)" by (rule prod_cases3)
    have "oa_capture api w = oa_capture api (im_lib im) \<or> oa_capture api w = (oa_capture api (im_lib im))(obj := Some name)"
      using laws [unfolded capture_laws_def, THEN conjunct1, rule_format, where obj = obj and name = name and s = "(jmp, im_lib im)"]
      by (cases out) (auto simp: c)
    then have "callbacks_live api (im\<lparr>im_lib := w\<rparr>)" using p Some by (elim disjE) (simp_all add: callbacks_live_def)
    then show "case on_lib (oa_tmc_set_capture_callback api obj name) (jmp, im) of
        (Value a, _, s') \<Rightarrow> callbacks_live api s' | (_, _, s') \<Rightarrow> callbacks_live api s'"
      by (cases out) (simp_all add: on_lib_def c)
  qed
  have put: "triple (callbacks_live api) (callbacks_live api)
      (on_impl (\<lambda>im. im\<lparr>im_trace_callbacks := insert_or_assign name callback (im_trace_callbacks im)\<rparr>)) (\<lambda>_. ?there)"
    by (rule triple_on_impl) (force simp: callbacks_live_def insert_or_assign_def)
  show ?thesis unfolding SubscribeTrace_task_def Some option.case
    by (rule triple_bind [OF put triple_bind [OF set triple_return]])
qed

lemma UnsubscribeTrace_keeps:
  assumes laws: "capture_laws api"
  shows "triple (callbacks_live api) (callbacks_live api) (UnsubscribeTrace_task api name) (\<lambda>_. callbacks_live api)"
proof (cases "oa_tmc_find api name")
  case None
  then show ?thesis by (simp add: UnsubscribeTrace_task_def triple_return)
next
  case (Some obj)
  let ?gone = "\<lambda>im. callbacks_live api im \<and> oa_capture api (im_lib im) obj = None"
  have clear: "triple (callbacks_live api) (callbacks_live api) (on_lib (oa_tmc_clear_capture_callback api obj)) (\<lambda>_. ?gone)"
    unfolding triple_def
  proof (intro allI impI)
    fix jmp im assume p: "callbacks_live api im"
    obtain out jmp' w where c: "oa_tmc_clear_capture_callback api obj (jmp, im_lib im) = (out, jmp', w)" by (rule prod_cases3)
    note law = laws [unfolded capture_laws_def, THEN conjunct2, THEN conjunct1, rule_format, where obj = obj and s = "(jmp, im_lib im)", unfolded c]
    have "oa_capture api w = oa_capture api (im_lib im) \<or> oa_capture api w = (oa_capture api (im_lib im))(obj := None)"
      using law by (cases out) auto
    then have "callbacks_live api (im\<lparr>im_lib := w\<rparr>)" using p by (auto simp: callbacks_live_def split: if_splits)
    then show "case on_lib (oa_tmc_clear_capture_callback api obj) (jmp, im) of
        (Value a, _, s') \<Rightarrow> ?gone s' | (_, _, s') \<Rightarrow> callbacks_live api s'"
      using law by (cases out) (simp_all add: on_lib_def c)
  qed
  have erase: "triple (callbacks_live api) ?gone
      (on_impl (\<lambda>im. im\<lparr>im_trace_callbacks := erase_callback name (im_trace_callbacks im)\<rparr>)) (\<lambda>_. callbacks_live api)"
  proof (rule triple_on_impl)
    fix im assume g: "?gone im"
    have "name' \<noteq> name" if "oa_capture api (im_lib im) obj' = Some name'" for obj' name'
      using g that Some by (auto simp: callbacks_live_def)
    then show "callbacks_live api (im\<lparr>im_trace_callbacks := erase_callback name (im_trace_callbacks im)\<rparr>)"
      using g by (force simp: callbacks_live_def erase_callback_def)
  qed
  show ?thesis unfolding UnsubscribeTrace_task_def Some option.case
    by (rule triple_bind [OF clear triple_bind [OF erase triple_return]])
qed

text \<open>The operations that can be posted to the queue, each with the result that matters to its caller.\<close>

datatype provider_op =
    OpSubscribeTrace string nat
  | OpUnsubscribeTrace string
  | OpSubscribeTargetState nat
  | OpUnsubscribeTargetState
  | OpRunTclCommand string
  | OpEnableTrace string
  | OpDisableTrace string
  | OpReadMemory MemorySelector u64 u32
  | OpWriteMemory MemorySelector u64 "u8 list"
  | OpGetCoreName

fun provider_call :: "'w openocd_api \<Rightarrow> provider_op \<Rightarrow> ('w Impl, string + unit) c_call" where
  "provider_call api (OpSubscribeTrace name callback) = SubscribeTrace_task api name callback"
| "provider_call api (OpUnsubscribeTrace name) = UnsubscribeTrace_task api name"
| "provider_call api (OpSubscribeTargetState callback) = c_bind (SubscribeTargetState_task api callback) (\<lambda>r. c_return (Inr r))"
| "provider_call api OpUnsubscribeTargetState = c_bind (UnsubscribeTargetState_task api) (\<lambda>r. c_return (Inr r))"
| "provider_call api (OpRunTclCommand command) =
     c_bind (RunTclCommand_task api command) (\<lambda>r. c_return (expect_ok (in_quotes command @ '' failed'') r))"
| "provider_call api (OpEnableTrace name) = c_bind (EnableTrace_task api name) (\<lambda>r. c_return (switched name ''enable'' r))"
| "provider_call api (OpDisableTrace name) = c_bind (DisableTrace_task api name) (\<lambda>r. c_return (switched name ''disable'' r))"
| "provider_call api (OpReadMemory selector address n) =
     c_bind (ReadMemory_task api selector address n) (\<lambda>r. c_return (expect_ok ''target_read_buffer() failed'' (fst r)))"
| "provider_call api (OpWriteMemory selector address bytes) =
     c_bind (WriteMemory_task api selector address bytes) (\<lambda>r. c_return (expect_ok ''target_write_buffer() failed'' r))"
| "provider_call api OpGetCoreName = c_bind (GetCoreName_task api) (\<lambda>r. c_return (map_sum id (\<lambda>_. ()) r))"

lemma triple_done: "triple safe P c (\<lambda>_. Q) \<Longrightarrow> triple safe P (c_bind c (\<lambda>r. c_return (f r))) (\<lambda>_. Q)"
  by (erule triple_bind) (simp add: triple_return)

lemma triple_switch:
  assumes "\<And>obj. keeps_capture api (tmc obj)" and "\<And>obj. keeps_capture api (etmv4 obj)"
  shows "triple (callbacks_live api) (callbacks_live api) (switch_trace api tmc etmv4 name) (\<lambda>_. callbacks_live api)"
  by (auto simp: switch_trace_def triple_return split: option.split intro!: triple_done triple_keeps assms)

lemma triple_state:
  assumes "keeps_capture api (oa_target_register api)" and "keeps_capture api (oa_target_unregister api)"
  shows "triple (callbacks_live api) (callbacks_live api) (SubscribeTargetState_task api callback) (\<lambda>_. callbacks_live api)"
    and "triple (callbacks_live api) (callbacks_live api) (UnsubscribeTargetState_task api) (\<lambda>_. callbacks_live api)"
proof -
  have set: "callbacks_live api (im\<lparr>im_target_state_callback := x\<rparr>) = callbacks_live api im" for im x
    by (simp add: callbacks_live_def)
  show "triple (callbacks_live api) (callbacks_live api) (SubscribeTargetState_task api callback) (\<lambda>_. callbacks_live api)"
    unfolding SubscribeTargetState_task_def
    by (rule triple_bind [where R = "\<lambda>_. callbacks_live api"], simp add: triple_lift,
        rule triple_bind [where R = "\<lambda>_. callbacks_live api"], simp add: triple_on_impl set)
      (simp add: triple_return triple_keeps assms)
  show "triple (callbacks_live api) (callbacks_live api) (UnsubscribeTargetState_task api) (\<lambda>_. callbacks_live api)"
    unfolding UnsubscribeTargetState_task_def
    by (rule triple_bind [OF triple_keeps [OF assms(2)]]) (simp add: triple_on_impl set)
qed

lemma triple_memory:
  assumes "\<And>tgt a n. keeps_capture api (oa_read_buffer api tgt a n)" and "\<And>tgt a n bs. keeps_capture api (oa_write_buffer api tgt a n bs)"
  shows "triple (callbacks_live api) (callbacks_live api) (ReadMemory_task api selector address n) (\<lambda>_. callbacks_live api)"
    and "triple (callbacks_live api) (callbacks_live api) (WriteMemory_task api selector address bytes) (\<lambda>_. callbacks_live api)"
  unfolding ReadMemory_task_def WriteMemory_task_def select_target_def
  by (rule triple_bind [where R = "\<lambda>_. callbacks_live api"], simp add: triple_look,
      simp add: triple_return triple_keeps assms split: option.split)+

lemma provider_call_keeps:
  assumes "capture_laws api"
  shows "triple (callbacks_live api) (callbacks_live api) (provider_call api op) (\<lambda>_. callbacks_live api)"
proof -
  note laws = assms [unfolded capture_laws_def]
  have k: "keeps_capture api (oa_run_line api line)" "keeps_capture api (oa_read_buffer api tgt a n)"
    "keeps_capture api (oa_write_buffer api tgt a n bs)" "keeps_capture api (oa_target_register api)"
    "keeps_capture api (oa_target_unregister api)" "keeps_capture api (oa_tmc_enable api obj)"
    "keeps_capture api (oa_tmc_disable api obj)" "keeps_capture api (oa_etmv4_enable api obj)"
    "keeps_capture api (oa_etmv4_disable api obj)" for line tgt a n bs obj
    using laws by blast+
  show ?thesis
  proof (cases op)
    case (OpRunTclCommand command)
    then show ?thesis by (simp add: RunTclCommand_task_def triple_done triple_keeps k)
  next
    case OpGetCoreName
    then show ?thesis by (simp add: GetCoreName_task_def triple_done triple_look)
  qed (simp_all add: SubscribeTrace_keeps UnsubscribeTrace_keeps assms EnableTrace_task_def DisableTrace_task_def triple_done
      triple_switch triple_state triple_memory k)
qed


text \<open>A sample OpenOCD with one trace sink.\<close>

definition sample_ocd :: "(nat \<Rightarrow> string option) openocd_api" where
  "sample_ocd = \<lparr>oa_run_line = (\<lambda>_. c_return 0), oa_targets = (\<lambda>_. []), oa_current_target = (\<lambda>_. None),
     oa_get_target = (\<lambda>_ _. None), oa_read_buffer = (\<lambda>_ _ _. c_return (0, [])), oa_write_buffer = (\<lambda>_ _ _ _. c_return 0),
     oa_tmc_objects = (\<lambda>_. []), oa_etmv4_objects = (\<lambda>_. []),
     oa_tmc_find = (\<lambda>name. if name = ''etf'' then Some 0 else None), oa_etmv4_find = (\<lambda>_. None),
     oa_etmv4_initialised = (\<lambda>_ _. False), oa_etmv4_decode_regs = (\<lambda>_. openocd_exit 1),
     oa_tmc_set_capture_callback = (\<lambda>obj name. c_lift (\<lambda>w. ((), w(obj := Some name)))),
     oa_tmc_clear_capture_callback = (\<lambda>obj. c_lift (\<lambda>w. ((), w(obj := None)))),
     oa_target_register = c_return (), oa_target_unregister = c_return (),
     oa_tmc_enable = (\<lambda>_. c_return 0), oa_tmc_disable = (\<lambda>_. c_return 0),
     oa_etmv4_enable = (\<lambda>_. c_return 0), oa_etmv4_disable = (\<lambda>_. c_return 0), oa_capture = (\<lambda>w. w)\<rparr>"

lemma sample_ocd_laws: "capture_laws sample_ocd"
  by (simp add: capture_laws_def sample_ocd_def keeps_capture_def c_return_def c_lift_def)

definition sample_subscribe :: "(openocd_jmp_state \<times> (nat \<Rightarrow> string option) Impl, int + (string + unit)) task" where
  "sample_subscribe = RunGuarded (provider_call sample_ocd (OpSubscribeTrace ''etf'' 3))"

definition sample_ocd_start :: "openocd_jmp_state \<times> (nat \<Rightarrow> string option) Impl" where
  "sample_ocd_start = (\<lparr>js_buf = 0, js_armed = False\<rparr>,
     \<lparr>im_lib = (\<lambda>_. None), im_trace_callbacks = [], im_target_state_callback = None\<rparr>)"

definition sample_ocd_queue :: "(openocd_jmp_state \<times> (nat \<Rightarrow> string option) Impl, int + (string + unit)) CommandQueue" where
  "sample_ocd_queue = DrainAndRun_next 0 sample_subscribe [] (DrainAndRun_swap (Input_recv 1
     (Wake 7 0 (Post_push 7 sample_subscribe (started_queue sample_ocd_start)))))"

lemma sample_ocd_run: "queue_run id (\<lambda>_. False) (started_queue sample_ocd_start) sample_ocd_queue"
proof -
  let ?q0 = "started_queue sample_ocd_start :: (openocd_jmp_state \<times> (nat \<Rightarrow> string option) Impl, int + (string + unit)) CommandQueue"
  let ?q1 = "Post_push 7 sample_subscribe ?q0" let ?q2 = "Wake 7 0 ?q1" let ?q3 = "Input_recv 1 ?q2" let ?q4 = "DrainAndRun_swap ?q3"
  have "queue_step id (\<lambda>_. False) ?q0 ?q1" by (rule queue_step.push) (simp add: started_queue_def)
  moreover have "queue_step id (\<lambda>_. False) ?q1 ?q2" by (rule queue_step.wake) (simp add: started_queue_def Post_push_def)
  moreover have "queue_step id (\<lambda>_. False) ?q2 ?q3"
    by (rule queue_step.server, rule server_step.recv) (simp_all add: started_queue_def queue_ops)
  moreover have "queue_step id (\<lambda>_. False) ?q3 ?q4"
    by (rule queue_step.server, rule server_step.swap) (simp add: started_queue_def queue_ops)
  moreover have "queue_step id (\<lambda>_. False) ?q4 sample_ocd_queue" unfolding sample_ocd_queue_def
    by (rule queue_step.server, rule server_step.run) (simp_all add: started_queue_def queue_ops)
  ultimately show ?thesis by (meson converse_rtranclp_into_rtranclp rtranclp.rtrancl_refl)
qed


section \<open>Bringing OpenOCD up\<close>

record 'w startup_api = "'w openocd_api" +
  sa_open_log :: "string \<Rightarrow> bool"
  sa_create_context :: "'w \<Rightarrow> bool \<times> 'w"
  sa_init :: "('w, unit) c_call"
  sa_add_script_search_dir :: "string \<Rightarrow> ('w, unit) c_call"
  sa_server_init :: "('w, int) c_call"
  sa_poll_mask :: "('w, bool) c_call"
  sa_poll_unmask :: "bool \<Rightarrow> ('w, unit) c_call"
  sa_adapter_init :: "('w, int) c_call"
  sa_command_mode :: "bool \<Rightarrow> ('w, unit) c_call"
  sa_target_examine :: "('w, int) c_call"
  sa_gdb_and_log_events :: "('w, unit) c_call"
  sa_add_service :: "string \<Rightarrow> ('w, int) c_call"
  sa_socket :: bool
  sa_connect :: "string \<Rightarrow> bool"
  sa_teardown :: "('w, unit) c_call"

text \<open>The process as far as the provider sees it: the instance flag, the log file, the command context, the
  thread of the server loop, and the jump state of the thread that is running.\<close>

record 'w process =
  ps_instance_alive :: bool
  ps_log_open :: bool
  ps_context :: bool
  ps_worker :: bool
  ps_jmp :: openocd_jmp_state
  ps_impl :: "'w Impl"

fun run_all :: "('s, 'a) c_call list \<Rightarrow> ('s, unit) c_call" where
  "run_all [] = c_return ()"
| "run_all (c # cs) = c_bind c (\<lambda>_. run_all cs)"

text \<open>Lines that stop at the first failure, as \<open>RunInitSequence\<close> and the configuration do.\<close>

fun run_lines :: "'w startup_api \<Rightarrow> string list \<Rightarrow> ('w, int) c_call" where
  "run_lines api [] = c_return ERROR_OK"
| "run_lines api (line # lines) =
     c_bind (oa_run_line api line) (\<lambda>retval. if retval \<noteq> ERROR_OK then c_return retval else run_lines api lines)"

definition and_then :: "('w, int) c_call \<Rightarrow> (int \<Rightarrow> int) \<Rightarrow> ('w, int) c_call \<Rightarrow> ('w, int) c_call" where
  "and_then c code rest = c_bind c (\<lambda>retval. if retval \<noteq> ERROR_OK then c_return (code retval) else rest)"

definition RunInit :: "'w startup_api \<Rightarrow> ('w, int) c_call" where
  "RunInit api =
     (let failed = (\<lambda>_. ERROR_FAIL) in
      c_bind (sa_poll_mask api) (\<lambda>save_poll_mask.
      and_then (oa_run_line api ''target init'') failed (
      and_then (sa_adapter_init api) id (
      c_bind (sa_command_mode api True) (\<lambda>_.
      and_then (run_lines api [''transport init'', ''dap init'']) failed (
      c_bind (sa_target_examine api) (\<lambda>_.
      c_bind (sa_command_mode api False) (\<lambda>_.
      and_then (run_lines api [''flash init'', ''nand init'', ''pld init'']) failed (
      c_bind (sa_command_mode api True) (\<lambda>_.
      and_then (run_lines api [''tpiu init'', ''tmc init'', ''etmv4 init'']) failed (
      c_bind (sa_poll_unmask api save_poll_mask) (\<lambda>_.
      c_bind (sa_gdb_and_log_events api) (\<lambda>_.
      oa_run_line api ''_run_post_init_commands'')))))))))))))"

definition configure_lines :: "OpenOcdConfig \<Rightarrow> string list" where
  "configure_lines config = [''debug_level '' @ int_text (oc_debug_level config), ''gdb_port '' @ oc_gdb_port config,
     ''tcl_port '' @ oc_tcl_port config, ''telnet_port '' @ oc_telnet_port config]"

definition configure_call :: "'w startup_api \<Rightarrow> OpenOcdConfig \<Rightarrow> ('w, unit) c_call" where
  "configure_call api config =
     c_bind (sa_init api) (\<lambda>_.
     c_bind (run_all (map (sa_add_script_search_dir api) (oc_script_search_dirs config))) (\<lambda>_.
     run_all (map (oa_run_line api) (configure_lines config))))"

definition config_call :: "'w startup_api \<Rightarrow> OpenOcdConfig \<Rightarrow> ('w, int) c_call" where
  "config_call api config =
     (if RegisterConfigCommands config = [] then c_bind (oa_run_line api ''script openocd.cfg'') (\<lambda>_. c_return ERROR_OK)
      else run_lines api (RegisterConfigCommands config))"

text \<open>A guarded call on the thread that creates or destroys the provider.\<close>

definition guarded_step :: "('w, 'a) c_call \<Rightarrow> 'w process \<Rightarrow> (int + 'a) \<times> 'w process" where
  "guarded_step c ps =
     (let (r, jmp, im) = RunGuarded (on_lib c) (ps_jmp ps, ps_impl ps) in (r, ps\<lparr>ps_jmp := jmp, ps_impl := im\<rparr>))"

text \<open>The destructor: the instance flag first, then OpenOCD, when there is a command context: shut down (on the
  thread of the server loop, which then ends, if it was started), forget the callbacks, clean up, and close
  the log.\<close>

definition forget_callbacks :: "'w startup_api \<Rightarrow> ('w Impl, unit) c_call" where
  "forget_callbacks api =
     c_bind (c_lift (\<lambda>im. (map fst (im_trace_callbacks im), im))) (\<lambda>names.
     c_bind (run_all (map (\<lambda>obj. on_lib (oa_tmc_clear_capture_callback api obj)) (List.map_filter (oa_tmc_find api) names))) (\<lambda>_.
     c_bind (on_impl (\<lambda>im. im\<lparr>im_trace_callbacks := []\<rparr>)) (\<lambda>_.
     c_bind (c_lift (\<lambda>im. (im_target_state_callback im \<noteq> None, im))) (\<lambda>registered.
     c_bind (if registered then on_lib (oa_target_unregister api) else c_return ()) (\<lambda>_.
     c_bind (on_impl (\<lambda>im. im\<lparr>im_target_state_callback := None\<rparr>)) (\<lambda>_.
     on_lib (sa_teardown api)))))))"

definition destroy :: "'w startup_api \<Rightarrow> 'w process \<Rightarrow> 'w process" where
  "destroy api ps =
     (let ps = ps\<lparr>ps_instance_alive := False\<rparr> in
      if \<not> ps_context ps then ps\<lparr>ps_log_open := False\<rparr>
      else
        (let ps = (snd (guarded_step (oa_run_line api ''shutdown'') ps))\<lparr>ps_worker := False\<rparr>;
             (_, jmp, im) = RunGuarded (forget_callbacks api) (ps_jmp ps, ps_impl ps)
         in ps\<lparr>ps_jmp := jmp, ps_impl := im, ps_context := False, ps_log_open := False\<rparr>))"

definition fail_with :: "'w startup_api \<Rightarrow> string \<Rightarrow> 'w process \<Rightarrow> (string + unit) \<times> 'w process" where
  "fail_with api msg ps = (Inl msg, destroy api ps)"

text \<open>One guarded phase of \<open>Create\<close>: an exit, or a result that does not pass, ends it.\<close>

definition phase ::
  "'w startup_api \<Rightarrow> string \<Rightarrow> ('w, 'a) c_call \<Rightarrow> ('a \<Rightarrow> string option) \<Rightarrow> ('w process \<Rightarrow> (string + unit) \<times> 'w process) \<Rightarrow>
   'w process \<Rightarrow> (string + unit) \<times> 'w process" where
  "phase api during c check rest ps =
     (case guarded_step c ps of
        (Inl code, ps) \<Rightarrow> fail_with api (exit_text code @ during) ps
      | (Inr a, ps) \<Rightarrow> (case check a of Some msg \<Rightarrow> fail_with api msg ps | None \<Rightarrow> rest ps))"

definition CommandQueue_Start :: "'w startup_api \<Rightarrow> string \<Rightarrow> 'w process \<Rightarrow> (string + unit) \<times> 'w process" where
  "CommandQueue_Start api wakeup_port =
     phase api '' while registering the wakeup service'' (sa_add_service api wakeup_port)
       (\<lambda>retval. if retval \<noteq> ERROR_OK then Some (''add_service('' @ wakeup_port @ '') failed'') else None)
       (\<lambda>ps. if \<not> sa_socket api then fail_with api ''socket() failed for the wakeup client'' ps
             else if \<not> sa_connect api wakeup_port then fail_with api ''connect() to the wakeup service failed'' ps
             else (Inr (), ps\<lparr>ps_worker := True\<rparr>))"

definition program_phase :: "'w startup_api \<Rightarrow> OpenOcdConfig \<Rightarrow> 'w process \<Rightarrow> (string + unit) \<times> 'w process" where
  "program_phase api config ps =
     (case oc_load_image config of
        None \<Rightarrow> CommandQueue_Start api (oc_wakeup_port config) ps
      | Some img \<Rightarrow>
          (case BuildProgramCommand img of
             Inl error \<Rightarrow> fail_with api error ps
           | Inr command \<Rightarrow>
               phase api '' while programming image'' (oa_run_line api command)
                 (\<lambda>retval. if retval \<noteq> ERROR_OK then Some (''failed to program image '' @ in_quotes (li_path img)) else None)
                 (CommandQueue_Start api (oc_wakeup_port config)) ps))"

definition init_phase :: "'w startup_api \<Rightarrow> OpenOcdConfig \<Rightarrow> 'w process \<Rightarrow> (string + unit) \<times> 'w process" where
  "init_phase api config ps =
     (if oc_init_at_startup config \<and> oc_load_image config = None
      then phase api '' during init'' (RunInit api)
             (\<lambda>retval. if retval \<noteq> ERROR_OK then Some (''the '' @ in_quotes ''init'' @ '' sequence failed'') else None)
             (program_phase api config) ps
      else program_phase api config ps)"

definition OpenOcd_Create :: "'w startup_api \<Rightarrow> OpenOcdConfig \<Rightarrow> 'w process \<Rightarrow> (string + unit) \<times> 'w process" where
  "OpenOcd_Create api config ps =
     (if ps_instance_alive ps then (Inl ''an OpenOcdProvider already exists in this process'', ps)
      else
        (let ps = ps\<lparr>ps_instance_alive := True\<rparr> in
         if \<not> sa_open_log api (oc_log_file_path config)
         then fail_with api (''failed to open log file: '' @ oc_log_file_path config) ps
         else
           (let ps = ps\<lparr>ps_log_open := True\<rparr>;
                (created, w) = sa_create_context api (im_lib (ps_impl ps));
                ps = ps\<lparr>ps_impl := (ps_impl ps)\<lparr>im_lib := w\<rparr>\<rparr>
            in if \<not> created then fail_with api ''failed to create the OpenOCD command context'' ps
               else
                 phase api '' during configuration'' (configure_call api config) (\<lambda>_. None)
                 (phase api '' while parsing config files'' (config_call api config)
                   (\<lambda>retval. if retval \<noteq> ERROR_OK \<and> retval \<noteq> ERROR_COMMAND_CLOSE_CONNECTION then Some ''parse_config_file() failed'' else None)
                 (phase api '' during server_init()'' (sa_server_init api)
                   (\<lambda>retval. if retval \<noteq> ERROR_OK then Some ''server_init() failed'' else None)
                 (init_phase api config))) (ps\<lparr>ps_context := True\<rparr>))))"

section \<open>All or nothing\<close>

definition all_down :: "'w process \<Rightarrow> bool" where
  "all_down ps \<longleftrightarrow> \<not> ps_instance_alive ps \<and> \<not> ps_log_open ps \<and> \<not> ps_context ps \<and> \<not> ps_worker ps"

definition coming_up :: "'w process \<Rightarrow> bool" where
  "coming_up ps \<longleftrightarrow> ps_instance_alive ps \<and> ps_log_open ps \<and> ps_context ps \<and> \<not> ps_worker ps"

definition all_up :: "'w process \<Rightarrow> bool" where
  "all_up ps \<longleftrightarrow> ps_instance_alive ps \<and> ps_log_open ps \<and> ps_context ps \<and> ps_worker ps"

definition all_or_nothing :: "(string + unit) \<times> 'w process \<Rightarrow> bool" where
  "all_or_nothing result \<longleftrightarrow> (case result of (Inr _, ps) \<Rightarrow> all_up ps | (Inl _, ps) \<Rightarrow> all_down ps)"

lemma guarded_step_frame:
  "guarded_step c ps = (r, ps') \<Longrightarrow> ps_instance_alive ps' = ps_instance_alive ps \<and> ps_log_open ps' = ps_log_open ps \<and>
     ps_context ps' = ps_context ps \<and> ps_worker ps' = ps_worker ps"
  by (auto simp: guarded_step_def split: prod.splits)

lemma guarded_step_simps [simp]:
  "ps_instance_alive (snd (guarded_step c ps)) = ps_instance_alive ps" "ps_log_open (snd (guarded_step c ps)) = ps_log_open ps"
  "ps_context (snd (guarded_step c ps)) = ps_context ps" "ps_worker (snd (guarded_step c ps)) = ps_worker ps"
  by (simp_all add: guarded_step_def split_beta)

lemma destroy_down: "ps_context ps \<or> \<not> ps_worker ps \<Longrightarrow> all_down (destroy api ps)"
  by (auto simp: destroy_def all_down_def Let_def split_beta)

lemma fail_with_nothing: "ps_context ps \<or> \<not> ps_worker ps \<Longrightarrow> all_or_nothing (fail_with api msg ps)"
  by (simp add: fail_with_def all_or_nothing_def destroy_down)

lemma phase_all_or_nothing:
  assumes "coming_up ps" and "\<And>ps. coming_up ps \<Longrightarrow> all_or_nothing (rest ps)"
  shows "all_or_nothing (phase api during c check rest ps)"
proof -
  obtain r ps' where g: "guarded_step c ps = (r, ps')" by fastforce
  have up: "coming_up ps'" using guarded_step_frame [OF g] assms(1) by (simp add: coming_up_def)
  then have "ps_context ps' \<or> \<not> ps_worker ps'" by (simp add: coming_up_def)
  then have "all_or_nothing (fail_with api msg ps')" for msg by (rule fail_with_nothing)
  then show ?thesis using assms(2) [OF up] by (simp add: phase_def g split: sum.split option.split)
qed

lemma Start_all_or_nothing: "coming_up ps \<Longrightarrow> all_or_nothing (CommandQueue_Start api port ps)"
  unfolding CommandQueue_Start_def
proof (erule phase_all_or_nothing)
  fix ps :: "'a process" assume up: "coming_up ps"
  then have "all_or_nothing (fail_with api msg ps)" for msg by (intro fail_with_nothing) (simp add: coming_up_def)
  then show "all_or_nothing (if \<not> sa_socket api then fail_with api ''socket() failed for the wakeup client'' ps
      else if \<not> sa_connect api port then fail_with api ''connect() to the wakeup service failed'' ps
      else (Inr (), ps\<lparr>ps_worker := True\<rparr>))"
    using up by (simp add: all_or_nothing_def all_up_def coming_up_def)
qed

lemma init_phase_all_or_nothing: "coming_up ps \<Longrightarrow> all_or_nothing (init_phase api config ps)"
proof -
  have prog: "all_or_nothing (program_phase api config ps)" if up: "coming_up ps" for ps :: "'a process"
  proof -
    have "all_or_nothing (fail_with api msg ps)" for msg using up by (intro fail_with_nothing) (simp add: coming_up_def)
    then show ?thesis using up
      by (simp add: program_phase_def Start_all_or_nothing phase_all_or_nothing split: option.split sum.split)
  qed
  show "coming_up ps \<Longrightarrow> all_or_nothing (init_phase api config ps)"
    by (simp add: init_phase_def prog phase_all_or_nothing)
qed


definition sample_startup :: "(nat \<Rightarrow> string option) startup_api" where
  "sample_startup = openocd_api.extend sample_ocd \<lparr>sa_open_log = (\<lambda>_. True), sa_create_context = (\<lambda>w. (True, w)), sa_init = c_return (),
     sa_add_script_search_dir = (\<lambda>_. c_return ()), sa_server_init = c_return 0, sa_poll_mask = c_return False,
     sa_poll_unmask = (\<lambda>_. c_return ()), sa_adapter_init = openocd_exit 4, sa_command_mode = (\<lambda>_. c_return ()),
     sa_target_examine = c_return 0, sa_gdb_and_log_events = c_return (), sa_add_service = (\<lambda>_. c_return 0),
     sa_socket = True, sa_connect = (\<lambda>_. True), sa_teardown = c_return ()\<rparr>"

definition sample_config :: OpenOcdConfig where
  "sample_config = \<lparr>oc_script_search_dirs = [''scripts''], oc_config_files = [''board.cfg''], oc_raw_commands = [],
     oc_log_file_path = ''openocd.log'', oc_debug_level = 2, oc_init_at_startup = True, oc_gdb_port = ''3333'',
     oc_tcl_port = ''disabled'', oc_telnet_port = ''disabled'', oc_wakeup_port = ''6600'', oc_load_image = None\<rparr>"

definition sample_process :: "(nat \<Rightarrow> string option) process" where
  "sample_process = \<lparr>ps_instance_alive = False, ps_log_open = False, ps_context = False, ps_worker = False,
     ps_jmp = \<lparr>js_buf = 0, js_armed = False\<rparr>,
     ps_impl = \<lparr>im_lib = (\<lambda>_. None), im_trace_callbacks = [], im_target_state_callback = None\<rparr>\<rparr>"


end
