(* ===== verification/Lldb_Utils.thy ===== *)
theory Lldb_Utils
  imports Breakpoints
begin

unbundle bit_operations_syntax

text \<open>
  \<open>core/src/lldb_utils\<close>: running lists of LLDB commands, the numbers that name a frame for the client, and
  the choice between source and disassembly.  LLDB's command interpreter and file system are parameters.
\<close>

section \<open>Lists of commands\<close>

record command_result =
  cr_succeeded :: bool
  cr_output :: string
  cr_error :: string

type_synonym 'w interpreter = "string \<Rightarrow> 'w \<Rightarrow> command_result \<times> 'w"

text \<open>Leading question marks make a command quiet unless it fails, exclamation marks make it required.\<close>

fun parse_directives :: "string \<Rightarrow> bool \<Rightarrow> bool \<Rightarrow> string \<times> bool \<times> bool" where
  "parse_directives [] quiet_on_success check_error = ([], quiet_on_success, check_error)"
| "parse_directives (c # command) quiet_on_success check_error =
     (if c = CHR ''?'' then parse_directives command True check_error
      else if c = CHR ''!'' then parse_directives command quiet_on_success True
      else (c # command, quiet_on_success, check_error))"

definition command_of :: "bool \<Rightarrow> string \<Rightarrow> string \<times> bool \<times> bool" where
  "command_of directives command = (if directives then parse_directives command False False else (command, False, False))"

abbreviation nl :: char where "nl \<equiv> CHR 0x0A"

definition prompt_string :: "string option \<Rightarrow> string" where
  "prompt_string setting = (case setting of Some (c # p) \<Rightarrow> c # p | _ \<Rightarrow> ''(lldb) '')"

definition printed_command :: "string \<Rightarrow> string \<Rightarrow> bool \<Rightarrow> bool \<Rightarrow> string \<Rightarrow> command_result \<Rightarrow> string" where
  "printed_command prefix prompt echo_commands did_print_prefix command result =
     (if \<not> did_print_prefix \<and> prefix \<noteq> [] then prefix @ [nl] else []) @
     (if echo_commands then prompt @ command @ [nl] else []) @ cr_output result @ cr_error result"

fun run_commands ::
  "'w interpreter \<Rightarrow> string \<Rightarrow> string \<Rightarrow> bool \<Rightarrow> bool \<Rightarrow> string list \<Rightarrow> bool \<Rightarrow> string \<Rightarrow> 'w \<Rightarrow> bool \<times> string \<times> 'w" where
  "run_commands interp prefix prompt directives echo_commands [] did_print_prefix strm w = (True, strm, w)"
| "run_commands interp prefix prompt directives echo_commands (c # commands) did_print_prefix strm w =
     (let (command, quiet_on_success, check_error) = command_of directives c;
          (result, w) = interp command w;
          got_error = (\<not> cr_succeeded result);
          shown = (if quiet_on_success then got_error else True);
          strm = (if shown then strm @ printed_command prefix prompt echo_commands did_print_prefix command result else strm);
          did_print_prefix = (did_print_prefix \<or> shown \<and> prefix \<noteq> [])
      in if check_error \<and> got_error then (False, strm, w)
         else run_commands interp prefix prompt directives echo_commands commands did_print_prefix strm w)"

text \<open>The answer is whether a required command failed, and what is to be printed.\<close>

definition RunLLDBCommands ::
  "'w interpreter \<Rightarrow> string option \<Rightarrow> bool \<Rightarrow> bool \<Rightarrow> string \<Rightarrow> string list \<Rightarrow> 'w \<Rightarrow> bool \<times> string \<times> 'w" where
  "RunLLDBCommands interp setting directives echo_commands prefix commands w =
     (let prompt = (if echo_commands then prompt_string setting else []);
          (ok, s, w) = run_commands interp prefix prompt directives echo_commands commands False [] w
      in (\<not> ok, s, w))"

text \<open>What the interpreter is asked to run, in order.\<close>

definition run_through :: "'w interpreter \<Rightarrow> bool \<Rightarrow> string list \<Rightarrow> 'w \<Rightarrow> 'w" where
  "run_through interp directives commands w = fold (\<lambda>c w. snd (interp (fst (command_of directives c)) w)) commands w"

definition required_fails :: "'w interpreter \<Rightarrow> bool \<Rightarrow> string \<Rightarrow> 'w \<Rightarrow> bool" where
  "required_fails interp directives c w \<longleftrightarrow>
     snd (snd (command_of directives c)) \<and> \<not> cr_succeeded (fst (interp (fst (command_of directives c)) w))"

lemma run_commands_Cons:
  "\<exists>strm' d'. run_commands interp prefix prompt directives echo (c # cs) d strm w =
     (if required_fails interp directives c w then (False, strm', run_through interp directives [c] w)
      else run_commands interp prefix prompt directives echo cs d' strm' (run_through interp directives [c] w))"
  by (auto simp: required_fails_def run_through_def Let_def split_beta)

lemma run_commands_prefix:
  "\<exists>n strm'. n \<le> length cs \<and>
     run_commands interp prefix prompt directives echo cs d strm w =
       (n = length cs \<and> (\<forall>i < n. \<not> required_fails interp directives (cs ! i) (run_through interp directives (take i cs) w)),
        strm', run_through interp directives (take n cs) w) \<and>
     (\<forall>i < n. required_fails interp directives (cs ! i) (run_through interp directives (take i cs) w) \<longrightarrow> Suc i = n) \<and>
     (n < length cs \<longrightarrow> (\<exists>m. n = Suc m \<and> required_fails interp directives (cs ! m) (run_through interp directives (take m cs) w)))"
proof (induction cs arbitrary: d strm w)
  case Nil
  then show ?case by (simp add: run_through_def)
next
  case (Cons c cs)
  obtain strm1 d1 where s: "run_commands interp prefix prompt directives echo (c # cs) d strm w =
     (if required_fails interp directives c w then (False, strm1, run_through interp directives [c] w)
      else run_commands interp prefix prompt directives echo cs d1 strm1 (run_through interp directives [c] w))"
    using run_commands_Cons [of interp prefix prompt directives echo c cs d strm w] by (elim exE)
  have cons: "run_through interp directives (c # xs) w = run_through interp directives xs (run_through interp directives [c] w)" for xs
    by (simp add: run_through_def)
  have nil: "run_through interp directives [] w = w" by (simp add: run_through_def)
  show ?case
  proof (cases "required_fails interp directives c w")
    case True
    show ?thesis by (rule exI [of _ 1]) (auto simp: s True nil simp del: run_commands.simps)
  next
    case False
    obtain n strm' where ih: "n \<le> length cs"
      "run_commands interp prefix prompt directives echo cs d1 strm1 (run_through interp directives [c] w) =
        (n = length cs \<and> (\<forall>i < n. \<not> required_fails interp directives (cs ! i)
           (run_through interp directives (take i cs) (run_through interp directives [c] w))),
         strm', run_through interp directives (take n cs) (run_through interp directives [c] w))"
      "\<forall>i < n. required_fails interp directives (cs ! i)
         (run_through interp directives (take i cs) (run_through interp directives [c] w)) \<longrightarrow> Suc i = n"
      "n < length cs \<longrightarrow> (\<exists>m. n = Suc m \<and> required_fails interp directives (cs ! m)
         (run_through interp directives (take m cs) (run_through interp directives [c] w)))"
      using Cons.IH [of d1 strm1 "run_through interp directives [c] w"] by blast
    have all: "(\<forall>i < Suc n. P i) \<longleftrightarrow> P 0 \<and> (\<forall>i < n. P (Suc i))" for P
      using less_Suc_eq_0_disj by auto
    have "n < length cs \<longrightarrow> required_fails interp directives ((c # cs) ! n) (run_through interp directives (take n (c # cs)) w)"
      using ih(4) by (auto simp: cons [of "take _ _"])
    then show ?thesis
      apply (intro exI [of _ "Suc n"] exI [of _ strm'])
      using ih(1-3) by (simp add: s False all cons [of "take _ _"] nil del: run_commands.simps)
  qed
qed

text \<open>Commands run in order and stop after the first required one that fails; failure is reported exactly then.\<close>

lemma RunLLDBCommands_stops_at_required:
  assumes "RunLLDBCommands interp setting directives echo prefix cs w = (failed, s, w')"
  obtains n where "n \<le> length cs" "w' = run_through interp directives (take n cs) w"
    "failed \<longleftrightarrow> (\<exists>m. n = Suc m \<and> required_fails interp directives (cs ! m) (run_through interp directives (take m cs) w))"
    "failed \<or> n = length cs"
proof -
  obtain n strm' where n: "n \<le> length cs"
     "run_commands interp prefix (if echo then prompt_string setting else []) directives echo cs False [] w =
       (n = length cs \<and> (\<forall>i < n. \<not> required_fails interp directives (cs ! i) (run_through interp directives (take i cs) w)),
        strm', run_through interp directives (take n cs) w)"
     "\<forall>i < n. required_fails interp directives (cs ! i) (run_through interp directives (take i cs) w) \<longrightarrow> Suc i = n"
     "n < length cs \<longrightarrow> (\<exists>m. n = Suc m \<and> required_fails interp directives (cs ! m) (run_through interp directives (take m cs) w))"
    using run_commands_prefix [of cs interp prefix _ directives echo False "[]" w] by blast
  have f: "failed \<longleftrightarrow> \<not> (n = length cs \<and> (\<forall>i < n. \<not> required_fails interp directives (cs ! i) (run_through interp directives (take i cs) w)))"
    and w: "w' = run_through interp directives (take n cs) w"
    using assms n(2) by (auto simp: RunLLDBCommands_def Let_def)
  have "failed \<longleftrightarrow> (\<exists>m. n = Suc m \<and> required_fails interp directives (cs ! m) (run_through interp directives (take m cs) w))"
    using f n(1, 3, 4) by (metis le_neq_implies_less lessI)
  moreover have "failed \<or> n = length cs" using f by simp
  ultimately show ?thesis using n(1) w that by blast
qed

section \<open>Frames\<close>

definition MakeDAPFrameID :: "u32 \<Rightarrow> u32 \<Rightarrow> u64" where
  "MakeDAPFrameID thread_index frame_id = push_bit 19 (ucast thread_index) OR ucast frame_id"

definition GetLLDBThreadIndexID :: "u64 \<Rightarrow> u32" where
  "GetLLDBThreadIndexID dap_frame_id = ucast (drop_bit 19 dap_frame_id)"

definition GetLLDBFrameID :: "u64 \<Rightarrow> u32" where
  "GetLLDBFrameID dap_frame_id = ucast (dap_frame_id AND ucast (push_bit 19 (1 :: u32) - 1))"

abbreviation LLDB_DAP_INVALID_FRAME_ID :: u64 where "LLDB_DAP_INVALID_FRAME_ID \<equiv> - 1"

lemma frame_mask: "(ucast (push_bit 19 (1 :: u32) - 1) :: u64) = mask 19"
  by (simp add: mask_eq_exp_minus_1 push_bit_eq_mult)

text \<open>The number of a frame is never the invalid one, names its thread and its frame, and does so exactly for
  the first \<open>2\<^sup>1\<^sup>9\<close> frames of a thread.\<close>

lemma MakeDAPFrameID_reads_back:
  "(GetLLDBThreadIndexID (MakeDAPFrameID i f) = i \<and> GetLLDBFrameID (MakeDAPFrameID i f) = f) \<longleftrightarrow> unat f < 2 ^ 19"
  "MakeDAPFrameID i f \<noteq> LLDB_DAP_INVALID_FRAME_ID"
proof -
  have low: "unat f < 2 ^ 19 \<longleftrightarrow> (\<forall>n. bit f n \<longrightarrow> n < 19)"
  proof
    assume "unat f < 2 ^ 19"
    then have "take_bit 19 (unat f) = unat f" by (simp add: take_bit_nat_eq_self)
    then have "bit (unat f) n \<longrightarrow> n < 19" for n by (metis bit_take_bit_iff)
    then show "\<forall>n. bit f n \<longrightarrow> n < 19" by (simp add: bit_simps)
  next
    assume "\<forall>n. bit f n \<longrightarrow> n < 19"
    then have "take_bit 19 f = f" by (auto simp: bit_eq_iff bit_simps)
    then have "take_bit 19 (unat f) = unat f" by (metis unsigned_take_bit_eq)
    then show "unat f < 2 ^ 19" by (metis take_bit_nat_less_exp)
  qed
  have b32: "bit (w :: u32) n \<Longrightarrow> n < 32" for w n by (rule bit_u32_lt)
  have id: "GetLLDBThreadIndexID (MakeDAPFrameID i f) = i" if "\<forall>n. bit f n \<longrightarrow> n < 19"
    unfolding GetLLDBThreadIndexID_def MakeDAPFrameID_def using that b32
    by (fastforce simp: bit_eq_iff bit_simps)
  have fr: "GetLLDBFrameID (MakeDAPFrameID i f) = f \<longleftrightarrow> (\<forall>n. bit f n \<longrightarrow> n < 19)"
    unfolding GetLLDBFrameID_def MakeDAPFrameID_def frame_mask using b32
    by (fastforce simp: bit_eq_iff bit_simps)
  show "(GetLLDBThreadIndexID (MakeDAPFrameID i f) = i \<and> GetLLDBFrameID (MakeDAPFrameID i f) = f) \<longleftrightarrow> unat f < 2 ^ 19"
    using id fr low by blast
  have "\<not> bit (MakeDAPFrameID i f) 63" unfolding MakeDAPFrameID_def using b32 [of i 44] b32 [of f 63]
    by (auto simp: bit_simps)
  then show "MakeDAPFrameID i f \<noteq> LLDB_DAP_INVALID_FRAME_ID" by (auto simp: bit_simps)
qed

section \<open>Source or disassembly\<close>

record file_spec =
  fs_directory :: "string option"
  fs_filename :: "string option"
  fs_path :: string

record line_entry =
  ln_file :: "file_spec option"
  ln_line :: u32
  ln_column :: u32

datatype StopDisassemblyType = eStopDisassemblyTypeNever | eStopDisassemblyTypeNoDebugInfo
  | eStopDisassemblyTypeNoSource | eStopDisassemblyTypeAlways

definition GetStopDisassemblyDisplay :: "string \<Rightarrow> StopDisassemblyType" where
  "GetStopDisassemblyDisplay setting =
     (if setting = ''never'' then eStopDisassemblyTypeNever
      else if setting = ''always'' then eStopDisassemblyTypeAlways
      else if setting = ''no-source'' then eStopDisassemblyTypeNoSource
      else eStopDisassemblyTypeNoDebugInfo)"

definition ShouldDisplayAssemblySource :: "(file_spec \<Rightarrow> bool) \<Rightarrow> line_entry \<Rightarrow> StopDisassemblyType \<Rightarrow> bool" where
  "ShouldDisplayAssemblySource exists entry display =
     (if display = eStopDisassemblyTypeNever then False
      else if display = eStopDisassemblyTypeAlways then True
      else (case ln_file entry of
              None \<Rightarrow> True
            | Some file \<Rightarrow>
                if ln_line entry = 0 \<or> ln_line entry = LLDB_INVALID_LINE_NUMBER then True
                else display = eStopDisassemblyTypeNoSource \<and> \<not> exists file))"

definition DisplayAssemblySource :: "(file_spec \<Rightarrow> bool) \<Rightarrow> string \<Rightarrow> line_entry \<Rightarrow> bool" where
  "DisplayAssemblySource exists setting entry = ShouldDisplayAssemblySource exists entry (GetStopDisassemblyDisplay setting)"

text \<open>The call site of the outermost inlined block around an address, the blocks given from the inside out,
  replaces what it knows of the line entry.\<close>

definition GetLineEntryForAddress :: "line_entry list \<Rightarrow> line_entry \<Rightarrow> line_entry" where
  "GetLineEntryForAddress inlined_blocks entry =
     (if inlined_blocks = [] then entry
      else
        (let call_site = last inlined_blocks in
         if ln_file call_site = None then entry
         else
           (let entry = entry\<lparr>ln_file := ln_file call_site\<rparr>;
                entry = (if ln_line call_site \<noteq> LLDB_INVALID_LINE_NUMBER then entry\<lparr>ln_line := ln_line call_site\<rparr> else entry)
            in if ln_column call_site \<noteq> LLDB_INVALID_COLUMN_NUMBER then entry\<lparr>ln_column := ln_column call_site\<rparr> else entry)))"

text \<open>The path is read into a string of the length of its directory and name and one more; what is not written
  stays zero.\<close>

definition GetSBFileSpecPath :: "file_spec \<Rightarrow> string" where
  "GetSBFileSpecPath file =
     (let n = length (case fs_directory file of None \<Rightarrow> [] | Some d \<Rightarrow> d) +
              length (case fs_filename file of None \<Rightarrow> [] | Some f \<Rightarrow> f) + 1;
          written = take n (fs_path file)
      in written @ replicate (n - length written) (CHR 0x00))"

text \<open>The resolved path, if there is one, is a parameter; so is what 4095 characters hold of the path.\<close>

definition CreateSource :: "(string \<Rightarrow> string option) \<Rightarrow> file_spec option \<Rightarrow> Source option" where
  "CreateSource resolve file =
     (case file of
        None \<Rightarrow> None
      | Some f \<Rightarrow>
          (let path = take 4095 (fs_path f)
           in Some \<lparr>src_name = fs_filename f, src_path = (if path = [] then None else resolve path),
                    src_sourceReference = None, src_adapterData = None\<rparr>))"

definition IsAssemblySource :: "Source \<Rightarrow> bool" where
  "IsAssemblySource source = (0 <s (case src_sourceReference source of None \<Rightarrow> 0 | Some r \<Rightarrow> r))"

text \<open>A directory and a name joined by a slash are read back; a name without a directory gets a zero character
  behind it.\<close>

lemma GetSBFileSpecPath_joined:
  "fs_directory f = Some d \<Longrightarrow> fs_filename f = Some n \<Longrightarrow> fs_path f = d @ CHR ''/'' # n \<Longrightarrow> GetSBFileSpecPath f = fs_path f"
  "fs_directory f = None \<Longrightarrow> fs_filename f = Some n \<Longrightarrow> fs_path f = n \<Longrightarrow> GetSBFileSpecPath f = n @ [CHR 0x00]"
  by (simp_all add: GetSBFileSpecPath_def)

end
