(* ===== verification/Module_Manager.thy ===== *)
theory Module_Manager
  imports Lldb_Utils Memory_Manager "HOL-Library.Char_ord"
begin

unbundle bit_operations_syntax

text \<open>
  \<open>core/components/module_manager\<close>, with the part of \<open>execution_controller\<close> that follows the loading and
  unloading of modules: descriptions of modules and their symbols, the set of modules the client knows, and
  the numbers by which the client asks for disassembled sources.  What LLDB knows of a module is a record.
\<close>

section \<open>Modules as LLDB has them\<close>

datatype SBSection = SBSection (section_name: string) (section_size: u64) (sub_sections: "SBSection list")

record SBSymbol =
  sy_valid :: bool
  sy_id :: u32
  sy_type :: nat
  sy_debug :: bool
  sy_synthetic :: bool
  sy_external :: bool
  sy_address :: "(u64 \<times> u64) option"
  sy_size :: u64
  sy_name :: "string option"

record SBModule =
  md_valid :: bool
  md_uuid :: string
  md_file :: "file_spec option"
  md_compile_units :: "string list"
  md_sections :: "SBSection list"
  md_symbol_file :: "file_spec option"
  md_header_address :: u64
  md_version :: "u32 list"
  md_symbols :: "SBSymbol list"

definition starts_with :: "string \<Rightarrow> string \<Rightarrow> bool" where
  "starts_with s p \<longleftrightarrow> take (length p) s = p"

definition is_debug_section :: "string \<Rightarrow> bool" where
  "is_debug_section name \<longleftrightarrow> starts_with name ''.debug'' \<or> starts_with name ''__debug'' \<or>
     starts_with name ''.apple'' \<or> starts_with name ''__apple''"

fun GetDebugInfoSizeInSection :: "SBSection \<Rightarrow> u64" where
  "GetDebugInfoSizeInSection (SBSection name n subs) =
     (if is_debug_section name then n else 0) + sum_list (map GetDebugInfoSizeInSection subs)"

definition GetDebugInfoSize :: "SBModule \<Rightarrow> u64" where
  "GetDebugInfoSize m = sum_list (map GetDebugInfoSizeInSection (md_sections m))"

section \<open>Identifiers\<close>

definition hex_value :: "char \<Rightarrow> nat option" where
  "hex_value c =
     (if CHR ''0'' \<le> c \<and> c \<le> CHR ''9'' then Some (of_char c - of_char (CHR ''0''))
      else if CHR ''a'' \<le> c \<and> c \<le> CHR ''f'' then Some (of_char c - of_char (CHR ''a'') + 10)
      else if CHR ''A'' \<le> c \<and> c \<le> CHR ''F'' then Some (of_char c - of_char (CHR ''A'') + 10)
      else None)"

fun DecodeUUIDBytesFromString :: "string \<Rightarrow> u8 list \<Rightarrow> string \<times> u8 list" where
  "DecodeUUIDBytesFromString [] uuid_bytes = ([], uuid_bytes)"
| "DecodeUUIDBytesFromString (c # str) uuid_bytes =
     (if c = CHR ''-'' then DecodeUUIDBytesFromString str uuid_bytes
      else
        (case str of
           [] \<Rightarrow> (c # str, uuid_bytes)
         | d # rest \<Rightarrow>
             (case (hex_value c, hex_value d) of
                (Some hi, Some lo) \<Rightarrow>
                  DecodeUUIDBytesFromString rest (uuid_bytes @ [word_of_nat (push_bit 4 hi OR lo)])
              | _ \<Rightarrow> (c # str, uuid_bytes))))"

text \<open>The text of an identifier: two hexadecimal digits for each byte, with any dashes between bytes.\<close>

inductive uuid_text :: "string \<Rightarrow> u8 list \<Rightarrow> bool" where
  none: "uuid_text [] []"
| dash: "uuid_text s bs \<Longrightarrow> uuid_text (CHR ''-'' # s) bs"
| pair: "c \<noteq> CHR ''-'' \<Longrightarrow> hex_value c = Some hi \<Longrightarrow> hex_value d = Some lo \<Longrightarrow> uuid_text s bs \<Longrightarrow>
    uuid_text (c # d # s) (word_of_nat (16 * hi + lo) # bs)"

lemma hex_value_bound: "hex_value c = Some n \<Longrightarrow> n < 16"
proof -
  assume h: "hex_value c = Some n"
  have ord: "c \<le> d \<longleftrightarrow> (of_char c :: nat) \<le> of_char d" for d by (simp add: less_eq_char_def)
  show "n < 16" using h by (auto simp: hex_value_def ord split: if_splits)
qed

lemma hex_pair: "hi < 16 \<Longrightarrow> lo < 16 \<Longrightarrow> (push_bit 4 hi OR lo :: nat) = 16 * hi + lo"
proof -
  assume "lo < 16"
  then have lo: "take_bit 4 lo = lo" by (simp add: take_bit_nat_eq_self)
  have "push_bit 4 hi AND take_bit 4 lo = (0 :: nat)" by (rule bit_eqI) (auto simp: bit_simps)
  then show "push_bit 4 hi OR lo = 16 * hi + lo"
    by (simp add: disjunctive_add_eq_or [symmetric] push_bit_eq_mult lo)
qed

lemma decode_uuid_sound:
  "DecodeUUIDBytesFromString s acc = ([], bs) \<Longrightarrow> \<exists>cs. bs = acc @ cs \<and> uuid_text s cs"
proof (induction s acc rule: DecodeUUIDBytesFromString.induct)
  case (1 acc)
  then show ?case by (auto intro: uuid_text.none)
next
  case (2 c str acc)
  show ?case
  proof (cases "c = CHR ''-''")
    case True
    then show ?thesis using 2 by (auto intro: uuid_text.dash)
  next
    case False
    with 2(3) obtain d rest hi lo where s: "str = d # rest" "hex_value c = Some hi" "hex_value d = Some lo"
      by (auto split: list.splits option.splits)
    then have "DecodeUUIDBytesFromString rest (acc @ [word_of_nat (push_bit 4 hi OR lo)]) = ([], bs)"
      using 2(3) False by simp
    then obtain cs where "bs = (acc @ [word_of_nat (push_bit 4 hi OR lo)]) @ cs" "uuid_text rest cs"
      using 2(2) [OF False s(1) refl s(2, 3)] by blast
    then show ?thesis using s False using uuid_text.pair [OF False s(2, 3)] by (auto simp: hex_pair hex_value_bound)
  qed
qed

lemma decode_uuid_complete: "uuid_text s cs \<Longrightarrow> DecodeUUIDBytesFromString s acc = ([], acc @ cs)"
  by (induction arbitrary: acc rule: uuid_text.induct) (simp_all add: hex_pair hex_value_bound)

text \<open>An identifier is accepted exactly when it is such a text, and then its bytes are the ones it spells.\<close>

lemma DecodeUUID_exact: "DecodeUUIDBytesFromString s [] = ([], bs) \<longleftrightarrow> uuid_text s bs"
  using decode_uuid_sound [of s "[]" bs] decode_uuid_complete [of s bs "[]"] by auto

section \<open>Descriptions\<close>

record Module =
  mo_id :: string
  mo_name :: string
  mo_path :: string
  mo_isOptimized :: bool
  mo_isUserCode :: bool
  mo_version :: string
  mo_symbolStatus :: string
  mo_symbolFilePath :: string
  mo_dateTimeStamp :: string
  mo_addressRange :: string
  mo_debugInfoSizeBytes :: u64

definition new_Module :: Module where
  "new_Module = \<lparr>mo_id = [], mo_name = [], mo_path = [], mo_isOptimized = False, mo_isUserCode = False, mo_version = [],
     mo_symbolStatus = [], mo_symbolFilePath = [], mo_dateTimeStamp = [], mo_addressRange = [], mo_debugInfoSizeBytes = 0\<rparr>"

fun lower_hex :: "nat \<Rightarrow> string" where
  "lower_hex n = (if n < 16 then [''0123456789abcdef'' ! n] else lower_hex (n div 16) @ [''0123456789abcdef'' ! (n mod 16)])"

declare lower_hex.simps [simp del]

fun joined :: "string list \<Rightarrow> string" where
  "joined [] = []"
| "joined [s] = s"
| "joined (s # ss) = s @ CHR ''.'' # joined ss"

text \<open>The target has to be valid; a module without an identifier has no description.\<close>

definition CreateModuleDescription :: "bool \<Rightarrow> SBModule \<Rightarrow> bool \<Rightarrow> Module option" where
  "CreateModuleDescription target_valid m id_only =
     (if \<not> target_valid \<or> \<not> md_valid m then None
      else if md_uuid m = [] then None
      else
        (let p = new_Module\<lparr>mo_id := md_uuid m\<rparr> in
         if id_only then Some p
         else
           (let p = (case md_file m of
                       None \<Rightarrow> p
                     | Some f \<Rightarrow> p\<lparr>mo_name := (case fs_filename f of None \<Rightarrow> [] | Some n \<Rightarrow> n), mo_path := fs_path f\<rparr>);
                p = (if md_compile_units m \<noteq> []
                     then (let p = p\<lparr>mo_symbolStatus := ''Symbols loaded.'', mo_debugInfoSizeBytes := GetDebugInfoSize m\<rparr>
                           in case md_symbol_file m of None \<Rightarrow> p | Some f \<Rightarrow> p\<lparr>mo_symbolFilePath := fs_path f\<rparr>)
                     else p\<lparr>mo_symbolStatus := ''Symbols not found.''\<rparr>);
                p = (if md_header_address m \<noteq> LLDB_INVALID_ADDRESS
                     then p\<lparr>mo_addressRange := ''0x'' @ lower_hex (unat (md_header_address m))\<rparr> else p);
                version_nums = take 3 (md_version m)
            in if version_nums \<noteq> []
               then Some (p\<lparr>mo_version := joined (map (\<lambda>v. dec_string (unat v)) version_nums)\<rparr>)
               else Some p)))"

lemma CreateModuleDescription_id: "CreateModuleDescription v m b = Some p \<Longrightarrow> mo_id p = md_uuid m \<and> md_uuid m \<noteq> []"
  by (auto simp: CreateModuleDescription_def new_Module_def Let_def split: if_splits option.splits)

text \<open>Only the identifier is filled in for a module that goes away.\<close>

lemma CreateModuleDescription_id_only:
  "CreateModuleDescription v m True = Some p \<Longrightarrow> p = new_Module\<lparr>mo_id := md_uuid m\<rparr>"
  by (auto simp: CreateModuleDescription_def Let_def split: if_splits)

section \<open>Requests\<close>

text \<open>The compile units of the first module with the identifier.  Without arguments the code reads a value that
  is not there.\<close>

definition GetCompileUnitsRequest :: "SBModule list \<Rightarrow> string option \<Rightarrow> string list option" where
  "GetCompileUnitsRequest target_modules args =
     (case args of
        None \<Rightarrow> None
      | Some moduleId \<Rightarrow>
          Some (case List.find (\<lambda>m. md_uuid m = moduleId) target_modules of None \<Rightarrow> [] | Some m \<Rightarrow> md_compile_units m))"

definition GetModulesRequest ::
  "bool \<Rightarrow> SBModule list \<Rightarrow> string set \<Rightarrow> (Module list \<times> nat) \<times> string set" where
  "GetModulesRequest target_valid target_modules modules =
     (let found = filter (\<lambda>p. mo_id p \<noteq> []) (List.map_filter (\<lambda>m. CreateModuleDescription target_valid m False) target_modules)
      in ((found, length target_modules), modules \<union> mo_id ` set found))"

record ModuleSymbolsArguments =
  ms_moduleId :: string
  ms_moduleName :: string
  ms_startIndex :: "u32 option"
  ms_count :: "u32 option"

record SymbolInfo =
  si_id :: u32
  si_type :: nat
  si_isDebug :: bool
  si_isSynthetic :: bool
  si_isExternal :: bool
  si_fileAddress :: "u64 option"
  si_loadAddress :: "u64 option"
  si_size :: u64
  si_name :: string

definition dap_symbol :: "SBSymbol \<Rightarrow> SymbolInfo" where
  "dap_symbol s =
     \<lparr>si_id = sy_id s, si_type = sy_type s, si_isDebug = sy_debug s, si_isSynthetic = sy_synthetic s, si_isExternal = sy_external s,
      si_fileAddress = (case sy_address s of None \<Rightarrow> None | Some (f, _) \<Rightarrow> if f \<noteq> LLDB_INVALID_ADDRESS then Some f else None),
      si_loadAddress = (case sy_address s of None \<Rightarrow> None | Some (_, l) \<Rightarrow> if l \<noteq> LLDB_INVALID_ADDRESS then Some l else None),
      si_size = sy_size s, si_name = (case sy_name s of None \<Rightarrow> [] | Some n \<Rightarrow> n)\<rparr>"

fun symbol_loop :: "SBSymbol list \<Rightarrow> nat list \<Rightarrow> SymbolInfo list" where
  "symbol_loop symbols [] = []"
| "symbol_loop symbols (i # is) =
     (if sy_valid (symbols ! i) then dap_symbol (symbols ! i) # symbol_loop symbols is else symbol_loop symbols is)"

text \<open>A number of symbols that is not given is that of the module, in 32 bits.  How a module is found by its
  identifier and its name, and whether there is one or the other, is LLDB's.\<close>

definition GetModuleSymbolsRequest ::
  "(u8 list option \<times> string option \<Rightarrow> SBModule option) \<Rightarrow> ModuleSymbolsArguments \<Rightarrow> dap_error + SymbolInfo list" where
  "GetModuleSymbolsRequest FindModule args =
     (let uuid = (if ms_moduleId args \<noteq> [] then Some (DecodeUUIDBytesFromString (ms_moduleId args) []) else None) in
      case uuid of
        Some (c # rest, _) \<Rightarrow> Inl (DAPError ''invalid module ID'')
      | _ \<Rightarrow>
          (let bytes = map_option snd uuid;
               file = (if ms_moduleName args \<noteq> [] then Some (ms_moduleName args) else None)
           in if (bytes = None \<or> bytes = Some []) \<and> file = None then Inr []
              else
                (case FindModule (bytes, file) of
                   None \<Rightarrow> Inl (DAPError ''module not found'')
                 | Some m \<Rightarrow>
                     (let num_symbols = length (md_symbols m);
                          start_index = (case ms_startIndex args of None \<Rightarrow> 0 | Some i \<Rightarrow> unat i);
                          end_index = min (start_index + unat (case ms_count args of None \<Rightarrow> word_of_nat num_symbols :: u32 | Some n \<Rightarrow> n)) num_symbols
                      in Inr (symbol_loop (md_symbols m) [start_index ..< end_index])))))"

lemma symbol_loop_filter: "symbol_loop symbols is = map dap_symbol (filter sy_valid (map ((!) symbols) is))"
  by (induction "is") simp_all

text \<open>A page of symbols is the valid ones among the positions it spans.\<close>

lemma GetModuleSymbols_page:
  assumes "FindModule (map_option snd (if ms_moduleId args \<noteq> [] then Some (DecodeUUIDBytesFromString (ms_moduleId args) []) else None),
      if ms_moduleName args \<noteq> [] then Some (ms_moduleName args) else None) = Some m"
    and "ms_moduleName args \<noteq> []" and "ms_moduleId args = []" and "ms_startIndex args = Some i" and "ms_count args = Some n"
  shows "GetModuleSymbolsRequest FindModule args = Inr (map dap_symbol (filter sy_valid (take (unat n) (drop (unat i) (md_symbols m)))))"
proof -
  have "map ((!) xs) [a ..< min (a + k) (length xs)] = take k (drop a xs)" for xs :: "SBSymbol list" and a k
    by (rule nth_equalityI) (auto simp: min_def split: if_splits)
  then show ?thesis using assms by (simp add: GetModuleSymbolsRequest_def symbol_loop_filter Let_def)
qed

section \<open>Numbers for disassembled sources\<close>

definition CreateSourceReference :: "u64 \<Rightarrow> u64 list \<Rightarrow> s32 \<times> u64 list" where
  "CreateSourceReference address references =
     (let n = length (takeWhile (\<lambda>a. a \<noteq> address) references) in
      if n < length references then (word_of_nat (n + 1), references)
      else (word_of_nat (length references + 1), references @ [address]))"

definition GetSourceReferenceAddress :: "u64 list \<Rightarrow> s32 \<Rightarrow> u64 option" where
  "GetSourceReferenceAddress references reference =
     (if reference \<le>s 0 then None
      else if unat reference > length references then None
      else Some (references ! (unat reference - 1)))"

lemma small_reference: "0 < n \<Longrightarrow> n < 2 ^ 31 \<Longrightarrow> \<not> (word_of_nat n :: s32) \<le>s 0 \<and> unat (word_of_nat n :: s32) = n"
proof -
  assume n: "0 < n" "n < 2 ^ 31"
  have "signed_take_bit 31 (int n) = int n" using n by (intro signed_take_bit_int_eq_self) auto
  then have "sint (word_of_nat n :: s32) = int n" by (simp add: signed_of_nat)
  moreover have "unat (word_of_nat n :: s32) = n" using n by (simp add: unsigned_of_nat take_bit_nat_eq_self)
  ultimately show ?thesis using n by (simp add: word_sle_eq)
qed

lemma positive_reference: "\<not> (q :: s32) \<le>s 0 \<Longrightarrow> 0 < unat q"
  by (cases "q = 0") (simp_all add: unat_gt_0)

lemma takeWhile_finds: "length (takeWhile (\<lambda>a. a \<noteq> x) xs) < length xs \<longleftrightarrow> x \<in> set xs"
  by (induction xs) auto

text \<open>A number reads back its address; the numbers given out before keep theirs; no address gets two numbers.\<close>

lemma CreateSourceReference_reads_back:
  assumes "CreateSourceReference address references = (r, references')" and "length references < 2 ^ 31 - 1"
  shows "GetSourceReferenceAddress references' r = Some address"
    and "GetSourceReferenceAddress references q = Some a \<Longrightarrow> GetSourceReferenceAddress references' q = Some a"
    and "distinct references \<Longrightarrow> distinct references'" and "length references' \<le> length references + 1"
proof -
  define n where "n = length (takeWhile (\<lambda>a. a \<noteq> address) references)"
  have n: "n < length references \<Longrightarrow> references ! n = address" unfolding n_def using nth_length_takeWhile [of "\<lambda>a. a \<noteq> address" references] by simp
  have mem: "address \<in> set references \<longleftrightarrow> n < length references" unfolding n_def by (simp add: takeWhile_finds)
  have c: "(r, references') = (if n < length references then (word_of_nat (n + 1), references)
      else (word_of_nat (length references + 1), references @ [address]))"
    using assms(1) [symmetric] unfolding CreateSourceReference_def Let_def n_def .
  show "GetSourceReferenceAddress references' r = Some address"
    using c n assms(2) small_reference [of "Suc n"] small_reference [of "Suc (length references)"]
    by (auto simp: GetSourceReferenceAddress_def split: if_splits)
  show "GetSourceReferenceAddress references q = Some a \<Longrightarrow> GetSourceReferenceAddress references' q = Some a"
    using c positive_reference [of q] by (auto simp: GetSourceReferenceAddress_def nth_append split: if_splits)
  show "distinct references \<Longrightarrow> distinct references'" using c mem by (auto split: if_splits)
  show "length references' \<le> length references + 1" using c by (auto split: if_splits)
qed

section \<open>Sources\<close>

text \<open>An address: the start and the name of the symbol it lies in, where it is loaded, and the file of its module.\<close>

record address_info =
  ai_symbol :: "(u64 \<times> string) option"
  ai_load_address :: u64
  ai_module_file :: "file_spec option"

definition GetLoadAddressString :: "u64 \<Rightarrow> string" where
  "GetLoadAddressString addr = (let s = utohexstr_nat (unat addr) in ''0x'' @ replicate (16 - length s) (CHR ''0'') @ s)"

text \<open>The presentation hint of such a source, always the same, is left out.\<close>

definition ResolveAssemblySource :: "address_info \<Rightarrow> u64 list \<Rightarrow> Source option \<times> u64 list" where
  "ResolveAssemblySource address references =
     (let (load_addr, name) = (case ai_symbol address of
            Some (start, name) \<Rightarrow> (start, name)
          | None \<Rightarrow> (ai_load_address address, GetLoadAddressString (ai_load_address address)))
      in if load_addr = LLDB_INVALID_ADDRESS then (None, references)
         else
           (let (reference, references) = CreateSourceReference load_addr references;
                path = (case ai_module_file address of
                          None \<Rightarrow> None
                        | Some file \<Rightarrow>
                            (let path = GetSBFileSpecPath file in if path \<noteq> [] then Some (path @ CHR 0x60 # name) else None))
            in (Some \<lparr>src_name = Some name, src_path = path, src_sourceReference = Some reference, src_adapterData = None\<rparr>,
                references)))"

record source_env =
  se_exists :: "file_spec \<Rightarrow> bool"
  se_setting :: string
  se_resolve :: "string \<Rightarrow> string option"

text \<open>A frame: its line entry and its address, if it is valid.\<close>

definition ResolveSource_frame :: "source_env \<Rightarrow> (line_entry \<times> address_info) option \<Rightarrow> u64 list \<Rightarrow> Source option \<times> u64 list" where
  "ResolveSource_frame env frame references =
     (case frame of
        None \<Rightarrow> (None, references)
      | Some (entry, pc) \<Rightarrow>
          if DisplayAssemblySource (se_exists env) (se_setting env) entry then ResolveAssemblySource pc references
          else (CreateSource (se_resolve env) (ln_file entry), references))"

text \<open>An address: the call sites of the inlined blocks around it, and its line entry.\<close>

definition ResolveSource_address ::
  "source_env \<Rightarrow> line_entry list \<Rightarrow> line_entry \<Rightarrow> bool \<Rightarrow> address_info \<Rightarrow> u64 list \<Rightarrow> Source option \<times> u64 list" where
  "ResolveSource_address env inlined_blocks entry entry_valid address references =
     (let entry = GetLineEntryForAddress inlined_blocks entry in
      if DisplayAssemblySource (se_exists env) (se_setting env) entry then ResolveAssemblySource address references
      else if \<not> entry_valid then (None, references)
      else (CreateSource (se_resolve env) (ln_file entry), references))"

lemma resolved_assembly:
  assumes "ResolveAssemblySource address references = (Some s, references')" and "length references < 2 ^ 31 - 1"
  shows "IsAssemblySource s \<and> (\<exists>r. src_sourceReference s = Some r \<and>
    GetSourceReferenceAddress references' r = Some (case ai_symbol address of Some (start, _) \<Rightarrow> start | None \<Rightarrow> ai_load_address address))"
proof -
  define a where "a = (case ai_symbol address of Some (start, _) \<Rightarrow> start | None \<Rightarrow> ai_load_address address)"
  obtain r refs where c: "CreateSourceReference a references = (r, refs)" by fastforce
  have s: "src_sourceReference s = Some r" "references' = refs"
    using assms(1) c by (auto simp: ResolveAssemblySource_def a_def Let_def split: option.splits if_splits prod.splits)
  have g: "GetSourceReferenceAddress refs r = Some a" by (rule CreateSourceReference_reads_back(1) [OF c assms(2)])
  then have "\<not> r \<le>s 0" by (auto simp: GetSourceReferenceAddress_def split: if_splits)
  then have "0 <s r" by (simp add: word_sle_eq word_sless_alt)
  then show ?thesis using s g by (simp add: IsAssemblySource_def a_def)
qed

text \<open>Without symbols and in a file without a directory, the path of a disassembled source has a zero character in it.\<close>

lemma assembly_path_with_zero:
  "src_path (the (fst (ResolveAssemblySource \<lparr>ai_symbol = Some (0x8000, ''main''), ai_load_address = 0x8004,
       ai_module_file = Some \<lparr>fs_directory = None, fs_filename = Some ''fw'', fs_path = ''fw''\<rparr>\<rparr> []))) =
     Some (''fw'' @ CHR 0x00 # CHR 0x60 # ''main'')"
  by (simp add: ResolveAssemblySource_def CreateSourceReference_def GetSBFileSpecPath_def)

section \<open>Loading and unloading\<close>

datatype module_reason = eReasonNew | eReasonChanged | eReasonRemoved

definition module_step :: "bool \<Rightarrow> bool \<Rightarrow> SBModule \<Rightarrow> (Module \<times> module_reason) list \<times> string set \<Rightarrow> (Module \<times> module_reason) list \<times> string set" where
  "module_step target_valid remove_module m s =
     (let (events, modules) = s in
      case CreateModuleDescription target_valid m remove_module of
        None \<Rightarrow> (events, modules)
      | Some p \<Rightarrow>
          (let module_exists = (mo_id p \<in> modules) in
           if remove_module \<and> module_exists then (events @ [(p, eReasonRemoved)], modules - {mo_id p})
           else if module_exists then (events @ [(p, eReasonChanged)], modules)
           else if \<not> remove_module then (events @ [(p, eReasonNew)], insert (mo_id p) modules)
           else (events, modules)))"

definition HandleModules :: "bool \<Rightarrow> bool \<Rightarrow> SBModule list \<Rightarrow> string set \<Rightarrow> (Module \<times> module_reason) list \<times> string set" where
  "HandleModules target_valid remove_module event_modules modules =
     fold (module_step target_valid remove_module) event_modules ([], modules)"

text \<open>What the client does with what it is told: a list of modules adds to what it knows, an event about a
  new module is about one it does not know, any other about one it knows.\<close>

fun client_knows :: "(Module \<times> module_reason) list \<Rightarrow> string set \<Rightarrow> string set option" where
  "client_knows [] known = Some known"
| "client_knows ((p, reason) # events) known =
     (case reason of
        eReasonNew \<Rightarrow> if mo_id p \<in> known then None else client_knows events (insert (mo_id p) known)
      | eReasonChanged \<Rightarrow> if mo_id p \<in> known then client_knows events known else None
      | eReasonRemoved \<Rightarrow> if mo_id p \<in> known then client_knows events (known - {mo_id p}) else None)"

lemma client_knows_append:
  "client_knows (xs @ ys) known = Option.bind (client_knows xs known) (client_knows ys)"
  by (induction xs known rule: client_knows.induct) (auto split: module_reason.split)

lemma module_step_known:
  "client_knows events known = Some modules \<Longrightarrow> module_step v rm m (events, modules) = (events', modules') \<Longrightarrow>
   client_knows events' known = Some modules'"
  by (auto simp: module_step_def client_knows_append Let_def split: option.splits if_splits)

lemma HandleModules_known:
  assumes "HandleModules v rm ms modules = (events, modules')"
  shows "client_knows events modules = Some modules'"
proof -
  have "client_knows events known = Some modules' \<or> client_knows evs known \<noteq> Some mods"
    if "fold (module_step v rm) ms (evs, mods) = (events, modules')" for evs mods known
    using that
  proof (induction ms arbitrary: evs mods)
    case (Cons m ms)
    obtain evs1 mods1 where s: "module_step v rm m (evs, mods) = (evs1, mods1)" by fastforce
    with Cons.prems have "fold (module_step v rm) ms (evs1, mods1) = (events, modules')" by simp
    then show ?case using Cons.IH module_step_known [OF _ s] by blast
  qed simp
  then show ?thesis using assms by (force simp: HandleModules_def)
qed

section \<open>A session\<close>

text \<open>The client asks for the modules, or LLDB reports that some were loaded, unloaded or changed.\<close>

datatype module_action = ModulesRequest bool "SBModule list" | TargetEvent bool bool "SBModule list"
datatype module_output = Listed "Module list" nat | Told "(Module \<times> module_reason) list"

definition module_act :: "module_action \<Rightarrow> string set \<Rightarrow> module_output \<times> string set" where
  "module_act a modules =
     (case a of
        ModulesRequest v ms \<Rightarrow> (let ((found, n), modules) = GetModulesRequest v ms modules in (Listed found n, modules))
      | TargetEvent v remove_module ms \<Rightarrow>
          (let (events, modules) = HandleModules v remove_module ms modules in (Told events, modules)))"

fun module_session :: "module_action list \<Rightarrow> string set \<Rightarrow> module_output list \<times> string set" where
  "module_session [] modules = ([], modules)"
| "module_session (a # as) modules =
     (let (out, modules) = module_act a modules; (outs, modules) = module_session as modules in (out # outs, modules))"

fun client_view :: "module_output list \<Rightarrow> string set \<Rightarrow> string set option" where
  "client_view [] known = Some known"
| "client_view (Listed ms n # outs) known = client_view outs (known \<union> mo_id ` set ms)"
| "client_view (Told events # outs) known = Option.bind (client_knows events known) (client_view outs)"

text \<open>C27: Whatever modules are loaded, unloaded, changed and listed, in any order, the client is told of a module
  as new exactly when it did not know it, of a change or a removal only when it did, and what it knows in the
  end is the set the manager keeps.\<close>

theorem module_events_consistent:
  "module_session as modules = (outs, modules') \<Longrightarrow> client_view outs modules = Some modules'"
proof (induction as arbitrary: modules outs)
  case (Cons a as)
  obtain out mods where a: "module_act a modules = (out, mods)" by fastforce
  obtain outs1 mods1 where "module_session as mods = (outs1, mods1)" by fastforce
  then have s: "module_session as mods = (outs1, modules')" and o: "outs = out # outs1" using Cons.prems a by simp_all
  have ih: "client_view outs1 mods = Some modules'" by (rule Cons.IH [OF s])
  show ?case
  proof (cases a)
    case (ModulesRequest v ms)
    then show ?thesis using a ih by (auto simp: o module_act_def GetModulesRequest_def Let_def)
  next
    case (TargetEvent v r ms)
    obtain events mods1 where h: "HandleModules v r ms modules = (events, mods1)" by fastforce
    then show ?thesis using a ih HandleModules_known [OF h] by (auto simp: o module_act_def TargetEvent)
  qed
qed simp

definition sample_module :: "string \<Rightarrow> SBModule" where
  "sample_module uuid = \<lparr>md_valid = True, md_uuid = uuid, md_file = None, md_compile_units = [], md_sections = [],
     md_symbol_file = None, md_header_address = LLDB_INVALID_ADDRESS, md_version = [1, 2], md_symbols = []\<rparr>"

theorem module_events_consistent_witness:
  "\<exists>outs. module_session [ModulesRequest True [sample_module ''A1'']] {} = (outs, {''A1''}) \<and>
     client_view outs {} = Some {''A1''}"
proof -
  have c: "char_of (49 :: nat) = CHR ''1''" "char_of (50 :: nat) = CHR ''2''" by code_simp+
  have d: "CreateModuleDescription True (sample_module ''A1'') False =
     Some (new_Module\<lparr>mo_id := ''A1'', mo_symbolStatus := ''Symbols not found.'', mo_version := ''1.2''\<rparr>)"
    by (simp add: sample_module_def CreateModuleDescription_def new_Module_def digit_char_def dec_string.simps c)
  have "module_session [ModulesRequest True [sample_module ''A1'']] {} =
     ([Listed [new_Module\<lparr>mo_id := ''A1'', mo_symbolStatus := ''Symbols not found.'', mo_version := ''1.2''\<rparr>] 1], {''A1''})"
    by (simp add: module_act_def GetModulesRequest_def d map_filter_simps Collect_conv_if)
  then show ?thesis using module_events_consistent by blast
qed

end
