(* ===== verification/Debug_Context.thy ===== *)
theory Debug_Context
  imports Module_Manager Breakpoint_Manager Openocd_Provider
begin

text \<open>
  \<open>core/src/debug_context\<close> and \<open>core/event_bus\<close>: what the execution controller and the target manager
  share.  The state of LLDB, of the process and of OpenOCD is the parameter \<open>'w\<close>; calls into them are values
  of one type, answered by a parameter, and recorded in the order in which the code makes them together with
  the events it emits.
\<close>

section \<open>The process as LLDB shows it\<close>

datatype StopReason = eStopReasonInvalid | eStopReasonNone | eStopReasonTrace | eStopReasonBreakpoint
  | eStopReasonWatchpoint | eStopReasonSignal | eStopReasonException | eStopReasonExec | eStopReasonFork
  | eStopReasonVFork | eStopReasonVForkDone | eStopReasonPlanComplete | eStopReasonThreadExiting
  | eStopReasonInstrumentation | eStopReasonProcessorTrace | eStopReasonInterrupt | eStopReasonHistoryBoundary

datatype StateType = eStateInvalid | eStateUnloaded | eStateConnected | eStateAttaching | eStateLaunching
  | eStateStopped | eStateRunning | eStateStepping | eStateCrashed | eStateDetached | eStateExited | eStateSuspended

datatype QueueKind = eQueueKindUnknown | eQueueKindSerial | eQueueKindConcurrent

type_synonym tid = u64

abbreviation LLDB_INVALID_THREAD_ID :: tid where "LLDB_INVALID_THREAD_ID \<equiv> 0"
abbreviation LLDB_INVALID_PROCESS_ID :: u64 where "LLDB_INVALID_PROCESS_ID \<equiv> 0"

text \<open>A thread: \<open>th_formatted\<close> is its description in the format the client chose, if there is one and it works;
  \<open>th_exception\<close> its current exception, with its description and that of its backtrace.\<close>

record SBThread =
  th_id :: tid
  th_index_id :: u32
  th_stop_reason :: StopReason
  th_stop_data :: "break_id list"
  th_stop_description :: "string option"
  th_formatted :: "string option"
  th_name :: string
  th_queue_name :: string
  th_queue_kind :: QueueKind
  th_exception :: "(string option \<times> string option) option"

definition invalid_thread :: SBThread where
  "invalid_thread = \<lparr>th_id = LLDB_INVALID_THREAD_ID, th_index_id = 0, th_stop_reason = eStopReasonInvalid, th_stop_data = [],
     th_stop_description = None, th_formatted = None, th_name = [], th_queue_name = [], th_queue_kind = eQueueKindUnknown,
     th_exception = None\<rparr>"

record SBProcessView =
  pv_valid :: bool
  pv_state :: StateType
  pv_stop_id :: u32
  pv_threads :: "SBThread list"
  pv_id :: u64
  pv_exit_status :: int
  pv_status :: string

definition GetThreadAtIndex :: "SBProcessView \<Rightarrow> nat \<Rightarrow> SBThread" where
  "GetThreadAtIndex process i = (if i < length (pv_threads process) then pv_threads process ! i else invalid_thread)"

record SBTargetView =
  tv_valid :: bool
  tv_triple :: string
  tv_executable :: string
  tv_executable_name :: string
  tv_is_host :: bool
  tv_address_size :: u32

section \<open>Events\<close>

datatype OutputCategory = Console | Important | Stdout | Stderr | Telemetry
datatype ResetPhase = Started | Complete
datatype Area = eAreaAll | eAreaStacks | eAreaThreads | eAreaVariables
datatype AdapterFeature = eAdapterFeatureStepInTargetsRequest | eAdapterFeatureRestartRequest | eAdapterFeatureOther nat

record StoppedEventBody =
  se_reason :: string
  se_description :: "string option"
  se_threadId :: "tid option"
  se_hitBreakpointIds :: "int list option"
  se_threadCausedFocus :: bool
  se_preserveFocusHint :: bool
  se_allThreadsStopped :: bool

definition new_StoppedEventBody :: StoppedEventBody where
  "new_StoppedEventBody = \<lparr>se_reason = [], se_description = None, se_threadId = None, se_hitBreakpointIds = None,
     se_threadCausedFocus = False, se_preserveFocusHint = False, se_allThreadsStopped = True\<rparr>"

record ProcessEventBody =
  pe_name :: string
  pe_systemProcessId :: u64
  pe_isLocalProcess :: bool
  pe_pointerSize :: u64
  pe_startMethod :: string

datatype core_event =
    OutputEvent OutputCategory string
  | StoppedEvent StoppedEventBody
  | ContinuedEvent tid bool
  | ExitedEvent int
  | ThreadExitedEvent tid
  | ProcessEvent ProcessEventBody
  | CapabilitiesEvent "AdapterFeature set"
  | InvalidatedEvent "Area list" "tid option"
  | MemoryEvent u64 u64
  | ModuleEvent Module module_reason
  | BreakpointEvent ProtocolBreakpoint
  | TerminatedEvent string
  | ResetEvent ResetPhase
  | TraceStatusEvent bool string

section \<open>Calls\<close>

datatype RunMode = eOnlyThisThread | eOnlyDuringStepping

datatype debug_call =
    CallContinue
  | CallStop
  | CallResume tid
  | CallStepInstruction tid bool
  | CallStepOver tid RunMode
  | CallStepInto tid "string option" RunMode
  | CallStepOut tid
  | CallKill
  | CallDetach
  | CallCreateTarget string string string
  | CallSetTarget
  | CallSelectTarget
  | CallConnectRemote string
  | CallAttach "u64 option" "string option" bool
  | CallLoadCore string
  | CallCreateDebugger
  | CallSourceInitFiles
  | CallCreateOpenOcd OpenOcdConfig
  | CallSubscribeTargetState
  | CallShutdownOpenOcd
  | CallOpenOcdMemory
  | CallTcl string
  | CallCreateTrace
  | CallShutdownTrace
  | CallEnableTrace
  | CallInvalidateProgram
  | CallStopAllWatches
  | CallStopAllPeripheralWatches
  | CallConfigureDevice string string
  | CallFrameFormat string
  | CallThreadFormat string
  | CallSetCurrentPath string
  | CallStartEventThread
  | CallStopEventThread
  | CallRequestStop

text \<open>What happened, in order.\<close>

datatype debug_action =
    Emitted core_event
  | Called debug_call
  | RanCommands string "string list"
  | Logged string
  | VariablesCleared

section \<open>The state\<close>

record Configuration =
  cf_debuggerRoot :: string
  cf_enableAutoVariableSummaries :: bool
  cf_enableSyntheticChildDebugging :: bool
  cf_displayExtendedBacktrace :: bool
  cf_stopOnEntry :: bool
  cf_requireHardwareBreakpoints :: "bool option"
  cf_deviceName :: string
  cf_svdPath :: string
  cf_timeout :: nat
  cf_commandEscapePrefix :: string
  cf_customFrameFormat :: "string option"
  cf_customThreadFormat :: "string option"
  cf_sourcePath :: string
  cf_sourceMap :: "(string \<times> string) list"
  cf_preInitCommands :: "string list"
  cf_initCommands :: "string list"
  cf_preRunCommands :: "string list"
  cf_postRunCommands :: "string list"
  cf_stopCommands :: "string list"
  cf_exitCommands :: "string list"
  cf_terminateCommands :: "string list"
  cf_program :: string
  cf_targetTriple :: string
  cf_platformName :: string

definition new_Configuration :: Configuration where
  "new_Configuration = \<lparr>cf_debuggerRoot = [], cf_enableAutoVariableSummaries = False, cf_enableSyntheticChildDebugging = False,
     cf_displayExtendedBacktrace = False, cf_stopOnEntry = False, cf_requireHardwareBreakpoints = None, cf_deviceName = [],
     cf_svdPath = [], cf_timeout = 30, cf_commandEscapePrefix = [CHR 0x60], cf_customFrameFormat = None, cf_customThreadFormat = None,
     cf_sourcePath = [], cf_sourceMap = [], cf_preInitCommands = [], cf_initCommands = [], cf_preRunCommands = [],
     cf_postRunCommands = [], cf_stopCommands = [], cf_exitCommands = [], cf_terminateCommands = [], cf_program = [],
     cf_targetTriple = [], cf_platformName = []\<rparr>"

text \<open>The fields of the execution controller, the target manager and the context in one record.  Whether the
  thread that handles LLDB's events is joinable, and whether OpenOCD and the trace manager exist, are values
  of optional or default-constructed members of the code.\<close>

record 'w DebugContext =
  dc_world :: 'w
  dc_log :: "debug_action list"
  dc_focus_tid :: tid
  dc_thread_ids :: "tid set"
  dc_step_in_targets :: "u64 \<rightharpoonup> string"
  dc_stop_at_entry :: bool
  dc_configuration_done :: bool
  dc_reset_pending_stop :: bool
  dc_reset_resume_after_stop :: bool
  dc_initial_thread_list :: "(tid \<times> string) list"
  dc_event_thread :: bool
  dc_modules :: "string set"
  dc_configuration :: Configuration
  dc_has_last_launch :: bool
  dc_is_attach :: bool
  dc_terminated :: bool
  dc_no_lldbinit :: bool
  dc_source_init_file :: bool
  dc_openocd :: bool
  dc_trace :: bool
  dc_trace_unavailable_reason :: string
  dc_auto_variable_summaries :: bool
  dc_command_escape_prefix :: string

definition new_DebugContext :: "'w \<Rightarrow> 'w DebugContext" where
  "new_DebugContext w = \<lparr>dc_world = w, dc_log = [], dc_focus_tid = LLDB_INVALID_THREAD_ID, dc_thread_ids = {},
     dc_step_in_targets = Map.empty, dc_stop_at_entry = False, dc_configuration_done = False, dc_reset_pending_stop = False,
     dc_reset_resume_after_stop = False, dc_initial_thread_list = [], dc_event_thread = False, dc_modules = {},
     dc_configuration = new_Configuration, dc_has_last_launch = False, dc_is_attach = False, dc_terminated = False,
     dc_no_lldbinit = False, dc_source_init_file = True, dc_openocd = False, dc_trace = False, dc_trace_unavailable_reason = [],
     dc_auto_variable_summaries = False, dc_command_escape_prefix = []\<rparr>"

text \<open>What is not part of the program.  A call answers an error message or nothing; \<open>da_stdout\<close> and \<open>da_stderr\<close>
  give what the reads of the process's output return before the first empty one, \<open>da_polled_states\<close> the
  states a waiting loop sees before its time is over.\<close>

record 'w debug_api =
  da_process :: "'w \<Rightarrow> SBProcessView"
  da_target :: "'w \<Rightarrow> SBTargetView"
  da_call :: "debug_call \<Rightarrow> 'w \<Rightarrow> string option \<times> 'w"
  da_is_stopped :: "StateType \<Rightarrow> bool"
  da_interpreter :: "'w interpreter"
  da_prompt :: "'w \<Rightarrow> string option"
  da_tid_order :: "tid set \<Rightarrow> tid list"
  da_stdout :: "'w \<Rightarrow> string list \<times> 'w"
  da_stderr :: "'w \<Rightarrow> string list \<times> 'w"
  da_polled_states :: "'w \<Rightarrow> StateType list \<times> 'w"
  da_seconds :: "nat \<Rightarrow> string"
  da_statistics :: "'w \<Rightarrow> string"
  da_trace_status :: "'w \<Rightarrow> bool \<times> string"
  da_trace_enabled :: "'w \<Rightarrow> bool"
  da_custom_capabilities :: "AdapterFeature set"
  da_client_invalidated :: bool
  da_client_memory :: bool
  da_client_name :: string
  da_past_stop_data :: break_id
  da_dec :: "break_id \<Rightarrow> string"

definition act :: "debug_action \<Rightarrow> 'w DebugContext \<Rightarrow> 'w DebugContext" where
  "act a dc = dc\<lparr>dc_log := dc_log dc @ [a]\<rparr>"

definition DebugContext_Emit :: "core_event \<Rightarrow> 'w DebugContext \<Rightarrow> 'w DebugContext" where
  "DebugContext_Emit event = act (Emitted event)"

definition call :: "'w debug_api \<Rightarrow> debug_call \<Rightarrow> 'w DebugContext \<Rightarrow> string option \<times> 'w DebugContext" where
  "call api c dc = (let (error, w) = da_call api c (dc_world dc) in (error, act (Called c) (dc\<lparr>dc_world := w\<rparr>)))"

definition do_call :: "'w debug_api \<Rightarrow> debug_call \<Rightarrow> 'w DebugContext \<Rightarrow> 'w DebugContext" where
  "do_call api c dc = snd (call api c dc)"

definition DebugContext_SendOutput :: "OutputCategory \<Rightarrow> string \<Rightarrow> 'w DebugContext \<Rightarrow> 'w DebugContext" where
  "DebugContext_SendOutput category s dc = (if s = [] then dc else DebugContext_Emit (OutputEvent category s) dc)"

definition GetLLDBThread :: "'w debug_api \<Rightarrow> tid \<Rightarrow> 'w DebugContext \<Rightarrow> SBThread option" where
  "GetLLDBThread api i dc = List.find (\<lambda>t. th_id t = i) (pv_threads (da_process api (dc_world dc)))"

text \<open>\<open>TargetManager::RunLLDBCommands\<close>: the answer is whether no required command failed.\<close>

definition TargetManager_RunLLDBCommands ::
  "'w debug_api \<Rightarrow> string \<Rightarrow> string list \<Rightarrow> 'w DebugContext \<Rightarrow> bool \<times> 'w DebugContext" where
  "TargetManager_RunLLDBCommands api prefix commands dc =
     (let (required_command_failed, out, w) =
            RunLLDBCommands (da_interpreter api) (da_prompt api (dc_world dc)) True True prefix commands (dc_world dc);
          dc = DebugContext_SendOutput Console out (act (RanCommands prefix commands) (dc\<lparr>dc_world := w\<rparr>))
      in (\<not> required_command_failed, dc))"

definition RunStopCommands :: "'w debug_api \<Rightarrow> 'w DebugContext \<Rightarrow> 'w DebugContext" where
  "RunStopCommands api dc =
     snd (TargetManager_RunLLDBCommands api ''Running stopCommands:'' (cf_stopCommands (dc_configuration dc)) dc)"

definition RunExitCommands :: "'w debug_api \<Rightarrow> 'w DebugContext \<Rightarrow> 'w DebugContext" where
  "RunExitCommands api dc =
     snd (TargetManager_RunLLDBCommands api ''Running exitCommands:'' (cf_exitCommands (dc_configuration dc)) dc)"

definition RunTerminateCommands :: "'w debug_api \<Rightarrow> 'w DebugContext \<Rightarrow> 'w DebugContext" where
  "RunTerminateCommands api dc =
     snd (TargetManager_RunLLDBCommands api ''Running terminateCommands:'' (cf_terminateCommands (dc_configuration dc)) dc)"

text \<open>\<open>TargetManager::SendTerminatedEvent\<close>: once.\<close>

definition SendTerminatedEvent :: "'w debug_api \<Rightarrow> 'w DebugContext \<Rightarrow> 'w DebugContext" where
  "SendTerminatedEvent api dc =
     (if dc_terminated dc then dc
      else
        (let dc = RunTerminateCommands api (dc\<lparr>dc_terminated := True\<rparr>)
         in DebugContext_Emit (TerminatedEvent (da_statistics api (dc_world dc))) dc))"

definition TraceStatus :: "'w debug_api \<Rightarrow> 'w DebugContext \<Rightarrow> bool \<times> string" where
  "TraceStatus api dc = (if \<not> dc_trace dc then (False, dc_trace_unavailable_reason dc) else da_trace_status api (dc_world dc))"

definition CreateTrace :: "'w debug_api \<Rightarrow> 'w DebugContext \<Rightarrow> string option \<times> 'w DebugContext" where
  "CreateTrace api dc =
     (let (error, dc) = call api CallCreateTrace dc in
      case error of
        Some e \<Rightarrow> (Some e, dc\<lparr>dc_trace_unavailable_reason := e\<rparr>)
      | None \<Rightarrow> (None, dc\<lparr>dc_trace := True, dc_trace_unavailable_reason := []\<rparr>))"

definition ShutdownTrace :: "'w debug_api \<Rightarrow> 'w DebugContext \<Rightarrow> 'w DebugContext" where
  "ShutdownTrace api dc = (if dc_trace dc then do_call api CallShutdownTrace dc else dc)\<lparr>dc_trace := False\<rparr>"

text \<open>OpenOCD is created before the provider that may exist already is replaced.\<close>

definition CreateOpenOcd :: "'w debug_api \<Rightarrow> OpenOcdConfig \<Rightarrow> 'w DebugContext \<Rightarrow> string option \<times> 'w DebugContext" where
  "CreateOpenOcd api config dc =
     (let (error, dc) = call api (CallCreateOpenOcd config) dc in
      case error of
        Some e \<Rightarrow> (Some e, dc)
      | None \<Rightarrow>
          (let (error, dc) = call api CallSubscribeTargetState (dc\<lparr>dc_openocd := True\<rparr>)
           in (None, case error of None \<Rightarrow> dc | Some e \<Rightarrow> act (Logged (''failed to subscribe to openocd target state: '' @ e)) dc)))"

definition ShutdownOpenOcd :: "'w debug_api \<Rightarrow> 'w DebugContext \<Rightarrow> 'w DebugContext" where
  "ShutdownOpenOcd api dc = (if dc_openocd dc then do_call api CallShutdownOpenOcd dc else dc)\<lparr>dc_openocd := False\<rparr>"

lemmas context_ops = act_def DebugContext_Emit_def call_def do_call_def DebugContext_SendOutput_def

end
