(* ===== verification/Execution_Controller.thy ===== *)
theory Execution_Controller
  imports Debug_Context "HOL-Library.Sublist"
begin

text \<open>
  \<open>core/components/execution_controller\<close>: resuming, stepping and interrupting the process, what the client is
  told when it stops, and the thread that handles LLDB's events.
\<close>

section \<open>Threads\<close>

definition CreateThread :: "SBThread \<Rightarrow> tid \<times> string" where
  "CreateThread t =
     (let name = (case th_formatted t of
          Some s \<Rightarrow> s
        | None \<Rightarrow>
            if th_name t \<noteq> [] then th_name t
            else if th_queue_name t \<noteq> [] then
              ''Thread '' @ dec_string (unat (th_index_id t)) @ '' Queue: '' @ th_queue_name t @
              (case th_queue_kind t of eQueueKindSerial \<Rightarrow> '' (serial)'' | eQueueKindConcurrent \<Rightarrow> '' (concurrent)''
               | eQueueKindUnknown \<Rightarrow> [])
            else ''Thread '' @ dec_string (unat (th_index_id t)))
      in (th_id t, name))"

definition GetThreads :: "SBProcessView \<Rightarrow> (tid \<times> string) list" where
  "GetThreads process = map CreateThread (pv_threads process)"

definition ThreadHasStopReason :: "SBThread \<Rightarrow> bool" where
  "ThreadHasStopReason t =
     (case th_stop_reason t of
        eStopReasonThreadExiting \<Rightarrow> False | eStopReasonInvalid \<Rightarrow> False | eStopReasonNone \<Rightarrow> False
      | eStopReasonHistoryBoundary \<Rightarrow> False | _ \<Rightarrow> True)"

definition process_of :: "'w debug_api \<Rightarrow> 'w DebugContext \<Rightarrow> SBProcessView" where
  "process_of api dc = da_process api (dc_world dc)"

definition stopped :: "'w debug_api \<Rightarrow> 'w DebugContext \<Rightarrow> bool" where
  "stopped api dc = da_is_stopped api (pv_state (process_of api dc))"

definition WillContinue :: "'w DebugContext \<Rightarrow> 'w DebugContext" where
  "WillContinue = act VariablesCleared"

text \<open>Waiting for the process: the states are the ones seen before the time is over.\<close>

fun wait_loop :: "string \<Rightarrow> StateType list \<Rightarrow> string option" where
  "wait_loop seconds [] = Some (''process failed to stop within '' @ seconds)"
| "wait_loop seconds (state # states) =
     (case state of
        eStateDetached \<Rightarrow> Some ''process detached during launch or attach''
      | eStateExited \<Rightarrow> Some ''process exited during launch or attach''
      | eStateCrashed \<Rightarrow> None
      | eStateStopped \<Rightarrow> None
      | _ \<Rightarrow> wait_loop seconds states)"

definition WaitForProcessToStop :: "'w debug_api \<Rightarrow> nat \<Rightarrow> 'w DebugContext \<Rightarrow> string option \<times> 'w DebugContext" where
  "WaitForProcessToStop api seconds dc =
     (if \<not> pv_valid (process_of api dc) then (Some ''invalid process'', dc)
      else (let (states, w) = da_polled_states api (dc_world dc)
            in (wait_loop (da_seconds api seconds) states, dc\<lparr>dc_world := w\<rparr>)))"

text \<open>It succeeds exactly when the first state that decides is a stop.\<close>

lemma wait_loop_success:
  "wait_loop seconds states = None \<longleftrightarrow>
     (\<exists>before s after. states = before @ s # after \<and> s \<in> {eStateCrashed, eStateStopped} \<and>
        set before \<inter> {eStateCrashed, eStateStopped, eStateDetached, eStateExited} = {})"
proof (induction states)
  case (Cons state states)
  let ?D = "{eStateCrashed, eStateStopped, eStateDetached, eStateExited}"
  have split: "(\<exists>before s after. state # states = before @ s # after \<and> s \<in> {eStateCrashed, eStateStopped} \<and> set before \<inter> ?D = {}) \<longleftrightarrow>
     state \<in> {eStateCrashed, eStateStopped} \<or> state \<notin> ?D \<and>
     (\<exists>before s after. states = before @ s # after \<and> s \<in> {eStateCrashed, eStateStopped} \<and> set before \<inter> ?D = {})"
    (is "?L \<longleftrightarrow> ?R")
  proof
    assume ?L
    then obtain before s after where "state # states = before @ s # after" "s \<in> {eStateCrashed, eStateStopped}" "set before \<inter> ?D = {}"
      by blast
    then show ?R by (cases before) auto
  next
    assume ?R
    then show ?L
    proof
      assume "state \<in> {eStateCrashed, eStateStopped}"
      then show ?L by (intro exI [of _ "[]"]) auto
    next
      assume "state \<notin> ?D \<and> (\<exists>before s after. states = before @ s # after \<and> s \<in> {eStateCrashed, eStateStopped} \<and> set before \<inter> ?D = {})"
      then obtain before s after where "states = before @ s # after" "s \<in> {eStateCrashed, eStateStopped}" "set (state # before) \<inter> ?D = {}"
        by auto
      then show ?L by (intro exI [of _ "state # before"] exI [of _ s] exI [of _ after]) simp
    qed
  qed
  show ?case unfolding split by (cases state) (simp_all add: Cons.IH)
qed simp

section \<open>What the client is told of a stop\<close>

definition stop_data :: "'w debug_api \<Rightarrow> SBThread \<Rightarrow> nat \<Rightarrow> break_id" where
  "stop_data api t i = (if i < length (th_stop_data t) then th_stop_data t ! i else da_past_stop_data api)"

definition hit_breakpoints :: "'w debug_api \<Rightarrow> SBThread \<Rightarrow> (break_id \<times> break_id) list" where
  "hit_breakpoints api t =
     map (\<lambda>i. (stop_data api t (2 * i), stop_data api t (2 * i + 1))) [0 ..< (length (th_stop_data t) + 1) div 2]"

definition stop_cause :: "'w debug_api \<Rightarrow> ExceptionBreakpoint list \<Rightarrow> SBThread \<Rightarrow> StoppedEventBody" where
  "stop_cause api exception_breakpoints t =
     (let body = new_StoppedEventBody in
      case th_stop_reason t of
        eStopReasonTrace \<Rightarrow> body\<lparr>se_reason := ''step''\<rparr>
      | eStopReasonPlanComplete \<Rightarrow> body\<lparr>se_reason := ''step''\<rparr>
      | eStopReasonBreakpoint \<Rightarrow>
          (case GetExceptionBPFromStopReason (th_stop_data t) exception_breakpoints None of
             Some n \<Rightarrow> body\<lparr>se_reason := ''exception'', se_description := Some (eb_label (exception_breakpoints ! n))\<rparr>
           | None \<Rightarrow> body\<lparr>se_reason := ''breakpoint'',
                 se_hitBreakpointIds := Some (map fst (hit_breakpoints api t)),
                 se_description := Some (''breakpoint'' @
                   concat (map (\<lambda>(b, l). '' '' @ da_dec api b @ ''.'' @ da_dec api l) (hit_breakpoints api t)))\<rparr>)
      | eStopReasonWatchpoint \<Rightarrow>
          body\<lparr>se_reason := ''data breakpoint'', se_hitBreakpointIds := Some [stop_data api t 0],
               se_description := Some (''data breakpoint '' @ da_dec api (stop_data api t 0))\<rparr>
      | eStopReasonInstrumentation \<Rightarrow> body\<lparr>se_reason := ''breakpoint''\<rparr>
      | eStopReasonProcessorTrace \<Rightarrow> body\<lparr>se_reason := ''processor trace''\<rparr>
      | eStopReasonHistoryBoundary \<Rightarrow> body\<lparr>se_reason := ''history boundary''\<rparr>
      | eStopReasonSignal \<Rightarrow> body\<lparr>se_reason := ''exception''\<rparr>
      | eStopReasonException \<Rightarrow> body\<lparr>se_reason := ''exception''\<rparr>
      | eStopReasonExec \<Rightarrow> body\<lparr>se_reason := ''entry''\<rparr>
      | eStopReasonFork \<Rightarrow> body\<lparr>se_reason := ''fork''\<rparr>
      | eStopReasonVFork \<Rightarrow> body\<lparr>se_reason := ''vfork''\<rparr>
      | eStopReasonVForkDone \<Rightarrow> body\<lparr>se_reason := ''vforkdone''\<rparr>
      | eStopReasonInterrupt \<Rightarrow> body\<lparr>se_reason := ''async interrupt''\<rparr>
      | _ \<Rightarrow> body)"

definition hardware_message :: string where "hardware_message = ''Could not create hardware breakpoint''"

definition CreateThreadStoppedEvent ::
  "'w debug_api \<Rightarrow> ExceptionBreakpoint list \<Rightarrow> tid \<Rightarrow> SBThread \<Rightarrow> u32 \<Rightarrow> StoppedEventBody" where
  "CreateThreadStoppedEvent api exception_breakpoints focus_tid t stop_id =
     (let body = stop_cause api exception_breakpoints t;
          body = (if stop_id = 0 then body\<lparr>se_reason := ''entry''\<rparr> else body);
          body = body\<lparr>se_threadId := Some (th_id t)\<rparr>;
          body = (if se_description body = None
                  then body\<lparr>se_description := map_option (take 1023) (th_stop_description t)\<rparr> else body);
          body = (case se_description body of
                    Some d \<Rightarrow> if sublist hardware_message d
                              then body\<lparr>se_description := Some ''No hardware breakpoints left. Remove a breakpoint and try again.''\<rparr>
                              else body
                  | None \<Rightarrow> body);
          body = (if th_id t = focus_tid then body\<lparr>se_threadCausedFocus := True\<rparr> else body)
      in body\<lparr>se_preserveFocusHint := (th_id t \<noteq> focus_tid), se_allThreadsStopped := True\<rparr>)"

text \<open>The first pass over the threads: the focused thread, the first thread with a reason, how many have one, and
  whether the focused thread is there.\<close>

definition focus_step :: "SBThread \<Rightarrow> tid \<times> tid \<times> nat \<times> bool \<Rightarrow> tid \<times> tid \<times> nat \<times> bool" where
  "focus_step t s =
     (let (focus_tid, first_tid_with_reason, num_threads_with_reason, focus_thread_exists) = s;
          has_reason = ThreadHasStopReason t;
          (focus_tid, focus_thread_exists) =
            (if th_id t = focus_tid then (if \<not> has_reason then LLDB_INVALID_THREAD_ID else focus_tid, True)
             else (focus_tid, focus_thread_exists))
      in if has_reason
         then (focus_tid, if first_tid_with_reason = LLDB_INVALID_THREAD_ID then th_id t else first_tid_with_reason,
               num_threads_with_reason + 1, focus_thread_exists)
         else (focus_tid, first_tid_with_reason, num_threads_with_reason, focus_thread_exists))"

definition EmitStopped :: "'w debug_api \<Rightarrow> ExceptionBreakpoint list \<Rightarrow> u32 \<Rightarrow> SBThread \<Rightarrow> 'w DebugContext \<Rightarrow> 'w DebugContext" where
  "EmitStopped api exception_breakpoints stop_id t dc =
     DebugContext_Emit (StoppedEvent (CreateThreadStoppedEvent api exception_breakpoints (dc_focus_tid dc) t stop_id)) dc"

definition report_thread :: "'w debug_api \<Rightarrow> ExceptionBreakpoint list \<Rightarrow> u32 \<Rightarrow> SBThread \<Rightarrow> 'w DebugContext \<Rightarrow> 'w DebugContext" where
  "report_thread api exception_breakpoints stop_id t dc =
     (let dc = dc\<lparr>dc_thread_ids := insert (th_id t) (dc_thread_ids dc)\<rparr>
      in if ThreadHasStopReason t then EmitStopped api exception_breakpoints stop_id t dc else dc)"

definition SendThreadExitedEvent :: "tid \<Rightarrow> 'w DebugContext \<Rightarrow> 'w DebugContext" where
  "SendThreadExitedEvent i = DebugContext_Emit (ThreadExitedEvent i)"

text \<open>Thread numbers are taken to differ from the two that a hash set reserves for its own marks; the order in
  which a hash set is traversed is a parameter.\<close>

definition SendThreadStoppedEvent ::
  "'w debug_api \<Rightarrow> ExceptionBreakpoint list \<Rightarrow> bool \<Rightarrow> 'w DebugContext \<Rightarrow> dap_error option \<times> 'w DebugContext" where
  "SendThreadStoppedEvent api exception_breakpoints on_entry dc =
     (let process = process_of api dc in
      if \<not> pv_valid process then (Some (DAPError ''invalid process''), dc)
      else if \<not> stopped api dc then (Some NotStoppedError, dc)
      else
        (let old_thread_ids = dc_thread_ids dc;
             dc = dc\<lparr>dc_thread_ids := {}\<rparr>;
             stop_id = (if on_entry then 0 else pv_stop_id process);
             (focus, first_tid_with_reason, num_threads_with_reason, focus_thread_exists) =
               fold focus_step (pv_threads process) (dc_focus_tid dc, LLDB_INVALID_THREAD_ID, 0, False);
             dc = dc\<lparr>dc_focus_tid := (if \<not> focus_thread_exists \<or> focus = LLDB_INVALID_THREAD_ID then first_tid_with_reason else focus)\<rparr>;
             dc = (if num_threads_with_reason = 0
                   then (let t = GetThreadAtIndex process 0
                         in EmitStopped api exception_breakpoints stop_id t (dc\<lparr>dc_focus_tid := th_id t\<rparr>))
                   else fold (report_thread api exception_breakpoints stop_id) (pv_threads process) dc);
             dc = fold (\<lambda>i dc. if i \<notin> dc_thread_ids dc then SendThreadExitedEvent i dc else dc) (da_tid_order api old_thread_ids) dc
         in (None, RunStopCommands api dc)))"

section \<open>Other events\<close>

definition SendExtraCapabilities :: "'w debug_api \<Rightarrow> 'w DebugContext \<Rightarrow> 'w DebugContext" where
  "SendExtraCapabilities api dc =
     (let target = da_target api (dc_world dc);
          target_capabilities =
            (if \<not> tv_valid target then {}
             else (if starts_with (tv_triple target) ''x86'' then {eAdapterFeatureStepInTargetsRequest} else {}) \<union>
                  (if dc_has_last_launch dc then {eAdapterFeatureRestartRequest} else {}));
          features = da_custom_capabilities api \<union> target_capabilities
      in if features \<noteq> {} then DebugContext_Emit (CapabilitiesEvent features) dc else dc)"

datatype LaunchMethod = Launch | Attach | AttachForSuspendedLaunch

definition SendProcessEvent :: "'w debug_api \<Rightarrow> LaunchMethod \<Rightarrow> 'w DebugContext \<Rightarrow> 'w DebugContext" where
  "SendProcessEvent api launch_method dc =
     (let target = da_target api (dc_world dc) in
      DebugContext_Emit (ProcessEvent
        \<lparr>pe_name = take 4095 (tv_executable target), pe_systemProcessId = pv_id (process_of api dc),
         pe_isLocalProcess = tv_is_host target, pe_pointerSize = ucast (tv_address_size target * 8),
         pe_startMethod = (case launch_method of Launch \<Rightarrow> ''launch'' | Attach \<Rightarrow> ''attach''
            | AttachForSuspendedLaunch \<Rightarrow> ''attachForSuspendedLaunch'')\<rparr>) dc)"

definition SendStdOutStdErr :: "'w debug_api \<Rightarrow> 'w DebugContext \<Rightarrow> 'w DebugContext" where
  "SendStdOutStdErr api dc =
     (let (out, w) = da_stdout api (dc_world dc);
          dc = fold (DebugContext_SendOutput Stdout) out (dc\<lparr>dc_world := w\<rparr>);
          (err, w) = da_stderr api (dc_world dc)
      in fold (DebugContext_SendOutput Stderr) err (dc\<lparr>dc_world := w\<rparr>))"

definition SendContinuedEvent :: "'w debug_api \<Rightarrow> 'w DebugContext \<Rightarrow> 'w DebugContext" where
  "SendContinuedEvent api dc =
     (if \<not> pv_valid (process_of api dc) then dc
      else if \<not> dc_configuration_done dc \<or> dc_focus_tid dc = LLDB_INVALID_THREAD_ID then dc
      else DebugContext_Emit (ContinuedEvent (dc_focus_tid dc) True) dc)"

definition SendProcessExitedEvent :: "'w debug_api \<Rightarrow> 'w DebugContext \<Rightarrow> 'w DebugContext" where
  "SendProcessExitedEvent api dc = DebugContext_Emit (ExitedEvent (pv_exit_status (process_of api dc))) dc"

definition SendInvalidatedEvent :: "'w debug_api \<Rightarrow> Area list \<Rightarrow> tid \<Rightarrow> 'w DebugContext \<Rightarrow> 'w DebugContext" where
  "SendInvalidatedEvent api areas i dc =
     (if \<not> da_client_invalidated api then dc
      else DebugContext_Emit (InvalidatedEvent areas (if i \<noteq> LLDB_INVALID_THREAD_ID then Some i else None)) dc)"

definition SendMemoryEvent :: "'w debug_api \<Rightarrow> u64 \<Rightarrow> u64 \<Rightarrow> 'w DebugContext \<Rightarrow> 'w DebugContext" where
  "SendMemoryEvent api load_address byte_size dc =
     (if \<not> da_client_memory api then dc
      else if load_address = LLDB_INVALID_ADDRESS then dc
      else DebugContext_Emit (MemoryEvent load_address byte_size) dc)"

definition event_name :: "TargetStateEvent \<Rightarrow> string" where
  "event_name event =
     (case event of kHalted \<Rightarrow> ''halted'' | kResumed \<Rightarrow> ''resumed'' | kResetStart \<Rightarrow> ''reset-start''
      | kResetEnd \<Rightarrow> ''reset-end'' | kExamineEnd \<Rightarrow> ''examine-end'')"

definition OnOpenOcdTargetState :: "TargetStateChange \<Rightarrow> 'w DebugContext \<Rightarrow> 'w DebugContext" where
  "OnOpenOcdTargetState change =
     act (Logged (''openocd target '' @ [CHR 0x27] @ tc_target_name change @ [CHR 0x27] @ '': '' @ event_name (tc_event change) @
       '' (halted='' @ (if tc_halted change then ''true'' else ''false'') @ '')''))"

section \<open>Requests\<close>

definition unexpected_state :: string where
  "unexpected_state =
     ''Expected process to be stopped.'' @ [CHR 0x0D, CHR 0x0A, CHR 0x0D, CHR 0x0A] @
     ''Process is in an unexpected state and may have missed an initial configuration. Please check that '' @
     ''any debugger command scripts are not resuming the process during the launch sequence.''"

definition to_error :: "string option \<Rightarrow> dap_error option" where
  "to_error = map_option DAPError"

definition ConfigurationDone :: "'w debug_api \<Rightarrow> ExceptionBreakpoint list \<Rightarrow> 'w DebugContext \<Rightarrow> dap_error option \<times> 'w DebugContext" where
  "ConfigurationDone api exception_breakpoints dc =
     (if \<not> pv_valid (process_of api dc) \<or> \<not> stopped api dc then (Some (DAPError unexpected_state), dc)
      else
        (let dc = SendExtraCapabilities api (dc\<lparr>dc_configuration_done := True\<rparr>);
             dc = dc\<lparr>dc_initial_thread_list := GetThreads (process_of api dc)\<rparr>;
             dc = SendProcessEvent api (if dc_is_attach dc then Attach else Launch) dc
         in if dc_stop_at_entry dc then SendThreadStoppedEvent api exception_breakpoints True dc
            else (let (error, dc) = call api CallContinue dc in (to_error error, dc))))"

text \<open>Resuming one thread that LLDB does not know is LLDB's to refuse.\<close>

definition Continue :: "'w debug_api \<Rightarrow> tid \<Rightarrow> bool \<Rightarrow> 'w DebugContext \<Rightarrow> (dap_error + bool) \<times> 'w DebugContext" where
  "Continue api threadId singleThread dc =
     (if \<not> stopped api dc then (Inl NotStoppedError, dc)
      else
        (let (error, dc) = call api (if singleThread then CallResume threadId else CallContinue) dc
         in (case error of Some e \<Rightarrow> Inl (DAPError e) | None \<Rightarrow> Inr (\<not> singleThread), dc)))"

definition Pause :: "'w debug_api \<Rightarrow> 'w DebugContext \<Rightarrow> dap_error option \<times> 'w DebugContext" where
  "Pause api dc = (let (error, dc) = call api CallStop dc in (to_error error, dc))"

definition run_mode :: "bool \<Rightarrow> RunMode" where
  "run_mode singleThread = (if singleThread then eOnlyThisThread else eOnlyDuringStepping)"

definition Next :: "'w debug_api \<Rightarrow> tid \<Rightarrow> bool \<Rightarrow> bool \<Rightarrow> 'w DebugContext \<Rightarrow> dap_error option \<times> 'w DebugContext" where
  "Next api threadId singleThread by_instruction dc =
     (case GetLLDBThread api threadId dc of
        None \<Rightarrow> (Some (DAPError ''invalid thread''), dc)
      | Some t \<Rightarrow>
          if \<not> stopped api dc then (Some NotStoppedError, dc)
          else
            (let (error, dc) = call api
                   (if by_instruction then CallStepInstruction (th_id t) True else CallStepOver (th_id t) (run_mode singleThread))
                   (dc\<lparr>dc_focus_tid := th_id t\<rparr>)
             in (to_error error, dc)))"

definition StepIn ::
  "'w debug_api \<Rightarrow> tid \<Rightarrow> bool \<Rightarrow> u64 option \<Rightarrow> bool \<Rightarrow> 'w DebugContext \<Rightarrow> dap_error option \<times> 'w DebugContext" where
  "StepIn api threadId singleThread targetId by_instruction dc =
     (case GetLLDBThread api threadId dc of
        None \<Rightarrow> (Some (DAPError ''invalid thread''), dc)
      | Some t \<Rightarrow>
          (let dc = dc\<lparr>dc_focus_tid := th_id t\<rparr> in
           if \<not> stopped api dc then (Some NotStoppedError, dc)
           else if by_instruction
           then (let (error, dc) = call api (CallStepInstruction (th_id t) False) dc in (to_error error, dc))
           else
             (let target = (case dc_step_in_targets dc (case targetId of None \<Rightarrow> 0 | Some i \<Rightarrow> i) of
                              Some [] \<Rightarrow> None | name \<Rightarrow> name);
                  (error, dc) = call api (CallStepInto (th_id t) target (run_mode singleThread)) dc
              in (to_error error, dc))))"

definition StepOut :: "'w debug_api \<Rightarrow> tid \<Rightarrow> 'w DebugContext \<Rightarrow> dap_error option \<times> 'w DebugContext" where
  "StepOut api threadId dc =
     (case GetLLDBThread api threadId dc of
        None \<Rightarrow> (Some (DAPError ''invalid thread''), dc)
      | Some t \<Rightarrow>
          if \<not> stopped api dc then (Some NotStoppedError, dc)
          else (let (error, dc) = call api (CallStepOut (th_id t)) (dc\<lparr>dc_focus_tid := th_id t\<rparr>) in (to_error error, dc)))"

text \<open>An instruction of the current line: its load address, whether it is a call, and its operands.  Reading a
  number, resolving an address and the name of a function are LLDB's.\<close>

record step_instruction =
  sn_valid :: bool
  sn_address :: u64
  sn_is_call :: bool
  sn_operands :: string

record step_env =
  sv_getAsInteger :: "string \<Rightarrow> u64 option"
  sv_resolves :: "u64 \<Rightarrow> bool"
  sv_function_name :: "u64 \<Rightarrow> string option"

definition call_target_name :: "step_env \<Rightarrow> step_instruction \<Rightarrow> string option" where
  "call_target_name env inst =
     (if \<not> sn_is_call inst then None
      else
        (case sv_getAsInteger env (sn_operands inst) of
           None \<Rightarrow> None
         | Some call_target_addr \<Rightarrow>
             if \<not> sv_resolves env call_target_addr then None
             else (case sv_function_name env call_target_addr of Some (c # name) \<Rightarrow> Some (c # name) | _ \<Rightarrow> None)))"

fun step_in_loop ::
  "step_env \<Rightarrow> step_instruction list \<Rightarrow> (u64 \<rightharpoonup> string) \<Rightarrow> (u64 \<times> string) list \<Rightarrow> (u64 \<times> string) list \<times> (u64 \<rightharpoonup> string)" where
  "step_in_loop env [] targets body = (body, targets)"
| "step_in_loop env (inst # insts) targets body =
     (if \<not> sn_valid inst \<or> sn_address inst = LLDB_INVALID_ADDRESS then (body, targets)
      else
        (case call_target_name env inst of
           None \<Rightarrow> step_in_loop env insts targets body
         | Some name \<Rightarrow>
             step_in_loop env insts
               (if targets (sn_address inst) = None then targets(sn_address inst \<mapsto> name) else targets)
               (body @ [(sn_address inst, name)])))"

text \<open>The outer \<open>None\<close>: there is no frame; the inner one: its instructions cannot be read.\<close>

definition GetStepInTargets ::
  "step_env \<Rightarrow> step_instruction list option option \<Rightarrow> 'w DebugContext \<Rightarrow> (dap_error + (u64 \<times> string) list) \<times> 'w DebugContext" where
  "GetStepInTargets env frame dc =
     (let dc = dc\<lparr>dc_step_in_targets := Map.empty\<rparr> in
      case frame of
        None \<Rightarrow> (Inl (DAPError ''Failed to get frame for input frameId.''), dc)
      | Some None \<Rightarrow> (Inl (DAPError ''Failed to get instructions for frame.''), dc)
      | Some (Some insts) \<Rightarrow>
          (let (body, targets) = step_in_loop env insts Map.empty [] in (Inr body, dc\<lparr>dc_step_in_targets := targets\<rparr>)))"

definition GetThreadsRequest :: "'w debug_api \<Rightarrow> 'w DebugContext \<Rightarrow> (dap_error + (tid \<times> string) list) \<times> 'w DebugContext" where
  "GetThreadsRequest api dc =
     (let answer = (\<lambda>threads dc. (if threads = [] then Inl (DAPError ''failed to retrieve threads from process'') else Inr threads, dc)) in
      if dc_initial_thread_list dc \<noteq> [] then answer (dc_initial_thread_list dc) (dc\<lparr>dc_initial_thread_list := []\<rparr>)
      else if \<not> stopped api dc then (Inl NotStoppedError, dc)
      else answer (GetThreads (process_of api dc)) dc)"

record ExceptionInfo =
  ei_exceptionId :: string
  ei_description :: string
  ei_details :: "(string \<times> string) option"

definition GetExceptionInfoRequest ::
  "'w debug_api \<Rightarrow> ExceptionBreakpoint list \<Rightarrow> tid \<Rightarrow> 'w DebugContext \<Rightarrow> dap_error + ExceptionInfo" where
  "GetExceptionInfoRequest api exception_breakpoints threadId dc =
     (case GetLLDBThread api threadId dc of
        None \<Rightarrow> Inl (DAPError (''Invalid thread id: '' @ dec_string (unat threadId)))
      | Some t \<Rightarrow>
          (let (exceptionId, description) =
                 (case th_stop_reason t of
                    eStopReasonSignal \<Rightarrow> (''signal'', [])
                  | eStopReasonBreakpoint \<Rightarrow>
                      (case GetExceptionBPFromStopReason (th_stop_data t) exception_breakpoints None of
                         Some n \<Rightarrow> (eb_filter (exception_breakpoints ! n), eb_label (exception_breakpoints ! n))
                       | None \<Rightarrow> (''exception'', []))
                  | _ \<Rightarrow> (''exception'', []));
               description = (if description = []
                 then (case th_stop_description t of Some d \<Rightarrow> d | None \<Rightarrow> []) else description)
           in Inr \<lparr>ei_exceptionId = exceptionId, ei_description = description,
                   ei_details = map_option (\<lambda>(message, trace). (case message of Some m \<Rightarrow> m | None \<Rightarrow> [],
                     case trace of Some s \<Rightarrow> s | None \<Rightarrow> [])) (th_exception t)\<rparr>))"

section \<open>LLDB's events\<close>

text \<open>The pieces of handling a stop: output, the two flags a reset leaves, resuming after it, and the report.\<close>

definition take_pending :: "'w DebugContext \<Rightarrow> bool \<times> 'w DebugContext" where
  "take_pending dc = (dc_reset_pending_stop dc, dc\<lparr>dc_reset_pending_stop := False\<rparr>)"

definition take_resume :: "'w DebugContext \<Rightarrow> bool \<times> 'w DebugContext" where
  "take_resume dc = (dc_reset_resume_after_stop dc, dc\<lparr>dc_reset_resume_after_stop := False\<rparr>)"

definition resume_after_reset :: "'w debug_api \<Rightarrow> 'w DebugContext \<Rightarrow> 'w DebugContext" where
  "resume_after_reset api dc = do_call api CallContinue (SendContinuedEvent api (WillContinue dc))"

definition report_stop :: "'w debug_api \<Rightarrow> ExceptionBreakpoint list \<Rightarrow> bool \<Rightarrow> 'w DebugContext \<Rightarrow> 'w DebugContext" where
  "report_stop api exception_breakpoints reset_stop dc =
     (let (error, dc) = SendThreadStoppedEvent api exception_breakpoints reset_stop dc in
      case error of
        None \<Rightarrow> dc
      | Some e \<Rightarrow> act (Logged (''('' @ da_client_name api @ '') reporting thread stopped: '' @
            (case e of NotStoppedError \<Rightarrow> ''not stopped'' | DAPError m \<Rightarrow> m))) dc)"

definition handle_stop :: "'w debug_api \<Rightarrow> ExceptionBreakpoint list \<Rightarrow> 'w DebugContext \<Rightarrow> 'w DebugContext" where
  "handle_stop api exception_breakpoints dc =
     (let dc = SendStdOutStdErr api dc;
          (reset_stop, dc) = take_pending dc
      in if reset_stop then
           (let (resume, dc) = take_resume (DebugContext_Emit (ResetEvent Complete) dc)
            in if resume then resume_after_reset api dc
               else report_stop api exception_breakpoints True (SendInvalidatedEvent api [eAreaAll] LLDB_INVALID_THREAD_ID dc))
         else report_stop api exception_breakpoints False dc)"

definition handle_running :: "'w debug_api \<Rightarrow> 'w DebugContext \<Rightarrow> 'w DebugContext" where
  "handle_running api dc =
     (let dc = WillContinue dc in if \<not> dc_reset_pending_stop dc then SendContinuedEvent api dc else dc)"

definition handle_exit :: "'w debug_api \<Rightarrow> 'w DebugContext \<Rightarrow> bool \<times> 'w DebugContext" where
  "handle_exit api dc =
     (let dc = DebugContext_SendOutput Console (pv_status (process_of api dc)) dc in
      if pv_id (process_of api dc) \<noteq> LLDB_INVALID_PROCESS_ID
      then (True, SendTerminatedEvent api (SendProcessExitedEvent api (RunExitCommands api dc)))
      else (False, dc))"

text \<open>A change of state with whether the process was restarted, or output; the answer is whether the process exited.\<close>

datatype process_event = StateChanged StateType bool | HasOutput | OtherProcessEvent

definition HandleProcessEvent ::
  "'w debug_api \<Rightarrow> ExceptionBreakpoint list \<Rightarrow> process_event \<Rightarrow> 'w DebugContext \<Rightarrow> bool \<times> 'w DebugContext" where
  "HandleProcessEvent api exception_breakpoints event dc =
     (case event of
        StateChanged state restarted \<Rightarrow>
          if state \<in> {eStateConnected, eStateDetached, eStateInvalid, eStateUnloaded} then (False, dc)
          else if state \<in> {eStateAttaching, eStateCrashed, eStateLaunching, eStateStopped, eStateSuspended}
          then (False, if \<not> restarted then handle_stop api exception_breakpoints dc else dc)
          else if state \<in> {eStateRunning, eStateStepping} then (False, handle_running api dc)
          else handle_exit api dc
      | HasOutput \<Rightarrow> (False, SendStdOutStdErr api dc)
      | OtherProcessEvent \<Rightarrow> (False, dc))"

definition new_target_message :: "bool \<Rightarrow> string" where
  "new_target_message both_valid =
     (if both_valid then ''Received NewTargetCreated event - multi-target handoff is not supported''
      else ''Received NewTargetCreated event but parent or created target is invalid'')"

datatype target_change = ModulesChanged bool "SBModule list" | NewTargetCreated bool | OtherTargetEvent

definition HandleTargetEvent :: "'w debug_api \<Rightarrow> target_change \<Rightarrow> 'w DebugContext \<Rightarrow> 'w DebugContext" where
  "HandleTargetEvent api event dc =
     (case event of
        ModulesChanged remove_module ms \<Rightarrow>
          (let (events, modules) = HandleModules (tv_valid (da_target api (dc_world dc))) remove_module ms (dc_modules dc)
           in fold (\<lambda>(p, reason). DebugContext_Emit (ModuleEvent p reason)) events (dc\<lparr>dc_modules := modules\<rparr>))
      | NewTargetCreated both_valid \<Rightarrow> act (Logged (new_target_message both_valid)) dc
      | OtherTargetEvent \<Rightarrow> dc)"

text \<open>A breakpoint whose locations changed, with whether it carries the label of the adapter and its description.\<close>

record breakpoint_change =
  bc_changed :: bool
  bc_valid :: bool
  bc_locations :: bool
  bc_labelled :: bool
  bc_description :: ProtocolBreakpoint

definition HandleBreakpointEvent :: "breakpoint_change \<Rightarrow> 'w DebugContext \<Rightarrow> 'w DebugContext" where
  "HandleBreakpointEvent event dc =
     (if \<not> bc_changed event \<or> \<not> bc_valid event then dc
      else if bc_locations event \<and> bc_labelled event
      then (let b = bc_description event;
                b = (case pb_source b of
                       Some source \<Rightarrow> if src_adapterData source = None then b\<lparr>pb_source := None\<rparr> else b
                     | None \<Rightarrow> b)
            in DebugContext_Emit (BreakpointEvent b) dc)
      else dc)"

definition HandleThreadEvent :: "'w debug_api \<Rightarrow> bool \<Rightarrow> tid option \<Rightarrow> 'w DebugContext \<Rightarrow> 'w DebugContext" where
  "HandleThreadEvent api stack_changed t dc =
     (if \<not> stack_changed then dc
      else (case t of None \<Rightarrow> dc | Some i \<Rightarrow> SendInvalidatedEvent api [eAreaStacks] i dc))"

definition HandleDiagnosticEvent :: "(string \<times> string) option \<Rightarrow> 'w DebugContext \<Rightarrow> 'w DebugContext" where
  "HandleDiagnosticEvent data dc =
     (case data of None \<Rightarrow> dc | Some (kind, message) \<Rightarrow> DebugContext_SendOutput Important (take 1023 kind @ '': '' @ take 1023 message) dc)"

datatype lldb_event =
    ProcessChange process_event
  | TargetChange target_change
  | BreakpointChange breakpoint_change
  | ThreadChange bool "tid option"
  | DiagnosticMessage "(string \<times> string) option"
  | StopEventThread bool
  | OtherLldbEvent

definition handle_event :: "'w debug_api \<Rightarrow> ExceptionBreakpoint list \<Rightarrow> lldb_event \<Rightarrow> 'w DebugContext \<Rightarrow> bool \<times> 'w DebugContext" where
  "handle_event api exception_breakpoints event dc =
     (case event of
        ProcessChange e \<Rightarrow> HandleProcessEvent api exception_breakpoints e dc
      | TargetChange e \<Rightarrow> (False, HandleTargetEvent api e dc)
      | BreakpointChange e \<Rightarrow> (False, HandleBreakpointEvent e dc)
      | ThreadChange stack_changed t \<Rightarrow> (False, HandleThreadEvent api stack_changed t dc)
      | DiagnosticMessage data \<Rightarrow> (False, HandleDiagnosticEvent data dc)
      | StopEventThread told \<Rightarrow> (told, dc)
      | OtherLldbEvent \<Rightarrow> (False, dc))"

text \<open>The thread handles the events it receives until the process has exited or it is told to stop.\<close>

fun EventThreadMain :: "'w debug_api \<Rightarrow> ExceptionBreakpoint list \<Rightarrow> lldb_event list \<Rightarrow> 'w DebugContext \<Rightarrow> bool \<times> 'w DebugContext" where
  "EventThreadMain api exception_breakpoints [] dc = (False, dc)"
| "EventThreadMain api exception_breakpoints (event # events) dc =
     (let (finished, dc) = handle_event api exception_breakpoints event dc
      in if finished then (True, dc) else EventThreadMain api exception_breakpoints events dc)"

text \<open>Assigning to a thread object that is joinable ends the program: \<open>None\<close>.\<close>

definition StartEventThread :: "'w debug_api \<Rightarrow> 'w DebugContext \<Rightarrow> 'w DebugContext option" where
  "StartEventThread api dc =
     (if dc_event_thread dc then None else Some (do_call api CallStartEventThread (dc\<lparr>dc_event_thread := True\<rparr>)))"

definition StopEventHandlers :: "'w debug_api \<Rightarrow> 'w DebugContext \<Rightarrow> 'w DebugContext" where
  "StopEventHandlers api dc =
     (if dc_event_thread dc then (do_call api CallStopEventThread dc)\<lparr>dc_event_thread := False\<rparr> else dc)"

end
