(* ===== verification/Target_Manager.thy ===== *)
theory Target_Manager
  imports Execution_Controller
begin

text \<open>
  \<open>core/components/target_manager\<close>: launching, attaching to, restarting and leaving the target, as the sequences
  of steps the code takes, each of which can end the request.
\<close>

section \<open>Steps that can fail\<close>

type_synonym 'w fallible = "'w DebugContext \<Rightarrow> dap_error option \<times> 'w DebugContext"

definition and_then :: "'w fallible \<Rightarrow> 'w fallible \<Rightarrow> 'w fallible" where
  "and_then m k dc = (let (error, dc) = m dc in case error of Some e \<Rightarrow> (Some e, dc) | None \<Rightarrow> k dc)"

definition always :: "('w DebugContext \<Rightarrow> 'w DebugContext) \<Rightarrow> 'w fallible" where
  "always f dc = (None, f dc)"

definition check_call :: "'w debug_api \<Rightarrow> debug_call \<Rightarrow> 'w fallible" where
  "check_call api c dc = (let (error, dc) = call api c dc in (to_error error, dc))"

definition unless :: "bool \<Rightarrow> dap_error \<Rightarrow> 'w fallible" where
  "unless ok e dc = (if ok then (None, dc) else (Some e, dc))"

definition commands_error :: "string \<Rightarrow> dap_error" where
  "commands_error category = DAPError (''Failed to run '' @ category @ '' commands. See the Debug Console for more details.'')"

definition run_required :: "'w debug_api \<Rightarrow> string \<Rightarrow> string list \<Rightarrow> string \<Rightarrow> 'w fallible" where
  "run_required api prefix_text commands category dc =
     (let (ok, dc) = TargetManager_RunLLDBCommands api prefix_text commands dc
      in (if ok then None else Some (commands_error category), dc))"

section \<open>Configuration\<close>

record OpenOcdConfiguration =
  ow_scriptSearchDirs :: "string list"
  ow_configFiles :: "string list"
  ow_rawCommands :: "string list"
  ow_logFile :: string
  ow_debugLevel :: int
  ow_gdbPort :: string
  ow_tclPort :: string
  ow_telnetPort :: string

record LoadImageConfiguration =
  lc_preverify :: bool
  lc_verify :: bool
  lc_reset :: bool

record LaunchRequestArguments =
  la_configuration :: Configuration
  la_loadImage :: bool
  la_loadImageConfig :: LoadImageConfiguration
  la_openocd :: OpenOcdConfiguration

record AttachRequestArguments =
  aa_configuration :: Configuration
  aa_attachCommands :: "string list"
  aa_pid :: u64
  aa_waitFor :: bool
  aa_gdbRemotePort :: int
  aa_gdbRemoteHostname :: string
  aa_coreFile :: string

abbreviation LLDB_DAP_INVALID_PORT :: int where "LLDB_DAP_INVALID_PORT \<equiv> - 1"

definition ToOpenOcdConfig :: "OpenOcdConfiguration \<Rightarrow> string \<Rightarrow> LoadImageConfiguration option \<Rightarrow> OpenOcdConfig" where
  "ToOpenOcdConfig config program load_image_config =
     \<lparr>oc_script_search_dirs = ow_scriptSearchDirs config, oc_config_files = ow_configFiles config,
      oc_raw_commands = ow_rawCommands config, oc_log_file_path = ow_logFile config, oc_debug_level = ow_debugLevel config,
      oc_init_at_startup = True, oc_gdb_port = ow_gdbPort config, oc_tcl_port = ow_tclPort config,
      oc_telnet_port = ow_telnetPort config, oc_wakeup_port = ''6600'',
      oc_load_image = map_option (\<lambda>c. \<lparr>li_path = program, li_preverify = lc_preverify c, li_verify = lc_verify c,
        li_reset = lc_reset c\<rparr>) load_image_config\<rparr>"

definition SetConfiguration :: "'w debug_api \<Rightarrow> Configuration \<Rightarrow> bool \<Rightarrow> 'w DebugContext \<Rightarrow> 'w DebugContext" where
  "SetConfiguration api config attaching dc =
     (let dc = dc\<lparr>dc_configuration := config, dc_stop_at_entry := cf_stopOnEntry config, dc_is_attach := attaching,
                 dc_auto_variable_summaries := cf_enableAutoVariableSummaries config,
                 dc_command_escape_prefix := cf_commandEscapePrefix config\<rparr>;
          dc = (case cf_customFrameFormat config of None \<Rightarrow> dc | Some f \<Rightarrow> do_call api (CallFrameFormat f) dc);
          dc = (case cf_customThreadFormat config of None \<Rightarrow> dc | Some f \<Rightarrow> do_call api (CallThreadFormat f) dc)
      in do_call api (CallConfigureDevice (cf_deviceName config) (cf_svdPath config)) dc)"

definition double_quoted :: "string \<Rightarrow> string" where
  "double_quoted s = CHR 0x22 # s @ [CHR 0x22]"

definition source_map_command :: "Configuration \<Rightarrow> string" where
  "source_map_command config =
     ''settings set target.source-map '' @
     (if cf_sourceMap config \<noteq> [] then concat (map (\<lambda>(a, b). double_quoted a @ '' '' @ double_quoted b @ '' '') (cf_sourceMap config))
      else if cf_sourcePath config \<noteq> [] then double_quoted ''.'' @ '' '' @ double_quoted (cf_sourcePath config) else [])"

definition ConfigureSourceMaps :: "'w debug_api \<Rightarrow> 'w DebugContext \<Rightarrow> 'w DebugContext" where
  "ConfigureSourceMaps api dc =
     (let config = dc_configuration dc in
      if cf_sourceMap config = [] \<and> cf_sourcePath config = [] then dc
      else snd (TargetManager_RunLLDBCommands api ''Setting source map:'' [source_map_command config] dc))"

definition hardware_command :: "Configuration \<Rightarrow> string" where
  "hardware_command config =
     ''settings set target.require-hardware-breakpoint '' @
     (if (case cf_requireHardwareBreakpoints config of None \<Rightarrow> True | Some b \<Rightarrow> b) then ''true'' else ''false'')"

definition ConfigureHardwareBreakpointRequirement :: "'w debug_api \<Rightarrow> 'w fallible" where
  "ConfigureHardwareBreakpointRequirement api dc =
     run_required api ''Setting hardware breakpoint requirement:'' [hardware_command (dc_configuration dc)]
       ''hardware breakpoint requirement'' dc"

definition RunPreInitCommands :: "'w debug_api \<Rightarrow> 'w fallible" where
  "RunPreInitCommands api dc =
     run_required api ''Running preInitCommands:'' (cf_preInitCommands (dc_configuration dc)) ''preInitCommands'' dc"

definition RunInitCommands :: "'w debug_api \<Rightarrow> 'w fallible" where
  "RunInitCommands api dc =
     run_required api ''Running initCommands:'' (cf_initCommands (dc_configuration dc)) ''initCommands'' dc"

definition RunPreRunCommands :: "'w debug_api \<Rightarrow> 'w fallible" where
  "RunPreRunCommands api dc =
     run_required api ''Running preRunCommands:'' (cf_preRunCommands (dc_configuration dc)) ''preRunCommands'' dc"

definition RunPostRunCommands :: "'w debug_api \<Rightarrow> 'w DebugContext \<Rightarrow> 'w DebugContext" where
  "RunPostRunCommands api dc =
     snd (TargetManager_RunLLDBCommands api ''Running postRunCommands:'' (cf_postRunCommands (dc_configuration dc)) dc)"

definition RunAttachCommands :: "'w debug_api \<Rightarrow> string list \<Rightarrow> 'w fallible" where
  "RunAttachCommands api commands = run_required api ''Running attachCommands:'' commands ''attach''"

definition enter_debugger_root :: "'w debug_api \<Rightarrow> 'w DebugContext \<Rightarrow> 'w DebugContext" where
  "enter_debugger_root api dc =
     (let root = cf_debuggerRoot (dc_configuration dc) in if root \<noteq> [] then do_call api (CallSetCurrentPath root) dc else dc)"

definition CreateTarget :: "'w debug_api \<Rightarrow> 'w fallible" where
  "CreateTarget api dc =
     (let config = dc_configuration dc
      in check_call api (CallCreateTarget (cf_program config) (cf_targetTriple config) (cf_platformName config)) dc)"

definition SetTarget :: "'w debug_api \<Rightarrow> 'w DebugContext \<Rightarrow> 'w DebugContext" where
  "SetTarget api dc = do_call api CallSetTarget (do_call api CallInvalidateProgram dc)"

definition WaitForStop :: "'w debug_api \<Rightarrow> nat \<Rightarrow> 'w fallible" where
  "WaitForStop api timeout dc = (let (error, dc) = WaitForProcessToStop api timeout dc in (to_error error, dc))"

definition ConnectToGdbRemote :: "'w debug_api \<Rightarrow> string \<Rightarrow> string \<Rightarrow> nat \<Rightarrow> 'w fallible" where
  "ConnectToGdbRemote api hostname port timeout =
     and_then (check_call api (CallConnectRemote (''connect://'' @ hostname @ '':'' @ port))) (WaitForStop api timeout)"

text \<open>\<open>InitializeDebugger\<close>: the outer \<open>None\<close> is the end of the program, as in \<open>StartEventThread\<close>.\<close>

definition InitializeDebugger :: "'w debug_api \<Rightarrow> 'w DebugContext \<Rightarrow> (dap_error option \<times> 'w DebugContext) option" where
  "InitializeDebugger api dc =
     (let dc = do_call api CallCreateDebugger dc;
          dc = (if \<not> dc_no_lldbinit dc \<and> dc_source_init_file dc then do_call api CallSourceInitFiles dc else dc);
          (error, dc) = RunPreInitCommands api dc
      in case error of
           Some e \<Rightarrow> Some (Some e, dc)
         | None \<Rightarrow> map_option (Pair None) (StartEventThread api dc))"

definition after_initialize ::
  "'w debug_api \<Rightarrow> 'w fallible \<Rightarrow> 'w DebugContext \<Rightarrow> (dap_error option \<times> 'w DebugContext) option" where
  "after_initialize api rest dc =
     (case InitializeDebugger api dc of
        None \<Rightarrow> None
      | Some (Some e, dc) \<Rightarrow> Some (Some e, dc)
      | Some (None, dc) \<Rightarrow> Some (rest dc))"

section \<open>Launch\<close>

definition trace_unavailable :: "string \<Rightarrow> string" where
  "trace_unavailable e = ''trace unavailable: '' @ e"

definition EmitTraceStatus :: "'w debug_api \<Rightarrow> 'w DebugContext \<Rightarrow> 'w DebugContext" where
  "EmitTraceStatus api dc = (let (available, detail) = TraceStatus api dc in DebugContext_Emit (TraceStatusEvent available detail) dc)"

definition launch_trace :: "'w debug_api \<Rightarrow> 'w DebugContext \<Rightarrow> 'w DebugContext" where
  "launch_trace api dc =
     (let (error, dc) = CreateTrace api dc;
          dc = (case error of None \<Rightarrow> dc | Some e \<Rightarrow> DebugContext_SendOutput Console (trace_unavailable e) dc)
      in EmitTraceStatus api dc)"

definition launch_openocd :: "'w debug_api \<Rightarrow> LaunchRequestArguments \<Rightarrow> 'w fallible" where
  "launch_openocd api args dc =
     (let load_image_config = (if la_loadImage args then Some (la_loadImageConfig args) else None);
          (error, dc) = CreateOpenOcd api (ToOpenOcdConfig (la_openocd args) (cf_program (la_configuration args)) load_image_config) dc
      in case error of
           Some e \<Rightarrow> (Some (DAPError e), dc)
         | None \<Rightarrow> (None, do_call api CallOpenOcdMemory dc))"

definition configure_target :: "'w debug_api \<Rightarrow> 'w fallible" where
  "configure_target api =
     and_then (always (enter_debugger_root api)) (and_then (RunInitCommands api) (and_then (always (ConfigureSourceMaps api))
       (and_then (ConfigureHardwareBreakpointRequirement api) (and_then (CreateTarget api) (and_then (always (SetTarget api))
         (RunPreRunCommands api))))))"

definition Launch_rest :: "'w debug_api \<Rightarrow> LaunchRequestArguments \<Rightarrow> 'w fallible" where
  "Launch_rest api args dc =
     and_then (always (\<lambda>dc. (SetConfiguration api (la_configuration args) False dc)\<lparr>dc_has_last_launch := True\<rparr>))
     (and_then (launch_openocd api args)
     (and_then (configure_target api)
     (and_then (ConnectToGdbRemote api ''127.0.0.1'' (ow_gdbPort (la_openocd args)) (cf_timeout (la_configuration args)))
     (and_then (always (launch_trace api)) (always (RunPostRunCommands api)))))) dc"

definition TargetManager_Launch ::
  "'w debug_api \<Rightarrow> LaunchRequestArguments \<Rightarrow> 'w DebugContext \<Rightarrow> (dap_error option \<times> 'w DebugContext) option" where
  "TargetManager_Launch api args = after_initialize api (Launch_rest api args)"

section \<open>Attach\<close>

definition int_string :: "int \<Rightarrow> string" where
  "int_string i = (if i < 0 then CHR ''-'' # dec_string (nat (- i)) else dec_string (nat i))"

definition announce_wait :: "'w debug_api \<Rightarrow> AttachRequestArguments \<Rightarrow> 'w DebugContext \<Rightarrow> 'w DebugContext" where
  "announce_wait api args dc =
     (if (aa_pid args = LLDB_INVALID_PROCESS_ID \<or> aa_gdbRemotePort args = LLDB_DAP_INVALID_PORT) \<and> aa_waitFor args
      then DebugContext_SendOutput Console (''Waiting to attach to '' @ double_quoted (tv_executable_name (da_target api (dc_world dc))) @ ''...'') dc
      else dc)"

definition process_valid :: "'w debug_api \<Rightarrow> string \<Rightarrow> 'w fallible" where
  "process_valid api message dc = unless (pv_valid (process_of api dc)) (DAPError message) dc"

definition attach_locally :: "'w debug_api \<Rightarrow> AttachRequestArguments \<Rightarrow> 'w fallible" where
  "attach_locally api args dc =
     and_then
       (if aa_attachCommands args \<noteq> [] then
          and_then (RunAttachCommands api (aa_attachCommands args))
            (and_then (always (do_call api CallSelectTarget)) (process_valid api ''attachCommands failed to attach to a process''))
        else if aa_coreFile args \<noteq> [] then check_call api (CallLoadCore (aa_coreFile args))
        else
          check_call api (CallAttach
            (if aa_pid args \<noteq> LLDB_INVALID_PROCESS_ID then Some (aa_pid args) else None)
            (if aa_pid args = LLDB_INVALID_PROCESS_ID \<and> cf_program (dc_configuration dc) \<noteq> []
             then Some (cf_program (dc_configuration dc)) else None)
            (aa_waitFor args)))
       (WaitForStop api (cf_timeout (aa_configuration args))) dc"

definition Attach_rest :: "'w debug_api \<Rightarrow> AttachRequestArguments \<Rightarrow> 'w fallible" where
  "Attach_rest api args dc =
     and_then (always (\<lambda>dc. let dc = SetConfiguration api (aa_configuration args) True dc
                            in if aa_coreFile args \<noteq> [] then dc\<lparr>dc_stop_at_entry := True\<rparr> else dc))
     (and_then (configure_target api)
     (and_then (always (announce_wait api args))
     (and_then (if aa_gdbRemotePort args \<noteq> LLDB_DAP_INVALID_PORT
                then ConnectToGdbRemote api (aa_gdbRemoteHostname args) (int_string (aa_gdbRemotePort args))
                       (cf_timeout (aa_configuration args))
                else attach_locally api args)
     (and_then (if aa_coreFile args = [] then process_valid api ''failed to attach to process'' else always id)
       (always (RunPostRunCommands api)))))) dc"

definition TargetManager_Attach ::
  "'w debug_api \<Rightarrow> AttachRequestArguments \<Rightarrow> 'w DebugContext \<Rightarrow> (dap_error option \<times> 'w DebugContext) option" where
  "TargetManager_Attach api args = after_initialize api (Attach_rest api args)"

section \<open>Restart\<close>

datatype RestartArguments = SameArguments | RestartLaunch LaunchRequestArguments | RestartAttach

definition restart_configure :: "'w debug_api \<Rightarrow> RestartArguments \<Rightarrow> 'w fallible" where
  "restart_configure api args dc =
     (case args of
        SameArguments \<Rightarrow> (None, dc)
      | RestartAttach \<Rightarrow> (Some (DAPError ''Restarting an AttachRequest is not supported.''), dc)
      | RestartLaunch launch \<Rightarrow>
          and_then (always (\<lambda>dc. ConfigureSourceMaps api (SetConfiguration api (la_configuration launch) False (dc\<lparr>dc_has_last_launch := True\<rparr>))))
            (ConfigureHardwareBreakpointRequirement api) dc)"

text \<open>Up to the point where the client is told; the two flags follow, each on its own.\<close>

definition restart_announce :: "'w debug_api \<Rightarrow> 'w DebugContext \<Rightarrow> 'w DebugContext" where
  "restart_announce api dc = (SendContinuedEvent api (DebugContext_Emit (ResetEvent Started) dc))\<lparr>dc_thread_ids := {}\<rparr>"

definition restart_begin :: "'w debug_api \<Rightarrow> RestartArguments \<Rightarrow> 'w fallible" where
  "restart_begin api args =
     and_then (process_valid api ''Restart request received but no process was launched.'')
     (and_then (\<lambda>dc. unless (dc_openocd dc) (DAPError ''Restart is only supported for launch sessions.'') dc)
       (restart_configure api args))"

definition set_pending :: "'w DebugContext \<Rightarrow> 'w DebugContext" where
  "set_pending dc = dc\<lparr>dc_reset_pending_stop := True\<rparr>"

definition set_resume :: "'w DebugContext \<Rightarrow> 'w DebugContext" where
  "set_resume dc = dc\<lparr>dc_reset_resume_after_stop := \<not> dc_stop_at_entry dc\<rparr>"

definition clear_reset :: "'w DebugContext \<Rightarrow> 'w DebugContext" where
  "clear_reset dc = dc\<lparr>dc_reset_pending_stop := False, dc_reset_resume_after_stop := False\<rparr>"

definition tcl_or_clear :: "'w debug_api \<Rightarrow> string \<Rightarrow> 'w fallible" where
  "tcl_or_clear api command dc =
     (let (error, dc) = call api (CallTcl command) dc in
      case error of None \<Rightarrow> (None, dc) | Some e \<Rightarrow> (Some (DAPError e), clear_reset dc))"

definition restart_trace :: "'w debug_api \<Rightarrow> bool \<Rightarrow> 'w DebugContext \<Rightarrow> 'w DebugContext" where
  "restart_trace api trace_was_enabled dc =
     (let (error, dc) = CreateTrace api (do_call api CallInvalidateProgram dc) in
      case error of
        Some e \<Rightarrow> EmitTraceStatus api (DebugContext_SendOutput Console (trace_unavailable e) dc)
      | None \<Rightarrow>
          if trace_was_enabled then
            (let (error, dc) = call api CallEnableTrace dc in
             case error of
               Some e \<Rightarrow> EmitTraceStatus api (DebugContext_SendOutput Console (''trace re-arm failed: '' @ e) dc)
             | None \<Rightarrow> dc)
          else EmitTraceStatus api dc)"

definition restart_resync :: "'w debug_api \<Rightarrow> 'w fallible" where
  "restart_resync api =
     and_then (tcl_or_clear api ''gdb_resync'')
       (\<lambda>dc. check_call api (CallStepInstruction (th_id (GetThreadAtIndex (process_of api dc) 0)) False) dc)"

definition trace_armed :: "'w debug_api \<Rightarrow> 'w DebugContext \<Rightarrow> bool" where
  "trace_armed api dc \<longleftrightarrow> dc_trace dc \<and> da_trace_enabled api (dc_world dc)"

definition restart_target :: "'w debug_api \<Rightarrow> bool \<Rightarrow> bool \<Rightarrow> 'w fallible" where
  "restart_target api was_running trace_was_enabled =
     and_then (tcl_or_clear api ''reset halt'')
     (and_then (always (restart_trace api trace_was_enabled))
       (if was_running then always id else restart_resync api))"

definition TargetManager_Restart :: "'w debug_api \<Rightarrow> RestartArguments \<Rightarrow> 'w fallible" where
  "TargetManager_Restart api args =
     and_then (restart_begin api args)
       (\<lambda>dc. let was_running = (\<not> stopped api dc);
                 trace_was_enabled = trace_armed api dc;
                 dc = set_resume (set_pending (restart_announce api dc))
             in restart_target api was_running trace_was_enabled (ShutdownTrace api dc))"

section \<open>Disconnect\<close>

definition leaves_process :: "StateType \<Rightarrow> bool" where
  "leaves_process state \<longleftrightarrow> state \<in> {eStateInvalid, eStateUnloaded, eStateDetached, eStateExited}"

definition Disconnect :: "'w debug_api \<Rightarrow> bool \<Rightarrow> 'w fallible" where
  "Disconnect api terminate_debuggee dc =
     (let (error, dc) = (if leaves_process (pv_state (process_of api dc)) then (None, dc)
                         else call api (if terminate_debuggee then CallKill else CallDetach) dc);
          dc = SendTerminatedEvent api dc;
          dc = StopEventHandlers api dc;
          dc = do_call api CallRequestStop dc;
          dc = ShutdownTrace api dc;
          dc = do_call api CallStopAllWatches dc;
          dc = do_call api CallStopAllPeripheralWatches dc;
          dc = ShutdownOpenOcd api dc
      in (to_error error, dc))"

definition Disconnect_default :: "'w debug_api \<Rightarrow> 'w fallible" where
  "Disconnect_default api dc = Disconnect api (\<not> dc_is_attach dc) dc"

end
