(* ===== verification/Debug_Session.thy ===== *)
theory Debug_Session
  imports Target_Manager
begin

text \<open>
  The execution controller and the target manager at work together: the thread that handles LLDB's events and the
  thread that handles requests, as a transition system.  A stop is handled, and a restart carried out, in the
  pieces between two accesses to what the threads share; \<open>SendThreadStoppedEvent\<close> needs the lock that a
  restart holds from its beginning to its end.
\<close>

section \<open>The other requests\<close>

datatype session_request =
    ConfigurationDoneRequest
  | ContinueRequest tid bool
  | PauseRequest
  | NextRequest tid bool bool
  | StepInRequest tid bool "u64 option" bool
  | StepOutRequest tid
  | ThreadsRequest
  | StepInTargetsRequest step_env "step_instruction list option option"
  | LaunchRequest LaunchRequestArguments
  | AttachRequest AttachRequestArguments
  | DisconnectRequest "bool option"

definition perform :: "'w debug_api \<Rightarrow> ExceptionBreakpoint list \<Rightarrow> session_request \<Rightarrow> 'w DebugContext \<Rightarrow> 'w DebugContext option" where
  "perform api ebs r dc =
     (case r of
        ConfigurationDoneRequest \<Rightarrow> Some (snd (ConfigurationDone api ebs dc))
      | ContinueRequest t single \<Rightarrow> Some (snd (Continue api t single dc))
      | PauseRequest \<Rightarrow> Some (snd (Pause api dc))
      | NextRequest t single by_instruction \<Rightarrow> Some (snd (Next api t single by_instruction dc))
      | StepInRequest t single target by_instruction \<Rightarrow> Some (snd (StepIn api t single target by_instruction dc))
      | StepOutRequest t \<Rightarrow> Some (snd (StepOut api t dc))
      | ThreadsRequest \<Rightarrow> Some (snd (GetThreadsRequest api dc))
      | StepInTargetsRequest env frame \<Rightarrow> Some (snd (GetStepInTargets env frame dc))
      | LaunchRequest args \<Rightarrow> map_option snd (TargetManager_Launch api args dc)
      | AttachRequest args \<Rightarrow> map_option snd (TargetManager_Attach api args dc)
      | DisconnectRequest terminate \<Rightarrow>
          Some (snd (case terminate of None \<Rightarrow> Disconnect_default api dc | Some t \<Rightarrow> Disconnect api t dc)))"

section \<open>The transition system\<close>

datatype event_at = EventIdle | ExchangePending | EmitComplete | TakeResume | Resuming | Invalidating
  | Reporting bool | ContinuedDue | EventGone

text \<open>A restart carries whether the process was running and whether the trace was armed.\<close>

datatype request_at = RequestIdle | SettingPending bool bool | SettingResume bool bool | Resetting bool bool
  | Rearming bool bool | Resyncing | Clearing

record 'w session =
  ss_context :: "'w DebugContext"
  ss_event :: event_at
  ss_request :: request_at

definition event_goes :: "('w DebugContext \<Rightarrow> 'w DebugContext) \<Rightarrow> event_at \<Rightarrow> 'w session \<Rightarrow> 'w session" where
  "event_goes f at s = s\<lparr>ss_context := f (ss_context s), ss_event := at\<rparr>"

definition request_goes :: "('w DebugContext \<Rightarrow> 'w DebugContext) \<Rightarrow> request_at \<Rightarrow> 'w session \<Rightarrow> 'w session" where
  "request_goes f at s = s\<lparr>ss_context := f (ss_context s), ss_request := at\<rparr>"

text \<open>A piece that may fail: where it goes if it does, and if it does not.\<close>

definition request_tries :: "'w fallible \<Rightarrow> request_at \<Rightarrow> request_at \<Rightarrow> 'w session \<Rightarrow> 'w session" where
  "request_tries m failed passed s =
     (let (error, dc) = m (ss_context s) in s\<lparr>ss_context := dc, ss_request := (if error = None then passed else failed)\<rparr>)"

inductive event_step :: "'w debug_api \<Rightarrow> ExceptionBreakpoint list \<Rightarrow> 'w session \<Rightarrow> 'w session \<Rightarrow> bool" for api ebs where
  stop_event: "ss_event s = EventIdle \<Longrightarrow> event_step api ebs s (event_goes (SendStdOutStdErr api) ExchangePending s)"
| exchange: "ss_event s = ExchangePending \<Longrightarrow> take_pending (ss_context s) = (reset_stop, dc) \<Longrightarrow>
    event_step api ebs s (event_goes (\<lambda>_. dc) (if reset_stop then EmitComplete else Reporting False) s)"
| complete: "ss_event s = EmitComplete \<Longrightarrow> event_step api ebs s (event_goes (DebugContext_Emit (ResetEvent Complete)) TakeResume s)"
| take_resume: "ss_event s = TakeResume \<Longrightarrow> take_resume (ss_context s) = (resume, dc) \<Longrightarrow>
    event_step api ebs s (event_goes (\<lambda>_. dc) (if resume then Resuming else Invalidating) s)"
| resume: "ss_event s = Resuming \<Longrightarrow> event_step api ebs s (event_goes (resume_after_reset api) EventIdle s)"
| invalidate: "ss_event s = Invalidating \<Longrightarrow>
    event_step api ebs s (event_goes (SendInvalidatedEvent api [eAreaAll] LLDB_INVALID_THREAD_ID) (Reporting True) s)"
| report: "ss_event s = Reporting reset_stop \<Longrightarrow> ss_request s = RequestIdle \<Longrightarrow>
    event_step api ebs s (event_goes (report_stop api ebs reset_stop) EventIdle s)"
| running: "ss_event s = EventIdle \<Longrightarrow> event_step api ebs s (event_goes WillContinue ContinuedDue s)"
| continued: "ss_event s = ContinuedDue \<Longrightarrow>
    event_step api ebs s (event_goes (\<lambda>dc. if \<not> dc_reset_pending_stop dc then SendContinuedEvent api dc else dc) EventIdle s)"
| exited: "ss_event s = EventIdle \<Longrightarrow> handle_exit api (ss_context s) = (gone, dc) \<Longrightarrow>
    event_step api ebs s (event_goes (\<lambda>_. dc) (if gone then EventGone else EventIdle) s)"
| other_event: "ss_event s = EventIdle \<Longrightarrow> (\<And>state restarted. event \<noteq> ProcessChange (StateChanged state restarted)) \<Longrightarrow>
    handle_event api ebs event (ss_context s) = (gone, dc) \<Longrightarrow>
    event_step api ebs s (event_goes (\<lambda>_. dc) (if gone then EventGone else EventIdle) s)"

inductive request_step :: "'w debug_api \<Rightarrow> ExceptionBreakpoint list \<Rightarrow> 'w session \<Rightarrow> 'w session \<Rightarrow> bool" for api ebs where
  request: "ss_request s = RequestIdle \<Longrightarrow> perform api ebs r (ss_context s) = Some dc \<Longrightarrow>
    request_step api ebs s (request_goes (\<lambda>_. dc) RequestIdle s)"
| restart_refused: "ss_request s = RequestIdle \<Longrightarrow> restart_begin api args (ss_context s) = (Some e, dc) \<Longrightarrow>
    request_step api ebs s (request_goes (\<lambda>_. dc) RequestIdle s)"
| restart: "ss_request s = RequestIdle \<Longrightarrow> restart_begin api args (ss_context s) = (None, dc) \<Longrightarrow>
    request_step api ebs s (request_goes (\<lambda>_. restart_announce api dc) (SettingPending (\<not> stopped api dc) (trace_armed api dc)) s)"
| set_pending: "ss_request s = SettingPending r t \<Longrightarrow> request_step api ebs s (request_goes set_pending (SettingResume r t) s)"
| set_resume: "ss_request s = SettingResume r t \<Longrightarrow> request_step api ebs s (request_goes set_resume (Resetting r t) s)"
| reset: "ss_request s = Resetting r t \<Longrightarrow>
    request_step api ebs s (request_tries (\<lambda>dc. check_call api (CallTcl ''reset halt'') (ShutdownTrace api dc)) Clearing (Rearming r t) s)"
| rearm: "ss_request s = Rearming r t \<Longrightarrow>
    request_step api ebs s (request_goes (restart_trace api t) (if r then RequestIdle else Resyncing) s)"
| resync: "ss_request s = Resyncing \<Longrightarrow> call api (CallTcl ''gdb_resync'') (ss_context s) = (Some e, dc) \<Longrightarrow>
    request_step api ebs s (request_goes (\<lambda>_. dc) Clearing s)"
| step: "ss_request s = Resyncing \<Longrightarrow> call api (CallTcl ''gdb_resync'') (ss_context s) = (None, dc) \<Longrightarrow>
    request_step api ebs s (request_goes (\<lambda>_. snd (call api (CallStepInstruction (th_id (GetThreadAtIndex (process_of api dc) 0)) False) dc)) RequestIdle s)"
| clear: "ss_request s = Clearing \<Longrightarrow> request_step api ebs s (request_goes clear_reset RequestIdle s)"

text \<open>The target changes on its own as well.\<close>

inductive session_step :: "'w debug_api \<Rightarrow> ExceptionBreakpoint list \<Rightarrow> 'w session \<Rightarrow> 'w session \<Rightarrow> bool" for api ebs where
  by_event: "event_step api ebs s s' \<Longrightarrow> session_step api ebs s s'"
| by_request: "request_step api ebs s s' \<Longrightarrow> session_step api ebs s s'"
| by_target: "session_step api ebs s (s\<lparr>ss_context := (ss_context s)\<lparr>dc_world := w\<rparr>\<rparr>)"

abbreviation session_run where "session_run api ebs \<equiv> (session_step api ebs)\<^sup>*\<^sup>*"

definition new_session :: "'w \<Rightarrow> 'w session" where
  "new_session w = \<lparr>ss_context = new_DebugContext w, ss_event = EventIdle, ss_request = RequestIdle\<rparr>"

section \<open>What stays quiet\<close>

text \<open>The actions the invariant counts, and the operations that take none of them and leave its flags alone.\<close>

fun loud :: "debug_action \<Rightarrow> bool" where
  "loud (Emitted (ResetEvent _)) = True"
| "loud (Emitted (TerminatedEvent _)) = True"
| "loud _ = False"

definition quiet :: "'w DebugContext \<Rightarrow> 'w DebugContext \<Rightarrow> bool" where
  "quiet dc dc' \<longleftrightarrow> (\<exists>xs. dc_log dc' = dc_log dc @ xs \<and> (\<forall>a \<in> set xs. \<not> loud a)) \<and>
     dc_reset_pending_stop dc' = dc_reset_pending_stop dc \<and> dc_terminated dc' = dc_terminated dc \<and>
     (dc_event_thread dc \<longrightarrow> dc_event_thread dc')"

named_theorems quiet_ops \<open>operations that stay quiet\<close>

lemma quiet_refl [quiet_ops]: "quiet a a"
  by (simp add: quiet_def)

lemma quiet_act [quiet_ops]: "quiet a b \<Longrightarrow> \<not> loud x \<Longrightarrow> quiet a (act x b)"
  by (fastforce simp: quiet_def act_def)

lemma quiet_updates [quiet_ops]:
  "quiet a b \<Longrightarrow> quiet a (b\<lparr>dc_world := w\<rparr>)"
  "quiet a b \<Longrightarrow> quiet a (b\<lparr>dc_focus_tid := i\<rparr>)"
  "quiet a b \<Longrightarrow> quiet a (b\<lparr>dc_thread_ids := ids\<rparr>)"
  "quiet a b \<Longrightarrow> quiet a (b\<lparr>dc_step_in_targets := m\<rparr>)"
  "quiet a b \<Longrightarrow> quiet a (b\<lparr>dc_stop_at_entry := x\<rparr>)"
  "quiet a b \<Longrightarrow> quiet a (b\<lparr>dc_configuration_done := x\<rparr>)"
  "quiet a b \<Longrightarrow> quiet a (b\<lparr>dc_reset_resume_after_stop := x\<rparr>)"
  "quiet a b \<Longrightarrow> quiet a (b\<lparr>dc_initial_thread_list := l\<rparr>)"
  "quiet a b \<Longrightarrow> quiet a (b\<lparr>dc_event_thread := True\<rparr>)"
  "quiet a b \<Longrightarrow> quiet a (b\<lparr>dc_modules := ms\<rparr>)"
  "quiet a b \<Longrightarrow> quiet a (b\<lparr>dc_configuration := config\<rparr>)"
  "quiet a b \<Longrightarrow> quiet a (b\<lparr>dc_has_last_launch := x\<rparr>)"
  "quiet a b \<Longrightarrow> quiet a (b\<lparr>dc_is_attach := x\<rparr>)"
  "quiet a b \<Longrightarrow> quiet a (b\<lparr>dc_openocd := x\<rparr>)"
  "quiet a b \<Longrightarrow> quiet a (b\<lparr>dc_trace := x\<rparr>)"
  "quiet a b \<Longrightarrow> quiet a (b\<lparr>dc_trace_unavailable_reason := s\<rparr>)"
  "quiet a b \<Longrightarrow> quiet a (b\<lparr>dc_auto_variable_summaries := x\<rparr>)"
  "quiet a b \<Longrightarrow> quiet a (b\<lparr>dc_command_escape_prefix := s\<rparr>)"
  by (simp_all add: quiet_def)

lemma quiet_Emit [quiet_ops]: "quiet a b \<Longrightarrow> \<not> loud (Emitted e) \<Longrightarrow> quiet a (DebugContext_Emit e b)"
  unfolding DebugContext_Emit_def by (rule quiet_act)

lemma quiet_api_call [quiet_ops]: "quiet a b \<Longrightarrow> quiet a (snd (call api c b))"
  by (auto simp: call_def split_beta intro!: quiet_ops)

lemma quiet_do_call [quiet_ops]: "quiet a b \<Longrightarrow> quiet a (do_call api c b)"
  by (auto simp: do_call_def intro!: quiet_ops)

lemma quiet_SendOutput [quiet_ops]: "quiet a b \<Longrightarrow> quiet a (DebugContext_SendOutput c s b)"
  by (auto simp: DebugContext_SendOutput_def intro!: quiet_ops)

lemma quiet_commands [quiet_ops]: "quiet a b \<Longrightarrow> quiet a (snd (TargetManager_RunLLDBCommands api p cs b))"
  by (auto simp: TargetManager_RunLLDBCommands_def split_beta Let_def intro!: quiet_ops)

lemma quiet_run_commands [quiet_ops]:
  "quiet a b \<Longrightarrow> quiet a (RunStopCommands api b)" "quiet a b \<Longrightarrow> quiet a (RunExitCommands api b)"
  "quiet a b \<Longrightarrow> quiet a (RunTerminateCommands api b)" "quiet a b \<Longrightarrow> quiet a (RunPostRunCommands api b)"
  by (simp_all add: RunStopCommands_def RunExitCommands_def RunTerminateCommands_def RunPostRunCommands_def quiet_commands)

lemma quiet_fold [quiet_ops]: "quiet a b \<Longrightarrow> (\<And>x b. quiet a b \<Longrightarrow> quiet a (f x b)) \<Longrightarrow> quiet a (fold f xs b)"
  by (induction xs arbitrary: b) simp_all

lemma quiet_traces [quiet_ops]:
  "quiet a b \<Longrightarrow> quiet a (snd (CreateTrace api b))" "quiet a b \<Longrightarrow> quiet a (ShutdownTrace api b)"
  "quiet a b \<Longrightarrow> quiet a (ShutdownOpenOcd api b)" "quiet a b \<Longrightarrow> quiet a (snd (CreateOpenOcd api config b))"
  by (auto simp: CreateTrace_def ShutdownTrace_def ShutdownOpenOcd_def CreateOpenOcd_def Let_def split_beta
      intro!: quiet_ops split: option.split)

lemma quiet_events [quiet_ops]:
  "quiet a b \<Longrightarrow> quiet a (WillContinue b)" "quiet a b \<Longrightarrow> quiet a (SendStdOutStdErr api b)"
  "quiet a b \<Longrightarrow> quiet a (SendContinuedEvent api b)" "quiet a b \<Longrightarrow> quiet a (SendInvalidatedEvent api areas i b)"
  "quiet a b \<Longrightarrow> quiet a (SendProcessExitedEvent api b)" "quiet a b \<Longrightarrow> quiet a (SendExtraCapabilities api b)"
  "quiet a b \<Longrightarrow> quiet a (SendProcessEvent api m b)" "quiet a b \<Longrightarrow> quiet a (SendThreadExitedEvent i b)"
  "quiet a b \<Longrightarrow> quiet a (EmitStopped api ebs n t b)"
  by (auto simp: WillContinue_def SendStdOutStdErr_def SendContinuedEvent_def SendInvalidatedEvent_def SendProcessExitedEvent_def
      SendExtraCapabilities_def SendProcessEvent_def SendThreadExitedEvent_def EmitStopped_def Let_def split_beta intro!: quiet_ops)

lemma quiet_report_thread [quiet_ops]: "quiet a b \<Longrightarrow> quiet a (report_thread api ebs n t b)"
  by (auto simp: report_thread_def Let_def intro!: quiet_ops)

lemma quiet_SendThreadStopped [quiet_ops]: "quiet a b \<Longrightarrow> quiet a (snd (SendThreadStoppedEvent api ebs e b))"
  by (auto simp: SendThreadStoppedEvent_def Let_def split_beta intro!: quiet_ops)

lemma quiet_report_stop [quiet_ops]: "quiet a b \<Longrightarrow> quiet a (report_stop api ebs r b)"
  by (auto simp: report_stop_def Let_def split_beta intro!: quiet_ops split: option.split)

lemma quiet_resume_after_reset [quiet_ops]: "quiet a b \<Longrightarrow> quiet a (resume_after_reset api b)"
  by (auto simp: resume_after_reset_def intro!: quiet_ops)

lemma quiet_target_events [quiet_ops]:
  "quiet a b \<Longrightarrow> quiet a (HandleTargetEvent api c b)" "quiet a b \<Longrightarrow> quiet a (HandleBreakpointEvent bc b)"
  "quiet a b \<Longrightarrow> quiet a (HandleThreadEvent api x t b)" "quiet a b \<Longrightarrow> quiet a (HandleDiagnosticEvent d b)"
  by (auto simp: HandleTargetEvent_def HandleBreakpointEvent_def HandleThreadEvent_def HandleDiagnosticEvent_def Let_def
      split_beta intro!: quiet_ops split: target_change.split option.split)

lemma quiet_other_event:
  "(\<And>state restarted. event \<noteq> ProcessChange (StateChanged state restarted)) \<Longrightarrow>
   quiet dc (snd (handle_event api ebs event dc))"
  by (cases event) (auto simp: handle_event_def HandleProcessEvent_def intro!: quiet_ops split: process_event.split)

lemma quiet_and_then:
  "(\<And>b. quiet a b \<Longrightarrow> quiet a (snd (m b))) \<Longrightarrow> (\<And>b. quiet a b \<Longrightarrow> quiet a (snd (k b))) \<Longrightarrow> quiet a b \<Longrightarrow>
   quiet a (snd (and_then m k b))"
  by (auto simp: and_then_def Let_def split_beta split: option.split)

lemma quiet_steps [quiet_ops]:
  "(\<And>b. quiet a b \<Longrightarrow> quiet a (f b)) \<Longrightarrow> quiet a b \<Longrightarrow> quiet a (snd (always f b))"
  "quiet a b \<Longrightarrow> quiet a (snd (check_call api c b))"
  "quiet a b \<Longrightarrow> quiet a (snd (unless ok e b))"
  "quiet a b \<Longrightarrow> quiet a (snd (run_required api p cs g b))"
  "quiet a b \<Longrightarrow> quiet a (snd (process_valid api msg b))"
  "quiet a b \<Longrightarrow> quiet a (snd (WaitForStop api n b))"
  by (auto simp: always_def check_call_def unless_def run_required_def process_valid_def WaitForStop_def
      WaitForProcessToStop_def Let_def split_beta intro!: quiet_ops)

lemma quiet_configuration [quiet_ops]:
  "quiet a b \<Longrightarrow> quiet a (SetConfiguration api config x b)" "quiet a b \<Longrightarrow> quiet a (ConfigureSourceMaps api b)"
  "quiet a b \<Longrightarrow> quiet a (snd (ConfigureHardwareBreakpointRequirement api b))"
  "quiet a b \<Longrightarrow> quiet a (snd (RunPreInitCommands api b))" "quiet a b \<Longrightarrow> quiet a (snd (RunInitCommands api b))"
  "quiet a b \<Longrightarrow> quiet a (snd (RunPreRunCommands api b))" "quiet a b \<Longrightarrow> quiet a (snd (RunAttachCommands api cs b))"
  "quiet a b \<Longrightarrow> quiet a (enter_debugger_root api b)" "quiet a b \<Longrightarrow> quiet a (snd (CreateTarget api b))"
  "quiet a b \<Longrightarrow> quiet a (SetTarget api b)" "quiet a b \<Longrightarrow> quiet a (EmitTraceStatus api b)"
  "quiet a b \<Longrightarrow> quiet a (announce_wait api at b)"
  by (auto simp: SetConfiguration_def ConfigureSourceMaps_def ConfigureHardwareBreakpointRequirement_def RunPreInitCommands_def
      RunInitCommands_def RunPreRunCommands_def RunAttachCommands_def enter_debugger_root_def CreateTarget_def SetTarget_def
      EmitTraceStatus_def announce_wait_def Let_def split_beta intro!: quiet_ops split: option.split)

lemma quiet_connect [quiet_ops]: "quiet a b \<Longrightarrow> quiet a (snd (ConnectToGdbRemote api h p n b))"
  unfolding ConnectToGdbRemote_def by (intro quiet_and_then quiet_ops)

lemma quiet_launch_parts [quiet_ops]:
  "quiet a b \<Longrightarrow> quiet a (launch_trace api b)" "quiet a b \<Longrightarrow> quiet a (snd (launch_openocd api args b))"
  by (auto simp: launch_trace_def launch_openocd_def Let_def split_beta intro!: quiet_ops split: option.split)

lemma quiet_configure_target [quiet_ops]: "quiet a b \<Longrightarrow> quiet a (snd (configure_target api b))"
  unfolding configure_target_def by (intro quiet_and_then quiet_ops)

lemma quiet_Launch_rest [quiet_ops]: "quiet a b \<Longrightarrow> quiet a (snd (Launch_rest api args b))"
  unfolding Launch_rest_def by (intro quiet_and_then quiet_ops)

lemma quiet_attach_locally [quiet_ops]: "quiet a b \<Longrightarrow> quiet a (snd (attach_locally api at b))"
  unfolding attach_locally_def by (auto intro!: quiet_and_then quiet_ops)

lemma quiet_Attach_rest [quiet_ops]: "quiet a b \<Longrightarrow> quiet a (snd (Attach_rest api at b))"
  unfolding Attach_rest_def Let_def by (auto intro!: quiet_and_then quiet_ops)

lemma quiet_StartEventThread: "StartEventThread api b = Some b' \<Longrightarrow> quiet a b \<Longrightarrow> quiet a b'"
  by (auto simp: StartEventThread_def intro!: quiet_ops split: if_splits)

lemma quiet_after_initialize:
  assumes "after_initialize api rest b = Some (e, b')" and "\<And>b. quiet a b \<Longrightarrow> quiet a (snd (rest b))" and "quiet a b"
  shows "quiet a b'"
proof -
  define b1 where "b1 = (let dc = do_call api CallCreateDebugger b
    in if \<not> dc_no_lldbinit dc \<and> dc_source_init_file dc then do_call api CallSourceInitFiles dc else dc)"
  have q: "quiet a b1" using assms(3) by (auto simp: b1_def Let_def intro!: quiet_ops)
  obtain e2 b2 where r: "RunPreInitCommands api b1 = (e2, b2)" by fastforce
  then have q2: "quiet a b2" using quiet_configuration(4) [OF q, of api] by simp
  have i: "InitializeDebugger api b = (case e2 of Some e \<Rightarrow> Some (Some e, b2) | None \<Rightarrow> map_option (Pair None) (StartEventThread api b2))"
    using r by (simp add: InitializeDebugger_def b1_def Let_def)
  show ?thesis
  proof (cases e2)
    case None
    then obtain b3 where s: "StartEventThread api b2 = Some b3" and "rest b3 = (e, b')"
      using assms(1) i by (auto simp: after_initialize_def split: option.splits)
    then show ?thesis using assms(2) [OF quiet_StartEventThread [OF s q2]] by simp
  next
    case (Some e3)
    then show ?thesis using assms(1) i q2 by (auto simp: after_initialize_def)
  qed
qed

lemma quiet_requests [quiet_ops]:
  "quiet a b \<Longrightarrow> quiet a (snd (ConfigurationDone api ebs b))" "quiet a b \<Longrightarrow> quiet a (snd (Continue api t x b))"
  "quiet a b \<Longrightarrow> quiet a (snd (Pause api b))" "quiet a b \<Longrightarrow> quiet a (snd (Next api t x y b))"
  "quiet a b \<Longrightarrow> quiet a (snd (StepIn api t x z y b))" "quiet a b \<Longrightarrow> quiet a (snd (StepOut api t b))"
  "quiet a b \<Longrightarrow> quiet a (snd (GetThreadsRequest api b))" "quiet a b \<Longrightarrow> quiet a (snd (GetStepInTargets env frame b))"
  by (auto simp: ConfigurationDone_def Continue_def Pause_def Next_def StepIn_def StepOut_def GetThreadsRequest_def
      GetStepInTargets_def Let_def split_beta intro!: quiet_ops split: option.split)

lemma quiet_restart_begin [quiet_ops]: "quiet a b \<Longrightarrow> quiet a (snd (restart_begin api args b))"
  unfolding restart_begin_def
  by (auto simp: restart_configure_def intro!: quiet_and_then quiet_ops split: RestartArguments.split)

lemma quiet_restart_trace [quiet_ops]: "quiet a b \<Longrightarrow> quiet a (restart_trace api t b)"
  by (auto simp: restart_trace_def Let_def split_beta intro!: quiet_ops split: option.split)

section \<open>Resets and the end of the session\<close>

definition starts :: "debug_action list \<Rightarrow> nat" where
  "starts log = length (filter (\<lambda>a. a = Emitted (ResetEvent Started)) log)"

definition completes :: "debug_action list \<Rightarrow> nat" where
  "completes log = length (filter (\<lambda>a. a = Emitted (ResetEvent Complete)) log)"

definition terminations :: "debug_action list \<Rightarrow> nat" where
  "terminations log = length (filter (\<lambda>a. a \<in> range (Emitted \<circ> TerminatedEvent)) log)"

lemmas counts = starts_def completes_def terminations_def

definition bracketed :: "debug_action list \<Rightarrow> bool" where
  "bracketed log \<longleftrightarrow> (\<forall>n. completes (take n log) \<le> starts (take n log))"

lemma counts_quiet:
  assumes "\<forall>a \<in> set xs. \<not> loud a"
  shows "starts xs = 0" "completes xs = 0" "terminations xs = 0"
  using assms by (auto simp: counts filter_empty_conv)

lemma counts_append:
  "starts (xs @ ys) = starts xs + starts ys" "completes (xs @ ys) = completes xs + completes ys"
  "terminations (xs @ ys) = terminations xs + terminations ys"
  by (simp_all add: counts)

lemma bracketed_quiet: "bracketed log \<Longrightarrow> \<forall>a \<in> set xs. \<not> loud a \<Longrightarrow> bracketed (log @ xs)"
proof -
  assume b: "bracketed log" and q: "\<forall>a \<in> set xs. \<not> loud a"
  have "completes (take n xs) = 0" for n using q by (intro counts_quiet) (auto dest: in_set_takeD)
  then show "bracketed (log @ xs)" using b by (auto simp: bracketed_def counts_append intro: trans_le_add1)
qed

lemma bracketed_snoc: "bracketed log \<Longrightarrow> completes (log @ [a]) \<le> starts (log @ [a]) \<Longrightarrow> bracketed (log @ [a])"
  unfolding bracketed_def by (auto simp: take_Cons' not_less)

text \<open>What is owed: pieces that will complete a reset, or set the flag that does.\<close>

definition context_ok :: "'w DebugContext \<Rightarrow> nat \<Rightarrow> bool" where
  "context_ok dc n \<longleftrightarrow> bracketed (dc_log dc) \<and>
     completes (dc_log dc) + n + of_bool (dc_reset_pending_stop dc) \<le> starts (dc_log dc) \<and>
     terminations (dc_log dc) = of_bool (dc_terminated dc)"

definition event_owed :: "event_at \<Rightarrow> nat" where
  "event_owed at = of_bool (at = EmitComplete)"

definition request_owed :: "request_at \<Rightarrow> nat" where
  "request_owed at = (case at of SettingPending _ _ \<Rightarrow> 1 | _ \<Rightarrow> 0)"

definition session_ok :: "'w session \<Rightarrow> bool" where
  "session_ok s \<longleftrightarrow> context_ok (ss_context s) (event_owed (ss_event s) + request_owed (ss_request s))"

lemma context_ok_quiet: "context_ok dc n \<Longrightarrow> quiet dc dc' \<Longrightarrow> m \<le> n \<Longrightarrow> context_ok dc' m"
  by (auto simp: context_ok_def quiet_def counts_append counts_quiet bracketed_quiet)

lemma context_ok_pieces:
  "context_ok dc n \<Longrightarrow> context_ok (DebugContext_Emit (ResetEvent Started) dc) (Suc n)"
  "context_ok dc (Suc n) \<Longrightarrow> context_ok (DebugContext_Emit (ResetEvent Complete) dc) n"
  "context_ok dc n \<Longrightarrow> take_pending dc = (b, dc') \<Longrightarrow> context_ok dc' (n + of_bool b)"
  "context_ok dc (Suc n) \<Longrightarrow> context_ok (set_pending dc) n"
  "context_ok dc n \<Longrightarrow> context_ok (clear_reset dc) n"
  by (auto simp: context_ok_def DebugContext_Emit_def act_def take_pending_def set_pending_def clear_reset_def counts image_iff
      split: if_splits intro!: bracketed_snoc)

lemma context_ok_terminated: "context_ok dc n \<Longrightarrow> context_ok (SendTerminatedEvent api dc) n"
proof (cases "dc_terminated dc")
  case True
  then show "context_ok dc n \<Longrightarrow> ?thesis" by (simp add: SendTerminatedEvent_def)
next
  case False
  assume ok: "context_ok dc n"
  let ?dc = "RunTerminateCommands api (dc\<lparr>dc_terminated := True\<rparr>)"
  have q: "quiet (dc\<lparr>dc_terminated := True\<rparr>) ?dc" by (intro quiet_ops)
  obtain xs where xs: "dc_log ?dc = dc_log dc @ xs" "\<forall>a \<in> set xs. \<not> loud a" using q by (auto simp: quiet_def)
  have f: "dc_reset_pending_stop ?dc = dc_reset_pending_stop dc" "dc_terminated ?dc" using q by (auto simp: quiet_def)
  have "bracketed (dc_log dc @ xs)" using ok xs(2) by (simp add: context_ok_def bracketed_quiet)
  moreover have "starts [Emitted (TerminatedEvent m)] = 0" "completes [Emitted (TerminatedEvent m)] = 0"
    "terminations [Emitted (TerminatedEvent m)] = 1" for m by (auto simp: counts)
  ultimately show ?thesis using ok False f xs
    by (auto simp: SendTerminatedEvent_def DebugContext_Emit_def act_def context_ok_def counts_append counts_quiet Let_def
        simp del: append_assoc intro!: bracketed_snoc)
qed

lemma context_ok_StopEventHandlers: "context_ok dc n \<Longrightarrow> context_ok (StopEventHandlers api dc) n"
proof -
  assume ok: "context_ok dc n"
  have "context_ok (do_call api CallStopEventThread dc) n" by (rule context_ok_quiet [OF ok]) (intro quiet_ops order_refl)+
  then show ?thesis using ok by (simp add: StopEventHandlers_def context_ok_def)
qed

lemma context_ok_exit: "context_ok dc n \<Longrightarrow> context_ok (snd (handle_exit api dc)) n"
proof -
  assume ok: "context_ok dc n"
  let ?dc = "DebugContext_SendOutput Console (pv_status (process_of api dc)) dc"
  have "context_ok (SendProcessExitedEvent api (RunExitCommands api ?dc)) n" "context_ok ?dc n"
    by (rule context_ok_quiet [OF ok]; (intro quiet_ops order_refl))+
  then show ?thesis by (simp add: handle_exit_def Let_def context_ok_terminated)
qed

lemma context_ok_Disconnect: "context_ok dc n \<Longrightarrow> context_ok (snd (Disconnect api t dc)) n"
proof -
  assume ok: "context_ok dc n"
  define dc1 where "dc1 = snd (if leaves_process (pv_state (process_of api dc)) then (None, dc)
    else call api (if t then CallKill else CallDetach) dc)"
  have "context_ok dc1 n" by (rule context_ok_quiet [OF ok]) (auto simp: dc1_def intro!: quiet_ops)
  then have "context_ok (StopEventHandlers api (SendTerminatedEvent api dc1)) n"
    by (intro context_ok_StopEventHandlers context_ok_terminated)
  then have "context_ok (ShutdownOpenOcd api (do_call api CallStopAllPeripheralWatches (do_call api CallStopAllWatches
      (ShutdownTrace api (do_call api CallRequestStop (StopEventHandlers api (SendTerminatedEvent api dc1))))))) n"
    by (rule context_ok_quiet) (intro quiet_ops order_refl)+
  then show ?thesis by (simp add: Disconnect_def Let_def split_beta dc1_def)
qed

lemma context_ok_perform: "context_ok dc n \<Longrightarrow> perform api ebs r dc = Some dc' \<Longrightarrow> context_ok dc' n"
proof -
  assume ok: "context_ok dc n" and p: "perform api ebs r dc = Some dc'"
  show ?thesis
  proof (cases "\<exists>t. r = DisconnectRequest t")
    case True
    then show ?thesis using p ok
      by (auto simp: perform_def Disconnect_default_def context_ok_Disconnect split: option.splits)
  next
    case False
    have "quiet dc dc'"
    proof (cases r)
      case (LaunchRequest args)
      then obtain e where "after_initialize api (Launch_rest api args) dc = Some (e, dc')"
        using p by (auto simp: perform_def TargetManager_Launch_def)
      then show ?thesis by (rule quiet_after_initialize) (erule quiet_Launch_rest, rule quiet_refl)
    next
      case (AttachRequest args)
      then obtain e where "after_initialize api (Attach_rest api args) dc = Some (e, dc')"
        using p by (auto simp: perform_def TargetManager_Attach_def)
      then show ?thesis by (rule quiet_after_initialize) (erule quiet_Attach_rest, rule quiet_refl)
    qed (use p False in \<open>auto simp: perform_def intro!: quiet_ops\<close>)
    then show ?thesis by (rule context_ok_quiet [OF ok]) simp
  qed
qed

lemma event_step_ok: "event_step api ebs s s' \<Longrightarrow> session_ok s \<Longrightarrow> session_ok s'"
proof (induction rule: event_step.induct)
  case (exchange s reset_stop dc)
  have "context_ok dc (request_owed (ss_request s) + of_bool reset_stop)"
    by (rule context_ok_pieces(3) [OF _ exchange(2)]) (use exchange in \<open>simp add: session_ok_def event_owed_def\<close>)
  then show ?case by (cases reset_stop) (simp_all add: session_ok_def event_goes_def event_owed_def)
next
  case (complete s)
  then have "context_ok (ss_context s) (Suc (request_owed (ss_request s)))" by (simp add: session_ok_def event_owed_def)
  from context_ok_pieces(2) [OF this] show ?case by (simp add: session_ok_def event_goes_def event_owed_def)
next
  case (take_resume s resume dc)
  then have "quiet (ss_context s) dc" by (auto simp: take_resume_def intro!: quiet_ops)
  with take_resume(3) show ?case
    by (auto simp: session_ok_def event_goes_def event_owed_def elim!: context_ok_quiet)
next
  case (exited s gone dc)
  have "context_ok dc (request_owed (ss_request s))"
    using context_ok_exit [of "ss_context s" _ api] exited by (simp add: session_ok_def event_owed_def)
  then show ?case by (simp add: session_ok_def event_goes_def event_owed_def)
next
  case (other_event s event gone dc)
  then have "quiet (ss_context s) dc" using quiet_other_event [of event "ss_context s" api ebs] by simp
  with other_event(4) show ?case
    by (auto simp: session_ok_def event_goes_def event_owed_def elim!: context_ok_quiet)
qed (auto simp: session_ok_def event_goes_def event_owed_def elim!: context_ok_quiet intro!: quiet_ops)

lemma request_step_ok: "request_step api ebs s s' \<Longrightarrow> session_ok s \<Longrightarrow> session_ok s'"
proof (induction rule: request_step.induct)
  case (request s r dc)
  have "context_ok dc (event_owed (ss_event s))"
    by (rule context_ok_perform [OF _ request(2)]) (use request in \<open>simp add: session_ok_def request_owed_def\<close>)
  then show ?case by (simp add: session_ok_def request_goes_def request_owed_def)
next
  case (restart_refused s args e dc)
  then have "quiet (ss_context s) dc" using quiet_restart_begin [OF quiet_refl [of "ss_context s"], of api args] by simp
  with restart_refused show ?case
    by (auto simp: session_ok_def request_goes_def request_owed_def elim!: context_ok_quiet)
next
  case (restart s args dc)
  then have "quiet (ss_context s) dc" using quiet_restart_begin [OF quiet_refl [of "ss_context s"], of api args] by simp
  then have "context_ok dc (event_owed (ss_event s))"
    by (rule context_ok_quiet [rotated]) (use restart in \<open>auto simp: session_ok_def request_owed_def\<close>)
  then have "context_ok (DebugContext_Emit (ResetEvent Started) dc) (Suc (event_owed (ss_event s)))" by (rule context_ok_pieces(1))
  then have "context_ok (restart_announce api dc) (Suc (event_owed (ss_event s)))"
    unfolding restart_announce_def by (rule context_ok_quiet) (intro quiet_ops order_refl)+
  then show ?case by (simp add: session_ok_def request_goes_def request_owed_def)
next
  case (set_pending s r t)
  then have "context_ok (ss_context s) (Suc (event_owed (ss_event s)))" by (simp add: session_ok_def request_owed_def)
  from context_ok_pieces(4) [OF this] show ?case by (simp add: session_ok_def request_goes_def request_owed_def)
next
  case (set_resume s r t)
  then show ?case
    by (auto simp: session_ok_def request_goes_def request_owed_def set_resume_def elim!: context_ok_quiet intro!: quiet_ops)
next
  case (reset s r t)
  let ?dc = "snd (check_call api (CallTcl ''reset halt'') (ShutdownTrace api (ss_context s)))"
  have "context_ok ?dc (event_owed (ss_event s))"
    by (rule context_ok_quiet [where dc = "ss_context s"]) (use reset in \<open>auto simp: session_ok_def request_owed_def intro!: quiet_ops\<close>)
  then show ?case by (simp add: session_ok_def request_tries_def request_owed_def split_beta)
next
  case (resync s e dc)
  then have "quiet (ss_context s) dc" using quiet_api_call [OF quiet_refl [of "ss_context s"], of api "CallTcl ''gdb_resync''"] by simp
  with resync show ?case by (auto simp: session_ok_def request_goes_def request_owed_def elim!: context_ok_quiet)
next
  case (step s dc)
  then have "quiet (ss_context s) dc" using quiet_api_call [OF quiet_refl [of "ss_context s"], of api "CallTcl ''gdb_resync''"] by simp
  with step show ?case
    by (auto simp: session_ok_def request_goes_def request_owed_def elim!: context_ok_quiet intro!: quiet_api_call)
next
  case (clear s)
  then have "context_ok (ss_context s) (event_owed (ss_event s))" by (simp add: session_ok_def request_owed_def)
  from context_ok_pieces(5) [OF this] show ?case by (simp add: session_ok_def request_goes_def request_owed_def)
qed (auto simp: session_ok_def request_goes_def request_owed_def elim!: context_ok_quiet intro!: quiet_ops)

lemma session_run_ok: "session_run api ebs s s' \<Longrightarrow> session_ok s \<Longrightarrow> session_ok s'"
proof (induction rule: rtranclp_induct)
  case (step s' s'')
  from step(2) show ?case
  proof cases
    case by_event
    then show ?thesis using step event_step_ok by blast
  next
    case by_request
    then show ?thesis using step request_step_ok by blast
  next
    case (by_target w)
    have "session_ok s'" using step by blast
    then show ?thesis unfolding by_target by (auto simp: session_ok_def elim!: context_ok_quiet intro!: quiet_ops)
  qed
qed simp

lemma new_session_ok: "session_ok (new_session w)"
  by (simp add: session_ok_def new_session_def new_DebugContext_def context_ok_def bracketed_def counts event_owed_def request_owed_def)

end
