(* ===== verification/Stop_Report.thy ===== *)
theory Stop_Report
  imports Execution_Controller
begin

text \<open>
  What \<open>ExecutionController::SendThreadStoppedEvent\<close> tells the client: which threads stopped, which one has the
  focus, and which ones are gone.
\<close>

section \<open>The focus\<close>

definition with_reason :: "SBThread list \<Rightarrow> SBThread list" where
  "with_reason ts = filter ThreadHasStopReason ts"

text \<open>The thread that had the focus keeps it if it stopped with a reason, else the first one with a reason gets it.\<close>

definition focus_after :: "tid \<Rightarrow> SBThread list \<Rightarrow> tid" where
  "focus_after focus_tid ts =
     (if focus_tid \<in> th_id ` set (with_reason ts) then focus_tid else th_id (hd (with_reason ts)))"

lemma focus_step_eq:
  "focus_step t (focus, first, n, found) =
     (if th_id t = focus \<and> \<not> ThreadHasStopReason t then LLDB_INVALID_THREAD_ID else focus,
      if ThreadHasStopReason t \<and> first = LLDB_INVALID_THREAD_ID then th_id t else first,
      if ThreadHasStopReason t then Suc n else n, found \<or> th_id t = focus)"
  by (simp add: focus_step_def)

lemma focus_pass:
  "distinct (map th_id ts) \<Longrightarrow> LLDB_INVALID_THREAD_ID \<notin> th_id ` set ts \<Longrightarrow>
   fold focus_step ts (focus, first, n, found) =
     (if focus \<in> th_id ` set ts - th_id ` set (with_reason ts) then LLDB_INVALID_THREAD_ID else focus,
      if first = LLDB_INVALID_THREAD_ID \<and> with_reason ts \<noteq> [] then th_id (hd (with_reason ts)) else first,
      n + length (with_reason ts), found \<or> focus \<in> th_id ` set ts)"
proof (induction ts arbitrary: focus first n found)
  case (Cons t ts)
  have "th_id t \<notin> th_id ` set ts" using Cons.prems(1) by simp
  then have inj: "th_id u \<noteq> th_id t" if "u \<in> set ts" for u using that by (metis image_eqI)
  have nz: "th_id t \<noteq> 0" "0 \<notin> th_id ` set ts" using Cons.prems(2) by auto
  note ih = Cons.IH [OF _ nz(2)]
  show ?case
  proof (cases "ThreadHasStopReason t")
    case True
    then show ?thesis using Cons.prems(1) nz inj
      by (simp add: focus_step_eq ih with_reason_def) (auto simp: image_iff)
  next
    case False
    then show ?thesis using Cons.prems(1) nz inj
      by (simp add: focus_step_eq ih with_reason_def) (auto simp: image_iff)
  qed
qed (simp add: with_reason_def)

section \<open>The report\<close>

definition stopped_events :: "'w debug_api \<Rightarrow> ExceptionBreakpoint list \<Rightarrow> tid \<Rightarrow> u32 \<Rightarrow> SBThread list \<Rightarrow> debug_action list" where
  "stopped_events api ebs focus stop_id ts =
     map (\<lambda>t. Emitted (StoppedEvent (CreateThreadStoppedEvent api ebs focus t stop_id))) ts"

definition exited_events :: "tid list \<Rightarrow> debug_action list" where
  "exited_events ids = map (\<lambda>i. Emitted (ThreadExitedEvent i)) ids"

lemma report_thread_step:
  "report_thread api ebs stop_id t dc =
     dc\<lparr>dc_thread_ids := insert (th_id t) (dc_thread_ids dc),
        dc_log := dc_log dc @ stopped_events api ebs (dc_focus_tid dc) stop_id (with_reason [t])\<rparr>"
  by (simp add: report_thread_def EmitStopped_def stopped_events_def with_reason_def context_ops)

lemma report_threads:
  "fold (report_thread api ebs stop_id) ts dc =
     dc\<lparr>dc_thread_ids := dc_thread_ids dc \<union> th_id ` set ts,
        dc_log := dc_log dc @ stopped_events api ebs (dc_focus_tid dc) stop_id (with_reason ts)\<rparr>"
  by (induction ts arbitrary: dc) (simp_all add: report_thread_step stopped_events_def with_reason_def)

lemma report_exits:
  "fold (\<lambda>i dc. if i \<notin> dc_thread_ids dc then SendThreadExitedEvent i dc else dc) ids dc =
     dc\<lparr>dc_log := dc_log dc @ exited_events (filter (\<lambda>i. i \<notin> dc_thread_ids dc) ids)\<rparr>"
proof (induction ids arbitrary: dc)
  case (Cons i ids)
  have "SendThreadExitedEvent i dc = dc\<lparr>dc_log := dc_log dc @ [Emitted (ThreadExitedEvent i)]\<rparr>"
    by (simp add: SendThreadExitedEvent_def context_ops)
  then show ?case by (simp add: Cons.IH exited_events_def del: fold_simps add: fold_Cons)
qed (simp add: exited_events_def)

text \<open>The state after the report, before the user's stop commands run.\<close>

definition stop_report ::
  "'w debug_api \<Rightarrow> ExceptionBreakpoint list \<Rightarrow> u32 \<Rightarrow> 'w DebugContext \<Rightarrow> 'w DebugContext" where
  "stop_report api ebs stop_id dc =
     (let ts = pv_threads (process_of api dc);
          reasons = with_reason ts;
          reported = (if reasons = [] then [GetThreadAtIndex (process_of api dc) 0] else reasons);
          known = (if reasons = [] then {} else th_id ` set ts);
          focus = (if reasons = [] then th_id (hd reported) else focus_after (dc_focus_tid dc) ts)
      in dc\<lparr>dc_focus_tid := focus, dc_thread_ids := known,
            dc_log := dc_log dc @ stopped_events api ebs focus stop_id reported @
              exited_events (filter (\<lambda>i. i \<notin> known) (da_tid_order api (dc_thread_ids dc)))\<rparr>)"

lemma ids_then_focus:
  "(dc :: 'w DebugContext)\<lparr>dc_thread_ids := ids, dc_focus_tid := focus\<rparr> = dc\<lparr>dc_focus_tid := focus, dc_thread_ids := ids\<rparr>"
  by simp

lemma focus_chosen:
  assumes d: "distinct (map th_id ts)" and z: "LLDB_INVALID_THREAD_ID \<notin> th_id ` set ts"
  obtains f first found where "fold focus_step ts (focus, LLDB_INVALID_THREAD_ID, 0, False) = (f, first, length (with_reason ts), found)"
    "with_reason ts \<noteq> [] \<Longrightarrow> (if \<not> found \<or> f = LLDB_INVALID_THREAD_ID then first else f) = focus_after focus ts"
proof -
  have sub: "th_id ` set (with_reason ts) \<subseteq> th_id ` set ts" by (auto simp: with_reason_def)
  show thesis
  proof (rule that [OF focus_pass [OF d z, of focus 0 0 False, simplified add_0_left]])
    assume "with_reason ts \<noteq> []"
    then show "(if \<not> (False \<or> focus \<in> th_id ` set ts) \<or>
        (if focus \<in> th_id ` set ts - th_id ` set (with_reason ts) then LLDB_INVALID_THREAD_ID else focus) = LLDB_INVALID_THREAD_ID
       then if LLDB_INVALID_THREAD_ID = LLDB_INVALID_THREAD_ID \<and> with_reason ts \<noteq> [] then th_id (hd (with_reason ts)) else LLDB_INVALID_THREAD_ID
       else if focus \<in> th_id ` set ts - th_id ` set (with_reason ts) then LLDB_INVALID_THREAD_ID else focus) = focus_after focus ts"
      using z sub by (auto simp: focus_after_def)
  qed
qed

lemma SendThreadStoppedEvent_reports:
  assumes "pv_valid (process_of api dc)" and "stopped api dc"
    and d: "distinct (map th_id (pv_threads (process_of api dc)))"
    and z: "LLDB_INVALID_THREAD_ID \<notin> th_id ` set (pv_threads (process_of api dc))"
  shows "SendThreadStoppedEvent api ebs on_entry dc =
    (None, RunStopCommands api (stop_report api ebs (if on_entry then 0 else pv_stop_id (process_of api dc)) dc))"
proof -
  define ts where "ts = pv_threads (process_of api dc)"
  obtain f first found where f: "fold focus_step ts (dc_focus_tid dc, LLDB_INVALID_THREAD_ID, 0, False) =
      (f, first, length (with_reason ts), found)"
    "with_reason ts \<noteq> [] \<Longrightarrow> (if \<not> found \<or> f = LLDB_INVALID_THREAD_ID then first else f) = focus_after (dc_focus_tid dc) ts"
    using focus_chosen [of ts "dc_focus_tid dc"] d z unfolding ts_def by blast
  show ?thesis
  proof (cases "with_reason ts = []")
    case True
    then show ?thesis using assms(1, 2) f(1)
      by (simp add: SendThreadStoppedEvent_def stop_report_def report_exits EmitStopped_def ids_then_focus
          stopped_events_def context_ops Let_def flip: ts_def)
  next
    case False
    then show ?thesis using assms(1, 2) f(1) f(2) [OF False]
      by (simp add: SendThreadStoppedEvent_def stop_report_def report_exits report_threads ids_then_focus Let_def
          del: if_not_P flip: ts_def)
  qed
qed

section \<open>A stop with a reason\<close>

lemma stop_cause_focus: "\<not> se_threadCausedFocus (stop_cause api ebs t)"
  by (simp add: stop_cause_def new_StoppedEventBody_def Let_def split: StopReason.split option.split)

lemma CreateThreadStoppedEvent_focus:
  "se_threadCausedFocus (CreateThreadStoppedEvent api ebs focus t stop_id) \<longleftrightarrow> th_id t = focus"
  "se_preserveFocusHint (CreateThreadStoppedEvent api ebs focus t stop_id) \<longleftrightarrow> th_id t \<noteq> focus"
  "se_threadId (CreateThreadStoppedEvent api ebs focus t stop_id) = Some (th_id t)"
  by (simp_all add: CreateThreadStoppedEvent_def stop_cause_focus Let_def split: option.split)

lemma focus_after_in: "with_reason ts \<noteq> [] \<Longrightarrow> focus_after focus ts \<in> th_id ` set (with_reason ts)"
  by (cases "with_reason ts") (auto simp: focus_after_def)

lemma one_focused:
  "distinct (map th_id ts) \<Longrightarrow> focus \<in> th_id ` set ts \<Longrightarrow> length (filter (\<lambda>t. th_id t = focus) ts) = 1"
proof (induction ts)
  case (Cons t ts)
  have none: "filter (\<lambda>u. th_id u = th_id t) ts = []" using Cons.prems(1) by (auto simp: filter_empty_conv image_iff)
  show ?case using Cons by (cases "th_id t = focus") (auto simp: none)
qed simp

lemma distinct_with_reason: "distinct (map th_id ts) \<Longrightarrow> distinct (map th_id (with_reason ts))"
  by (simp add: with_reason_def distinct_map_filter)

text \<open>C6: When the process stopped and some thread has a reason, the client gets one event for each such thread
  and for no other, in the order of the threads; exactly one of them has the focus, the thread that had it
  before if that one is among them; then it is told, once each, of exactly the threads it knew that are gone;
  then the user's stop commands run.\<close>

theorem stop_is_reported:
  assumes "pv_valid (process_of api dc)" and "stopped api dc"
    and ts: "ts = pv_threads (process_of api dc)" and d: "distinct (map th_id ts)" and z: "LLDB_INVALID_THREAD_ID \<notin> th_id ` set ts"
    and some: "\<exists>t \<in> set ts. ThreadHasStopReason t"
    and order: "distinct (da_tid_order api (dc_thread_ids dc))" "set (da_tid_order api (dc_thread_ids dc)) = dc_thread_ids dc"
    and stop_id: "stop_id = (if on_entry then 0 else pv_stop_id (process_of api dc))"
  shows "\<exists>focus exited bodies.
    SendThreadStoppedEvent api ebs on_entry dc = (None, RunStopCommands api (dc\<lparr>dc_focus_tid := focus, dc_thread_ids := th_id ` set ts,
      dc_log := dc_log dc @ map (Emitted \<circ> StoppedEvent) bodies @ map (Emitted \<circ> ThreadExitedEvent) exited\<rparr>)) \<and>
    bodies = map (\<lambda>t. CreateThreadStoppedEvent api ebs focus t stop_id) (filter ThreadHasStopReason ts) \<and>
    length (filter se_threadCausedFocus bodies) = 1 \<and>
    (dc_focus_tid dc \<in> th_id ` set (filter ThreadHasStopReason ts) \<longrightarrow> focus = dc_focus_tid dc) \<and>
    distinct exited \<and> set exited = dc_thread_ids dc - th_id ` set ts"
proof -
  have r: "with_reason ts \<noteq> []" using some by (auto simp: with_reason_def filter_empty_conv)
  define focus where "focus = focus_after (dc_focus_tid dc) ts"
  define exited where "exited = filter (\<lambda>i. i \<notin> th_id ` set ts) (da_tid_order api (dc_thread_ids dc))"
  define bodies where "bodies = map (\<lambda>t. CreateThreadStoppedEvent api ebs focus t stop_id) (with_reason ts)"
  have one: "length (filter se_threadCausedFocus bodies) = 1"
    using one_focused [OF distinct_with_reason [OF d] focus_after_in [OF r]]
    by (simp add: bodies_def filter_map comp_def CreateThreadStoppedEvent_focus focus_def)
  have s: "SendThreadStoppedEvent api ebs on_entry dc = (None, RunStopCommands api (stop_report api ebs stop_id dc))"
    using SendThreadStoppedEvent_reports [OF assms(1, 2)] d z unfolding ts stop_id by blast
  have "stop_report api ebs stop_id dc = dc\<lparr>dc_focus_tid := focus, dc_thread_ids := th_id ` set ts,
      dc_log := dc_log dc @ map (Emitted \<circ> StoppedEvent) bodies @ map (Emitted \<circ> ThreadExitedEvent) exited\<rparr>"
    using r by (simp add: stop_report_def focus_def exited_def bodies_def stopped_events_def exited_events_def comp_def Let_def flip: ts)
  moreover have "distinct exited \<and> set exited = dc_thread_ids dc - th_id ` set ts" using order by (auto simp: exited_def)
  moreover have "dc_focus_tid dc \<in> th_id ` set (filter ThreadHasStopReason ts) \<longrightarrow> focus = dc_focus_tid dc"
    by (simp add: focus_def focus_after_def with_reason_def)
  ultimately show ?thesis using one s bodies_def unfolding with_reason_def
    by (intro exI [of _ focus] exI [of _ exited] exI [of _ bodies]) simp
qed

section \<open>A process to try\<close>

definition sample_thread :: "tid \<Rightarrow> StopReason \<Rightarrow> SBThread" where
  "sample_thread i reason = invalid_thread\<lparr>th_id := i, th_index_id := 1, th_stop_reason := reason, th_name := ''main''\<rparr>"

definition sample_view :: "StateType \<Rightarrow> SBThread list \<Rightarrow> SBProcessView" where
  "sample_view state ts = \<lparr>pv_valid = True, pv_state = state, pv_stop_id = 3, pv_threads = ts, pv_id = 1, pv_exit_status = 0, pv_status = []\<rparr>"

definition sample_api :: "SBProcessView debug_api" where
  "sample_api = \<lparr>da_process = id,
     da_target = (\<lambda>_. \<lparr>tv_valid = True, tv_triple = ''thumbv7em'', tv_executable = ''fw'', tv_executable_name = ''fw'', tv_is_host = False, tv_address_size = 4\<rparr>),
     da_call = (\<lambda>_ w. (None, w)), da_is_stopped = (\<lambda>s. s \<in> {eStateStopped, eStateCrashed, eStateSuspended}),
     da_interpreter = (\<lambda>_ w. (\<lparr>cr_succeeded = True, cr_output = [], cr_error = []\<rparr>, w)), da_prompt = (\<lambda>_. None),
     da_tid_order = sorted_list_of_set, da_stdout = Pair [], da_stderr = Pair [], da_polled_states = Pair [],
     da_seconds = dec_string, da_statistics = (\<lambda>_. []), da_trace_status = (\<lambda>_. (True, [])), da_trace_enabled = (\<lambda>_. False),
     da_custom_capabilities = {}, da_client_invalidated = True, da_client_memory = True, da_client_name = ''c'',
     da_past_stop_data = 0, da_dec = (\<lambda>_. [])\<rparr>"

definition sample_session :: "SBThread list \<Rightarrow> tid set \<Rightarrow> SBProcessView DebugContext" where
  "sample_session ts known = (new_DebugContext (sample_view eStateStopped ts))\<lparr>dc_thread_ids := known, dc_configuration_done := True\<rparr>"

theorem stop_is_reported_witness:
  "\<exists>focus exited bodies.
    SendThreadStoppedEvent sample_api [] False (sample_session [sample_thread 1 eStopReasonNone, sample_thread 2 eStopReasonTrace] {1, 7}) =
      (None, RunStopCommands sample_api ((sample_session [sample_thread 1 eStopReasonNone, sample_thread 2 eStopReasonTrace] {1, 7})
        \<lparr>dc_focus_tid := focus, dc_thread_ids := {1, 2},
         dc_log := map (Emitted \<circ> StoppedEvent) bodies @ map (Emitted \<circ> ThreadExitedEvent) exited\<rparr>)) \<and>
    length (filter se_threadCausedFocus bodies) = 1 \<and> set exited = {7}"
proof -
  let ?ts = "[sample_thread 1 eStopReasonNone, sample_thread 2 eStopReasonTrace]"
  let ?dc = "sample_session ?ts {1, 7}"
  have v: "process_of sample_api ?dc = sample_view eStateStopped ?ts"
    by (simp add: process_of_def sample_api_def sample_session_def new_DebugContext_def)
  have p: "pv_valid (process_of sample_api ?dc)" "stopped sample_api ?dc" "?ts = pv_threads (process_of sample_api ?dc)"
    unfolding stopped_def v by (simp_all add: sample_view_def sample_api_def)
  have i: "distinct (map th_id ?ts)" "LLDB_INVALID_THREAD_ID \<notin> th_id ` set ?ts" "\<exists>t \<in> set ?ts. ThreadHasStopReason t"
    by (simp_all add: sample_thread_def ThreadHasStopReason_def)
  have o1: "distinct (da_tid_order sample_api (dc_thread_ids ?dc))" "set (da_tid_order sample_api (dc_thread_ids ?dc)) = dc_thread_ids ?dc"
    by (simp_all add: sample_api_def sample_session_def)
  have k: "dc_thread_ids ?dc = {1, 7}" "dc_log ?dc = []" "th_id ` set ?ts = {1, 2}"
    by (simp_all add: sample_session_def new_DebugContext_def sample_thread_def)
  show ?thesis using stop_is_reported [OF p i o1 refl, of "[]" False] unfolding k append_Nil by fastforce
qed

section \<open>A stop without a reason\<close>

text \<open>When the process stopped and no thread has a reason, the first thread is reported as stopped, but the set
  of known threads stays empty: every thread the client knew is reported as gone right after, the one that was
  just reported as stopped included.\<close>

lemma silent_stop_exits_threads:
  assumes "pv_valid (process_of api dc)" and "stopped api dc"
    and ts: "pv_threads (process_of api dc) = t # ts" and d: "distinct (map th_id (t # ts))" and z: "LLDB_INVALID_THREAD_ID \<notin> th_id ` set (t # ts)"
    and none: "\<forall>u \<in> set (t # ts). \<not> ThreadHasStopReason u"
  shows "\<exists>body. se_threadId body = Some (th_id t) \<and>
    SendThreadStoppedEvent api ebs on_entry dc = (None, RunStopCommands api (dc\<lparr>dc_focus_tid := th_id t, dc_thread_ids := {},
      dc_log := dc_log dc @ Emitted (StoppedEvent body) # map (Emitted \<circ> ThreadExitedEvent) (da_tid_order api (dc_thread_ids dc))\<rparr>))"
proof -
  have r: "with_reason (t # ts) = []" using none by (simp add: with_reason_def filter_empty_conv)
  define stop_id where "stop_id = (if on_entry then 0 else pv_stop_id (process_of api dc))"
  have "SendThreadStoppedEvent api ebs on_entry dc = (None, RunStopCommands api (stop_report api ebs stop_id dc))"
    using SendThreadStoppedEvent_reports [OF assms(1, 2)] d z unfolding ts stop_id_def by blast
  moreover have "stop_report api ebs stop_id dc = dc\<lparr>dc_focus_tid := th_id t, dc_thread_ids := {},
      dc_log := dc_log dc @ Emitted (StoppedEvent (CreateThreadStoppedEvent api ebs (th_id t) t stop_id)) #
        map (Emitted \<circ> ThreadExitedEvent) (da_tid_order api (dc_thread_ids dc))\<rparr>"
    by (simp add: stop_report_def ts r GetThreadAtIndex_def stopped_events_def exited_events_def comp_def Let_def)
  ultimately show ?thesis
    by (intro exI [of _ "CreateThreadStoppedEvent api ebs (th_id t) t stop_id"]) (simp add: CreateThreadStoppedEvent_focus)
qed

lemma silent_stop_exits_threads_witness:
  "\<exists>body. se_threadId body = Some 1 \<and>
    SendThreadStoppedEvent sample_api [] False (sample_session [sample_thread 1 eStopReasonNone] {1}) =
      (None, RunStopCommands sample_api ((sample_session [sample_thread 1 eStopReasonNone] {1})
        \<lparr>dc_focus_tid := 1, dc_thread_ids := {}, dc_log := [Emitted (StoppedEvent body), Emitted (ThreadExitedEvent 1)]\<rparr>))"
proof -
  let ?dc = "sample_session [sample_thread 1 eStopReasonNone] {1}"
  have v: "process_of sample_api ?dc = sample_view eStateStopped [sample_thread 1 eStopReasonNone]"
    by (simp add: process_of_def sample_api_def sample_session_def new_DebugContext_def)
  have p: "pv_valid (process_of sample_api ?dc)" "stopped sample_api ?dc"
    "pv_threads (process_of sample_api ?dc) = [sample_thread 1 eStopReasonNone]"
    unfolding stopped_def v by (simp_all add: sample_view_def sample_api_def)
  have i: "distinct (map th_id [sample_thread 1 eStopReasonNone])"
    "LLDB_INVALID_THREAD_ID \<notin> th_id ` set [sample_thread 1 eStopReasonNone]"
    "\<forall>u \<in> set [sample_thread 1 eStopReasonNone]. \<not> ThreadHasStopReason u"
    by (simp_all add: sample_thread_def ThreadHasStopReason_def)
  have k: "dc_log ?dc = []" "th_id (sample_thread 1 eStopReasonNone) = 1"
    "da_tid_order sample_api (dc_thread_ids ?dc) = [1]"
    by (simp_all add: sample_session_def new_DebugContext_def sample_thread_def sample_api_def)
  show ?thesis using silent_stop_exits_threads [OF p i, of "[]" False] unfolding k by simp
qed

end
