(* ===== verification/Session_Properties.thy ===== *)
theory Session_Properties
  imports Debug_Session Stop_Report
begin

text \<open>
  What holds of a debug session as a whole, for every interleaving of LLDB's events and the client's requests, and
  where restarting and launching again depart from what is meant.
\<close>

section \<open>Resets are bracketed, the end is told once\<close>

text \<open>C5: However LLDB's events, the client's requests and the target interleave, at every point of the session the
  client was told of no more completed resets than of started ones, and it is told at most once that the session
  has ended, exactly when the end was noted.\<close>

theorem debug_session_bracketed:
  assumes "session_run api ebs (new_session w) s" and "log = dc_log (ss_context s)"
  shows "completes (take n log) \<le> starts (take n log) \<and> terminations log = (if dc_terminated (ss_context s) then 1 else 0)"
  using session_run_ok [OF assms(1) new_session_ok] assms(2) by (simp add: session_ok_def context_ok_def bracketed_def)

definition paused_session :: "SBProcessView session" where
  "paused_session = event_goes (SendStdOutStdErr sample_api) ExchangePending
     (request_goes (\<lambda>_. snd (Pause sample_api (new_DebugContext (sample_view eStateRunning [])))) RequestIdle
       (new_session (sample_view eStateRunning [])))"

theorem debug_session_bracketed_witness:
  "session_run sample_api [] (new_session (sample_view eStateRunning [])) paused_session \<and>
   completes (take 1 (dc_log (ss_context paused_session))) \<le> starts (take 1 (dc_log (ss_context paused_session))) \<and>
   terminations (dc_log (ss_context paused_session)) = (if dc_terminated (ss_context paused_session) then 1 else 0)"
proof -
  let ?s = "new_session (sample_view eStateRunning [])"
  let ?p = "request_goes (\<lambda>_. snd (Pause sample_api (new_DebugContext (sample_view eStateRunning [])))) RequestIdle ?s"
  have 1: "request_step sample_api [] ?s ?p"
    by (rule request_step.request [of _ _ _ PauseRequest]) (simp_all add: new_session_def perform_def)
  have 2: "event_step sample_api [] ?p paused_session"
    unfolding paused_session_def by (rule event_step.stop_event) (simp add: request_goes_def new_session_def)
  have run: "session_run sample_api [] ?s paused_session"
    using 1 2 by (meson by_event by_request converse_rtranclp_into_rtranclp r_into_rtranclp)
  show ?thesis using run debug_session_bracketed [OF run refl, of 1] by blast
qed

section \<open>Restarting\<close>

text \<open>Without interference, the request thread's steps are the restart of the code.\<close>

lemma run_request: "request_step api ebs s s' \<Longrightarrow> session_run api ebs s' s'' \<Longrightarrow> session_run api ebs s s''"
  by (meson by_request converse_rtranclp_into_rtranclp)

lemma restart_announced:
  assumes "ss_request s = RequestIdle" and "restart_begin api args (ss_context s) = (None, dc)"
    and "session_run api ebs (s\<lparr>ss_context := set_resume (set_pending (restart_announce api dc)),
      ss_request := Resetting (\<not> stopped api dc) (trace_armed api dc)\<rparr>) s'"
  shows "session_run api ebs s s'"
proof -
  let ?r = "\<not> stopped api dc" and ?t = "trace_armed api dc"
  let ?s1 = "request_goes (\<lambda>_. restart_announce api dc) (SettingPending ?r ?t) s"
  let ?s2 = "request_goes set_pending (SettingResume ?r ?t) ?s1"
  have 1: "request_step api ebs s ?s1" by (rule request_step.restart [OF assms(1, 2)])
  have 2: "request_step api ebs ?s1 ?s2" by (rule request_step.set_pending) (simp add: request_goes_def)
  have 3: "request_step api ebs ?s2 (request_goes set_resume (Resetting ?r ?t) ?s2)"
    by (rule request_step.set_resume) (simp add: request_goes_def)
  have "request_goes set_resume (Resetting ?r ?t) ?s2 =
      s\<lparr>ss_context := set_resume (set_pending (restart_announce api dc)), ss_request := Resetting ?r ?t\<rparr>"
    by (simp add: request_goes_def)
  then show ?thesis using 1 2 3 assms(3) by (metis run_request)
qed

lemma cleared:
  "ss_request s = Clearing \<Longrightarrow> session_run api ebs s (s\<lparr>ss_context := clear_reset (ss_context s), ss_request := RequestIdle\<rparr>)"
  using request_step.clear [of s api ebs] by (auto simp: request_goes_def intro: run_request)

lemma restart_completed:
  assumes "ss_request s = Resetting was_running enabled" and "restart_target api was_running enabled (ShutdownTrace api (ss_context s)) = (error, dc)"
  shows "session_run api ebs s (s\<lparr>ss_context := dc, ss_request := RequestIdle\<rparr>)"
proof -
  obtain e1 dc1 where 1: "call api (CallTcl ''reset halt'') (ShutdownTrace api (ss_context s)) = (e1, dc1)" by fastforce
  have s1: "request_step api ebs s (s\<lparr>ss_context := dc1, ss_request := (if e1 = None then Rearming was_running enabled else Clearing)\<rparr>)"
    using request_step.reset [OF assms(1), of api ebs] 1 by (simp add: request_tries_def check_call_def to_error_def)
  show ?thesis
  proof (cases e1)
    case (Some e)
    then have "dc = clear_reset dc1" using assms(2) 1 by (simp add: restart_target_def and_then_def tcl_or_clear_def)
    then show ?thesis using s1 cleared [of "s\<lparr>ss_context := dc1, ss_request := Clearing\<rparr>" api ebs] Some
      by (auto intro: run_request)
  next
    case None
    let ?s2 = "s\<lparr>ss_context := restart_trace api enabled dc1, ss_request := (if was_running then RequestIdle else Resyncing)\<rparr>"
    have s2: "request_step api ebs (s\<lparr>ss_context := dc1, ss_request := Rearming was_running enabled\<rparr>) ?s2"
      using request_step.rearm [of "s\<lparr>ss_context := dc1, ss_request := Rearming was_running enabled\<rparr>" was_running enabled api ebs]
      by (simp add: request_goes_def)
    have rest: "(if was_running then always id else restart_resync api) (restart_trace api enabled dc1) = (error, dc)"
      using assms(2) 1 None by (simp add: restart_target_def and_then_def tcl_or_clear_def always_def)
    have "session_run api ebs ?s2 (s\<lparr>ss_context := dc, ss_request := RequestIdle\<rparr>)"
    proof (cases was_running)
      case True
      then show ?thesis using rest by (simp add: always_def)
    next
      case False
      obtain e3 dc3 where 3: "call api (CallTcl ''gdb_resync'') (restart_trace api enabled dc1) = (e3, dc3)" by fastforce
      show ?thesis
      proof (cases e3)
        case (Some e)
        then have dc: "dc = clear_reset dc3" using rest 3 False by (simp add: restart_resync_def and_then_def tcl_or_clear_def)
        have "request_step api ebs ?s2 (s\<lparr>ss_context := dc3, ss_request := Clearing\<rparr>)"
          using request_step.resync [of ?s2 api e dc3 ebs] 3 Some False by (simp add: request_goes_def)
        then show ?thesis using cleared [of "s\<lparr>ss_context := dc3, ss_request := Clearing\<rparr>" api ebs] dc by (auto intro: run_request)
      next
        case None
        let ?dc = "snd (call api (CallStepInstruction (th_id (GetThreadAtIndex (process_of api dc3) 0)) False) dc3)"
        have dc: "dc = ?dc" using rest 3 False None
          by (simp add: restart_resync_def and_then_def tcl_or_clear_def check_call_def split_beta)
        have "request_step api ebs ?s2 (s\<lparr>ss_context := ?dc, ss_request := RequestIdle\<rparr>)"
          using request_step.step [of ?s2 api dc3 ebs] 3 None False by (simp add: request_goes_def)
        then show ?thesis unfolding dc by (auto intro: run_request)
      qed
    qed
    then show ?thesis using s1 s2 None by (auto intro: run_request)
  qed
qed


text \<open>A session after a launch, with a thread the client knows.\<close>

definition launched_session :: "StateType \<Rightarrow> SBProcessView session" where
  "launched_session state = \<lparr>ss_context = (new_DebugContext (sample_view state [sample_thread 1 eStopReasonTrace]))
     \<lparr>dc_openocd := True, dc_focus_tid := 1, dc_configuration_done := True, dc_event_thread := True\<rparr>,
     ss_event = EventIdle, ss_request = RequestIdle\<rparr>"

lemma launched_restart_begin:
  "restart_begin sample_api SameArguments (ss_context (launched_session state)) = (None, ss_context (launched_session state))"
  by (simp add: restart_begin_def and_then_def process_valid_def unless_def restart_configure_def process_of_def launched_session_def
      new_DebugContext_def sample_api_def sample_view_def)


lemma SendContinuedEvent_log:
  "dc_log (SendContinuedEvent api dc) = dc_log dc \<or> (\<exists>i. dc_log (SendContinuedEvent api dc) = dc_log dc @ [Emitted (ContinuedEvent i True)])"
  by (simp add: SendContinuedEvent_def context_ops)

text \<open>A stop that was under way when a restart begins completes it: the client is told that the reset is
  complete before OpenOCD was asked for it, and the flag that waits for the reset's own stop is gone.\<close>

lemma earlier_stop_completes_reset:
  assumes "ss_event s = ExchangePending" and "ss_request s = RequestIdle" and "restart_begin api args (ss_context s) = (None, dc)"
  shows "\<exists>s' xs. session_run api ebs s s' \<and> ss_request s' = SettingResume (\<not> stopped api dc) (trace_armed api dc) \<and>
    dc_log (ss_context s') = dc_log dc @ Emitted (ResetEvent Started) # xs @ [Emitted (ResetEvent Complete)] \<and>
    (\<forall>c. Called c \<notin> set xs) \<and> \<not> dc_reset_pending_stop (ss_context s')"
proof -
  let ?r = "\<not> stopped api dc" and ?t = "trace_armed api dc"
  let ?s1 = "request_goes (\<lambda>_. restart_announce api dc) (SettingPending ?r ?t) s"
  let ?s2 = "request_goes set_pending (SettingResume ?r ?t) ?s1"
  let ?dc2 = "(ss_context ?s2)\<lparr>dc_reset_pending_stop := False\<rparr>"
  let ?s3 = "event_goes (\<lambda>_. ?dc2) EmitComplete ?s2"
  let ?s4 = "event_goes (DebugContext_Emit (ResetEvent Complete)) TakeResume ?s3"
  have 1: "request_step api ebs s ?s1" by (rule request_step.restart [OF assms(2, 3)])
  have 2: "request_step api ebs ?s1 ?s2" by (rule request_step.set_pending) (simp add: request_goes_def)
  have "event_step api ebs ?s2 (event_goes (\<lambda>_. ?dc2) (if True then EmitComplete else Reporting False) ?s2)"
    by (rule event_step.exchange) (simp_all add: assms(1) request_goes_def take_pending_def set_pending_def)
  then have 3: "event_step api ebs ?s2 ?s3" by simp
  have 4: "event_step api ebs ?s3 ?s4" by (rule event_step.complete) (simp add: event_goes_def)
  have run: "session_run api ebs s ?s4"
    using 1 2 3 4 by (meson by_event by_request converse_rtranclp_into_rtranclp rtranclp.rtrancl_refl)
  obtain xs where "dc_log (restart_announce api dc) = dc_log dc @ Emitted (ResetEvent Started) # xs" "\<forall>c. Called c \<notin> set xs"
    using SendContinuedEvent_log [of api "DebugContext_Emit (ResetEvent Started) dc"]
    by (auto simp: restart_announce_def DebugContext_Emit_def act_def)
  then show ?thesis using run
    by (intro exI [of _ ?s4] exI [of _ xs]) (simp add: event_goes_def request_goes_def set_pending_def DebugContext_Emit_def act_def)
qed

theorem earlier_stop_completes_reset_witness:
  "\<exists>s' xs. session_run sample_api [] ((launched_session eStateStopped)\<lparr>ss_event := ExchangePending\<rparr>) s' \<and>
    dc_log (ss_context s') = Emitted (ResetEvent Started) # xs @ [Emitted (ResetEvent Complete)] \<and> (\<forall>c. Called c \<notin> set xs)"
proof -
  have l: "dc_log (ss_context (launched_session eStateStopped)) = []" by (simp add: launched_session_def new_DebugContext_def)
  have b: "restart_begin sample_api SameArguments (ss_context ((launched_session eStateStopped)\<lparr>ss_event := ExchangePending\<rparr>)) =
      (None, ss_context (launched_session eStateStopped))" by (simp add: launched_restart_begin)
  show ?thesis using earlier_stop_completes_reset [OF _ _ b, of "[]"] unfolding l by (auto simp: launched_session_def)
qed

text \<open>When OpenOCD refuses the reset, the request fails, the client was told that a reset started and is not
  told that it ended, and nothing is left that would tell it.\<close>

lemma refused_reset_stays_open:
  assumes "restart_begin api args dc0 = (None, dc)"
    and "call api (CallTcl ''reset halt'') (ShutdownTrace api (set_resume (set_pending (restart_announce api dc)))) = (Some e, dc1)"
    and "TargetManager_Restart api args dc0 = (error, dc')"
  shows "error = Some (DAPError e) \<and> starts (dc_log dc') = Suc (starts (dc_log dc)) \<and> completes (dc_log dc') = completes (dc_log dc) \<and>
    \<not> dc_reset_pending_stop dc'"
proof -
  have r: "error = Some (DAPError e)" "dc' = clear_reset dc1" using assms
    by (simp_all add: TargetManager_Restart_def and_then_def restart_target_def tcl_or_clear_def Let_def)
  let ?dc = "set_pending (DebugContext_Emit (ResetEvent Started) dc)"
  have "quiet (DebugContext_Emit (ResetEvent Started) dc) (restart_announce api dc)"
    unfolding restart_announce_def by (intro quiet_ops)
  then obtain xs where xs: "dc_log (restart_announce api dc) = dc_log dc @ Emitted (ResetEvent Started) # xs" "\<forall>a \<in> set xs. \<not> loud a"
    by (auto simp: quiet_def DebugContext_Emit_def act_def)
  have "quiet (set_resume (set_pending (restart_announce api dc)))
      (snd (call api (CallTcl ''reset halt'') (ShutdownTrace api (set_resume (set_pending (restart_announce api dc))))))"
    by (intro quiet_ops)
  then have "quiet (set_resume (set_pending (restart_announce api dc))) dc1" unfolding assms(2) by simp
  then obtain ys where ys: "dc_log dc1 = dc_log (restart_announce api dc) @ ys" "\<forall>a \<in> set ys. \<not> loud a"
    by (auto simp: quiet_def set_resume_def set_pending_def)
  have "starts [Emitted (ResetEvent Started)] = 1" "completes [Emitted (ResetEvent Started)] = 0" by (simp_all add: counts)
  moreover have "dc_log dc' = dc_log dc @ [Emitted (ResetEvent Started)] @ xs @ ys" using xs ys by (simp add: r clear_reset_def)
  ultimately show ?thesis using xs(2) ys(2) by (simp add: counts_append counts_quiet r clear_reset_def del: append_Cons append_Nil)
qed

definition refusing_api :: "SBProcessView debug_api" where
  "refusing_api = sample_api\<lparr>da_call := (\<lambda>_ w. (Some ''no'', w))\<rparr>"

lemma refused_reset_stays_open_witness:
  "\<exists>dc'. TargetManager_Restart refusing_api SameArguments (ss_context (launched_session eStateStopped)) = (Some (DAPError ''no''), dc') \<and>
     starts (dc_log dc') = 1 \<and> completes (dc_log dc') = 0 \<and> \<not> dc_reset_pending_stop dc'"
proof -
  let ?dc = "ss_context (launched_session eStateStopped)"
  have b: "restart_begin refusing_api SameArguments ?dc = (None, ?dc)"
    by (simp add: restart_begin_def and_then_def process_valid_def unless_def restart_configure_def process_of_def launched_session_def
        new_DebugContext_def refusing_api_def sample_api_def sample_view_def)
  obtain dc1 where c: "call refusing_api (CallTcl ''reset halt'') (ShutdownTrace refusing_api (set_resume (set_pending (restart_announce refusing_api ?dc)))) =
      (Some ''no'', dc1)"
    by (simp add: call_def refusing_api_def)
  obtain error dc' where t: "TargetManager_Restart refusing_api SameArguments ?dc = (error, dc')" by fastforce
  have "starts (dc_log ?dc) = 0" "completes (dc_log ?dc) = 0" by (simp_all add: launched_session_def new_DebugContext_def counts)
  then show ?thesis using refused_reset_stays_open [OF b c t] t by auto
qed

section \<open>Launching again\<close>

lemma no_commands: "TargetManager_RunLLDBCommands api p [] dc = (True, act (RanCommands p []) dc)"
  by (simp add: TargetManager_RunLLDBCommands_def RunLLDBCommands_def Let_def DebugContext_SendOutput_def)

lemma InitializeDebugger_no_commands:
  assumes "cf_preInitCommands (dc_configuration dc) = []"
  shows "InitializeDebugger api dc = None \<longleftrightarrow> dc_event_thread dc"
proof -
  define dc1 where "dc1 = (let dc = do_call api CallCreateDebugger dc
    in if \<not> dc_no_lldbinit dc \<and> dc_source_init_file dc then do_call api CallSourceInitFiles dc else dc)"
  have k: "dc_configuration dc1 = dc_configuration dc" "dc_event_thread dc1 = dc_event_thread dc"
    by (simp_all add: dc1_def do_call_def call_def act_def Let_def split_beta)
  have "RunPreInitCommands api dc1 = (None, act (RanCommands ''Running preInitCommands:'' []) dc1)"
    using assms by (simp add: RunPreInitCommands_def run_required_def no_commands k)
  then have "InitializeDebugger api dc = map_option (Pair None) (StartEventThread api (act (RanCommands ''Running preInitCommands:'' []) dc1))"
    by (simp add: InitializeDebugger_def dc1_def Let_def)
  then show ?thesis by (simp add: StartEventThread_def k act_def)
qed

text \<open>With no commands to run before the initialization, a launch that comes after another one, whether that
  succeeded or failed, ends the program: the thread for LLDB's events is still joinable when it is assigned again.\<close>

lemma relaunch_ends_program:
  assumes "TargetManager_Launch api args dc = Some (e, dc')"
    and "cf_preInitCommands (dc_configuration dc) = []" and "cf_preInitCommands (dc_configuration dc') = []"
  shows "TargetManager_Launch api args' dc' = None"
proof -
  obtain i dc1 where i: "InitializeDebugger api dc = Some (i, dc1)"
    using assms(1) by (fastforce simp: TargetManager_Launch_def after_initialize_def split: option.splits)
  have "i = None \<and> dc_event_thread dc1"
  proof -
    define dc2 where "dc2 = (let dc = do_call api CallCreateDebugger dc
      in if \<not> dc_no_lldbinit dc \<and> dc_source_init_file dc then do_call api CallSourceInitFiles dc else dc)"
    have k: "dc_configuration dc2 = dc_configuration dc" by (simp add: dc2_def do_call_def call_def act_def Let_def split_beta)
    have "RunPreInitCommands api dc2 = (None, act (RanCommands ''Running preInitCommands:'' []) dc2)"
      using assms(2) by (simp add: RunPreInitCommands_def run_required_def no_commands k)
    then show ?thesis using i
      by (auto simp: InitializeDebugger_def dc2_def Let_def StartEventThread_def do_call_def call_def act_def split_beta split: if_splits)
  qed
  moreover have "quiet dc1 (snd (Launch_rest api args dc1))" by (intro quiet_Launch_rest quiet_refl)
  moreover have "snd (Launch_rest api args dc1) = dc'"
    using assms(1) i calculation(1) by (simp add: TargetManager_Launch_def after_initialize_def)
  ultimately have "dc_event_thread dc'" by (simp add: quiet_def)
  then have "InitializeDebugger api dc' = None" using InitializeDebugger_no_commands assms(3) by blast
  then show ?thesis by (simp add: TargetManager_Launch_def after_initialize_def)
qed

definition no_openocd :: OpenOcdConfiguration where
  "no_openocd = \<lparr>ow_scriptSearchDirs = [], ow_configFiles = [], ow_rawCommands = [], ow_logFile = [], ow_debugLevel = 2,
     ow_gdbPort = ''3333'', ow_tclPort = [], ow_telnetPort = []\<rparr>"

definition sample_launch :: LaunchRequestArguments where
  "sample_launch = \<lparr>la_configuration = new_Configuration, la_loadImage = False,
     la_loadImageConfig = \<lparr>lc_preverify = False, lc_verify = False, lc_reset = False\<rparr>, la_openocd = no_openocd\<rparr>"

lemma Launch_rest_configuration:
  assumes "\<And>c w. fst (da_call api c w) = Some e"
  shows "dc_configuration (snd (Launch_rest api args dc)) = la_configuration args"
proof -
  have "fst (CreateOpenOcd api config d) = Some e \<and> dc_configuration (snd (CreateOpenOcd api config d)) = dc_configuration d" for config d
    using assms by (auto simp: CreateOpenOcd_def call_def act_def Let_def split_beta)
  then have "fst (launch_openocd api args d) \<noteq> None \<and> dc_configuration (snd (launch_openocd api args d)) = dc_configuration d" for d
    by (auto simp: launch_openocd_def Let_def split_beta split: option.split)
  then have k: "fst (launch_openocd api args d) \<noteq> None" "dc_configuration (snd (launch_openocd api args d)) = dc_configuration d" for d
    by blast+
  let ?d = "(SetConfiguration api (la_configuration args) False dc)\<lparr>dc_has_last_launch := True\<rparr>"
  obtain i1 d1 where l1: "launch_openocd api args ?d = (i1, d1)" by fastforce
  then obtain e1 where l: "launch_openocd api args ?d = (Some e1, d1)" using k(1) [of ?d] by (cases i1) simp_all
  have d1: "dc_configuration d1 = dc_configuration (SetConfiguration api (la_configuration args) False dc)"
    using k(2) [of ?d] unfolding l1 by simp
  have "dc_configuration (SetConfiguration api (la_configuration args) False dc) = la_configuration args"
    by (auto simp: SetConfiguration_def do_call_def call_def act_def Let_def split_beta split: option.split)
  moreover have "Launch_rest api args dc = (Some e1, d1)" using l by (simp add: Launch_rest_def and_then_def always_def)
  ultimately show ?thesis using d1 by simp
qed

theorem relaunch_ends_program_witness:
  "\<exists>e dc'. TargetManager_Launch refusing_api sample_launch (new_DebugContext (sample_view eStateStopped [])) = Some (e, dc') \<and>
     TargetManager_Launch refusing_api sample_launch dc' = None"
proof -
  let ?dc = "new_DebugContext (sample_view eStateStopped [])"
  have p: "cf_preInitCommands (dc_configuration ?dc) = []" "\<not> dc_event_thread ?dc"
    by (simp_all add: new_DebugContext_def new_Configuration_def)
  then obtain i dc1 where i: "InitializeDebugger refusing_api ?dc = Some (i, dc1)"
    using InitializeDebugger_no_commands [OF p(1), of refusing_api] by fastforce
  then have "i = None"
    using p by (auto simp: InitializeDebugger_def RunPreInitCommands_def run_required_def no_commands do_call_def call_def act_def
        Let_def split_beta new_DebugContext_def new_Configuration_def split: if_splits)
  obtain e dc' where r: "Launch_rest refusing_api sample_launch dc1 = (e, dc')" by fastforce
  then have l: "TargetManager_Launch refusing_api sample_launch ?dc = Some (e, dc')"
    using i \<open>i = None\<close> by (simp add: TargetManager_Launch_def after_initialize_def)
  have "dc_configuration dc' = la_configuration sample_launch"
    using Launch_rest_configuration [of refusing_api "''no''" sample_launch dc1] r by (simp add: refusing_api_def)
  then have "cf_preInitCommands (dc_configuration dc') = []" by (simp add: sample_launch_def new_Configuration_def)
  then show ?thesis using relaunch_ends_program [OF l p(1)] l by blast
qed

section \<open>Leaving\<close>

definition calls_of :: "debug_action list \<Rightarrow> debug_call list" where
  "calls_of log = List.map_filter (\<lambda>a. case a of Called c \<Rightarrow> Some c | _ \<Rightarrow> None) log"

lemma calls_of_append [simp]: "calls_of (xs @ ys) = calls_of xs @ calls_of ys"
  by (simp add: calls_of_def map_filter_append)

lemma calls_of_Cons [simp]:
  "calls_of (Called c # xs) = c # calls_of xs" "calls_of (Emitted e # xs) = calls_of xs"
  "calls_of (RanCommands p cs # xs) = calls_of xs" "calls_of (Logged m # xs) = calls_of xs"
  "calls_of (VariablesCleared # xs) = calls_of xs"
  by (simp_all add: calls_of_def map_filter_simps)

lemma calls_of_nil [simp]: "calls_of [] = []"
  by (simp add: calls_of_def map_filter_simps)

text \<open>What a step adds to the calls, with what it leaves alone.\<close>

definition calling :: "debug_call list \<Rightarrow> 'w DebugContext \<Rightarrow> 'w DebugContext \<Rightarrow> bool" where
  "calling cs dc dc' \<longleftrightarrow> calls_of (dc_log dc') = calls_of (dc_log dc) @ cs \<and> dc_event_thread dc' = dc_event_thread dc \<and>
     dc_trace dc' = dc_trace dc \<and> dc_openocd dc' = dc_openocd dc \<and> dc_configuration dc' = dc_configuration dc"

lemma calling_trans: "calling cs a b \<Longrightarrow> calling ds b c \<Longrightarrow> calling (cs @ ds) a c"
  by (simp add: calling_def)

lemma calling_call: "calling [c] dc (snd (call api c dc))" "calling [c] dc (do_call api c dc)"
  by (simp_all add: calling_def call_def do_call_def act_def split_beta)

lemma calling_commands: "calling [] dc (snd (TargetManager_RunLLDBCommands api p cs dc))"
  by (simp add: calling_def TargetManager_RunLLDBCommands_def DebugContext_SendOutput_def DebugContext_Emit_def act_def Let_def split_beta)

lemma calling_terminated: "calling [] dc (SendTerminatedEvent api dc)"
  using calling_commands [of "dc\<lparr>dc_terminated := True\<rparr>" api "''Running terminateCommands:''" "cf_terminateCommands (dc_configuration dc)"]
  by (simp add: calling_def SendTerminatedEvent_def RunTerminateCommands_def DebugContext_Emit_def act_def Let_def)

text \<open>C13: Leaving a session takes it down in a fixed order, whatever fails: the process is killed or released, the
  event thread ends, the trace goes before the watches and these before OpenOCD, which goes last; after it nothing
  of these is left, and the client was told of the end.\<close>

theorem Disconnect_takes_down:
  assumes "Disconnect api terminate dc = (error, dc')"
  shows "calls_of (dc_log dc') = calls_of (dc_log dc) @
      (if leaves_process (pv_state (process_of api dc)) then [] else [if terminate then CallKill else CallDetach]) @
      (if dc_event_thread dc then [CallStopEventThread] else []) @ [CallRequestStop] @
      (if dc_trace dc then [CallShutdownTrace] else []) @ [CallStopAllWatches, CallStopAllPeripheralWatches] @
      (if dc_openocd dc then [CallShutdownOpenOcd] else []) \<and>
    \<not> dc_event_thread dc' \<and> \<not> dc_trace dc' \<and> \<not> dc_openocd dc' \<and> dc_terminated dc'"
proof -
  define dc1 where "dc1 = snd (if leaves_process (pv_state (process_of api dc)) then (None, dc)
    else call api (if terminate then CallKill else CallDetach) dc)"
  have "calling (if leaves_process (pv_state (process_of api dc)) then [] else [if terminate then CallKill else CallDetach]) dc dc1"
    using calling_call(1) [of _ dc api] by (simp add: dc1_def) (simp add: calling_def)
  from calling_trans [OF this calling_terminated]
  have 1: "calling (if leaves_process (pv_state (process_of api dc)) then [] else [if terminate then CallKill else CallDetach]) dc
      (SendTerminatedEvent api dc1)" by simp
  have t: "dc_terminated (SendTerminatedEvent api dc1)"
    using quiet_run_commands(3) [OF quiet_refl, of "dc1\<lparr>dc_terminated := True\<rparr>" api]
    by (auto simp: SendTerminatedEvent_def quiet_def DebugContext_Emit_def act_def Let_def)
  have "dc' = ShutdownOpenOcd api (do_call api CallStopAllPeripheralWatches (do_call api CallStopAllWatches
      (ShutdownTrace api (do_call api CallRequestStop (StopEventHandlers api (SendTerminatedEvent api dc1))))))"
    using assms by (simp add: Disconnect_def dc1_def Let_def split_beta)
  then show ?thesis using 1 t
    by (simp add: calling_def ShutdownOpenOcd_def ShutdownTrace_def StopEventHandlers_def do_call_def call_def act_def split_beta)
qed

theorem Disconnect_takes_down_witness:
  "calls_of (dc_log (snd (Disconnect sample_api True (ss_context (launched_session eStateStopped))))) =
     [CallKill, CallStopEventThread, CallRequestStop, CallStopAllWatches, CallStopAllPeripheralWatches, CallShutdownOpenOcd]"
proof -
  let ?dc = "ss_context (launched_session eStateStopped)"
  have v: "dc_log ?dc = []" "\<not> leaves_process (pv_state (process_of sample_api ?dc))" "dc_event_thread ?dc" "\<not> dc_trace ?dc" "dc_openocd ?dc"
    by (simp_all add: launched_session_def new_DebugContext_def process_of_def sample_api_def sample_view_def leaves_process_def)
  obtain error dc' where d: "Disconnect sample_api True ?dc = (error, dc')" by fastforce
  show ?thesis using Disconnect_takes_down [OF d] v d by simp
qed

end
