(* ===== verification/Launch_Order.thy ===== *)
theory Launch_Order
  imports Session_Properties
begin

text \<open>
  The order in which \<open>TargetManager::Launch\<close> brings a session up: one script of calls, of which a launch that
  fails has made a first part.
\<close>

section \<open>Scripts\<close>

text \<open>A step makes the calls of a script from the beginning, all of them if it succeeds, and keeps the configuration.\<close>

definition runs :: "Configuration \<Rightarrow> 'w fallible \<Rightarrow> debug_call list \<Rightarrow> bool" where
  "runs config m cs \<longleftrightarrow> (\<forall>dc. dc_configuration dc = config \<longrightarrow>
     (case m dc of (error, dc') \<Rightarrow> dc_configuration dc' = config \<and>
        (\<exists>k \<le> length cs. calls_of (dc_log dc') = calls_of (dc_log dc) @ take k cs \<and> (error = None \<longrightarrow> k = length cs))))"

named_theorems script \<open>the scripts of the steps\<close>

lemma runsD:
  assumes "runs config m cs" and "dc_configuration dc = config" and "m dc = (error, dc')"
  obtains k where "k \<le> length cs" "calls_of (dc_log dc') = calls_of (dc_log dc) @ take k cs" "error = None \<longrightarrow> k = length cs"
    "dc_configuration dc' = config"
  using assms by (fastforce simp: runs_def)

lemma runs_and_then:
  assumes m: "runs config m xs" and n: "runs config n ys"
  shows "runs config (and_then m n) (xs @ ys)"
  unfolding runs_def
proof (intro allI impI)
  fix dc :: "'a DebugContext" assume c: "dc_configuration dc = config"
  obtain e dc1 where 1: "m dc = (e, dc1)" by fastforce
  obtain k where k: "k \<le> length xs" "calls_of (dc_log dc1) = calls_of (dc_log dc) @ take k xs" "e = None \<longrightarrow> k = length xs"
    "dc_configuration dc1 = config" by (rule runsD [OF m c 1])
  show "case and_then m n dc of (error, dc') \<Rightarrow> dc_configuration dc' = config \<and>
      (\<exists>k \<le> length (xs @ ys). calls_of (dc_log dc') = calls_of (dc_log dc) @ take k (xs @ ys) \<and> (error = None \<longrightarrow> k = length (xs @ ys)))"
  proof (cases e)
    case (Some x)
    then show ?thesis using 1 k by (auto simp: and_then_def intro!: exI [of _ k])
  next
    case None
    obtain e2 dc2 where 2: "n dc1 = (e2, dc2)" by fastforce
    obtain j where j: "j \<le> length ys" "calls_of (dc_log dc2) = calls_of (dc_log dc1) @ take j ys" "e2 = None \<longrightarrow> j = length ys"
      "dc_configuration dc2 = config" by (rule runsD [OF n k(4) 2])
    show ?thesis using 1 2 None k j by (auto simp: and_then_def intro!: exI [of _ "length xs + j"])
  qed
qed

lemma runs_calling:
  assumes "\<And>dc. calling cs dc (snd (m dc))"
  shows "runs config m cs"
  unfolding runs_def
proof (intro allI impI)
  fix dc :: "'a DebugContext" assume "dc_configuration dc = config"
  then show "case m dc of (error, dc') \<Rightarrow> dc_configuration dc' = config \<and>
      (\<exists>k \<le> length cs. calls_of (dc_log dc') = calls_of (dc_log dc) @ take k cs \<and> (error = None \<longrightarrow> k = length cs))"
    using assms [of dc] by (auto simp: calling_def split_beta)
qed

lemma calling_refl [simp]: "calling [] dc dc"
  by (simp add: calling_def)

lemma runs_check_call [script]: "runs config (check_call api c) [c]"
  by (rule runs_calling) (simp add: check_call_def calling_call split_beta)

lemma runs_required [script]: "runs config (run_required api p cs g) []"
  by (rule runs_calling) (simp add: run_required_def calling_commands split_beta)

lemma runs_commands [script]:
  "runs config (RunInitCommands api) []"
  by (rule runs_calling) (simp add: RunInitCommands_def run_required_def calling_commands split_beta)

lemma runs_pre_run [script]:
  "runs config (RunPreRunCommands api) []"
  by (rule runs_calling) (simp add: RunPreRunCommands_def run_required_def calling_commands split_beta)

lemma runs_hardware [script]:
  "runs config (ConfigureHardwareBreakpointRequirement api) []"
  by (rule runs_calling) (simp add: ConfigureHardwareBreakpointRequirement_def run_required_def calling_commands split_beta)

lemma runs_source_maps [script]: "runs config (always (ConfigureSourceMaps api)) []"
  by (rule runs_calling) (simp add: always_def ConfigureSourceMaps_def calling_commands Let_def)

lemma runs_post_run [script]: "runs config (always (RunPostRunCommands api)) []"
  by (rule runs_calling) (simp add: always_def RunPostRunCommands_def calling_commands)

lemma runs_root [script]:
  "runs config (always (enter_debugger_root api)) (if cf_debuggerRoot config \<noteq> [] then [CallSetCurrentPath (cf_debuggerRoot config)] else [])"
  by (auto simp: runs_def always_def enter_debugger_root_def do_call_def call_def act_def Let_def split_beta)

lemma runs_CreateTarget [script]:
  "runs config (CreateTarget api) [CallCreateTarget (cf_program config) (cf_targetTriple config) (cf_platformName config)]"
  unfolding runs_def
proof (intro allI impI)
  fix dc :: "'a DebugContext" assume c: "dc_configuration dc = config"
  let ?c = "CallCreateTarget (cf_program config) (cf_targetTriple config) (cf_platformName config)"
  have e: "CreateTarget api dc = check_call api ?c dc" by (simp only: CreateTarget_def c Let_def)
  show "case CreateTarget api dc of (error, dc') \<Rightarrow> dc_configuration dc' = config \<and>
      (\<exists>k \<le> length [?c]. calls_of (dc_log dc') = calls_of (dc_log dc) @ take k [?c] \<and> (error = None \<longrightarrow> k = length [?c]))"
    unfolding e by (rule mp [OF spec [OF iffD1 [OF runs_def runs_check_call]] c])
qed

lemma runs_SetTarget [script]: "runs config (always (SetTarget api)) [CallInvalidateProgram, CallSetTarget]"
  by (rule runs_calling) (simp add: always_def SetTarget_def calling_def do_call_def call_def act_def split_beta)

lemma runs_WaitForStop [script]: "runs config (WaitForStop api n) []"
  by (rule runs_calling) (simp add: WaitForStop_def WaitForProcessToStop_def calling_def split_beta Let_def)

lemma runs_Connect [script]: "runs config (ConnectToGdbRemote api h p n) [CallConnectRemote (''connect://'' @ h @ '':'' @ p)]"
  unfolding ConnectToGdbRemote_def by (rule runs_and_then [OF runs_check_call runs_WaitForStop, simplified])

lemma runs_launch_trace [script]: "runs config (always (launch_trace api)) [CallCreateTrace]"
  unfolding runs_def
  by (auto simp: always_def launch_trace_def CreateTrace_def EmitTraceStatus_def DebugContext_SendOutput_def DebugContext_Emit_def call_def
      act_def Let_def split_beta split: option.split)

definition openocd_config :: "LaunchRequestArguments \<Rightarrow> OpenOcdConfig" where
  "openocd_config args = ToOpenOcdConfig (la_openocd args) (cf_program (la_configuration args))
     (if la_loadImage args then Some (la_loadImageConfig args) else None)"

lemma runs_launch_openocd [script]:
  "runs config (launch_openocd api args) [CallCreateOpenOcd (openocd_config args), CallSubscribeTargetState, CallOpenOcdMemory]"
  unfolding runs_def
proof (intro allI impI)
  fix dc :: "'a DebugContext" assume c: "dc_configuration dc = config"
  let ?cs = "[CallCreateOpenOcd (openocd_config args), CallSubscribeTargetState, CallOpenOcdMemory]"
  obtain e dc1 where 1: "call api (CallCreateOpenOcd (openocd_config args)) dc = (e, dc1)" by fastforce
  have dc1: "calls_of (dc_log dc1) = calls_of (dc_log dc) @ take 1 ?cs" "dc_configuration dc1 = config"
    using calling_call(1) [of "CallCreateOpenOcd (openocd_config args)" dc api] c by (simp_all add: calling_def 1)
  show "case launch_openocd api args dc of (error, dc') \<Rightarrow> dc_configuration dc' = config \<and>
      (\<exists>k \<le> length ?cs. calls_of (dc_log dc') = calls_of (dc_log dc) @ take k ?cs \<and> (error = None \<longrightarrow> k = length ?cs))"
  proof (cases e)
    case (Some x)
    then have "launch_openocd api args dc = (Some (DAPError x), dc1)"
      using 1 by (simp add: launch_openocd_def CreateOpenOcd_def openocd_config_def)
    then show ?thesis using dc1 by (auto intro!: exI [of _ 1])
  next
    case None
    then have "fst (launch_openocd api args dc) = None \<and> dc_configuration (snd (launch_openocd api args dc)) = config \<and>
        calls_of (dc_log (snd (launch_openocd api args dc))) = calls_of (dc_log dc1) @ [CallSubscribeTargetState, CallOpenOcdMemory]"
      using 1 dc1(2) by (auto simp: launch_openocd_def CreateOpenOcd_def openocd_config_def [symmetric] do_call_def call_def act_def
          Let_def split_beta split: option.split)
    then show ?thesis using dc1(1) by (auto simp: split_beta intro!: exI [of _ 3])
  qed
qed

section \<open>The script of a launch\<close>

definition configuration_calls :: "Configuration \<Rightarrow> debug_call list" where
  "configuration_calls config =
     (case cf_customFrameFormat config of None \<Rightarrow> [] | Some f \<Rightarrow> [CallFrameFormat f]) @
     (case cf_customThreadFormat config of None \<Rightarrow> [] | Some f \<Rightarrow> [CallThreadFormat f]) @
     [CallConfigureDevice (cf_deviceName config) (cf_svdPath config)]"

definition target_calls :: "Configuration \<Rightarrow> debug_call list" where
  "target_calls config =
     (if cf_debuggerRoot config \<noteq> [] then [CallSetCurrentPath (cf_debuggerRoot config)] else []) @
     [CallCreateTarget (cf_program config) (cf_targetTriple config) (cf_platformName config), CallInvalidateProgram, CallSetTarget]"

definition bring_up_calls :: "LaunchRequestArguments \<Rightarrow> debug_call list" where
  "bring_up_calls args =
     [CallCreateOpenOcd (openocd_config args), CallSubscribeTargetState, CallOpenOcdMemory] @
     target_calls (la_configuration args) @
     [CallConnectRemote (''connect://127.0.0.1:'' @ ow_gdbPort (la_openocd args)), CallCreateTrace]"

definition launch_calls :: "bool \<Rightarrow> LaunchRequestArguments \<Rightarrow> debug_call list" where
  "launch_calls source_init args =
     [CallCreateDebugger] @ (if source_init then [CallSourceInitFiles] else []) @ [CallStartEventThread] @
     configuration_calls (la_configuration args) @ bring_up_calls args"

lemma runs_configure_target: "runs config (configure_target api) (target_calls config)"
proof -
  have "runs config (configure_target api)
     ((if cf_debuggerRoot config \<noteq> [] then [CallSetCurrentPath (cf_debuggerRoot config)] else []) @ [] @ [] @ [] @
      [CallCreateTarget (cf_program config) (cf_targetTriple config) (cf_platformName config)] @ [CallInvalidateProgram, CallSetTarget] @ [])"
    unfolding configure_target_def by (intro runs_and_then script)
  then show ?thesis by (simp add: target_calls_def)
qed

lemma SetConfiguration_calls:
  "calls_of (dc_log (SetConfiguration api config x dc)) = calls_of (dc_log dc) @ configuration_calls config"
  "dc_configuration (SetConfiguration api config x dc) = config"
  by (auto simp: SetConfiguration_def configuration_calls_def do_call_def call_def act_def Let_def split_beta split: option.split)

lemma Launch_rest_calls:
  assumes "Launch_rest api args dc = (error, dc')" and "cs = configuration_calls (la_configuration args) @ bring_up_calls args"
  obtains k where "k \<le> length cs" "calls_of (dc_log dc') = calls_of (dc_log dc) @ take k cs" "error = None \<longrightarrow> k = length cs"
proof -
  let ?config = "la_configuration args"
  let ?cs = "[CallCreateOpenOcd (openocd_config args), CallSubscribeTargetState, CallOpenOcdMemory] @ target_calls ?config @
     [CallConnectRemote (''connect://'' @ ''127.0.0.1'' @ '':'' @ ow_gdbPort (la_openocd args))] @ [CallCreateTrace] @ []"
  have cs: "bring_up_calls args = ?cs" by (simp add: bring_up_calls_def)
  let ?m = "and_then (launch_openocd api args) (and_then (configure_target api)
     (and_then (ConnectToGdbRemote api ''127.0.0.1'' (ow_gdbPort (la_openocd args)) (cf_timeout ?config))
     (and_then (always (launch_trace api)) (always (RunPostRunCommands api)))))"
  have m: "runs ?config ?m (bring_up_calls args)" unfolding cs by (intro runs_and_then script runs_configure_target)
  let ?dc = "(SetConfiguration api ?config False dc)\<lparr>dc_has_last_launch := True\<rparr>"
  have r: "?m ?dc = (error, dc')" using assms by (simp add: Launch_rest_def and_then_def [of "always _"] always_def)
  have c: "dc_configuration ?dc = ?config" by (simp add: SetConfiguration_calls)
  obtain k where k: "k \<le> length (bring_up_calls args)" "calls_of (dc_log dc') = calls_of (dc_log ?dc) @ take k (bring_up_calls args)"
    "error = None \<longrightarrow> k = length (bring_up_calls args)" using runsD [OF m c r] by blast
  show thesis
    by (rule that [of "length (configuration_calls ?config) + k"]) (use k in \<open>simp_all add: assms(2) SetConfiguration_calls\<close>)
qed



end
