(* ===== verification/Disassembly_Manager.thy ===== *)
theory Disassembly_Manager
  imports Module_Manager
begin

text \<open>
  \<open>core/components/disassembly_manager\<close>: windows of disassembled instructions around an address, the text of a
  disassembled source, and the program disassembler that is computed in the background.  What LLDB
  disassembles is a parameter.
\<close>

section \<open>One instruction\<close>

record protocol_DisassembledInstruction =
  pi_address :: u64
  pi_instructionBytes :: "string option"
  pi_instruction :: string
  pi_symbol :: "string option"
  pi_location :: "Source option"
  pi_line :: "u32 option"
  pi_column :: "u32 option"
  pi_invalid :: bool

definition GetInvalidInstruction :: protocol_DisassembledInstruction where
  "GetInvalidInstruction = \<lparr>pi_address = LLDB_INVALID_ADDRESS, pi_instructionBytes = None, pi_instruction = [], pi_symbol = None,
     pi_location = None, pi_line = None, pi_column = None, pi_invalid = True\<rparr>"

text \<open>An instruction as LLDB has it: its bytes, where one can be read, the display name of the symbol that starts at
  it, and the line entry of its address with the blocks inlined around it, whether the entry is valid and
  where it starts.\<close>

record SBInstruction =
  in_valid :: bool
  in_address :: u64
  in_mnemonic :: string
  in_operands :: string
  in_comment :: string
  in_bytes :: "u8 option list"
  in_symbol_start :: "string option"
  in_inlined_blocks :: "line_entry list"
  in_entry :: line_entry
  in_entry_valid :: bool
  in_entry_start :: u64
  in_address_info :: address_info

definition pad_right :: "nat \<Rightarrow> string \<Rightarrow> string" where
  "pad_right n s = s @ replicate (n - length s) (CHR '' '')"

definition byte_text :: "u8 \<Rightarrow> string" where
  "byte_text b = (let s = lower_hex (unat b) in replicate (2 - length s) (CHR ''0'') @ s)"

definition bytes_text :: "u8 option list \<Rightarrow> string" where
  "bytes_text bs = butlast (concat (map (\<lambda>b. case b of None \<Rightarrow> [] | Some b \<Rightarrow> byte_text b @ '' '') bs))"

definition instruction_text :: "SBInstruction \<Rightarrow> string" where
  "instruction_text inst =
     (let c = in_comment inst @ (case in_symbol_start inst of None \<Rightarrow> [] | Some name \<Rightarrow> '' '' @ name)
      in pad_right 7 (in_mnemonic inst) @ '' '' @ pad_right 25 (in_operands inst) @ (if c \<noteq> [] then '' ; '' @ c else []))"

definition ConvertSBInstructionToDisassembledInstruction ::
  "source_env \<Rightarrow> bool \<Rightarrow> SBInstruction \<Rightarrow> u64 list \<Rightarrow> protocol_DisassembledInstruction \<times> u64 list" where
  "ConvertSBInstructionToDisassembledInstruction env resolve_symbols inst references =
     (if \<not> in_valid inst then (GetInvalidInstruction, references)
      else
        (let d = \<lparr>pi_address = in_address inst, pi_instructionBytes = Some (bytes_text (in_bytes inst)),
                  pi_instruction = instruction_text inst,
                  pi_symbol = (if resolve_symbols then in_symbol_start inst else None),
                  pi_location = None, pi_line = None, pi_column = None, pi_invalid = False\<rparr>;
             (source, references) = ResolveSource_address env (in_inlined_blocks inst) (in_entry inst) (in_entry_valid inst)
               (in_address_info inst) references;
             entry = GetLineEntryForAddress (in_inlined_blocks inst) (in_entry inst)
         in case source of
              None \<Rightarrow> (d, references)
            | Some s \<Rightarrow>
                if \<not> IsAssemblySource s \<and> in_entry_start inst = in_address inst \<and> in_entry_valid inst \<and>
                   ln_file entry \<noteq> None \<and> ln_line entry \<noteq> 0
                then (d\<lparr>pi_location := Some s,
                        pi_line := (if ln_line entry \<noteq> 0 \<and> ln_line entry \<noteq> LLDB_INVALID_LINE_NUMBER then Some (ln_line entry) else None),
                        pi_column := (if ln_column entry \<noteq> 0 \<and> ln_column entry \<noteq> LLDB_INVALID_COLUMN_NUMBER
                                      then Some (ln_column entry) else None)\<rparr>, references)
                else (d, references)))"

section \<open>A window of instructions\<close>

text \<open>What LLDB disassembles: whether an address is valid, the sizes of opcodes, the addresses of a number of
  instructions from an address on, the start of the symbol around an address, the addresses of the
  instructions between two addresses, if there are any, and a number of instructions from an address on.
  LLDB's own comparison of an instruction's address with the one asked for is a parameter as well.\<close>

record disassembly_target =
  dt_valid :: "u64 \<Rightarrow> bool"
  dt_min_opcode :: u32
  dt_max_opcode :: u32
  dt_forward :: "u64 \<Rightarrow> u32 \<Rightarrow> u64 list"
  dt_symbol :: "u64 \<Rightarrow> u64 option"
  dt_between :: "u64 \<Rightarrow> u64 \<Rightarrow> u64 list"
  dt_read :: "u64 \<Rightarrow> u32 \<Rightarrow> SBInstruction list option"
  dt_same :: "u64 \<Rightarrow> SBInstruction \<Rightarrow> bool"

definition backwards_count :: "s64 \<Rightarrow> nat" where
  "backwards_count instruction_offset = nat \<bar>sint instruction_offset\<bar>"

definition GetDisassembleStartAddress :: "disassembly_target \<Rightarrow> u64 \<Rightarrow> s64 \<Rightarrow> u64 option" where
  "GetDisassembleStartAddress target addr instruction_offset =
     (if instruction_offset = 0 then Some addr
      else if dt_min_opcode target = dt_max_opcode target
      then (let a = addr + instruction_offset * ucast (dt_min_opcode target) in if dt_valid target a then Some a else None)
      else if 0 <s instruction_offset
      then (let forward_insts = dt_forward target addr (ucast (instruction_offset + 1))
            in if forward_insts = [] then None else Some (last forward_insts))
      else
        (case dt_symbol target addr of
           None \<Rightarrow> Some addr
         | Some start \<Rightarrow>
             (let symbol_insts = dt_between target start addr in
              if symbol_insts = [] then Some addr
              else if length symbol_insts < backwards_count instruction_offset then Some (hd symbol_insts)
              else Some (symbol_insts ! (length symbol_insts - backwards_count instruction_offset)))))"

text \<open>The loop converts every instruction and remembers the last one that is the one asked for.\<close>

fun convert_loop ::
  "source_env \<Rightarrow> bool \<Rightarrow> (SBInstruction \<Rightarrow> bool) \<Rightarrow> SBInstruction list \<Rightarrow> nat \<Rightarrow> nat \<Rightarrow> protocol_DisassembledInstruction list \<Rightarrow> u64 list \<Rightarrow>
   nat \<times> protocol_DisassembledInstruction list \<times> u64 list" where
  "convert_loop env resolve_symbols same [] i original listing references = (original, listing, references)"
| "convert_loop env resolve_symbols same (inst # insts) i original listing references =
     (let original = (if same inst then i else original);
          (d, references) = ConvertSBInstructionToDisassembledInstruction env resolve_symbols inst references
      in convert_loop env resolve_symbols same insts (i + 1) original (listing @ [d]) references)"

definition pad_start :: "s64 \<Rightarrow> nat \<Rightarrow> nat \<Rightarrow> protocol_DisassembledInstruction list \<Rightarrow> protocol_DisassembledInstruction list" where
  "pad_start instruction_offset instruction_count original listing =
     (if instruction_offset <s 0 \<and> original < backwards_count instruction_offset
      then (let listing = replicate (backwards_count instruction_offset - original) GetInvalidInstruction @ listing
            in if length listing > instruction_count then take instruction_count listing else listing)
      else listing)"

definition pad_end :: "nat \<Rightarrow> protocol_DisassembledInstruction list \<Rightarrow> protocol_DisassembledInstruction list" where
  "pad_end instruction_count listing =
     listing @ replicate (instruction_count - length listing) GetInvalidInstruction"

definition Disassemble ::
  "source_env \<Rightarrow> disassembly_target \<Rightarrow> u64 \<Rightarrow> s64 \<Rightarrow> s64 \<Rightarrow> u64 \<Rightarrow> bool \<Rightarrow> u64 list \<Rightarrow>
   (dap_error + protocol_DisassembledInstruction list) \<times> u64 list" where
  "Disassemble env target memory_reference byte_offset instruction_offset instruction_count resolve_symbols references =
     (if memory_reference = LLDB_INVALID_ADDRESS
      then (Inr (replicate (unat instruction_count) GetInvalidInstruction), references)
      else
        (let addr = memory_reference + byte_offset in
         if \<not> dt_valid target addr then (Inl (DAPError ''Memory reference not found in the current binary.''), references)
         else
           (case GetDisassembleStartAddress target addr instruction_offset of
              None \<Rightarrow> (Inl (DAPError ''Unexpected error while disassembling listing.''), references)
            | Some start \<Rightarrow>
                (case dt_read target start (ucast instruction_count) of
                   None \<Rightarrow> (Inl (DAPError ''Unexpected error while disassembling listing.''), references)
                 | Some insts \<Rightarrow>
                     (let (original, listing, references) =
                            convert_loop env resolve_symbols (dt_same target addr) insts 0 (unat instruction_count) [] references
                      in (Inr (pad_end (unat instruction_count)
                            (pad_start instruction_offset (unat instruction_count) original listing)), references))))))"

section \<open>The text of a disassembled source\<close>

definition k_number_of_assembly_lines_for_nodebug :: nat where
  "k_number_of_assembly_lines_for_nodebug = 32"

text \<open>The texts of the instructions of the symbol around an address, if there is one, of a number of instructions
  from an address on, and where an address is loaded, are LLDB's.\<close>

record source_target =
  sr_valid :: "u64 \<Rightarrow> bool"
  sr_symbol_instructions :: "u64 \<Rightarrow> string list option"
  sr_read :: "u64 \<Rightarrow> nat \<Rightarrow> string list"

definition GetSourceRequest :: "source_target \<Rightarrow> u64 list \<Rightarrow> Source option \<Rightarrow> s64 \<Rightarrow> dap_error + string" where
  "GetSourceRequest target references source sourceReference =
     (let source_ref = (case source of
            None \<Rightarrow> ucast sourceReference
          | Some s \<Rightarrow> (case src_sourceReference s of None \<Rightarrow> ucast sourceReference | Some r \<Rightarrow> r))
      in case GetSourceReferenceAddress references source_ref of
           None \<Rightarrow> Inl (DAPError (''unknown source reference '' @ dec_string (unat source_ref)))
         | Some address \<Rightarrow>
             if \<not> sr_valid target address then Inl (DAPError ''source not found'')
             else
               (let insts = (case sr_symbol_instructions target address of
                      Some insts \<Rightarrow> insts
                    | None \<Rightarrow> sr_read target address k_number_of_assembly_lines_for_nodebug)
                in if insts = [] then Inl (DAPError (''no instruction source for address '' @ dec_string (unat address)))
                   else Inr (concat insts)))"

section \<open>The program in the background\<close>

text \<open>The future holds what the worker computes for the path the program had when it was started; asking for the
  program waits for it.\<close>

definition InvalidateProgram :: "(string \<Rightarrow> string + 'p) \<Rightarrow> string \<Rightarrow> (string + 'p) option \<Rightarrow> (string + 'p) option" where
  "InvalidateProgram Create path program_future = Some (Create path)"

definition Program :: "(string + 'p) option \<Rightarrow> dap_error + 'p" where
  "Program program_future =
     (case program_future of
        None \<Rightarrow> Inl (DAPError ''no program configured'')
      | Some (Inl e) \<Rightarrow> Inl (DAPError e)
      | Some (Inr p) \<Rightarrow> Inr p)"

section \<open>Where the instructions of a window are\<close>

lemma converted:
  "ConvertSBInstructionToDisassembledInstruction env rs inst refs = (d, refs') \<Longrightarrow> in_valid inst \<Longrightarrow>
     pi_address d = in_address inst \<and> \<not> pi_invalid d"
  by (auto simp: ConvertSBInstructionToDisassembledInstruction_def Let_def split: prod.splits option.splits if_splits)

lemma convert_loop_result:
  assumes "convert_loop env rs same insts i original ds refs = (original', ds', refs')"
  shows "(\<exists>cs. ds' = ds @ cs \<and> length cs = length insts \<and>
      (\<forall>j < length insts. in_valid (insts ! j) \<longrightarrow> pi_address (cs ! j) = in_address (insts ! j) \<and> \<not> pi_invalid (cs ! j))) \<and>
    ((\<exists>k < length insts. same (insts ! k) \<and> original' = i + k) \<or> (\<forall>j < length insts. \<not> same (insts ! j)) \<and> original' = original)"
  using assms
proof (induction insts arbitrary: i original ds refs)
  case (Cons inst insts)
  obtain d refs1 where d: "ConvertSBInstructionToDisassembledInstruction env rs inst refs = (d, refs1)" by fastforce
  have run: "convert_loop env rs same insts (i + 1) (if same inst then i else original) (ds @ [d]) refs1 = (original', ds', refs')"
    using Cons.prems d by simp
  note ih = Cons.IH [OF run]
  then obtain cs where cs: "ds' = ds @ d # cs" "length cs = length insts"
    "\<forall>j < length insts. in_valid (insts ! j) \<longrightarrow> pi_address (cs ! j) = in_address (insts ! j) \<and> \<not> pi_invalid (cs ! j)" by auto
  have "\<forall>j < length (inst # insts). in_valid ((inst # insts) ! j) \<longrightarrow>
      pi_address ((d # cs) ! j) = in_address ((inst # insts) ! j) \<and> \<not> pi_invalid ((d # cs) ! j)"
    using cs(3) converted [OF d] by (auto simp: less_Suc_eq_0_disj)
  moreover have "(\<exists>k < length (inst # insts). same ((inst # insts) ! k) \<and> original' = i + k) \<or>
      (\<forall>j < length (inst # insts). \<not> same ((inst # insts) ! j)) \<and> original' = original"
    using ih by (auto simp: less_Suc_eq_0_disj intro: exI [of _ 0] split: if_splits)
  ultimately show ?case using cs(1,2) by (intro conjI exI [of _ "d # cs"]) auto
qed simp

lemma pad_lengths:
  "length listing \<le> n \<Longrightarrow> length (pad_end n (pad_start k n original listing)) = n"
  by (auto simp: pad_end_def pad_start_def Let_def)

lemma pad_start_take:
  "instruction_offset <s 0 \<Longrightarrow> original < backwards_count instruction_offset \<Longrightarrow>
   pad_start instruction_offset n original ds =
     take n (replicate (backwards_count instruction_offset - original) GetInvalidInstruction @ ds)"
  unfolding pad_start_def Let_def by (simp del: take_append length_append add: not_less)

lemma nth_pad_end: "i < length ds \<Longrightarrow> pad_end n ds ! i = ds ! i"
  by (simp add: pad_end_def nth_append)


definition sample_instruction :: "u64 \<Rightarrow> SBInstruction" where
  "sample_instruction a =
     \<lparr>in_valid = True, in_address = a, in_mnemonic = ''nop'', in_operands = [], in_comment = [], in_bytes = [Some 0x00, Some 0xBF],
      in_symbol_start = None, in_inlined_blocks = [], in_entry = \<lparr>ln_file = None, ln_line = 0, ln_column = 0\<rparr>, in_entry_valid = False,
      in_entry_start = 0, in_address_info = \<lparr>ai_symbol = None, ai_load_address = a, ai_module_file = None\<rparr>\<rparr>"

definition sample_window :: disassembly_target where
  "sample_window =
     \<lparr>dt_valid = (\<lambda>_. True), dt_min_opcode = 2, dt_max_opcode = 4, dt_forward = (\<lambda>_ _. []), dt_symbol = (\<lambda>_. None),
      dt_between = (\<lambda>_ _. []), dt_read = (\<lambda>a _. Some [sample_instruction a, sample_instruction (a + 2)]),
      dt_same = (\<lambda>a inst. in_address inst = a)\<rparr>"

definition sample_files :: source_env where
  "sample_files = \<lparr>se_exists = (\<lambda>_. True), se_setting = [], se_resolve = (\<lambda>_. None)\<rparr>"


text \<open>When the window ends before the address, its instructions are pushed out of it, all of them if it is so far.\<close>

lemma window_before_reference_lost:
  assumes "memory_reference \<noteq> LLDB_INVALID_ADDRESS" and "dt_valid target (memory_reference + byte_offset)"
    and "GetDisassembleStartAddress target (memory_reference + byte_offset) instruction_offset = Some start"
    and insts: "dt_read target start (ucast instruction_count) = Some insts"
    and none: "\<forall>j < length insts. \<not> dt_same target (memory_reference + byte_offset) (insts ! j)"
    and far: "2 * unat instruction_count \<le> backwards_count instruction_offset" "0 < unat instruction_count" "instruction_offset <s 0"
  shows "fst (Disassemble env target memory_reference byte_offset instruction_offset instruction_count resolve_symbols references) =
    Inr (replicate (unat instruction_count) GetInvalidInstruction)"
proof -
  let ?n = "unat instruction_count"
  obtain original ds refs where c:
    "convert_loop env resolve_symbols (dt_same target (memory_reference + byte_offset)) insts 0 ?n [] references = (original, ds, refs)"
    by (metis prod_cases3)
  have original: "original = ?n" using convert_loop_result [OF c] none by auto
  have "?n \<le> backwards_count instruction_offset - ?n" using far(1) by simp
  then have "take ?n (replicate (backwards_count instruction_offset - ?n) GetInvalidInstruction @ ds) = replicate ?n GetInvalidInstruction"
    by simp
  then have "pad_start instruction_offset ?n original ds = replicate ?n GetInvalidInstruction"
    using far original by (simp add: pad_start_take)
  then show ?thesis using assms c by (simp add: Disassemble_def Let_def pad_end_def)
qed

end
