(* ===== verification/Variable_Description.thy ===== *)
theory Variable_Description
  imports Execution_Controller
begin

text \<open>
  \<open>core/variable_description\<close>: how the value of a variable is shown to the client.  A value as LLDB has it is a
  tree with its children; what LLDB formats is part of it.
\<close>

section \<open>Values\<close>

datatype Format = eFormatDefault | eFormatHex | eFormatAddressInfo | eFormatOther nat

text \<open>A type: whether it is a structure, a union or an array, and the offset of each of its fields.\<close>

record SBType =
  ty_display_name :: string
  ty_container :: bool
  ty_pointer :: bool
  ty_reference :: bool
  ty_array :: bool
  ty_aggregate :: bool
  ty_pointee_function :: bool
  ty_field_offsets :: "u64 list"

text \<open>A declaration: the name of its file, its line and its column, if it is valid.\<close>

record value_info =
  vi_valid :: bool
  vi_name :: string
  vi_type :: SBType
  vi_format :: Format
  vi_error :: "string option"
  vi_text :: "Format \<Rightarrow> string"
  vi_summary :: string
  vi_location :: string
  vi_declaration :: "(file_spec option \<times> u32 \<times> u32) option"
  vi_might_have_children :: bool
  vi_synthetic :: bool
  vi_load_address :: u64
  vi_unsigned :: u64
  vi_as_address :: u64
  vi_address_has_line :: bool
  vi_byte_size :: u64
  vi_path :: string
  vi_register_set :: bool
  vi_full_description :: string
  vi_brief_description :: string

datatype SBValue = SBValue (val_info: value_info) (val_children: "SBValue list") (val_target: "SBValue option") (val_raw: "SBValue option")

definition is_pointer :: "SBValue \<Rightarrow> bool" where
  "is_pointer v \<longleftrightarrow> ty_pointer (vi_type (val_info v))"

definition is_space :: "char \<Rightarrow> bool" where
  "is_space c \<longleftrightarrow> c \<in> {CHR '' '', CHR 0x09, CHR 0x0A, CHR 0x0B, CHR 0x0C, CHR 0x0D}"

definition trim :: "string \<Rightarrow> string" where
  "trim s = rev (dropWhile is_space (rev (dropWhile is_space s)))"

section \<open>Names\<close>

definition GetNonNullVariableName :: "SBValue \<Rightarrow> string" where
  "GetNonNullVariableName v = (if vi_name (val_info v) \<noteq> [] then vi_name (val_info v) else ''<null>'')"

definition CreateUniqueVariableNameForDisplay :: "SBValue \<Rightarrow> bool \<Rightarrow> string" where
  "CreateUniqueVariableNameForDisplay v is_name_duplicated =
     GetNonNullVariableName v @
     (if \<not> is_name_duplicated then []
      else
        (let (file_name, line) = (case vi_declaration (val_info v) of
               None \<Rightarrow> ([], 0)
             | Some (file, line, _) \<Rightarrow>
                 (case file of Some f \<Rightarrow> (case fs_filename f of Some n \<Rightarrow> n | None \<Rightarrow> []) | None \<Rightarrow> [], line))
         in if file_name \<noteq> [] \<and> line \<noteq> 0 \<and> line \<noteq> LLDB_INVALID_LINE_NUMBER
            then '' @ '' @ file_name @ '':'' @ dec_string (unat line)
            else if vi_location (val_info v) \<noteq> [] then '' @ '' @ vi_location (val_info v) else []))"

section \<open>Summaries\<close>

text \<open>The time that fetching children may take is over at the children \<open>late\<close> tells.\<close>

fun summary_loop :: "(nat \<Rightarrow> bool) \<Rightarrow> nat \<Rightarrow> SBValue list \<Rightarrow> string \<Rightarrow> string \<Rightarrow> string" where
  "summary_loop late i [] summary separator = summary"
| "summary_loop late i (child # rest) summary separator =
     (if length summary > 32 \<or> late i then summary @ separator @ ''...''
      else
        (let c = val_info child;
             desc = (if vi_summary c \<noteq> [] then Some (vi_summary c)
                     else if vi_text c (vi_format c) \<noteq> [] then Some (vi_text c (vi_format c))
                     else if ty_container (vi_type c) then Some ''{...}'' else None)
         in if vi_name c = [] then summary_loop late (i + 1) rest summary separator
            else
              (case desc of
                 None \<Rightarrow> summary_loop late (i + 1) rest summary separator
               | Some d \<Rightarrow>
                   summary_loop late (i + 1) rest
                     (summary @ separator @ (if starts_with (vi_name c) ''['' then d else vi_name c @ '':'' @ d)) '', '')))"

definition TryCreateAutoSummaryForContainer :: "(nat \<Rightarrow> bool) \<Rightarrow> SBValue \<Rightarrow> string option" where
  "TryCreateAutoSummaryForContainer late v =
     (if \<not> vi_might_have_children (val_info v) then None
      else
        (let summary = summary_loop late 0 (val_children v) ''{'' [] @ ''}''
         in if summary = ''{...}'' \<or> summary = ''{}'' then None else Some summary))"

text \<open>A pointer or reference is replaced by what it refers to, also for the caller.\<close>

definition Dereference :: "SBValue \<Rightarrow> SBValue" where
  "Dereference v = (case val_target v of Some t \<Rightarrow> t | None \<Rightarrow> v)"

definition TryCreateAutoSummary :: "(nat \<Rightarrow> bool) \<Rightarrow> SBValue \<Rightarrow> string option \<times> SBValue" where
  "TryCreateAutoSummary late v =
     (let v = (if is_pointer v \<or> ty_reference (vi_type (val_info v)) then Dereference v else v)
      in (TryCreateAutoSummaryForContainer late v, v))"

section \<open>Descriptions\<close>

record VariableDescription =
  vd_error :: "string option"
  vd_display_value :: string
  vd_name :: string
  vd_evaluate_name :: string
  vd_value :: string
  vd_summary :: string
  vd_auto_summary :: "string option"
  vd_display_type_name :: string

definition shown_format :: "bool \<Rightarrow> SBValue \<Rightarrow> Format" where
  "shown_format format_hex v =
     (let current_format = vi_format (val_info v) in
      if current_format = eFormatDefault \<or> current_format = eFormatHex
      then (if format_hex \<or> is_pointer v then eFormatHex else eFormatDefault) else current_format)"

definition shown_value :: "string \<Rightarrow> string \<Rightarrow> string \<Rightarrow> string" where
  "shown_value value_text display_summary type_name =
     (if value_text \<noteq> [] then value_text @ (if display_summary \<noteq> [] then '' '' @ display_summary else [])
      else if display_summary \<noteq> [] then display_summary
      else type_name)"

definition make_VariableDescription ::
  "(nat \<Rightarrow> bool) \<Rightarrow> SBValue \<Rightarrow> bool \<Rightarrow> bool \<Rightarrow> bool \<Rightarrow> string option \<Rightarrow> VariableDescription" where
  "make_VariableDescription late v auto_variable_summaries format_hex is_name_duplicated custom_name =
     (let i = val_info v;
          n = (case custom_name of Some c \<Rightarrow> c | None \<Rightarrow> CreateUniqueVariableNameForDisplay v is_name_duplicated);
          type_name = ty_display_name (vi_type i);
          d = \<lparr>vd_error = None, vd_display_value = [], vd_name = n, vd_evaluate_name = vi_path i, vd_value = [], vd_summary = [],
               vd_auto_summary = None, vd_display_type_name = (if type_name = [] then ''<no-type>'' else type_name)\<rparr>
      in case vi_error i of
           Some e \<Rightarrow> d\<lparr>vd_error := Some e, vd_display_value := ''<error: '' @ e @ ''>''\<rparr>
         | None \<Rightarrow>
             (let value_text = vi_text i (shown_format format_hex v);
                  (auto_summary, v) = (if vi_summary i = [] \<and> auto_variable_summaries then TryCreateAutoSummary late v else (None, v));
                  display_summary = (case auto_summary of Some s \<Rightarrow> s | None \<Rightarrow> vi_summary i)
              in d\<lparr>vd_value := value_text, vd_summary := vi_summary i, vd_auto_summary := auto_summary,
                   vd_display_value := shown_value value_text display_summary type_name, vd_evaluate_name := vi_path (val_info v)\<rparr>))"

datatype EvaluateContext = eEvaluateContextUnknown | eEvaluateContextWatch | eEvaluateContextRepl | eEvaluateContextHover
  | eEvaluateContextClipboard | eEvaluateContextVariables

definition GetResult :: "VariableDescription \<Rightarrow> SBValue \<Rightarrow> EvaluateContext \<Rightarrow> string" where
  "GetResult d v evaluate_context =
     (if evaluate_context \<noteq> eEvaluateContextRepl \<and> evaluate_context \<noteq> eEvaluateContextClipboard then vd_display_value d
      else if \<not> vi_valid (val_info v) then vd_display_value d
      else if evaluate_context = eEvaluateContextRepl then trim (vi_full_description (val_info v))
      else trim (vi_brief_description (val_info v)))"

definition GetRealLoadAddress :: "SBValue \<Rightarrow> u64" where
  "GetRealLoadAddress v =
     (let i = val_info v; addr = vi_load_address i in
      if addr \<noteq> LLDB_INVALID_ADDRESS \<and> \<not> is_pointer v \<and> addr = vi_unsigned i then LLDB_INVALID_ADDRESS else addr)"

definition ValuePointsToCode :: "SBValue \<Rightarrow> bool" where
  "ValuePointsToCode v \<longleftrightarrow> ty_pointee_function (vi_type (val_info v)) \<and> vi_address_has_line (val_info v)"

text \<open>A summary that a container makes for itself is short: the loop stops adding once it is longer than its limit.\<close>

lemma summary_loop_stops:
  "length summary > 32 \<Longrightarrow> rest \<noteq> [] \<Longrightarrow> summary_loop late i rest summary separator = summary @ separator @ ''...''"
  by (cases rest) simp_all

text \<open>With automatic summaries, the expression of a pointer to a structure is that of the structure.\<close>

lemma pointer_expression_dereferenced:
  assumes "is_pointer v" and "val_target v = Some t" and "vi_error (val_info v) = None" and "vi_summary (val_info v) = []"
  shows "vd_evaluate_name (make_VariableDescription late v True hex dup n) = vi_path (val_info t)"
    "vd_evaluate_name (make_VariableDescription late v False hex dup n) = vi_path (val_info v)"
  using assms by (simp_all add: make_VariableDescription_def TryCreateAutoSummary_def Dereference_def Let_def)

end
