(* ===== verification/Variables.thy ===== *)
theory Variables
  imports Variable_Description
begin

text \<open>
  The store of \<open>core/components/data_manager\<close> for what the client may ask about by number: scopes and values,
  those that live until the process is resumed and those that stay.  Numbers of 64 bits are whole numbers: the
  one place where their size matters, the bound that tells the two kinds apart, is written out.
\<close>

section \<open>The store\<close>

datatype ScopeKind = eScopeKindLocals | eScopeKindGlobals | eScopeKindRegisters

text \<open>The values of a frame, with what went wrong when the locals could not be read.\<close>

record FrameScopes =
  fr_locals :: "SBValue list"
  fr_locals_error :: "string option"
  fr_globals :: "SBValue list"
  fr_registers :: "SBValue list"

definition FrameScopes_GetScope :: "FrameScopes \<Rightarrow> ScopeKind \<Rightarrow> SBValue list" where
  "FrameScopes_GetScope frame kind =
     (case kind of eScopeKindLocals \<Rightarrow> fr_locals frame | eScopeKindGlobals \<Rightarrow> fr_globals frame | eScopeKindRegisters \<Rightarrow> fr_registers frame)"

abbreviation (input) TemporaryVariableStartIndex :: int where "TemporaryVariableStartIndex \<equiv> 1"
abbreviation (input) PermanentVariableStartIndex :: int where "PermanentVariableStartIndex \<equiv> 2 ^ 32"

record Variables =
  va_next_permanent :: int
  va_next_temporary :: int
  va_scope_kinds :: "int \<rightharpoonup> ScopeKind \<times> u64"
  va_referenced :: "int \<rightharpoonup> SBValue"
  va_permanent :: "int \<rightharpoonup> SBValue"
  va_frames :: "u64 \<rightharpoonup> FrameScopes"

definition new_Variables :: Variables where
  "new_Variables = \<lparr>va_next_permanent = PermanentVariableStartIndex, va_next_temporary = TemporaryVariableStartIndex,
     va_scope_kinds = Map.empty, va_referenced = Map.empty, va_permanent = Map.empty, va_frames = Map.empty\<rparr>"

definition IsPermanentVariableReference :: "int \<Rightarrow> bool" where
  "IsPermanentVariableReference var_ref \<longleftrightarrow> PermanentVariableStartIndex \<le> var_ref"

definition GetNewVariableReference :: "bool \<Rightarrow> Variables \<Rightarrow> int \<times> Variables" where
  "GetNewVariableReference is_permanent vs =
     (if is_permanent then (va_next_permanent vs, vs\<lparr>va_next_permanent := va_next_permanent vs + 1\<rparr>)
      else (va_next_temporary vs, vs\<lparr>va_next_temporary := va_next_temporary vs + 1\<rparr>))"

definition GetVariable :: "Variables \<Rightarrow> int \<Rightarrow> SBValue option" where
  "GetVariable vs var_ref = (if IsPermanentVariableReference var_ref then va_permanent vs var_ref else va_referenced vs var_ref)"

definition map_insert :: "'k \<Rightarrow> 'v \<Rightarrow> ('k \<rightharpoonup> 'v) \<Rightarrow> 'k \<rightharpoonup> 'v" where
  "map_insert k v m = (if m k = None then m(k \<mapsto> v) else m)"

definition InsertVariable :: "SBValue \<Rightarrow> bool \<Rightarrow> Variables \<Rightarrow> int \<times> Variables" where
  "InsertVariable v is_permanent vs =
     (let (var_ref, vs) = GetNewVariableReference is_permanent vs in
      (var_ref, if is_permanent then vs\<lparr>va_permanent := map_insert var_ref v (va_permanent vs)\<rparr>
                else vs\<lparr>va_referenced := map_insert var_ref v (va_referenced vs)\<rparr>))"

definition GetTopLevelScope :: "Variables \<Rightarrow> int \<Rightarrow> (ScopeKind \<times> u64 \<times> FrameScopes) option" where
  "GetTopLevelScope vs var_ref =
     (case va_scope_kinds vs var_ref of
        None \<Rightarrow> None
      | Some (kind, dap_frame_id) \<Rightarrow>
          (case va_frames vs dap_frame_id of None \<Rightarrow> None | Some frame \<Rightarrow> Some (kind, dap_frame_id, frame)))"

definition Variables_Clear :: "Variables \<Rightarrow> Variables" where
  "Variables_Clear vs = vs\<lparr>va_referenced := Map.empty, va_scope_kinds := Map.empty, va_frames := Map.empty,
     va_next_temporary := TemporaryVariableStartIndex\<rparr>"

definition Variables_GetScope :: "Variables \<Rightarrow> u64 \<Rightarrow> ScopeKind \<Rightarrow> SBValue list option" where
  "Variables_GetScope vs dap_frame_id kind = map_option (\<lambda>frame. FrameScopes_GetScope frame kind) (va_frames vs dap_frame_id)"

record Scope =
  sco_name :: string
  sco_kind :: ScopeKind
  sco_variablesReference :: int
  sco_namedVariables :: nat
  sco_expensive :: bool

definition CreateScope :: "ScopeKind \<Rightarrow> int \<Rightarrow> nat \<Rightarrow> bool \<Rightarrow> Scope" where
  "CreateScope kind var_ref named expensive =
     \<lparr>sco_name = (case kind of eScopeKindLocals \<Rightarrow> ''Locals'' | eScopeKindGlobals \<Rightarrow> ''Globals'' | eScopeKindRegisters \<Rightarrow> ''Registers''),
      sco_kind = kind, sco_variablesReference = var_ref, sco_namedVariables = named, sco_expensive = expensive\<rparr>"

definition create_scope :: "u64 \<Rightarrow> FrameScopes \<Rightarrow> ScopeKind \<Rightarrow> Variables \<Rightarrow> Scope \<times> Variables" where
  "create_scope dap_frame_id frame kind vs =
     (let (var_ref, vs) = GetNewVariableReference False vs
      in (CreateScope kind var_ref (length (FrameScopes_GetScope frame kind)) False,
          vs\<lparr>va_scope_kinds := map_insert var_ref (kind, dap_frame_id) (va_scope_kinds vs)\<rparr>))"

text \<open>The values of a frame are read when it is first asked for.\<close>

definition CreateScopes :: "u64 \<Rightarrow> FrameScopes \<Rightarrow> Variables \<Rightarrow> Scope list \<times> Variables" where
  "CreateScopes dap_frame_id fresh vs =
     (let (frame, vs) = (case va_frames vs dap_frame_id of
            Some frame \<Rightarrow> (frame, vs) | None \<Rightarrow> (fresh, vs\<lparr>va_frames := (va_frames vs)(dap_frame_id \<mapsto> fresh)\<rparr>));
          (a, vs) = create_scope dap_frame_id frame eScopeKindLocals vs;
          (b, vs) = create_scope dap_frame_id frame eScopeKindGlobals vs;
          (c, vs) = create_scope dap_frame_id frame eScopeKindRegisters vs
      in ([a, b, c], vs))"

text \<open>A variable of a scope is looked for by the name the client was shown, from the last one on; a child of a value
  by its name or, in brackets, its place.  Reading a number and finding a child by name are LLVM's and LLDB's.\<close>

definition contains_at :: "string \<Rightarrow> bool" where
  "contains_at s \<longleftrightarrow> sublist '' @'' s"

fun find_last :: "('a \<Rightarrow> bool) \<Rightarrow> 'a list \<Rightarrow> 'a option" where
  "find_last p xs = List.find p (rev xs)"

record child_env =
  ce_member :: "SBValue \<Rightarrow> string \<Rightarrow> SBValue option"
  ce_consume_integer :: "string \<Rightarrow> (u64 \<times> string) option"

definition FindVariable :: "child_env \<Rightarrow> Variables \<Rightarrow> int \<Rightarrow> string \<Rightarrow> SBValue option" where
  "FindVariable env vs var_ref name =
     (case GetTopLevelScope vs var_ref of
        Some (kind, _, frame) \<Rightarrow>
          find_last (\<lambda>v. CreateUniqueVariableNameForDisplay v (contains_at name) = name) (FrameScopes_GetScope frame kind)
      | None \<Rightarrow>
          (case GetVariable vs var_ref of
             None \<Rightarrow> None
           | Some c \<Rightarrow>
               (case ce_member env c name of
                  Some v \<Rightarrow> Some v
                | None \<Rightarrow>
                    if starts_with name ''[''
                    then (case ce_consume_integer env (tl name) of
                            None \<Rightarrow> None
                          | Some (i, rest) \<Rightarrow>
                              if rest = '']'' \<and> unat i < length (val_children c) then Some (val_children c ! unat i) else None)
                    else None)))"

section \<open>The store is never in doubt\<close>

datatype variables_op = InsertTemporary SBValue | InsertPermanent SBValue | OpenScopes u64 FrameScopes | ResumeProcess

text \<open>What was handed out, and for what.\<close>

datatype handed = HandedValue SBValue | HandedScope ScopeKind u64

fun variables_step :: "variables_op \<Rightarrow> Variables \<Rightarrow> (int \<times> handed) list \<times> Variables" where
  "variables_step (InsertTemporary v) vs = (let (r, vs) = InsertVariable v False vs in ([(r, HandedValue v)], vs))"
| "variables_step (InsertPermanent v) vs = (let (r, vs) = InsertVariable v True vs in ([(r, HandedValue v)], vs))"
| "variables_step (OpenScopes dap_frame_id fresh) vs =
     (let (scopes, vs) = CreateScopes dap_frame_id fresh vs
      in (map (\<lambda>s. (sco_variablesReference s, HandedScope (sco_kind s) dap_frame_id)) scopes, vs))"
| "variables_step ResumeProcess vs = ([], Variables_Clear vs)"

text \<open>After the process is resumed only the permanent references are left to the client.\<close>

fun client_refs :: "variables_op \<Rightarrow> (int \<times> handed) list \<Rightarrow> (int \<times> handed) list \<Rightarrow> (int \<times> handed) list" where
  "client_refs ResumeProcess given refs = filter (\<lambda>(r, _). IsPermanentVariableReference r) refs"
| "client_refs op given refs = refs @ given"

fun variables_run :: "variables_op list \<Rightarrow> (int \<times> handed) list \<Rightarrow> Variables \<Rightarrow> (int \<times> handed) list \<times> Variables" where
  "variables_run [] refs vs = (refs, vs)"
| "variables_run (op # ops) refs vs =
     (let (given, vs) = variables_step op vs in variables_run ops (client_refs op given refs) vs)"

definition named :: "Variables \<Rightarrow> int \<Rightarrow> handed \<Rightarrow> bool" where
  "named vs r h =
     (case h of
        HandedValue v \<Rightarrow> GetVariable vs r = Some v \<and> va_scope_kinds vs r = None
      | HandedScope kind dap_frame_id \<Rightarrow>
          GetVariable vs r = None \<and> va_scope_kinds vs r = Some (kind, dap_frame_id) \<and> va_frames vs dap_frame_id \<noteq> None)"

definition next_of :: "int \<Rightarrow> Variables \<Rightarrow> int" where
  "next_of r vs = (if IsPermanentVariableReference r then va_next_permanent vs else va_next_temporary vs)"

definition store_ok :: "(int \<times> handed) list \<Rightarrow> Variables \<Rightarrow> bool" where
  "store_ok refs vs \<longleftrightarrow>
     0 < va_next_temporary vs \<and> PermanentVariableStartIndex \<le> va_next_permanent vs \<and>
     (\<forall>r. va_referenced vs r \<noteq> None \<or> va_scope_kinds vs r \<noteq> None \<longrightarrow> r < va_next_temporary vs) \<and>
     (\<forall>r. va_permanent vs r \<noteq> None \<longrightarrow> r < va_next_permanent vs) \<and>
     distinct (map fst refs) \<and> (\<forall>(r, h) \<in> set refs. 0 < r \<and> r < next_of r vs \<and> named vs r h)"

lemma store_okD:
  assumes "store_ok refs vs"
  shows "0 < va_next_temporary vs" "PermanentVariableStartIndex \<le> va_next_permanent vs"
    "va_referenced vs r \<noteq> None \<Longrightarrow> r < va_next_temporary vs" "va_scope_kinds vs r \<noteq> None \<Longrightarrow> r < va_next_temporary vs"
    "va_permanent vs r \<noteq> None \<Longrightarrow> r < va_next_permanent vs"
    "distinct (map fst refs)" "(r, h) \<in> set refs \<Longrightarrow> 0 < r \<and> r < next_of r vs \<and> named vs r h"
  using assms unfolding store_ok_def by auto

lemma new_Variables_ok: "store_ok [] new_Variables"
  by (simp add: store_ok_def new_Variables_def)

text \<open>A reference that was handed out keeps its meaning when another number is taken.\<close>

lemma store_ok_hand_out:
  assumes ok: "store_ok refs vs" and r: "r = (if p then va_next_permanent vs else va_next_temporary vs)"
    and room: "\<not> p \<Longrightarrow> va_next_temporary vs < PermanentVariableStartIndex"
    and vs': "va_next_permanent vs' = va_next_permanent vs + (if p then 1 else 0)"
      "va_next_temporary vs' = va_next_temporary vs + (if p then 0 else 1)"
    and same: "\<And>q. q \<noteq> r \<Longrightarrow> va_referenced vs' q = va_referenced vs q" "\<And>q. q \<noteq> r \<Longrightarrow> va_scope_kinds vs' q = va_scope_kinds vs q"
      "\<And>q. q \<noteq> r \<Longrightarrow> va_permanent vs' q = va_permanent vs q"
    and own: "p \<Longrightarrow> va_referenced vs' r = va_referenced vs r \<and> va_scope_kinds vs' r = va_scope_kinds vs r"
      "\<not> p \<Longrightarrow> va_permanent vs' r = va_permanent vs r"
    and frames: "va_frames vs' = va_frames vs" and h: "named vs' r h"
  shows "store_ok (refs @ [(r, h)]) vs'"
proof -
  note D = store_okD [OF ok]
  have kind: "IsPermanentVariableReference r = p" using r room D(2) by (auto simp: IsPermanentVariableReference_def)
  have fresh: "q \<noteq> r" if "(q, g) \<in> set refs" for q g
    using D(7) [OF that] r kind by (auto simp: next_of_def)
  have "named vs' q g" if "(q, g) \<in> set refs" for q g
  proof -
    have "GetVariable vs' q = GetVariable vs q" "va_scope_kinds vs' q = va_scope_kinds vs q"
      using same fresh [OF that] by (simp_all add: GetVariable_def)
    then show ?thesis using D(7) [OF that] frames by (cases g) (simp_all add: named_def)
  qed
  moreover have "q < next_of q vs'" if "(q, g) \<in> set refs" for q g
    using D(7) [OF that] vs' by (auto simp: next_of_def split: if_splits)
  moreover have "0 < q" if "(q, g) \<in> set refs" for q g using D(7) [OF that] by simp
  moreover have "0 < r" "r < next_of r vs'" using r kind vs' D(1,2) by (auto simp: next_of_def)
  moreover have "distinct (map fst (refs @ [(r, h)]))" using D(6) fresh by fastforce
  moreover have "q < va_next_temporary vs'" if "va_referenced vs' q \<noteq> None \<or> va_scope_kinds vs' q \<noteq> None" for q
  proof (cases "q = r \<and> \<not> p")
    case True then show ?thesis using r vs' by simp
  next
    case False
    then have "va_referenced vs' q = va_referenced vs q \<and> va_scope_kinds vs' q = va_scope_kinds vs q"
      using same own by (cases "q = r") auto
    then show ?thesis using that D(3,4) [of q] vs' by (auto split: if_splits)
  qed
  moreover have "q < va_next_permanent vs'" if "va_permanent vs' q \<noteq> None" for q
  proof (cases "q = r \<and> p")
    case True then show ?thesis using r vs' by simp
  next
    case False
    then have "va_permanent vs' q = va_permanent vs q" using same own by (cases "q = r") auto
    then show ?thesis using that D(5) [of q] vs' by (auto split: if_splits)
  qed
  ultimately show ?thesis using D(1,2) vs' h unfolding store_ok_def by (auto split: if_splits)
qed

lemma InsertVariable_ok:
  assumes ok: "store_ok refs vs" and run: "InsertVariable v p vs = (r, vs')"
    and room: "va_next_temporary vs < PermanentVariableStartIndex"
  shows "store_ok (refs @ [(r, HandedValue v)]) vs'" "va_next_temporary vs' \<le> va_next_temporary vs + 1"
proof -
  note D = store_okD [OF ok]
  have r: "r = (if p then va_next_permanent vs else va_next_temporary vs)"
    using run by (auto simp: InsertVariable_def GetNewVariableReference_def split: if_splits)
  have kind: "IsPermanentVariableReference r = p" using r room D(2) by (auto simp: IsPermanentVariableReference_def)
  have none: "va_scope_kinds vs r = None" "p \<Longrightarrow> va_permanent vs r = None" "\<not> p \<Longrightarrow> va_referenced vs r = None"
    using D(2) D(3-5) [of r] r room by (force split: if_splits)+
  have vs': "vs' = (if p then vs\<lparr>va_next_permanent := va_next_permanent vs + 1, va_permanent := (va_permanent vs)(r \<mapsto> v)\<rparr>
      else vs\<lparr>va_next_temporary := va_next_temporary vs + 1, va_referenced := (va_referenced vs)(r \<mapsto> v)\<rparr>)"
    using run none r by (auto simp: InsertVariable_def GetNewVariableReference_def map_insert_def split: if_splits)
  have "named vs' r (HandedValue v)" using kind none by (auto simp: named_def GetVariable_def vs')
  then show "store_ok (refs @ [(r, HandedValue v)]) vs'"
    by (intro store_ok_hand_out [OF ok r room, of vs']) (auto simp: vs')
  show "va_next_temporary vs' \<le> va_next_temporary vs + 1" by (simp add: vs')
qed

lemma create_scope_ok:
  assumes ok: "store_ok refs vs" and run: "create_scope dap_frame_id frame kind vs = (s, vs')"
    and room: "va_next_temporary vs < PermanentVariableStartIndex" and there: "va_frames vs dap_frame_id \<noteq> None"
  shows "store_ok (refs @ [(sco_variablesReference s, HandedScope (sco_kind s) dap_frame_id)]) vs'"
    "va_next_temporary vs' \<le> va_next_temporary vs + 1" "va_frames vs' = va_frames vs"
proof -
  note D = store_okD [OF ok]
  let ?r = "va_next_temporary vs"
  have none: "va_scope_kinds vs ?r = None" "va_referenced vs ?r = None" using D(3,4) [of ?r] by (metis less_irrefl)+
  have vs': "vs' = vs\<lparr>va_next_temporary := ?r + 1, va_scope_kinds := (va_scope_kinds vs)(?r \<mapsto> (kind, dap_frame_id))\<rparr>"
    and s: "sco_variablesReference s = ?r" "sco_kind s = kind"
    using run none by (auto simp: create_scope_def GetNewVariableReference_def map_insert_def CreateScope_def)
  have "named vs' ?r (HandedScope kind dap_frame_id)"
    using there none room by (auto simp: named_def GetVariable_def vs' IsPermanentVariableReference_def)
  then show "store_ok (refs @ [(sco_variablesReference s, HandedScope (sco_kind s) dap_frame_id)]) vs'"
    unfolding s by (intro store_ok_hand_out [where p = False, OF ok _ room, of _ vs']) (auto simp: vs')
  show "va_next_temporary vs' \<le> va_next_temporary vs + 1" "va_frames vs' = va_frames vs" by (simp_all add: vs')
qed

lemma store_ok_new_frame:
  assumes "store_ok refs vs" and "va_frames vs dap_frame_id = None"
  shows "store_ok refs (vs\<lparr>va_frames := (va_frames vs)(dap_frame_id \<mapsto> fresh)\<rparr>)"
proof -
  have "named vs r h \<Longrightarrow> named (vs\<lparr>va_frames := (va_frames vs)(dap_frame_id \<mapsto> fresh)\<rparr>) r h" for r h
    by (cases h) (auto simp: named_def GetVariable_def)
  then show ?thesis using assms(1) by (fastforce simp: store_ok_def next_of_def)
qed

lemma CreateScopes_ok:
  assumes ok: "store_ok refs vs" and run: "CreateScopes dap_frame_id fresh vs = (scopes, vs')"
    and room: "va_next_temporary vs + 2 < PermanentVariableStartIndex"
  shows "store_ok (refs @ map (\<lambda>s. (sco_variablesReference s, HandedScope (sco_kind s) dap_frame_id)) scopes) vs'"
    "va_next_temporary vs' \<le> va_next_temporary vs + 3"
proof -
  define frame where "frame = (case va_frames vs dap_frame_id of Some frame \<Rightarrow> frame | None \<Rightarrow> fresh)"
  define vs0 where "vs0 = (case va_frames vs dap_frame_id of
      Some frame \<Rightarrow> vs | None \<Rightarrow> vs\<lparr>va_frames := (va_frames vs)(dap_frame_id \<mapsto> fresh)\<rparr>)"
  have 0: "store_ok refs vs0" "va_next_temporary vs0 = va_next_temporary vs" "va_frames vs0 dap_frame_id \<noteq> None"
    using ok store_ok_new_frame by (auto simp: vs0_def split: option.split)
  obtain a vs1 where 1: "create_scope dap_frame_id frame eScopeKindLocals vs0 = (a, vs1)" by fastforce
  obtain b vs2 where 2: "create_scope dap_frame_id frame eScopeKindGlobals vs1 = (b, vs2)" by fastforce
  obtain c vs3 where 3: "create_scope dap_frame_id frame eScopeKindRegisters vs2 = (c, vs3)" by fastforce
  have e: "scopes = [a, b, c]" "vs' = vs3"
    using run 1 2 3 by (auto simp: CreateScopes_def frame_def vs0_def split: option.splits)
  note A = create_scope_ok [OF 0(1) 1 _ 0(3)]
  have a: "va_next_temporary vs0 < PermanentVariableStartIndex" using 0(2) room by simp
  have b: "va_next_temporary vs1 < PermanentVariableStartIndex" using A(2) [OF a] 0(2) room by simp
  have fb: "va_frames vs1 dap_frame_id \<noteq> None" using A(3) [OF a] 0(3) by simp
  note B = create_scope_ok [OF A(1) [OF a] 2 b fb]
  have c: "va_next_temporary vs2 < PermanentVariableStartIndex" using B(2) A(2) [OF a] 0(2) room by simp
  have fc: "va_frames vs2 dap_frame_id \<noteq> None" using B(3) fb by simp
  note C = create_scope_ok [OF B(1) 3 c fc]
  show "store_ok (refs @ map (\<lambda>s. (sco_variablesReference s, HandedScope (sco_kind s) dap_frame_id)) scopes) vs'"
    using C(1) by (simp add: e)
  show "va_next_temporary vs' \<le> va_next_temporary vs + 3" using C(2) B(2) A(2) [OF a] 0(2) by (simp add: e)
qed

lemma Variables_Clear_ok:
  assumes ok: "store_ok refs vs" and room: "va_next_temporary vs \<le> PermanentVariableStartIndex"
  shows "store_ok (filter (\<lambda>(r, _). IsPermanentVariableReference r) refs) (Variables_Clear vs)"
    "va_next_temporary (Variables_Clear vs) \<le> va_next_temporary vs"
proof -
  note D = store_okD [OF ok]
  have "named (Variables_Clear vs) r h \<and> r < next_of r (Variables_Clear vs)"
    if "(r, h) \<in> set refs" "IsPermanentVariableReference r" for r h
    using D(7) [OF that(1)] that(2) D(4) [of r] room
    by (cases h) (auto simp: named_def next_of_def GetVariable_def Variables_Clear_def IsPermanentVariableReference_def)
  moreover have "distinct (map fst (filter (\<lambda>(r, _). IsPermanentVariableReference r) refs))"
    using D(6) by (rule distinct_map_filter)
  ultimately show "store_ok (filter (\<lambda>(r, _). IsPermanentVariableReference r) refs) (Variables_Clear vs)"
    using D(2,5,7) unfolding store_ok_def by (auto simp: Variables_Clear_def)
  show "va_next_temporary (Variables_Clear vs) \<le> va_next_temporary vs" using D(1) by (simp add: Variables_Clear_def)
qed

lemma variables_step_ok:
  assumes "store_ok refs vs" and "variables_step op vs = (given, vs')" and "va_next_temporary vs + 2 < PermanentVariableStartIndex"
  shows "store_ok (client_refs op given refs) vs' \<and> va_next_temporary vs' \<le> va_next_temporary vs + 3"
proof (cases op)
  case (InsertTemporary v)
  then show ?thesis using InsertVariable_ok [OF assms(1), of v False] assms(2,3) by (fastforce split: prod.splits)
next
  case (InsertPermanent v)
  then show ?thesis using InsertVariable_ok [OF assms(1), of v True] assms(2,3) by (fastforce split: prod.splits)
next
  case (OpenScopes dap_frame_id fresh)
  then show ?thesis using CreateScopes_ok [OF assms(1), of dap_frame_id fresh] assms(2,3) by (fastforce split: prod.splits)
next
  case ResumeProcess
  then show ?thesis using Variables_Clear_ok [OF assms(1)] assms(2,3) by auto
qed

lemma variables_run_ok:
  "store_ok refs vs \<Longrightarrow> variables_run ops refs vs = (refs', vs') \<Longrightarrow>
   va_next_temporary vs + 3 * int (length ops) \<le> PermanentVariableStartIndex \<Longrightarrow> store_ok refs' vs'"
proof (induction ops arbitrary: refs vs)
  case (Cons op ops)
  obtain given vs1 where s: "variables_step op vs = (given, vs1)" by fastforce
  have "store_ok (client_refs op given refs) vs1 \<and> va_next_temporary vs1 \<le> va_next_temporary vs + 3"
    by (rule variables_step_ok [OF Cons.prems(1) s]) (use Cons.prems(3) in simp)
  then show ?case using Cons.IH [of "client_refs op given refs" vs1] Cons.prems(2,3) s by simp
qed simp

text \<open>C11: Whatever is stored, opened and resumed, in any order, the references the client holds are positive and
  pairwise different, and each names exactly what it was handed out for: a value as a value and not as a scope, a
  scope of a frame as that scope and not as a value.\<close>

theorem variable_references_sound:
  assumes "variables_run ops [] new_Variables = (refs, vs)" and "3 * int (length ops) < PermanentVariableStartIndex"
  shows "distinct (map fst refs) \<and> (\<forall>(r, h) \<in> set refs. 0 < r \<and>
    (case h of
       HandedValue v \<Rightarrow> GetTopLevelScope vs r = None \<and> GetVariable vs r = Some v
     | HandedScope kind dap_frame_id \<Rightarrow>
         GetVariable vs r = None \<and> (\<exists>frame. GetTopLevelScope vs r = Some (kind, dap_frame_id, frame) \<and>
           Variables_GetScope vs dap_frame_id kind = Some (FrameScopes_GetScope frame kind))))"
proof -
  have "store_ok refs vs"
    by (rule variables_run_ok [OF new_Variables_ok assms(1)]) (use assms(2) in \<open>simp add: new_Variables_def\<close>)
  then show ?thesis
    by (fastforce simp: store_ok_def named_def GetTopLevelScope_def Variables_GetScope_def split: handed.split)
qed

definition no_type :: SBType where
  "no_type = \<lparr>ty_display_name = ''int'', ty_container = False, ty_pointer = False, ty_reference = False, ty_array = False,
     ty_aggregate = False, ty_pointee_function = False, ty_field_offsets = []\<rparr>"

definition sample_value :: "string \<Rightarrow> SBValue" where
  "sample_value n = SBValue
     \<lparr>vi_valid = True, vi_name = n, vi_type = no_type, vi_format = eFormatDefault, vi_error = None, vi_text = (\<lambda>_. ''1''),
      vi_summary = [], vi_location = [], vi_declaration = None, vi_might_have_children = False, vi_synthetic = False,
      vi_load_address = 0x20000000, vi_unsigned = 1, vi_as_address = 1, vi_address_has_line = False, vi_byte_size = 4,
      vi_path = n, vi_register_set = False, vi_full_description = [], vi_brief_description = []\<rparr> [] None None"

definition sample_frame :: FrameScopes where
  "sample_frame = \<lparr>fr_locals = [sample_value ''i''], fr_locals_error = None, fr_globals = [], fr_registers = []\<rparr>"

definition sample_ops :: "variables_op list" where
  "sample_ops = [OpenScopes 1 sample_frame, InsertPermanent (sample_value ''k''), ResumeProcess, OpenScopes 2 sample_frame]"

theorem variable_references_sound_witness:
  "\<exists>vs. variables_run sample_ops [] new_Variables = ([(2 ^ 32, HandedValue (sample_value ''k'')), (1, HandedScope eScopeKindLocals 2),
       (2, HandedScope eScopeKindGlobals 2), (3, HandedScope eScopeKindRegisters 2)], vs) \<and>
     GetVariable vs (2 ^ 32) = Some (sample_value ''k'') \<and> GetVariable vs 1 = None"
proof -
  obtain vs where run: "variables_run sample_ops [] new_Variables = ([(2 ^ 32, HandedValue (sample_value ''k'')),
      (1, HandedScope eScopeKindLocals 2), (2, HandedScope eScopeKindGlobals 2), (3, HandedScope eScopeKindRegisters 2)], vs)"
    by (simp add: sample_ops_def CreateScopes_def create_scope_def CreateScope_def InsertVariable_def GetNewVariableReference_def
        map_insert_def new_Variables_def Variables_Clear_def IsPermanentVariableReference_def)
  show ?thesis using variable_references_sound [OF run] run by (auto simp: sample_ops_def)
qed

end
