(* ===== verification/Stack_Trace.thy ===== *)
theory Stack_Trace
  imports Variables
begin

text \<open>
  Stack traces in \<open>core/components/data_manager\<close>: pages of the frames of a thread and of the backtraces that LLDB
  knows behind it.
\<close>

section \<open>Frames\<close>

text \<open>A frame: its description in the chosen format, if there is one and it works; how many instructions the symbol
  has before its address, if there is a symbol.\<close>

record SBFrame =
  fm_thread_index :: u32
  fm_id :: u32
  fm_formatted :: "string option"
  fm_function_name :: string
  fm_pc :: u64
  fm_optimized :: bool
  fm_line_entry :: line_entry
  fm_address_info :: address_info
  fm_symbol_instructions :: "nat option"
  fm_artificial_or_hidden :: bool
  fm_module_uuid :: "string option"

datatype StackFrameHint = ePresentationHintNone | ePresentationHintLabel | ePresentationHintSubtle

record StackFrame =
  sf_id :: u64
  sf_name :: string
  sf_source :: "Source option"
  sf_line :: u32
  sf_column :: u32
  sf_instructionPointerReference :: u64
  sf_moduleId :: "string option"
  sf_presentationHint :: StackFrameHint

definition frame_name :: "bool \<Rightarrow> SBFrame \<Rightarrow> string" where
  "frame_name format_set frame =
     (let n = (case if format_set then fm_formatted frame else None of Some s \<Rightarrow> s | None \<Rightarrow> fm_function_name frame);
          n = (if n = [] then GetLoadAddressString (fm_pc frame) else n)
      in if \<not> format_set \<and> fm_optimized frame then n @ '' [opt]'' else n)"

definition CreateStackFrame :: "source_env \<Rightarrow> bool \<Rightarrow> SBFrame \<Rightarrow> u64 list \<Rightarrow> StackFrame \<times> u64 list" where
  "CreateStackFrame env format_set frame refs =
     (let (source, refs) = ResolveSource_frame env (Some (fm_line_entry frame, fm_address_info frame)) refs;
          (line, column) =
            (if (case source of Some s \<Rightarrow> \<not> IsAssemblySource s | None \<Rightarrow> False)
             then (ln_line (fm_line_entry frame), ln_column (fm_line_entry frame))
             else (case fm_symbol_instructions frame of Some n \<Rightarrow> (word_of_nat (n + 1), 1) | None \<Rightarrow> (0, 0)))
      in (\<lparr>sf_id = MakeDAPFrameID (fm_thread_index frame) (fm_id frame), sf_name = frame_name format_set frame, sf_source = source,
           sf_line = line, sf_column = column, sf_instructionPointerReference = fm_pc frame,
           sf_moduleId = (case fm_module_uuid frame of Some [] \<Rightarrow> None | m \<Rightarrow> m),
           sf_presentationHint = (if fm_artificial_or_hidden frame then ePresentationHintSubtle else ePresentationHintNone)\<rparr>, refs))"

text \<open>A thread or the backtrace behind one, with the backtraces behind it, one for each type, where there is one.\<close>

datatype Backtrace = Backtrace (bk_id: tid) (bk_originating_index: u32) (bk_queue_name: string) (bk_formatted: "string option")
  (bk_frames: "SBFrame list") (bk_extended: "Backtrace option list")

definition CreateExtendedStackFrameLabel :: "bool \<Rightarrow> Backtrace \<Rightarrow> StackFrame" where
  "CreateExtendedStackFrameLabel format_set thread =
     \<lparr>sf_id = bk_id thread + 1,
      sf_name = (case if format_set then bk_formatted thread else None of
          Some s \<Rightarrow> s
        | None \<Rightarrow>
            if bk_queue_name thread \<noteq> []
            then ''Enqueued from '' @ bk_queue_name thread @ '' (Thread '' @ dec_string (unat (bk_originating_index thread)) @ '')''
            else ''Thread '' @ dec_string (unat (bk_originating_index thread))),
      sf_source = None, sf_line = 0, sf_column = 0, sf_instructionPointerReference = LLDB_INVALID_ADDRESS, sf_moduleId = None,
      sf_presentationHint = ePresentationHintLabel\<rparr>"

section \<open>Filling a page\<close>

text \<open>The answer is whether the end of the stack was reached.\<close>

fun fill_frames ::
  "source_env \<Rightarrow> bool \<Rightarrow> int \<Rightarrow> SBFrame list \<Rightarrow> StackFrame list \<Rightarrow> u64 list \<Rightarrow> bool \<times> StackFrame list \<times> u64 list" where
  "fill_frames env format_set levels [] stack_frames refs = (int (length stack_frames) < levels, stack_frames, refs)"
| "fill_frames env format_set levels (frame # frames) stack_frames refs =
     (if int (length stack_frames) < levels
      then (let (f, refs) = CreateStackFrame env format_set frame refs
            in fill_frames env format_set levels frames (stack_frames @ [f]) refs)
      else (False, stack_frames, refs))"

definition fill_thread ::
  "source_env \<Rightarrow> bool \<Rightarrow> int \<Rightarrow> Backtrace \<Rightarrow> int \<Rightarrow> StackFrame list \<Rightarrow> u64 list \<Rightarrow> bool \<times> StackFrame list \<times> u64 list" where
  "fill_thread env format_set levels thread start_frame stack_frames refs =
     (if start_frame = -1
      then (if int (length stack_frames) < levels
            then fill_frames env format_set levels (bk_frames thread)
                   (stack_frames @ [CreateExtendedStackFrameLabel format_set thread]) refs
            else (False, stack_frames, refs))
      else fill_frames env format_set levels (drop (nat start_frame) (bk_frames thread)) stack_frames refs)"

lemma size_extended [termination_simp]: "size_list (size_option size) (bk_extended b) < size b"
  by (cases b) simp

function FillStackFrames ::
  "source_env \<Rightarrow> bool \<Rightarrow> int \<Rightarrow> bool \<Rightarrow> Backtrace \<Rightarrow> int \<Rightarrow> StackFrame list \<Rightarrow> int \<Rightarrow> u64 list \<Rightarrow>
   bool \<times> StackFrame list \<times> int \<times> u64 list"
and fill_backtraces ::
  "source_env \<Rightarrow> bool \<Rightarrow> int \<Rightarrow> bool \<Rightarrow> Backtrace option list \<Rightarrow> int \<Rightarrow> bool \<Rightarrow> StackFrame list \<Rightarrow> int \<Rightarrow> u64 list \<Rightarrow>
   bool \<times> StackFrame list \<times> int \<times> u64 list" where
  "FillStackFrames env format_set levels include_all thread start_frame stack_frames offset refs =
     (let (reached, stack_frames, refs) = fill_thread env format_set levels thread start_frame stack_frames refs;
          offset = (if reached then offset + int (length (bk_frames thread)) + 1 else offset)
      in if include_all \<and> reached
         then fill_backtraces env format_set levels include_all (bk_extended thread) start_frame reached stack_frames offset refs
         else (reached, stack_frames, offset, refs))"
| "fill_backtraces env format_set levels include_all [] start_frame reached stack_frames offset refs =
     (reached, stack_frames, offset, refs)"
| "fill_backtraces env format_set levels include_all (None # backtraces) start_frame reached stack_frames offset refs =
     fill_backtraces env format_set levels include_all backtraces start_frame reached stack_frames offset refs"
| "fill_backtraces env format_set levels include_all (Some backtrace # backtraces) start_frame reached stack_frames offset refs =
     (let (reached, stack_frames, offset, refs) =
            FillStackFrames env format_set levels include_all backtrace
              (if start_frame - offset > 0 then start_frame - offset else -1) stack_frames offset refs
      in if int (length stack_frames) \<ge> levels then (reached, stack_frames, offset, refs)
         else fill_backtraces env format_set levels include_all backtraces start_frame reached stack_frames offset refs)"
  by pat_completeness auto

termination
  by (relation "measure (\<lambda>x. case x of
        Inl (_, _, _, _, b, _) \<Rightarrow> Suc (size b)
      | Inr (_, _, _, _, bs, _) \<Rightarrow> size_list (size_option size) bs)")
    (auto simp: size_extended less_Suc_eq_le intro: order.strict_implies_order)

section \<open>The request\<close>

record StackFrameFormat =
  ff_parameters :: bool
  ff_parameterNames :: bool
  ff_parameterValues :: bool
  ff_line :: bool
  ff_module :: bool
  ff_includeAll :: bool

definition requested_format :: "StackFrameFormat \<Rightarrow> string option" where
  "requested_format f =
     (if ff_module f \<or> ff_line f \<or> ff_parameters f \<or> ff_parameterNames f \<or> ff_parameterValues f
      then Some ((if ff_module f then ''{${module.file.basename} }'' else []) @
        (if ff_line f then ''{${line.file.basename}:${line.number}:${line.column} }'' else []) @
        (if ff_parameters f \<or> ff_parameterNames f \<or> ff_parameterValues f then ''{${function.name-with-args}}''
         else ''{${function.name-without-args}}''))
      else None)"

definition kStackPageSize :: nat where "kStackPageSize = 20"

text \<open>The thread with its frames as LLDB describes them in a format, that of the manager when none is requested, the
  error of a format that cannot be read, and whether the manager has a format, are parameters.\<close>

record stack_env =
  ek_thread :: "string option \<Rightarrow> tid \<Rightarrow> Backtrace option"
  ek_format_error :: "string \<Rightarrow> string option"
  ek_own_format :: bool
  ek_sources :: source_env

definition GetStackTraceRequest ::
  "stack_env \<Rightarrow> bool \<Rightarrow> tid \<Rightarrow> u32 \<Rightarrow> u32 \<Rightarrow> StackFrameFormat option \<Rightarrow> u64 list \<Rightarrow> (dap_error + StackFrame list \<times> nat) \<times> u64 list" where
  "GetStackTraceRequest env displayExtendedBacktrace threadId startFrame levels format refs =
     (let requested = (case format of None \<Rightarrow> None | Some f \<Rightarrow> requested_format f) in
      case ek_thread env requested threadId of
        None \<Rightarrow> (Inl (DAPError ''invalid thread''), refs)
      | Some thread \<Rightarrow>
          (let include_all = (case format of None \<Rightarrow> displayExtendedBacktrace | Some f \<Rightarrow> ff_includeAll f) in
           case (case requested of None \<Rightarrow> None | Some s \<Rightarrow> ek_format_error env s) of
             Some e \<Rightarrow> (Inl (DAPError e), refs)
           | None \<Rightarrow>
               (let (reached, stack_frames, offset, refs) =
                      FillStackFrames (ek_sources env) (requested \<noteq> None \<or> ek_own_format env)
                        (if levels = 0 then 2 ^ 63 - 1 else uint levels) include_all thread (uint startFrame) [] 0 refs
                in (Inr (stack_frames, unat startFrame + length stack_frames + (if reached then 0 else kStackPageSize)), refs))))"

section \<open>Pages\<close>

text \<open>The frames of a list in order, and what is left of the room for them.\<close>

fun create_frames :: "source_env \<Rightarrow> bool \<Rightarrow> SBFrame list \<Rightarrow> u64 list \<Rightarrow> StackFrame list \<times> u64 list" where
  "create_frames env format_set [] refs = ([], refs)"
| "create_frames env format_set (frame # frames) refs =
     (let (f, refs) = CreateStackFrame env format_set frame refs; (fs, refs) = create_frames env format_set frames refs
      in (f # fs, refs))"

lemma create_frames_append:
  "create_frames env format_set (xs @ ys) refs =
     (let (fs, refs) = create_frames env format_set xs refs; (gs, refs) = create_frames env format_set ys refs in (fs @ gs, refs))"
  by (induction xs arbitrary: refs) (auto simp: Let_def split: prod.splits)

lemma create_frames_length: "create_frames env format_set xs refs = (fs, refs') \<Longrightarrow> length fs = length xs"
  by (induction xs arbitrary: refs fs) (auto simp: Let_def split: prod.splits)

lemma fill_frames_window:
  "fill_frames env format_set levels frames stack_frames refs =
     (let room = nat (levels - int (length stack_frames));
          (fs, refs) = create_frames env format_set (take room frames) refs
      in (length frames < room, stack_frames @ fs, refs))"
proof (induction frames arbitrary: stack_frames refs)
  case (Cons frame frames)
  let ?room = "nat (levels - int (length stack_frames))"
  show ?case
  proof (cases "int (length stack_frames) < levels")
    case True
    obtain f refs1 where f: "CreateStackFrame env format_set frame refs = (f, refs1)" by fastforce
    have r: "?room = Suc (nat (levels - int (length (stack_frames @ [f]))))" using True by simp
    obtain fs refs2 where c: "create_frames env format_set (take (nat (levels - int (length (stack_frames @ [f])))) frames) refs1 = (fs, refs2)"
      by fastforce
    show ?thesis using True f c Cons.IH [of "stack_frames @ [f]" refs1] by (simp add: r Let_def)
  qed (simp add: Let_def)
qed (auto simp: Let_def)

lemma stack_trace_window:
  assumes "ek_thread env None threadId = Some thread" and "levels \<noteq> 0"
  shows "GetStackTraceRequest env False threadId start levels None refs =
    (let (fs, refs') = create_frames (ek_sources env) (ek_own_format env) (take (unat levels) (drop (unat start) (bk_frames thread))) refs
     in (Inr (fs, unat start + length fs + (if length (bk_frames thread) - unat start < unat levels then 0 else kStackPageSize)), refs'))"
proof -
  have "uint start \<noteq> -1" using uint_ge_0 [of start] by linarith
  then show ?thesis using assms
    by (simp add: GetStackTraceRequest_def fill_thread_def fill_frames_window Let_def split_beta nat_uint_eq)
qed


definition sample_stack_frame :: "u32 \<Rightarrow> SBFrame" where
  "sample_stack_frame i =
     \<lparr>fm_thread_index = 1, fm_id = i, fm_formatted = None, fm_function_name = ''f'', fm_pc = 0x8000, fm_optimized = False,
      fm_line_entry = \<lparr>ln_file = None, ln_line = 0, ln_column = 0\<rparr>,
      fm_address_info = \<lparr>ai_symbol = None, ai_load_address = 0x8000, ai_module_file = None\<rparr>, fm_symbol_instructions = None,
      fm_artificial_or_hidden = False, fm_module_uuid = None\<rparr>"

definition sample_stack :: stack_env where
  "sample_stack =
     \<lparr>ek_thread = (\<lambda>_ _. Some (Backtrace 1 0 [] None [sample_stack_frame 0, sample_stack_frame 1, sample_stack_frame 2] [])),
      ek_format_error = (\<lambda>_. None), ek_own_format = False,
      ek_sources = \<lparr>se_exists = (\<lambda>_. True), se_setting = [], se_resolve = (\<lambda>_. None)\<rparr>\<rparr>"


text \<open>With them, a page that begins with the first frame of a backtrace begins with its label instead, as the page
  before it does.\<close>

lemma backtrace_page_repeats_label:
  assumes "bk_extended thread = Some backtrace # backtraces" and "n = int (length (bk_frames thread))"
  shows "FillStackFrames env format_set 1 True thread n [] 0 refs =
      (False, [CreateExtendedStackFrameLabel format_set backtrace], n + 1, refs)"
    "FillStackFrames env format_set 1 True thread (n + 1) [] 0 refs =
      (False, [CreateExtendedStackFrameLabel format_set backtrace], n + 1, refs)"
  using assms by (simp_all add: fill_thread_def fill_frames_window Let_def)

end
