(* ===== verification/Data_Manager.thy ===== *)
theory Data_Manager
  imports Stack_Trace
begin

text \<open>
  The requests of \<open>core/components/data_manager\<close> about scopes, variables, expressions, completions and locations.
\<close>

unbundle bit_operations_syntax

section \<open>Locations\<close>

definition PackLocation :: "s64 \<Rightarrow> bool \<Rightarrow> s64" where
  "PackLocation var_ref is_value_location = push_bit 1 var_ref OR (if is_value_location then 1 else 0)"

definition UnpackLocation :: "s64 \<Rightarrow> s64 \<times> bool" where
  "UnpackLocation location_id = (signed_drop_bit 1 location_id, bit location_id 0)"

text \<open>A location reads back for references that 62 bits hold.\<close>

lemma UnpackLocation_PackLocation:
  assumes "r < 2 ^ 62"
  shows "UnpackLocation (PackLocation r b) = (r, b)"
proof -
  have "unat (take_bit 62 r) = unat r" using assms by (simp add: unsigned_take_bit_eq take_bit_nat_eq_self_iff word_less_nat_alt)
  then have "take_bit 62 r = r" by (simp only: word_unat_eq_iff)
  then have small: "bit r i \<Longrightarrow> i < 62" for i by (metis bit_take_bit_iff)
  have p: "bit (PackLocation r b) m \<longleftrightarrow> m < 64 \<and> (m = 0 \<and> b \<or> 1 \<le> m \<and> bit r (m - 1))" for m
    unfolding PackLocation_def bit_or_iff bit_push_bit_iff by (cases b; cases "m = 0") (auto simp: bit_1_iff)
  have "signed_drop_bit 1 (PackLocation r b) = r"
  proof (rule bit_word_eqI)
    fix i assume i: "i < LENGTH(64)"
    show "bit (signed_drop_bit 1 (PackLocation r b)) i = bit r i"
      using i small [of i] small [of 62] by (auto simp: bit_signed_drop_bit_iff p)
  qed
  moreover have "bit (PackLocation r b) 0 = b" by (simp add: p)
  ultimately show ?thesis by (simp add: UnpackLocation_def)
qed

section \<open>Variables as the client sees them\<close>

record Variable =
  var_name :: string
  var_value :: string
  var_type :: string
  var_evaluateName :: string
  var_variablesReference :: int
  var_indexedVariables :: nat
  var_declarationLocationReference :: s64
  var_valueLocationReference :: s64
  var_memoryReference :: u64
  var_byteSize :: "u64 option"
  var_readOnly :: bool

definition EncodeMemoryReference :: "u64 \<Rightarrow> string" where
  "EncodeMemoryReference addr = ''0x'' @ utohexstr_nat (unat addr)"

definition indexed_variables :: "bool \<Rightarrow> SBValue \<Rightarrow> nat" where
  "indexed_variables synthetic_child_debugging v =
     (if ty_array (vi_type (val_info v)) then length (val_children v)
      else if vi_synthetic (val_info v)
      then (case val_children v of
              [] \<Rightarrow> 0
            | c # _ \<Rightarrow> if vi_name (val_info c) = ''[0]''
                then length (val_children v) + (if synthetic_child_debugging then 1 else 0) else 0)
      else 0)"

definition address_suffix :: "SBValue \<Rightarrow> u64 option \<Rightarrow> string" where
  "address_suffix v field_offset =
     (case field_offset of None \<Rightarrow> [] | Some n \<Rightarrow> '' (+0x'' @ lower_hex (unat n) @ '')'') @
     (let addr = GetRealLoadAddress v in
      if addr \<noteq> LLDB_INVALID_ADDRESS \<and> \<not> is_pointer v then '' @ '' @ EncodeMemoryReference addr else [])"

text \<open>The time for a summary, as in the description of a value.\<close>

definition CreateVariable ::
  "(nat \<Rightarrow> bool) \<Rightarrow> SBValue \<Rightarrow> int \<Rightarrow> bool \<Rightarrow> bool \<Rightarrow> bool \<Rightarrow> bool \<Rightarrow> string option \<Rightarrow> u64 option \<Rightarrow> Variable" where
  "CreateVariable late v var_ref format_hex auto_variable_summaries synthetic_child_debugging is_name_duplicated custom_name field_offset =
     (let d = make_VariableDescription late v auto_variable_summaries format_hex is_name_duplicated custom_name;
          i = val_info v; addr = GetRealLoadAddress v
      in \<lparr>var_name = vd_name d, var_value = vd_display_value d @ address_suffix v field_offset, var_type = vd_display_type_name d,
          var_evaluateName = vd_evaluate_name d,
          var_variablesReference = (if vi_might_have_children i then var_ref else 0),
          var_indexedVariables = indexed_variables synthetic_child_debugging v,
          var_declarationLocationReference = (if vi_declaration i \<noteq> None then PackLocation (word_of_int var_ref) False else 0),
          var_valueLocationReference = (if ValuePointsToCode v then PackLocation (word_of_int var_ref) True else 0),
          var_memoryReference = addr,
          var_byteSize = (if addr \<noteq> LLDB_INVALID_ADDRESS then Some (vi_byte_size i) else None),
          var_readOnly = (ty_aggregate (vi_type i) \<or> vi_register_set i)\<rparr>)"

section \<open>Listing\<close>

definition rename :: "string \<Rightarrow> SBValue \<Rightarrow> SBValue" where
  "rename n v = SBValue ((val_info v)\<lparr>vi_name := n\<rparr>) (val_children v) (val_target v) (val_raw v)"

definition show_as_address :: "u64 \<Rightarrow> SBValue \<Rightarrow> SBValue" where
  "show_as_address addr_size reg =
     (let i = val_info reg in
      if (vi_format i = eFormatDefault \<or> vi_format i = eFormatHex) \<and> vi_byte_size i = addr_size
      then SBValue (i\<lparr>vi_format := eFormatAddressInfo\<rparr>) (val_children reg) (val_target reg) (val_raw reg) else reg)"

definition show_registers :: "u64 \<Rightarrow> FrameScopes \<Rightarrow> FrameScopes" where
  "show_registers addr_size frame =
     (case fr_registers frame of
        [] \<Rightarrow> frame
      | reg_set # rest \<Rightarrow>
          frame\<lparr>fr_registers := SBValue (val_info reg_set) (map (show_as_address addr_size) (val_children reg_set))
            (val_target reg_set) (val_raw reg_set) # rest\<rparr>)"

text \<open>The settings of a listing, the size of an address, and the value the function that was just left returned, if
  the selected frame is the innermost one.\<close>

record listing_env =
  le_late :: "nat \<Rightarrow> bool"
  le_hex :: bool
  le_auto_summaries :: bool
  le_synthetic :: bool
  le_address_size :: u64
  le_return_value :: "SBValue option"

definition name_count :: "SBValue list \<Rightarrow> SBValue \<Rightarrow> nat" where
  "name_count vs v = length (filter (\<lambda>w. GetNonNullVariableName w = GetNonNullVariableName v) vs)"

fun list_values :: "listing_env \<Rightarrow> (SBValue \<Rightarrow> bool) \<Rightarrow> SBValue list \<Rightarrow> Variables \<Rightarrow> Variable list \<times> Variables" where
  "list_values env duplicated [] store = ([], store)"
| "list_values env duplicated (v # vs) store =
     (let (r, store) = InsertVariable v False store;
          shown = CreateVariable (le_late env) v r (le_hex env) (le_auto_summaries env) (le_synthetic env) (duplicated v) None None;
          (rest, store) = list_values env duplicated vs store
      in (shown # rest, store))"

definition list_error :: "string \<Rightarrow> Variable" where
  "list_error e = \<lparr>var_name = ''<error>'', var_value = e, var_type = ''const char *'', var_evaluateName = [],
     var_variablesReference = 0, var_indexedVariables = 0, var_declarationLocationReference = 0, var_valueLocationReference = 0,
     var_memoryReference = LLDB_INVALID_ADDRESS, var_byteSize = None, var_readOnly = False\<rparr>"

definition list_return_value :: "listing_env \<Rightarrow> Variables \<Rightarrow> Variable list \<times> Variables" where
  "list_return_value env store =
     (case le_return_value env of
        None \<Rightarrow> ([], store)
      | Some v \<Rightarrow>
          (let (r, store) = (if vi_might_have_children (val_info v) \<or> vi_synthetic (val_info v) then InsertVariable v False store else (0, store))
           in ([CreateVariable (le_late env) (rename ''(Return Value)'' v) r (le_hex env) (le_auto_summaries env) (le_synthetic env)
                  False None None], store)))"

definition list_scope :: "listing_env \<Rightarrow> nat \<Rightarrow> ScopeKind \<Rightarrow> u64 \<Rightarrow> FrameScopes \<Rightarrow> Variables \<Rightarrow> Variable list \<times> Variables" where
  "list_scope env how_many kind dap_frame_id frame store =
     (let frame = (if kind = eScopeKindRegisters then show_registers (le_address_size env) frame else frame);
          store = store\<lparr>va_frames := (va_frames store)(dap_frame_id \<mapsto> frame)\<rparr>;
          in_scope = FrameScopes_GetScope frame kind;
          errors = (if in_scope = [] \<and> kind = eScopeKindLocals
                    then (case fr_locals_error frame of None \<Rightarrow> [] | Some e \<Rightarrow> [list_error e]) else []);
          shown = takeWhile (\<lambda>v. vi_valid (val_info v)) (if how_many = 0 then in_scope else take how_many in_scope);
          (returned, store) = (if kind = eScopeKindLocals then list_return_value env store else ([], store));
          (listed, store) = list_values env (\<lambda>v. name_count shown v > 1) shown store
      in (errors @ returned @ listed, store))"

fun list_children ::
  "listing_env \<Rightarrow> bool \<Rightarrow> (SBValue \<times> string option \<times> u64 option) list \<Rightarrow> Variables \<Rightarrow> Variable list \<times> Variables" where
  "list_children env is_permanent [] store = ([], store)"
| "list_children env is_permanent ((child, custom_name, field_offset) # rest) store =
     (if \<not> vi_valid (val_info child) then list_children env is_permanent rest store
      else
        (let (r, store) = InsertVariable child is_permanent store;
             shown = CreateVariable (le_late env) child r (le_hex env) (le_auto_summaries env) (le_synthetic env) False custom_name field_offset;
             (others, store) = list_children env is_permanent rest store
         in (shown # others, store)))"

definition field_offset_at :: "SBValue \<Rightarrow> nat \<Rightarrow> u64 option" where
  "field_offset_at v i =
     (let offsets = ty_field_offsets (vi_type (val_info v)) in if i < length offsets then Some (offsets ! i) else None)"

definition children_of :: "bool \<Rightarrow> nat \<Rightarrow> nat \<Rightarrow> SBValue \<Rightarrow> (SBValue \<times> string option \<times> u64 option) list" where
  "children_of synthetic_child_debugging start how_many v =
     (let num_children = length (val_children v);
          end_idx = start + (if how_many = 0 then num_children else how_many);
          shown = [start ..< min end_idx num_children];
          stopped_at = max start (min end_idx num_children)
      in map (\<lambda>i. (val_children v ! i, None, field_offset_at v i)) shown @
         (if synthetic_child_debugging \<and> vi_synthetic (val_info v) \<and> stopped_at = num_children
          then (case val_raw v of None \<Rightarrow> [] | Some raw \<Rightarrow> [(raw, Some ''[raw]'', None)]) else []))"

definition GetVariablesRequest :: "listing_env \<Rightarrow> int \<Rightarrow> nat \<Rightarrow> nat \<Rightarrow> Variables \<Rightarrow> Variable list \<times> Variables" where
  "GetVariablesRequest env var_ref start how_many store =
     (case GetTopLevelScope store var_ref of
        Some (kind, dap_frame_id, frame) \<Rightarrow> list_scope env how_many kind dap_frame_id frame store
      | None \<Rightarrow>
          (case GetVariable store var_ref of
             None \<Rightarrow> ([], store)
           | Some v \<Rightarrow>
               if \<not> vi_valid (val_info v) then ([], store)
               else list_children env (IsPermanentVariableReference var_ref) (children_of (le_synthetic env) start how_many v) store))"

section \<open>A name that was shown is found\<close>

lemma find_only:
  assumes "\<And>x. x \<in> set xs \<Longrightarrow> p x \<Longrightarrow> x = y" and "y \<in> set xs" "p y"
  shows "List.find p xs = Some y"
proof -
  have "List.find p xs \<noteq> None" using assms(2,3) by (auto simp: find_None_iff)
  then obtain z where z: "List.find p xs = Some z" by blast
  then have "z \<in> set xs" "p z" by (auto simp: find_Some_iff)
  then show ?thesis using z assms(1) by simp
qed

lemma shown_name: "var_name (CreateVariable late v r hex auto synth dup None offset) = CreateUniqueVariableNameForDisplay v dup"
  by (simp add: CreateVariable_def make_VariableDescription_def Let_def split: option.split prod.split)

lemma InsertVariable_scopes:
  "InsertVariable v p store = (r, store') \<Longrightarrow> va_scope_kinds store' = va_scope_kinds store \<and> va_frames store' = va_frames store"
  by (auto simp: InsertVariable_def GetNewVariableReference_def split: if_splits)

lemma list_values_names:
  "list_values env dup vs store = (listed, store') \<Longrightarrow>
   length listed = length vs \<and> (\<forall>i < length vs. var_name (listed ! i) = CreateUniqueVariableNameForDisplay (vs ! i) (dup (vs ! i))) \<and>
   va_scope_kinds store' = va_scope_kinds store \<and> va_frames store' = va_frames store"
proof (induction vs arbitrary: store listed store')
  case (Cons v vs)
  obtain r store1 where i: "InsertVariable v False store = (r, store1)" by fastforce
  obtain rest store2 where l: "list_values env dup vs store1 = (rest, store2)" by fastforce
  have "listed = CreateVariable (le_late env) v r (le_hex env) (le_auto_summaries env) (le_synthetic env) (dup v) None None # rest"
    "store' = store2" using Cons.prems i l by (simp_all add: Let_def)
  then show ?case using Cons.IH [OF l] InsertVariable_scopes [OF i]
    by (simp add: shown_name nth_Cons split: nat.split)
qed simp

lemma list_return_value_scopes:
  "list_return_value env store = (returned, store') \<Longrightarrow> va_scope_kinds store' = va_scope_kinds store \<and> va_frames store' = va_frames store"
  by (auto simp: list_return_value_def split: option.splits if_splits prod.splits dest: InsertVariable_scopes)


definition located :: "string \<Rightarrow> string \<Rightarrow> SBValue" where
  "located n l = SBValue ((val_info (sample_value n))\<lparr>vi_location := l\<rparr>) [] None None"

definition sample_locals :: "SBValue list" where
  "sample_locals = [located ''i'' ''0x10'', located ''i'' ''0x14'', located ''k'' ''0x18'']"

definition sample_scope :: FrameScopes where
  "sample_scope = \<lparr>fr_locals = sample_locals, fr_locals_error = None, fr_globals = [], fr_registers = []\<rparr>"

definition sample_listing :: listing_env where
  "sample_listing = \<lparr>le_late = (\<lambda>_. False), le_hex = False, le_auto_summaries = False, le_synthetic = False, le_address_size = 4,
     le_return_value = Some (sample_value ''f'')\<rparr>"

lemma sample_names:
  "map GetNonNullVariableName sample_locals = [''i'', ''i'', ''k'']"
  "map (\<lambda>v. CreateUniqueVariableNameForDisplay v True) sample_locals = [''i @ 0x10'', ''i @ 0x14'', ''k @ 0x18'']"
  "map (name_count sample_locals) sample_locals = [2, 2, 1]"
  by (simp_all add: sample_locals_def located_def sample_value_def name_count_def GetNonNullVariableName_def
      CreateUniqueVariableNameForDisplay_def)

lemma sample_marks: "contains_at ''i @ 0x10''" "contains_at ''i @ 0x14''" "\<not> contains_at ''i''" "\<not> contains_at ''k''"
  by code_simp+

definition sample_children :: child_env where
  "sample_children = \<lparr>ce_member = (\<lambda>_ _. None), ce_consume_integer = (\<lambda>_. None)\<rparr>"


end
