(* ===== verification/Data_Requests.thy ===== *)
theory Data_Requests
  imports Data_Manager
begin

text \<open>
  The other requests of \<open>core/components/data_manager\<close>: setting a variable, evaluating an expression or running it as a
  command, completions, and where a variable is declared or what code it points to.
\<close>

section \<open>The state\<close>

datatype ReplMode = ReplVariable | ReplCommand | ReplAuto

record DataManager =
  dm_variables :: Variables
  dm_repl_mode :: ReplMode
  dm_last_nonempty_var_expression :: string

section \<open>Expression or command\<close>

definition getToken :: "string \<Rightarrow> string \<times> string" where
  "getToken s = (let s = dropWhile is_space s in (takeWhile (\<lambda>c. \<not> is_space c) s, dropWhile (\<lambda>c. \<not> is_space c) s))"

definition ambiguous_warning :: "string \<Rightarrow> string \<Rightarrow> string" where
  "ambiguous_warning first escape_prefix =
     ''warning: Expression '' @ [CHR 0x27] @ first @ [CHR 0x27] @ '' is both an LLDB command and variable. It will be evaluated as a variable. '' @
     ''To evaluate the expression as an LLDB command, use '' @ [CHR 0x27] @ escape_prefix @ [CHR 0x27] @ '' as a prefix.'' @ [CHR 0x0A]"

text \<open>Whether a word is a command and whether the frame has a variable of that name are LLDB's.  The mode comes with the
  expression, without the prefix if it had it.\<close>

definition DetectReplMode ::
  "(string \<Rightarrow> bool) \<Rightarrow> (string \<Rightarrow> bool) \<Rightarrow> ReplMode \<Rightarrow> string \<Rightarrow> bool \<Rightarrow> 'w DebugContext \<Rightarrow> ReplMode \<times> string \<times> 'w DebugContext" where
  "DetectReplMode is_command is_variable repl_mode expression partial_expression dc =
     (let escape_prefix = dc_command_escape_prefix dc in
      if starts_with expression escape_prefix then (ReplCommand, drop (length escape_prefix) expression, dc)
      else if repl_mode \<noteq> ReplAuto then (repl_mode, expression, dc)
      else
        (let (first, remaining) = getToken expression in
         if partial_expression \<and> remaining = [] then (ReplAuto, expression, dc)
         else
           (let dc = (if \<not> partial_expression \<and> is_command first \<and> is_variable first
                      then DebugContext_SendOutput Console (ambiguous_warning first escape_prefix) dc else dc)
            in (if is_variable first then ReplVariable else if is_command first then ReplCommand else ReplVariable, expression, dc))))"

section \<open>Setting a variable\<close>

record SetVariableResponseBody =
  sb_value :: string
  sb_type :: string
  sb_variablesReference :: int
  sb_namedVariables :: nat
  sb_indexedVariables :: nat
  sb_memoryReference :: u64
  sb_valueLocationReference :: s64

text \<open>The values are seen as they were when they were read; setting one answers the value as it is then, or what went
  wrong.\<close>

definition SetVariableRequest ::
  "'w debug_api \<Rightarrow> child_env \<Rightarrow> (SBValue \<Rightarrow> string \<Rightarrow> string + SBValue) \<Rightarrow> (nat \<Rightarrow> bool) \<Rightarrow> int \<Rightarrow> string \<Rightarrow> string \<Rightarrow>
   DataManager \<times> 'w DebugContext \<Rightarrow> (dap_error + SetVariableResponseBody) \<times> DataManager \<times> 'w DebugContext" where
  "SetVariableRequest api children set_value late var_ref name new_text s =
     (let (dm, dc) = s in
      if var_ref = 2 ^ 64 - 1 then (Inl (DAPError (''invalid reference '' @ dec_string (nat var_ref))), s)
      else if name = ''(Return Value)'' then (Inl (DAPError ''cannot change the value of the return value''), s)
      else
        (case FindVariable children (dm_variables dm) var_ref name of
           None \<Rightarrow> (Inl (DAPError ''could not find variable in scope''), s)
         | Some v \<Rightarrow>
             (case set_value v new_text of
                Inl e \<Rightarrow> (Inl (DAPError e), s)
              | Inr v \<Rightarrow>
                  (let d = make_VariableDescription late v (cf_enableAutoVariableSummaries (dc_configuration dc)) False False None;
                       (r, store) = InsertVariable v False (dm_variables dm);
                       might = vi_might_have_children (val_info v); n = length (val_children v); is_array = ty_array (vi_type (val_info v));
                       body = \<lparr>sb_value = vd_display_value d, sb_type = vd_display_type_name d,
                               sb_variablesReference = (if might then r else 0),
                               sb_namedVariables = (if might \<and> \<not> is_array then n else 0),
                               sb_indexedVariables = (if might \<and> is_array then n else 0),
                               sb_memoryReference = GetRealLoadAddress v,
                               sb_valueLocationReference = (if ValuePointsToCode v then word_of_int r else 0)\<rparr>;
                       dc = SendInvalidatedEvent api [eAreaVariables] LLDB_INVALID_THREAD_ID dc;
                       dc = SendMemoryEvent api (GetRealLoadAddress v) (vi_byte_size (val_info v)) dc
                   in (Inr body, dm\<lparr>dm_variables := store\<rparr>, dc)))))"

section \<open>Evaluating\<close>

record EvaluateResponseBody =
  eb_result :: string
  eb_type :: string
  eb_variablesReference :: int
  eb_memoryReference :: string
  eb_valueLocationReference :: s64

definition new_EvaluateResponseBody :: EvaluateResponseBody where
  "new_EvaluateResponseBody = \<lparr>eb_result = [], eb_type = [], eb_variablesReference = 0, eb_memoryReference = [], eb_valueLocationReference = 0\<rparr>"

text \<open>The frame: the thread it belongs to, if it is valid, the value of a path of variables, and of an expression.\<close>

record frame_env =
  fe_thread :: "tid option"
  fe_path :: "string \<Rightarrow> SBValue"
  fe_evaluate :: "string \<Rightarrow> SBValue"
  fe_persist :: "SBValue \<Rightarrow> SBValue"
  fe_is_command :: "string \<Rightarrow> bool"
  fe_is_variable :: "string \<Rightarrow> bool"

definition run_expression :: "'w debug_api \<Rightarrow> frame_env \<Rightarrow> string \<Rightarrow> 'w DebugContext \<Rightarrow> string \<times> 'w DebugContext" where
  "run_expression api frame expression dc =
     (let dc = (case fe_thread frame of None \<Rightarrow> dc | Some t \<Rightarrow> dc\<lparr>dc_focus_tid := t\<rparr>);
          (_, out, w) = RunLLDBCommands (da_interpreter api) (da_prompt api (dc_world dc)) False False [] [expression] (dc_world dc)
      in (out, act (RanCommands [] [expression]) (dc\<lparr>dc_world := w\<rparr>)))"

definition failed :: "SBValue \<Rightarrow> bool" where
  "failed v \<longleftrightarrow> vi_error (val_info v) \<noteq> None"

definition evaluate_value :: "frame_env \<Rightarrow> EvaluateContext \<Rightarrow> string \<Rightarrow> SBValue \<times> SBValue" where
  "evaluate_value frame evaluate_context expression =
     (let path_value = fe_path frame expression;
          v = (if \<not> failed path_value \<and> evaluate_context = eEvaluateContextRepl then fe_persist frame path_value else path_value);
          v = (if failed v \<and> evaluate_context \<noteq> eEvaluateContextHover then fe_evaluate frame expression else v)
      in (v, if \<not> failed path_value then path_value else v))"

definition evaluated_body ::
  "(nat \<Rightarrow> bool) \<Rightarrow> bool \<Rightarrow> bool \<Rightarrow> EvaluateContext \<Rightarrow> SBValue \<Rightarrow> SBValue \<Rightarrow> Variables \<Rightarrow> EvaluateResponseBody \<times> Variables" where
  "evaluated_body late auto_summaries hex evaluate_context v address_source store =
     (let d = make_VariableDescription late v auto_summaries hex False None;
          (r, store) = (if vi_might_have_children (val_info v) \<or> ValuePointsToCode v
                        then InsertVariable v (evaluate_context = eEvaluateContextRepl) store else (0, store));
          addr = GetRealLoadAddress address_source;
          memory_reference = (if addr \<noteq> LLDB_INVALID_ADDRESS then EncodeMemoryReference addr else [])
      in (\<lparr>eb_result = GetResult d v evaluate_context @
             (if evaluate_context = eEvaluateContextHover \<and> addr \<noteq> LLDB_INVALID_ADDRESS \<and> \<not> is_pointer address_source
              then '' @ '' @ memory_reference else []),
           eb_type = vd_display_type_name d, eb_variablesReference = r, eb_memoryReference = memory_reference,
           eb_valueLocationReference = (if ValuePointsToCode v \<and> r \<noteq> 2 ^ 63 - 1 then PackLocation (word_of_int r) True else 0)\<rparr>, store))"

definition GetEvaluateRequest ::
  "'w debug_api \<Rightarrow> frame_env \<Rightarrow> (nat \<Rightarrow> bool) \<Rightarrow> bool \<Rightarrow> EvaluateContext \<Rightarrow> string \<Rightarrow> DataManager \<times> 'w DebugContext \<Rightarrow>
   (dap_error + EvaluateResponseBody) \<times> DataManager \<times> 'w DebugContext" where
  "GetEvaluateRequest api frame late hex evaluate_context expression s =
     (let (dm, dc) = s;
          repl = (evaluate_context = eEvaluateContextRepl);
          repeat_last_command = (expression = [] \<and> dm_last_nonempty_var_expression dm = []);
          (mode, expression, dc) =
            (if repl \<and> \<not> repeat_last_command \<and> expression \<noteq> []
             then DetectReplMode (fe_is_command frame) (fe_is_variable frame) (dm_repl_mode dm) expression False dc
             else (ReplVariable, expression, dc))
      in if repl \<and> (repeat_last_command \<or> mode = ReplCommand) then
           (let (out, dc) = run_expression api frame expression dc
            in (Inr (new_EvaluateResponseBody\<lparr>eb_result := out\<rparr>), dm\<lparr>dm_last_nonempty_var_expression := []\<rparr>, dc))
         else
           (let expression = (if repl \<and> expression = [] then dm_last_nonempty_var_expression dm else expression);
                dm = (if repl then dm\<lparr>dm_last_nonempty_var_expression := expression\<rparr> else dm);
                (v, address_source) = evaluate_value frame evaluate_context expression
            in case vi_error (val_info v) of
                 Some e \<Rightarrow> (Inl (DAPError e), dm, dc)
               | None \<Rightarrow>
                   (let (body, store) = evaluated_body late (cf_enableAutoVariableSummaries (dc_configuration dc)) hex evaluate_context v
                          address_source (dm_variables dm)
                    in (Inr body, dm\<lparr>dm_variables := store\<rparr>, dc))))"

section \<open>Completions\<close>

definition find_newline :: "string \<Rightarrow> nat \<Rightarrow> nat option" where
  "find_newline s pos =
     (let rest = drop pos s in
      if CHR 0x0A \<in> set rest then Some (pos + length (takeWhile (\<lambda>c. c \<noteq> CHR 0x0A) rest)) else None)"

fun line_start_loop :: "nat \<Rightarrow> string \<Rightarrow> nat \<Rightarrow> nat option" where
  "line_start_loop 0 s pos = Some pos"
| "line_start_loop (Suc lines) s pos =
     (case find_newline s pos of
        None \<Rightarrow> None
      | Some new_line_pos \<Rightarrow> if new_line_pos + 1 \<ge> length s then None else line_start_loop lines s (new_line_pos + 1))"

definition GetLineStartPos :: "string \<Rightarrow> u32 \<Rightarrow> nat option" where
  "GetLineStartPos s line = (if line = 0 then None else if line = 1 then Some 0 else line_start_loop (unat line - 1) s 0)"

text \<open>How many bytes a character has, by its first one, is LLVM's.\<close>

function utf16_loop :: "(char \<Rightarrow> nat) \<Rightarrow> nat \<Rightarrow> string \<Rightarrow> nat \<Rightarrow> nat \<Rightarrow> nat \<Rightarrow> nat option" where
  "utf16_loop num_bytes codeunits [] seen idx bytes_count = Some bytes_count"
| "utf16_loop num_bytes codeunits (c # rest) seen idx bytes_count =
     (if seen < codeunits then
        (let n = num_bytes c;
             seen = (if n = 4 then seen + 2 else seen + 1);
             idx = idx + n
         in if n > 4 then None
            else if seen \<le> codeunits then utf16_loop num_bytes codeunits (drop (n - 1) rest) seen idx idx
            else None)
      else Some bytes_count)"
  by pat_completeness auto
termination by (relation "measure (\<lambda>(_, _, s, _). length s)") auto

definition UTF16CodeunitToBytes :: "(char \<Rightarrow> nat) \<Rightarrow> string \<Rightarrow> u32 \<Rightarrow> nat option" where
  "UTF16CodeunitToBytes num_bytes line codeunits = utf16_loop num_bytes (unat codeunits) line 0 0 0"

definition GetCursorPos :: "(char \<Rightarrow> nat) \<Rightarrow> string \<Rightarrow> u32 \<Rightarrow> u32 \<Rightarrow> nat option" where
  "GetCursorPos num_bytes s line codeunits =
     (if s = [] then None
      else
        (case GetLineStartPos s line of
           None \<Rightarrow> None
         | Some start \<Rightarrow>
             (let completion_line = (case find_newline s start of None \<Rightarrow> drop start s | Some n \<Rightarrow> take n (drop start s)) in
              if completion_line = [] then None
              else map_option (\<lambda>cursor. start + cursor) (UTF16CodeunitToBytes num_bytes completion_line codeunits))))"

definition GetPartialTokenCodeUnits :: "(string \<Rightarrow> nat option) \<Rightarrow> string \<Rightarrow> nat \<Rightarrow> nat" where
  "GetPartialTokenCodeUnits to_utf16 line cursor_pos =
     (let byte_token = rev (takeWhile (\<lambda>c. c \<noteq> CHR '' '') (rev (take cursor_pos line)))
      in case to_utf16 byte_token of Some n \<Rightarrow> n | None \<Rightarrow> length byte_token)"

record CompletionItem =
  ci_label :: string
  ci_detail :: string
  ci_length :: nat

text \<open>What LLDB completes, a first entry that is no match and then matches with their descriptions, is a parameter.\<close>

record completion_env =
  cn_num_bytes :: "char \<Rightarrow> nat"
  cn_to_utf16 :: "string \<Rightarrow> nat option"
  cn_complete :: "string \<Rightarrow> nat \<Rightarrow> (string \<times> string) list"

definition completions_of :: "completion_env \<Rightarrow> nat \<Rightarrow> ReplMode \<Rightarrow> ReplMode \<times> string \<times> nat \<Rightarrow> CompletionItem list" where
  "completions_of env partial_token mode expr =
     (let (expr_mode, expr_line, expr_cursor) = expr in
      if mode \<noteq> ReplAuto \<and> mode \<noteq> expr_mode then []
      else map (\<lambda>(m, d). \<lparr>ci_label = m, ci_detail = d, ci_length = partial_token\<rparr>) (tl (cn_complete env expr_line expr_cursor)))"

definition GetCompletionsRequest ::
  "completion_env \<Rightarrow> (string \<Rightarrow> bool) \<Rightarrow> (string \<Rightarrow> bool) \<Rightarrow> ReplMode \<Rightarrow> string \<Rightarrow> u32 \<Rightarrow> u32 \<Rightarrow> 'w DebugContext \<Rightarrow>
   CompletionItem list \<times> 'w DebugContext" where
  "GetCompletionsRequest env is_command is_variable repl_mode s line column dc =
     (case GetCursorPos (cn_num_bytes env) s line (column - 1) of
        None \<Rightarrow> ([], dc)
      | Some cursor_pos \<Rightarrow>
          (let escape_prefix = cf_commandEscapePrefix (dc_configuration dc);
               had_escape_prefix = starts_with s escape_prefix;
               (mode, s, dc) = DetectReplMode is_command is_variable repl_mode s True dc
           in if had_escape_prefix \<and> cursor_pos < length escape_prefix then ([], dc)
              else
                (let cursor_pos = (if had_escape_prefix then cursor_pos - length escape_prefix else cursor_pos);
                     partial_token = GetPartialTokenCodeUnits (cn_to_utf16 env) s cursor_pos;
                     expr_prefix = ''expression -- ''
                 in (concat (map (completions_of env partial_token mode)
                       [(ReplCommand, s, cursor_pos), (ReplVariable, expr_prefix @ s, cursor_pos + length expr_prefix)]), dc))))"

section \<open>Locations of variables\<close>

record LocationsResponseBody =
  lb_source :: Source
  lb_line :: u32
  lb_column :: u32

text \<open>The line entry of the code a value points to, with the blocks inlined there, is LLDB's.\<close>

definition GetLocationsRequest ::
  "(u64 \<Rightarrow> line_entry list \<times> line_entry option) \<Rightarrow> (string \<Rightarrow> string option) \<Rightarrow> s64 \<Rightarrow> Variables \<Rightarrow> dap_error + LocationsResponseBody" where
  "GetLocationsRequest line_entry_of resolve locationReference store =
     (let (var_ref, is_value_location) = UnpackLocation locationReference in
      case GetVariable store (sint var_ref) of
        None \<Rightarrow> Inl (DAPError ''Invalid variable reference'')
      | Some v \<Rightarrow>
          if is_value_location then
            (if \<not> is_pointer v \<and> \<not> ty_reference (vi_type (val_info v))
             then Inl (DAPError ''Value locations are only available for pointers and references'')
             else
               (let (inlined, entry) = line_entry_of (vi_as_address (val_info v)) in
                case entry of
                  None \<Rightarrow> Inl (DAPError ''Failed to resolve line entry for location'')
                | Some entry \<Rightarrow>
                    (let entry = GetLineEntryForAddress inlined entry in
                     case CreateSource resolve (ln_file entry) of
                       None \<Rightarrow> Inl (DAPError ''Failed to resolve file path for location'')
                     | Some source \<Rightarrow> Inr \<lparr>lb_source = source, lb_line = ln_line entry, lb_column = ln_column entry\<rparr>)))
          else
            (case vi_declaration (val_info v) of
               None \<Rightarrow> Inl (DAPError ''No declaration location available'')
             | Some (file, line, column) \<Rightarrow>
                 (case CreateSource resolve file of
                    None \<Rightarrow> Inl (DAPError ''Failed to resolve file path for location'')
                  | Some source \<Rightarrow> Inr \<lparr>lb_source = source, lb_line = line, lb_column = column\<rparr>)))"

section \<open>What the references say\<close>

text \<open>What is evaluated and points to code can be asked for: its location names the value itself.\<close>

lemma evaluated_value_located:
  assumes run: "evaluated_body late auto_summaries hex evaluate_context v address_source store = (body, store')"
    and code: "ValuePointsToCode v" and ok: "store_ok refs store"
    and room: "va_next_temporary store < 2 ^ 32" "va_next_permanent store < 2 ^ 62"
  shows "\<exists>r. UnpackLocation (eb_valueLocationReference body) = (word_of_int r, True) \<and> sint (word_of_int r :: s64) = r \<and>
    GetVariable store' r = Some v"
proof -
  let ?p = "evaluate_context = eEvaluateContextRepl"
  obtain r s where i: "InsertVariable v ?p store = (r, s)" by fastforce
  have named: "(r, HandedValue v) \<in> set (refs @ [(r, HandedValue v)])" by simp
  have "GetVariable s r = Some v" and pos: "0 < r"
    using store_okD(7) [OF InsertVariable_ok(1) [OF ok i room(1)] named] by (simp_all add: named_def)
  moreover have "r < 2 ^ 62" using i room by (auto simp: InsertVariable_def GetNewVariableReference_def split: if_splits)
  moreover have "eb_valueLocationReference body = PackLocation (word_of_int r) True" "store' = s"
    using run code i \<open>r < 2 ^ 62\<close> by (auto simp: evaluated_body_def Let_def)
  moreover have "(word_of_int r :: s64) < 2 ^ 62"
    using pos \<open>r < 2 ^ 62\<close> by (simp add: word_less_def uint_word_of_int take_bit_int_eq_self)
  moreover have "sint (word_of_int r :: s64) = r"
    using pos \<open>r < 2 ^ 62\<close> by (simp add: signed_of_int signed_take_bit_int_eq_self)
  ultimately show ?thesis using UnpackLocation_PackLocation [of "word_of_int r" True] by auto
qed

text \<open>The location of a variable that was set is the bare reference: it names another one.\<close>

lemma set_variable_location_misread:
  assumes "0 \<le> r" "r < 2 ^ 62"
  shows "UnpackLocation (word_of_int (2 * r)) = (word_of_int r, False)"
proof -
  have "(word_of_int r :: s64) < 2 ^ 62" using assms by (simp add: word_less_def uint_word_of_int take_bit_int_eq_self)
  moreover have "word_of_int (2 * r) = PackLocation (word_of_int r) False" by (simp add: PackLocation_def)
  ultimately show ?thesis using UnpackLocation_PackLocation [of "word_of_int r" False] by simp
qed

text \<open>On a line that is not the first, the cursor can be moved past the end of the line.\<close>

lemma cursor_past_line:
  "GetCursorPos (\<lambda>_. 1) (''ab'' @ [CHR 0x0A] @ ''cd'' @ [CHR 0x0A] @ ''ef'') 1 5 = Some 2"
  "GetCursorPos (\<lambda>_. 1) (''ab'' @ [CHR 0x0A] @ ''cd'' @ [CHR 0x0A] @ ''ef'') 2 5 = Some 8"
  by code_simp+

text \<open>An empty line repeats the last expression.\<close>

lemma empty_line_repeats:
  assumes "dm_last_nonempty_var_expression dm = expression" "expression \<noteq> []"
    and "DetectReplMode (fe_is_command frame) (fe_is_variable frame) (dm_repl_mode dm) expression False dc = (mode, expression, dc)"
    and "mode \<noteq> ReplCommand"
  shows "GetEvaluateRequest api frame late hex eEvaluateContextRepl [] (dm, dc) =
    GetEvaluateRequest api frame late hex eEvaluateContextRepl expression (dm, dc)"
  using assms by (simp add: GetEvaluateRequest_def Let_def)

end
