(* ===== verification/Spec2Isabelle.thy ===== *)
theory Spec2Isabelle
  imports Trace_Manager Orchestrator Progress_Event Device_Manager Watch_Manager Exception_Attribution
    Hal_Tim_Modes Hal_Tim_Irq Hal_Tim_Config Firmware Breakpoint_Session Breakpoint_Places Openocd_Lifecycle Launch_Order
    Disassembly_Manager Data_Requests
begin

text \<open>
  \<^bold>\<open>A verification of trailer-dap.\<close>  The program is a debug adapter for Cortex-M targets: a client
  speaks the debug adapter protocol over standard input and output; the engine drives LLDB and an
  embedded OpenOCD, reads peripherals through their SVD description, captures ETMv4 instruction
  trace and turns it into executed instructions, source lines and functions.  Validation firmware
  with the vendor's timer driver runs on the target.

  \<^bold>\<open>How the parts interact.\<close>  Bytes from the client become messages (\<open>Transport\<close>), messages become
  requests (\<open>Protocol_Base\<close>), a reader thread queues them and the dispatcher lets their handlers answer
  (\<open>Orchestrator\<close>); long operations report progress (\<open>Progress_Event\<close>).  Handlers call the core: what
  brings the target up and takes it down (\<open>Target_Manager\<close>), what runs, steps and stops the process
  (\<open>Execution_Controller\<close>), what is shown of it when it has stopped (\<open>Data_Manager\<close>, \<open>Data_Requests\<close>,
  \<open>Stack_Trace\<close>, \<open>Disassembly_Manager\<close>), its modules (\<open>Module_Manager\<close>), memory
  (\<open>Memory_Manager\<close>) and its watches (\<open>Watch_Manager\<close>), peripherals and theirs (\<open>Device_Manager\<close>, over the description of \<open>Svd\<close> and
  the pack of \<open>Device_Pack\<close>), trace (\<open>Trace_Manager\<close>), breakpoints (\<open>Breakpoint_Manager\<close>, whose breakpoints
  may carry a log message, \<open>Log_Message\<close>).  The components share a context and an event bus
  (\<open>Debug_Context\<close>), through which the client is told of stops, modules and the end of the session; a
  thread of its own handles LLDB's events beside the dispatcher (\<open>Debug_Session\<close>).  OpenOCD runs inside the process on a thread of its own
  (\<open>Openocd_Lifecycle\<close>); each operation the core asks for (\<open>Openocd_Provider\<close>) is a task of its queue
  (\<open>Command_Queue\<close>), run under a guard that turns OpenOCD's exits into error values (\<open>Openocd_Guard\<close>).  A capture goes from OpenOCD into the trace
  manager's queue, its worker hands it to the session (\<open>Trace_Session\<close>), which decodes it
  (\<open>Trace_Decoder\<close>) into the records a sink keeps (\<open>Trace_Sink\<close>) and projects these
  (\<open>Trace_Transform\<close>) over the instruction table of the program (\<open>Program_Disassembler\<close>); exception
  numbers get names in \<open>Exception_Attribution\<close>.

  \<^bold>\<open>Theories and sources.\<close>
  \<^item> \<open>Prelude\<close>: machine integers, decimal text, and the interfaces as locales: a projection that counts
    while it emits (\<open>counting_projection\<close>, interpreted for trace gaps and exception events), a
    first-in first-out queue (\<open>fifo\<close>, interpreted for the trace manager's chunks and the dispatcher's
    requests), the unstable library sort (\<open>std_sort\<close>).  More stand with their providers: what
    the projections need of an instruction table (\<open>instruction_resolver\<close>, interpreted for the loaded
    image), starting and stopping a timer channel (\<open>channel_ops\<close>, interpreted for nine modes) and
    bringing a table of breakpoints in line with a request (\<open>breakpoint_diff\<close>, interpreted for source,
    function and instruction breakpoints).
  \<^item> \<open>Trace_Model\<close>, \<open>Trace_Sink\<close>, \<open>Trace_Transform\<close>, \<open>Trace_Decoder\<close>, \<open>Trace_Session\<close>: the libraries of
    the same names under \<open>modules/providers/trace\<close>.
  \<^item> \<open>Program_Disassembler\<close>: \<open>modules/providers/disassembler\<close>.
  \<^item> \<open>Exception_Attribution\<close>: \<open>modules/providers/trace/trace_exception_attribution\<close>.
  \<^item> \<open>Svd\<close>, \<open>Device_Pack\<close>: \<open>modules/providers/device_provider\<close> (\<open>xml/src\<close> and \<open>src\<close>).
  \<^item> \<open>Memory_Manager\<close>, \<open>Watch_Manager\<close>, \<open>Device_Manager\<close>, \<open>Trace_Manager\<close>: \<open>modules/core/src/components\<close>.
  \<^item> \<open>Breakpoints\<close>, \<open>Log_Message\<close>: the breakpoint classes of \<open>modules/core/src/components\<close>;
    \<open>Breakpoint_Table\<close>, \<open>Breakpoint_Manager\<close>, \<open>Breakpoint_Session\<close>, \<open>Breakpoint_Places\<close>: the manager
    that keeps them (\<open>components/breakpoint_manager\<close>) and its requests.
  \<^item> \<open>Lldb_Utils\<close>, \<open>Debug_Context\<close>: \<open>modules/core/src/lldb_utils\<close>, \<open>debug_context\<close> and \<open>core/event_bus\<close>;
    \<open>Execution_Controller\<close>, \<open>Target_Manager\<close>, \<open>Module_Manager\<close>: the components of the same names.
    Properties over them: \<open>Stop_Report\<close> (what the client is told of a stop), \<open>Debug_Session\<close> and
    \<open>Session_Properties\<close> (both threads together), \<open>Launch_Order\<close> (the script of a launch).
  \<^item> \<open>Variable_Description\<close>: \<open>core/variable_description\<close>; \<open>Variables\<close>, \<open>Stack_Trace\<close>, \<open>Data_Manager\<close>,
    \<open>Data_Requests\<close>: \<open>components/data_manager\<close>, by its store, its stack traces, its listings and its other
    requests; \<open>Disassembly_Manager\<close>: \<open>components/disassembly_manager\<close>.
  \<^item> \<open>Openocd_Guard\<close>, \<open>Command_Queue\<close>, \<open>Openocd_Provider\<close>, \<open>Openocd_Lifecycle\<close>:
    \<open>modules/providers/openocd_provider\<close>.
  \<^item> \<open>Transport\<close>, \<open>Protocol_Base\<close>, \<open>Orchestrator\<close>, \<open>Progress_Event\<close>: \<open>modules/dap/src\<close> (\<open>transport.cc\<close>,
    \<open>protocol/protocol_base.cc\<close>, \<open>orchestrator.cc\<close> with \<open>handlers/request_handler\<close>, \<open>progress_event.cc\<close>).
  \<^item> \<open>Hal_Tim\<close>, \<open>Hal_Tim_Modes\<close>, \<open>Hal_Tim_Irq\<close>, \<open>Hal_Tim_Config\<close>: the timer driver
    \<open>validation/firmware/common/hal_extra\<close> (\<open>stm32h7rsxx_hal_tim.c\<close> and its header).
  \<^item> \<open>Firmware\<close>: \<open>validation/firmware\<close> (\<open>sysmem.c\<close> and the workloads' \<open>main.c\<close>).

  \<^bold>\<open>How state and operations correspond.\<close>  A class or struct is a record with the source's fields, an
  enumeration a datatype; a method is a definition of its name that takes and returns the record,
  with what it sends, emits or calls back as a list.  Errors are values: \<open>Inl\<close> or a status code for
  the code's own errors, \<open>None\<close> where the code would run into undefined behaviour, a failed assertion
  or an uncaught exception.  Components with threads have an inductive step relation with one rule
  per critical section (\<open>watch_step\<close>, \<open>wm_step\<close>, \<open>tm_step\<close>, \<open>work_step\<close> and \<open>dap_step\<close>, \<open>progress_step\<close>, \<open>queue_step\<close>,
  \<open>event_step\<close> and \<open>request_step\<close> joined in \<open>session_step\<close>) and
  history variables that the code does not have; their theorems hold for every interleaving.
  Libraries that are not part of the sources (LLVM and its JSON, LLDB, OpenOCD, OpenCSD, the XML
  parser, the operating system's descriptors) are parameters, and what is relied on is a named
  hypothesis with an instance that satisfies it.

  \<^bold>\<open>What the lemmas show.\<close>
  \<^item> Trace: the sink never indexes outside its records and keeps its anchors right; the projections
    lose and invent nothing and stamp gaps and exceptions with the right index; feeding a capture
    ends and delivers every byte; sections are decoded exactly where mapping symbols say code is, and
    the loaded table finds every instruction; a session's timeline is that of its captures put end to
    end; the manager's stream of increments is gapless within an arm.
  \<^item> Devices: registers read safely exactly when all their fields do; nested clusters flatten to paths;
    derived peripherals inherit; numbers and the device index read back what was written; coalesced
    reads give the values of single reads; watches number their frames without gaps and show the
    writes of their epoch; a memory watch that was stopped is silent.
  \<^item> Adapter: framed messages survive any splitting of reads and writes; messages survive their JSON
    form; requests are handled once, in order and to the end, and answered once; outgoing numbers
    have no gaps; progress is bracketed.
  \<^item> Breakpoints: a log message is cut into its outermost expressions and the text between them; after a
    request the target holds exactly the breakpoints of the request, and over a whole session every
    breakpoint in the target is one the tables know; the last data breakpoint at an address wins.
  \<^item> OpenOCD: an exit in any call becomes an error value; tasks run one at a time in the order they were
    posted and every woken task is run; creation brings all of OpenOCD up or takes all of it down;
    no callback is destroyed while a trace memory controller still holds it.
  \<^item> Debug session: a stop is reported once, with one thread in focus that stopped for a reason, and threads
    that are gone are reported as exited; however events and requests interleave, completed resets never
    outnumber started ones and the end is told once; a restart is the composition of its steps; a launch,
    whether it succeeds or fails, has made a first part of one fixed script of calls; a disconnect takes
    trace, watches and OpenOCD down in order whatever fails; a module is announced exactly when the client
    does not know it, and changes and removals are told only of modules it knows.
  \<^item> Data: the numbers the client holds are distinct and name what they were handed out for, until the
    process is resumed or, if permanent, for good; every variable that a scope lists is found by the name
    it was shown under; pages of a stack trace put together are the whole trace; a window of instructions
    has the length asked for and the reference address at its place.
  \<^item> Timer driver: one interrupt serves exactly the pending enabled flags; an enabled channel is marked
    busy; stop undoes start; refused calls change nothing; configuring a channel touches only it.
  \<^item> Firmware: the sort sorts; the heap stays in its region; the fault workload faults as described.
  \<^item> Behaviour that departs from its description is proved as well: a stale anchor after records are
    taken, a stale peripheral frame, a chunk decoded after a re-arm, a lost launch response, a channel
    left busy by a refused transfer, a breakpoint left behind by a path without code, exception filters
    that repeat, a task that runs after its client gave up; in the debug session a reset completed by an
    earlier stop and a program that ends when it is launched a second time; in the data a
    backtrace whose page repeats its label, the declaration shown for a variable that was set, a completion
    cursor past the end of its line, an expression for a pointer that denotes what it points to, and a
    window of instructions before the address that is lost.

  \<^bold>\<open>Bounds and fuel.\<close>  There is no fuel: loops are structural or have a measure.  Two loops of the
  sources can run forever (decoding with an instruction of size 0, feeding a decoder that accepts
  nothing); they are partial functions, and that they return is proved under the documented contract
  of the decoder.  Sizes are words of the source's width; where a theorem needs that a count does not
  wrap, it says so.

  \<^bold>\<open>Not modelled.\<close>  LLDB is a parameter throughout: threads, frames, modules and values are what it shows
  when it is asked, so that setting a variable does not change the values stored before it, and the formats
  of frames and threads are what a parameter makes of them.  Left out are the JSON of the message bodies and
  the bodies of the concrete request handlers, which hand their arguments to one operation of the core
  between the modelled check and the modelled response; the statistics of the end of a session; the
  generated XML bindings; the vendor's drivers other than the timer, and of that the DMA bursts and the
  builds with registered callbacks; board bring-up; the programs' command lines and the replay tool;
  operating system utilities and the Windows branches.
\<close>

end
